(* ===== verification/Prelude.thy ===== *)
theory Prelude
  imports Main "HOL-Library.AList" "HOL-Library.Multiset" "HOL-Library.Char_ord" "HOL-Library.List_Lexorder"
begin

text \<open>
  Shared ground of the development: the result type that stands for a Python call that
  may raise, its sequencing operators, and list facts the component theories use.

  A Python expression that can raise is a value of \<open>'e + 'a\<close>: \<open>Inl\<close> carries the
  exception, \<open>Inr\<close> the value. \<open>bindR\<close> is "evaluate, then go on", \<open>mapR\<close> a list
  comprehension whose element expression may raise, \<open>foldR\<close> a \<open>for\<close> loop whose body
  updates the loop's state and may raise. All three have congruence rules, so that
  recursive functions may call themselves under them.
\<close>

named_theorems result_simps \<open>how the sequencing operators produce a value or an exception\<close>

section \<open>Results\<close>

fun bindR :: "'e + 'a \<Rightarrow> ('a \<Rightarrow> 'e + 'b) \<Rightarrow> 'e + 'b" where
  "bindR (Inl e) f = Inl e"
| "bindR (Inr x) f = f x"

lemma bindR_cong [fundef_cong]:
  "m = m' \<Longrightarrow> (\<And>x. m' = Inr x \<Longrightarrow> f x = g x) \<Longrightarrow> bindR m f = bindR m' g"
  by (cases m') auto

lemma bindR_eq_Inr [result_simps]:
  "bindR m f = Inr y \<longleftrightarrow> (\<exists>x. m = Inr x \<and> f x = Inr y)"
  by (cases m) auto

lemma bindR_eq_Inl [result_simps]:
  "bindR m f = Inl e \<longleftrightarrow> m = Inl e \<or> (\<exists>x. m = Inr x \<and> f x = Inl e)"
  by (cases m) auto

lemma bindR_assoc: "bindR (bindR m f) g = bindR m (\<lambda>x. bindR (f x) g)"
  by (cases m) auto

lemma bindR_Inr_right [simp]: "bindR m Inr = m"
  by (cases m) auto

fun mapR :: "('a \<Rightarrow> 'e + 'b) \<Rightarrow> 'a list \<Rightarrow> 'e + 'b list" where
  "mapR f [] = Inr []"
| "mapR f (x # xs) = bindR (f x) (\<lambda>y. bindR (mapR f xs) (\<lambda>ys. Inr (y # ys)))"

lemma mapR_cong [fundef_cong]:
  "xs = ys \<Longrightarrow> (\<And>x. x \<in> set ys \<Longrightarrow> f x = g x) \<Longrightarrow> mapR f xs = mapR g ys"
proof (induction xs arbitrary: ys)
  case (Cons a xs)
  then show ?case by (cases "g a") auto
qed auto

lemma mapR_eq_Inr [result_simps]:
  "mapR f xs = Inr ys \<longleftrightarrow> list_all2 (\<lambda>x y. f x = Inr y) xs ys"
  by (induction xs arbitrary: ys) (auto simp: bindR_eq_Inr list_all2_Cons1)

lemma mapR_Inr_length: "mapR f xs = Inr ys \<Longrightarrow> length ys = length xs"
  by (auto simp: mapR_eq_Inr dest: list_all2_lengthD)

lemma mapR_Inr: "(\<And>x. x \<in> set xs \<Longrightarrow> f x = Inr (g x)) \<Longrightarrow> mapR f xs = Inr (map g xs)"
  by (induction xs) auto

lemma mapR_Inr_mem: "mapR f xs = Inr ys \<Longrightarrow> y \<in> set ys \<Longrightarrow> \<exists>x \<in> set xs. f x = Inr y"
  by (induction xs arbitrary: ys) (auto simp: bindR_eq_Inr)

lemma mapR_Inr_memD: "mapR f xs = Inr ys \<Longrightarrow> x \<in> set xs \<Longrightarrow> \<exists>y \<in> set ys. f x = Inr y"
  by (induction xs arbitrary: ys) (auto simp: bindR_eq_Inr)

lemma mapR_ok_iff: "(\<exists>ys. mapR f xs = Inr ys) \<longleftrightarrow> (\<forall>x \<in> set xs. \<exists>y. f x = Inr y)"
  by (induction xs) (auto simp: bindR_eq_Inr)

fun foldR :: "('s \<Rightarrow> 'a \<Rightarrow> 'e + 's) \<Rightarrow> 's \<Rightarrow> 'a list \<Rightarrow> 'e + 's" where
  "foldR f s [] = Inr s"
| "foldR f s (x # xs) = bindR (f s x) (\<lambda>s'. foldR f s' xs)"

lemma foldR_cong [fundef_cong]:
  "s = s' \<Longrightarrow> xs = ys \<Longrightarrow> (\<And>t x. x \<in> set ys \<Longrightarrow> f t x = g t x)
     \<Longrightarrow> foldR f s xs = foldR g s' ys"
proof (induction xs arbitrary: s s' ys)
  case (Cons a xs)
  then show ?case by (cases "g s' a") auto
qed auto

text \<open>A loop invariant: what holds before the loop and is kept by the body holds after it.\<close>

lemma foldR_invariant:
  assumes "foldR f s xs = Inr t" and "I s"
    and "\<And>s x s'. I s \<Longrightarrow> x \<in> set xs \<Longrightarrow> f s x = Inr s' \<Longrightarrow> I s'"
  shows "I t"
  using assms
proof (induction xs arbitrary: s)
  case (Cons a xs)
  from Cons.prems(1) obtain s' where s': "f s a = Inr s'" "foldR f s' xs = Inr t"
    by (auto simp: bindR_eq_Inr)
  have "I s'" using Cons.prems(2,3) s'(1) by (meson list.set_intros(1))
  with s'(2) show ?case
    using Cons.IH [of s'] Cons.prems(3) by (meson list.set_intros(2))
qed simp

lemma foldR_append: "foldR f s (xs @ ys) = bindR (foldR f s xs) (\<lambda>t. foldR f t ys)"
  by (induction xs arbitrary: s) (simp_all add: bindR_assoc)

text \<open>\<open>all\<close> and \<open>any\<close> over a generator stop at the first element that decides.\<close>

fun allR :: "('a \<Rightarrow> 'e + bool) \<Rightarrow> 'a list \<Rightarrow> 'e + bool" where
  "allR f [] = Inr True"
| "allR f (x # xs) = bindR (f x) (\<lambda>b. if b then allR f xs else Inr False)"

fun anyR :: "('a \<Rightarrow> 'e + bool) \<Rightarrow> 'a list \<Rightarrow> 'e + bool" where
  "anyR f [] = Inr False"
| "anyR f (x # xs) = bindR (f x) (\<lambda>b. if b then Inr True else anyR f xs)"

lemma allR_cong [fundef_cong]:
  "xs = ys \<Longrightarrow> (\<And>x. x \<in> set ys \<Longrightarrow> f x = g x) \<Longrightarrow> allR f xs = allR g ys"
proof (induction xs arbitrary: ys)
  case (Cons a xs)
  then show ?case by (cases "g a") auto
qed auto

lemma allR_True: "(\<And>x. x \<in> set xs \<Longrightarrow> f x = Inr True) \<Longrightarrow> allR f xs = Inr True"
  by (induction xs) auto

lemma anyR_False: "anyR f xs = Inr False \<longleftrightarrow> (\<forall>x \<in> set xs. f x = Inr False)"
  by (induction xs) (auto simp: bindR_eq_Inr)

lemma anyR_Inr: "(\<And>x. x \<in> set xs \<Longrightarrow> f x = Inr (g x)) \<Longrightarrow> anyR f xs = Inr (\<exists>x \<in> set xs. g x)"
  by (induction xs) auto

text \<open>\<open>[x for x in xs if P(x)]\<close>.\<close>

fun filterR :: "('a \<Rightarrow> 'e + bool) \<Rightarrow> 'a list \<Rightarrow> 'e + 'a list" where
  "filterR P [] = Inr []"
| "filterR P (x # xs) = bindR (P x) (\<lambda>b. bindR (filterR P xs) (\<lambda>ys. Inr (if b then x # ys else ys)))"

lemma filterR_Inr: "(\<And>x. x \<in> set xs \<Longrightarrow> P x = Inr (p x)) \<Longrightarrow> filterR P xs = Inr (filter p xs)"
  by (induction xs) auto

text \<open>A loop that stops at the first element that fits.\<close>

fun findR :: "('a \<Rightarrow> 'e + bool) \<Rightarrow> 'a list \<Rightarrow> 'e + 'a option" where
  "findR P [] = Inr None"
| "findR P (x # xs) = bindR (P x) (\<lambda>b. if b then Inr (Some x) else findR P xs)"

lemma findR_Inr: "(\<And>x. x \<in> set xs \<Longrightarrow> P x = Inr (p x)) \<Longrightarrow> findR P xs = Inr (List.find p xs)"
  by (induction xs) auto

definition ok :: "'e + 'a \<Rightarrow> bool" where
  "ok m = (case m of Inl _ \<Rightarrow> False | Inr _ \<Rightarrow> True)"

lemma ok_simps [simp]: "\<not> ok (Inl e)" "ok (Inr x)"
  by (simp_all add: ok_def)

lemma ok_iff: "ok m \<longleftrightarrow> (\<exists>x. m = Inr x)"
  by (cases m) auto

section \<open>Lists and association lists\<close>

lemma map_filter_empty_iff:
  "List.map_filter f xs = [] \<longleftrightarrow> (\<forall>x \<in> set xs. f x = None)"
  by (induction xs) (auto simp: List.map_filter_def)

text \<open>The entries a dictionary comprehension keeps: at most one per key of the source.\<close>

lemma map_of_concat_keyed:
  assumes "distinct (map fst d)"
    and "\<And>k v. (k, v) \<in> set d \<Longrightarrow> f (k, v) = (case g k v of None \<Rightarrow> [] | Some w \<Rightarrow> [(k, w)])"
  shows "map_of (concat (map f d)) k = (case map_of d k of None \<Rightarrow> None | Some v \<Rightarrow> g k v)"
  using assms
proof (induction d)
  case (Cons p d)
  obtain k' v' where p: "p = (k', v')" by (cases p)
  from Cons.prems have f: "f (k', v') = (case g k' v' of None \<Rightarrow> [] | Some w \<Rightarrow> [(k', w)])"
    by (auto simp: p)
  from Cons have IH: "map_of (concat (map f d)) k = (case map_of d k of None \<Rightarrow> None | Some v \<Rightarrow> g k v)"
    by auto
  from Cons.prems(1) have "k' \<notin> fst ` set d" by (simp add: p)
  then have "map_of d k' = None" by (simp add: map_of_eq_None_iff)
  with IH f show ?case by (auto simp: p map_add_def split: option.splits)
qed auto

lemma set_concat_keyed_keys:
  assumes "\<And>k v. (k, v) \<in> set d \<Longrightarrow> f (k, v) = (case g k v of None \<Rightarrow> [] | Some w \<Rightarrow> [(k, w)])"
  shows "fst ` set (concat (map f d)) \<subseteq> fst ` set d"
proof
  fix x assume "x \<in> fst ` set (concat (map f d))"
  then obtain k v w where "(k, v) \<in> set d" "(x, w) \<in> set (f (k, v))" by auto
  with assms[of k v] show "x \<in> fst ` set d" by (force split: option.splits)
qed

lemma distinct_concat_keyed:
  assumes "distinct (map fst d)"
    and "\<And>k v. (k, v) \<in> set d \<Longrightarrow> f (k, v) = (case g k v of None \<Rightarrow> [] | Some w \<Rightarrow> [(k, w)])"
  shows "distinct (map fst (concat (map f d)))"
  using assms
proof (induction d)
  case (Cons p d)
  obtain k' v' where p: "p = (k', v')" by (cases p)
  from Cons.prems have f: "f (k', v') = (case g k' v' of None \<Rightarrow> [] | Some w \<Rightarrow> [(k', w)])"
    by (auto simp: p)
  have "fst ` set (concat (map f d)) \<subseteq> fst ` set d"
    using Cons.prems(2) by (intro set_concat_keyed_keys) auto
  then have "k' \<notin> fst ` set (concat (map f d))"
    using Cons.prems(1) by (auto simp: p)
  moreover have "distinct (map fst (concat (map f d)))" using Cons by auto
  ultimately show ?case by (auto simp: p f split: option.splits)
qed auto

lemma list_all2_trans_on:
  assumes "list_all2 P xs ys" and "list_all2 P ys zs"
    and "\<And>x y z. x \<in> set xs \<Longrightarrow> y \<in> set ys \<Longrightarrow> z \<in> set zs \<Longrightarrow> P x y \<Longrightarrow> P y z \<Longrightarrow> P x z"
  shows "list_all2 P xs zs"
  unfolding list_all2_conv_all_nth
proof (intro conjI allI impI)
  show "length xs = length zs" using assms(1,2) by (metis list_all2_lengthD)
  fix i assume "i < length xs"
  then have *: "i < length ys" "i < length zs" "P (xs ! i) (ys ! i)" "P (ys ! i) (zs ! i)"
    using assms(1,2) by (simp_all add: list_all2_conv_all_nth)
  show "P (xs ! i) (zs ! i)"
    by (rule assms(3) [OF _ _ _ *(3,4)]) (use \<open>i < length xs\<close> * in simp_all)
qed

lemma list_all2_sym_on:
  assumes "list_all2 P xs ys" and "\<And>x y. x \<in> set xs \<Longrightarrow> y \<in> set ys \<Longrightarrow> P x y \<Longrightarrow> P y x"
  shows "list_all2 P ys xs"
  using assms by (auto simp: list_all2_conv_all_nth)

lemma concat_singleton_pairs [simp]: "concat (map (\<lambda>(k, v). [(k, v)]) d) = d"
  by (induction d) auto

lemma map_of_update: "map_of (AList.update k v d) = (map_of d)(k \<mapsto> v)"
  by (rule update_conv')

lemma size_prod_value [simp]: "size_prod (\<lambda>_. 0) f = (\<lambda>x. Suc (f (snd x)))"
  by (auto simp: fun_eq_iff)

lemma size_dict_value [termination_simp]:
  "(k, v) \<in> set d \<Longrightarrow> f v < Suc (size_list (\<lambda>x. Suc (f (snd x))) d)"
  by (induction d) auto

lemma set_if_sort_key [simp, termination_simp]:
  "set (if b then sort_key f xs else xs) = set xs"
  by simp

lemma update_new: "k \<notin> fst ` set d \<Longrightarrow> AList.update k v d = d @ [(k, v)]"
  by (induction d) auto

lemma distinct_map_sort_key [simp]: "distinct (map g (sort_key f xs)) = distinct (map g xs)"
  by (rule mset_eq_imp_distinct_iff) simp

lemma distinct_map_if_sort_key [simp]:
  "distinct (map g (if b then sort_key f xs else xs)) = distinct (map g xs)"
  by simp

lemma size_list_sort_key: "size_list f (sort_key g xs) = size_list f xs"
proof -
  have "sum_list (map f (sort_key g xs)) = sum_list (map f xs)"
    by (metis mset_map mset_sort sum_mset_sum_list)
  then show ?thesis by (simp add: size_list_conv_sum_list)
qed


lemma size_elem_less: "x \<in> set xs \<Longrightarrow> f x < Suc (size_list f xs)"
  by (induction xs) auto

end
