(* ===== verification/PyValue.thy ===== *)
theory PyValue
  imports Prelude
begin

text \<open>
  The Python values the program computes with, their truth value, equality, subscripting,
  iteration and text, as the Python language defines them.

  \<open>pyval\<close> is the universe of decoded JSON/YAML documents and of the dictionaries the
  modules build: \<open>None\<close>, booleans, (unbounded) integers, strings, lists, tuples and
  dictionaries with string keys. A dictionary is its list of items in insertion order, with
  one entry per key (\<open>wf_py\<close>); assignment keeps an existing key's place and appends a
  new one, as Python's does. Strings are lists of code points below 256. Floating-point
  numbers are not part of the universe.
\<close>

datatype pyval =
    PNone
  | PBool bool
  | PInt int
  | PStr string
  | PList "pyval list"
  | PTuple "pyval list"
  | PDict "(string \<times> pyval) list"

type_synonym dict = "(string \<times> pyval) list"

section \<open>Exceptions\<close>

text \<open>
  The exceptions of the language and of the program. The constructors of the program's own
  exceptions carry the message the source builds; the language's carry what the model's
  callers distinguish. \<open>FailJson\<close> and \<open>ExitJson\<close> are the two ways a module ends:
  Ansible's \<open>fail_json\<close> and \<open>exit_json\<close> print their arguments and raise
  \<open>SystemExit\<close>. \<open>OutOfFuel\<close> is no exception of the program: it is the outcome of a
  waiting loop that the model cut off.
\<close>

datatype exn =
    KeyError string
  | TypeError
  | AttributeError
  | IndexError
  | ValueError string
  | UnboundLocalError
  | NotImplementedError
  | JSONDecodeError
  | AssertionError
  | NotFoundError
  | MethodNotAllowedError
  | ForbiddenError string
  | ConflictError string
  | BadRequestError string
  | ResourceNotFoundError
  | ResourceNotUniqueError
  | HTTPError string
  | ApiException string
  | ApplyException string
  | CoreException string
  | ResourceTimeout string pyval
  | InvalidLogFmt string
  | StreamParseError
  | DockerException string
  | APIError string
  | RequestException string
  | SSLError string
  | CredentialsNotFound string
  | StoreError string
  | CalledProcessError string
  | OSError int string
  | AnsibleError string
  | AnsibleParserError string
  | FailJson "(string \<times> pyval) list"
  | ExitJson "(string \<times> pyval) list"
  | PyException string
  | OutOfFuel

type_synonym 'a res = "exn + 'a"

section \<open>Well-formed values\<close>

fun wf_py :: "pyval \<Rightarrow> bool" where
  "wf_py (PList xs) = list_all wf_py xs"
| "wf_py (PTuple xs) = list_all wf_py xs"
| "wf_py (PDict d) = (distinct (map fst d) \<and> list_all (\<lambda>(k, v). wf_py v) d)"
| "wf_py _ = True"

abbreviation wf_dict :: "dict \<Rightarrow> bool" where
  "wf_dict d \<equiv> wf_py (PDict d)"

lemma wf_dict_Nil [simp]: "wf_dict []"
  by simp

lemma wf_dict_value: "wf_dict d \<Longrightarrow> (k, v) \<in> set d \<Longrightarrow> wf_py v"
  by (auto simp: list_all_iff)

lemma wf_dict_lookup: "wf_dict d \<Longrightarrow> map_of d k = Some v \<Longrightarrow> wf_py v"
  by (auto dest: map_of_SomeD wf_dict_value simp del: wf_py.simps)

lemma set_update_cases:
  "(k', w) \<in> set (AList.update k v d) \<Longrightarrow> (k' = k \<and> w = v) \<or> (k', w) \<in> set d"
  by (induction d) (auto split: if_splits)

lemma wf_dict_update: "wf_dict d \<Longrightarrow> wf_py v \<Longrightarrow> wf_dict (AList.update k v d)"
proof -
  assume d: "wf_dict d" and v: "wf_py v"
  have "distinct (map fst (AList.update k v d))"
    using d by (simp add: distinct_update)
  moreover have "(k', w) \<in> set (AList.update k v d) \<Longrightarrow> wf_py w" for k' w
    using d v by (auto dest!: set_update_cases simp: list_all_iff)
  ultimately show ?thesis by (auto simp: list_all_iff)
qed

lemma wf_dict_delete: "wf_dict d \<Longrightarrow> wf_dict (AList.delete k d)"
proof -
  assume d: "wf_dict d"
  have "distinct (map fst (AList.delete k d))" using d by (simp add: distinct_delete)
  moreover have "set (AList.delete k d) \<subseteq> set d" by (auto simp: AList.delete_eq)
  ultimately show ?thesis using d by (auto simp: list_all_iff)
qed

section \<open>Truth and numbers\<close>

fun truthy :: "pyval \<Rightarrow> bool" where
  "truthy PNone = False"
| "truthy (PBool b) = b"
| "truthy (PInt i) = (i \<noteq> 0)"
| "truthy (PStr s) = (s \<noteq> [])"
| "truthy (PList xs) = (xs \<noteq> [])"
| "truthy (PTuple xs) = (xs \<noteq> [])"
| "truthy (PDict d) = (d \<noteq> [])"

text \<open>\<open>bool\<close> is a subclass of \<open>int\<close>: \<open>True == 1\<close> and \<open>False == 0\<close>.\<close>

fun num_of :: "pyval \<Rightarrow> int option" where
  "num_of (PBool b) = Some (if b then 1 else 0)"
| "num_of (PInt i) = Some i"
| "num_of _ = None"

section \<open>Equality\<close>

text \<open>
  Python's \<open>==\<close>: numbers by value, sequences of the same type element by element,
  dictionaries by their entries whatever their order.
\<close>

function py_eq :: "pyval \<Rightarrow> pyval \<Rightarrow> bool" where
  "py_eq (PDict d) w = (case w of PDict e \<Rightarrow>
       length d = length e \<and>
       list_all (\<lambda>(k, v). case map_of e k of None \<Rightarrow> False | Some v' \<Rightarrow> py_eq v v') d
     | _ \<Rightarrow> False)"
| "py_eq (PList xs) w = (case w of PList ys \<Rightarrow>
       length xs = length ys \<and> list_all (\<lambda>(x, y). py_eq x y) (zip xs ys)
     | _ \<Rightarrow> False)"
| "py_eq (PTuple xs) w = (case w of PTuple ys \<Rightarrow>
       length xs = length ys \<and> list_all (\<lambda>(x, y). py_eq x y) (zip xs ys)
     | _ \<Rightarrow> False)"
| "py_eq (PStr s) w = (w = PStr s)"
| "py_eq PNone w = (w = PNone)"
| "py_eq (PBool b) w = (num_of w = Some (if b then 1 else 0))"
| "py_eq (PInt i) w = (num_of w = Some i)"
  by pat_completeness auto
termination
  by (relation "measure (size \<circ> fst)")
    (auto dest!: set_zip_leftD intro: size_dict_value size_elem_less)

lemma list_all_zip_self: "list_all (\<lambda>(x, y). P x y) (zip xs xs) \<longleftrightarrow> list_all (\<lambda>x. P x x) xs"
  by (induction xs) auto

lemma py_eq_list: "py_eq (PList xs) (PList ys) \<longleftrightarrow> list_all2 py_eq xs ys"
  by (auto simp: list_all2_iff list_all_iff)

lemma py_eq_tuple: "py_eq (PTuple xs) (PTuple ys) \<longleftrightarrow> list_all2 py_eq xs ys"
  by (auto simp: list_all2_iff list_all_iff)

text \<open>Dictionaries are equal when they have the same keys, with equal values.\<close>

lemma py_eq_dict:
  assumes d: "distinct (map fst d)" and e: "distinct (map fst e)"
  shows "py_eq (PDict d) (PDict e) \<longleftrightarrow> (\<forall>k. rel_option py_eq (map_of d k) (map_of e k))"
    (is "?L \<longleftrightarrow> ?R")
proof
  assume L: ?L
  then have len: "length d = length e"
    and sub: "\<And>k v. (k, v) \<in> set d \<Longrightarrow> \<exists>w. map_of e k = Some w \<and> py_eq v w"
    by (fastforce simp: list_all_iff split: option.splits)+
  have "fst ` set d \<subseteq> fst ` set e"
    using sub by (force dest: map_of_SomeD)
  moreover have "card (fst ` set d) = card (fst ` set e)"
    using len distinct_card [OF d] distinct_card [OF e] by simp
  ultimately have keys: "fst ` set d = fst ` set e"
    by (simp add: card_subset_eq)
  show ?R
  proof
    fix k
    show "rel_option py_eq (map_of d k) (map_of e k)"
    proof (cases "map_of d k")
      case None
      then have "map_of e k = None" using keys by (simp add: map_of_eq_None_iff)
      with None show ?thesis by simp
    next
      case (Some v)
      then show ?thesis using sub [OF map_of_SomeD [OF Some]] by auto
    qed
  qed
next
  assume R: ?R
  have "map_of d k = None \<longleftrightarrow> map_of e k = None" for k
    using R [rule_format, of k] by (cases "map_of d k"; cases "map_of e k") auto
  then have "fst ` set d = fst ` set e" by (auto simp: map_of_eq_None_iff set_eq_iff)
  then have len: "length d = length e"
    using distinct_card [OF d] distinct_card [OF e] by simp
  have "case map_of e k of None \<Rightarrow> False | Some v' \<Rightarrow> py_eq v v'" if "(k, v) \<in> set d" for k v
    using R [rule_format, of k] map_of_is_SomeI [OF d that] by (auto elim: option.rel_cases)
  with len show ?L by (auto simp: list_all_iff)
qed

lemma py_eq_num:
  "num_of v = Some i \<Longrightarrow> py_eq v w \<longleftrightarrow> num_of w = Some i"
  by (cases v) auto

lemma py_eq_refl: "wf_py v \<Longrightarrow> py_eq v v"
proof (induction v rule: wf_py.induct)
  case (3 d)
  then have d: "distinct (map fst d)" by simp
  have "rel_option py_eq (map_of d k) (map_of d k)" for k
    using 3 by (cases "map_of d k") (auto simp: list_all_iff dest: map_of_SomeD)
  with d show ?case by (simp add: py_eq_dict del: py_eq.simps)
qed (auto simp: py_eq_list py_eq_tuple list_all_iff list_all2_same simp del: py_eq.simps(2,3))

lemma py_eq_sym: "wf_py v \<Longrightarrow> wf_py w \<Longrightarrow> py_eq v w \<Longrightarrow> py_eq w v"
proof (induction v arbitrary: w rule: wf_py.induct)
  case (1 xs)
  then obtain ys where w: "w = PList ys" by (auto split: pyval.splits)
  with 1 have "list_all2 py_eq ys xs"
    by (auto simp: py_eq_list list_all2_conv_all_nth list_all_iff simp del: py_eq.simps)
  with w show ?case by (simp add: py_eq_list del: py_eq.simps)
next
  case (2 xs)
  then obtain ys where w: "w = PTuple ys" by (auto split: pyval.splits)
  with 2 have "list_all2 py_eq ys xs"
    by (auto simp: py_eq_tuple list_all2_conv_all_nth list_all_iff simp del: py_eq.simps)
  with w show ?case by (simp add: py_eq_tuple del: py_eq.simps)
next
  case (3 d)
  then obtain e where w: "w = PDict e" by (auto split: pyval.splits)
  have d: "distinct (map fst d)" and e: "distinct (map fst e)"
    using "3.prems" w by auto
  have "rel_option py_eq (map_of e k) (map_of d k)" for k
  proof -
    have "rel_option py_eq (map_of d k) (map_of e k)"
      using "3.prems"(3) w by (simp add: py_eq_dict [OF d e] del: py_eq.simps)
    then show ?thesis
      using "3.prems"(1,2) w "3.IH"
      by (cases rule: option.rel_cases) (fastforce simp: list_all_iff dest: map_of_SomeD)+
  qed
  with w show ?case by (simp add: py_eq_dict [OF e d] del: py_eq.simps)
qed (auto simp: py_eq_num)

lemma py_eq_trans:
  "wf_py u \<Longrightarrow> wf_py v \<Longrightarrow> wf_py w \<Longrightarrow> py_eq u v \<Longrightarrow> py_eq v w \<Longrightarrow> py_eq u w"
proof (induction u arbitrary: v w rule: wf_py.induct)
  case (1 xs)
  then obtain ys zs where vw: "v = PList ys" "w = PList zs"
    by (auto split: pyval.splits)
  with "1.prems"(4,5) have "list_all2 py_eq xs ys" "list_all2 py_eq ys zs"
    by (simp_all add: py_eq_list del: py_eq.simps)
  then have "list_all2 py_eq xs zs"
  proof (rule list_all2_trans_on)
    fix x y z
    assume "x \<in> set xs" "y \<in> set ys" "z \<in> set zs" "py_eq x y" "py_eq y z"
    then show "py_eq x z" using "1" vw by (auto simp: list_all_iff)
  qed
  with vw show ?case by (simp add: py_eq_list del: py_eq.simps)
next
  case (2 xs)
  then obtain ys zs where vw: "v = PTuple ys" "w = PTuple zs"
    by (auto split: pyval.splits)
  with "2.prems"(4,5) have "list_all2 py_eq xs ys" "list_all2 py_eq ys zs"
    by (simp_all add: py_eq_tuple del: py_eq.simps)
  then have "list_all2 py_eq xs zs"
  proof (rule list_all2_trans_on)
    fix x y z
    assume "x \<in> set xs" "y \<in> set ys" "z \<in> set zs" "py_eq x y" "py_eq y z"
    then show "py_eq x z" using "2" vw by (auto simp: list_all_iff)
  qed
  with vw show ?case by (simp add: py_eq_tuple del: py_eq.simps)
next
  case (3 d)
  then obtain e f where vw: "v = PDict e" "w = PDict f"
    by (auto split: pyval.splits)
  have d: "distinct (map fst d)" and e: "distinct (map fst e)" and f: "distinct (map fst f)"
    using "3.prems" vw by auto
  have "rel_option py_eq (map_of d k) (map_of f k)" for k
  proof -
    have de: "rel_option py_eq (map_of d k) (map_of e k)"
      and ef: "rel_option py_eq (map_of e k) (map_of f k)"
      using "3.prems"(4,5) vw by (simp_all add: py_eq_dict [OF d e] py_eq_dict [OF e f] del: py_eq.simps)
    show ?thesis
    proof (cases "map_of d k")
      case None
      with de ef show ?thesis by auto
    next
      case (Some a)
      then obtain b c where bc: "map_of e k = Some b" "map_of f k = Some c" "py_eq a b" "py_eq b c"
        using de ef by (auto simp: option_rel_Some1)
      have "wf_py a" "wf_py b" "wf_py c"
        using "3.prems"(1-3) vw Some bc by (auto intro: wf_dict_lookup)
      then have "py_eq a c"
        using "3.IH" [of "(k, a)" k a b c] Some bc by (auto dest: map_of_SomeD)
      with Some bc show ?thesis by simp
    qed
  qed
  with vw show ?case by (simp add: py_eq_dict [OF d f] del: py_eq.simps)
qed (auto simp: py_eq_num)

lemma py_eq_None_iff [simp]: "py_eq v PNone \<longleftrightarrow> v = PNone"
  by (cases v) auto

end
