(* ===== verification/PyString.thy ===== *)
theory PyString
  imports PyValue
begin

text \<open>
  The string methods of Python the program uses, on strings as lists of code points below
  256 (ASCII and Latin-1): classification, case, searching, splitting, joining, stripping,
  decimal numbers, \<open>str()\<close> and \<open>repr()\<close>.
\<close>

section \<open>Characters\<close>

abbreviation code :: "char \<Rightarrow> nat" where
  "code c \<equiv> of_char c"

definition is_digit :: "char \<Rightarrow> bool" where
  "is_digit c = (48 \<le> code c \<and> code c \<le> 57)"

definition is_upper_ascii :: "char \<Rightarrow> bool" where
  "is_upper_ascii c = (65 \<le> code c \<and> code c \<le> 90)"

definition is_lower_ascii :: "char \<Rightarrow> bool" where
  "is_lower_ascii c = (97 \<le> code c \<and> code c \<le> 122)"

text \<open>What \<open>str.strip()\<close> removes.\<close>

definition is_space :: "char \<Rightarrow> bool" where
  "is_space c = ((9 \<le> code c \<and> code c \<le> 13) \<or> (28 \<le> code c \<and> code c \<le> 32)
     \<or> code c = 133 \<or> code c = 160)"

text \<open>\<open>str.lower\<close> on ASCII and Latin-1 letters (215 is the multiplication sign).\<close>

definition lower_char :: "char \<Rightarrow> char" where
  "lower_char c = (if is_upper_ascii c \<or> (192 \<le> code c \<and> code c \<le> 222 \<and> code c \<noteq> 215)
     then char_of (code c + 32) else c)"

definition py_lower :: "string \<Rightarrow> string" where
  "py_lower s = map lower_char s"

lemma lower_char_idem [simp]: "lower_char (lower_char c) = lower_char c"
  by (auto simp: lower_char_def is_upper_ascii_def)

lemma py_lower_idem [simp]: "py_lower (py_lower s) = py_lower s"
  by (simp add: py_lower_def)

lemma py_lower_Nil [simp]: "py_lower [] = []" "py_lower s = [] \<longleftrightarrow> s = []"
  by (simp_all add: py_lower_def)

lemma py_lower_append [simp]: "py_lower (s @ t) = py_lower s @ py_lower t"
  by (simp add: py_lower_def)

lemma is_digit_literals [simp]:
  "\<not> is_digit (CHR '' '')" "\<not> is_digit (CHR 0x09)" "\<not> is_digit (CHR 0x0A)" "\<not> is_digit (CHR 0x0D)"
  "\<not> is_digit (CHR '']'')" "\<not> is_digit (CHR ''}'')" "\<not> is_digit (CHR '','')" "\<not> is_digit (CHR ''-'')"
  "\<not> is_digit (CHR ''/'')" "\<not> is_digit (CHR '':'')" "\<not> is_digit (CHR ''.'')" "\<not> is_digit (CHR 0x22)"
  by (simp_all add: is_digit_def)

section \<open>Prefixes and searching\<close>

fun starts_with :: "string \<Rightarrow> string \<Rightarrow> bool" where
  "starts_with s [] = True"
| "starts_with [] (c # p) = False"
| "starts_with (a # s) (c # p) = (a = c \<and> starts_with s p)"

lemma starts_with_iff: "starts_with s p \<longleftrightarrow> (\<exists>r. s = p @ r)"
  by (induction s p rule: starts_with.induct) auto

definition ends_with :: "string \<Rightarrow> string \<Rightarrow> bool" where
  "ends_with s p = starts_with (rev s) (rev p)"

lemma ends_with_iff: "ends_with s p \<longleftrightarrow> (\<exists>r. s = r @ p)"
proof
  assume "ends_with s p"
  then obtain r where "rev s = rev p @ r" by (auto simp: ends_with_def starts_with_iff)
  then have "s = rev r @ p" by (metis rev_append rev_rev_ident)
  then show "\<exists>r. s = r @ p" by blast
qed (auto simp: ends_with_def starts_with_iff)

text \<open>\<open>s.find(p)\<close>: the first position at which \<open>p\<close> occurs, or \<open>None\<close> for \<open>-1\<close>.\<close>

fun py_find :: "string \<Rightarrow> string \<Rightarrow> nat option" where
  "py_find [] p = (if p = [] then Some 0 else None)"
| "py_find (a # s) p = (if starts_with (a # s) p then Some 0 else map_option Suc (py_find s p))"

definition contains :: "string \<Rightarrow> string \<Rightarrow> bool" where
  "contains s p = (py_find s p \<noteq> None)"

lemma py_find_Some: "py_find s p = Some i \<Longrightarrow> \<exists>r. s = take i s @ p @ r \<and> i \<le> length s"
proof (induction s p arbitrary: i rule: py_find.induct)
  case (2 a s p)
  show ?case
  proof (cases "starts_with (a # s) p")
    case True
    with 2 show ?thesis by (auto simp: starts_with_iff)
  next
    case False
    then obtain j where "py_find s p = Some j" "i = Suc j" using "2.prems" by auto
    with 2 False show ?thesis by auto
  qed
qed (auto split: if_splits)

section \<open>Splitting and joining\<close>

text \<open>\<open>s.split(c)\<close> for a one-character separator: never empty.\<close>

fun split_on :: "char \<Rightarrow> string \<Rightarrow> string list" where
  "split_on c [] = [[]]"
| "split_on c (a # s) = (if a = c then [] # split_on c s
     else (case split_on c s of [] \<Rightarrow> [[a]] | w # ws \<Rightarrow> (a # w) # ws))"

text \<open>\<open>s.split(c, n)\<close>: at most \<open>n\<close> splits, from the left.\<close>

fun split_max :: "nat \<Rightarrow> char \<Rightarrow> string \<Rightarrow> string list" where
  "split_max n c [] = [[]]"
| "split_max n c (a # s) = (if a = c \<and> 0 < n then [] # split_max (n - 1) c s
     else (case split_max n c s of [] \<Rightarrow> [[a]] | w # ws \<Rightarrow> (a # w) # ws))"

text \<open>\<open>s.rsplit(c, 1)\<close>: at most one split, from the right.\<close>

definition rsplit1 :: "char \<Rightarrow> string \<Rightarrow> string list" where
  "rsplit1 c s = rev (map rev (split_max 1 c (rev s)))"

fun py_join :: "string \<Rightarrow> string list \<Rightarrow> string" where
  "py_join sep [] = []"
| "py_join sep [w] = w"
| "py_join sep (w # v # ws) = w @ sep @ py_join sep (v # ws)"

lemma split_on_not_Nil [simp]: "split_on c s \<noteq> []"
  by (cases s) (auto split: list.splits)

lemma split_max_not_Nil [simp]: "split_max n c s \<noteq> []"
  by (cases s) (auto split: list.splits)

lemma join_split_on [simp]: "py_join [c] (split_on c s) = s"
proof (induction s)
  case (Cons a s)
  then show ?case
    by (cases "split_on c s"; cases "tl (split_on c s)") (auto split: list.splits)
qed simp

lemma join_split_max [simp]: "py_join [c] (split_max n c s) = s"
proof (induction n c s rule: split_max.induct)
  case (2 n c a s)
  show ?case
  proof (cases "a = c \<and> 0 < n")
    case True
    with 2 show ?thesis
      by (cases "split_max (n - 1) c s") auto
  next
    case False
    with 2 show ?thesis
      by (cases "split_max n c s"; cases "tl (split_max n c s)") (auto split: list.splits)
  qed
qed simp

lemma split_on_free: "c \<notin> set w \<Longrightarrow> split_on c w = [w]"
  by (induction w) auto

lemma split_on_sep: "c \<notin> set w \<Longrightarrow> split_on c (w @ c # s) = w # split_on c s"
  by (induction w) auto

lemma split_on_join:
  "ws \<noteq> [] \<Longrightarrow> (\<And>w. w \<in> set ws \<Longrightarrow> c \<notin> set w) \<Longrightarrow> split_on c (py_join [c] ws) = ws"
  by (induction "[c]" ws rule: py_join.induct) (auto simp: split_on_free split_on_sep)

lemma split_on_members_free: "w \<in> set (split_on c s) \<Longrightarrow> c \<notin> set w"
proof (induction s arbitrary: w)
  case (Cons a s)
  obtain x xs where s: "split_on c s = x # xs" by (cases "split_on c s") auto
  with Cons.prems Cons.IH [of x] Cons.IH [of w] show ?case by (auto split: if_splits)
qed simp

lemma split_max_free: "c \<notin> set w \<Longrightarrow> split_max n c w = [w]"
  by (induction w) auto

lemma split_max_sep: "c \<notin> set w \<Longrightarrow> 0 < n \<Longrightarrow> split_max n c (w @ c # s) = w # split_max (n - 1) c s"
  by (induction w) auto

lemma split_max_0: "split_max 0 c s = [s]"
  by (induction s) auto

lemma split_max_length: "length (split_max n c s) \<le> Suc n"
proof (induction n c s rule: split_max.induct)
  case (2 n c a s)
  show ?case
  proof (cases "a = c \<and> 0 < n")
    case True
    with 2 show ?thesis by simp
  next
    case False
    with 2 show ?thesis by (cases "split_max n c s") auto
  qed
qed simp

lemma split_max_1_cases:
  obtains "split_max 1 c s = [s]" "c \<notin> set s"
  | u v where "split_max 1 c s = [u, v]" "s = u @ c # v" "c \<notin> set u"
proof (cases "c \<in> set s")
  case True
  then obtain u v where "s = u @ c # v" "c \<notin> set u" by (meson split_list_first)
  with that(2) [of u v] show thesis by (simp add: split_max_sep split_max_0)
qed (auto intro: that(1) simp: split_max_free)

lemma rsplit1_cases:
  obtains "rsplit1 c s = [s]" "c \<notin> set s"
  | u v where "rsplit1 c s = [u, v]" "s = u @ c # v" "c \<notin> set v"
proof (cases rule: split_max_1_cases [of c "rev s"])
  case 1
  then show thesis by (intro that(1)) (simp_all add: rsplit1_def)
next
  case (2 u v)
  then have "rsplit1 c s = [rev v, rev u]" by (simp add: rsplit1_def)
  moreover have "s = rev v @ c # rev u" using 2(2) by (metis append.assoc append_Cons append_Nil rev.simps(2) rev_append rev_rev_ident)
  ultimately show thesis using 2(3) by (intro that(2) [of "rev v" "rev u"]) simp_all
qed

lemma rsplit1_free: "c \<notin> set s \<Longrightarrow> rsplit1 c s = [s]"
  by (simp add: rsplit1_def split_max_free)

lemma rsplit1_sep: "c \<notin> set v \<Longrightarrow> rsplit1 c (u @ c # v) = [u, v]"
  by (simp add: rsplit1_def split_max_sep split_max_0)

section \<open>Stripping and replacing\<close>

text \<open>What the \<open>$\<close> of a regular expression lets match: the text, less one final newline.\<close>

definition until_newline :: "string \<Rightarrow> string" where
  "until_newline s = (if s \<noteq> [] \<and> last s = CHR 0x0A then butlast s else s)"

definition lstrip_by :: "(char \<Rightarrow> bool) \<Rightarrow> string \<Rightarrow> string" where
  "lstrip_by P s = dropWhile P s"

definition rstrip_by :: "(char \<Rightarrow> bool) \<Rightarrow> string \<Rightarrow> string" where
  "rstrip_by P s = rev (dropWhile P (rev s))"

definition py_strip :: "string \<Rightarrow> string" where
  "py_strip s = rstrip_by is_space (lstrip_by is_space s)"

text \<open>\<open>s.replace(c, r)\<close> for a one-character \<open>c\<close>.\<close>

definition replace_char :: "char \<Rightarrow> string \<Rightarrow> string \<Rightarrow> string" where
  "replace_char c r s = concat (map (\<lambda>a. if a = c then r else [a]) s)"

lemma set_replace_char_removed: "a \<in> set (replace_char c [] s) \<longleftrightarrow> a \<in> set s \<and> a \<noteq> c"
  by (auto simp: replace_char_def)

section \<open>Decimal numbers\<close>

definition digit_char :: "nat \<Rightarrow> char" where
  "digit_char d = char_of (48 + d)"

fun dec_nat :: "nat \<Rightarrow> string" where
  "dec_nat n = (if n < 10 then [digit_char n] else dec_nat (n div 10) @ [digit_char (n mod 10)])"

declare dec_nat.simps [simp del]

definition dec_int :: "int \<Rightarrow> string" where
  "dec_int i = (if i < 0 then CHR ''-'' # dec_nat (nat (- i)) else dec_nat (nat i))"

definition digit_val :: "char \<Rightarrow> nat" where
  "digit_val c = code c - 48"

text \<open>The value of a string of decimal digits, as \<open>int(s)\<close> reads it.\<close>

definition nat_of_digits :: "string \<Rightarrow> nat" where
  "nat_of_digits s = foldl (\<lambda>n c. 10 * n + digit_val c) 0 s"

lemma digit_char_props [simp]:
  "d < 10 \<Longrightarrow> is_digit (digit_char d)" "d < 10 \<Longrightarrow> digit_val (digit_char d) = d"
  by (auto simp: is_digit_def digit_char_def digit_val_def)

lemma digit_char_numerals [simp]:
  "digit_char 0 = CHR ''0''" "digit_char (Suc 0) = CHR ''1''" "digit_char 2 = CHR ''2''" "digit_char 3 = CHR ''3''"
  "digit_char 4 = CHR ''4''" "digit_char 5 = CHR ''5''" "digit_char 6 = CHR ''6''" "digit_char 7 = CHR ''7''"
  "digit_char 8 = CHR ''8''" "digit_char 9 = CHR ''9''"
  unfolding digit_char_def by code_simp+

lemma dec_nat_digits: "c \<in> set (dec_nat n) \<Longrightarrow> is_digit c"
proof (induction n rule: dec_nat.induct)
  case (1 n)
  then show ?case by (cases "n < 10") (auto simp: dec_nat.simps [of n])
qed

lemma dec_nat_not_Nil [simp]: "dec_nat n \<noteq> []"
  by (subst dec_nat.simps) simp

lemma list_all_dec_nat [simp]: "list_all is_digit (dec_nat n)"
  using dec_nat_digits by (auto simp: list_all_iff)

lemma takeWhile_dec_nat [simp]:
  "takeWhile is_digit (dec_nat n) = dec_nat n"
  "\<not> is_digit c \<Longrightarrow> takeWhile is_digit (dec_nat n @ c # r) = dec_nat n"
  using dec_nat_digits [of _ n] by (simp_all add: takeWhile_append2 takeWhile_eq_all_conv)

lemma dropWhile_dec_nat [simp]:
  "dropWhile is_digit (dec_nat n) = []"
  "\<not> is_digit c \<Longrightarrow> dropWhile is_digit (dec_nat n @ c # r) = c # r"
  using dec_nat_digits [of _ n] by (simp_all add: dropWhile_append2)

lemma dec_nat_free: "\<not> is_digit c \<Longrightarrow> c \<notin> set (dec_nat n)"
  using dec_nat_digits by blast

lemma starts_with_dec_nat [simp]: "\<not> is_digit c \<Longrightarrow> \<not> starts_with (dec_nat k @ r) (c # u)"
  using dec_nat_not_Nil [of k] dec_nat_digits [of _ k] by (cases "dec_nat k") auto

lemma nat_of_dec_nat [simp]: "nat_of_digits (dec_nat n) = n"
proof (induction n rule: dec_nat.induct)
  case (1 n)
  show ?case
  proof (cases "n < 10")
    case True
    then show ?thesis by (simp add: dec_nat.simps [of n] nat_of_digits_def)
  next
    case False
    with 1 show ?thesis by (simp add: dec_nat.simps [of n] nat_of_digits_def)
  qed
qed

lemma dec_nat_inj [simp]: "dec_nat m = dec_nat n \<longleftrightarrow> m = n"
  by (metis nat_of_dec_nat)

section \<open>str() and repr()\<close>

definition hex_digit :: "nat \<Rightarrow> char" where
  "hex_digit d = (if d < 10 then char_of (48 + d) else char_of (87 + d))"

definition is_printable :: "char \<Rightarrow> bool" where
  "is_printable c = ((32 \<le> code c \<and> code c < 127) \<or> (161 \<le> code c \<and> code c \<noteq> 173))"

definition repr_char :: "char \<Rightarrow> char \<Rightarrow> string" where
  "repr_char q c =
     (if c = q \<or> c = CHR 0x5C then [CHR 0x5C, c]
      else if c = CHR 0x0A then [CHR 0x5C, CHR ''n'']
      else if c = CHR 0x0D then [CHR 0x5C, CHR ''r'']
      else if c = CHR 0x09 then [CHR 0x5C, CHR ''t'']
      else if is_printable c then [c]
      else [CHR 0x5C, CHR ''x'', hex_digit (code c div 16), hex_digit (code c mod 16)])"

definition repr_str :: "string \<Rightarrow> string" where
  "repr_str s = (let q = (if CHR 0x27 \<in> set s \<and> CHR 0x22 \<notin> set s then CHR 0x22 else CHR 0x27)
     in q # concat (map (repr_char q) s) @ [q])"

fun py_repr :: "pyval \<Rightarrow> string" where
  "py_repr PNone = ''None''"
| "py_repr (PBool b) = (if b then ''True'' else ''False'')"
| "py_repr (PInt i) = dec_int i"
| "py_repr (PStr s) = repr_str s"
| "py_repr (PList xs) = ''['' @ py_join '', '' (map py_repr xs) @ '']''"
| "py_repr (PTuple xs) = (case xs of [x] \<Rightarrow> ''('' @ py_repr x @ '',)''
     | _ \<Rightarrow> ''('' @ py_join '', '' (map py_repr xs) @ '')'')"
| "py_repr (PDict d) = ''{'' @ py_join '', '' (map (\<lambda>(k, v). repr_str k @ '': '' @ py_repr v) d) @ ''}''"

definition py_str :: "pyval \<Rightarrow> string" where
  "py_str v = (case v of PStr s \<Rightarrow> s | _ \<Rightarrow> py_repr v)"

lemma py_str_simps [simp]:
  "py_str (PStr s) = s" "py_str (PInt i) = dec_int i" "py_str PNone = ''None''"
  "py_str (PBool b) = (if b then ''True'' else ''False'')"
  by (simp_all add: py_str_def)

section \<open>Operations on values\<close>

text \<open>\<open>v[k]\<close> for a string \<open>k\<close>.\<close>

definition py_getitem :: "pyval \<Rightarrow> string \<Rightarrow> pyval res" where
  "py_getitem v k = (case v of PDict d \<Rightarrow>
       (case map_of d k of Some w \<Rightarrow> Inr w | None \<Rightarrow> Inl (KeyError k))
     | _ \<Rightarrow> Inl TypeError)"

text \<open>\<open>v.get(k, dflt)\<close>: only dictionaries have the method.\<close>

definition py_get :: "pyval \<Rightarrow> string \<Rightarrow> pyval \<Rightarrow> pyval res" where
  "py_get v k dflt = (case v of PDict d \<Rightarrow>
       Inr (case map_of d k of Some w \<Rightarrow> w | None \<Rightarrow> dflt)
     | _ \<Rightarrow> Inl AttributeError)"

text \<open>\<open>d.get(k)\<close> on a dictionary.\<close>

definition dget :: "dict \<Rightarrow> string \<Rightarrow> pyval" where
  "dget d k = (case map_of d k of Some w \<Rightarrow> w | None \<Rightarrow> PNone)"

definition has_key :: "dict \<Rightarrow> string \<Rightarrow> bool" where
  "has_key d k = (map_of d k \<noteq> None)"

text \<open>\<open>d.setdefault(k, v)\<close> as an update.\<close>

definition setdefault :: "string \<Rightarrow> pyval \<Rightarrow> dict \<Rightarrow> dict" where
  "setdefault k v d = (if has_key d k then d else AList.update k v d)"

text \<open>\<open>d.items()\<close>.\<close>

definition py_items :: "pyval \<Rightarrow> dict res" where
  "py_items v = (case v of PDict d \<Rightarrow> Inr d | _ \<Rightarrow> Inl AttributeError)"

text \<open>What \<open>for x in v\<close> runs over.\<close>

definition py_iter :: "pyval \<Rightarrow> pyval list res" where
  "py_iter v = (case v of
       PList xs \<Rightarrow> Inr xs
     | PTuple xs \<Rightarrow> Inr xs
     | PDict d \<Rightarrow> Inr (map (PStr \<circ> fst) d)
     | PStr s \<Rightarrow> Inr (map (\<lambda>c. PStr [c]) s)
     | _ \<Rightarrow> Inl TypeError)"

definition py_mem :: "pyval \<Rightarrow> pyval list \<Rightarrow> bool" where
  "py_mem v xs = list_ex (\<lambda>x. py_eq x v) xs"

text \<open>\<open>k in v\<close> for a string \<open>k\<close>.\<close>

definition str_in :: "string \<Rightarrow> pyval \<Rightarrow> bool res" where
  "str_in k v = (case v of
      PDict d \<Rightarrow> Inr (has_key d k)
    | PStr s \<Rightarrow> Inr (contains s k)
    | PList xs \<Rightarrow> Inr (py_mem (PStr k) xs)
    | PTuple xs \<Rightarrow> Inr (py_mem (PStr k) xs)
    | _ \<Rightarrow> Inl TypeError)"

fun hashable :: "pyval \<Rightarrow> bool" where
  "hashable (PList _) = False"
| "hashable (PDict _) = False"
| "hashable (PTuple xs) = list_all hashable xs"
| "hashable _ = True"

definition py_len :: "pyval \<Rightarrow> nat res" where
  "py_len v = (case v of PList xs \<Rightarrow> Inr (length xs) | PTuple xs \<Rightarrow> Inr (length xs)
     | PDict d \<Rightarrow> Inr (length d) | PStr s \<Rightarrow> Inr (length s) | _ \<Rightarrow> Inl TypeError)"

text \<open>\<open>d1.update(d2)\<close>.\<close>

definition dict_update :: "('k \<times> 'v) list \<Rightarrow> ('k \<times> 'v) list \<Rightarrow> ('k \<times> 'v) list" where
  "dict_update d e = foldl (\<lambda>acc (k, v). AList.update k v acc) d e"

lemma set_dict_update: "p \<in> set (dict_update d e) \<Longrightarrow> p \<in> set d \<or> p \<in> set e"
proof (induction e arbitrary: d)
  case (Cons q e)
  then show ?case
    by (cases q; cases p)
      (auto simp: dict_update_def dest!: Cons.IH [unfolded dict_update_def] set_update_cases)
qed (simp add: dict_update_def)

lemma map_of_dict_update: "distinct (map fst e) \<Longrightarrow> map_of (dict_update d e) k =
    (case map_of e k of Some v \<Rightarrow> Some v | None \<Rightarrow> map_of d k)"
proof (induction e arbitrary: d)
  case (Cons p e)
  obtain k' v' where p: "p = (k', v')" by (cases p)
  have "map_of e k' = None" using Cons.prems by (simp add: p map_of_eq_None_iff)
  with Cons p show ?case by (auto simp: dict_update_def map_of_update split: option.splits)
qed (simp add: dict_update_def)

lemma map_of_dict_update_last: "map_of (dict_update d e) = map_of d ++ map_of (rev e)"
proof (induction e rule: rev_induct)
  case (snoc p e)
  then show ?case by (cases p) (simp add: dict_update_def map_of_update map_add_def fun_eq_iff)
qed (simp add: dict_update_def)

lemma map_of_dict_update_unique:
  assumes "(k, v) \<in> set e" and "\<And>v'. (k, v') \<in> set e \<Longrightarrow> v' = v"
  shows "map_of (dict_update d e) k = Some v"
proof -
  obtain w where w: "map_of (rev e) k = Some w"
    using assms(1) by (cases "map_of (rev e) k") (force simp: map_of_eq_None_iff)+
  from map_of_SomeD [OF w] assms(2) have "w = v" by simp
  with w show ?thesis by (simp add: map_of_dict_update_last)
qed

lemma dget_simps [simp]:
  "map_of d k = None \<Longrightarrow> dget d k = PNone" "map_of d k = Some v \<Longrightarrow> dget d k = v"
  by (simp_all add: dget_def)

text \<open>\<open>int(s)\<close>: blanks around, a sign, digits with single underscores between them.\<close>

fun digits_underscored :: "string \<Rightarrow> bool" where
  "digits_underscored [] = False"
| "digits_underscored [c] = is_digit c"
| "digits_underscored (c # d # s) = (is_digit c \<and> (if d = CHR ''_'' then digits_underscored s else digits_underscored (d # s)))"

definition int_of_str :: "string \<Rightarrow> int option" where
  "int_of_str s = (let t = py_strip s;
      (neg, u) = (case t of CHR ''-'' # r \<Rightarrow> (True, r) | CHR ''+'' # r \<Rightarrow> (False, r) | _ \<Rightarrow> (False, t));
      n = int (nat_of_digits (filter is_digit u))
    in if digits_underscored u then Some (if neg then - n else n) else None)"

definition to_int :: "pyval \<Rightarrow> int res" where
  "to_int v = (case v of
      PStr s \<Rightarrow> (case int_of_str s of Some n \<Rightarrow> Inr n | None \<Rightarrow> Inl (ValueError []))
    | _ \<Rightarrow> (case num_of v of Some n \<Rightarrow> Inr n | None \<Rightarrow> Inl TypeError))"

end
