(* ===== verification/DockerFnmatch.thy ===== *)
theory DockerFnmatch
  imports PyString
begin

text \<open>
  Shell patterns with \<open>**\<close> (\<open>_api/utils/fnmatch.py\<close>): the translation of a pattern to a
  regular expression, matching, and the bounded cache of compiled expressions. The regular
  expressions the translation produces are sequences of the items below; their meaning is
  that of Python's \<open>re\<close> (\<open>.\<close> and the final \<open>$\<close> treat a newline specially).
\<close>

section \<open>Regular expressions\<close>

datatype item =
    Lit char              \<comment> \<open>an escaped character\<close>
  | OneNoSlash            \<comment> \<open>\<open>[^/]\<close>\<close>
  | ManyNoSlash           \<comment> \<open>\<open>[^/]*\<close>\<close>
  | ManyAny               \<comment> \<open>\<open>.*\<close>\<close>
  | Dirs                  \<comment> \<open>\<open>(.*/)?\<close>\<close>
  | Class bool string     \<comment> \<open>\<open>[...]\<close> or \<open>[^...]\<close>, the text between the brackets unescaped\<close>

text \<open>The ranges of a character class; a range that ends before it starts is an error.\<close>

fun class_ranges :: "string \<Rightarrow> (char \<times> char) list option" where
  "class_ranges [] = Some []"
| "class_ranges (a # b # c # s) =
     (if b = CHR ''-'' then
        (if code c < (code a :: nat) then None else map_option ((#) (a, c)) (class_ranges s))
      else map_option ((#) (a, a)) (class_ranges (b # c # s)))"
| "class_ranges (a # s) = map_option ((#) (a, a)) (class_ranges s)"

definition in_class :: "string \<Rightarrow> char \<Rightarrow> bool" where
  "in_class stuff x = (case class_ranges stuff of
     Some rs \<Rightarrow> list_ex (\<lambda>(a, b). code a \<le> (code x :: nat) \<and> code x \<le> (code b :: nat)) rs | None \<Rightarrow> False)"

definition compiles :: "item list \<Rightarrow> bool" where
  "compiles r \<longleftrightarrow> list_all (\<lambda>i. case i of Class _ stuff \<Rightarrow> class_ranges stuff \<noteq> None | _ \<Rightarrow> True) r"

fun one_char :: "item \<Rightarrow> char \<Rightarrow> bool" where
  "one_char (Lit c) x = (x = c)"
| "one_char OneNoSlash x = (x \<noteq> CHR ''/'')"
| "one_char (Class neg stuff) x = (in_class stuff x \<noteq> neg)"
| "one_char _ x = False"

function rmatch :: "item list \<Rightarrow> string \<Rightarrow> bool"
  and rdirs :: "item list \<Rightarrow> string \<Rightarrow> bool" where
  "rmatch [] s = (s = [] \<or> s = [CHR 0x0A])"
| "rmatch (i # r) s = (case i of
      ManyNoSlash \<Rightarrow> rmatch r s \<or> (case s of [] \<Rightarrow> False | x # t \<Rightarrow> x \<noteq> CHR ''/'' \<and> rmatch (i # r) t)
    | ManyAny \<Rightarrow> rmatch r s \<or> (case s of [] \<Rightarrow> False | x # t \<Rightarrow> x \<noteq> CHR 0x0A \<and> rmatch (i # r) t)
    | Dirs \<Rightarrow> rmatch r s \<or> rdirs r s
    | _ \<Rightarrow> (case s of [] \<Rightarrow> False | x # t \<Rightarrow> one_char i x \<and> rmatch r t))"
| "rdirs r [] = False"
| "rdirs r (x # t) = ((x = CHR ''/'' \<and> rmatch r t) \<or> (x \<noteq> CHR 0x0A \<and> rdirs r t))"
  by pat_completeness auto
termination
  by (relation "measures [\<lambda>a. case a of Inl (r, s) \<Rightarrow> length r | Inr (r, s) \<Rightarrow> length r,
      \<lambda>a. case a of Inl (r, s) \<Rightarrow> length s | Inr (r, s) \<Rightarrow> length s]") auto

section \<open>Translation\<close>

text \<open>
  The text of a bracket expression, from after \<open>[\<close>: it ends at the first \<open>]\<close> that is not
  its first character (after a \<open>!\<close>). The result is the text and what follows the \<open>]\<close>.
\<close>

definition bracket :: "string \<Rightarrow> (string \<times> string) option" where
  "bracket s =
     (let (a, s1) = (case s of c # t \<Rightarrow> if c = CHR ''!'' then ([c], t) else ([], s) | [] \<Rightarrow> ([], s));
          (b, s2) = (case s1 of c # t \<Rightarrow> if c = CHR '']'' then ([c], t) else ([], s1) | [] \<Rightarrow> ([], s1))
      in case dropWhile (\<lambda>c. c \<noteq> CHR '']'') s2 of
           [] \<Rightarrow> None
         | _ # rest \<Rightarrow> Some (a @ b @ takeWhile (\<lambda>c. c \<noteq> CHR '']'') s2, rest))"

definition class_item :: "string \<Rightarrow> item" where
  "class_item stuff = (case stuff of
     c # t \<Rightarrow> if c = CHR ''!'' then Class True t else Class False stuff | [] \<Rightarrow> Class False [])"

lemma bracket_shorter: "bracket s = Some (stuff, rest) \<Longrightarrow> length rest < length s"
proof -
  assume b: "bracket s = Some (stuff, rest)"
  have drop: "dropWhile (\<lambda>c. c \<noteq> CHR '']'') u = x # rest \<Longrightarrow> length rest < length u" for u x
    by (metis length_dropWhile_le Suc_le_lessD length_Cons)
  show ?thesis
    using b by (force simp: bracket_def split: list.splits if_splits dest: drop)
qed

definition eat_slash :: "string \<Rightarrow> string" where
  "eat_slash s = (case s of c # t \<Rightarrow> if c = CHR ''/'' then t else s | [] \<Rightarrow> [])"

lemma length_eat_slash: "length (eat_slash s) \<le> length s"
  by (auto simp: eat_slash_def split: list.split)

function translate :: "string \<Rightarrow> item list" where
  "translate [] = []"
| "translate (c # s) =
     (if c = CHR ''*'' then
        (if starts_with s ''*'' then
           (let rest = eat_slash (tl s) in if rest = [] then [ManyAny] else Dirs # translate rest)
         else ManyNoSlash # translate s)
      else if c = CHR ''?'' then OneNoSlash # translate s
      else if c = CHR ''['' then
        (case bracket s of
           None \<Rightarrow> Lit c # translate s
         | Some (stuff, rest) \<Rightarrow> class_item stuff # translate rest)
      else Lit c # translate s)"
  by pat_completeness auto
termination
proof (relation "measure length")
  fix c :: char and s rest :: string
  assume "starts_with s ''*''" "rest = eat_slash (tl s)"
  then show "(rest, c # s) \<in> measure length" using length_eat_slash [of "tl s"] by (cases s) auto
qed (auto dest: bracket_shorter)

section \<open>Matching, with a cache\<close>

definition fnmatch_re :: "string \<Rightarrow> string \<Rightarrow> bool res" where
  "fnmatch_re name pat =
     (if compiles (translate pat) then Inr (rmatch (translate pat) name) else Inl (PyException ''re.error''))"

type_synonym re_cache = "(string \<times> item list) list"

definition MAXCACHE :: nat where
  "MAXCACHE = 100"

definition fnmatchcase :: "string \<Rightarrow> string \<Rightarrow> re_cache \<Rightarrow> bool res \<times> re_cache" where
  "fnmatchcase name pat cache =
     (case map_of cache pat of
        Some re_pat \<Rightarrow> (Inr (rmatch re_pat name), cache)
      | None \<Rightarrow>
          (let cache1 = (if MAXCACHE \<le> length cache then [] else cache); r = translate pat
           in if compiles r then (Inr (rmatch r name), AList.update pat r cache1)
              else (Inl (PyException ''re.error''), cache1)))"

definition fnmatch :: "string \<Rightarrow> string \<Rightarrow> re_cache \<Rightarrow> bool res \<times> re_cache" where
  "fnmatch name pat cache = fnmatchcase (py_lower name) (py_lower pat) cache"

section \<open>The cache is invisible and bounded\<close>

text \<open>The caches that calls of \<open>fnmatch\<close> and \<open>_purge\<close> can lead to.\<close>

inductive reachable_cache :: "re_cache \<Rightarrow> bool" where
  cache_start: "reachable_cache []"
| cache_call: "reachable_cache cache \<Longrightarrow> reachable_cache (snd (fnmatch name pat cache))"
| cache_purge: "reachable_cache cache \<Longrightarrow> reachable_cache []"

definition cache_inv :: "re_cache \<Rightarrow> bool" where
  "cache_inv cache \<longleftrightarrow> length cache \<le> MAXCACHE \<and> distinct (map fst cache)
     \<and> (\<forall>(pat, r) \<in> set cache. r = translate pat \<and> compiles r)"

lemma cache_inv_Nil [simp]: "cache_inv []"
  by (simp add: cache_inv_def)

lemma cache_inv_lookup: "cache_inv cache \<Longrightarrow> map_of cache pat = Some r \<Longrightarrow> r = translate pat \<and> compiles r"
  by (auto simp: cache_inv_def dest!: map_of_SomeD)

lemma cache_inv_add:
  assumes "cache_inv cache" and "map_of cache pat = None" and "compiles (translate pat)" and "length cache < MAXCACHE"
  shows "cache_inv (AList.update pat (translate pat) cache)"
proof -
  have "AList.update pat (translate pat) cache = cache @ [(pat, translate pat)]"
    using assms(2) by (intro update_new) (simp add: map_of_eq_None_iff)
  then show ?thesis using assms by (auto simp: cache_inv_def map_of_eq_None_iff)
qed

lemma fnmatchcase_cache:
  assumes "cache_inv cache"
  shows "fst (fnmatchcase name pat cache) = fnmatch_re name pat" "cache_inv (snd (fnmatchcase name pat cache))"
  using assms cache_inv_lookup [OF assms, of pat] cache_inv_add [of _ pat] cache_inv_add [of "[]" pat]
  by (auto simp: fnmatchcase_def fnmatch_re_def Let_def MAXCACHE_def split: option.split)

lemma reachable_cache_inv: "reachable_cache cache \<Longrightarrow> cache_inv cache"
  by (induction rule: reachable_cache.induct) (simp_all add: fnmatch_def fnmatchcase_cache)

text \<open>
  The interface of a memoised function: calls keep the invariant of the cache and answer as
  the function does. Then so does every sequence of calls.
\<close>

fun run_calls :: "('q \<Rightarrow> 'c \<Rightarrow> 'a \<times> 'c) \<Rightarrow> 'q list \<Rightarrow> 'c \<Rightarrow> 'a list \<times> 'c" where
  "run_calls call [] c = ([], c)"
| "run_calls call (q # qs) c = (let (a, c1) = call q c; (as, c2) = run_calls call qs c1 in (a # as, c2))"

locale memoised =
  fixes call :: "'q \<Rightarrow> 'c \<Rightarrow> 'a \<times> 'c" and inv :: "'c \<Rightarrow> bool" and answer :: "'q \<Rightarrow> 'a"
  assumes call_answer: "inv c \<Longrightarrow> fst (call q c) = answer q"
    and call_inv: "inv c \<Longrightarrow> inv (snd (call q c))"
begin

lemma run_calls_answers: "inv c \<Longrightarrow> fst (run_calls call qs c) = map answer qs \<and> inv (snd (run_calls call qs c))"
proof (induction qs arbitrary: c)
  case (Cons q qs)
  obtain c1 as c2 where r: "call q c = (answer q, c1)" "run_calls call qs c1 = (as, c2)"
    using call_answer [OF Cons.prems, of q] by (metis prod.collapse)
  with Cons.IH [of c1] call_inv [OF Cons.prems, of q] show ?case by simp
qed simp

end

interpretation fn: memoised "\<lambda>(name, pat). fnmatch name pat" cache_inv "\<lambda>(name, pat). fnmatch_re (py_lower name) (py_lower pat)"
  by unfold_locales (auto simp: fnmatch_def fnmatchcase_cache)

text \<open>C31: Whatever calls came before, the cache of compiled patterns holds at most 100 entries, each
  of them the translation of its pattern, and all further calls answer as if there were no cache.\<close>

theorem cache_transparent:
  assumes "reachable_cache cache"
  shows "length cache \<le> 100 \<and> (\<forall>(pat, r) \<in> set cache. r = translate pat)
    \<and> fst (run_calls (\<lambda>(name, pat). fnmatch name pat) qs cache)
      = map (\<lambda>(name, pat). fnmatch_re (py_lower name) (py_lower pat)) qs"
  using reachable_cache_inv [OF assms] fn.run_calls_answers [of cache qs]
  by (auto simp: cache_inv_def MAXCACHE_def)

theorem cache_transparent_witness:
  "fst (run_calls (\<lambda>(name, pat). fnmatch name pat) [(''a.txt'', ''*.txt''), (''a.txt'', ''b'')] (snd (fnmatch ''b'' ''*.txt'' [])))
    = [fnmatch_re ''a.txt'' ''*.txt'', fnmatch_re ''a.txt'' ''b'']"
proof -
  have "reachable_cache (snd (fnmatch ''b'' ''*.txt'' []))" by (intro reachable_cache.intros)
  from cache_transparent [OF this, of "[(''a.txt'', ''*.txt''), (''a.txt'', ''b'')]"] show ?thesis
    by (simp add: py_lower_def lower_char_def is_upper_ascii_def)
qed

section \<open>What the expressions match\<close>

fun denote :: "item \<Rightarrow> string set" where
  "denote ManyNoSlash = {w. CHR ''/'' \<notin> set w}"
| "denote ManyAny = {w. CHR 0x0A \<notin> set w}"
| "denote Dirs = {[]} \<union> {w @ ''/'' |w. CHR 0x0A \<notin> set w}"
| "denote i = {[x] |x. one_char i x}"

text \<open>An expression matches the texts that are made of one word per item, and possibly a newline.\<close>

definition words :: "item list \<Rightarrow> string set" where
  "words r = {concat ws @ e |ws e. list_all2 (\<lambda>w i. w \<in> denote i) ws r \<and> e \<in> {[], [CHR 0x0A]}}"

lemma words_Nil: "words [] = {[], [CHR 0x0A]}"
  by (auto simp: words_def)

lemma words_Cons: "s \<in> words (i # r) \<longleftrightarrow> (\<exists>w v. s = w @ v \<and> w \<in> denote i \<and> v \<in> words r)"
proof
  assume "s \<in> words (i # r)"
  then obtain w ws e where "s = concat (w # ws) @ e" "w \<in> denote i" "list_all2 (\<lambda>w i. w \<in> denote i) ws r"
    "e \<in> {[], [CHR 0x0A]}"
    unfolding words_def mem_Collect_eq list_all2_Cons2 by blast
  then have "s = w @ (concat ws @ e)" "w \<in> denote i" "concat ws @ e \<in> words r" by (auto simp: words_def)
  then show "\<exists>w v. s = w @ v \<and> w \<in> denote i \<and> v \<in> words r" by blast
next
  assume "\<exists>w v. s = w @ v \<and> w \<in> denote i \<and> v \<in> words r"
  then obtain w ws e where "s = w @ concat ws @ e" "w \<in> denote i" "list_all2 (\<lambda>w i. w \<in> denote i) ws r"
    "e \<in> {[], [CHR 0x0A]}"
    unfolding words_def mem_Collect_eq by blast
  then have "s = concat (w # ws) @ e" "list_all2 (\<lambda>w i. w \<in> denote i) (w # ws) (i # r)" "e \<in> {[], [CHR 0x0A]}"
    by simp_all
  then show "s \<in> words (i # r)" unfolding words_def by blast
qed

text \<open>A word of a repeated set of characters, one character at a time.\<close>

lemma repeated_step:
  assumes "\<And>x t. s = x # t \<Longrightarrow> (\<exists>w v. t = w @ v \<and> c \<notin> set w \<and> P v) \<longleftrightarrow> Q t"
  shows "(\<exists>w v. s = w @ v \<and> c \<notin> set w \<and> P v) \<longleftrightarrow> P s \<or> (case s of [] \<Rightarrow> False | x # t \<Rightarrow> x \<noteq> c \<and> Q t)"
proof (cases s)
  case (Cons x t)
  have "(\<exists>w v. x # t = w @ v \<and> c \<notin> set w \<and> P v) \<longleftrightarrow> P (x # t) \<or> (x \<noteq> c \<and> (\<exists>w v. t = w @ v \<and> c \<notin> set w \<and> P v))"
  proof
    assume "\<exists>w v. x # t = w @ v \<and> c \<notin> set w \<and> P v"
    then obtain w v where "x # t = w @ v" "c \<notin> set w" "P v" by blast
    then show "P (x # t) \<or> (x \<noteq> c \<and> (\<exists>w v. t = w @ v \<and> c \<notin> set w \<and> P v))" by (cases w) auto
  next
    assume "P (x # t) \<or> (x \<noteq> c \<and> (\<exists>w v. t = w @ v \<and> c \<notin> set w \<and> P v))"
    then show "\<exists>w v. x # t = w @ v \<and> c \<notin> set w \<and> P v"
    proof
      assume "P (x # t)"
      then show ?thesis by (metis append_Nil empty_iff list.set(1))
    next
      assume "x \<noteq> c \<and> (\<exists>w v. t = w @ v \<and> c \<notin> set w \<and> P v)"
      then obtain w v where "x # t = (x # w) @ v" "c \<notin> set (x # w)" "P v" by auto
      then show ?thesis by blast
    qed
  qed
  with assms [OF Cons] Cons show ?thesis by simp
qed simp

lemma rdirs_iff:
  assumes "\<And>t. rmatch r t \<longleftrightarrow> t \<in> words r"
  shows "rdirs r s \<longleftrightarrow> (\<exists>w v. s = w @ v \<and> CHR 0x0A \<notin> set w \<and> (\<exists>t. v = CHR ''/'' # t \<and> t \<in> words r))"
proof (induction s)
  case (Cons x s)
  have "(\<exists>w v. x # s = w @ v \<and> CHR 0x0A \<notin> set w \<and> (\<exists>t. v = CHR ''/'' # t \<and> t \<in> words r))
    \<longleftrightarrow> (\<exists>t. x # s = CHR ''/'' # t \<and> t \<in> words r) \<or> (case x # s of [] \<Rightarrow> False | x # t \<Rightarrow> x \<noteq> CHR 0x0A \<and> rdirs r t)"
    using Cons.IH by (intro repeated_step) auto
  then show ?case using assms by auto
qed simp

lemma rdirs_words:
  assumes "\<And>t. rmatch r t \<longleftrightarrow> t \<in> words r"
  shows "rdirs r s \<longleftrightarrow> (\<exists>w t. s = w @ CHR ''/'' # t \<and> CHR 0x0A \<notin> set w \<and> t \<in> words r)"
  unfolding rdirs_iff [OF assms] by blast

lemma words_Dirs: "s \<in> words (Dirs # r) \<longleftrightarrow> s \<in> words r
    \<or> (\<exists>w t. s = w @ CHR ''/'' # t \<and> CHR 0x0A \<notin> set w \<and> t \<in> words r)"
proof -
  have "(\<exists>w v. s = w @ v \<and> (w = [] \<or> (\<exists>u. w = u @ ''/'' \<and> P u)) \<and> Q v)
    \<longleftrightarrow> Q s \<or> (\<exists>w t. s = w @ CHR ''/'' # t \<and> P w \<and> Q t)" for P Q
    by (metis append.assoc append_Cons append_Nil)
  from this [of "\<lambda>u. CHR 0x0A \<notin> set u" "\<lambda>v. v \<in> words r"] show ?thesis by (auto simp: words_Cons)
qed

lemma words_one:
  assumes "denote i = {[x] |x. one_char i x}"
  shows "s \<in> words (i # r) \<longleftrightarrow> (case s of [] \<Rightarrow> False | x # t \<Rightarrow> one_char i x \<and> t \<in> words r)"
proof (cases s)
  case (Cons x t)
  have "(\<exists>w v. x # t = w @ v \<and> (\<exists>y. w = [y] \<and> P y) \<and> Q v) \<longleftrightarrow> P x \<and> Q t" for P Q
    by (metis append_Cons append_Nil list.inject)
  then show ?thesis unfolding Cons words_Cons assms by simp
qed (auto simp: words_Cons assms)

lemma rmatch_words: "rmatch r s \<longleftrightarrow> s \<in> words r"
proof (induction r arbitrary: s)
  case (Cons i r)
  note IH = this
  have many: "rmatch (i # r) s \<longleftrightarrow> (\<exists>w v. s = w @ v \<and> c \<notin> set w \<and> v \<in> words r)"
    if i: "(i = ManyNoSlash \<and> c = CHR ''/'') \<or> (i = ManyAny \<and> c = CHR 0x0A)" for s c
  proof (induction s)
    case (Cons x t)
    have "(\<exists>w v. x # t = w @ v \<and> c \<notin> set w \<and> v \<in> words r)
      \<longleftrightarrow> x # t \<in> words r \<or> (case x # t of [] \<Rightarrow> False | x # t \<Rightarrow> x \<noteq> c \<and> rmatch (i # r) t)"
      using Cons by (intro repeated_step) auto
    moreover have "rmatch (i # r) (x # t) \<longleftrightarrow> x # t \<in> words r \<or> (x \<noteq> c \<and> rmatch (i # r) t)"
      using i by (elim disjE conjE) (simp_all add: IH)
    ultimately show ?case by simp
  qed (use i in \<open>auto simp: IH\<close>)
  show ?case
  proof (cases i)
    case Dirs
    then show ?thesis by (simp add: IH words_Dirs rdirs_words)
  next
    case ManyNoSlash
    then show ?thesis using many [of "CHR ''/''" s] by (simp add: words_Cons)
  next
    case ManyAny
    then show ?thesis using many [of "CHR 0x0A" s] by (simp add: words_Cons)
  qed (simp_all add: words_one IH split: list.split)
qed (simp add: words_Nil)

section \<open>Patterns of names\<close>

text \<open>Characters that stand for themselves in a pattern.\<close>

definition plain :: "string \<Rightarrow> bool" where
  "plain s \<longleftrightarrow> set s \<inter> {CHR ''*'', CHR ''?'', CHR ''['', CHR 0x0A} = {}"

lemma translate_plain_append: "plain p \<Longrightarrow> translate (p @ q) = map Lit p @ translate q"
  by (induction p) (auto simp: plain_def)

lemma compiles_append [simp]: "compiles (r @ r') \<longleftrightarrow> compiles r \<and> compiles r'" "compiles (map Lit p)"
  by (auto simp: compiles_def list_all_iff)

lemma rmatch_Lits: "rmatch (map Lit p @ r) s \<longleftrightarrow> (\<exists>t. s = p @ t \<and> rmatch r t)"
proof (induction p arbitrary: s)
  case (Cons c p)
  then show ?case by (cases s) auto
qed simp

lemma rmatch_plain: "CHR 0x0A \<notin> set s \<Longrightarrow> rmatch (map Lit p) s \<longleftrightarrow> s = p"
  using rmatch_Lits [of p "[]" s] by auto

lemma lower_char_eq: "lower_char a = c \<Longrightarrow> code c < (65 :: nat) \<or> c = CHR ''['' \<Longrightarrow> a = c"
proof (rule ccontr)
  assume c: "lower_char a = c" "code c < (65 :: nat) \<or> c = CHR ''[''" and "a \<noteq> c"
  then have up: "is_upper_ascii a \<or> (192 \<le> (code a :: nat) \<and> code a \<le> (222 :: nat))" and "c = char_of (code a + 32 :: nat)"
    by (auto simp: lower_char_def split: if_splits)
  then have "code c = (code a + 32 :: nat)" by (auto simp: is_upper_ascii_def)
  with up have "97 \<le> (code c :: nat)" by (auto simp: is_upper_ascii_def)
  with c(2) show False by auto
qed

lemma mem_py_lower:
  assumes "c \<in> set (py_lower p)" and "code c < (65 :: nat) \<or> c = CHR ''[''"
  shows "c \<in> set p"
proof -
  from assms(1) obtain a where "a \<in> set p" "lower_char a = c" by (metis imageE image_set py_lower_def)
  with lower_char_eq [OF _ assms(2)] show ?thesis by metis
qed

lemma py_lower_plain: "plain p \<Longrightarrow> plain (py_lower p)"
  using mem_py_lower [of "CHR ''*''" p] mem_py_lower [of "CHR ''?''" p] mem_py_lower [of "CHR ''[''" p]
    mem_py_lower [of "CHR 0x0A" p]
  by (simp add: plain_def) blast

lemma newline_free_lower: "CHR 0x0A \<notin> set p \<Longrightarrow> CHR 0x0A \<notin> set (py_lower p)"
  using mem_py_lower [of "CHR 0x0A" p] by simp blast

text \<open>A pattern \<open>**/\<close> followed by a plain name matches exactly the paths that are the name or end
  with a slash and the name, in any depth and whatever the case of the letters; a plain name alone
  matches only itself.\<close>

theorem double_star_any_depth:
  assumes "plain name" and "name \<noteq> []" and "CHR 0x0A \<notin> set path"
  shows "fnmatch_re (py_lower path) (py_lower name) = Inr (py_lower path = py_lower name)
    \<and> fnmatch_re (py_lower path) (py_lower (''**/'' @ name))
      = Inr (py_lower path = py_lower name \<or> (\<exists>dirs. py_lower path = dirs @ ''/'' @ py_lower name))"
proof -
  let ?n = "py_lower name" and ?p = "py_lower path"
  have n: "translate ?n = map Lit ?n" and plain: "plain ?n"
    using translate_plain_append [OF py_lower_plain [OF assms(1)], of "[]"] py_lower_plain [OF assms(1)] by simp_all
  have nl: "CHR 0x0A \<notin> set ?p" by (rule newline_free_lower [OF assms(3)])
  have "translate (''**/'' @ ?n) = Dirs # map Lit ?n" using assms(2) by (simp add: eat_slash_def n)
  moreover have "py_lower (''**/'' @ name) = ''**/'' @ ?n" by (simp add: py_lower_def lower_char_def is_upper_ascii_def)
  moreover have "rmatch (Dirs # map Lit ?n) ?p \<longleftrightarrow> ?p = ?n \<or> (\<exists>dirs. ?p = dirs @ ''/'' @ ?n)"
  proof -
    have "rdirs (map Lit ?n) ?p \<longleftrightarrow> (\<exists>dirs. ?p = dirs @ ''/'' @ ?n)" (is "_ \<longleftrightarrow> ?R")
    proof
      assume "rdirs (map Lit ?n) ?p"
      then obtain w t where "?p = w @ CHR ''/'' # t" "rmatch (map Lit ?n) t"
        unfolding rdirs_words [OF rmatch_words] by (auto simp: rmatch_words)
      with nl have "?p = w @ CHR ''/'' # ?n" using rmatch_plain [of t ?n] by auto
      then show ?R by auto
    next
      assume ?R
      then obtain dirs where d: "?p = dirs @ CHR ''/'' # ?n" by auto
      with nl have "CHR 0x0A \<notin> set dirs" "CHR 0x0A \<notin> set ?n" by auto
      then show "rdirs (map Lit ?n) ?p"
        unfolding rdirs_words [OF rmatch_words] d rmatch_words [symmetric] using rmatch_plain [of ?n ?n] by blast
    qed
    then show ?thesis using nl by (simp add: rmatch_plain)
  qed
  moreover have "compiles (Dirs # map Lit ?n)" using compiles_append(2) by (simp add: compiles_def)
  ultimately show ?thesis using nl by (simp add: fnmatch_re_def n rmatch_plain)
qed

theorem double_star_any_depth_witness:
  "fnmatch_re ''docs/api/readme.md'' ''**/readme.md'' = Inr True \<and> fnmatch_re ''docs/readme.md'' ''readme.md'' = Inr False"
proof -
  have "plain ''readme.md''" by (simp add: plain_def)
  note any_depth = double_star_any_depth [OF this]
  have lower: "py_lower ''docs/api/readme.md'' = ''docs/api/readme.md''" "py_lower ''docs/readme.md'' = ''docs/readme.md''"
    "py_lower ''readme.md'' = ''readme.md''" "py_lower ''**/readme.md'' = ''**/readme.md''"
    by (simp_all add: py_lower_def lower_char_def is_upper_ascii_def)
  have "''docs/api/readme.md'' = ''docs/api'' @ ''/'' @ ''readme.md''" by simp
  then have "\<exists>dirs. ''docs/api/readme.md'' = dirs @ ''/'' @ ''readme.md''" by blast
  then show ?thesis using any_depth [of "''docs/api/readme.md''"] any_depth [of "''docs/readme.md''"] by (simp add: lower)
qed

end
