(* ===== verification/DockerBuild.thy ===== *)
theory DockerBuild
  imports DockerFnmatch
begin

text \<open>
  What goes into a build context (\<open>_api/utils/build.py\<close>): the patterns of \<open>.dockerignore\<close>,
  their matcher, the walk over the directory and the entries of the archive. Paths are
  POSIX paths (\<open>IS_WINDOWS_PLATFORM\<close> is false). A call of \<open>fnmatch\<close> is \<open>fnmatch_re\<close> on the
  texts in lower case: \<open>cache_transparent\<close> shows that the cache never changes the answer.
\<close>

section \<open>Patterns\<close>

definition split_path :: "string \<Rightarrow> string list" where
  "split_path p = filter (\<lambda>pt. pt \<noteq> [] \<and> pt \<noteq> ''.'') (split_on (CHR ''/'') p)"

text \<open>The loop of \<open>Pattern.normalize\<close>: \<open>done\<close> is \<open>split[:i]\<close>, the other list \<open>split[i:]\<close>.\<close>

fun normalize_dirs :: "string list \<Rightarrow> string list \<Rightarrow> string list" where
  "normalize_dirs dirs [] = dirs"
| "normalize_dirs dirs (d # ds) =
     (if d = ''..'' then normalize_dirs (butlast dirs) ds else normalize_dirs (dirs @ [d]) ds)"

definition pattern_normalize :: "string \<Rightarrow> string list" where
  "pattern_normalize p = normalize_dirs [] (split_path (py_strip p))"

record pattern =
  pat_exclusion :: bool
  pat_dirs :: "string list"
  cleaned_pattern :: string

definition Pattern :: "string \<Rightarrow> pattern" where
  "Pattern pattern_str =
     (let exclusion = starts_with pattern_str ''!'';
          dirs = pattern_normalize (if exclusion then tl pattern_str else pattern_str)
      in \<lparr>pat_exclusion = exclusion, pat_dirs = dirs, cleaned_pattern = py_join ''/'' dirs\<rparr>)"

definition pattern_match :: "pattern \<Rightarrow> string \<Rightarrow> bool res" where
  "pattern_match self filepath = fnmatch_re (py_lower filepath) (py_lower (cleaned_pattern self))"

section \<open>The matcher\<close>

definition PatternMatcher :: "string list \<Rightarrow> pattern list" where
  "PatternMatcher patterns = filter (\<lambda>p. pat_dirs p \<noteq> []) (map Pattern patterns) @ [Pattern ''!.dockerignore'']"

text \<open>\<open>os.path.dirname\<close>.\<close>

definition dirname :: "string \<Rightarrow> string" where
  "dirname p =
     (let head = rev (dropWhile (\<lambda>c. c \<noteq> CHR ''/'') (rev p))
      in if list_all (\<lambda>c. c = CHR ''/'') head then head else rstrip_by (\<lambda>c. c = CHR ''/'') head)"

text \<open>A pattern hits a path directly or by matching the leading directories of its parent.\<close>

definition pattern_hits :: "string \<Rightarrow> pattern \<Rightarrow> bool res" where
  "pattern_hits filepath pat =
     (let parent_path = dirname filepath; parent_path_dirs = split_path parent_path in
      bindR (pattern_match pat filepath) (\<lambda>m.
        if \<not> m \<and> parent_path \<noteq> [] \<and> length (pat_dirs pat) \<le> length parent_path_dirs then
          pattern_match pat (py_join ''/'' (take (length (pat_dirs pat)) parent_path_dirs))
        else Inr m))"

definition matches :: "pattern list \<Rightarrow> string \<Rightarrow> bool res" where
  "matches patterns filepath = foldR (\<lambda>matched pat.
     bindR (pattern_hits filepath pat) (\<lambda>m. Inr (if m then \<not> pat_exclusion pat else matched))) False patterns"

section \<open>The walk\<close>

text \<open>A directory as \<open>os.listdir\<close> lists it; a link is never entered, whatever it points to.\<close>

datatype fs_node = FileNode | LinkNode | DirNode "(string \<times> fs_node) list"

text \<open>An excludes pattern that starts with the path keeps its directory from being skipped.\<close>

definition keeps_dir :: "pattern list \<Rightarrow> string \<Rightarrow> bool" where
  "keeps_dir patterns fpath \<longleftrightarrow> list_ex (\<lambda>pat. pat_exclusion pat \<and> starts_with (cleaned_pattern pat) fpath) patterns"

definition join_path :: "string \<Rightarrow> string \<Rightarrow> string" where
  "join_path dir f = (if dir = [] then f else dir @ ''/'' @ f)"

fun walk_entry :: "pattern list \<Rightarrow> string \<Rightarrow> string \<times> fs_node \<Rightarrow> string list res" where
  "walk_entry patterns dir (f, node) =
     (let fpath = join_path dir f in
      bindR (matches patterns fpath) (\<lambda>m.
      bindR (case node of
          DirNode entries \<Rightarrow>
            if m \<and> \<not> keeps_dir patterns fpath then Inr []
            else bindR (mapR (walk_entry patterns fpath) entries) (\<lambda>subs. Inr (concat subs))
        | _ \<Rightarrow> Inr []) (\<lambda>sub.
        Inr ((if m then [] else [fpath]) @ sub))))"

definition pm_walk :: "pattern list \<Rightarrow> (string \<times> fs_node) list \<Rightarrow> string list res" where
  "pm_walk patterns root = bindR (mapR (walk_entry patterns []) root) (\<lambda>subs. Inr (concat subs))"

definition exclude_paths :: "(string \<times> fs_node) list \<Rightarrow> string list \<Rightarrow> string option \<Rightarrow> string set res" where
  "exclude_paths root patterns dockerfile =
     bindR (pm_walk (PatternMatcher (patterns @ [CHR ''!'' # (case dockerfile of Some d \<Rightarrow> d | None \<Rightarrow> ''Dockerfile'')])) root)
       (\<lambda>paths. Inr (set paths))"

section \<open>The archive\<close>

datatype archive_entry = FromContext string | ExtraFile string string

text \<open>The entries of the archive in their order: the files by name, then the extra files.\<close>

definition create_archive :: "string list \<Rightarrow> (string \<times> string) list \<Rightarrow> archive_entry list" where
  "create_archive files extra_files =
     map FromContext (filter (\<lambda>path. path \<notin> set (map fst extra_files)) files)
       @ map (\<lambda>(name, contents). ExtraFile name contents) extra_files"

definition extra_files_of :: "string list \<Rightarrow> string option \<times> string option \<Rightarrow> (string \<times> string) list res" where
  "extra_files_of exclude dockerfile = (case dockerfile of
      (_, None) \<Rightarrow> Inr []
    | (None, Some _) \<Rightarrow> Inl TypeError
    | (Some name, Some contents) \<Rightarrow> Inr
        [(''.dockerignore'', py_join [CHR 0x0A] ((if exclude = [] then [''.dockerignore''] else exclude) @ [name])),
         (name, contents)])"

definition tar :: "(string \<times> fs_node) list \<Rightarrow> string list \<Rightarrow> string option \<times> string option \<Rightarrow> archive_entry list res" where
  "tar root exclude dockerfile =
     bindR (extra_files_of exclude dockerfile) (\<lambda>extra_files.
     bindR (exclude_paths root exclude (fst dockerfile)) (\<lambda>paths.
       Inr (create_archive (sorted_list_of_set paths) extra_files)))"

section \<open>The last pattern that hits decides\<close>

lemma last_match_wins_aux:
  assumes "\<And>p. p \<in> set patterns \<Longrightarrow> pattern_hits filepath p = Inr (hit p)"
  shows "matches patterns filepath
    = Inr (case find hit (rev patterns) of None \<Rightarrow> False | Some p \<Rightarrow> \<not> pat_exclusion p)"
  using assms
proof (induction patterns rule: rev_induct)
  case (snoc p patterns)
  then show ?case by (simp add: matches_def foldR_append)
qed (simp add: matches_def)

text \<open>Of the patterns that hit a path, the last one decides whether it is excluded; a path that no
  pattern hits is not.\<close>

theorem last_match_wins:
  assumes "\<And>p. p \<in> set patterns \<Longrightarrow> pattern_hits filepath p = Inr (hit p)"
  shows "matches patterns filepath
    = Inr (case find hit (rev patterns) of None \<Rightarrow> False | Some p \<Rightarrow> \<not> pat_exclusion p)"
  using assms by (rule last_match_wins_aux)

theorem last_match_wins_witness:
  "matches [Pattern ''a'', Pattern ''!a''] ''a'' = Inr False"
proof -
  let ?p = "\<lambda>e. \<lparr>pat_exclusion = e, pat_dirs = [''a''], cleaned_pattern = ''a''\<rparr>"
  have "Pattern ''a'' = ?p False" "Pattern ''!a'' = ?p True"
    by (simp_all add: Pattern_def pattern_normalize_def split_path_def py_strip_def lstrip_by_def rstrip_by_def is_space_def)
  moreover have "pattern_hits ''a'' (?p e) = Inr True" for e
    by (simp add: pattern_hits_def pattern_match_def fnmatch_re_def compiles_def py_lower_def lower_char_def is_upper_ascii_def)
  ultimately show ?thesis
    by (subst last_match_wins [where hit = "\<lambda>_. True"]) auto
qed

section \<open>What the walk returns\<close>

definition matched :: "pattern list \<Rightarrow> string \<Rightarrow> bool" where
  "matched patterns filepath \<longleftrightarrow> matches patterns filepath = Inr True"

definition all_compile :: "pattern list \<Rightarrow> bool" where
  "all_compile patterns \<longleftrightarrow> list_all (\<lambda>p. compiles (translate (py_lower (cleaned_pattern p)))) patterns"

lemma pattern_match_ok: "all_compile patterns \<Longrightarrow> p \<in> set patterns \<Longrightarrow> \<exists>b. pattern_match p filepath = Inr b"
  by (auto simp: all_compile_def list_all_iff pattern_match_def fnmatch_re_def)

lemma pattern_hits_ok: "all_compile patterns \<Longrightarrow> p \<in> set patterns \<Longrightarrow> \<exists>b. pattern_hits filepath p = Inr b"
proof -
  assume "all_compile patterns" "p \<in> set patterns"
  note ok = pattern_match_ok [OF this]
  obtain b where "pattern_match p filepath = Inr b" using ok by blast
  moreover obtain b' where "pattern_match p (py_join ''/'' (take (length (pat_dirs p)) (split_path (dirname filepath)))) = Inr b'"
    using ok by blast
  ultimately show ?thesis by (simp add: pattern_hits_def Let_def)
qed

lemma matches_ok:
  assumes "all_compile patterns"
  shows "matches patterns filepath = Inr (matched patterns filepath)"
proof -
  have "pattern_hits filepath p = Inr (pattern_hits filepath p = Inr True)" if "p \<in> set patterns" for p
    using pattern_hits_ok [OF assms that, of filepath] by (elim exE) (case_tac b; simp)
  from last_match_wins_aux [OF this] show ?thesis by (simp add: matched_def)
qed

text \<open>Every path of the directory with the directories above it.\<close>

fun listed :: "string \<Rightarrow> string \<times> fs_node \<Rightarrow> (string \<times> string list) list" where
  "listed dir (f, node) =
     (join_path dir f, []) # (case node of
        DirNode entries \<Rightarrow> map (\<lambda>(p, ups). (p, join_path dir f # ups)) (concat (map (listed (join_path dir f)) entries))
      | _ \<Rightarrow> [])"

definition in_context :: "pattern list \<Rightarrow> string \<times> string list \<Rightarrow> bool" where
  "in_context patterns e \<longleftrightarrow> \<not> matched patterns (fst e)
     \<and> list_all (\<lambda>d. matched patterns d \<longrightarrow> keeps_dir patterns d) (snd e)"

lemma in_context_below:
  "in_context patterns (p, d # ups) \<longleftrightarrow> in_context patterns (p, ups) \<and> (matched patterns d \<longrightarrow> keeps_dir patterns d)"
  by (auto simp: in_context_def)

lemma filter_below:
  "map fst (filter (in_context patterns) (map (\<lambda>(p, ups). (p, d # ups)) ls))
    = (if matched patterns d \<and> \<not> keeps_dir patterns d then [] else map fst (filter (in_context patterns) ls))"
  by (induction ls) (auto simp: in_context_below)

lemma walk_entry_listed:
  "all_compile patterns \<Longrightarrow> walk_entry patterns dir e = Inr (map fst (filter (in_context patterns) (listed dir e)))"
proof (induction dir e rule: listed.induct)
  case (1 dir f node)
  have own: "in_context patterns (join_path dir f, []) \<longleftrightarrow> \<not> matched patterns (join_path dir f)"
    by (simp add: in_context_def)
  show ?case
  proof (cases node)
    case (DirNode entries)
    have "mapR (walk_entry patterns (join_path dir f)) entries
      = Inr (map (\<lambda>e. map fst (filter (in_context patterns) (listed (join_path dir f) e))) entries)"
      using 1 DirNode by (intro mapR_Inr) auto
    then show ?thesis
      by (cases "keeps_dir patterns (join_path dir f)")
         (simp_all add: DirNode matches_ok [OF "1.prems"] own filter_below filter_concat map_concat comp_def Let_def)
  qed (simp_all add: matches_ok [OF "1.prems"] own)
qed

lemma walk_exact_aux:
  assumes "all_compile patterns"
  shows "pm_walk patterns root = Inr (map fst (filter (in_context patterns) (concat (map (listed []) root))))"
proof -
  have "mapR (walk_entry patterns []) root = Inr (map (\<lambda>e. map fst (filter (in_context patterns) (listed [] e))) root)"
    using walk_entry_listed [OF assms] by (intro mapR_Inr)
  then show ?thesis by (simp add: pm_walk_def filter_concat map_concat comp_def)
qed

text \<open>C5: The walk lists, in the order of the directories, exactly the paths that are not excluded and
  lie in no skipped directory: one that is excluded and that no exception pattern starts with.\<close>

theorem walk_exact:
  assumes "all_compile patterns"
  shows "pm_walk patterns root = Inr (map fst (filter (in_context patterns) (concat (map (listed []) root))))"
  using assms by (rule walk_exact_aux)

theorem walk_exact_witness:
  "pm_walk (PatternMatcher []) [(''src'', DirNode [(''a.py'', FileNode)]), (''link'', LinkNode)]
    = Inr (map fst (filter (in_context (PatternMatcher []))
        [(''src'', []), (''src/a.py'', [''src'']), (''link'', [])]))"
proof -
  have "all_compile (PatternMatcher [])"
    by (simp add: all_compile_def PatternMatcher_def Pattern_def pattern_normalize_def split_path_def py_strip_def
        lstrip_by_def rstrip_by_def is_space_def compiles_def py_lower_def lower_char_def is_upper_ascii_def)
  from walk_exact [OF this] show ?thesis by (simp add: join_path_def)
qed

section \<open>The Dockerfile is always sent\<close>

lemma Pattern_plain:
  "Pattern ''!Dockerfile'' = \<lparr>pat_exclusion = True, pat_dirs = [''Dockerfile''], cleaned_pattern = ''Dockerfile''\<rparr>"
  "Pattern ''!.dockerignore'' = \<lparr>pat_exclusion = True, pat_dirs = [''.dockerignore''], cleaned_pattern = ''.dockerignore''\<rparr>"
  by (simp_all add: Pattern_def pattern_normalize_def split_path_def py_strip_def lstrip_by_def rstrip_by_def is_space_def)

lemma pattern_match_itself:
  "plain f \<Longrightarrow> cleaned_pattern p = f \<Longrightarrow> pattern_match p f = Inr True"
proof -
  assume "plain f" "cleaned_pattern p = f"
  moreover have "CHR 0x0A \<notin> set f" using \<open>plain f\<close> by (auto simp: plain_def)
  moreover have "translate (py_lower f) = map Lit (py_lower f)"
    using translate_plain_append [OF py_lower_plain [OF \<open>plain f\<close>], of "[]"] by simp
  ultimately show ?thesis by (simp add: pattern_match_def fnmatch_re_def rmatch_plain newline_free_lower)
qed

lemma matches_exception:
  assumes "matches (ps @ qs) f = Inr b" and "d \<in> set qs" and "list_all pat_exclusion qs" and "pattern_match d f = Inr True"
  shows "\<not> b"
proof -
  have hit: "pattern_hits f d = Inr True" using assms(4) by (simp add: pattern_hits_def Let_def)
  have "foldR (\<lambda>matched pat. bindR (pattern_hits f pat) (\<lambda>m. Inr (if m then \<not> pat_exclusion pat else matched))) a qs = Inr b
    \<Longrightarrow> (\<not> a \<or> d \<in> set qs) \<Longrightarrow> \<not> b" for a
    using assms(3)
  proof (induction qs arbitrary: a)
    case (Cons q qs)
    then show ?case using hit by (cases "q = d") (auto simp: bindR_eq_Inr split: if_splits)
  qed simp
  then show ?thesis using assms(1,2) by (auto simp: matches_def foldR_append bindR_eq_Inr)
qed

lemma PatternMatcher_default:
  "PatternMatcher (patterns @ [''!Dockerfile''])
    = filter (\<lambda>p. pat_dirs p \<noteq> []) (map Pattern patterns) @ [Pattern ''!Dockerfile'', Pattern ''!.dockerignore'']"
  by (simp add: PatternMatcher_def Pattern_plain)

text \<open>Whatever the patterns say, the \<open>Dockerfile\<close> and the \<open>.dockerignore\<close> file of the directory are
  part of the context.\<close>

theorem dockerfile_sent:
  assumes "exclude_paths root patterns None = Inr S" and "(f, node) \<in> set root" and "f \<in> {''Dockerfile'', ''.dockerignore''}"
  shows "f \<in> S"
proof -
  let ?pm = "PatternMatcher (patterns @ [''!Dockerfile''])"
  from assms(1) obtain subs where subs: "mapR (walk_entry ?pm []) root = Inr subs" "S = set (concat subs)"
    by (auto simp: exclude_paths_def pm_walk_def bindR_eq_Inr)
  obtain ys where ys: "ys \<in> set subs" "walk_entry ?pm [] (f, node) = Inr ys"
    using mapR_Inr_memD [OF subs(1) assms(2)] by blast
  then obtain b where b: "matches ?pm f = Inr b" by (auto simp: bindR_eq_Inr Let_def join_path_def)
  let ?qs = "[Pattern ''!Dockerfile'', Pattern ''!.dockerignore'']"
  have "\<exists>d \<in> set ?qs. pattern_match d f = Inr True"
    using assms(3) by (auto simp: Pattern_plain plain_def intro: pattern_match_itself)
  then obtain d where d: "d \<in> set ?qs" "pattern_match d f = Inr True" by blast
  have "list_all pat_exclusion ?qs" by (simp add: Pattern_plain)
  from matches_exception [OF b [unfolded PatternMatcher_default] d(1) this d(2)] have "\<not> b" .
  then have "f \<in> set ys" using ys(2) b by (auto simp: bindR_eq_Inr Let_def join_path_def)
  then show ?thesis using subs(2) ys(1) by auto
qed

lemma compiles_plain: "plain n \<Longrightarrow> compiles (translate (py_lower n))"
  using translate_plain_append [OF py_lower_plain, of n "[]"] by simp

theorem dockerfile_sent_witness:
  "\<exists>S. exclude_paths [(''Dockerfile'', FileNode), (''a'', FileNode)] [''*''] None = Inr S \<and> ''Dockerfile'' \<in> S"
proof -
  have "Pattern ''*'' = \<lparr>pat_exclusion = False, pat_dirs = [''*''], cleaned_pattern = ''*''\<rparr>"
    by (simp add: Pattern_def pattern_normalize_def split_path_def py_strip_def lstrip_by_def rstrip_by_def is_space_def)
  then have "all_compile (PatternMatcher ([''*''] @ [''!Dockerfile'']))"
    unfolding PatternMatcher_default using compiles_plain [of "''Dockerfile''"] compiles_plain [of "''.dockerignore''"]
    by (simp add: all_compile_def Pattern_plain plain_def) (simp add: compiles_def py_lower_def lower_char_def is_upper_ascii_def)
  from walk_exact_aux [OF this] obtain S where
    "exclude_paths [(''Dockerfile'', FileNode), (''a'', FileNode)] [''*''] None = Inr S"
    by (auto simp: exclude_paths_def)
  with dockerfile_sent [OF this, of "''Dockerfile''" FileNode] show ?thesis by auto
qed

end
