(* ===== verification/PyIO.thy ===== *)
theory PyIO
  imports PyString
begin

text \<open>
  Code that talks to the outside world. A computation takes the history of what has been
  done so far (\<open>event list\<close>) and returns its value or exception with the longer history.
  The world itself (the API server, the clock, the installed libraries, the parts of the
  Kubernetes client and of Ansible that are not in the repository) is the parameter \<open>W\<close>:
  what it answers may depend on the whole history. The dynamic client's objects are
  represented by the dictionaries they wrap, and what an object \<open>x\<close> answers to \<open>x.k\<close>,
  \<open>x[k]\<close> and \<open>x.get(k)\<close> is the world's \<open>w_field\<close>, \<open>w_item\<close> and \<open>w_get\<close>. Any other call
  out of the repository is an \<open>Ext\<close> event with its name and arguments, answered by
  \<open>w_ext\<close>.
\<close>

record resource =
  res_kind :: string
  res_group_version :: string
  res_namespaced :: bool

datatype verb = Get | Create | Patch | Replace | Delete | ServerApply

datatype event =
    Find "string option" pyval string pyval
  | Call verb resource pyval dict
  | Monotonic
  | Sleep int
  | Warn string
  | Deprecate string
  | Load string
  | Ext string "pyval list"

record world =
  w_find :: "event list \<Rightarrow> string option \<Rightarrow> pyval \<Rightarrow> string \<Rightarrow> pyval \<Rightarrow> resource res"
  w_server :: "event list \<Rightarrow> verb \<Rightarrow> resource \<Rightarrow> pyval \<Rightarrow> dict \<Rightarrow> pyval res"
  w_clock :: "event list \<Rightarrow> int"
  w_text :: "exn \<Rightarrow> string"
  w_field :: "pyval \<Rightarrow> string \<Rightarrow> pyval res"
  w_boolean :: "pyval \<Rightarrow> bool"
  w_versions :: "(string \<times> string) list"
  w_serialize_body :: "dict \<Rightarrow> dict res"
  w_ensure_namespace :: "resource \<Rightarrow> pyval \<Rightarrow> dict \<Rightarrow> pyval res"
  w_dict_merge :: "dict \<Rightarrow> dict \<Rightarrow> dict"
  w_sha256 :: "string \<Rightarrow> string"
  w_to_bytes :: "pyval \<Rightarrow> string"
  w_yaml :: "string \<Rightarrow> pyval list res"
  w_load :: "event list \<Rightarrow> string \<Rightarrow> string res"
  w_cause_reason :: "event list \<Rightarrow> exn \<Rightarrow> string option"
  w_missing_required_lib :: "string \<Rightarrow> string option \<Rightarrow> string"
  w_validate :: "dict \<Rightarrow> pyval \<Rightarrow> pyval \<Rightarrow> (string list \<times> string list) res"
  w_item :: "pyval \<Rightarrow> string \<Rightarrow> pyval res"
  w_get :: "pyval \<Rightarrow> string \<Rightarrow> pyval res"
  w_ext :: "event list \<Rightarrow> string \<Rightarrow> pyval list \<Rightarrow> pyval res"
  w_fuel :: nat

type_synonym 'a io = "event list \<Rightarrow> 'a res \<times> event list"

definition retI :: "'a \<Rightarrow> 'a io" where
  "retI x = (\<lambda>h. (Inr x, h))"

definition raiseI :: "exn \<Rightarrow> 'a io" where
  "raiseI e = (\<lambda>h. (Inl e, h))"

definition liftI :: "'a res \<Rightarrow> 'a io" where
  "liftI r = (\<lambda>h. (r, h))"

definition bindI :: "'a io \<Rightarrow> ('a \<Rightarrow> 'b io) \<Rightarrow> 'b io" where
  "bindI m f = (\<lambda>h. case m h of (Inl e, h') \<Rightarrow> (Inl e, h') | (Inr x, h') \<Rightarrow> f x h')"

text \<open>\<open>try: m except: handler\<close>, where the handler re-raises what it does not catch.\<close>

definition tryI :: "'a io \<Rightarrow> (exn \<Rightarrow> 'a io) \<Rightarrow> 'a io" where
  "tryI m handler = (\<lambda>h. case m h of (Inl e, h') \<Rightarrow> handler e h' | (Inr x, h') \<Rightarrow> (Inr x, h'))"

fun mapI :: "('a \<Rightarrow> 'b io) \<Rightarrow> 'a list \<Rightarrow> 'b list io" where
  "mapI f [] = retI []"
| "mapI f (x # xs) = bindI (f x) (\<lambda>y. bindI (mapI f xs) (\<lambda>ys. retI (y # ys)))"

definition emit :: "event \<Rightarrow> unit io" where
  "emit e = (\<lambda>h. (Inr (), h @ [e]))"

definition call :: "world \<Rightarrow> verb \<Rightarrow> resource \<Rightarrow> pyval \<Rightarrow> dict \<Rightarrow> pyval io" where
  "call W v r body kwargs = (\<lambda>h. (w_server W h v r body kwargs, h @ [Call v r body kwargs]))"

definition find :: "world \<Rightarrow> string option \<Rightarrow> pyval \<Rightarrow> string \<Rightarrow> pyval \<Rightarrow> resource io" where
  "find W prefix api_version attribute v =
     (\<lambda>h. (w_find W h prefix api_version attribute v, h @ [Find prefix api_version attribute v]))"

definition monotonic :: "world \<Rightarrow> int io" where
  "monotonic W = (\<lambda>h. (Inr (w_clock W h), h @ [Monotonic]))"

definition ext :: "world \<Rightarrow> string \<Rightarrow> pyval list \<Rightarrow> pyval io" where
  "ext W name args = (\<lambda>h. (w_ext W h name args, h @ [Ext name args]))"

text \<open>What a computation would raise, as a value: the clauses of a \<open>try\<close> that decide afterwards.\<close>

definition attemptI :: "'a io \<Rightarrow> 'a res io" where
  "attemptI m = (\<lambda>h. case m h of (r, h') \<Rightarrow> (Inr r, h'))"

definition load :: "world \<Rightarrow> string \<Rightarrow> string io" where
  "load W path = (\<lambda>h. (w_load W h path, h @ [Load path]))"

text \<open>The text of an exception: the program's own carry their message.\<close>

definition exn_text :: "world \<Rightarrow> exn \<Rightarrow> string" where
  "exn_text W e = (case e of CoreException m \<Rightarrow> m | ResourceTimeout m _ \<Rightarrow> m | ApplyException m \<Rightarrow> m
     | ValueError m \<Rightarrow> m | PyException m \<Rightarrow> m | _ \<Rightarrow> w_text W e)"

text \<open>What \<open>except Exception\<close> catches, and what \<open>except CoreException\<close> does.\<close>

definition is_Exception :: "exn \<Rightarrow> bool" where
  "is_Exception e = (case e of FailJson _ \<Rightarrow> False | ExitJson _ \<Rightarrow> False | OutOfFuel \<Rightarrow> False | _ \<Rightarrow> True)"

definition is_CoreException :: "exn \<Rightarrow> bool" where
  "is_CoreException e = (case e of CoreException _ \<Rightarrow> True | ResourceTimeout _ _ \<Rightarrow> True | _ \<Rightarrow> False)"

section \<open>What a computation may do\<close>

text \<open>Every event the computation adds to the history satisfies \<open>P\<close>.\<close>

named_theorems io_rules \<open>which events a computation adds\<close>

definition emits :: "(event \<Rightarrow> bool) \<Rightarrow> 'a io \<Rightarrow> bool" where
  "emits P m \<longleftrightarrow> (\<forall>h. \<exists>es. snd (m h) = h @ es \<and> list_all P es)"

lemma emits_ret [io_rules]: "emits P (retI x)"
  by (simp add: emits_def retI_def)

lemma emits_raise [io_rules]: "emits P (raiseI e)"
  by (simp add: emits_def raiseI_def)

lemma emits_lift [io_rules]: "emits P (liftI r)"
  by (simp add: emits_def liftI_def)

lemma emits_bind [io_rules]:
  assumes "emits P m" and "\<And>x. emits P (f x)"
  shows "emits P (bindI m f)"
  unfolding emits_def
proof
  fix h
  obtain r h' where m: "m h = (r, h')" by (cases "m h")
  with assms(1) obtain es where es: "h' = h @ es" "list_all P es"
    unfolding emits_def by (metis snd_conv)
  show "\<exists>es. snd (bindI m f h) = h @ es \<and> list_all P es"
  proof (cases r)
    case (Inr x)
    from assms(2) [of x] obtain es' where "snd (f x h') = h' @ es'" "list_all P es'"
      unfolding emits_def by blast
    with es m Inr show ?thesis by (intro exI [of _ "es @ es'"]) (simp add: bindI_def)
  qed (use es m in \<open>simp add: bindI_def\<close>)
qed

lemma emits_try [io_rules]:
  assumes "emits P m" and "\<And>e. emits P (handler e)"
  shows "emits P (tryI m handler)"
  unfolding emits_def
proof
  fix h
  obtain r h' where m: "m h = (r, h')" by (cases "m h")
  with assms(1) obtain es where es: "h' = h @ es" "list_all P es"
    unfolding emits_def by (metis snd_conv)
  show "\<exists>es. snd (tryI m handler h) = h @ es \<and> list_all P es"
  proof (cases r)
    case (Inl e)
    from assms(2) [of e] obtain es' where "snd (handler e h') = h' @ es'" "list_all P es'"
      unfolding emits_def by blast
    with es m Inl show ?thesis by (intro exI [of _ "es @ es'"]) (simp add: tryI_def)
  qed (use es m in \<open>simp add: tryI_def\<close>)
qed

lemma emits_attempt [io_rules]: "emits P m \<Longrightarrow> emits P (attemptI m)"
  by (simp add: emits_def attemptI_def split_beta)

lemma emits_map [io_rules]: "(\<And>x. emits P (f x)) \<Longrightarrow> emits P (mapI f xs)"
  by (induction xs) (auto intro!: io_rules)

lemma emits_emit: "P e \<Longrightarrow> emits P (emit e)"
  by (simp add: emits_def emit_def)

lemma emits_call: "P (Call v r body kwargs) \<Longrightarrow> emits P (call W v r body kwargs)"
  by (simp add: emits_def call_def)

lemma emits_find: "P (Find prefix api_version attribute v) \<Longrightarrow> emits P (find W prefix api_version attribute v)"
  by (simp add: emits_def find_def)

lemma emits_load: "P (Load path) \<Longrightarrow> emits P (load W path)"
  by (simp add: emits_def load_def)

lemma emits_monotonic: "P Monotonic \<Longrightarrow> emits P (monotonic W)"
  by (simp add: emits_def monotonic_def)

lemma emits_ext: "P (Ext name args) \<Longrightarrow> emits P (ext W name args)"
  by (simp add: emits_def ext_def)

lemma emits_option:
  "(x = None \<Longrightarrow> emits P m) \<Longrightarrow> (\<And>y. x = Some y \<Longrightarrow> emits P (f y)) \<Longrightarrow> emits P (case x of None \<Rightarrow> m | Some y \<Rightarrow> f y)"
  by (cases x) auto

lemma emits_pair: "(\<And>x y. emits P (f x y)) \<Longrightarrow> emits P (case p of (x, y) \<Rightarrow> f x y)"
  by (cases p) auto

lemma emits_if [io_rules]: "(b \<Longrightarrow> emits P m) \<Longrightarrow> (\<not> b \<Longrightarrow> emits P n) \<Longrightarrow> emits P (if b then m else n)"
  by simp

lemma emits_mono: "emits P m \<Longrightarrow> (\<And>e. P e \<Longrightarrow> Q e) \<Longrightarrow> emits Q m"
  unfolding emits_def by (metis list.pred_mono_strong)

text \<open>How a computation runs, step by step.\<close>

lemma run_simps:
  "retI x h = (Inr x, h)" "raiseI e h = (Inl e, h)" "liftI r h = (r, h)"
  "emit ev h = (Inr (), h @ [ev])" "call W v rs body kwargs h = (w_server W h v rs body kwargs, h @ [Call v rs body kwargs])"
  "find W prefix a attribute w h = (w_find W h prefix a attribute w, h @ [Find prefix a attribute w])"
  "monotonic W h = (Inr (w_clock W h), h @ [Monotonic])"
  "ext W name args h = (w_ext W h name args, h @ [Ext name args])"
  "attemptI m h = (Inr (fst (m h)), snd (m h))"
  by (simp_all add: retI_def raiseI_def liftI_def emit_def call_def find_def monotonic_def ext_def attemptI_def split_beta)

lemma run_bind: "bindI m f h = (case m h of (Inl e, h') \<Rightarrow> (Inl e, h') | (Inr x, h') \<Rightarrow> f x h')"
  by (simp add: bindI_def)

lemma run_try: "tryI m k h = (case m h of (Inl e, h') \<Rightarrow> k e h' | (Inr x, h') \<Rightarrow> (Inr x, h'))"
  by (simp add: tryI_def)

lemma bind_Inr_iff: "bindI m f h = (Inr y, h'') \<longleftrightarrow> (\<exists>x h'. m h = (Inr x, h') \<and> f x h' = (Inr y, h''))"
  by (auto simp: bindI_def split: prod.splits sum.splits)

section \<open>A world to try the definitions on\<close>

text \<open>
  The server \<open>srv\<close> answers by history; the clock advances only by sleeping; every lookup
  finds a resource of the kind asked for; the packages do nothing remarkable. \<open>dm\<close> is the
  \<open>dict_merge\<close> to use.
\<close>

definition slept :: "event list \<Rightarrow> int" where
  "slept h = sum_list (map (\<lambda>e. case e of Sleep n \<Rightarrow> max 0 n * 10 ^ 9 | _ \<Rightarrow> 0) h)"

definition sample_world :: "(dict \<Rightarrow> dict \<Rightarrow> dict) \<Rightarrow> (event list \<Rightarrow> verb \<Rightarrow> resource \<Rightarrow> pyval \<Rightarrow> dict \<Rightarrow> pyval res) \<Rightarrow> world" where
  "sample_world dm srv = \<lparr>
     w_find = (\<lambda>h prefix api attribute v. Inr \<lparr>res_kind = py_str v, res_group_version = py_str api, res_namespaced = True\<rparr>),
     w_server = srv,
     w_clock = slept,
     w_text = (\<lambda>e. ''error''),
     w_field = (\<lambda>v k. case v of PDict d \<Rightarrow> Inr (dget d k) | _ \<Rightarrow> Inl AttributeError),
     w_boolean = truthy,
     w_versions = [(''kubernetes'', ''24.2.0'')],
     w_serialize_body = Inr,
     w_ensure_namespace = (\<lambda>r ns body. Inr ns),
     w_dict_merge = dm,
     w_sha256 = (\<lambda>s. s @ replicate 10 (CHR ''0'')),
     w_to_bytes = py_str,
     w_yaml = (\<lambda>s. Inr []),
     w_load = (\<lambda>h f. Inr []),
     w_cause_reason = (\<lambda>h e. None),
     w_missing_required_lib = (\<lambda>lib reason. lib),
     w_validate = (\<lambda>d v s. Inr ([], [])),
     w_item = (\<lambda>v k. case v of PDict d \<Rightarrow> Inr (dget d k) | _ \<Rightarrow> Inl TypeError),
     w_get = (\<lambda>v k. Inl TypeError),
     w_ext = (\<lambda>h name args. Inr PNone),
     w_fuel = 1000\<rparr>"

lemma sample_world_sel [simp]:
  "w_server (sample_world dm srv) = srv" "w_clock (sample_world dm srv) = slept"
  "w_fuel (sample_world dm srv) = 1000" "w_dict_merge (sample_world dm srv) = dm"
  "w_versions (sample_world dm srv) = [(''kubernetes'', ''24.2.0'')]"
  "w_field (sample_world dm srv) (PDict d) k = Inr (dget d k)"
  "w_field (sample_world dm srv) PNone k = Inl AttributeError"
  "w_find (sample_world dm srv) h prefix api attribute v =
     Inr \<lparr>res_kind = py_str v, res_group_version = py_str api, res_namespaced = True\<rparr>"
  by (simp_all add: sample_world_def)

lemma slept_append [simp]: "slept (h @ es) = slept h + slept es"
  by (simp add: slept_def)

lemma slept_nonneg [simp]: "0 \<le> slept h"
  by (auto simp: slept_def intro!: sum_list_nonneg split: event.splits)

end
