(* ===== verification/PyBytes.thy ===== *)
theory PyBytes
  imports PyString
begin

text \<open>
  Byte strings (characters below 256): \<open>str.encode()\<close>, and the part of Python's \<open>base64\<close>
  module the program uses, \<open>b64encode\<close> and \<open>b64decode\<close>, with their round trip.
\<close>

text \<open>UTF-8 of the code points below 256.\<close>

definition utf8 :: "string \<Rightarrow> string" where
  "utf8 s = concat (map (\<lambda>c. if code c < (128::nat) then [c]
     else [char_of (192 + code c div 64), char_of (128 + code c mod 64)]) s)"

lemma utf8_append [simp]: "utf8 (s @ t) = utf8 s @ utf8 t" "utf8 [] = []"
  by (simp_all add: utf8_def)

text \<open>The digit of a six-bit value (\<open>A-Za-z0-9+/\<close>) and the value of a digit.\<close>

definition b64_digit :: "nat \<Rightarrow> char" where
  "b64_digit n = (if n < 26 then char_of (n + 65) else if n < 52 then char_of (n + 71)
     else if n < 62 then char_of (n - 4) else if n = 62 then CHR ''+'' else CHR ''/'')"

definition b64_value :: "char \<Rightarrow> nat option" where
  "b64_value c = (let n = code c in
     if 65 \<le> n \<and> n \<le> 90 then Some (n - 65)
     else if 97 \<le> n \<and> n \<le> 122 then Some (n - 71)
     else if 48 \<le> n \<and> n \<le> 57 then Some (n + 4)
     else if n = 43 then Some 62
     else if n = 47 then Some 63
     else None)"

fun b64encode :: "string \<Rightarrow> string" where
  "b64encode [] = []"
| "b64encode [a] = [b64_digit (code a div 4), b64_digit (code a mod 4 * 16), CHR ''='', CHR ''='']"
| "b64encode [a, b] = [b64_digit (code a div 4), b64_digit (code a mod 4 * 16 + code b div 16),
     b64_digit (code b mod 16 * 4), CHR ''='']"
| "b64encode (a # b # c # s) = b64_digit (code a div 4) # b64_digit (code a mod 4 * 16 + code b div 16) #
     b64_digit (code b mod 16 * 4 + code c div 64) # b64_digit (code c mod 64) # b64encode s"

text \<open>
  \<open>b64decode\<close> drops every character outside the alphabet (\<open>validate=False\<close>), stops at the
  padding that completes a group, and raises \<open>binascii.Error\<close> (a \<open>ValueError\<close>, here \<open>None\<close>)
  when a group is left incomplete.
\<close>

fun b64_groups :: "string \<Rightarrow> string option" where
  "b64_groups [] = Some []"
| "b64_groups (w # x # y # z # s) =
     (case (b64_value w, b64_value x, b64_value y, b64_value z) of
        (Some a, Some b, Some c, Some d) \<Rightarrow> map_option (\<lambda>r.
           char_of (a * 4 + b div 16) # char_of (b mod 16 * 16 + c div 4) # char_of (c mod 4 * 64 + d) # r) (b64_groups s)
      | (Some a, Some b, Some c, None) \<Rightarrow>
           (if z = CHR ''='' then Some [char_of (a * 4 + b div 16), char_of (b mod 16 * 16 + c div 4)] else None)
      | (Some a, Some b, None, None) \<Rightarrow>
           (if y = CHR ''='' \<and> z = CHR ''='' then Some [char_of (a * 4 + b div 16)] else None)
      | _ \<Rightarrow> None)"
| "b64_groups _ = None"

definition b64_char :: "char \<Rightarrow> bool" where
  "b64_char c \<longleftrightarrow> b64_value c \<noteq> None \<or> c = CHR ''=''"

definition b64decode :: "string \<Rightarrow> string option" where
  "b64decode s = b64_groups (filter b64_char s)"

lemma code_less [simp]: "code c < (256::nat)"
  by (metis mod_less_divisor of_char_mod_256 zero_less_numeral)

lemma b64_value_digit [simp]: "n < 64 \<Longrightarrow> b64_value (b64_digit n) = Some n"
  by (auto simp: b64_value_def b64_digit_def Let_def)

lemma b64_value_pad [simp]: "b64_value (CHR ''='') = None"
  by (simp add: b64_value_def)

lemma b64_char_simps [simp]: "n < 64 \<Longrightarrow> b64_char (b64_digit n)" "b64_char (CHR ''='')"
  by (simp_all add: b64_char_def)

text \<open>The six-bit values of three bytes, and the bytes they give back.\<close>

lemma six_bits [simp]:
  fixes a b :: nat
  assumes "a < 256" "b < 256"
  shows "a div 4 < 64" "a mod 4 * 16 < 64" "a mod 4 * 16 + b div 16 < 64" "a mod 16 * 4 < 64"
    "a mod 16 * 4 + b div 64 < 64" "a mod 64 < 64"
proof -
  have "b div 16 < 16" "b div 64 < 4" "a div 4 < 64" using assms by (simp_all add: less_mult_imp_div_less)
  moreover have "a mod 4 < 4" "a mod 16 < 16" "a mod 64 < 64" by simp_all
  ultimately show "a div 4 < 64" "a mod 4 * 16 < 64" "a mod 4 * 16 + b div 16 < 64" "a mod 16 * 4 < 64"
    "a mod 16 * 4 + b div 64 < 64" "a mod 64 < 64" by linarith+
qed

lemma six_bits1 [simp]: "a < 256 \<Longrightarrow> a div 4 < (64::nat)" "a mod 4 * 16 < (64::nat)" "a mod 16 * 4 < (64::nat)"
  by (simp add: less_mult_imp_div_less) presburger+

lemma eight_bits [simp]:
  fixes b :: nat
  assumes "b < 256"
  shows "b div 16 div 16 = 0" "b div 64 div 4 = 0"
    "b div 16 mod 16 * 16 + b mod 16 = b" "b div 64 mod 4 * 64 + b mod 64 = b"
proof -
  have *: "b div 16 < 16" "b div 64 < 4" using assms by (simp_all add: less_mult_imp_div_less)
  then show "b div 16 div 16 = 0" "b div 64 div 4 = 0"
    "b div 16 mod 16 * 16 + b mod 16 = b" "b div 64 mod 4 * 64 + b mod 64 = b" by simp_all
qed

lemma b64_chars: "list_all b64_char (b64encode s)"
  by (induction s rule: b64encode.induct) simp_all

lemma b64_groups_encode: "b64_groups (b64encode s) = Some s"
  by (induction s rule: b64encode.induct) simp_all

lemma b64decode_encode [simp]: "b64decode (b64encode s) = Some s"
proof -
  have "filter b64_char (b64encode s) = b64encode s"
    using b64_chars [of s] by (simp add: list_all_iff filter_id_conv)
  then show ?thesis by (simp add: b64decode_def b64_groups_encode)
qed

end
