(* ===== verification/PyJson.thy ===== *)
theory PyJson
  imports PyString
begin

text \<open>
  Python's \<open>json\<close> module as the program uses it: \<open>dumps\<close> with the separators
  \<open>(",", ":")\<close>, with and without \<open>sort_keys\<close>, and \<open>loads\<close>. The decoder covers the
  JSON texts whose values are in the universe of values: a number with a fraction or an
  exponent, \<open>NaN\<close>, \<open>Infinity\<close> and an escape above 255 are outside it and decode to an
  error here. The main fact is the round trip \<open>loads_dumps\<close>: decoding what was encoded
  gives an equal value (tuples come back as lists).
\<close>

section \<open>Encoding\<close>

definition u_escape :: "char \<Rightarrow> string" where
  "u_escape c = [CHR 0x5C, CHR ''u'', CHR ''0'', CHR ''0'',
     hex_digit (code c div 16), hex_digit (code c mod 16)]"

definition json_char :: "char \<Rightarrow> string" where
  "json_char c =
     (if c = CHR 0x22 then [CHR 0x5C, CHR 0x22]
      else if c = CHR 0x5C then [CHR 0x5C, CHR 0x5C]
      else if c = CHR 0x0A then [CHR 0x5C, CHR ''n'']
      else if c = CHR 0x0D then [CHR 0x5C, CHR ''r'']
      else if c = CHR 0x09 then [CHR 0x5C, CHR ''t'']
      else if c = CHR 0x0C then [CHR 0x5C, CHR ''f'']
      else if c = CHR 0x08 then [CHR 0x5C, CHR ''b'']
      else if 32 \<le> code c \<and> code c \<le> 126 then [c]
      else u_escape c)"

definition json_str :: "string \<Rightarrow> string" where
  "json_str s = CHR 0x22 # concat (map json_char s) @ [CHR 0x22]"

fun dumps :: "bool \<Rightarrow> pyval \<Rightarrow> string" where
  "dumps sk PNone = ''null''"
| "dumps sk (PBool b) = (if b then ''true'' else ''false'')"
| "dumps sk (PInt i) = dec_int i"
| "dumps sk (PStr s) = json_str s"
| "dumps sk (PList xs) = ''['' @ py_join '','' (map (dumps sk) xs) @ '']''"
| "dumps sk (PTuple xs) = ''['' @ py_join '','' (map (dumps sk) xs) @ '']''"
| "dumps sk (PDict d) = ''{'' @ py_join '',''
     (map (\<lambda>(k, v). json_str k @ '':'' @ dumps sk v) (if sk then sort_key fst d else d)) @ ''}''"

section \<open>Decoding\<close>

definition skip_ws :: "string \<Rightarrow> string" where
  "skip_ws s = dropWhile (\<lambda>c. c = CHR '' '' \<or> c = CHR 0x09 \<or> c = CHR 0x0A \<or> c = CHR 0x0D) s"

definition hex_val :: "char \<Rightarrow> nat option" where
  "hex_val c = (if is_digit c then Some (code c - 48)
     else if 97 \<le> code c \<and> code c \<le> 102 then Some (code c - 87)
     else if 65 \<le> code c \<and> code c \<le> 70 then Some (code c - 55)
     else None)"

definition unescape :: "char \<Rightarrow> char option" where
  "unescape c = (if c = CHR 0x22 \<or> c = CHR 0x5C \<or> c = CHR ''/'' then Some c
     else if c = CHR ''b'' then Some (CHR 0x08)
     else if c = CHR ''f'' then Some (CHR 0x0C)
     else if c = CHR ''n'' then Some (CHR 0x0A)
     else if c = CHR ''r'' then Some (CHR 0x0D)
     else if c = CHR ''t'' then Some (CHR 0x09)
     else None)"

definition hex4 :: "char \<Rightarrow> char \<Rightarrow> char \<Rightarrow> char \<Rightarrow> nat option" where
  "hex4 a b c d = (case (hex_val a, hex_val b, hex_val c, hex_val d) of
      (Some w, Some x, Some y, Some z) \<Rightarrow> Some (((w * 16 + x) * 16 + y) * 16 + z)
    | _ \<Rightarrow> None)"

text \<open>The characters of a string literal after its opening quote, and what follows it.\<close>

fun parse_str :: "string \<Rightarrow> (string \<times> string) option" where
  "parse_str [] = None"
| "parse_str (c # s) =
     (if c = CHR 0x22 then Some ([], s)
      else if c = CHR 0x5C then (case s of
          [] \<Rightarrow> None
        | e # r \<Rightarrow>
            (if e = CHR ''u'' then (case r of
                 h1 # h2 # h3 # h4 # r' \<Rightarrow> (case hex4 h1 h2 h3 h4 of
                     Some n \<Rightarrow> (if n < 256 then map_option (apfst (Cons (char_of n))) (parse_str r') else None)
                   | None \<Rightarrow> None)
               | _ \<Rightarrow> None)
             else (case unescape e of
                 Some x \<Rightarrow> map_option (apfst (Cons x)) (parse_str r)
               | None \<Rightarrow> None)))
      else if code c < 32 then None
      else map_option (apfst (Cons c)) (parse_str s))"

definition parse_nat :: "string \<Rightarrow> (nat \<times> string) option" where
  "parse_nat s = (let ds = takeWhile is_digit s; r = dropWhile is_digit s in
     if ds = [] \<or> (hd ds = CHR ''0'' \<and> length ds > 1) then None
     else (case r of
         c # _ \<Rightarrow> (if c = CHR ''.'' \<or> c = CHR ''e'' \<or> c = CHR ''E'' then None
                   else Some (nat_of_digits ds, r))
       | [] \<Rightarrow> Some (nat_of_digits ds, r)))"

fun parse_value :: "nat \<Rightarrow> string \<Rightarrow> (pyval \<times> string) option"
  and parse_elems :: "nat \<Rightarrow> string \<Rightarrow> (pyval list \<times> string) option"
  and parse_members :: "nat \<Rightarrow> dict \<Rightarrow> string \<Rightarrow> (dict \<times> string) option" where
  "parse_value 0 s = None"
| "parse_value (Suc n) s = (case s of
     [] \<Rightarrow> None
   | c # r \<Rightarrow>
      (if c = CHR 0x22 then map_option (apfst PStr) (parse_str r)
       else if c = CHR ''['' then (let r' = skip_ws r in
          if starts_with r' '']'' then Some (PList [], tl r')
          else map_option (apfst PList) (parse_elems n r'))
       else if c = CHR ''{'' then (let r' = skip_ws r in
          if starts_with r' ''}'' then Some (PDict [], tl r')
          else map_option (apfst PDict) (parse_members n [] r'))
       else if starts_with s ''null'' then Some (PNone, drop 4 s)
       else if starts_with s ''true'' then Some (PBool True, drop 4 s)
       else if starts_with s ''false'' then Some (PBool False, drop 5 s)
       else if c = CHR ''-'' then map_option (apfst (\<lambda>m. PInt (- int m))) (parse_nat r)
       else map_option (apfst (\<lambda>m. PInt (int m))) (parse_nat s)))"
| "parse_elems 0 s = None"
| "parse_elems (Suc n) s = (case parse_value n s of
     None \<Rightarrow> None
   | Some (v, r) \<Rightarrow> (case skip_ws r of
       [] \<Rightarrow> None
     | c # r' \<Rightarrow> (if c = CHR '']'' then Some ([v], r')
         else if c = CHR '','' then map_option (apfst (Cons v)) (parse_elems n (skip_ws r'))
         else None)))"
| "parse_members 0 d s = None"
| "parse_members (Suc n) d s = (case s of
     [] \<Rightarrow> None
   | q # r \<Rightarrow> (if q \<noteq> CHR 0x22 then None else (case parse_str r of
       None \<Rightarrow> None
     | Some (k, r1) \<Rightarrow> (case skip_ws r1 of
         [] \<Rightarrow> None
       | c # r2 \<Rightarrow> (if c \<noteq> CHR '':'' then None else (case parse_value n (skip_ws r2) of
           None \<Rightarrow> None
         | Some (v, r3) \<Rightarrow> (case skip_ws r3 of
             [] \<Rightarrow> None
           | e # r4 \<Rightarrow> (if e = CHR ''}'' then Some (AList.update k v d, r4)
               else if e = CHR '','' then parse_members n (AList.update k v d) (skip_ws r4)
               else None))))))))"

definition loads :: "string \<Rightarrow> pyval res" where
  "loads s = (let s' = skip_ws s in
     (case parse_value (Suc (length s')) s' of
        Some (v, r) \<Rightarrow> (if skip_ws r = [] then Inr v else Inl JSONDecodeError)
      | None \<Rightarrow> Inl JSONDecodeError))"

section \<open>The round trip\<close>

text \<open>What comes back: tuples as lists, keys in the order they were written.\<close>

fun json_norm :: "bool \<Rightarrow> pyval \<Rightarrow> pyval" where
  "json_norm sk (PList xs) = PList (map (json_norm sk) xs)"
| "json_norm sk (PTuple xs) = PList (map (json_norm sk) xs)"
| "json_norm sk (PDict d) =
     PDict (map (\<lambda>(k, v). (k, json_norm sk v)) (if sk then sort_key fst d else d))"
| "json_norm sk v = v"

lemma hex_val_digit [simp]: "n < 16 \<Longrightarrow> hex_val (hex_digit n) = Some n"
  by (cases "n < 10") (auto simp: hex_val_def hex_digit_def is_digit_def)

lemma hex_val_0 [simp]: "hex_val (CHR ''0'') = Some 0"
  by (simp add: hex_val_def is_digit_def)

lemma hex4_escape [simp]:
  "hex4 (CHR ''0'') (CHR ''0'') (hex_digit (code c div 16)) (hex_digit (code c mod 16)) = Some (code c)"
proof -
  have "code c < 256" by simp
  then have "code c div 16 < 16" by linarith
  then show ?thesis by (simp add: hex4_def)
qed

lemma parse_str_char:
  "parse_str (json_char c @ s) = map_option (apfst (Cons c)) (parse_str s)"
  by (simp add: json_char_def u_escape_def unescape_def)

lemma parse_str_body:
  "parse_str (concat (map json_char s) @ CHR 0x22 # r) = Some (s, r)"
  by (induction s) (simp_all add: parse_str_char)

lemma parse_json_str: "json_str s @ r = CHR 0x22 # t \<Longrightarrow> parse_str t = Some (s, r)"
  by (auto simp: json_str_def parse_str_body)

text \<open>What may follow a number without being read as part of it.\<close>

definition ends_number :: "string \<Rightarrow> bool" where
  "ends_number r = (case r of [] \<Rightarrow> True
     | c # _ \<Rightarrow> \<not> is_digit c \<and> c \<noteq> CHR ''.'' \<and> c \<noteq> CHR ''e'' \<and> c \<noteq> CHR ''E'')"

lemma ends_number_simps [simp]:
  "ends_number []" "ends_number (CHR '','' # r)" "ends_number (CHR '']'' # r)" "ends_number (CHR ''}'' # r)"
  by (simp_all add: ends_number_def is_digit_def)

lemma dec_nat_leading_zero: "hd (dec_nat n) = CHR ''0'' \<Longrightarrow> n = 0"
proof (induction n rule: dec_nat.induct)
  case (1 n)
  show ?case
  proof (cases "n < 10")
    case True
    with 1 have "char_of (48 + n) = CHR ''0''" by (simp add: dec_nat.simps [of n] digit_char_def)
    then have "of_char (char_of (48 + n) :: char) = (48 :: nat)" by simp
    with True show ?thesis by simp
  next
    case False
    with 1 have "n div 10 = 0" by (simp add: dec_nat.simps [of n])
    with False show ?thesis by simp
  qed
qed

lemma parse_dec_nat:
  assumes "ends_number r"
  shows "parse_nat (dec_nat n @ r) = Some (n, r)"
proof -
  have tw: "takeWhile is_digit (dec_nat n @ r) = dec_nat n" and dw: "dropWhile is_digit (dec_nat n @ r) = r"
    using assms by (auto simp: dec_nat_digits ends_number_def takeWhile_append dropWhile_append split: list.splits)
  have "\<not> (hd (dec_nat n) = CHR ''0'' \<and> length (dec_nat n) > 1)"
    using dec_nat_leading_zero [of n] dec_nat.simps [of 0] by fastforce
  then show ?thesis
    using assms by (auto simp: parse_nat_def Let_def tw dw ends_number_def split: list.splits)
qed

lemma dec_nat_first: "\<exists>c t. dec_nat n = c # t \<and> is_digit c"
  using dec_nat_digits [of _ n] by (cases "dec_nat n") auto

text \<open>An encoded value starts with neither white space nor a closing bracket.\<close>

definition opens_value :: "char \<Rightarrow> bool" where
  "opens_value c = (c \<noteq> CHR '' '' \<and> c \<noteq> CHR 0x09 \<and> c \<noteq> CHR 0x0A \<and> c \<noteq> CHR 0x0D
     \<and> c \<noteq> CHR '']'' \<and> c \<noteq> CHR ''}'')"

lemma dumps_first: "\<exists>c t. dumps sk v = c # t \<and> opens_value c"
proof (cases v)
  case (PInt i)
  obtain c t where "dec_nat (nat i) = c # t" "is_digit c" using dec_nat_first by blast
  with PInt show ?thesis by (auto simp: opens_value_def dec_int_def)
qed (auto simp: opens_value_def json_str_def)

lemma opens_value_not_space: "opens_value c \<Longrightarrow>
    skip_ws (c # t) = c # t \<and> c \<noteq> CHR '']'' \<and> c \<noteq> CHR ''}''"
  by (simp add: opens_value_def skip_ws_def)

lemma skip_ws_dumps [simp]: "skip_ws (dumps sk v @ r) = dumps sk v @ r"
  using dumps_first [of sk v] opens_value_not_space by force

lemma dumps_not_close [simp]: "\<not> starts_with (dumps sk v @ r) '']''"
  using dumps_first [of sk v] opens_value_not_space by force

lemma skip_ws_delims [simp]:
  "skip_ws (CHR '','' # r) = CHR '','' # r" "skip_ws (CHR '']'' # r) = CHR '']'' # r"
  "skip_ws (CHR ''}'' # r) = CHR ''}'' # r" "skip_ws (CHR '':'' # r) = CHR '':'' # r"
  "skip_ws (CHR 0x22 # r) = CHR 0x22 # r" "skip_ws [] = []"
  by (simp_all add: skip_ws_def)

definition parses_back :: "bool \<Rightarrow> pyval \<Rightarrow> bool" where
  "parses_back sk v = (\<forall>n r. size v < n \<longrightarrow> ends_number r \<longrightarrow>
     parse_value n (dumps sk v @ r) = Some (json_norm sk v, r))"

lemma parse_elems_back:
  assumes "\<And>x. x \<in> set xs \<Longrightarrow> parses_back sk x" and "xs \<noteq> []" and "size_list size xs < n"
  shows "parse_elems n (py_join '','' (map (dumps sk) xs) @ CHR '']'' # r)
    = Some (map (json_norm sk) xs, r)"
  using assms
proof (induction xs arbitrary: n)
  case (Cons x xs)
  then obtain m where n: "n = Suc m" by (cases n) auto
  have x: "parse_value m (dumps sk x @ t) = Some (json_norm sk x, t)" if "ends_number t" for t
    using Cons.prems that by (simp add: n parses_back_def)
  show ?case
  proof (cases xs)
    case Nil
    with x show ?thesis by (simp add: n)
  next
    case (Cons y ys)
    have IH: "parse_elems m (py_join '','' (map (dumps sk) xs) @ CHR '']'' # r) = Some (map (json_norm sk) xs, r)"
      using Cons.prems Cons by (intro Cons.IH) (auto simp: n)
    have sk: "skip_ws (py_join '','' (map (dumps sk) xs) @ CHR '']'' # r) = py_join '','' (map (dumps sk) xs) @ CHR '']'' # r"
      using Cons by (cases ys) auto
    from x IH sk Cons show ?thesis by (simp add: n)
  qed
qed simp

abbreviation dump_item :: "bool \<Rightarrow> string \<times> pyval \<Rightarrow> string" where
  "dump_item sk \<equiv> \<lambda>(k, v). json_str k @ '':'' @ dumps sk v"

lemma parse_members_back:
  assumes "\<And>k v. (k, v) \<in> set its \<Longrightarrow> parses_back sk v" and "its \<noteq> []"
    and "size_list (\<lambda>x. Suc (size (snd x))) its < n"
    and "distinct (map fst acc @ map fst its)"
  shows "parse_members n acc (py_join '','' (map (dump_item sk) its) @ CHR ''}'' # r)
    = Some (acc @ map (\<lambda>(k, v). (k, json_norm sk v)) its, r)"
  using assms
proof (induction its arbitrary: n acc)
  case (Cons p its)
  obtain k v where p: "p = (k, v)" by (cases p)
  from Cons.prems obtain m where n: "n = Suc m" by (cases n) auto
  have v: "parse_value m (dumps sk v @ t) = Some (json_norm sk v, t)" if "ends_number t" for t
    using Cons.prems(1) [of k v] Cons.prems(3) that by (simp add: n p parses_back_def)
  have upd: "AList.update k w acc = acc @ [(k, w)]" for w
    using Cons.prems(4) by (intro update_new) (auto simp: p)
  have str: "parse_str (concat (map json_char k) @ CHR 0x22 # t) = Some (k, t)" for t
    by (rule parse_str_body)
  show ?case
  proof (cases its)
    case Nil
    with v str upd show ?thesis by (simp add: n p json_str_def)
  next
    case (Cons q qs)
    have IH: "parse_members m (acc @ [(k, json_norm sk v)])
        (py_join '','' (map (dump_item sk) its) @ CHR ''}'' # r)
      = Some ((acc @ [(k, json_norm sk v)]) @ map (\<lambda>(k, v). (k, json_norm sk v)) its, r)"
      using Cons.prems Cons by (intro Cons.IH) (auto simp: n p)
    have sk: "skip_ws (py_join '','' (map (dump_item sk) its) @ CHR ''}'' # r) =
        py_join '','' (map (dump_item sk) its) @ CHR ''}'' # r"
      using Cons by (cases qs; cases q) (auto simp: json_str_def)
    from v str upd IH sk Cons show ?thesis by (simp add: n p json_str_def)
  qed
qed simp

lemma parses_back_elems:
  assumes "\<And>x. x \<in> set xs \<Longrightarrow> parses_back sk x" and "size_list size xs < n"
  shows "parse_value (Suc n) (''['' @ py_join '','' (map (dumps sk) xs) @ '']'' @ r)
    = Some (PList (map (json_norm sk) xs), r)"
proof (cases xs)
  case (Cons y ys)
  have "\<not> starts_with (py_join '','' (map (dumps sk) xs) @ CHR '']'' # r) '']''"
    and "skip_ws (py_join '','' (map (dumps sk) xs) @ CHR '']'' # r) = py_join '','' (map (dumps sk) xs) @ CHR '']'' # r"
    using Cons by (cases ys; simp)+
  moreover have "parse_elems n (py_join '','' (map (dumps sk) xs) @ CHR '']'' # r) = Some (map (json_norm sk) xs, r)"
    by (rule parse_elems_back) (use assms Cons in auto)
  ultimately show ?thesis by simp
qed simp

lemma parses_back_members:
  assumes "\<And>k v. (k, v) \<in> set its \<Longrightarrow> parses_back sk v"
    and "size_list (\<lambda>x. Suc (size (snd x))) its < n" and "distinct (map fst its)"
  shows "parse_value (Suc n) (''{'' @ py_join '','' (map (dump_item sk) its) @ ''}'' @ r)
    = Some (PDict (map (\<lambda>(k, v). (k, json_norm sk v)) its), r)"
proof (cases its)
  case (Cons q qs)
  have "\<not> starts_with (py_join '','' (map (dump_item sk) its) @ CHR ''}'' # r) ''}''"
    and "skip_ws (py_join '','' (map (dump_item sk) its) @ CHR ''}'' # r) = py_join '','' (map (dump_item sk) its) @ CHR ''}'' # r"
    using Cons by (cases qs; cases q; simp add: json_str_def)+
  moreover have "parse_members n [] (py_join '','' (map (dump_item sk) its) @ CHR ''}'' # r)
      = Some ([] @ map (\<lambda>(k, v). (k, json_norm sk v)) its, r)"
    by (rule parse_members_back) (use assms Cons in auto)
  ultimately show ?thesis by simp
qed simp

lemma parses_back_scalar:
  "parses_back sk PNone" "parses_back sk (PBool b)" "parses_back sk (PStr s)"
  by (auto simp: parses_back_def json_str_def parse_str_body gr0_conv_Suc)

lemma parses_back_int: "parses_back sk (PInt i)"
  unfolding parses_back_def
proof (intro allI impI)
  fix n r assume "size (PInt i) < n" and r: "ends_number r"
  then obtain m where n: "n = Suc m" by (cases n) auto
  show "parse_value n (dumps sk (PInt i) @ r) = Some (json_norm sk (PInt i), r)"
  proof (cases "i < 0")
    case True
    then show ?thesis by (simp add: n dec_int_def parse_dec_nat [OF r])
  next
    case False
    obtain c t where ct: "dec_nat (nat i) = c # t" "is_digit c" using dec_nat_first by blast
    have "parse_nat (c # t @ r) = Some (nat i, r)"
      using parse_dec_nat [OF r, of "nat i"] ct by simp
    moreover have "c \<noteq> CHR 0x22 \<and> c \<noteq> CHR ''['' \<and> c \<noteq> CHR ''{'' \<and> c \<noteq> CHR ''n'' \<and> c \<noteq> CHR ''t''
        \<and> c \<noteq> CHR ''f'' \<and> c \<noteq> CHR ''-''"
      using ct(2) by (auto simp: is_digit_def)
    ultimately show ?thesis using False ct(1) by (simp add: n dec_int_def)
  qed
qed

lemma parses_back_seq:
  assumes "\<And>x. x \<in> set xs \<Longrightarrow> parses_back sk x"
  shows "parses_back sk (PList xs)" and "parses_back sk (PTuple xs)"
proof -
  have "parse_value n (''['' @ py_join '','' (map (dumps sk) xs) @ '']'' @ r)
      = Some (PList (map (json_norm sk) xs), r)" if n: "Suc (size_list size xs) < n" for n r
  proof -
    obtain m where "n = Suc m" "size_list size xs < m" using n by (cases n) auto
    then show ?thesis using parses_back_elems [OF assms, of xs m r] by (simp del: parse_value.simps)
  qed
  then show "parses_back sk (PList xs)" and "parses_back sk (PTuple xs)"
    by (simp_all add: parses_back_def del: parse_value.simps)
qed

lemma parses_back: "wf_py v \<Longrightarrow> parses_back sk v"
proof (induction v rule: wf_py.induct)
  case (1 xs)
  then show ?case by (intro parses_back_seq) (simp add: list_all_iff)
next
  case (2 xs)
  then show ?case by (intro parses_back_seq) (simp add: list_all_iff)
next
  case (3 d)
  let ?its = "if sk then sort_key fst d else d"
  have its: "\<And>k v. (k, v) \<in> set ?its \<Longrightarrow> parses_back sk v"
    using 3 by (auto simp: list_all_iff)
  have sz: "size_list (\<lambda>x. Suc (size (snd x))) ?its = size_list (\<lambda>x. Suc (size (snd x))) d"
    by (simp add: size_list_sort_key)
  have dist: "distinct (map fst ?its)"
    using 3 by simp
  show ?case
    unfolding parses_back_def
  proof (intro allI impI)
    fix n r assume "size (PDict d) < n"
    then obtain m where n: "n = Suc m" "size_list (\<lambda>x. Suc (size (snd x))) ?its < m"
      using sz by (cases n) auto
    show "parse_value n (dumps sk (PDict d) @ r) = Some (json_norm sk (PDict d), r)"
      using parses_back_members [OF its n(2) dist, where r = r] by (simp add: n(1) del: parse_value.simps)
  qed
qed (simp_all only: parses_back_scalar parses_back_int)

text \<open>The text is long enough to pay for its own decoding.\<close>

lemma length_py_join: "length (py_join sep ws) = sum_list (map length ws) + (length ws - 1) * length sep"
  by (induction sep ws rule: py_join.induct) auto

lemma size_le_dumps: "size v \<le> length (dumps sk v)"
proof (induction sk v rule: dumps.induct)
  case (5 sk xs)
  then have "sum_list (map size xs) \<le> sum_list (map (length \<circ> dumps sk) xs)"
    by (auto intro: sum_list_mono)
  then show ?case by (simp add: length_py_join size_list_conv_sum_list comp_def)
next
  case (6 sk xs)
  then have "sum_list (map size xs) \<le> sum_list (map (length \<circ> dumps sk) xs)"
    by (auto intro: sum_list_mono)
  then show ?case by (simp add: length_py_join size_list_conv_sum_list comp_def)
next
  case (7 sk d)
  let ?its = "if sk then sort_key fst d else d"
  have "sum_list (map (\<lambda>x. Suc (size (snd x))) ?its) \<le> sum_list (map (length \<circ> dump_item sk) ?its)"
  proof (rule sum_list_mono)
    fix x assume "x \<in> set ?its"
    then have "x \<in> set d" by (simp split: if_splits)
    then have "size (snd x) \<le> length (dumps sk (snd x))"
      using "7.IH" [of x "fst x" "snd x"] \<open>x \<in> set ?its\<close> by simp
    then show "Suc (size (snd x)) \<le> (length \<circ> dump_item sk) x"
      by (cases x) (simp add: json_str_def)
  qed
  moreover have "size_list (\<lambda>x. Suc (size (snd x))) d = size_list (\<lambda>x. Suc (size (snd x))) ?its"
    by (simp add: size_list_sort_key)
  ultimately show ?case by (simp add: length_py_join size_list_conv_sum_list comp_def)
qed auto

lemma loads_dumps_norm:
  assumes "wf_py v"
  shows "loads (dumps sk v) = Inr (json_norm sk v)"
proof -
  have "size v < Suc (length (dumps sk v))" using size_le_dumps [of v sk] by simp
  then have "parse_value (Suc (length (dumps sk v))) (dumps sk v @ []) = Some (json_norm sk v, [])"
    using parses_back [OF assms, of sk] by (simp only: parses_back_def ends_number_simps simp_thms)
  moreover have "skip_ws (dumps sk v) = dumps sk v"
    using skip_ws_dumps [of sk v "[]"] by simp
  ultimately show ?thesis by (simp add: loads_def del: parse_value.simps)
qed

fun no_tuples :: "pyval \<Rightarrow> bool" where
  "no_tuples (PList xs) = list_all no_tuples xs"
| "no_tuples (PTuple xs) = False"
| "no_tuples (PDict d) = list_all (\<lambda>(k, v). no_tuples v) d"
| "no_tuples _ = True"

lemma wf_json_norm: "wf_py v \<Longrightarrow> wf_py (json_norm sk v)"
proof (induction sk v rule: json_norm.induct)
  case (3 sk d)
  then show ?case by (auto simp: list_all_iff comp_def case_prod_beta)
qed (auto simp: list_all_iff)

lemma py_eq_json_norm: "wf_py v \<Longrightarrow> no_tuples v \<Longrightarrow> py_eq (json_norm sk v) v"
proof (induction sk v rule: json_norm.induct)
  case (1 sk xs)
  then show ?case
    by (auto simp: py_eq_list list_all_iff list_all2_map1 list_all2_same simp del: py_eq.simps)
next
  case (3 sk d)
  let ?its = "if sk then sort_key fst d else d"
  let ?e = "map (\<lambda>(k, v). (k, json_norm sk v)) ?its"
  have d: "distinct (map fst d)" and e: "distinct (map fst ?e)"
    using 3 wf_json_norm [of "PDict d" sk] by auto
  have "map_of ?e k = map_option (json_norm sk) (map_of d k)" for k
  proof -
    have "distinct (map fst ?its)" using d by simp
    then have "map_of ?its = map_of d" using d by (intro map_of_inject_set [THEN iffD2]) auto
    moreover have "map_of ?e k = map_option (json_norm sk) (map_of ?its k)"
      by (simp add: map_of_map)
    ultimately show ?thesis by simp
  qed
  moreover have "rel_option py_eq (map_option (json_norm sk) (map_of d k)) (map_of d k)" for k
  proof (cases "map_of d k")
    case (Some v)
    then have "(k, v) \<in> set d" by (rule map_of_SomeD)
    moreover have "wf_py v" "no_tuples v" using 3 calculation by (auto simp: list_all_iff)
    ultimately have "py_eq (json_norm sk v) v" using "3.IH" [of "(k, v)" k v] by simp
    with Some show ?thesis by simp
  qed simp
  ultimately show ?case by (simp add: py_eq_dict [OF e d] del: py_eq.simps)
qed auto

lemma loads_dumps:
  assumes "wf_py v" and "no_tuples v"
  shows "\<exists>w. loads (dumps sk v) = Inr w \<and> wf_py w \<and> py_eq w v"
  using assms by (auto simp: loads_dumps_norm wf_json_norm py_eq_json_norm)

end
