(* ===== verification/K8sVersion.thy ===== *)
theory K8sVersion
  imports PyString "HOL-Library.Product_Lexorder"
begin

text \<open>
  Version numbers (\<open>plugins/module_utils/_version.py\<close>): \<open>StrictVersion\<close> with its regular
  expression, printer and comparison, and \<open>LooseVersion\<close>, the one the modules use to decide
  what an installed library supports.
\<close>

section \<open>Strict versions\<close>

datatype strict_version = StrictVersion (sv_version: "nat \<times> nat \<times> nat") (sv_prerelease: "(char \<times> nat) option")

text \<open>A greedy run of digits, as \<open>\d+\<close> takes it; \<open>None\<close> when there is none.\<close>

definition digits :: "string \<Rightarrow> (string \<times> string) option" where
  "digits s = (if takeWhile is_digit s = [] then None else Some (takeWhile is_digit s, dropWhile is_digit s))"

text \<open>\<open>$\<close> also matches before a newline at the end.\<close>

definition at_end :: "string \<Rightarrow> bool" where
  "at_end s \<longleftrightarrow> s = [] \<or> s = [CHR 0x0A]"

definition strict_prerelease :: "string \<Rightarrow> (char \<times> nat) option option" where
  "strict_prerelease s = (if at_end s then Some None
     else (case s of
        c # s' \<Rightarrow> (if c = CHR ''a'' \<or> c = CHR ''b'' then
             (case digits s' of Some (n, r) \<Rightarrow> (if at_end r then Some (Some (c, nat_of_digits n)) else None)
              | None \<Rightarrow> None) else None)
      | [] \<Rightarrow> None))"

text \<open>
  \<open>^(\d+)\.(\d+)(\.(\d+))?([ab](\d+))?$\<close>: what follows a run of digits never starts with a
  digit in a match, so the greedy choice is the only one that can match.
\<close>

definition strict_parse :: "string \<Rightarrow> strict_version res" where
  "strict_parse vstring = (case (case digits vstring of
       Some (major, CHR ''.'' # s1) \<Rightarrow>
         (case digits s1 of
            Some (minor, s2) \<Rightarrow>
              (case s2 of
                 CHR ''.'' # s3 \<Rightarrow>
                   (case digits s3 of
                      Some (patch, s4) \<Rightarrow> map_option (StrictVersion
                        (nat_of_digits major, nat_of_digits minor, nat_of_digits patch)) (strict_prerelease s4)
                    | None \<Rightarrow> None)
               | _ \<Rightarrow> map_option (StrictVersion (nat_of_digits major, nat_of_digits minor, 0)) (strict_prerelease s2))
          | None \<Rightarrow> None)
     | _ \<Rightarrow> None) of
      Some v \<Rightarrow> Inr v
    | None \<Rightarrow> Inl (ValueError (''invalid version number '' @ [CHR 0x27] @ vstring @ [CHR 0x27])))"

definition strict_str :: "strict_version \<Rightarrow> string" where
  "strict_str v = (case sv_version v of (major, minor, patch) \<Rightarrow>
     (let vstring = (if patch = 0 then py_join ''.'' (map dec_nat [major, minor])
        else py_join ''.'' (map dec_nat [major, minor, patch]))
      in (case sv_prerelease v of
            None \<Rightarrow> vstring
          | Some (c, n) \<Rightarrow> vstring @ [c] @ dec_nat n)))"

fun tuple_less :: "nat \<times> nat \<times> nat \<Rightarrow> nat \<times> nat \<times> nat \<Rightarrow> bool" where
  "tuple_less (a, b, c) (a', b', c') \<longleftrightarrow> a < a' \<or> a = a' \<and> (b < b' \<or> b = b' \<and> c < c')"

fun pre_less :: "char \<times> nat \<Rightarrow> char \<times> nat \<Rightarrow> bool" where
  "pre_less (c, n) (c', n') \<longleftrightarrow> c < c' \<or> c = c' \<and> n < n'"

definition strict_cmp :: "strict_version \<Rightarrow> strict_version \<Rightarrow> int" where
  "strict_cmp self other =
     (if sv_version self \<noteq> sv_version other then
        (if tuple_less (sv_version self) (sv_version other) then -1 else 1)
      else (case (sv_prerelease self, sv_prerelease other) of
          (None, None) \<Rightarrow> 0
        | (Some _, None) \<Rightarrow> -1
        | (None, Some _) \<Rightarrow> 1
        | (Some p, Some q) \<Rightarrow> (if p = q then 0 else if pre_less p q then -1 else 1)))"

text \<open>\<open>__lt__\<close> and \<open>__le__\<close> of the base class make the versions a linear order.\<close>

fun version_key :: "strict_version \<Rightarrow> (nat \<times> nat \<times> nat) \<times> bool \<times> char \<times> nat" where
  "version_key (StrictVersion v None) = (v, True, CHR 0x00, 0)"
| "version_key (StrictVersion v (Some (c, n))) = (v, False, c, n)"

lemma tuple_less_iff: "tuple_less v w \<longleftrightarrow> v < w"
  by (cases v; cases w) (auto simp: less_prod_def')

lemma pre_less_iff: "pre_less p q \<longleftrightarrow> p < q"
  by (cases p; cases q) (auto simp: less_prod_def')

lemma version_key_inject: "version_key x = version_key y \<longleftrightarrow> x = y"
  by (cases x rule: version_key.cases; cases y rule: version_key.cases) auto

lemma strict_cmp_key:
  "strict_cmp x y = (if version_key x = version_key y then 0 else if version_key x < version_key y then -1 else 1)"
  by (cases x rule: version_key.cases; cases y rule: version_key.cases)
    (auto simp: strict_cmp_def tuple_less_iff pre_less_iff less_prod_def')

instantiation strict_version :: linorder
begin

definition less_strict_version :: "strict_version \<Rightarrow> strict_version \<Rightarrow> bool" where
  "less_strict_version a b \<longleftrightarrow> strict_cmp a b < 0"

definition less_eq_strict_version :: "strict_version \<Rightarrow> strict_version \<Rightarrow> bool" where
  "less_eq_strict_version a b \<longleftrightarrow> strict_cmp a b \<le> 0"

instance
  by standard
    (auto simp: less_strict_version_def less_eq_strict_version_def strict_cmp_key version_key_inject
      split: if_splits)

end

lemma strict_le_key: "x \<le> y \<longleftrightarrow> version_key x \<le> version_key y"
  by (auto simp: less_eq_strict_version_def strict_cmp_key)

section \<open>The printer and the parser\<close>

lemma digits_append:
  assumes "s \<noteq> []" "\<forall>c \<in> set s. is_digit c" "r = [] \<or> \<not> is_digit (hd r)"
  shows "digits (s @ r) = Some (s, r)"
proof -
  have "takeWhile is_digit (s @ r) = s" "dropWhile is_digit (s @ r) = r"
    using assms(2,3) by (cases r; simp add: takeWhile_append dropWhile_append)+
  with assms(1) show ?thesis by (simp add: digits_def)
qed

lemma digits_dec_nat:
  "r = [] \<or> \<not> is_digit (hd r) \<Longrightarrow> digits (dec_nat n @ r) = Some (dec_nat n, r)"
  by (intro digits_append) (auto simp: dec_nat_digits)

lemma digits_dec_nat_simps [simp]:
  "digits (dec_nat n) = Some (dec_nat n, [])"
  "\<not> is_digit c \<Longrightarrow> digits (dec_nat n @ c # r) = Some (dec_nat n, c # r)"
  using digits_dec_nat [of "[]" n] digits_dec_nat [of "c # r" n] by auto

lemma not_at_end_dec_nat [simp]: "\<not> at_end (dec_nat n @ r)"
proof -
  have "hd (dec_nat n) \<noteq> CHR 0x0A" using dec_nat_digits [of "hd (dec_nat n)" n] by (auto simp: is_digit_def)
  then show ?thesis by (cases "dec_nat n") (auto simp: at_end_def)
qed

definition pre_str :: "(char \<times> nat) option \<Rightarrow> string" where
  "pre_str p = (case p of None \<Rightarrow> [] | Some (c, n) \<Rightarrow> c # dec_nat n)"

definition pre_letter :: "(char \<times> nat) option \<Rightarrow> bool" where
  "pre_letter p = (case p of None \<Rightarrow> True | Some (c, n) \<Rightarrow> c = CHR ''a'' \<or> c = CHR ''b'')"

lemma is_digit_ab [simp]: "\<not> is_digit (CHR ''a'')" "\<not> is_digit (CHR ''b'')"
  by (simp_all add: is_digit_def)

lemma strict_prerelease_str: "pre_letter p \<Longrightarrow> strict_prerelease (pre_str p) = Some p"
  by (auto simp: pre_letter_def pre_str_def strict_prerelease_def at_end_def split: option.splits)

lemma pre_str_cases:
  assumes "pre_letter p"
  obtains "pre_str p = []" | r where "pre_str p = CHR ''a'' # r" | r where "pre_str p = CHR ''b'' # r"
  using assms by (auto simp: pre_letter_def pre_str_def split: option.splits)

lemma strict_str_eq: "strict_str (StrictVersion (a, b, c) p) =
    dec_nat a @ ''.'' @ dec_nat b @ (if c = 0 then [] else CHR ''.'' # dec_nat c) @ pre_str p"
  by (simp add: strict_str_def pre_str_def Let_def split: option.split)

text \<open>The text of a strict version parses to the version itself, with or without a patch
  number and a pre-release tag (whose letter is \<open>a\<close> or \<open>b\<close>).\<close>

theorem strict_roundtrip:
  assumes "pre_letter (sv_prerelease v)"
  shows "strict_parse (strict_str v) = Inr v"
proof -
  obtain a b c p where v: "v = StrictVersion (a, b, c) p" by (cases v) auto
  have p: "pre_letter p" using assms v by simp
  from p show ?thesis
    by (cases rule: pre_str_cases)
      (use strict_prerelease_str [OF p] in \<open>auto simp: v strict_str_eq strict_parse_def\<close>)
qed

theorem strict_roundtrip_witness:
  "strict_parse (strict_str (StrictVersion (1, 0, 4) (Some (CHR ''a'', 3))))
     = Inr (StrictVersion (1, 0, 4) (Some (CHR ''a'', 3)))"
  by (rule strict_roundtrip) (simp add: pre_letter_def)

section \<open>Loose versions\<close>

datatype component = Num nat | Str string

text \<open>
  \<open>component_re.split(vstring)\<close>: the runs of digits, the runs of lower case letters, the
  dots, and what stands between them; empty parts and dots are dropped, numbers read.
\<close>

definition other_char :: "char \<Rightarrow> bool" where
  "other_char c \<longleftrightarrow> \<not> is_digit c \<and> \<not> is_lower_ascii c \<and> c \<noteq> CHR ''.''"

function components :: "string \<Rightarrow> component list" where
  "components [] = []"
| "components (c # s) =
     (if is_digit c then Num (nat_of_digits (c # takeWhile is_digit s)) # components (dropWhile is_digit s)
      else if is_lower_ascii c then Str (c # takeWhile is_lower_ascii s) # components (dropWhile is_lower_ascii s)
      else if c = CHR ''.'' then components s
      else Str (c # takeWhile other_char s) # components (dropWhile other_char s))"
  by pat_completeness auto
termination
  by (relation "measure length") (auto simp: less_Suc_eq_le length_dropWhile_le)

text \<open>An empty version string is not parsed: the object has no \<open>version\<close>.\<close>

definition LooseVersion :: "string \<Rightarrow> component list option" where
  "LooseVersion vstring = (if vstring \<noteq> [] then Some (components vstring) else None)"

definition component_less :: "component \<Rightarrow> component \<Rightarrow> bool res" where
  "component_less x y = (case (x, y) of
      (Num m, Num n) \<Rightarrow> Inr (m < n)
    | (Str s, Str t) \<Rightarrow> Inr (s < t)
    | _ \<Rightarrow> Inl TypeError)"

text \<open>\<open><\<close> on lists: the first two items that differ decide, else the lengths.\<close>

fun list_less :: "component list \<Rightarrow> component list \<Rightarrow> bool res" where
  "list_less xs [] = Inr False"
| "list_less [] (y # ys) = Inr True"
| "list_less (x # xs) (y # ys) = (if x = y then list_less xs ys else component_less x y)"

definition loose_cmp :: "component list option \<Rightarrow> component list option \<Rightarrow> int option res" where
  "loose_cmp self other = (case (self, other) of
      (Some v, Some w) \<Rightarrow>
        (if v = w then Inr (Some 0)
         else bindR (list_less v w) (\<lambda>lt. if lt then Inr (Some (-1))
           else bindR (list_less w v) (\<lambda>gt. if gt then Inr (Some 1) else Inr None)))
    | _ \<Rightarrow> Inl AttributeError)"

text \<open>\<open>c >= 0\<close> and \<open>c < 0\<close> raise when \<open>_cmp\<close> fell off its end.\<close>

definition loose_ge :: "string \<Rightarrow> string \<Rightarrow> bool res" where
  "loose_ge a b = bindR (loose_cmp (LooseVersion a) (LooseVersion b)) (\<lambda>c.
     case c of Some i \<Rightarrow> Inr (i \<ge> 0) | None \<Rightarrow> Inl TypeError)"

definition loose_lt :: "string \<Rightarrow> string \<Rightarrow> bool res" where
  "loose_lt a b = bindR (loose_cmp (LooseVersion a) (LooseVersion b)) (\<lambda>c.
     case c of Some i \<Rightarrow> Inr (i < 0) | None \<Rightarrow> Inl TypeError)"

text \<open>
  \<open>gather_versions\<close> imports the libraries; \<open>versions\<close> is its result, the version of every
  library that is installed.
\<close>

definition has_at_least :: "(string \<times> string) list \<Rightarrow> string \<Rightarrow> string option \<Rightarrow> bool res" where
  "has_at_least versions dependency minimum = (case map_of versions dependency of
      None \<Rightarrow> Inr False
    | Some current \<Rightarrow> (case minimum of None \<Rightarrow> Inr True | Some m \<Rightarrow> loose_ge current m))"

lemma components_dec_nat:
  "r = [] \<or> \<not> is_digit (hd r) \<Longrightarrow> components (dec_nat n @ r) = Num n # components r"
proof -
  assume r: "r = [] \<or> \<not> is_digit (hd r)"
  obtain c s where cs: "dec_nat n = c # s" by (cases "dec_nat n") auto
  have d: "is_digit c" "\<forall>x \<in> set s. is_digit x" using dec_nat_digits [of _ n] by (simp_all add: cs)
  have "takeWhile is_digit (s @ r) = s" "dropWhile is_digit (s @ r) = r"
    using d(2) r by (cases r; simp add: takeWhile_append dropWhile_append)+
  with d(1) show ?thesis using nat_of_dec_nat [of n] by (simp add: cs)
qed

lemma components_dotted: "components (py_join ''.'' (map dec_nat ns)) = map Num ns"
proof (induction ns)
  case (Cons n ns)
  show ?case
  proof (cases ns)
    case Nil
    then show ?thesis using components_dec_nat [of "[]" n] by simp
  next
    case (Cons m ms)
    with Cons.IH show ?thesis
      using components_dec_nat [of "CHR ''.'' # py_join ''.'' (map dec_nat ns)" n]
      by (simp add: is_lower_ascii_def)
  qed
qed simp

lemma list_less_nums: "list_less (map Num ms) (map Num ns) = Inr (ms < ns)"
proof (induction ms ns rule: list_induct2')
  case (4 x xs y ys)
  then show ?case by (auto simp: component_less_def)
qed simp_all

text \<open>The version gate compares dotted versions number by number, so that \<open>24.2.0\<close> is
  newer than \<open>9.0\<close>: a library counts as present at a minimum version exactly when its list of
  numbers is not lexicographically smaller (so \<open>24.2\<close> does not reach \<open>24.2.0\<close>).\<close>

theorem has_at_least_dotted:
  assumes "current \<noteq> []" "minimum \<noteq> []"
  shows "has_at_least [(dep, py_join ''.'' (map dec_nat current))] dep
    (Some (py_join ''.'' (map dec_nat minimum))) = Inr (minimum \<le> current)"
proof -
  have ne: "py_join ''.'' (map dec_nat xs) \<noteq> []" if "xs \<noteq> []" for xs
    using that by (cases xs rule: remdups_adj.cases) auto
  have "map Num xs = map Num ys \<longleftrightarrow> xs = ys" for xs ys
    by (rule inj_map_eq_map) (simp add: inj_def)
  then show ?thesis
    using assms by (auto simp: has_at_least_def loose_ge_def loose_cmp_def LooseVersion_def ne
        components_dotted list_less_nums not_less)
qed

theorem has_at_least_dotted_witness:
  "has_at_least [(''kubernetes'', ''9.0.1'')] ''kubernetes'' (Some ''24.2.0'') = Inr False"
proof -
  have "py_join ''.'' (map dec_nat [9, 0, 1]) = ''9.0.1''" "py_join ''.'' (map dec_nat [24, 2, 0]) = ''24.2.0''"
    by code_simp+
  then show ?thesis
    using has_at_least_dotted [of "[9, 0, 1]" "[24, 2, 0]" "''kubernetes''"] by simp
qed

text \<open>A loose comparison raises \<open>TypeError\<close> where the first components that differ are a
  number and a string, in either order: such versions have no order.\<close>

theorem loose_mixed_raises:
  assumes "LooseVersion a = Some (p @ Num n # v)" "LooseVersion b = Some (p @ Str s # w)"
  shows "loose_lt a b = Inl TypeError \<and> loose_ge a b = Inl TypeError
    \<and> loose_lt b a = Inl TypeError \<and> loose_ge b a = Inl TypeError"
proof -
  have "list_less (p @ Num n # v) (p @ Str s # w) = Inl TypeError"
    "list_less (p @ Str s # w) (p @ Num n # v) = Inl TypeError"
    by (induction p) (simp_all add: component_less_def)
  with assms show ?thesis by (simp add: loose_lt_def loose_ge_def loose_cmp_def)
qed

theorem loose_mixed_raises_witness: "loose_lt ''1.5.1'' ''1.5.b2'' = Inl TypeError"
  using loose_mixed_raises [of "''1.5.1''" "[Num 1, Num 5]" 1 "[]" "''1.5.b2''" "''b''" "[Num 2]"]
  by (simp add: LooseVersion_def is_digit_def is_lower_ascii_def nat_of_digits_def digit_val_def)

end
