(* ===== verification/DockerApiUtils.thy ===== *)
theory DockerApiUtils
  imports K8sVersion PyJson "HOL-Library.Product_Lexorder"
begin

text \<open>
  The conversions of \<open>_api/utils/utils.py\<close> from Python values to what the Docker API takes:
  port bindings, volumes, tmpfs mounts, networks, devices, filters, links, hosts and
  environments, and the splitting of repository names. Texts are \<open>str\<close>: the branches that
  decode \<open>bytes\<close> have no counterpart in the universe of values.
\<close>

section \<open>Versions\<close>

definition compare_version :: "string \<Rightarrow> string \<Rightarrow> int res" where
  "compare_version v1 v2 =
     bindR (strict_parse v1) (\<lambda>s1. bindR (strict_parse v2) (\<lambda>s2.
       Inr (if strict_cmp s1 s2 = 0 then 0 else if strict_cmp s1 s2 > 0 then - 1 else 1)))"

definition version_lt :: "string \<Rightarrow> string \<Rightarrow> bool res" where
  "version_lt v1 v2 = bindR (compare_version v1 v2) (\<lambda>c. Inr (c > 0))"

definition version_gte :: "string \<Rightarrow> string \<Rightarrow> bool res" where
  "version_gte v1 v2 = bindR (version_lt v1 v2) (\<lambda>b. Inr (\<not> b))"

section \<open>Port bindings\<close>

text \<open>The host address and the host port a binding stands for.\<close>

definition binding_parts :: "pyval \<Rightarrow> (pyval \<times> pyval) res" where
  "binding_parts binding = (case binding of
      PTuple [ip, port] \<Rightarrow> Inr (ip, port)
    | PTuple [] \<Rightarrow> Inl IndexError
    | PTuple (x # _) \<Rightarrow> Inr (case x of PStr _ \<Rightarrow> (x, PStr []) | _ \<Rightarrow> (PStr [], x))
    | PDict d \<Rightarrow>
        if has_key d ''HostPort'' then
          Inr (if has_key d ''HostIp'' then dget d ''HostIp'' else PStr [], dget d ''HostPort'')
        else Inl (ValueError (py_str binding))
    | _ \<Rightarrow> Inr (PStr [], binding))"

definition convert_port_binding :: "pyval \<Rightarrow> pyval res" where
  "convert_port_binding binding =
     bindR (binding_parts binding) (\<lambda>(ip, port).
       Inr (PDict [(''HostIp'', ip), (''HostPort'', PStr (if port = PNone then [] else py_str port))]))"

definition convert_port_bindings :: "dict \<Rightarrow> dict res" where
  "convert_port_bindings port_bindings = foldR (\<lambda>result (k, v).
     (let key = (if CHR ''/'' \<in> set k then k else k @ ''/tcp'') in
      bindR (case v of PList bs \<Rightarrow> mapR convert_port_binding bs | _ \<Rightarrow> mapR convert_port_binding [v]) (\<lambda>bs.
        Inr (AList.update key (PList bs) result)))) [] port_bindings"

section \<open>Volumes, mounts and networks\<close>

definition propagation_modes :: "pyval list" where
  "propagation_modes = map PStr [''rshared'', ''shared'', ''rslave'', ''slave'', ''rprivate'', ''private'']"

definition bind_mode :: "dict \<Rightarrow> pyval" where
  "bind_mode v =
     (if has_key v ''ro'' then PStr (if truthy (dget v ''ro'') then ''ro'' else ''rw'')
      else if has_key v ''mode'' then dget v ''mode''
      else PStr ''rw'')"

definition with_propagation :: "dict \<Rightarrow> pyval \<Rightarrow> pyval res" where
  "with_propagation v mode =
     (if has_key v ''propagation'' \<and> py_mem (dget v ''propagation'') propagation_modes then
        (if truthy mode then
           (case (mode, dget v ''propagation'') of
              (PStr m, PStr p) \<Rightarrow> Inr (PStr (m @ '','' @ p)) | _ \<Rightarrow> Inl TypeError)
         else Inr (dget v ''propagation''))
      else Inr mode)"

definition convert_volume_bind :: "string \<Rightarrow> pyval \<Rightarrow> pyval res" where
  "convert_volume_bind k v = (case v of
      PDict d \<Rightarrow>
        if has_key d ''ro'' \<and> has_key d ''mode'' then
          Inl (ValueError (''Binding cannot contain both '' @ [CHR 0x22] @ ''ro'' @ [CHR 0x22] @ '' and ''
            @ [CHR 0x22] @ ''mode'' @ [CHR 0x22] @ '': '' @ py_repr v))
        else bindR (py_getitem v ''bind'') (\<lambda>bind.
          bindR (with_propagation d (bind_mode d)) (\<lambda>mode.
            Inr (PStr (k @ '':'' @ py_str bind @ '':'' @ py_str mode))))
    | _ \<Rightarrow> Inr (PStr (k @ '':'' @ py_str v @ '':rw'')))"

definition convert_volume_binds :: "pyval \<Rightarrow> pyval list res" where
  "convert_volume_binds binds = (case binds of
      PList xs \<Rightarrow> Inr xs
    | _ \<Rightarrow> bindR (py_items binds) (mapR (\<lambda>(k, v). convert_volume_bind k v)))"

definition type_name :: "pyval \<Rightarrow> string" where
  "type_name v = (case v of PNone \<Rightarrow> ''NoneType'' | PBool _ \<Rightarrow> ''bool'' | PInt _ \<Rightarrow> ''int'' | PStr _ \<Rightarrow> ''str''
     | PList _ \<Rightarrow> ''list'' | PTuple _ \<Rightarrow> ''tuple'' | PDict _ \<Rightarrow> ''dict'')"

definition convert_tmpfs_mounts :: "pyval \<Rightarrow> dict res" where
  "convert_tmpfs_mounts tmpfs = (case tmpfs of
      PDict d \<Rightarrow> Inr d
    | PList mounts \<Rightarrow> foldR (\<lambda>result mount. case mount of
          PStr m \<Rightarrow> Inr (case split_max 1 (CHR '':'') m of
              [name, options] \<Rightarrow> AList.update name (PStr options) result
            | _ \<Rightarrow> AList.update m (PStr []) result)
        | _ \<Rightarrow> Inl (ValueError (''Expected item in tmpfs list to be a string, found: '' @ type_name mount))) [] mounts
    | _ \<Rightarrow> Inl (ValueError (''Expected tmpfs value to be either a list or a dict, found: '' @ type_name tmpfs)))"

definition convert_service_networks :: "pyval \<Rightarrow> pyval res" where
  "convert_service_networks networks =
     (if \<not> truthy networks then Inr networks
      else (case networks of
          PList ns \<Rightarrow> Inr (PList (map (\<lambda>n. case n of PStr s \<Rightarrow> PDict [(''Target'', n)] | _ \<Rightarrow> n) ns))
        | _ \<Rightarrow> Inl TypeError))"

section \<open>Names and devices\<close>

definition parse_repository_tag :: "string \<Rightarrow> string \<times> string option" where
  "parse_repository_tag repo_name =
     (case rsplit1 (CHR ''@'') repo_name of
        [repo, digest] \<Rightarrow> (repo, Some digest)
      | _ \<Rightarrow> (case rsplit1 (CHR '':'') repo_name of
          [repo, tag] \<Rightarrow> if CHR ''/'' \<in> set tag then (repo_name, None) else (repo, Some tag)
        | _ \<Rightarrow> (repo_name, None)))"

definition parse_device :: "pyval \<Rightarrow> pyval res" where
  "parse_device device = (case device of
      PDict _ \<Rightarrow> Inr device
    | PStr s \<Rightarrow>
        (let parts = split_on (CHR '':'') s;
             path_on_host = parts ! 0;
             path_in_container = (if 1 < length parts then parts ! 1 else path_on_host);
             permissions = (if 2 < length parts then parts ! 2 else ''rwm'')
         in Inr (PDict [(''PathOnHost'', PStr path_on_host), (''PathInContainer'', PStr path_in_container),
              (''CgroupPermissions'', PStr permissions)]))
    | _ \<Rightarrow> Inl (DockerException (''Invalid device type <class '' @ [CHR 0x27] @ type_name device @ [CHR 0x27] @ ''>'')))"

definition parse_devices :: "pyval list \<Rightarrow> pyval list res" where
  "parse_devices devices = mapR parse_device devices"

section \<open>Filters, links, hosts and environments\<close>

definition filter_values :: "pyval \<Rightarrow> string list" where
  "filter_values v =
     (let w = (case v of PBool b \<Rightarrow> PStr (if b then ''true'' else ''false'') | _ \<Rightarrow> v);
          items = (case w of PList xs \<Rightarrow> xs | _ \<Rightarrow> [w])
      in map py_str items)"

text \<open>\<open>json.dumps\<close> with its default separators, on a dictionary of lists of texts.\<close>

definition convert_filters :: "dict \<Rightarrow> string" where
  "convert_filters filters = ''{'' @ py_join '', '' (map (\<lambda>(k, v).
     json_str k @ '': ['' @ py_join '', '' (map json_str (filter_values v)) @ '']'') filters) @ ''}''"

definition normalize_links :: "(string \<times> string) list \<Rightarrow> string list" where
  "normalize_links links = map (\<lambda>(k, v). if v \<noteq> [] then k @ '':'' @ v else k) (sort links)"

definition format_env :: "string \<times> pyval \<Rightarrow> string" where
  "format_env var = (case var of (key, PNone) \<Rightarrow> key | (key, v) \<Rightarrow> key @ ''='' @ py_str v)"

definition format_environment :: "dict \<Rightarrow> string list" where
  "format_environment environment = map format_env environment"

definition format_extra_hosts :: "(string \<times> string) list \<Rightarrow> bool \<Rightarrow> string list" where
  "format_extra_hosts extra_hosts task =
     (if task then map (\<lambda>(k, v). v @ '' '' @ k) (sort extra_hosts)
      else map (\<lambda>(k, v). k @ '':'' @ v) (sort extra_hosts))"

text \<open>The lines of the file, each with its line end; a line read from a file is never empty.\<close>

definition env_line :: "string \<Rightarrow> (string \<times> pyval) list \<Rightarrow> string \<Rightarrow> (string \<times> pyval) list res" where
  "env_line env_file environment line = (case line of
      [] \<Rightarrow> Inl IndexError
    | c # _ \<Rightarrow>
        if c = CHR ''#'' then Inr environment
        else if py_strip line = [] then Inr environment
        else (case split_max 1 (CHR ''='') (py_strip line) of
            [k, v] \<Rightarrow> Inr (AList.update k (PStr v) environment)
          | _ \<Rightarrow> Inl (DockerException (''Invalid line in environment file '' @ env_file @ '':'' @ [CHR 0x0A] @ py_strip line))))"

definition parse_env_file :: "string \<Rightarrow> string list \<Rightarrow> dict res" where
  "parse_env_file env_file ls = foldR (env_line env_file) [] ls"

section \<open>Names with tags and digests\<close>

text \<open>The name an image is given by: a repository, with a tag or a digest.\<close>

datatype image_ref = Untagged string | Tagged string string | Digested string string

fun render_ref :: "image_ref \<Rightarrow> string" where
  "render_ref (Untagged repo) = repo"
| "render_ref (Tagged repo tag) = repo @ '':'' @ tag"
| "render_ref (Digested repo digest) = repo @ ''@'' @ digest"

fun ref_parts :: "image_ref \<Rightarrow> string \<times> string option" where
  "ref_parts (Untagged repo) = (repo, None)"
| "ref_parts (Tagged repo tag) = (repo, Some tag)"
| "ref_parts (Digested repo digest) = (repo, Some digest)"

text \<open>
  A tag has no slash and no colon. A colon of an untagged name belongs to the port of the
  registry: a slash follows it.
\<close>

fun wf_ref :: "image_ref \<Rightarrow> bool" where
  "wf_ref (Untagged repo) \<longleftrightarrow> CHR ''@'' \<notin> set repo \<and> 
     (CHR '':'' \<in> set repo \<longrightarrow> CHR ''/'' \<in> set (rev (takeWhile (\<lambda>c. c \<noteq> CHR '':'') (rev repo))))"
| "wf_ref (Tagged repo tag) \<longleftrightarrow> CHR ''@'' \<notin> set repo \<and> set tag \<inter> {CHR ''@'', CHR '':'', CHR ''/''} = {}"
| "wf_ref (Digested repo digest) \<longleftrightarrow> CHR ''@'' \<notin> set digest"

text \<open>A name is split into the repository and the tag or digest it was made of; the colon of a
  registry's port is never taken for that of a tag.\<close>

theorem repository_tag_roundtrip:
  assumes "wf_ref r"
  shows "parse_repository_tag (render_ref r) = ref_parts r"
proof (cases r)
  case (Untagged repo)
  then have free: "CHR ''@'' \<notin> set repo" using assms by simp
  show ?thesis
  proof (cases "CHR '':'' \<in> set repo")
    case True
    then obtain u v where uv: "repo = u @ CHR '':'' # v" "CHR '':'' \<notin> set v" by (meson split_list_last)
    then have "takeWhile (\<lambda>c. c \<noteq> CHR '':'') (rev v @ CHR '':'' # rev u) = rev v" by (subst takeWhile_append2) auto
    with uv show ?thesis using assms free Untagged
      by (simp add: parse_repository_tag_def rsplit1_free rsplit1_sep)
  next
    case False
    then show ?thesis using free Untagged by (simp add: parse_repository_tag_def rsplit1_free)
  qed
next
  case (Tagged repo tag)
  then have "CHR ''@'' \<notin> set (repo @ CHR '':'' # tag)" "CHR '':'' \<notin> set tag" "CHR ''/'' \<notin> set tag" using assms by auto
  then show ?thesis using Tagged by (simp add: parse_repository_tag_def rsplit1_free rsplit1_sep)
next
  case (Digested repo digest)
  then show ?thesis using assms by (simp add: parse_repository_tag_def rsplit1_sep)
qed

theorem repository_tag_roundtrip_witness:
  "parse_repository_tag ''localhost:5000/app'' = (''localhost:5000/app'', None)
   \<and> parse_repository_tag ''localhost:5000/app:v1'' = (''localhost:5000/app'', Some ''v1'')"
  using repository_tag_roundtrip [of "Untagged ''localhost:5000/app''"]
    repository_tag_roundtrip [of "Tagged ''localhost:5000/app'' ''v1''"] by simp

end
