(* ===== verification/DockerAuth.thy ===== *)
theory DockerAuth
  imports PyIO PyBytes PyJson DockerApiUtils
begin

text \<open>
  Registries and credentials (\<open>_api/auth.py\<close>, \<open>_api/credentials/store.py\<close>,
  \<open>_api/utils/config.py\<close>, \<open>_api/utils/proxy.py\<close>): how the name of an image names its
  registry, how the entries of \<open>config.json\<close> become credentials, and which of them a
  registry gets. A credential helper is a program; running it is \<open>check_output\<close>, an
  operation of the world. Bytes that decode to code points above 255 are outside the model
  and count as undecodable.
\<close>

section \<open>Names of registries\<close>

definition INDEX_NAME :: string where
  "INDEX_NAME = ''docker.io''"

definition INDEX_URL :: string where
  "INDEX_URL = ''https://index.docker.io/v1/''"

definition TOKEN_USERNAME :: string where
  "TOKEN_USERNAME = ''<token>''"

text \<open>\<open>s.replace(pat, '')\<close>.\<close>

function py_remove :: "string \<Rightarrow> string \<Rightarrow> string" where
  "py_remove pat s = (case s of [] \<Rightarrow> []
     | c # t \<Rightarrow> if pat \<noteq> [] \<and> starts_with s pat then py_remove pat (drop (length pat) s) else c # py_remove pat t)"
  by pat_completeness auto
termination by (relation "measure (length \<circ> snd)") auto

declare py_remove.simps [simp del]

definition convert_to_hostname :: "string \<Rightarrow> string" where
  "convert_to_hostname url = hd (split_max 1 (CHR ''/'') (py_remove ''https://'' (py_remove ''http://'' url)))"

definition resolve_index_name :: "string \<Rightarrow> string" where
  "resolve_index_name index_name =
     (let host = convert_to_hostname index_name in if host = ''index.'' @ INDEX_NAME then INDEX_NAME else host)"

definition split_repo_name :: "string \<Rightarrow> string \<times> string" where
  "split_repo_name repo_name = (case split_max 1 (CHR ''/'') repo_name of
     [host, rest] \<Rightarrow>
       if CHR ''.'' \<notin> set host \<and> CHR '':'' \<notin> set host \<and> host \<noteq> ''localhost'' then (INDEX_NAME, repo_name) else (host, rest)
   | _ \<Rightarrow> (INDEX_NAME, repo_name))"

definition resolve_repository_name :: "string \<Rightarrow> (string \<times> string) res" where
  "resolve_repository_name repo_name =
     (if contains repo_name ''://'' then
        Inl (DockerException (''Repository name cannot contain a scheme ('' @ repo_name @ '')''))
      else (case split_repo_name repo_name of (index_name, remote_name) \<Rightarrow>
        if index_name = [] then Inl IndexError
        else if hd index_name = CHR ''-'' \<or> last index_name = CHR ''-'' then
          Inl (DockerException (''Invalid index name ('' @ index_name @ ''). Cannot begin or end with a hyphen.''))
        else Inr (resolve_index_name index_name, remote_name)))"

section \<open>Entries of the configuration\<close>

fun utf8_decode :: "string \<Rightarrow> string option" where
  "utf8_decode [] = Some []"
| "utf8_decode (c # s) =
     (if code c < (128::nat) then map_option ((#) c) (utf8_decode s)
      else (case s of [] \<Rightarrow> None
        | d # s' \<Rightarrow>
            if (code c = (194::nat) \<or> code c = (195::nat)) \<and> (128::nat) \<le> code d \<and> code d < (192::nat)
            then map_option ((#) (char_of ((code c - 192) * 64 + (code d - 128) :: nat))) (utf8_decode s')
            else None))"

definition decode_error :: exn where
  "decode_error = ValueError ''invalid encoding''"

definition decode_auth :: "pyval \<Rightarrow> (string \<times> string) res" where
  "decode_auth auth = (case auth of
     PStr s \<Rightarrow>
       (if list_all (\<lambda>c. code c < (128::nat)) s then
          (case b64decode s of
             None \<Rightarrow> Inl (ValueError ''Incorrect padding'')
           | Some t \<Rightarrow> (case split_max 1 (CHR '':'') t of
               [login, pwd] \<Rightarrow> (case (utf8_decode login, utf8_decode pwd) of
                   (Some u, Some p) \<Rightarrow> Inr (u, p) | _ \<Rightarrow> Inl decode_error)
             | _ \<Rightarrow> Inl (ValueError ''not enough values to unpack'')))
        else Inl decode_error)
   | _ \<Rightarrow> Inl TypeError)"

text \<open>One entry of \<open>auths\<close>; \<open>None\<close> is an entry that is no dictionary.\<close>

definition parse_entry :: "string \<Rightarrow> pyval \<Rightarrow> pyval res" where
  "parse_entry registry entry = (case entry of
     PDict e \<Rightarrow>
       if has_key e ''identitytoken'' then Inr (PDict [(''IdentityToken'', dget e ''identitytoken'')])
       else if \<not> has_key e ''auth'' then Inr (PDict [])
       else bindR (decode_auth (dget e ''auth'')) (\<lambda>(username, password).
         Inr (PDict [(''username'', PStr username), (''password'', PStr password), (''email'', dget e ''email''),
           (''serveraddress'', PStr registry)]))
   | _ \<Rightarrow> Inl TypeError)"

definition is_dict :: "pyval \<Rightarrow> bool" where
  "is_dict v = (case v of PDict _ \<Rightarrow> True | _ \<Rightarrow> False)"

text \<open>
  \<open>parse_auth\<close>: the entries in order; one that is no dictionary ends the parsing, with an
  exception or with nothing at all.
\<close>

fun parse_entries :: "bool \<Rightarrow> dict \<Rightarrow> dict \<Rightarrow> dict res" where
  "parse_entries raise_on_error [] conf = Inr conf"
| "parse_entries raise_on_error ((registry, entry) # rest) conf =
     (if \<not> is_dict entry then
        (if raise_on_error then Inl (DockerException (''Invalid configuration for registry '' @ registry)) else Inr [])
      else bindR (parse_entry registry entry) (\<lambda>c.
        parse_entries raise_on_error rest (AList.update registry c conf)))"

definition parse_auth :: "pyval \<Rightarrow> bool \<Rightarrow> dict res" where
  "parse_auth entries raise_on_error = bindR (py_items entries) (\<lambda>items. parse_entries raise_on_error items [])"

text \<open>\<open>AuthConfig\<close>: the three sections, and the helper programs that were located.\<close>

record auth_config =
  ac_auths :: pyval
  ac_creds_store :: pyval
  ac_cred_helpers :: pyval
  ac_stores :: "(string \<times> string) list"

definition new_auth_config :: "dict \<Rightarrow> auth_config" where
  "new_auth_config dct = \<lparr>ac_auths = (if has_key dct ''auths'' then dget dct ''auths'' else PDict []),
     ac_creds_store = dget dct ''credsStore'',
     ac_cred_helpers = (if has_key dct ''credHelpers'' then dget dct ''credHelpers'' else PDict []), ac_stores = []\<rparr>"

definition is_empty :: "auth_config \<Rightarrow> bool" where
  "is_empty c \<longleftrightarrow> \<not> truthy (ac_auths c) \<and> \<not> truthy (ac_creds_store c) \<and> \<not> truthy (ac_cred_helpers c)"

text \<open>\<open>load_config\<close> on the parsed configuration.\<close>

definition sections_of :: "pyval \<Rightarrow> dict res" where
  "sections_of config_dict =
     bindR (py_get config_dict ''auths'' PNone) (\<lambda>a.
     bindR (if truthy a then bindR (parse_auth a True) (\<lambda>p. Inr [(''auths'', PDict p)]) else Inr []) (\<lambda>auths.
     bindR (py_get config_dict ''credsStore'' PNone) (\<lambda>s.
     bindR (py_get config_dict ''credHelpers'' PNone) (\<lambda>h.
       Inr (auths @ (if truthy s then [(''credsStore'', s)] else []) @ (if truthy h then [(''credHelpers'', h)] else []))))))"

definition config_of :: "pyval \<Rightarrow> auth_config res" where
  "config_of config_dict = bindR (sections_of config_dict) (\<lambda>res.
     if res \<noteq> [] then Inr (new_auth_config res)
     else bindR (parse_auth config_dict False) (\<lambda>p. Inr (new_auth_config [(''auths'', PDict p)])))"

section \<open>Files\<close>

definition posix_join :: "string \<Rightarrow> string \<Rightarrow> string" where
  "posix_join a b = (if starts_with b ''/'' then b else if a = [] \<or> ends_with a ''/'' then a @ b else a @ ''/'' @ b)"

definition config_paths :: "string option \<Rightarrow> string option \<Rightarrow> string \<Rightarrow> string list" where
  "config_paths config_path docker_config home =
     filter (\<lambda>p. p \<noteq> [])
       [case config_path of None \<Rightarrow> [] | Some p \<Rightarrow> p,
        case docker_config of None \<Rightarrow> [] | Some d \<Rightarrow> if d = [] then [] else posix_join d ''config.json'',
        posix_join home ''.docker/config.json'', posix_join home ''.dockercfg'']"

definition find_config_file :: "(string \<Rightarrow> bool) \<Rightarrow> string option \<Rightarrow> string option \<Rightarrow> string \<Rightarrow> string option" where
  "find_config_file exists config_path docker_config home =
     List.find exists (config_paths config_path docker_config home)"

text \<open>\<open>_load_legacy_config\<close> on the lines of the file: every exception gives the empty configuration.\<close>

fun split_str :: "string \<Rightarrow> string \<Rightarrow> string list" where
  "split_str sep [] = [[]]"
| "split_str sep (c # s) =
     (if starts_with (c # s) sep \<and> sep \<noteq> [] then [] # split_str sep (drop (length sep - 1) s)
      else (case split_str sep s of w # ws \<Rightarrow> (c # w) # ws | [] \<Rightarrow> [[c]]))"

definition legacy_value :: "string \<Rightarrow> string res" where
  "legacy_value line = (case split_str '' = '' (py_strip line) of _ # v # _ \<Rightarrow> Inr v | _ \<Rightarrow> Inl IndexError)"

definition load_legacy_config :: "string list \<Rightarrow> dict" where
  "load_legacy_config ls =
     (case bindR (mapR legacy_value ls) (\<lambda>data.
        if length data < 2 then Inl (DockerException ''Invalid or empty configuration file!'')
        else bindR (decode_auth (PStr (data ! 0))) (\<lambda>(username, password).
          Inr [(''auths'', PDict [(INDEX_NAME, PDict [(''username'', PStr username), (''password'', PStr password),
            (''email'', PStr (data ! 1)), (''serveraddress'', PStr INDEX_URL)])])])) of
       Inl e \<Rightarrow> [] | Inr d \<Rightarrow> d)"

text \<open>\<open>read_json\<close> is \<open>open\<close> and \<open>json.load\<close>, \<open>read_lines\<close> are the lines of the file.\<close>

definition load_config :: "(string \<Rightarrow> pyval res) \<Rightarrow> (string \<Rightarrow> string list) \<Rightarrow> string option \<Rightarrow> pyval \<Rightarrow> auth_config res" where
  "load_config read_json read_lines config_file config_dict =
     (if truthy config_dict then config_of config_dict
      else (case config_file of
        None \<Rightarrow> Inr (new_auth_config [])
      | Some f \<Rightarrow> (case read_json f of
            Inr d \<Rightarrow> config_of d
          | Inl e \<Rightarrow> (case e of
              OSError _ _ \<Rightarrow> Inr (new_auth_config (load_legacy_config (read_lines f)))
            | KeyError _ \<Rightarrow> Inr (new_auth_config (load_legacy_config (read_lines f)))
            | ValueError _ \<Rightarrow> Inr (new_auth_config (load_legacy_config (read_lines f)))
            | JSONDecodeError \<Rightarrow> Inr (new_auth_config (load_legacy_config (read_lines f)))
            | _ \<Rightarrow> Inl e))))"

section \<open>Credential helpers\<close>

definition process_store_error :: "string \<Rightarrow> string \<Rightarrow> exn" where
  "process_store_error output program =
     (if contains output ''credentials not found in native keychain''
      then CredentialsNotFound (''No matching credentials in '' @ program)
      else StoreError (''Credentials store '' @ program @ '' exited with \"'' @ py_strip output @ ''\".''))"

text \<open>A located helper: its program and the file that runs it.\<close>

type_synonym store = "string \<times> string"

definition execute :: "world \<Rightarrow> store \<Rightarrow> string \<Rightarrow> pyval \<Rightarrow> pyval io" where
  "execute W st subcmd data_input = (case st of (program, exe) \<Rightarrow>
     tryI (bindI (ext W ''check_output'' [PStr exe, PStr subcmd, data_input]) (\<lambda>out. case out of
         PStr s \<Rightarrow> (case utf8_decode s of None \<Rightarrow> raiseI decode_error | Some t \<Rightarrow> liftI (loads t))
       | _ \<Rightarrow> raiseI AttributeError))
       (\<lambda>e. case e of
           CalledProcessError output \<Rightarrow> raiseI (process_store_error output program)
         | OSError errno strerror \<Rightarrow> raiseI (StoreError (if errno = 2 then program @ '' not installed or not available in PATH''
             else ''Unexpected OS error \"'' @ strerror @ ''\", errno='' @ dec_int errno))
         | _ \<Rightarrow> raiseI e))"

definition store_get :: "world \<Rightarrow> store \<Rightarrow> string \<Rightarrow> pyval io" where
  "store_get W st server =
     bindI (execute W st ''get'' (PStr (utf8 server))) (\<lambda>result.
     bindI (liftI (py_getitem result ''Username'')) (\<lambda>u.
     bindI (if u = PStr [] then bindI (liftI (py_getitem result ''Secret'')) (\<lambda>p. retI (p = PStr [])) else retI False) (\<lambda>none.
       if none then raiseI (CredentialsNotFound (''No matching credentials in '' @ fst st)) else retI result)))"

definition get_store_instance :: "world \<Rightarrow> auth_config \<Rightarrow> string \<Rightarrow> (store \<times> auth_config) io" where
  "get_store_instance W c name =
     (let program = ''docker-credential-'' @ name in
      case map_of (ac_stores c) name of
        Some exe \<Rightarrow> retI ((program, exe), c)
      | None \<Rightarrow> bindI (ext W ''find_executable'' [PStr program]) (\<lambda>exe. case exe of
            PStr f \<Rightarrow> retI ((program, f), c\<lparr>ac_stores := ac_stores c @ [(name, f)]\<rparr>)
          | _ \<Rightarrow> raiseI (StoreError (program @ '' not installed or not available in PATH''))))"

definition index_url_for :: "string option \<Rightarrow> string" where
  "index_url_for registry = (case registry of None \<Rightarrow> INDEX_URL
     | Some r \<Rightarrow> if r = [] \<or> r = INDEX_NAME then INDEX_URL else r)"

definition resolve_authconfig_credstore ::
    "world \<Rightarrow> auth_config \<Rightarrow> string option \<Rightarrow> string \<Rightarrow> (pyval \<times> auth_config) io" where
  "resolve_authconfig_credstore W c registry credstore_name =
     (let server = index_url_for registry in
      bindI (get_store_instance W c credstore_name) (\<lambda>(st, c').
        tryI (bindI (store_get W st server) (\<lambda>data.
              bindI (liftI (py_getitem data ''Username'')) (\<lambda>u.
              bindI (liftI (py_getitem data ''Secret'')) (\<lambda>p.
                retI (PDict ((''ServerAddress'', PStr server) #
                  (if u = PStr TOKEN_USERNAME then [(''IdentityToken'', p)] else [(''Username'', u), (''Password'', p)])), c')))))
          (\<lambda>e. case e of
              CredentialsNotFound _ \<Rightarrow> retI (PNone, c')
            | StoreError m \<Rightarrow> raiseI (DockerException (''Credentials store error: StoreError('' @ repr_str m @ '')''))
            | _ \<Rightarrow> raiseI e)))"

text \<open>\<open>self.cred_helpers.get(registry) or self.creds_store\<close>.\<close>

definition get_credential_store :: "auth_config \<Rightarrow> string option \<Rightarrow> pyval res" where
  "get_credential_store c registry =
     bindR (py_get (ac_cred_helpers c) (index_url_for registry) PNone) (\<lambda>s. Inr (if truthy s then s else ac_creds_store c))"

section \<open>The credentials of a registry\<close>

definition auth_entry :: "auth_config \<Rightarrow> string \<Rightarrow> pyval res" where
  "auth_entry c registry =
     bindR (py_items (ac_auths c)) (\<lambda>auths.
       case map_of auths registry of
         Some conf \<Rightarrow> Inr conf
       | None \<Rightarrow> Inr (case List.find (\<lambda>(key, conf). resolve_index_name key = registry) auths of
           Some (key, conf) \<Rightarrow> conf | None \<Rightarrow> PNone))"

definition registry_name :: "string option \<Rightarrow> string" where
  "registry_name registry = (case registry of None \<Rightarrow> INDEX_NAME
     | Some r \<Rightarrow> if r = [] then INDEX_NAME else resolve_index_name r)"

definition resolve_authconfig :: "world \<Rightarrow> auth_config \<Rightarrow> string option \<Rightarrow> (pyval \<times> auth_config) io" where
  "resolve_authconfig W c registry =
     bindI (if truthy (ac_creds_store c) \<or> truthy (ac_cred_helpers c)
       then bindI (liftI (get_credential_store c registry)) (\<lambda>name. case name of
           PNone \<Rightarrow> retI (PNone, c)
         | PStr n \<Rightarrow> resolve_authconfig_credstore W c registry n
         | _ \<Rightarrow> raiseI TypeError)
       else retI (PNone, c)) (\<lambda>(cfg, c').
     if cfg \<noteq> PNone then retI (cfg, c')
     else bindI (liftI (auth_entry c' (registry_name registry))) (\<lambda>conf. retI (conf, c')))"

text \<open>\<open>json.dumps\<close> with its default separators.\<close>

fun dumps_spaced :: "pyval \<Rightarrow> string" where
  "dumps_spaced (PList xs) = ''['' @ py_join '', '' (map dumps_spaced xs) @ '']''"
| "dumps_spaced (PTuple xs) = ''['' @ py_join '', '' (map dumps_spaced xs) @ '']''"
| "dumps_spaced (PDict d) = ''{'' @ py_join '', '' (map (\<lambda>(k, v). json_str k @ '': '' @ dumps_spaced v) d) @ ''}''"
| "dumps_spaced v = dumps False v"

definition encode_header :: "pyval \<Rightarrow> string" where
  "encode_header auth = map (\<lambda>c. if c = CHR ''+'' then CHR ''-'' else if c = CHR ''/'' then CHR ''_'' else c)
     (b64encode (dumps_spaced auth))"

text \<open>
  \<open>get_config_header\<close>: the client's configuration, loaded when there is none, and the header
  or \<open>None\<close>. \<open>loaded\<close> is what \<open>load_config\<close> gives.
\<close>

definition get_config_header :: "world \<Rightarrow> auth_config res \<Rightarrow> auth_config option \<Rightarrow> string \<Rightarrow> (string option \<times> auth_config) io" where
  "get_config_header W loaded auth_configs registry =
     bindI (case auth_configs of None \<Rightarrow> liftI loaded | Some c \<Rightarrow> if is_empty c then liftI loaded else retI c) (\<lambda>c.
     bindI (resolve_authconfig W c (Some registry)) (\<lambda>(authcfg, c').
       retI (if truthy authcfg then Some (encode_header authcfg) else None, c')))"

text \<open>\<open>get_all_credentials\<close>: the entries of the file, then the helpers', which override them.\<close>

definition add_credentials :: "world \<Rightarrow> string \<Rightarrow> string \<Rightarrow> dict \<times> auth_config \<Rightarrow> (dict \<times> auth_config) io" where
  "add_credentials W key name = (\<lambda>(auth_data, c).
     bindI (resolve_authconfig_credstore W c (Some key) name) (\<lambda>(v, c').
       retI (AList.update (convert_to_hostname key) v (AList.update key v auth_data), c')))"

fun add_each :: "world \<Rightarrow> (string \<times> pyval) list \<Rightarrow> dict \<times> auth_config \<Rightarrow> (dict \<times> auth_config) io" where
  "add_each W [] s = retI s"
| "add_each W ((key, name) # rest) s = (case name of
     PStr n \<Rightarrow> bindI (add_credentials W key n s) (add_each W rest)
   | _ \<Rightarrow> raiseI TypeError)"

definition get_all_credentials :: "world \<Rightarrow> auth_config \<Rightarrow> (dict \<times> auth_config) io" where
  "get_all_credentials W c =
     bindI (liftI (py_items (ac_auths c))) (\<lambda>auth_data.
     bindI (case ac_creds_store c of
         PStr n \<Rightarrow> if n = [] then retI (auth_data, c)
           else bindI (get_store_instance W c n) (\<lambda>(st, c').
             bindI (execute W st ''list'' PNone) (\<lambda>listed.
             bindI (liftI (py_items listed)) (\<lambda>items.
               add_each W (map (\<lambda>(k, v). (k, PStr n)) items) (auth_data, c'))))
       | v \<Rightarrow> if truthy v then raiseI TypeError else retI (auth_data, c)) (\<lambda>s.
     bindI (liftI (py_items (ac_cred_helpers c))) (\<lambda>helpers. add_each W helpers s)))"

section \<open>Proxies\<close>

record proxy_config =
  px_http :: pyval
  px_https :: pyval
  px_ftp :: pyval
  px_no_proxy :: pyval

definition proxy_from_dict :: "dict \<Rightarrow> proxy_config" where
  "proxy_from_dict config = \<lparr>px_http = dget config ''httpProxy'', px_https = dget config ''httpsProxy'',
     px_ftp = dget config ''ftpProxy'', px_no_proxy = dget config ''noProxy''\<rparr>"

definition proxy_environment :: "proxy_config \<Rightarrow> dict" where
  "proxy_environment p =
     concat (map (\<lambda>(name, other, v). if truthy v then [(name, v), (other, v)] else [])
       [(''http_proxy'', ''HTTP_PROXY'', px_http p), (''https_proxy'', ''HTTPS_PROXY'', px_https p),
        (''ftp_proxy'', ''FTP_PROXY'', px_ftp p), (''no_proxy'', ''NO_PROXY'', px_no_proxy p)])"

text \<open>\<open>inject_proxy_environment\<close>: a \<open>ProxyConfig\<close> always has its four keys and counts as true.\<close>

definition inject_proxy_environment :: "proxy_config \<Rightarrow> string list \<Rightarrow> string list" where
  "inject_proxy_environment p environment =
     (let proxy_env = format_environment (proxy_environment p) in
      if environment = [] then proxy_env else proxy_env @ environment)"

section \<open>Lemmas\<close>

lemma found_in: "List.find P xs = Some x \<Longrightarrow> P x \<and> x \<in> set xs"
  by (induction xs) (auto split: if_splits)

lemma utf8_decode_utf8 [simp]: "utf8_decode (utf8 s) = Some s"
proof (induction s)
  case (Cons c s)
  have c: "code c < (256 :: nat)" by simp
  show ?case
  proof (cases "code c < (128 :: nat)")
    case True
    with Cons show ?thesis by (simp add: utf8_def)
  next
    case False
    let ?n = "code c :: nat"
    have hi: "192 + ?n div 64 = 194 \<or> 192 + ?n div 64 = 195"
      using div_le_mono [of 128 ?n 64] less_mult_imp_div_less [of ?n 4 64] False c by simp linarith
    have u: "utf8 (c # s) = char_of (192 + ?n div 64) # char_of (128 + ?n mod 64) # utf8 s"
      using False by (simp add: utf8_def)
    have n: "?n div 64 * 64 + ?n mod 64 = ?n" by (rule div_mult_mod_eq)
    have char_is: "char_of m = c" if "m = ?n" for m using that by (simp only: char_of_char)
    from hi consider "?n div 64 = 2" | "?n div 64 = 3" by auto
    then show ?thesis
    proof cases
      case 1
      with n have "char_of (128 + ?n mod 64) = c" by (intro char_is) linarith
      moreover have "128 \<le> ?n" "?n < 192" using 1 n mod_less_divisor [of 64 ?n] by linarith+
      ultimately show ?thesis using u 1 Cons by simp
    next
      case 2
      with n have "char_of (192 + ?n mod 64) = c" by (intro char_is) linarith
      with u 2 Cons show ?thesis by simp
    qed
  qed
qed simp

lemma utf8_byte: "c \<in> set (utf8 s) \<Longrightarrow> code c < (128::nat) \<Longrightarrow> c \<in> set s"
proof (induction s)
  case (Cons a s)
  have "utf8 (a # s) = utf8 [a] @ utf8 s" by (simp add: utf8_def)
  moreover have "(192 + code a div 64) mod 256 = 192 + code a div (64 :: nat)"
    using less_mult_imp_div_less [of "code a" 4 64] by simp
  ultimately show ?case using Cons by (auto simp: utf8_def split: if_splits)
qed simp

lemma b64_ascii: "b64_char c \<Longrightarrow> code c < (128::nat)"
  by (auto simp: b64_char_def b64_value_def Let_def split: if_splits)

lemma not_starts_with_slash: "CHR ''/'' \<notin> set s \<Longrightarrow> CHR ''/'' \<in> set pat \<Longrightarrow> \<not> starts_with s pat"
  by (auto simp: starts_with_iff)

lemma py_remove_free: "CHR ''/'' \<notin> set s \<Longrightarrow> CHR ''/'' \<in> set pat \<Longrightarrow> py_remove pat s = s"
proof (induction s)
  case (Cons c s)
  then have "\<not> starts_with (c # s) pat" by (intro not_starts_with_slash) auto
  with Cons show ?case by (subst py_remove.simps) simp
qed (simp add: py_remove.simps)

lemma hostname_free: "CHR ''/'' \<notin> set (convert_to_hostname url)"
  unfolding convert_to_hostname_def
  by (cases rule: split_max_1_cases [of "CHR ''/''" "py_remove ''https://'' (py_remove ''http://'' url)"]) auto

lemma hostname_of_host: "CHR ''/'' \<notin> set s \<Longrightarrow> convert_to_hostname s = s"
  by (simp add: convert_to_hostname_def py_remove_free split_max_free)

lemma resolve_index_name_idem [simp]: "resolve_index_name (resolve_index_name r) = resolve_index_name r"
  using hostname_free [of r]
  by (auto simp: resolve_index_name_def Let_def INDEX_NAME_def hostname_of_host)

lemma resolve_INDEX_NAME [simp]: "resolve_index_name INDEX_NAME = INDEX_NAME"
  by (simp add: resolve_index_name_def Let_def INDEX_NAME_def hostname_of_host)

lemma registry_name_resolved [simp]: "resolve_index_name (registry_name r) = registry_name r"
  by (simp add: registry_name_def split: option.split)

section \<open>Properties\<close>

text \<open>The \<open>auth\<close> field that Docker writes is read back: the base64 text of \<open>user:password\<close> gives the
  user and the password, for every password and every user name without a colon.\<close>

theorem decode_auth_roundtrip:
  assumes "CHR '':'' \<notin> set user"
  shows "decode_auth (PStr (b64encode (utf8 (user @ '':'' @ password)))) = Inr (user, password)"
proof -
  have "list_all (\<lambda>c. code c < (128::nat)) (b64encode s)" for s
    using b64_chars [of s] by (auto simp: list_all_iff dest: b64_ascii)
  moreover have "split_max 1 (CHR '':'') (utf8 (user @ '':'' @ password)) = [utf8 user, utf8 password]"
  proof -
    have colon: "utf8 (CHR '':'' # w) = CHR '':'' # utf8 w" for w by (simp add: utf8_def)
    have "CHR '':'' \<notin> set (utf8 user)" using assms by (auto dest!: utf8_byte)
    then show ?thesis by (simp add: colon split_max_sep split_max_0)
  qed
  ultimately show ?thesis by (simp add: decode_auth_def)
qed

theorem decode_auth_roundtrip_witness:
  "decode_auth (PStr (b64encode (utf8 (''bob'' @ '':'' @ ''a:b'')))) = Inr (''bob'', ''a:b'')"
  by (rule decode_auth_roundtrip) simp

text \<open>C27: Credentials stay with their registry. Without a credential helper, what is sent to a registry is an
  entry of the configuration whose name stands for that registry (a legacy entry may be a URL),
  and nothing is sent only if there is no such entry.\<close>

theorem credentials_stay_with_registry:
  assumes "\<not> truthy (ac_creds_store c)" "\<not> truthy (ac_cred_helpers c)" "ac_auths c = PDict auths"
  shows "\<exists>v. resolve_authconfig W c registry h = (Inr (v, c), h)
    \<and> ((\<exists>key. (key, v) \<in> set auths \<and> resolve_index_name key = registry_name registry)
       \<or> v = PNone \<and> (\<forall>(key, w) \<in> set auths. resolve_index_name key \<noteq> registry_name registry))"
proof -
  let ?r = "registry_name registry"
  obtain v where v: "auth_entry c ?r = Inr v"
    and "(\<exists>key. (key, v) \<in> set auths \<and> resolve_index_name key = ?r)
       \<or> v = PNone \<and> (\<forall>(key, w) \<in> set auths. resolve_index_name key \<noteq> ?r)"
  proof (cases "map_of auths ?r")
    case (Some conf)
    have "\<exists>key. (key, conf) \<in> set auths \<and> resolve_index_name key = ?r"
      using map_of_SomeD [OF Some] registry_name_resolved by blast
    moreover have "auth_entry c ?r = Inr conf" using Some assms(3) by (simp add: auth_entry_def py_items_def)
    ultimately show thesis using that by blast
  next
    case None
    let ?p = "\<lambda>(key, conf). resolve_index_name key = ?r"
    show thesis
    proof (cases "List.find ?p auths")
      case found: (Some e)
      obtain key conf where e: "e = (key, conf)" by (cases e)
      from found_in [OF found] have "e \<in> set auths" "?p e" by simp_all
      moreover have "auth_entry c ?r = Inr conf" using None found e assms(3) by (simp add: auth_entry_def py_items_def)
      ultimately show thesis using that e by auto
    next
      case missing: None
      then have "\<forall>(key, w) \<in> set auths. resolve_index_name key \<noteq> ?r" by (auto simp: find_None_iff)
      moreover have "auth_entry c ?r = Inr PNone" using None missing assms(3) by (simp add: auth_entry_def py_items_def)
      ultimately show thesis using that by blast
    qed
  qed
  moreover have "resolve_authconfig W c registry h = (Inr (v, c), h)"
    using assms(1,2) v by (simp add: resolve_authconfig_def run_bind run_simps)
  ultimately show ?thesis by blast
qed

definition legacy_config :: auth_config where
  "legacy_config = new_auth_config [(''auths'', PDict [(''https://index.docker.io/v1/'', PDict [(''username'', PStr ''a'')])])]"

theorem credentials_stay_with_registry_witness:
  "\<exists>v. resolve_authconfig (sample_world (\<lambda>d e. d) (\<lambda>h v r b k. Inr PNone)) legacy_config (Some ''docker.io'') [] = (Inr (v, legacy_config), [])
    \<and> ((\<exists>key. (key, v) \<in> set [(''https://index.docker.io/v1/'', PDict [(''username'', PStr ''a'')])]
          \<and> resolve_index_name key = registry_name (Some ''docker.io''))
       \<or> v = PNone \<and> (\<forall>(key, w) \<in> set [(''https://index.docker.io/v1/'', PDict [(''username'', PStr ''a'')])].
            resolve_index_name key \<noteq> registry_name (Some ''docker.io'')))"
  by (rule credentials_stay_with_registry) (simp_all add: legacy_config_def new_auth_config_def has_key_def dget_def)

end
