(* ===== verification/DockerClient.thy ===== *)
theory DockerClient
  imports DockerAuth K8sVersion
begin

text \<open>
  What the Docker modules ask the daemon (\<open>common_api.py\<close>) and the driver that
  \<open>docker_container\<close> uses (the class \<open>DockerAPIEngineDriver\<close> of \<open>docker_api.py\<close>). A request
  is an \<open>Ext\<close> event: the method, the pattern of the path, its argument, and the query or
  the data; the world answers it with the decoded body or raises. \<open>NotFoundError\<close> is the
  \<open>NotFound\<close> of the client, \<open>APIError\<close> carries the explanation of any other error of the API.
\<close>

section \<open>Requests\<close>

definition GET :: "world \<Rightarrow> string \<Rightarrow> pyval \<Rightarrow> dict \<Rightarrow> pyval io" where
  "GET W path arg params = ext W ''GET'' [PStr path, arg, PDict params]"

definition POST :: "world \<Rightarrow> string \<Rightarrow> pyval \<Rightarrow> dict \<Rightarrow> dict \<Rightarrow> pyval io" where
  "POST W path arg params data = ext W ''POST'' [PStr path, arg, PDict params, PDict data]"

definition DELETE :: "world \<Rightarrow> string \<Rightarrow> pyval \<Rightarrow> dict \<Rightarrow> pyval io" where
  "DELETE W path arg params = ext W ''DELETE'' [PStr path, arg, PDict params]"

definition fail_client :: "string \<Rightarrow> 'a io" where
  "fail_client msg = raiseI (FailJson [(''msg'', PStr msg)])"

text \<open>\<open>except Exception as exc: self.fail(what % exc)\<close>.\<close>

definition or_fail :: "world \<Rightarrow> (string \<Rightarrow> string) \<Rightarrow> 'a io \<Rightarrow> 'a io" where
  "or_fail W what m = tryI m (\<lambda>e. if is_Exception e then fail_client (what (exn_text W e)) else raiseI e)"

text \<open>\<open>except NotFound: return None\<close> before that clause.\<close>

definition none_or_fail :: "world \<Rightarrow> (string \<Rightarrow> string) \<Rightarrow> pyval io \<Rightarrow> pyval io" where
  "none_or_fail W what m = tryI m (\<lambda>e. if e = NotFoundError then retI PNone
     else if is_Exception e then fail_client (what (exn_text W e)) else raiseI e)"

section \<open>Containers and networks\<close>

definition get_container_by_id :: "world \<Rightarrow> pyval \<Rightarrow> pyval io" where
  "get_container_by_id W container_id =
     none_or_fail W (\<lambda>t. ''Error inspecting container: '' @ t) (GET W ''/containers/{0}/json'' container_id [])"

definition container_matches :: "string \<Rightarrow> pyval \<Rightarrow> bool res" where
  "container_matches name container =
     (let search_name = (if starts_with name ''/'' then name else ''/'' @ name) in
      bindR (py_getitem container ''Names'') (\<lambda>names.
        if (case names of PList ns \<Rightarrow> py_mem (PStr search_name) ns | _ \<Rightarrow> False) then Inr True
        else bindR (py_getitem container ''Id'') (\<lambda>i. case i of
            PStr s \<Rightarrow> Inr (starts_with s name \<or> s = name) | _ \<Rightarrow> Inl AttributeError)))"

definition get_container :: "world \<Rightarrow> pyval \<Rightarrow> pyval io" where
  "get_container W name = (case name of
     PNone \<Rightarrow> retI PNone
   | PStr n \<Rightarrow>
       bindI (or_fail W (\<lambda>t. ''Error retrieving container list: '' @ t)
         (bindI (GET W ''/containers/json'' PNone [(''limit'', PInt (- 1)), (''all'', PInt 1), (''size'', PInt 0), (''trunc_cmd'', PInt 0)]) (\<lambda>containers.
          liftI (bindR (py_iter containers) (findR (container_matches n)))))) (\<lambda>found. case found of
         None \<Rightarrow> retI PNone
       | Some c \<Rightarrow> bindI (liftI (py_getitem c ''Id'')) (get_container_by_id W))
   | _ \<Rightarrow> raiseI AttributeError)"

definition network_matches :: "pyval \<Rightarrow> pyval \<Rightarrow> bool res" where
  "network_matches name network =
     bindR (py_getitem network ''Name'') (\<lambda>n. if py_eq name n then Inr True
       else bindR (py_getitem network ''Id'') (\<lambda>i. case (i, name) of
           (PStr s, PStr p) \<Rightarrow> Inr (starts_with s p) | (PStr _, _) \<Rightarrow> Inl TypeError | _ \<Rightarrow> Inl AttributeError))"

definition get_network :: "world \<Rightarrow> pyval \<Rightarrow> pyval \<Rightarrow> pyval io" where
  "get_network W name network_id =
     (if name = PNone \<and> network_id = PNone then retI PNone
      else bindI (if network_id \<noteq> PNone then retI network_id
         else bindI (or_fail W (\<lambda>t. ''Error retrieving network list: '' @ t)
             (bindI (GET W ''/networks'' PNone []) (\<lambda>networks. liftI (bindR (py_iter networks) (findR (network_matches name)))))) (\<lambda>found.
           case found of None \<Rightarrow> retI PNone | Some n \<Rightarrow> liftI (py_getitem n ''Id''))) (\<lambda>i.
        if i = PNone then retI PNone
        else none_or_fail W (\<lambda>t. ''Error inspecting network: '' @ t) (GET W ''/networks/{0}'' i [])))"

section \<open>Images\<close>

definition tagged :: "string \<Rightarrow> string \<Rightarrow> pyval \<Rightarrow> bool res" where
  "tagged name tag img =
     bindR (py_get img ''RepoTags'' PNone) (\<lambda>tags.
     bindR (py_get img ''RepoDigests'' PNone) (\<lambda>digests.
     bindR (if truthy tags then str_in (name @ '':'' @ tag) tags else Inr False) (\<lambda>t.
       if t then Inr True else if truthy digests then str_in (name @ ''@'' @ tag) digests else Inr False)))"

definition image_lookup :: "world \<Rightarrow> string \<Rightarrow> string \<Rightarrow> string \<Rightarrow> pyval list io" where
  "image_lookup W api_version name tag =
     bindI (or_fail W (\<lambda>t. ''Error searching for image '' @ name @ '' - '' @ t)
       (bindI (liftI (loose_lt api_version ''1.25'')) (\<lambda>old.
          GET W ''/images/json'' PNone ([(''only_ids'', PInt 0), (''all'', PInt 0)] @
            (if old then [(''filter'', PStr name)] else [(''filters'', PStr (convert_filters [(''reference'', PStr name)]))]))))) (\<lambda>images.
     bindI (liftI (py_iter images)) (\<lambda>xs.
       if tag = [] then retI xs
       else bindI (liftI (findR (tagged name tag) xs)) (\<lambda>found. retI (case found of None \<Rightarrow> [] | Some x \<Rightarrow> [x]))))"

text \<open>\<open>if not images: images = self._image_lookup(lookup, tag)\<close>.\<close>

definition or_lookup :: "world \<Rightarrow> string \<Rightarrow> string \<Rightarrow> bool \<Rightarrow> string \<Rightarrow> pyval list \<Rightarrow> pyval list io" where
  "or_lookup W api_version tag cond lookup images =
     (if images = [] \<and> cond then image_lookup W api_version lookup tag else retI images)"

definition find_images :: "world \<Rightarrow> string \<Rightarrow> string \<Rightarrow> string \<Rightarrow> pyval list io" where
  "find_images W api_version name tag =
     bindI (image_lookup W api_version name tag) (\<lambda>images.
       if images \<noteq> [] then retI images
       else bindI (liftI (resolve_repository_name name)) (\<lambda>(registry, repo_name).
         if registry \<noteq> ''docker.io'' then retI []
         else bindI (image_lookup W api_version repo_name tag) (\<lambda>i1.
              bindI (or_lookup W api_version tag (starts_with repo_name ''library/'') (drop (length ''library/'') repo_name) i1) (\<lambda>i2.
              bindI (or_lookup W api_version tag True (registry @ ''/'' @ repo_name) i2)
                (or_lookup W api_version tag (CHR ''/'' \<notin> set repo_name) (registry @ ''/library/'' @ repo_name))))))"

definition find_image :: "world \<Rightarrow> string \<Rightarrow> string \<Rightarrow> string \<Rightarrow> pyval io" where
  "find_image W api_version name tag =
     (if name = [] then retI PNone
      else bindI (find_images W api_version name tag) (\<lambda>images. case images of
          [] \<Rightarrow> retI PNone
        | [img] \<Rightarrow> none_or_fail W (\<lambda>t. ''Error inspecting image '' @ name @ '':'' @ tag @ '' - '' @ t)
            (bindI (liftI (py_getitem img ''Id'')) (\<lambda>i. GET W ''/images/{0}/json'' i []))
        | _ \<Rightarrow> fail_client (''Daemon returned more than one result for '' @ name @ '':'' @ tag)))"

definition find_image_by_id :: "world \<Rightarrow> pyval \<Rightarrow> bool \<Rightarrow> pyval io" where
  "find_image_by_id W image_id accept_missing_image =
     (if \<not> truthy image_id then retI PNone
      else tryI (GET W ''/images/{0}/json'' image_id []) (\<lambda>e.
        if e = NotFoundError \<and> accept_missing_image then retI PNone
        else if is_Exception e then fail_client (''Error inspecting image ID '' @ py_str image_id @ '' - '' @ exn_text W e)
        else raiseI e))"

text \<open>The lines of the answer to a pull; one with an error ends it.\<close>

fun check_pull :: "string \<Rightarrow> pyval list \<Rightarrow> unit res" where
  "check_pull name [] = Inr ()"
| "check_pull name (line # rest) =
     bindR (py_get line ''error'' PNone) (\<lambda>err.
       if truthy err then
         bindR (py_get line ''errorDetail'' PNone) (\<lambda>detail.
           if truthy detail then
             bindR (py_get detail ''code'' PNone) (\<lambda>code. bindR (py_get detail ''message'' PNone) (\<lambda>message.
               Inl (FailJson [(''msg'', PStr (''Error pulling '' @ name @ '' - code: '' @ py_str code @ '' message: '' @ py_str message))])))
           else Inl (FailJson [(''msg'', PStr (''Error pulling '' @ name @ '' - '' @ py_str err))]))
       else check_pull name rest)"

text \<open>\<open>auth\<close> is the header with the credentials for a registry, from \<open>get_config_header\<close>.\<close>

definition pull_image :: "world \<Rightarrow> string \<Rightarrow> (string \<Rightarrow> string option io) \<Rightarrow> string \<Rightarrow> string \<Rightarrow> pyval \<Rightarrow> (pyval \<times> bool) io" where
  "pull_image W api_version auth name tag platform =
     bindI (find_image W api_version name tag) (\<lambda>old_tag.
     bindI (or_fail W (\<lambda>t. ''Error pulling image '' @ name @ '':'' @ tag @ '' - '' @ t)
       (case parse_repository_tag name of (repository, image_tag) \<Rightarrow>
         bindI (liftI (resolve_repository_name repository)) (\<lambda>(registry, repo_name).
         bindI (auth registry) (\<lambda>header.
         bindI (ext W ''POST'' [PStr ''/images/create'',
             PDict ([(''tag'', PStr (if tag \<noteq> [] then tag else case image_tag of Some t \<Rightarrow> if t = [] then ''latest'' else t | None \<Rightarrow> ''latest'')),
                (''fromImage'', PStr repository)] @ (if platform \<noteq> PNone then [(''platform'', platform)] else [])),
             PDict (case header of Some t \<Rightarrow> [(''X-Registry-Auth'', PStr t)] | None \<Rightarrow> [])]) (\<lambda>stream.
           liftI (bindR (py_iter stream) (check_pull name))))))) (\<lambda>_.
     bindI (find_image W api_version name tag) (\<lambda>new_tag. retI (new_tag, py_eq old_tag new_tag))))"

section \<open>Warnings\<close>

text \<open>A text is a sequence too: its characters are reported one by one.\<close>

fun crawl :: "string list \<Rightarrow> pyval \<Rightarrow> pyval option" where
  "crawl [] result = Some result"
| "crawl (key # keys) result = (case result of PDict d \<Rightarrow> crawl keys (dget d key) | _ \<Rightarrow> None)"

fun warn_each :: "pyval list \<Rightarrow> unit io" where
  "warn_each [] = retI ()"
| "warn_each (w # ws) = bindI (emit (Warn (''Docker warning: '' @ py_str w))) (\<lambda>_. warn_each ws)"

definition report_warnings :: "pyval \<Rightarrow> string list \<Rightarrow> unit io" where
  "report_warnings result warnings_key = (case crawl warnings_key result of
     Some (PList ws) \<Rightarrow> warn_each ws
   | Some (PTuple ws) \<Rightarrow> warn_each ws
   | Some (PStr s) \<Rightarrow> warn_each (map (\<lambda>c. PStr [c]) s)
   | _ \<Rightarrow> retI ())"

section \<open>The driver of docker_container\<close>

text \<open>What the inspection of a container says.\<close>

definition container_state :: "pyval \<Rightarrow> dict res" where
  "container_state container = bindR (py_get container ''State'' PNone) (\<lambda>st.
     if truthy st then (case st of PDict d \<Rightarrow> Inr d | _ \<Rightarrow> Inl AttributeError) else Inr [])"

definition is_container_removing :: "pyval \<Rightarrow> bool res" where
  "is_container_removing container = bindR (container_state container) (\<lambda>st. Inr (dget st ''Status'' = PStr ''removing''))"

definition is_container_running :: "pyval \<Rightarrow> bool res" where
  "is_container_running container = bindR (container_state container) (\<lambda>st.
     Inr (truthy (dget st ''Running'') \<and> \<not> truthy (dget st ''Ghost'')))"

text \<open>\<open>Paused\<close> as it is, not as a truth value.\<close>

definition is_container_paused :: "pyval \<Rightarrow> pyval res" where
  "is_container_paused container = bindR (container_state container) (\<lambda>st.
     Inr (if has_key st ''Paused'' then dget st ''Paused'' else PBool False))"

definition pause_container :: "world \<Rightarrow> pyval \<Rightarrow> pyval io" where
  "pause_container W container_id = POST W ''/containers/{0}/pause'' container_id [] []"

definition unpause_container :: "world \<Rightarrow> pyval \<Rightarrow> pyval io" where
  "unpause_container W container_id = POST W ''/containers/{0}/unpause'' container_id [] []"

definition disconnect_container_from_network :: "world \<Rightarrow> pyval \<Rightarrow> pyval \<Rightarrow> pyval io" where
  "disconnect_container_from_network W container_id network_id =
     POST W ''/networks/{0}/disconnect'' network_id [] [(''Container'', container_id)]"

definition endpoint_fields :: "(string \<times> string) list" where
  "endpoint_fields = [(''ipv4_address'', ''IPv4Address''), (''ipv6_address'', ''IPv6Address''), (''links'', ''Links''),
     (''aliases'', ''Aliases''), (''mac_address'', ''MacAddress'')]"

definition link_pair :: "pyval \<Rightarrow> (string \<times> string) res" where
  "link_pair v = (case v of PList [PStr a, PStr b] \<Rightarrow> Inr (a, b) | PTuple [PStr a, PStr b] \<Rightarrow> Inr (a, b) | _ \<Rightarrow> Inl TypeError)"

definition endpoint_field :: "dict \<Rightarrow> string \<times> string \<Rightarrow> dict res" where
  "endpoint_field parameters = (\<lambda>(para, dest).
     let v = dget parameters para in
     if truthy v then
       (if para = ''links'' then bindR (py_iter v) (\<lambda>xs. bindR (mapR link_pair xs) (\<lambda>ls.
          Inr [(dest, PList (map PStr (normalize_links ls)))]))
        else Inr [(dest, v)])
     else Inr [])"

definition create_endpoint_config :: "dict \<Rightarrow> dict res" where
  "create_endpoint_config parameters =
     bindR (mapR (endpoint_field parameters) endpoint_fields) (\<lambda>parts.
       let params = concat parts;
           unknown = filter (\<lambda>k. k \<notin> fst ` set endpoint_fields) (map fst parameters);
           is_ip = (\<lambda>(k, v). k = ''IPv4Address'' \<or> k = ''IPv6Address'');
           ipam = filter is_ip params
       in if unknown \<noteq> [] then
            Inl (PyException (''Unknown parameter(s) for connect_container_to_network for Docker API driver: ''
              @ py_join '', '' (map (\<lambda>p. CHR 0x22 # p @ [CHR 0x22]) (sort unknown))))
          else Inr (filter (\<lambda>p. \<not> is_ip p) params @ (if ipam \<noteq> [] then [(''IPAMConfig'', PDict ipam)] else [])))"

definition connect_container_to_network :: "world \<Rightarrow> pyval \<Rightarrow> pyval \<Rightarrow> dict \<Rightarrow> pyval io" where
  "connect_container_to_network W container_id network_id parameters =
     bindI (liftI (create_endpoint_config parameters)) (\<lambda>params.
       POST W ''/networks/{0}/connect'' network_id [] [(''Container'', container_id), (''EndpointConfig'', PDict params)])"

definition supports_more_than_one_network :: "string \<Rightarrow> bool res" where
  "supports_more_than_one_network api_version = loose_ge api_version ''1.44''"

definition create_container :: "world \<Rightarrow> string \<Rightarrow> dict \<Rightarrow> (string \<times> dict) list \<Rightarrow> pyval io" where
  "create_container W container_name create_parameters networks =
     bindI (liftI (mapR (\<lambda>(network, p). bindR (create_endpoint_config p) (\<lambda>c. Inr (network, PDict c))) networks)) (\<lambda>endpoints.
     bindI (POST W ''/containers/create'' PNone
         ((''name'', PStr container_name) #
           (if has_key create_parameters ''platform'' then [(''platform'', dget create_parameters ''platform'')] else []))
         (AList.update ''NetworkingConfig'' (PDict [(''EndpointsConfig'', PDict endpoints)])
           (AList.delete ''platform'' create_parameters))) (\<lambda>new_container.
     bindI (report_warnings new_container [''Warnings'']) (\<lambda>_. liftI (py_getitem new_container ''Id''))))"

definition start_container :: "world \<Rightarrow> pyval \<Rightarrow> pyval io" where
  "start_container W container_id = POST W ''/containers/{0}/start'' container_id [] []"

definition wait_for_container :: "world \<Rightarrow> pyval \<Rightarrow> pyval io" where
  "wait_for_container W container_id =
     bindI (POST W ''/containers/{0}/wait'' container_id [] []) (\<lambda>r. liftI (py_getitem r ''StatusCode''))"

fun getitems :: "pyval \<Rightarrow> string list \<Rightarrow> pyval res" where
  "getitems v [] = Inr v"
| "getitems v (k # ks) = bindR (py_getitem v k) (\<lambda>w. getitems w ks)"

text \<open>\<open>_get_result_tty\<close> is the world's: the text of a response with or without a terminal.\<close>

definition get_container_output :: "world \<Rightarrow> pyval \<Rightarrow> (pyval \<times> bool) io" where
  "get_container_output W container_id =
     bindI (GET W ''/containers/{0}/json'' container_id []) (\<lambda>config.
     bindI (liftI (getitems config [''HostConfig'', ''LogConfig'', ''Type''])) (\<lambda>logging_driver.
       if logging_driver \<in> {PStr ''json-file'', PStr ''journald'', PStr ''local''} then
         bindI (GET W ''/containers/{0}/logs'' container_id [(''stderr'', PInt 1), (''stdout'', PInt 1), (''timestamps'', PInt 0),
             (''follow'', PInt 0), (''tail'', PStr ''all'')]) (\<lambda>res.
         bindI (liftI (getitems config [''Config'', ''Tty''])) (\<lambda>tty.
         bindI (ext W ''get_result_tty'' [res, tty]) (\<lambda>output. retI (output, True))))
       else retI (PStr (''Result logged using `'' @ py_str logging_driver @ ''` driver''), False)))"

definition update_container :: "world \<Rightarrow> pyval \<Rightarrow> dict \<Rightarrow> unit io" where
  "update_container W container_id update_parameters =
     bindI (POST W ''/containers/{0}/update'' container_id [] update_parameters) (\<lambda>result. report_warnings result [''Warnings''])"

definition restart_container :: "world \<Rightarrow> pyval \<Rightarrow> pyval \<Rightarrow> pyval io" where
  "restart_container W container_id timeout = POST W ''/containers/{0}/restart'' container_id [(''t'', timeout)] []"

definition kill_container :: "world \<Rightarrow> pyval \<Rightarrow> pyval \<Rightarrow> pyval io" where
  "kill_container W container_id kill_signal =
     POST W ''/containers/{0}/kill'' container_id (if kill_signal \<noteq> PNone then [(''signal'', kill_signal)] else []) []"

text \<open>
  Stopping and removing: an answer that asks to unpause the container first is followed by
  that and another try, three times at most. \<open>tries\<close> is what is left of the three.
\<close>

definition says_paused :: "exn \<Rightarrow> bool" where
  "says_paused e = (case e of APIError explanation \<Rightarrow> contains explanation ''Unpause the container before stopping or killing'' | _ \<Rightarrow> False)"

definition unpause_again :: "world \<Rightarrow> pyval \<Rightarrow> unit io" where
  "unpause_again W container_id =
     bindI (tryI (unpause_container W container_id) (\<lambda>e. if is_Exception e
         then raiseI (PyException (exn_text W e @ '' [while unpausing]'')) else raiseI e)) (\<lambda>_. retI ())"

fun stop_tries :: "world \<Rightarrow> pyval \<Rightarrow> dict \<Rightarrow> nat \<Rightarrow> unit io" where
  "stop_tries W container_id params tries =
     bindI (attemptI (POST W ''/containers/{0}/stop'' container_id params [])) (\<lambda>r. case r of
         Inr _ \<Rightarrow> retI ()
       | Inl e \<Rightarrow>
           if says_paused e then
             (case tries of
                0 \<Rightarrow> raiseI (PyException (exn_text W e @ '' [tried to unpause three times]''))
              | Suc k \<Rightarrow> bindI (unpause_again W container_id) (\<lambda>_. stop_tries W container_id params k))
           else raiseI e)"

definition stop_container :: "world \<Rightarrow> pyval \<Rightarrow> pyval \<Rightarrow> unit io" where
  "stop_container W container_id timeout = stop_tries W container_id (if truthy timeout then [(''t'', timeout)] else []) 3"

definition being_removed :: "exn \<Rightarrow> bool" where
  "being_removed e = (e = NotFoundError \<or> (case e of APIError explanation \<Rightarrow>
     contains explanation ''removal of container '' \<and> contains explanation '' is already in progress'' | _ \<Rightarrow> False))"

fun remove_tries :: "world \<Rightarrow> pyval \<Rightarrow> dict \<Rightarrow> nat \<Rightarrow> unit io" where
  "remove_tries W container_id params tries =
     bindI (attemptI (DELETE W ''/containers/{0}'' container_id params)) (\<lambda>r. case r of
         Inr _ \<Rightarrow> retI ()
       | Inl e \<Rightarrow>
           if says_paused e then
             (case tries of
                0 \<Rightarrow> raiseI (PyException (exn_text W e @ '' [tried to unpause three times]''))
              | Suc k \<Rightarrow> bindI (unpause_again W container_id) (\<lambda>_. remove_tries W container_id params k))
           else if being_removed e then retI ()
           else raiseI e)"

definition remove_container :: "world \<Rightarrow> pyval \<Rightarrow> bool \<Rightarrow> bool \<Rightarrow> bool \<Rightarrow> unit io" where
  "remove_container W container_id remove_volumes link force =
     remove_tries W container_id [(''v'', PBool remove_volumes), (''link'', PBool link), (''force'', PBool force)] 3"

declare stop_tries.simps [simp del] remove_tries.simps [simp del]

end
