(* ===== verification/DockerUtil.thy ===== *)
theory DockerUtil
  imports PyString "HOL-Library.Sublist"
begin

text \<open>
  The helpers of the Docker modules (\<open>module_utils/util.py\<close>): comparing what is wanted with
  what is there, collecting differences, and turning options into what the Docker API
  expects (booleans, durations, health checks).
\<close>

section \<open>Comparing values\<close>

definition compare_dict_allow_more_present :: "pyval \<Rightarrow> pyval \<Rightarrow> bool res" where
  "compare_dict_allow_more_present av bv = bindR (py_items av) (allR (\<lambda>(key, w).
     bindR (str_in key bv) (\<lambda>present.
       if \<not> present then Inr False else bindR (py_getitem bv key) (\<lambda>x. Inr (py_eq x w)))))"

text \<open>What indexing from 0 with \<open>len\<close> as the bound sees of a value.\<close>

definition py_indexed :: "pyval \<Rightarrow> pyval list res" where
  "py_indexed v = (case v of PDict [] \<Rightarrow> Inr [] | PDict _ \<Rightarrow> Inl (KeyError ''0'') | _ \<Rightarrow> py_iter v)"

text \<open>The scan of \<open>b\<close> for the elements of \<open>a\<close>, one after the other.\<close>

fun list_more_present :: "pyval list \<Rightarrow> pyval list \<Rightarrow> bool" where
  "list_more_present [] b = True"
| "list_more_present (v # a) b = (case dropWhile (\<lambda>w. \<not> py_eq w v) b of
      [] \<Rightarrow> False | _ # rest \<Rightarrow> list_more_present a rest)"

definition py_set :: "pyval \<Rightarrow> pyval list res" where
  "py_set v = bindR (py_iter v) (\<lambda>xs. if list_all hashable xs then Inr xs else Inl TypeError)"

definition set_le :: "pyval list \<Rightarrow> pyval list \<Rightarrow> bool" where
  "set_le xs ys \<longleftrightarrow> list_all (\<lambda>x. py_mem x ys) xs"

text \<open>Every dictionary of the first list is matched by one of the second.\<close>

definition each_found :: "(pyval \<Rightarrow> pyval \<Rightarrow> bool res) \<Rightarrow> pyval list \<Rightarrow> pyval list \<Rightarrow> bool res" where
  "each_found cmp xs ys = allR (\<lambda>x. anyR (cmp x) ys) xs"

definition compare_set_dict :: "bool \<Rightarrow> pyval list \<Rightarrow> pyval list \<Rightarrow> bool res" where
  "compare_set_dict strict a b =
     bindR (each_found compare_dict_allow_more_present a b) (\<lambda>ok.
       if \<not> ok then Inr False
       else if strict then each_found (\<lambda>bv av. compare_dict_allow_more_present av bv) b a
       else Inr True)"

text \<open>\<open>None\<close> (false) for a data type the function does not know.\<close>

definition compare_generic :: "pyval \<Rightarrow> pyval \<Rightarrow> string \<Rightarrow> string \<Rightarrow> bool res" where
  "compare_generic a b method ty =
     (if method = ''ignore'' then Inr True
      else if a = PNone \<or> b = PNone then
        (if py_eq a b then Inr True
         else if ty = ''value'' then Inr False
         else if method = ''allow_more_present'' \<and> a = PNone then Inr True
         else bindR (py_len (if a = PNone then b else a)) (\<lambda>n. Inr (n = 0)))
      else if ty = ''value'' then Inr (py_eq a b)
      else if ty = ''list'' then
        (if method = ''strict'' then Inr (py_eq a b)
         else bindR (py_iter a) (\<lambda>xs. if xs = [] then Inr True
           else bindR (py_indexed b) (\<lambda>ys. Inr (list_more_present xs ys))))
      else if ty = ''dict'' then
        (if method = ''strict'' then Inr (py_eq a b) else compare_dict_allow_more_present a b)
      else if ty = ''set'' then
        bindR (py_set a) (\<lambda>xs. bindR (py_set b) (\<lambda>ys.
          Inr (if method = ''strict'' then set_le xs ys \<and> set_le ys xs else set_le xs ys)))
      else if ty = ''set(dict)'' then
        bindR (py_iter a) (\<lambda>xs. bindR (py_iter b) (\<lambda>ys. compare_set_dict (method = ''strict'') xs ys))
      else Inr False)"

section \<open>Collecting differences\<close>

record difference =
  diff_name :: string
  diff_parameter :: pyval
  diff_active :: pyval

type_synonym tracker = "difference list"

definition tracker_add :: "string \<Rightarrow> pyval \<Rightarrow> pyval \<Rightarrow> tracker \<Rightarrow> tracker" where
  "tracker_add name parameter active t = t @ [\<lparr>diff_name = name, diff_parameter = parameter, diff_active = active\<rparr>]"

definition tracker_merge :: "tracker \<Rightarrow> tracker \<Rightarrow> tracker" where
  "tracker_merge other t = t @ other"

definition tracker_empty :: "tracker \<Rightarrow> bool" where
  "tracker_empty t \<longleftrightarrow> length t = 0"

definition get_before_after :: "tracker \<Rightarrow> dict \<times> dict" where
  "get_before_after t = foldl (\<lambda>(before, after) item.
     (AList.update (diff_name item) (diff_active item) before, AList.update (diff_name item) (diff_parameter item) after)) ([], []) t"

definition has_difference_for :: "string \<Rightarrow> tracker \<Rightarrow> bool" where
  "has_difference_for name t \<longleftrightarrow> list_ex (\<lambda>d. diff_name d = name) t"

definition get_legacy_docker_container_diffs :: "tracker \<Rightarrow> pyval list" where
  "get_legacy_docker_container_diffs t = map (\<lambda>entry. PDict [(diff_name entry,
     PDict [(''parameter'', diff_parameter entry), (''container'', diff_active entry)])]) t"

definition get_legacy_docker_diffs :: "tracker \<Rightarrow> string list" where
  "get_legacy_docker_diffs t = map diff_name t"

section \<open>Names, results and options\<close>

definition is_hex :: "char \<Rightarrow> bool" where
  "is_hex c \<longleftrightarrow> is_digit c \<or> (97 \<le> code c \<and> code c \<le> (102::nat)) \<or> (65 \<le> code c \<and> code c \<le> (70::nat))"

definition is_image_name_id :: "string \<Rightarrow> bool" where
  "is_image_name_id name \<longleftrightarrow> (let s = until_newline name
     in starts_with s ''sha256:'' \<and> length s = 71 \<and> list_all is_hex (drop 7 s))"

definition tag_start :: "char \<Rightarrow> bool" where
  "tag_start c \<longleftrightarrow> is_lower_ascii c \<or> is_upper_ascii c \<or> is_digit c \<or> c = CHR ''_''"

definition tag_char :: "char \<Rightarrow> bool" where
  "tag_char c \<longleftrightarrow> tag_start c \<or> c = CHR ''.'' \<or> c = CHR ''-''"

definition is_valid_tag :: "string \<Rightarrow> bool \<Rightarrow> bool" where
  "is_valid_tag tag allow_empty =
     (if tag = [] then allow_empty
      else case until_newline tag of [] \<Rightarrow> False | c # s \<Rightarrow> tag_start c \<and> length s \<le> 127 \<and> list_all tag_char s)"

fun sanitize_result :: "pyval \<Rightarrow> pyval" where
  "sanitize_result (PDict d) = PDict (map (\<lambda>(k, v). (k, sanitize_result v)) d)"
| "sanitize_result (PList xs) = PList (map sanitize_result xs)"
| "sanitize_result (PTuple xs) = PList (map sanitize_result xs)"
| "sanitize_result v = v"

definition sanitize_boolean :: "pyval \<Rightarrow> pyval" where
  "sanitize_boolean v = (case v of PBool True \<Rightarrow> PStr ''true'' | PBool False \<Rightarrow> PStr ''false'' | _ \<Rightarrow> PStr (py_str v))"

definition clean_dict_booleans_for_docker_api :: "dict option \<Rightarrow> bool \<Rightarrow> dict" where
  "clean_dict_booleans_for_docker_api data allow_sequences = (case data of
      None \<Rightarrow> []
    | Some d \<Rightarrow> foldl (\<lambda>result (k, v). AList.update k
        (if allow_sequences then (case v of PList xs \<Rightarrow> PList (map sanitize_boolean xs)
           | PTuple xs \<Rightarrow> PList (map sanitize_boolean xs) | _ \<Rightarrow> sanitize_boolean v)
         else sanitize_boolean v) result) [] d)"

definition omit_none_from_dict :: "dict \<Rightarrow> dict" where
  "omit_none_from_dict d = filter (\<lambda>(k, v). v \<noteq> PNone) d"

section \<open>Durations\<close>

text \<open>
  One optional group of the regular expression: digits and a unit. \<open>not_s\<close> is the look-ahead
  of the minutes.
\<close>

definition unit_group :: "string \<Rightarrow> bool \<Rightarrow> string \<Rightarrow> nat option \<times> string" where
  "unit_group unit not_s s =
     (let ds = takeWhile is_digit s; r = dropWhile is_digit s
      in if ds \<noteq> [] \<and> starts_with r unit \<and> \<not> (not_s \<and> starts_with (drop (length unit) r) ''s'')
         then (Some (nat_of_digits ds), drop (length unit) r) else (None, s))"

definition duration_parts :: "string \<Rightarrow> (nat option \<times> nat option \<times> nat option \<times> nat option \<times> nat option) option" where
  "duration_parts s =
     (let (hours, r) = unit_group ''h'' False (until_newline s);
          (minutes, r) = unit_group ''m'' True r;
          (seconds, r) = unit_group ''s'' False r;
          (milliseconds, r) = unit_group ''ms'' False r;
          (microseconds, r) = unit_group ''us'' False r
      in if r = [] then Some (hours, minutes, seconds, milliseconds, microseconds) else None)"

definition the_or_0 :: "nat option \<Rightarrow> nat" where
  "the_or_0 n = (case n of Some k \<Rightarrow> k | None \<Rightarrow> 0)"

text \<open>A \<open>timedelta\<close> is a number of microseconds of less than \<open>10 ^ 9\<close> days.\<close>

definition microseconds_of :: "nat \<times> nat \<times> nat \<times> nat \<times> nat \<Rightarrow> nat" where
  "microseconds_of p = (case p of (h, m, s, ms, us) \<Rightarrow> (((h * 60 + m) * 60 + s) * 1000 + ms) * 1000 + us)"

definition max_timedelta :: nat where
  "max_timedelta = 10 ^ 9 * 24 * 3600 * 10 ^ 6"

definition convert_duration_to_nanosecond :: "pyval \<Rightarrow> int res" where
  "convert_duration_to_nanosecond time_str = (case time_str of
      PStr s \<Rightarrow> (case duration_parts s of
          None \<Rightarrow> Inl (ValueError (''Invalid time duration - '' @ s))
        | Some (h, m, sec, ms, us) \<Rightarrow>
            (let n = microseconds_of (the_or_0 h, the_or_0 m, the_or_0 sec, the_or_0 ms, the_or_0 us)
             in if max_timedelta \<le> n then Inl (PyException ''OverflowError'') else Inr (int n * 10 ^ 3)))
    | v \<Rightarrow> Inl (ValueError (''Missing unit in duration - '' @ py_str v)))"

section \<open>Health checks\<close>

definition normalize_healthcheck_test :: "pyval \<Rightarrow> pyval" where
  "normalize_healthcheck_test test = (case test of
      PList xs \<Rightarrow> PList (map (PStr \<circ> py_str) xs)
    | PTuple xs \<Rightarrow> PList (map (PStr \<circ> py_str) xs)
    | v \<Rightarrow> PList [PStr ''CMD-SHELL'', PStr (py_str v)])"

definition healthcheck_options :: "string list" where
  "healthcheck_options = [''test'', ''test_cli_compatible'', ''interval'', ''timeout'', ''start_period'', ''start_interval'', ''retries'']"

definition duration_options :: "string list" where
  "duration_options = [''interval'', ''timeout'', ''start_period'', ''start_interval'']"

definition healthcheck_option :: "dict \<Rightarrow> bool \<Rightarrow> string \<Rightarrow> pyval option res" where
  "healthcheck_option healthcheck normalize_test key =
     (let v = dget healthcheck key in
      if v = PNone then Inr None
      else
        bindR (if key \<in> set duration_options then bindR (convert_duration_to_nanosecond v) (\<lambda>n. Inr (PInt n)) else Inr v) (\<lambda>v.
        if \<not> truthy v \<and> \<not> (truthy (dget healthcheck ''test_cli_compatible'') \<and> key = ''test'') then Inr None
        else
          bindR (if key = ''retries'' then
              (case to_int v of
                 Inl (ValueError _) \<Rightarrow> Inl (ValueError (''Cannot parse number of retries for healthcheck. Expected an integer, got ''
                    @ [CHR 0x22] @ py_str v @ [CHR 0x22] @ ''.''))
               | Inl e \<Rightarrow> Inl e
               | Inr n \<Rightarrow> Inr (PInt n))
            else Inr v) (\<lambda>v.
          Inr (Some (if key = ''test'' \<and> truthy v \<and> normalize_test then normalize_healthcheck_test v else v)))))"

definition normalize_healthcheck :: "dict \<Rightarrow> bool \<Rightarrow> dict res" where
  "normalize_healthcheck healthcheck normalize_test = foldR (\<lambda>result key.
     bindR (healthcheck_option healthcheck normalize_test key) (\<lambda>v.
       Inr (case v of Some w \<Rightarrow> AList.update key w result | None \<Rightarrow> result))) [] healthcheck_options"

text \<open>The health check and whether it is to be disabled (\<open>None\<close>: nothing is asked).\<close>

definition parse_healthcheck :: "dict option \<Rightarrow> (dict option \<times> bool option) res" where
  "parse_healthcheck healthcheck = (case healthcheck of
      None \<Rightarrow> Inr (None, None)
    | Some h \<Rightarrow>
        (if \<not> truthy (dget h ''test'') then Inr (None, None)
         else bindR (normalize_healthcheck h True) (\<lambda>result.
           bindR (py_getitem (PDict result) ''test'') (\<lambda>test.
             if py_eq test (PList [PStr ''NONE'']) then Inr (None, Some True) else Inr (Some result, Some False)))))"

section \<open>Strict equality and more\<close>

lemma anyR_Inr_mem: "x \<in> set xs \<Longrightarrow> (\<And>y. y \<in> set xs \<Longrightarrow> \<exists>b. f y = Inr b) \<Longrightarrow> f x = Inr True \<Longrightarrow> anyR f xs = Inr True"
proof (induction xs)
  case (Cons a xs)
  from Cons.prems(2) obtain b where "f a = Inr b" by auto
  with Cons show ?case by (cases b) auto
qed simp

text \<open>The scan finds exactly the subsequences.\<close>

lemma list_more_present_iff: "list_more_present a b \<longleftrightarrow> (\<exists>ys. subseq ys b \<and> list_all2 py_eq ys a)"
proof (induction a arbitrary: b)
  case (Cons v a)
  show ?case
  proof (induction b)
    case (Cons w b)
    show ?case
    proof (cases "py_eq w v")
      case True
      have "list_more_present (v # a) (w # b) \<longleftrightarrow> (\<exists>ys. subseq ys b \<and> list_all2 py_eq ys a)"
        using True Cons.prems by (simp add: \<open>\<And>b. list_more_present a b = _\<close>)
      also have "\<dots> \<longleftrightarrow> (\<exists>ys. subseq ys (w # b) \<and> list_all2 py_eq ys (v # a))"
      proof
        assume "\<exists>ys. subseq ys b \<and> list_all2 py_eq ys a"
        then obtain ys where "subseq ys b" "list_all2 py_eq ys a" by blast
        then have "subseq (w # ys) (w # b)" "list_all2 py_eq (w # ys) (v # a)" using True by auto
        then show "\<exists>ys. subseq ys (w # b) \<and> list_all2 py_eq ys (v # a)" by blast
      next
        assume "\<exists>ys. subseq ys (w # b) \<and> list_all2 py_eq ys (v # a)"
        then obtain y ys where "subseq (y # ys) (w # b)" "list_all2 py_eq ys a"
          by (auto simp: list_all2_Cons2)
        moreover from this have "subseq ys b" by (metis subseq_Cons2' subseq_Cons2_iff subseq_Cons')
        ultimately show "\<exists>ys. subseq ys b \<and> list_all2 py_eq ys a" by blast
      qed
      finally show ?thesis .
    next
      case False
      then have "list_more_present (v # a) (w # b) \<longleftrightarrow> list_more_present (v # a) b" by simp
      also have "\<dots> \<longleftrightarrow> (\<exists>ys. subseq ys (w # b) \<and> list_all2 py_eq ys (v # a))"
        using False Cons.IH by (auto simp: list_all2_Cons2 subseq_Cons2_iff split: if_splits)
      finally show ?thesis .
    qed
  qed (auto simp: list_all2_Cons2)
qed simp

lemma compare_list_more_iff:
  "compare_generic (PList a) (PList b) ''allow_more_present'' ''list'' = Inr (\<exists>ys. subseq ys b \<and> list_all2 py_eq ys a)"
  by (simp add: compare_generic_def py_iter_def py_indexed_def list_more_present_iff)

text \<open>For lists, \<open>allow_more_present\<close> accepts exactly the lists that contain the wanted elements in
  the wanted order, with anything between them.\<close>

theorem compare_list_more:
  "compare_generic (PList a) (PList b) ''allow_more_present'' ''list''
    = Inr (\<exists>ys. subseq ys b \<and> list_all2 py_eq ys a)"
  by (rule compare_list_more_iff)

text \<open>Whatever compares equal strictly compares equal when more may be present: the two ways of
  comparing never contradict each other.\<close>

theorem strict_implies_more:
  assumes "compare_generic a b ''strict'' ty = Inr True" and "wf_py a" "wf_py b"
    and "ty = ''list'' \<Longrightarrow> \<exists>xs ys. a = PList xs \<and> b = PList ys"
    and "ty = ''dict'' \<Longrightarrow> \<exists>d e. a = PDict d \<and> b = PDict e"
  shows "compare_generic a b ''allow_more_present'' ty = Inr True"
proof (cases "a = PNone \<or> b = PNone")
  case True
  with assms(1) show ?thesis by (auto simp: compare_generic_def split: if_splits)
next
  case None: False
  consider "ty = ''list''" | "ty = ''dict''" | "ty \<noteq> ''list''" "ty \<noteq> ''dict''" by blast
  then show ?thesis
  proof cases
    case 1
    then obtain xs ys where ab: "a = PList xs" "b = PList ys" using assms(4) by blast
    from assms(1) have "list_all2 py_eq xs ys"
      by (simp add: compare_generic_def 1 ab py_eq_list del: py_eq.simps)
    then have "list_all2 py_eq ys xs"
      using assms(2,3) by (intro list_all2_sym_on [of py_eq xs ys]) (auto simp: ab list_all_iff intro: py_eq_sym)
    then show ?thesis by (auto simp: 1 ab compare_list_more_iff)
  next
    case 2
    then obtain d e where ab: "a = PDict d" "b = PDict e" using assms(5) by blast
    from assms(1) have eq: "py_eq (PDict d) (PDict e)" by (simp add: compare_generic_def 2 ab del: py_eq.simps)
    have dist: "distinct (map fst d)" "distinct (map fst e)" using assms(2,3) by (simp_all add: ab)
    have "allR (\<lambda>(key, w). bindR (str_in key (PDict e)) (\<lambda>present.
       if \<not> present then Inr False else bindR (py_getitem (PDict e) key) (\<lambda>x. Inr (py_eq x w)))) d = Inr True"
    proof (rule allR_True, clarify)
      fix k v assume kv: "(k, v) \<in> set d"
      have "rel_option py_eq (map_of d k) (map_of e k)" using eq py_eq_dict [OF dist] by blast
      moreover have "map_of d k = Some v" using dist(1) kv by simp
      ultimately obtain w where w: "map_of e k = Some w" "py_eq v w" by (auto simp: option_rel_Some1)
      have "wf_py v" "wf_py w" using assms(2,3) ab kv w(1) by (auto intro: wf_dict_value wf_dict_lookup simp del: wf_py.simps)
      then have "py_eq w v" using w(2) by (rule py_eq_sym)
      with w(1) show "bindR (str_in k (PDict e)) (\<lambda>present.
       if \<not> present then Inr False else bindR (py_getitem (PDict e) k) (\<lambda>x. Inr (py_eq x v))) = Inr True"
        by (simp add: str_in_def has_key_def py_getitem_def)
    qed
    then show ?thesis
      by (simp add: compare_generic_def 2 ab compare_dict_allow_more_present_def py_items_def)
  next
    case 3
    with None assms(1) show ?thesis
      by (auto simp: compare_generic_def compare_set_dict_def bindR_eq_Inr split: if_splits)
  qed
qed

theorem strict_implies_more_witness:
  "compare_generic (PList [PStr ''b'', PStr ''a'']) (PList [PStr ''a'', PStr ''b'']) ''strict'' ''set'' = Inr True
   \<and> compare_generic (PList [PStr ''b'', PStr ''a'']) (PList [PStr ''a'', PStr ''b'']) ''allow_more_present'' ''set'' = Inr True"
proof -
  let ?a = "PList [PStr ''b'', PStr ''a'']" and ?b = "PList [PStr ''a'', PStr ''b'']"
  have "compare_generic ?a ?b ''strict'' ''set'' = Inr True"
    by (simp add: compare_generic_def py_set_def py_iter_def set_le_def py_mem_def)
  with strict_implies_more [OF this] show ?thesis by simp
qed

section \<open>Durations\<close>

fun part_text :: "nat option \<times> string \<Rightarrow> string" where
  "part_text (None, unit) = []"
| "part_text (Some n, unit) = dec_nat n @ unit"

definition duration_text :: "nat option \<times> nat option \<times> nat option \<times> nat option \<times> nat option \<Rightarrow> string" where
  "duration_text p = (case p of (h, m, s, ms, us) \<Rightarrow>
     concat (map part_text [(h, ''h''), (m, ''m''), (s, ''s''), (ms, ''ms''), (us, ''us'')]))"

lemma is_digit_units [simp]: "\<not> is_digit (CHR ''h'')" "\<not> is_digit (CHR ''m'')" "\<not> is_digit (CHR ''s'')" "\<not> is_digit (CHR ''u'')"
  by (simp_all add: is_digit_def)

lemma unit_group_Nil [simp]: "unit_group u b [] = (None, [])"
  by (simp add: unit_group_def)

lemma unit_group_dec_nat [simp]:
  assumes "\<not> is_digit c"
  shows "unit_group u b (dec_nat k @ c # r)
    = (if starts_with (c # r) u \<and> \<not> (b \<and> starts_with (drop (length u) (c # r)) ''s'')
       then (Some k, drop (length u) (c # r)) else (None, dec_nat k @ c # r))"
  using assms by (simp add: unit_group_def Let_def)

lemma duration_parts_text: "duration_parts (duration_text p) = Some p"
proof -
  obtain h m s ms us where p: "p = (h, m, s, ms, us)" by (cases p) auto
  have "until_newline (duration_text p) = duration_text p"
    by (cases h; cases m; cases s; cases ms; cases us)
       (simp_all add: p duration_text_def until_newline_def)
  then show ?thesis
    by (cases h; cases m; cases s; cases ms; cases us)
       (simp_all add: p duration_text_def duration_parts_def)
qed

text \<open>Every duration written as hours, minutes, seconds, milliseconds and microseconds, each of them
  optional, is the number of nanoseconds it says, up to the largest \<open>timedelta\<close>.\<close>

theorem duration_is_exact:
  assumes "microseconds_of (map_prod the_or_0 (map_prod the_or_0 (map_prod the_or_0 (map_prod the_or_0 the_or_0))) p) = n"
  shows "convert_duration_to_nanosecond (PStr (duration_text p))
    = (if n < max_timedelta then Inr (int n * 1000) else Inl (PyException ''OverflowError''))"
  using assms
  by (cases p) (simp add: convert_duration_to_nanosecond_def duration_parts_text)

theorem duration_is_exact_witness:
  "convert_duration_to_nanosecond (PStr (duration_text (Some 1, None, Some 30, None, None)))
    = Inr 3630000000000"
  by (subst duration_is_exact [OF refl])
     (simp add: microseconds_of_def the_or_0_def max_timedelta_def)

end
