(* ===== verification/DockerContainer.thy ===== *)
theory DockerContainer
  imports DockerClient DockerUtil "HOL-Library.Product_Lexorder"
begin

text \<open>
  The parts of \<open>docker_container\<close> that its manager (\<open>DockerManager\<close>) puts together, from
  \<open>module_container/base.py\<close> and \<open>module_container/module.py\<close>: options with their engines,
  how each option is compared, the container as it was inspected, the differences between
  what is wanted and what is there, and the wait for a state.
\<close>

section \<open>Options and engines\<close>

text \<open>
  An \<open>Option\<close>: its comparison is the default one, which the user may change; the comparisons
  in force are kept in a table from names to modes. Options that are not in \<open>options\<close> of
  their group (\<open>not_a_container_option\<close>) only take part in collecting the parameters.
\<close>

record opt =
  op_name :: string
  op_comparison :: string
  op_comparison_type :: string
  op_not_an_ansible_option :: bool
  op_aliases :: "string list"
  op_copy_comparison_from :: "string option"

text \<open>\<open>Option.__init__\<close>: how the type of an option decides how it is compared.\<close>

definition comparison_type_of :: "string \<Rightarrow> string option \<Rightarrow> string" where
  "comparison_type_of ty elements =
     (if ty = ''set'' \<and> elements = Some ''dict'' then ''set(dict)''
      else if ty \<in> {''set'', ''list'', ''dict''} then ty else ''value'')"

definition default_comparison_of :: "string option \<Rightarrow> string \<Rightarrow> string" where
  "default_comparison_of given comparison_type = (case given of Some c \<Rightarrow> c
     | None \<Rightarrow> if comparison_type \<in> {''list'', ''value''} then ''strict'' else ''allow_more_present'')"

text \<open>
  An \<open>OptionGroup\<close> with the \<open>Engine\<close> it has for the driver. The engine's operations are
  those of the abstract class; a value is compared with the mode that is in force.
\<close>

record group =
  gr_options :: "opt list"
  gr_all_options :: "opt list"
  gr_preprocess :: "dict \<Rightarrow> dict io"
  en_preprocess_value :: "dict \<Rightarrow> dict io"
  en_get_value :: "pyval \<Rightarrow> pyval \<Rightarrow> pyval \<Rightarrow> dict io"
  en_get_expected_values :: "pyval \<Rightarrow> dict \<Rightarrow> pyval \<Rightarrow> dict io"
  en_compare_value :: "opt \<Rightarrow> string \<Rightarrow> pyval \<Rightarrow> pyval \<Rightarrow> bool res"
  en_ignore_mismatching_result :: "opt \<Rightarrow> pyval \<Rightarrow> pyval \<Rightarrow> pyval \<Rightarrow> pyval \<Rightarrow> bool io"
  en_can_set_value :: bool
  en_can_update_value :: bool
  en_set_value :: "dict \<Rightarrow> dict \<Rightarrow> dict res"
  en_update_value :: "dict \<Rightarrow> dict \<Rightarrow> dict res"
  en_needs_container_image :: "dict \<Rightarrow> bool"
  en_needs_host_info :: "dict \<Rightarrow> bool"

text \<open>The comparison an \<open>Option\<close> has unless it is given its own.\<close>

definition option_compare :: "opt \<Rightarrow> string \<Rightarrow> pyval \<Rightarrow> pyval \<Rightarrow> bool res" where
  "option_compare option comparison param_value container_value =
     compare_generic param_value container_value comparison (op_comparison_type option)"

type_synonym table = "(string \<times> string) list"

section \<open>The comparisons in force\<close>

definition all_options_of :: "group list \<Rightarrow> opt list" where
  "all_options_of groups = concat (map gr_options groups)"

definition default_comparisons :: "opt list \<Rightarrow> table" where
  "default_comparisons options = map (\<lambda>o'. (op_name o', op_comparison o')) options"

definition comp_aliases :: "opt list \<Rightarrow> (string \<times> string) list" where
  "comp_aliases options = fold (\<lambda>o' acc.
     if op_not_an_ansible_option o' then acc
     else fold (\<lambda>alias. AList.update alias (op_name o')) (op_aliases o') (AList.update (op_name o') (op_name o') acc)) options []"

definition fail_msg :: "string \<Rightarrow> exn" where
  "fail_msg msg = FailJson [(''msg'', PStr msg)]"

definition wildcard :: "dict \<Rightarrow> opt list \<Rightarrow> pyval \<Rightarrow> table \<Rightarrow> table res" where
  "wildcard params options value t = (case value of
     PStr m \<Rightarrow>
       if m = ''strict'' \<or> m = ''ignore'' then
         Inr (fold (\<lambda>o' acc. if op_name o' = ''networks'' \<and> dget params ''networks'' = PNone then acc
            else AList.update (op_name o') m acc) options t)
       else Inl (fail_msg ''The wildcard can only be used with comparison modes 'strict' and 'ignore'!'')
   | _ \<Rightarrow> Inl (fail_msg ''The wildcard can only be used with comparison modes 'strict' and 'ignore'!''))"

text \<open>
  One entry of \<open>comparisons\<close>. The test \<open>key_main in all_module_options\<close> asks for \<open>None\<close>, so
  an option of the module that is no option of the container is reported as unknown.
\<close>

definition one_comparison :: "opt list \<Rightarrow> (string \<times> string) list \<times> table \<Rightarrow> string \<times> pyval \<Rightarrow> ((string \<times> string) list \<times> table) res" where
  "one_comparison options = (\<lambda>(used, t) (key, value).
     if key = ''*'' then Inr (used, t)
     else (case map_of (comp_aliases options) key of
       None \<Rightarrow> Inl (fail_msg (''Unknown module option '' @ [CHR 0x27] @ key @ [CHR 0x27] @ '' in comparisons dict!''))
     | Some key_main \<Rightarrow>
         (case map_of used key_main of
            Some other \<Rightarrow> Inl (fail_msg (''Both '' @ [CHR 0x27] @ key @ [CHR 0x27] @ '' and '' @ [CHR 0x27] @ other @ [CHR 0x27]
              @ '' (aliases of '' @ key_main @ '') are specified in comparisons dict!''))
          | None \<Rightarrow>
              let used' = (key_main, key) # used in
              if value = PStr ''strict'' \<or> value = PStr ''ignore'' then Inr (used', AList.update key_main (py_str value) t)
              else if value = PStr ''allow_more_present'' then
                (if list_ex (\<lambda>o'. op_name o' = key_main \<and> op_comparison_type o' = ''value'') options then
                   Inl (fail_msg (''Option '' @ [CHR 0x27] @ key @ [CHR 0x27]
                     @ '' is a value and not a set/list/dict, so its comparison cannot be '' @ py_str value))
                 else Inr (used', AList.update key_main ''allow_more_present'' t))
              else Inl (fail_msg (''Unknown comparison mode '' @ [CHR 0x27] @ py_str value @ [CHR 0x27] @ ''!'')))))"

text \<open>The comparisons that follow another option's.\<close>

definition copy_comparisons :: "opt list \<Rightarrow> table \<Rightarrow> table res" where
  "copy_comparisons options t = foldR (\<lambda>acc o'. case op_copy_comparison_from o' of
      None \<Rightarrow> Inr acc
    | Some src \<Rightarrow> (case map_of acc src of None \<Rightarrow> Inl (KeyError src) | Some m \<Rightarrow> Inr (AList.update (op_name o') m acc))) t options"

definition set_comparison :: "string \<Rightarrow> string \<Rightarrow> table \<Rightarrow> table res" where
  "set_comparison name mode t = (if map_of t name = None then Inl (KeyError name) else Inr (AList.update name mode t))"

definition parse_comparisons :: "dict \<Rightarrow> opt list \<Rightarrow> (table \<times> string list) res" where
  "parse_comparisons params options =
     (let t0 = default_comparisons options;
          ignore_image = truthy (dget params ''ignore_image'');
          purge_networks = truthy (dget params ''purge_networks'')
      in bindR (if ignore_image then set_comparison ''image'' ''ignore'' t0 else Inr t0) (\<lambda>t1.
      bindR (if purge_networks then set_comparison ''networks'' ''strict'' t1 else Inr t1) (\<lambda>t2.
      bindR (case dget params ''comparisons'' of
          PDict comparisons \<Rightarrow>
            bindR (case map_of comparisons ''*'' of None \<Rightarrow> Inr t2 | Some v \<Rightarrow> wildcard params options v t2) (\<lambda>t3.
            bindR (foldR (one_comparison options) ([], t3) comparisons) (\<lambda>(used, t4). Inr t4))
        | v \<Rightarrow> if truthy v then Inl TypeError else Inr t2) (\<lambda>t5.
      bindR (copy_comparisons options t5) (\<lambda>t6.
        Inr (t6,
          (if ignore_image \<and> map_of t6 ''image'' \<noteq> Some ''ignore''
           then [''The ignore_image option has been overridden by the comparisons option!''] else []) @
          (if purge_networks \<and> map_of t6 ''networks'' \<noteq> Some ''strict''
           then [''The purge_networks option has been overridden by the comparisons option!''] else [])))))))"

section \<open>The parameters\<close>

definition old_default_values :: dict where
  "old_default_values = [(''auto_remove'', PBool False), (''detach'', PBool True), (''init'', PBool False),
     (''interactive'', PBool False), (''memory'', PStr ''0''), (''paused'', PBool False), (''privileged'', PBool False),
     (''read_only'', PBool False), (''tty'', PBool False)]"

definition update_params :: "dict \<Rightarrow> dict res" where
  "update_params params =
     bindR (if dget params ''networks_cli_compatible'' = PBool True \<and> truthy (dget params ''networks'')
            \<and> dget params ''network_mode'' = PNone
       then bindR (py_iter (dget params ''networks'')) (\<lambda>ns. bindR (py_getitem (hd ns) ''name'') (\<lambda>n.
         Inr (AList.update ''network_mode'' n params)))
       else Inr params) (\<lambda>p1.
     Inr (if dget p1 ''container_default_behavior'' = PStr ''compatibility''
       then fold (\<lambda>(k, v) p. if dget p k = PNone then AList.update k v p else p) old_default_values p1 else p1))"

definition hex_colons :: "string \<Rightarrow> bool" where
  "hex_colons s \<longleftrightarrow> s \<noteq> [] \<and> list_all (\<lambda>c. is_hex c \<or> c = CHR '':'') s"

text \<open>The address for published ports: IPv4, IPv6 in brackets, or IPv6, which gets them.\<close>

definition default_host_ip :: "string \<Rightarrow> string res" where
  "default_host_ip ip =
     (let s = until_newline ip in
      if ip = [] then Inr ip
      else if hex_colons s then Inr (CHR ''['' # ip @ [CHR '']''])
      else if (length (split_on (CHR ''.'') s) = 4 \<and> list_all (\<lambda>w. w \<noteq> [] \<and> list_all is_digit w) (split_on (CHR ''.'') s))
        \<or> (starts_with s ''['' \<and> ends_with s '']'' \<and> hex_colons (butlast (tl s))) then Inr ip
      else Inl (fail_msg (''The value of default_host_ip must be an empty string, an IPv4 address, or an IPv6 address. Got ''
        @ [CHR 0x22] @ ip @ [CHR 0x22] @ '' instead.'')))"

section \<open>Containers\<close>

text \<open>
  \<open>Container\<close>: \<open>co_raw\<close> is reported at the end, \<open>co_container\<close> is what decides whether the
  container exists.
\<close>

record container =
  co_raw :: pyval
  co_container :: pyval
  co_id :: pyval
  co_image :: pyval
  co_image_name :: pyval

definition make_container :: "pyval \<Rightarrow> container res" where
  "make_container raw =
     (if truthy raw then
        bindR (py_getitem raw ''Id'') (\<lambda>i. bindR (py_getitem raw ''Image'') (\<lambda>img.
        bindR (py_getitem raw ''Config'') (\<lambda>c. bindR (py_get c ''Image'' PNone) (\<lambda>name.
          Inr \<lparr>co_raw = raw, co_container = raw, co_id = i, co_image = img, co_image_name = name\<rparr>))))
      else Inr \<lparr>co_raw = raw, co_container = raw, co_id = PNone, co_image = PNone, co_image_name = PNone\<rparr>)"

definition co_exists :: "container \<Rightarrow> bool" where
  "co_exists c = truthy (co_container c)"

definition co_removing :: "container \<Rightarrow> bool res" where
  "co_removing c = (if co_exists c then is_container_removing (co_container c) else Inr False)"

definition co_running :: "container \<Rightarrow> bool res" where
  "co_running c = (if co_exists c then is_container_running (co_container c) else Inr False)"

definition co_paused :: "container \<Rightarrow> pyval res" where
  "co_paused c = (if co_exists c then is_container_paused (co_container c) else Inr (PBool False))"

definition get_cont :: "world \<Rightarrow> pyval \<Rightarrow> container io" where
  "get_cont W name = bindI (get_container W name) (\<lambda>raw. liftI (make_container raw))"

end
