(* ===== verification/DockerPlatform.thy ===== *)
theory DockerPlatform
  imports PyString
begin

text \<open>
  Platform strings of the Docker collection (\<open>_platform.py\<close>): \<open>os\<close>, \<open>os/arch\<close> or
  \<open>os/arch/variant\<close>, normalised as containerd does.
\<close>

section \<open>The code\<close>

definition valid_part_char :: "char \<Rightarrow> bool" where
  "valid_part_char c \<longleftrightarrow> is_upper_ascii c \<or> is_lower_ascii c \<or> is_digit c \<or> c = CHR ''_'' \<or> c = CHR ''-''"

text \<open>\<open>$\<close> also matches before a final newline.\<close>

definition VALID_STR :: "string \<Rightarrow> bool" where
  "VALID_STR s = (let t = (if s \<noteq> [] \<and> last s = CHR 0x0A then butlast s else s)
     in t \<noteq> [] \<and> list_all valid_part_char t)"

definition validate_part :: "string \<Rightarrow> string \<Rightarrow> string \<Rightarrow> string res" where
  "validate_part s part part_name =
     (if part = [] then Inl (ValueError (''Invalid platform string '' @ [CHR 0x22] @ s @ [CHR 0x22] @ '': '' @ part_name @ '' is empty''))
      else if \<not> VALID_STR part then
        Inl (ValueError (''Invalid platform string '' @ [CHR 0x22] @ s @ [CHR 0x22] @ '': '' @ part_name @ '' has invalid characters''))
      else Inr part)"

definition KNOWN_OS :: "string list" where
  "KNOWN_OS = [''aix'', ''android'', ''darwin'', ''dragonfly'', ''freebsd'', ''hurd'', ''illumos'', ''ios'', ''js'',
     ''linux'', ''nacl'', ''netbsd'', ''openbsd'', ''plan9'', ''solaris'', ''windows'', ''zos'']"

definition KNOWN_ARCH :: "string list" where
  "KNOWN_ARCH = [''386'', ''amd64'', ''amd64p32'', ''arm'', ''armbe'', ''arm64'', ''arm64be'', ''ppc64'', ''ppc64le'',
     ''loong64'', ''mips'', ''mipsle'', ''mips64'', ''mips64le'', ''mips64p32'', ''mips64p32le'',
     ''ppc'', ''riscv'', ''riscv64'', ''s390'', ''s390x'', ''sparc'', ''sparc64'', ''wasm'']"

definition normalize_os :: "string \<Rightarrow> string" where
  "normalize_os os_str = (let os_str = py_lower os_str in if os_str = ''macos'' then ''darwin'' else os_str)"

definition NORMALIZE_ARCH :: "((string \<times> string option) \<times> (string \<times> string option)) list" where
  "NORMALIZE_ARCH = [
     ((''i386'', None), (''386'', Some [])),
     ((''x86_64'', Some ''v1''), (''amd64'', Some [])),
     ((''x86-64'', Some ''v1''), (''amd64'', Some [])),
     ((''amd64'', Some ''v1''), (''amd64'', Some [])),
     ((''x86_64'', None), (''amd64'', None)),
     ((''x86-64'', None), (''amd64'', None)),
     ((''amd64'', None), (''amd64'', None)),
     ((''aarch64'', Some ''8''), (''arm64'', Some [])),
     ((''arm64'', Some ''8''), (''arm64'', Some [])),
     ((''aarch64'', Some ''v8''), (''arm64'', Some [])),
     ((''arm64'', Some ''v8''), (''arm64'', Some [])),
     ((''aarch64'', None), (''arm64'', None)),
     ((''arm64'', None), (''arm64'', None)),
     ((''armhf'', None), (''arm'', Some ''v7'')),
     ((''armel'', None), (''arm'', Some ''v6'')),
     ((''arm'', Some []), (''arm'', Some ''v7'')),
     ((''arm'', Some ''5''), (''arm'', Some ''v5'')),
     ((''arm'', Some ''6''), (''arm'', Some ''v6'')),
     ((''arm'', Some ''7''), (''arm'', Some ''v7'')),
     ((''arm'', Some ''8''), (''arm'', Some ''v8'')),
     ((''arm'', None), (''arm'', None))]"

definition normalize_arch :: "string \<Rightarrow> string \<Rightarrow> string \<times> string" where
  "normalize_arch arch_str variant_str =
     (let arch_str = py_lower arch_str; variant_str = py_lower variant_str;
          res = (case map_of NORMALIZE_ARCH (arch_str, Some variant_str) of
              Some r \<Rightarrow> Some r | None \<Rightarrow> map_of NORMALIZE_ARCH (arch_str, None))
      in case res of
           None \<Rightarrow> (arch_str, variant_str)
         | Some (a, v) \<Rightarrow> (a, case v of Some w \<Rightarrow> w | None \<Rightarrow> variant_str))"

record platform =
  pl_os :: "string option"
  pl_arch :: "string option"
  pl_variant :: "string option"

definition make_platform :: "string option \<Rightarrow> string option \<Rightarrow> string option \<Rightarrow> platform res" where
  "make_platform os arch variant =
     (if variant \<noteq> None \<and> arch = None then Inl (ValueError ''If variant is given, architecture must be given too'')
      else if variant \<noteq> None \<and> os = None then Inl (ValueError ''If variant is given, os must be given too'')
      else Inr \<lparr>pl_os = os, pl_arch = arch, pl_variant = variant\<rparr>)"

definition or_None :: "string \<Rightarrow> string option" where
  "or_None s = (if s = [] then None else Some s)"

text \<open>The two exceptions of the code for the variants of ARM.\<close>

definition adjust_variant :: "bool \<Rightarrow> string \<Rightarrow> string \<Rightarrow> string" where
  "adjust_variant given arch variant =
     (if \<not> given \<and> arch = ''arm'' \<and> variant = ''v7'' then []
      else if given \<and> arch = ''arm64'' \<and> variant = [] then ''v8'' else variant)"

text \<open>A string of one part is an operating system or an architecture.\<close>

definition parse_single :: "string \<Rightarrow> string option \<Rightarrow> string option \<Rightarrow> platform res" where
  "parse_single s daemon_os daemon_arch =
     bindR (validate_part s s ''OS/architecture'') (\<lambda>_.
     let os = normalize_os s in
     if os \<in> set KNOWN_OS then
       (case daemon_arch of
          Some a \<Rightarrow> (let (arch, variant) = normalize_arch a [] in make_platform (Some os) (Some arch) (Some variant))
        | None \<Rightarrow> make_platform (Some os) None None)
     else
       (let (arch, variant) = normalize_arch os [] in
        if arch \<in> set KNOWN_ARCH then
          make_platform (case daemon_os of Some d \<Rightarrow> if d = [] then None else Some (normalize_os d) | None \<Rightarrow> None)
            (or_None arch) (or_None variant)
        else Inl (ValueError (''Invalid platform string '' @ [CHR 0x22] @ s @ [CHR 0x22] @ '': unknown OS or architecture''))))"

definition parse_platform_string :: "string option \<Rightarrow> string option \<Rightarrow> string option \<Rightarrow> platform res" where
  "parse_platform_string str daemon_os daemon_arch = (case str of
      None \<Rightarrow> make_platform None None None
    | Some s \<Rightarrow>
        (if s = [] then Inl (ValueError ''Platform string must be non-empty'')
         else case split_max 2 (CHR ''/'') s of
             [part] \<Rightarrow> parse_single s daemon_os daemon_arch
           | os # arch # rest \<Rightarrow>
               bindR (validate_part s os ''OS'') (\<lambda>os.
               bindR (validate_part s arch ''architecture'') (\<lambda>arch.
               bindR (case rest of [] \<Rightarrow> Inr [] | v # _ \<Rightarrow> validate_part s v ''variant'') (\<lambda>variant.
               let (arch, variant) = normalize_arch arch variant
               in make_platform (Some (normalize_os os)) (Some arch) (or_None (adjust_variant (rest \<noteq> []) arch variant)))))
           | [] \<Rightarrow> Inl IndexError))"

definition str_or :: "string option \<Rightarrow> string" where
  "str_or s = (case s of Some t \<Rightarrow> t | None \<Rightarrow> [])"

definition platform_str :: "platform \<Rightarrow> string" where
  "platform_str p = py_join ''/''
     (if str_or (pl_variant p) \<noteq> [] then [str_or (pl_os p), str_or (pl_arch p), str_or (pl_variant p)]
      else if str_or (pl_os p) \<noteq> [] then
        (if str_or (pl_arch p) \<noteq> [] then [str_or (pl_os p), str_or (pl_arch p)] else [str_or (pl_os p)])
      else (case pl_arch p of Some a \<Rightarrow> [a] | None \<Rightarrow> []))"

definition normalize_platform_string :: "string option \<Rightarrow> string option \<Rightarrow> string option \<Rightarrow> string res" where
  "normalize_platform_string s daemon_os daemon_arch =
     bindR (parse_platform_string s daemon_os daemon_arch) (\<lambda>p. Inr (platform_str p))"

definition compose_platform_string ::
    "string option \<Rightarrow> string option \<Rightarrow> string option \<Rightarrow> string option \<Rightarrow> string option \<Rightarrow> string res" where
  "compose_platform_string os arch variant daemon_os daemon_arch =
     (let os = (case (os, daemon_os) of (None, Some d) \<Rightarrow> Some (normalize_os d) | _ \<Rightarrow> os);
          (arch, variant) = (case (arch, daemon_arch) of
             (None, Some a) \<Rightarrow> (let (arch, variant) = normalize_arch a (str_or variant) in (Some arch, or_None variant))
           | _ \<Rightarrow> (arch, variant))
      in bindR (make_platform os arch (case variant of Some v \<Rightarrow> or_None v | None \<Rightarrow> None)) (\<lambda>p. Inr (platform_str p)))"

definition compare_platform_strings :: "string option \<Rightarrow> string option \<Rightarrow> bool res" where
  "compare_platform_strings string1 string2 =
     bindR (parse_platform_string string1 None None) (\<lambda>p. bindR (parse_platform_string string2 None None) (\<lambda>q. Inr (p = q)))"

section \<open>Normalising twice\<close>

lemmas part_simps = VALID_STR_def valid_part_char_def py_lower_def lower_char_def is_upper_ascii_def is_lower_ascii_def is_digit_def

lemma py_lower_literal [simp]: "py_lower ''darwin'' = ''darwin''" "py_lower ''v8'' = ''v8''" "py_lower ''v7'' = ''v7''"
   "py_lower ''v6'' = ''v6''" "py_lower ''v5'' = ''v5''" "py_lower ''arm'' = ''arm''" "py_lower ''arm64'' = ''arm64''"
   "py_lower ''amd64'' = ''amd64''" "py_lower ''386'' = ''386''" "py_lower ''linux'' = ''linux''" "py_lower ''7'' = ''7''"
  by (simp_all add: part_simps)

lemma normalize_os_idem [simp]: "normalize_os (normalize_os s) = normalize_os s"
  by (simp add: normalize_os_def Let_def py_lower_idem)

text \<open>The architectures the table knows, and what it makes of them.\<close>

lemma normalize_arch_cases:
  obtains "py_lower a = ''i386''" "normalize_arch a v = (''386'', [])"
  | "py_lower a \<in> {''x86_64'', ''x86-64'', ''amd64''}" "normalize_arch a v = (''amd64'', if py_lower v = ''v1'' then [] else py_lower v)"
  | "py_lower a \<in> {''aarch64'', ''arm64''}"
      "normalize_arch a v = (''arm64'', if py_lower v \<in> {''8'', ''v8''} then [] else py_lower v)"
  | "py_lower a = ''armhf''" "normalize_arch a v = (''arm'', ''v7'')"
  | "py_lower a = ''armel''" "normalize_arch a v = (''arm'', ''v6'')"
  | "py_lower a = ''arm''" "normalize_arch a v = (''arm'',
       if py_lower v \<in> {[], ''7''} then ''v7'' else if py_lower v = ''5'' then ''v5'' else if py_lower v = ''6'' then ''v6''
       else if py_lower v = ''8'' then ''v8'' else py_lower v)"
  | "py_lower a \<notin> {''i386'', ''x86_64'', ''x86-64'', ''amd64'', ''aarch64'', ''arm64'', ''armhf'', ''armel'', ''arm''}"
      "normalize_arch a v = (py_lower a, py_lower v)"
proof -
  show thesis
    by (cases "py_lower a \<in> {''i386'', ''x86_64'', ''x86-64'', ''amd64'', ''aarch64'', ''arm64'', ''armhf'', ''armel'', ''arm''}")
      (auto simp: normalize_arch_def NORMALIZE_ARCH_def Let_def intro: that)
qed

lemma normalize_arch_literals:
  "normalize_arch ''386'' [] = (''386'', [])" "normalize_arch ''arm'' ''7'' = (''arm'', ''v7'')" "normalize_arch ''arm'' [] = (''arm'', ''v7'')"
  "normalize_arch ''arm'' ''v7'' = (''arm'', ''v7'')" "normalize_arch ''arm'' ''v6'' = (''arm'', ''v6'')"
  by (simp_all add: normalize_arch_def NORMALIZE_ARCH_def)

lemma normalize_arch_again:
  assumes "normalize_arch a v = (a1, v1)" and "given \<longleftrightarrow> v \<noteq> []"
  shows "\<exists>v3. normalize_arch a1 (adjust_variant given a1 v1) = (a1, v3)
    \<and> adjust_variant (adjust_variant given a1 v1 \<noteq> []) a1 v3 = adjust_variant given a1 v1"
proof (cases rule: normalize_arch_cases [of a v])
  case 7
  then have "a1 = py_lower a" "v1 = py_lower v" using assms by simp_all
  moreover have "py_lower a1 = a1" using \<open>a1 = py_lower a\<close> by (simp add: py_lower_idem)
  ultimately show ?thesis using 7
    by (cases rule: normalize_arch_cases [of a1 v1]) (auto simp: adjust_variant_def py_lower_idem)
next
  case 2
  then have "a1 = ''amd64''" "py_lower v1 = v1" "v1 \<noteq> ''v1''" using assms by (auto simp: py_lower_idem)
  then show ?thesis by (cases rule: normalize_arch_cases [of a1 v1]) (auto simp: adjust_variant_def)
next
  case 3
  then have a1: "a1 = ''arm64''" and v1: "py_lower v1 = v1" "v1 \<notin> {''8'', ''v8''}"
    using assms by (auto simp: py_lower_idem)
  from a1 v1 have "normalize_arch a1 v1 = (a1, v1)" "normalize_arch a1 ''v8'' = (a1, [])"
    by (auto simp: normalize_arch_def NORMALIZE_ARCH_def)
  with a1 v1 show ?thesis by (auto simp: adjust_variant_def)
next
  case 6
  then have a1: "a1 = ''arm''" and v1: "py_lower v1 = v1" "v1 \<notin> {[], ''7'', ''5'', ''6'', ''8''}"
    using assms by (auto simp: py_lower_idem)
  from a1 v1 have "normalize_arch a1 v1 = (a1, v1)" "normalize_arch a1 [] = (a1, ''v7'')"
    by (auto simp: normalize_arch_def NORMALIZE_ARCH_def)
  with a1 v1 show ?thesis by (auto simp: adjust_variant_def)
qed (use assms in \<open>auto simp: adjust_variant_def normalize_arch_literals\<close>)

lemma valid_part_lower: "valid_part_char c \<Longrightarrow> valid_part_char (lower_char c)"
  by (auto simp: valid_part_char_def lower_char_def is_upper_ascii_def is_lower_ascii_def is_digit_def)

lemma valid_part_slash: "\<not> valid_part_char (CHR ''/'')"
  by (simp add: valid_part_char_def is_upper_ascii_def is_lower_ascii_def)

lemma lower_newline: "lower_char c = CHR 0x0A \<longleftrightarrow> c = CHR 0x0A"
proof
  assume "lower_char c = CHR 0x0A"
  then have "code (lower_char c) = (10::nat)" by simp
  then have "code c = (10::nat)" by (auto simp: lower_char_def is_upper_ascii_def split: if_splits)
  then have "c = char_of (10::nat)" by (metis char_of_char)
  moreover have "char_of (10::nat) = CHR 0x0A" by code_simp
  ultimately show "c = CHR 0x0A" by simp
qed (simp add: lower_char_def is_upper_ascii_def)

lemma VALID_STR_lower: "VALID_STR s \<Longrightarrow> VALID_STR (py_lower s)"
proof (cases s rule: rev_cases)
  case (snoc t c)
  assume "VALID_STR s"
  then show ?thesis
    by (auto simp: snoc VALID_STR_def Let_def py_lower_def lower_newline list_all_iff valid_part_lower split: if_splits)
qed (simp add: VALID_STR_def)

lemma VALID_STR_slash: "VALID_STR s \<Longrightarrow> CHR ''/'' \<notin> set s"
proof (cases s rule: rev_cases)
  case (snoc t c)
  assume "VALID_STR s"
  then show ?thesis
    by (auto simp: snoc VALID_STR_def Let_def list_all_iff valid_part_slash split: if_splits)
qed simp

lemma VALID_STR_literals: "VALID_STR ''386''" "VALID_STR ''amd64''" "VALID_STR ''arm64''" "VALID_STR ''arm''"
   "VALID_STR ''v5''" "VALID_STR ''v6''" "VALID_STR ''v7''" "VALID_STR ''v8''" "VALID_STR ''darwin''"
   "VALID_STR ''linux''" "VALID_STR ''7''"
  by (simp_all add: part_simps)

lemma VALID_normalize_arch:
  assumes "VALID_STR a" "v \<noteq> [] \<longrightarrow> VALID_STR v" "normalize_arch a v = (a1, v1)"
  shows "VALID_STR a1 \<and> (v1 \<noteq> [] \<longrightarrow> VALID_STR v1)"
proof (cases rule: normalize_arch_cases [of a v])
qed (use assms VALID_STR_lower [of a] VALID_STR_lower [of v] in
    \<open>auto simp: VALID_STR_literals split: if_splits\<close>)

lemma VALID_normalize_os: "VALID_STR s \<Longrightarrow> VALID_STR (normalize_os s)"
  by (simp add: normalize_os_def Let_def VALID_STR_lower VALID_STR_literals)

lemma validate_part_Inr [simp]: "validate_part s p n = Inr q \<longleftrightarrow> q = p \<and> VALID_STR p"
  by (auto simp: validate_part_def VALID_STR_def)

lemma validate_part_valid [simp]: "VALID_STR p \<Longrightarrow> validate_part s p n = Inr p"
  by simp

lemma VALID_not_Nil: "VALID_STR s \<Longrightarrow> s \<noteq> []"
  by (auto simp: VALID_STR_def)

text \<open>Reading back \<open>os/arch\<close> and \<open>os/arch/variant\<close>.\<close>

lemma parse_parts:
  assumes "VALID_STR os" "VALID_STR arch" "v \<noteq> [] \<longrightarrow> VALID_STR v" "normalize_arch arch v = (a, w)"
  shows "parse_platform_string (Some (py_join ''/'' ([os, arch] @ (if v = [] then [] else [v])))) None None
    = make_platform (Some (normalize_os os)) (Some a) (or_None (adjust_variant (v \<noteq> []) a w))"
proof (cases "v = []")
  case True
  with assms VALID_not_Nil [OF assms(1)] show ?thesis
    by (simp add: parse_platform_string_def split_max_sep split_max_free VALID_STR_slash bindR_eq_Inr)
next
  case False
  with assms VALID_not_Nil [OF assms(1)] show ?thesis
    by (simp add: parse_platform_string_def split_max_sep split_max_free VALID_STR_slash numeral_2_eq_2)
qed

lemma KNOWN_ARCH_stable:
  assumes "a \<in> set KNOWN_ARCH"
  shows "VALID_STR a \<and> normalize_os a = a \<and> a \<notin> set KNOWN_OS \<and> (a \<noteq> ''arm'' \<longrightarrow> normalize_arch a [] = (a, []))"
proof -
  have "list_all (\<lambda>a. VALID_STR a \<and> py_lower a = a \<and> a \<noteq> ''macos'' \<and> a \<noteq> ''i386'' \<and> a \<noteq> ''armhf'' \<and> a \<noteq> ''armel'') KNOWN_ARCH"
    "list_all (\<lambda>a. a \<notin> set KNOWN_OS) KNOWN_ARCH" "list_all (\<lambda>a. a \<notin> {''x86_64'', ''x86-64'', ''aarch64''}) KNOWN_ARCH"
    by (simp_all add: KNOWN_ARCH_def KNOWN_OS_def part_simps)
  with assms have a: "VALID_STR a" "py_lower a = a" "a \<noteq> ''macos''" "a \<notin> {''i386'', ''armhf'', ''armel''}" "a \<notin> set KNOWN_OS"
    "a \<notin> {''x86_64'', ''x86-64'', ''aarch64''}" by (simp_all add: list_all_iff)
  then have "a \<noteq> ''arm'' \<longrightarrow> normalize_arch a [] = (a, [])"
    by (cases rule: normalize_arch_cases [of a "[]"]) auto
  with a show ?thesis by (simp add: normalize_os_def)
qed

lemma parse_two_or_more:
  assumes "parse_platform_string (Some s) None None = Inr p" and "split_max 2 (CHR ''/'') s = os # arch # rest"
  shows "\<exists>v a w. VALID_STR os \<and> VALID_STR arch \<and> (v \<noteq> [] \<longrightarrow> VALID_STR v) \<and> (rest \<noteq> [] \<longleftrightarrow> v \<noteq> [])
    \<and> normalize_arch arch v = (a, w)
    \<and> p = \<lparr>pl_os = Some (normalize_os os), pl_arch = Some a, pl_variant = or_None (adjust_variant (v \<noteq> []) a w)\<rparr>"
proof -
  from assms(2) have "s \<noteq> []" by auto
  with assms obtain v where v: "VALID_STR os" "VALID_STR arch" "case rest of [] \<Rightarrow> v = [] | u # _ \<Rightarrow> v = u \<and> VALID_STR u"
    "(let (a, w) = normalize_arch arch v in
       make_platform (Some (normalize_os os)) (Some a) (or_None (adjust_variant (rest \<noteq> []) a w))) = Inr p"
    by (auto simp: parse_platform_string_def bindR_eq_Inr split: list.splits)
  obtain a w where aw: "normalize_arch arch v = (a, w)" by (cases "normalize_arch arch v")
  from v(3) have rest: "rest \<noteq> [] \<longleftrightarrow> v \<noteq> []" "v \<noteq> [] \<longrightarrow> VALID_STR v"
    by (auto split: list.splits dest: VALID_not_Nil)
  with v aw show ?thesis by (auto simp: make_platform_def)
qed

lemma parse_one:
  assumes "parse_platform_string (Some s) None None = Inr p" and "split_max 2 (CHR ''/'') s = [s]"
  shows "(p = \<lparr>pl_os = Some (normalize_os s), pl_arch = None, pl_variant = None\<rparr> \<and> normalize_os s \<in> set KNOWN_OS \<and> VALID_STR s)
    \<or> (\<exists>a. p = \<lparr>pl_os = None, pl_arch = Some a, pl_variant = None\<rparr> \<and> a \<in> set KNOWN_ARCH \<and> a \<noteq> ''arm'')"
proof -
  from assms have single: "parse_single s None None = Inr p" and valid: "VALID_STR s"
    by (auto simp: parse_platform_string_def parse_single_def bindR_eq_Inr split: if_splits)
  show ?thesis
  proof (cases "normalize_os s \<in> set KNOWN_OS")
    case True
    with single valid show ?thesis by (auto simp: parse_single_def make_platform_def)
  next
    case False
    obtain a w where aw: "normalize_arch (normalize_os s) [] = (a, w)" by (cases "normalize_arch (normalize_os s) []")
    from single valid False aw have a: "a \<in> set KNOWN_ARCH" and p: "make_platform None (or_None a) (or_None w) = Inr p"
      by (auto simp: parse_single_def split: if_splits)
    from p have "w = []" by (auto simp: make_platform_def or_None_def split: if_splits)
    moreover from aw have "a \<noteq> ''arm'' \<or> w \<noteq> []"
      by (cases rule: normalize_arch_cases [of "normalize_os s" "[]"]) auto
    moreover from a have "a \<noteq> []" using KNOWN_ARCH_stable [of a] VALID_not_Nil by blast
    ultimately show ?thesis using a p by (auto simp: make_platform_def or_None_def)
  qed
qed

text \<open>A normalised platform string is in normal form: reading it gives the platform it was made of.\<close>

theorem platform_roundtrip:
  assumes "parse_platform_string (Some s) None None = Inr p"
  shows "parse_platform_string (Some (platform_str p)) None None = Inr p"
proof (cases "split_max 2 (CHR ''/'') s")
  case Nil
  with split_max_not_Nil show ?thesis by metis
next
  case (Cons os tail)
  show ?thesis
  proof (cases tail)
    case Nil
    with Cons join_split_max [of "CHR ''/''" 2 s] have "split_max 2 (CHR ''/'') s = [s]" by simp
    from parse_one [OF assms this] show ?thesis
    proof (elim disjE exE conjE)
      assume p: "p = \<lparr>pl_os = Some (normalize_os s), pl_arch = None, pl_variant = None\<rparr>" "normalize_os s \<in> set KNOWN_OS" "VALID_STR s"
      from p(3) have v: "VALID_STR (normalize_os s)" by (rule VALID_normalize_os)
      with p(1,2) VALID_not_Nil [OF v] show ?thesis
        by (simp add: platform_str_def str_or_def parse_platform_string_def split_max_free VALID_STR_slash
            parse_single_def make_platform_def)
    next
      fix a assume p: "p = \<lparr>pl_os = None, pl_arch = Some a, pl_variant = None\<rparr>" "a \<in> set KNOWN_ARCH" "a \<noteq> ''arm''"
      from KNOWN_ARCH_stable [OF p(2)] p(3) have a: "VALID_STR a" "normalize_os a = a" "a \<notin> set KNOWN_OS" "normalize_arch a [] = (a, [])"
        by simp_all
      with p VALID_not_Nil [OF a(1)] show ?thesis
        by (simp add: platform_str_def str_or_def parse_platform_string_def split_max_free VALID_STR_slash
            parse_single_def make_platform_def or_None_def)
    qed
  next
    case (Cons arch rest)
    with \<open>split_max 2 _ s = os # tail\<close> have "split_max 2 (CHR ''/'') s = os # arch # rest" by simp
    from parse_two_or_more [OF assms this] obtain v a w where
      v: "VALID_STR os" "VALID_STR arch" "v \<noteq> [] \<longrightarrow> VALID_STR v" and aw: "normalize_arch arch v = (a, w)"
      and p: "p = \<lparr>pl_os = Some (normalize_os os), pl_arch = Some a, pl_variant = or_None (adjust_variant (v \<noteq> []) a w)\<rparr>"
      by (elim exE conjE) (rule that)
    let ?v = "adjust_variant (v \<noteq> []) a w"
    from VALID_normalize_arch [OF v(2,3) aw] have va: "VALID_STR a" "?v \<noteq> [] \<longrightarrow> VALID_STR ?v"
      by (auto simp: adjust_variant_def VALID_STR_literals)
    from v(1) have vo: "VALID_STR (normalize_os os)" by (rule VALID_normalize_os)
    obtain w3 where w3: "normalize_arch a ?v = (a, w3)" "adjust_variant (?v \<noteq> []) a w3 = ?v"
      using normalize_arch_again [OF aw, of "v \<noteq> []"] by blast
    have "platform_str p = py_join ''/'' ([normalize_os os, a] @ (if ?v = [] then [] else [?v]))"
      using VALID_not_Nil [OF vo] VALID_not_Nil [OF va(1)] by (simp add: p platform_str_def str_or_def or_None_def)
    with parse_parts [OF vo va w3(1)] w3(2) show ?thesis by (simp add: p make_platform_def)
  qed
qed

theorem platform_roundtrip_witness:
  "\<exists>p. parse_platform_string (Some ''linux/arm/7'') None None = Inr p \<and> platform_str p = ''linux/arm/v7''
    \<and> parse_platform_string (Some ''linux/arm/v7'') None None = Inr p"
proof -
  have "normalize_os ''linux'' = ''linux''" by (simp add: normalize_os_def)
  with parse_parts [of "''linux''" "''arm''" "''7''" "''arm''" "''v7''"]
  have p: "parse_platform_string (Some ''linux/arm/7'') None None
    = Inr \<lparr>pl_os = Some ''linux'', pl_arch = Some ''arm'', pl_variant = Some ''v7''\<rparr>"
    by (simp add: VALID_STR_literals normalize_arch_literals adjust_variant_def make_platform_def or_None_def)
  have "platform_str \<lparr>pl_os = Some ''linux'', pl_arch = Some ''arm'', pl_variant = Some ''v7''\<rparr> = ''linux/arm/v7''"
    by (simp add: platform_str_def str_or_def)
  with platform_roundtrip [OF p] p show ?thesis by auto
qed

text \<open>The architecture \<open>arm\<close> alone is not accepted without the daemon's operating system: it is
  normalised to the variant \<open>v7\<close>, and a variant needs an operating system.\<close>

theorem arm_alone_rejected:
  "parse_platform_string (Some ''arm'') None daemon_arch = Inl (ValueError ''If variant is given, os must be given too'')"
proof -
  have "normalize_os ''arm'' = ''arm''" "''arm'' \<notin> set KNOWN_OS" "''arm'' \<in> set KNOWN_ARCH"
    "split_max 2 (CHR ''/'') ''arm'' = [''arm'']" by (simp_all add: normalize_os_def KNOWN_OS_def KNOWN_ARCH_def)
  then show ?thesis
    by (simp add: VALID_STR_literals parse_platform_string_def parse_single_def normalize_arch_literals or_None_def
        make_platform_def)
qed

end
