(* ===== verification/DockerOptions.thy ===== *)
theory DockerOptions
  imports DockerContainer DockerPlatform
begin

text \<open>
  The options of \<open>docker_container\<close> as the user gives them (\<open>module_container/base.py\<close>): the
  functions that bring them to the form the engines work with. The values of a group are a
  dictionary; \<open>human_to_bytes\<close> is Ansible's, \<open>absolute\<close> is \<open>abspath\<close> after \<open>expanduser\<close>, and
  both are parameters, like the lines of a file.
\<close>

section \<open>Words of a command line\<close>

text \<open>\<open>shlex.split\<close>: the reader's state, with the state to go back to after an escape.\<close>

datatype lex = Blank | Word | Quoted char | Escaped lex

abbreviation is_quote :: "char \<Rightarrow> bool" where
  "is_quote c \<equiv> c = CHR 0x22 \<or> c = CHR 0x27"

definition is_blank :: "char \<Rightarrow> bool" where
  "is_blank c \<longleftrightarrow> c \<in> {CHR '' '', CHR 0x09, CHR 0x0A, CHR 0x0D}"

text \<open>\<open>emit token\<close> unless it is empty and had no quotes.\<close>

definition emitted :: "string \<Rightarrow> bool \<Rightarrow> string list" where
  "emitted token quoted = (if token \<noteq> [] \<or> quoted then [token] else [])"

fun shlex_go :: "lex \<Rightarrow> string \<Rightarrow> bool \<Rightarrow> string \<Rightarrow> string list res" where
  "shlex_go Blank token quoted [] = Inr (emitted token quoted)"
| "shlex_go Word token quoted [] = Inr (emitted token quoted)"
| "shlex_go (Quoted q) token quoted [] = Inl (ValueError ''No closing quotation'')"
| "shlex_go (Escaped st) token quoted [] = Inl (ValueError ''No escaped character'')"
| "shlex_go Blank token quoted (c # s) =
     (if is_blank c then
        (if emitted token quoted \<noteq> [] then bindR (shlex_go Blank [] False s) (\<lambda>ws. Inr (token # ws)) else shlex_go Blank token quoted s)
      else if c = CHR 0x5C then shlex_go (Escaped Word) token quoted s
      else if is_quote c then shlex_go (Quoted c) token quoted s
      else shlex_go Word [c] quoted s)"
| "shlex_go Word token quoted (c # s) =
     (if is_blank c then
        (if emitted token quoted \<noteq> [] then bindR (shlex_go Blank [] False s) (\<lambda>ws. Inr (token # ws)) else shlex_go Blank token quoted s)
      else if is_quote c then shlex_go (Quoted c) token quoted s
      else if c = CHR 0x5C then shlex_go (Escaped Word) token quoted s
      else shlex_go Word (token @ [c]) quoted s)"
| "shlex_go (Quoted q) token quoted (c # s) =
     (if c = q then shlex_go Word token True s
      else if c = CHR 0x5C \<and> q = CHR 0x22 then shlex_go (Escaped (Quoted q)) token True s
      else shlex_go (Quoted q) (token @ [c]) True s)"
| "shlex_go (Escaped st) token quoted (c # s) =
     (case st of
        Quoted q \<Rightarrow> shlex_go st (token @ (if c \<noteq> CHR 0x5C \<and> c \<noteq> q then [CHR 0x5C] else []) @ [c]) quoted s
      | _ \<Rightarrow> shlex_go st (token @ [c]) quoted s)"

definition shlex_split :: "string \<Rightarrow> string list res" where
  "shlex_split s = shlex_go Blank [] False s"

section \<open>Command, entry point and environment\<close>

definition texts :: "pyval list \<Rightarrow> pyval" where
  "texts xs = PList (map (PStr \<circ> py_str) xs)"

definition words_of :: "string \<Rightarrow> pyval res" where
  "words_of s = bindR (shlex_split s) (\<lambda>ws. Inr (PList (map PStr ws)))"

definition joined_words :: "pyval list \<Rightarrow> pyval res" where
  "joined_words xs = words_of (py_join '' '' (map py_str xs))"

definition preprocess_command :: "dict \<Rightarrow> dict \<Rightarrow> dict res" where
  "preprocess_command params values =
     (if \<not> has_key values ''command'' then Inr values
      else let value = dget values ''command''; command = (\<lambda>v. Inr [(''command'', v)]) in
        if dget params ''command_handling'' = PStr ''correct'' then
          (case value of
             PNone \<Rightarrow> command PNone
           | PList xs \<Rightarrow> command (texts xs)
           | _ \<Rightarrow> bindR (words_of (py_str value)) command)
        else if truthy value then
          (case value of PList xs \<Rightarrow> bindR (joined_words xs) command | _ \<Rightarrow> bindR (words_of (py_str value)) command)
        else Inr [])"

definition preprocess_entrypoint :: "dict \<Rightarrow> dict \<Rightarrow> dict res" where
  "preprocess_entrypoint params values =
     (if \<not> has_key values ''entrypoint'' then Inr values
      else let value = dget values ''entrypoint'' in
        if dget params ''command_handling'' = PStr ''correct'' then
          (if value = PNone then Inr [(''entrypoint'', PNone)]
           else bindR (py_iter value) (\<lambda>xs. Inr [(''entrypoint'', texts xs)]))
        else if truthy value then bindR (py_iter value) (\<lambda>xs. bindR (joined_words xs) (\<lambda>v. Inr [(''entrypoint'', v)]))
        else Inr [])"

text \<open>The file first, the option over it; the lines are given by \<open>read_lines\<close>.\<close>

definition add_env :: "dict \<Rightarrow> string \<times> pyval \<Rightarrow> dict res" where
  "add_env env = (\<lambda>(name, value). case value of
     PStr v \<Rightarrow> Inr (AList.update name value env)
   | _ \<Rightarrow> Inl (fail_msg (''Non-string value found for env option. Ambiguous env options must be ''
       @ ''wrapped in quotes to avoid them being interpreted. Key: '' @ name)))"

definition preprocess_env :: "(string \<Rightarrow> string list) \<Rightarrow> dict \<Rightarrow> dict res" where
  "preprocess_env read_lines values =
     (if values = [] then Inr []
      else bindR (if has_key values ''env_file'' then
          bindR (parse_env_file (py_str (dget values ''env_file'')) (read_lines (py_str (dget values ''env_file'')))) (\<lambda>d. Inr (dict_update [] d))
        else Inr []) (\<lambda>from_file.
      bindR (if has_key values ''env'' then bindR (py_items (dget values ''env'')) (foldR add_env from_file) else Inr from_file) (\<lambda>final_env.
        Inr [(''env'', PList (map (\<lambda>(key, value). PStr (key @ ''='' @ py_str value)) final_env))])))"

definition preprocess_healthcheck :: "dict \<Rightarrow> dict res" where
  "preprocess_healthcheck values =
     (if values = [] then Inr []
      else bindR (py_items (dget values ''healthcheck'')) (\<lambda>h.
        bindR (normalize_healthcheck h False) (\<lambda>n. Inr [(''healthcheck'', PDict n)])))"

section \<open>Sizes, addresses and limits\<close>

definition preprocess_convert_to_bytes :: "(pyval \<Rightarrow> int res) \<Rightarrow> string \<Rightarrow> int option \<Rightarrow> dict \<Rightarrow> dict res" where
  "preprocess_convert_to_bytes human_to_bytes name unlimited_value values =
     (if \<not> has_key values name then Inr values
      else let value = dget values name in
        (case unlimited_value of
           Some u \<Rightarrow> if value = PStr ''unlimited'' \<or> value = PStr (dec_int u) then Inr (AList.update name (PInt u) values)
             else (case human_to_bytes value of Inr n \<Rightarrow> Inr (AList.update name (PInt n) values)
               | Inl (ValueError m) \<Rightarrow> Inl (fail_msg (''Failed to convert '' @ name @ '' to bytes: '' @ m)) | Inl e \<Rightarrow> Inl e)
         | None \<Rightarrow> (case human_to_bytes value of Inr n \<Rightarrow> Inr (AList.update name (PInt n) values)
             | Inl (ValueError m) \<Rightarrow> Inl (fail_msg (''Failed to convert '' @ name @ '' to bytes: '' @ m)) | Inl e \<Rightarrow> Inl e)))"

definition text_of :: "pyval \<Rightarrow> string res" where
  "text_of v = (case v of PStr s \<Rightarrow> Inr s | _ \<Rightarrow> Inl AttributeError)"

definition with_colons :: "pyval \<Rightarrow> pyval res" where
  "with_colons v = bindR (text_of v) (\<lambda>s. Inr (PStr (replace_char (CHR ''-'') '':'' s)))"

definition preprocess_mac_address :: "dict \<Rightarrow> dict res" where
  "preprocess_mac_address values =
     (if \<not> has_key values ''mac_address'' then Inr values
      else bindR (with_colons (dget values ''mac_address'')) (\<lambda>m. Inr [(''mac_address'', m)]))"

text \<open>A link is a name, or a name and an alias.\<close>

definition parsed_link :: "pyval \<Rightarrow> pyval res" where
  "parsed_link link = bindR (text_of link) (\<lambda>l. Inr (PTuple (map PStr (case split_max 1 (CHR '':'') l of [_] \<Rightarrow> [l, l] | parts \<Rightarrow> parts))))"

definition preprocess_network :: "pyval \<Rightarrow> pyval res" where
  "preprocess_network network =
     bindR (py_items network) (\<lambda>d0.
     bindR (py_getitem network ''links'') (\<lambda>links.
     bindR (if truthy links then bindR (py_iter links) (\<lambda>ls. bindR (mapR parsed_link ls) (\<lambda>ps. Inr (AList.update ''links'' (PList ps) d0)))
       else Inr d0) (\<lambda>d1.
     bindR (py_getitem network ''mac_address'') (\<lambda>mac.
     bindR (if truthy mac then bindR (with_colons mac) (\<lambda>m. Inr (AList.update ''mac_address'' m d1)) else Inr d1) (\<lambda>d2. Inr (PDict d2))))))"

definition preprocess_networks :: "dict \<Rightarrow> dict \<Rightarrow> dict res" where
  "preprocess_networks params values =
     bindR (if dget params ''networks_cli_compatible'' = PBool True \<and> truthy (dget values ''networks'') \<and> \<not> has_key values ''network_mode''
       then bindR (py_iter (dget values ''networks'')) (\<lambda>ns. bindR (py_getitem (hd ns) ''name'') (\<lambda>n. Inr (AList.update ''network_mode'' n values)))
       else Inr values) (\<lambda>v1.
     if has_key v1 ''networks'' then
       bindR (bindR (py_iter (dget v1 ''networks'')) (mapR preprocess_network)) (\<lambda>ns. Inr (AList.update ''networks'' (PList ns) v1))
     else Inr v1)"

definition preprocess_sysctls :: "dict \<Rightarrow> dict res" where
  "preprocess_sysctls values =
     (if has_key values ''sysctls'' then
        bindR (py_items (dget values ''sysctls'')) (\<lambda>d. Inr (AList.update ''sysctls'' (PDict (map (\<lambda>(k, v). (k, PStr (py_str v))) d)) values))
      else Inr values)"

definition tmpfs_entry :: "pyval \<Rightarrow> (string \<times> pyval) res" where
  "tmpfs_entry spec = bindR (text_of spec) (\<lambda>s.
     Inr (case split_max 1 (CHR '':'') s of [path, opts] \<Rightarrow> (path, PStr opts) | parts \<Rightarrow> (hd parts, PStr [])))"

definition preprocess_tmpfs :: "dict \<Rightarrow> dict res" where
  "preprocess_tmpfs values =
     (if \<not> has_key values ''tmpfs'' then Inr values
      else bindR (py_iter (dget values ''tmpfs'')) (\<lambda>xs. bindR (mapR tmpfs_entry xs) (\<lambda>es.
        Inr [(''tmpfs'', PDict (dict_update [] es))])))"

definition ulimit :: "pyval \<Rightarrow> pyval res" where
  "ulimit limit =
     bindR (text_of limit) (\<lambda>s.
       let pieces = split_on (CHR '':'') s in
       if length pieces < 2 then Inr (PDict [])
       else bindR (to_int (PStr (pieces ! 1))) (\<lambda>soft.
         bindR (if length pieces = 3 then to_int (PStr (pieces ! 2)) else Inr soft) (\<lambda>hard.
           Inr (PDict [(''Name'', PStr (pieces ! 0)), (''Soft'', PInt soft), (''Hard'', PInt hard)]))))"

definition preprocess_ulimits :: "dict \<Rightarrow> dict res" where
  "preprocess_ulimits values =
     (if \<not> has_key values ''ulimits'' then Inr values
      else bindR (py_iter (dget values ''ulimits'')) (\<lambda>xs. bindR (mapR ulimit xs) (\<lambda>ls. Inr [(''ulimits'', PList ls)])))"

text \<open>The log options with the warnings for the values that were converted.\<close>

definition log_warning :: "string \<times> pyval \<Rightarrow> string list" where
  "log_warning = (\<lambda>(k, v). case v of PStr _ \<Rightarrow> []
     | _ \<Rightarrow> [''Non-string value found for log_options option '' @ [CHR 0x27] @ k @ [CHR 0x27]
         @ ''. The value is automatically converted to '' @ [CHR 0x27] @ py_str v @ [CHR 0x27]
         @ ''. If this is not correct, or you want to avoid such warnings, please quote the value.''])"

definition preprocess_log :: "dict \<Rightarrow> (dict \<times> string list) res" where
  "preprocess_log values =
     (if \<not> has_key values ''log_driver'' then Inr ([], [])
      else let driver = (''log_driver'', dget values ''log_driver'') in
        if has_key values ''log_options'' then
          bindR (py_items (dget values ''log_options'')) (\<lambda>d.
            Inr ([driver, (''log_options'', PDict (map (\<lambda>(k, v). (k, PStr (py_str v))) d))], concat (map log_warning d)))
        else Inr ([driver], []))"

definition compare_platform :: "string \<Rightarrow> string option \<Rightarrow> string option \<Rightarrow> bool res" where
  "compare_platform comparison param_value container_value =
     (if comparison = ''ignore'' then Inr True
      else (case compare_platform_strings param_value container_value of
          Inl (ValueError _) \<Rightarrow> Inr (param_value = container_value)
        | r \<Rightarrow> r))"

end
