(* ===== verification/DockerPublish.thy ===== *)
theory DockerPublish
  imports DockerOptions
begin

text \<open>
  Mounts, volumes and published ports of \<open>docker_container\<close>, as \<open>module_container/base.py\<close>
  reads them: which mount points are taken, which ports of the host go to which ports of the
  container, and how an address in brackets keeps its colons.
\<close>

section \<open>Mounts and volumes\<close>

definition mount_option_types :: "(string \<times> string) list" where
  "mount_option_types = [(''volume_driver'', ''volume''), (''volume_options'', ''volume''), (''propagation'', ''bind''),
     (''no_copy'', ''volume''), (''labels'', ''volume''), (''tmpfs_size'', ''tmpfs''), (''tmpfs_mode'', ''tmpfs'')]"

definition is_volume_permissions :: "string \<Rightarrow> bool" where
  "is_volume_permissions mode = list_all (\<lambda>part. part \<in> {''rw'', ''ro'', ''z'', ''Z'', ''consistent'', ''delegated'', ''cached'',
     ''rprivate'', ''private'', ''rshared'', ''shared'', ''rslave'', ''slave'', ''nocopy''}) (split_on (CHR '','') mode)"

text \<open>The mount points taken so far, with the option that took them.\<close>

type_synonym taken = "(string \<times> string) list"

definition check_collision :: "string \<Rightarrow> string \<Rightarrow> taken \<Rightarrow> taken res" where
  "check_collision t name used = (case map_of used t of
     None \<Rightarrow> Inr ((t, name) # used)
   | Some other \<Rightarrow> Inl (fail_msg (if other = name
       then ''The mount point '' @ [CHR 0x22] @ t @ [CHR 0x22] @ '' appears twice in the '' @ name @ '' option''
       else ''The mount point '' @ [CHR 0x22] @ t @ [CHR 0x22] @ '' appears both in the '' @ name @ '' and '' @ other @ '' option'')))"

text \<open>\<open>int(s, 8)\<close>: blanks around, a sign, \<open>0o\<close>, digits with single underscores between them.\<close>

definition is_octal :: "char \<Rightarrow> bool" where
  "is_octal c \<longleftrightarrow> is_digit c \<and> c \<noteq> CHR ''8'' \<and> c \<noteq> CHR ''9''"

definition octal_of_str :: "string \<Rightarrow> int option" where
  "octal_of_str s =
     (let t = py_strip s;
          (neg, u) = (case t of CHR ''-'' # r \<Rightarrow> (True, r) | CHR ''+'' # r \<Rightarrow> (False, r) | _ \<Rightarrow> (False, t));
          v = (case u of CHR ''0'' # c # CHR ''_'' # r \<Rightarrow> if c = CHR ''o'' \<or> c = CHR ''O'' then r else u
             | CHR ''0'' # c # r \<Rightarrow> if c = CHR ''o'' \<or> c = CHR ''O'' then r else u | _ \<Rightarrow> u);
          n = foldl (\<lambda>n c. 8 * n + int (digit_val c)) 0 (filter is_digit v)
      in if digits_underscored v \<and> list_all (\<lambda>c. is_octal c \<or> c = CHR ''_'') v then Some (if neg then - n else n) else None)"

definition check_mount_options :: "string \<Rightarrow> pyval \<Rightarrow> pyval \<Rightarrow> unit res" where
  "check_mount_options target mount_type mount =
     foldR (\<lambda>_ (option, req). bindR (py_getitem mount option) (\<lambda>v.
       if v \<noteq> PNone \<and> mount_type \<noteq> PStr req then
         Inl (fail_msg (option @ '' cannot be specified for mount '' @ [CHR 0x22] @ target @ [CHR 0x22] @ '' of type '' @ [CHR 0x22]
           @ py_str mount_type @ [CHR 0x22] @ '' (needs type '' @ [CHR 0x22] @ req @ [CHR 0x22] @ '')''))
       else Inr ())) () mount_option_types"

definition clean_entries :: "pyval \<Rightarrow> pyval res" where
  "clean_entries v = bindR (py_items v) (\<lambda>d. Inr (PDict (clean_dict_booleans_for_docker_api (Some d) False)))"

definition streamline :: "(pyval \<Rightarrow> int res) \<Rightarrow> string \<Rightarrow> dict \<Rightarrow> dict res" where
  "streamline human_to_bytes target m0 =
     (let volume_options = dget m0 ''volume_options''; m1 = AList.delete ''volume_options'' m0 in
      bindR (if truthy (dget m1 ''volume_driver'') \<and> truthy volume_options then
          bindR (clean_entries volume_options) (\<lambda>v. Inr (AList.update ''volume_options'' v m1)) else Inr m1) (\<lambda>m2.
      bindR (if truthy (dget m2 ''labels'') then bindR (clean_entries (dget m2 ''labels'')) (\<lambda>v. Inr (AList.update ''labels'' v m2))
        else Inr m2) (\<lambda>m3.
      bindR (if dget m3 ''tmpfs_size'' \<noteq> PNone then
          (case human_to_bytes (dget m3 ''tmpfs_size'') of
             Inr n \<Rightarrow> Inr (AList.update ''tmpfs_size'' (PInt n) m3)
           | Inl (ValueError m) \<Rightarrow> Inl (fail_msg (''Failed to convert tmpfs_size of mount '' @ [CHR 0x22] @ target @ [CHR 0x22] @ '' to bytes: '' @ m))
           | Inl e \<Rightarrow> Inl e)
        else Inr m3) (\<lambda>m4.
      bindR (if dget m4 ''tmpfs_mode'' \<noteq> PNone then
          (case (case dget m4 ''tmpfs_mode'' of PStr s \<Rightarrow> octal_of_str s | _ \<Rightarrow> None) of
             Some n \<Rightarrow> Inr (AList.update ''tmpfs_mode'' (PInt n) m4)
           | None \<Rightarrow> Inl (fail_msg (''tmp_fs mode of mount '' @ [CHR 0x22] @ target @ [CHR 0x22] @ '' is not an octal string!'')))
        else Inr m4) (\<lambda>m5. Inr (omit_none_from_dict m5))))))"

definition preprocess_mount :: "(pyval \<Rightarrow> int res) \<Rightarrow> pyval list \<times> taken \<Rightarrow> pyval \<Rightarrow> (pyval list \<times> taken) res" where
  "preprocess_mount human_to_bytes = (\<lambda>(mounts, used) mount.
     bindR (py_items mount) (\<lambda>d.
     bindR (bindR (py_getitem mount ''target'') text_of) (\<lambda>target.
     bindR (py_getitem mount ''type'') (\<lambda>mount_type.
     bindR (check_collision target ''mounts'' used) (\<lambda>used'.
     bindR (py_getitem mount ''source'') (\<lambda>src.
     if src = PNone \<and> mount_type \<notin> {PStr ''tmpfs'', PStr ''volume''} then
       Inl (fail_msg (''source must be specified for mount '' @ [CHR 0x22] @ target @ [CHR 0x22] @ '' of type '' @ [CHR 0x22] @ py_str mount_type @ [CHR 0x22]))
     else bindR (check_mount_options target mount_type mount) (\<lambda>_.
       bindR (streamline human_to_bytes target d) (\<lambda>m. Inr (mounts @ [PDict m], used')))))))))"

text \<open>A volume: host, container and mode; two parts of which the second is a mode are a volume of
  the container with that mode. A host path that starts with a dot or a tilde is made absolute.\<close>

definition is_relative :: "string \<Rightarrow> bool" where
  "is_relative host \<longleftrightarrow> host \<noteq> [] \<and> (hd host = CHR ''.'' \<or> hd host = CHR ''~'')"

definition invalid_mode :: "string \<Rightarrow> exn" where
  "invalid_mode mode = fail_msg (''Found invalid volumes mode: '' @ mode)"

definition preprocess_volume :: "(string \<Rightarrow> string) \<Rightarrow> string list \<times> taken \<Rightarrow> pyval \<Rightarrow> (string list \<times> taken) res" where
  "preprocess_volume absolute = (\<lambda>(vols, used) v. bindR (text_of v) (\<lambda>vol.
     let take_it = (\<lambda>t entry. bindR (check_collision t ''volumes'' used) (\<lambda>used'. Inr (vols @ [entry], used'))) in
     case split_on (CHR '':'') vol of
       [host, target, mode] \<Rightarrow>
         if \<not> is_volume_permissions mode then Inl (invalid_mode mode)
         else take_it target (py_join '':'' [if is_relative host then absolute host else host, target, mode])
     | [host, target] \<Rightarrow>
         if \<not> is_volume_permissions target \<and> is_relative host then take_it target (py_join '':'' [absolute host, target, ''rw''])
         else take_it target vol
     | [target] \<Rightarrow> take_it target vol
     | _ # target # _ \<Rightarrow> take_it target vol
     | [] \<Rightarrow> Inl IndexError))"

text \<open>\<open>volume_binds\<close>: the volumes that have a path on the host.\<close>

definition volume_bind :: "string \<Rightarrow> string list res" where
  "volume_bind vol = (case split_on (CHR '':'') vol of
     [host, target, mode] \<Rightarrow> if is_volume_permissions mode then Inr [py_join '':'' [host, target, mode]] else Inl (invalid_mode mode)
   | [host, target] \<Rightarrow> Inr (if is_volume_permissions target then [] else [py_join '':'' [host, target, ''rw'']])
   | _ \<Rightarrow> Inr [])"

definition take_mounts :: "(pyval \<Rightarrow> int res) \<Rightarrow> dict \<Rightarrow> (dict \<times> taken) res" where
  "take_mounts human_to_bytes values =
     (if has_key values ''mounts'' then
        bindR (py_iter (dget values ''mounts'')) (\<lambda>ms. bindR (foldR (preprocess_mount human_to_bytes) ([], []) ms) (\<lambda>(mounts, used).
          Inr (AList.update ''mounts'' (PList mounts) values, used)))
      else Inr (values, []))"

definition take_volumes :: "(string \<Rightarrow> string) \<Rightarrow> dict \<times> taken \<Rightarrow> (dict \<times> taken) res" where
  "take_volumes absolute = (\<lambda>(values, used).
     if has_key values ''volumes'' then
       bindR (py_iter (dget values ''volumes'')) (\<lambda>vs. bindR (foldR (preprocess_volume absolute) ([], used) vs) (\<lambda>(vols, used').
       bindR (mapR volume_bind vols) (\<lambda>binds.
         Inr (AList.update ''volume_binds'' (PList (map PStr (concat binds))) (AList.update ''volumes'' (PList (map PStr vols)) values), used'))))
     else Inr (values, used))"

definition preprocess_mounts :: "(string \<Rightarrow> string) \<Rightarrow> (pyval \<Rightarrow> int res) \<Rightarrow> dict \<Rightarrow> dict res" where
  "preprocess_mounts absolute human_to_bytes values =
     bindR (take_mounts human_to_bytes values) (\<lambda>s. bindR (take_volumes absolute s) (\<lambda>(values', used). Inr values'))"

section \<open>Parts of a port\<close>

definition DEFAULT_IP :: string where
  "DEFAULT_IP = ''[[DEFAULT_IP:iewahhaeB4Sae6Aen8IeShairoh4zeph7xaekoh8Geingunaesaeweiy3ooleiwi]]''"

definition parse_port_range :: "string \<Rightarrow> int list res" where
  "parse_port_range range_or_port =
     (let invalid = (\<lambda>what. fail_msg (''Invalid '' @ what @ '': '' @ [CHR 0x22] @ range_or_port @ [CHR 0x22])) in
      if CHR ''-'' \<in> set range_or_port then
        (case map int_of_str (split_on (CHR ''-'') range_or_port) of
           [Some start, Some stop] \<Rightarrow> if stop < start then Inl (invalid ''port range'') else Inr [start..stop]
         | _ \<Rightarrow> Inl (invalid ''port range''))
      else (case int_of_str range_or_port of Some n \<Rightarrow> Inr [n] | None \<Rightarrow> Inl (invalid ''port'')))"

text \<open>\<open>s.find(c)\<close>.\<close>

primrec index_of :: "char \<Rightarrow> string \<Rightarrow> nat option" where
  "index_of c [] = None"
| "index_of c (x # xs) = (if x = c then Some 0 else map_option Suc (index_of c xs))"

lemma index_of_le: "index_of c s = Some i \<Longrightarrow> i < length s"
  by (induction s arbitrary: i) (auto split: if_splits)

definition extend_last :: "string list \<Rightarrow> string \<Rightarrow> string list" where
  "extend_last ws s = butlast ws @ [last ws @ s]"

text \<open>The loop of \<open>_split_colon_ipv6\<close> on what is left of the text; \<open>at\<close> is where that starts. The
  test \<open>k == len(text)\<close> never succeeds, for \<open>k\<close> is the position of a colon.\<close>

abbreviation quoted :: "string \<Rightarrow> string" where
  "quoted s \<equiv> CHR 0x22 # s @ [CHR 0x22]"

function split_brackets :: "string \<Rightarrow> nat \<Rightarrow> string list \<Rightarrow> string \<Rightarrow> string list res" where
  "split_brackets text at result rest =
     (if rest = [] then Inr result
      else (case index_of (CHR ''['') rest of
        None \<Rightarrow> Inr (result @ split_on (CHR '':'') rest)
      | Some i \<Rightarrow> (case index_of (CHR '']'') (drop i rest) of
          None \<Rightarrow> Inl (fail_msg (''Cannot find closing '' @ quoted '']'' @ '' in input '' @ quoted text @ '' for opening '' @ quoted ''[''
            @ '' at index '' @ dec_nat (at + i + 1) @ ''!''))
        | Some j \<Rightarrow> (case index_of (CHR '':'') (drop (i + j) rest) of
            None \<Rightarrow> Inr (extend_last (result @ split_on (CHR '':'') (take i rest)) (drop i rest))
          | Some l \<Rightarrow>
              let k = i + j + l in
              split_brackets text (at + k + 1) (extend_last (result @ split_on (CHR '':'') (take i rest)) (take (k - i) (drop i rest)))
                (drop (k + 1) rest)))))"
  by pat_completeness auto
termination
  by (relation "measure (\<lambda>(text, at, result, rest). length rest)") (auto dest!: index_of_le)

declare split_brackets.simps [simp del]

definition split_colon_ipv6 :: "string \<Rightarrow> string list res" where
  "split_colon_ipv6 text = (if CHR ''['' \<notin> set text then Inr (split_on (CHR '':'') text) else split_brackets text 0 [] text)"

section \<open>Published ports\<close>

definition is_ipv4 :: "string \<Rightarrow> bool" where
  "is_ipv4 ip \<longleftrightarrow> (let ws = split_on (CHR ''.'') (until_newline ip) in length ws = 4 \<and> list_all (\<lambda>w. w \<noteq> [] \<and> list_all is_digit w) ws)"

definition in_brackets :: "(string \<Rightarrow> bool) \<Rightarrow> string \<Rightarrow> bool" where
  "in_brackets inner ip \<longleftrightarrow> (let s = until_newline ip in starts_with s ''['' \<and> ends_with s '']'' \<and> 2 \<le> length s \<and> inner (butlast (tl s)))"

definition hex_colons_zone :: "string \<Rightarrow> bool" where
  "hex_colons_zone s \<longleftrightarrow> (case split_max 1 (CHR ''%'') s of
     [a] \<Rightarrow> hex_colons a
   | [a, zone] \<Rightarrow> hex_colons a \<and> zone \<noteq> [] \<and> CHR '']'' \<notin> set zone \<and> CHR ''/'' \<notin> set zone
   | _ \<Rightarrow> False)"

text \<open>What a port of the container is bound to: an address, and the port of the host if one is given.\<close>

type_synonym bind = "pyval list"

datatype bind_entry = One bind | Many "bind list"

definition container_port_of :: "string list \<Rightarrow> (int list \<times> string) res" where
  "container_port_of parts =
     (let p = last parts in
      bindR (if CHR ''/'' \<in> set p then (case split_on (CHR ''/'') p of [a, b] \<Rightarrow> Inr (a, b) | _ \<Rightarrow> Inl (ValueError ''too many values to unpack''))
        else Inr (p, [])) (\<lambda>(port, protocol).
      bindR (parse_port_range port) (\<lambda>ports. Inr (ports, protocol))))"

definition host_ports :: "string \<Rightarrow> string \<Rightarrow> nat \<Rightarrow> bind list res" where
  "host_ports ip port n =
     (if n = 1 then Inr [[PStr ip, PStr port]]
      else bindR (parse_port_range port) (\<lambda>ps. Inr (map (\<lambda>p. [PStr ip, PInt p]) ps)))"

definition port_binds_of :: "pyval \<Rightarrow> string list \<Rightarrow> nat \<Rightarrow> bind list res" where
  "port_binds_of port parts n = (case parts of
     [_] \<Rightarrow> Inr (replicate n [PStr DEFAULT_IP])
   | [host, _] \<Rightarrow> host_ports DEFAULT_IP host n
   | [ip, host, _] \<Rightarrow>
       if \<not> is_ipv4 ip \<and> \<not> in_brackets hex_colons_zone ip then
         Inl (fail_msg (''Bind addresses for published ports must be IPv4 or IPv6 addresses, not hostnames. ''
           @ ''Use the dig lookup to resolve hostnames. (Found hostname: '' @ ip @ '')''))
       else let ipaddr = (if in_brackets hex_colons ip then butlast (tl ip) else ip) in
         if host \<noteq> [] then host_ports ipaddr host n else Inr (replicate n [PStr ipaddr])
   | _ \<Rightarrow> Inl (fail_msg (''Invalid port description '' @ quoted (py_str port) @ '' - expected 1 to 3 colon-separated parts, but got ''
       @ dec_nat (length parts) @ ''. Maybe you forgot to use square brackets ([...]) around an IPv6 address?'')))"

type_synonym bind_key = "int \<times> string"

definition add_bind :: "(bind_key \<times> bind_entry) list \<Rightarrow> bind_key \<times> bind \<Rightarrow> (bind_key \<times> bind_entry) list" where
  "add_bind binds = (\<lambda>(idx, b). case map_of binds idx of
     None \<Rightarrow> AList.update idx (One b) binds
   | Some (One old) \<Rightarrow> AList.update idx (Many [old, b]) binds
   | Some (Many olds) \<Rightarrow> AList.update idx (Many (olds @ [b])) binds)"

text \<open>The pairs of one specification. \<open>zip\<close> stops with the shorter list.\<close>

definition binds_of :: "pyval \<Rightarrow> (bind_key \<times> bind) list res" where
  "binds_of port =
     bindR (split_colon_ipv6 (py_str port)) (\<lambda>parts.
     bindR (container_port_of parts) (\<lambda>(container_ports, protocol).
     bindR (port_binds_of port parts (length container_ports)) (\<lambda>port_binds.
       Inr (map (\<lambda>(b, p). ((p, protocol), b)) (zip port_binds container_ports)))))"

definition publish :: "pyval list \<Rightarrow> (bind_key \<times> bind_entry) list res" where
  "publish ports =
     (if py_mem (PStr ''all'') ports then
        Inl (fail_msg (''Specifying all in published_ports is no longer allowed. Set publish_all_ports to true instead ''
          @ ''to randomly assign port mappings for those not specified by published_ports.''))
      else foldR (\<lambda>binds port. bindR (binds_of port) (\<lambda>ps. Inr (foldl add_bind binds ps))) [] ports)"

section \<open>Exposed ports\<close>

text \<open>\<open>re.search('(/.+$)', port)\<close>: the port before and the text from the first slash that ends it.\<close>

fun split_protocol :: "string \<Rightarrow> (string \<times> string) option" where
  "split_protocol [] = None"
| "split_protocol (c # s) =
     (if c = CHR ''/'' \<and> s \<noteq> [] \<and> CHR 0x0A \<notin> set s then Some ([], c # s)
      else map_option (\<lambda>(a, b). (c # a, b)) (split_protocol s))"

definition exposed_port :: "pyval \<Rightarrow> pyval \<times> string" where
  "exposed_port v =
     (let port = py_strip (py_str v) in
      case split_protocol port of
        None \<Rightarrow> (PStr port, ''tcp'')
      | Some (p, protocol) \<Rightarrow> (PStr p, filter (\<lambda>c. c \<noteq> CHR ''/'') protocol))"

definition is_exposed :: "int \<Rightarrow> string \<Rightarrow> pyval \<times> string \<Rightarrow> bool res" where
  "is_exposed port protocol = (\<lambda>(v, pr).
     if pr \<noteq> protocol then Inr False
     else (case v of
       PStr s \<Rightarrow>
         if CHR ''-'' \<in> set s then
           (case split_on (CHR ''-'') s of
              [a, b] \<Rightarrow> bindR (to_int (PStr a)) (\<lambda>start. if start \<le> port then bindR (to_int (PStr b)) (\<lambda>stop. Inr (port \<le> stop)) else Inr False)
            | _ \<Rightarrow> Inl (ValueError ''wrong number of values to unpack''))
         else Inr False
     | _ \<Rightarrow> Inr (py_eq v (PInt port))))"

definition expose_published :: "(pyval \<times> string) list \<Rightarrow> bind_key \<Rightarrow> (pyval \<times> string) list res" where
  "expose_published exposed = (\<lambda>(port, proto).
     let protocol = (if proto \<noteq> [] then proto else ''tcp'') in
     bindR (mapR (is_exposed port protocol) exposed) (\<lambda>ms.
       Inr (if list_ex id ms then exposed else exposed @ [(PInt port, protocol)])))"

definition preprocess_ports :: "dict \<Rightarrow> ((bind_key \<times> bind_entry) list option \<times> (pyval \<times> string) list) res" where
  "preprocess_ports values =
     bindR (if has_key values ''published_ports'' then
         bindR (bindR (py_iter (dget values ''published_ports'')) publish) (\<lambda>b. Inr (Some b)) else Inr None) (\<lambda>binds.
     bindR (if has_key values ''exposed_ports'' then
         bindR (py_iter (dget values ''exposed_ports'')) (\<lambda>xs. Inr (map exposed_port xs)) else Inr []) (\<lambda>exposed0.
     bindR (case binds of None \<Rightarrow> Inr exposed0 | Some b \<Rightarrow> foldR expose_published exposed0 (map fst b)) (\<lambda>exposed.
       Inr (binds, exposed))))"

end
