(* ===== verification/DockerManager.thy ===== *)
theory DockerManager
  imports DockerContainer Complex_Main
begin

text \<open>
  The manager of \<open>docker_container\<close> (\<open>module_container/module.py\<close>): what it takes to bring a
  container to the state the user asked for. The fields of the manager that its methods
  change are the record \<open>manager\<close>, passed along; what does not change is the record \<open>task\<close>.
  Delays are rational numbers (the code's are floating-point), the number in the message of a
  time-out and what \<open>fail_results\<close> adds to a failure are left out.
\<close>

section \<open>State\<close>

record task =
  tk_params :: dict
  tk_check_mode :: bool
  tk_diff :: bool
  tk_groups :: "group list"
  tk_comparisons :: table
  tk_api_version :: string
  tk_auth :: "string \<Rightarrow> string option io"
  tk_removal_wait_timeout :: "rat option"
  tk_healthy_wait_timeout :: rat

record manager =
  mg_changed :: bool
  mg_actions :: "pyval list"
  mg_results :: dict
  mg_tracker :: tracker
  mg_differences :: "pyval list option"
  mg_image_different :: bool

definition new_manager :: manager where
  "new_manager = \<lparr>mg_changed = False, mg_actions = [], mg_results = [], mg_tracker = [], mg_differences = None, mg_image_different = False\<rparr>"

abbreviation param :: "task \<Rightarrow> string \<Rightarrow> pyval" where
  "param t k \<equiv> dget (tk_params t) k"

abbreviation flag :: "task \<Rightarrow> string \<Rightarrow> bool" where
  "flag t k \<equiv> truthy (dget (tk_params t) k)"

definition add_action :: "dict \<Rightarrow> manager \<Rightarrow> manager" where
  "add_action a m = m\<lparr>mg_changed := True, mg_actions := mg_actions m @ [PDict a]\<rparr>"

definition note_action :: "dict \<Rightarrow> manager \<Rightarrow> manager" where
  "note_action a m = m\<lparr>mg_actions := mg_actions m @ [PDict a]\<rparr>"

definition track :: "string \<Rightarrow> pyval \<Rightarrow> pyval \<Rightarrow> manager \<Rightarrow> manager" where
  "track name parameter active m = m\<lparr>mg_tracker := tracker_add name parameter active (mg_tracker m)\<rparr>"

definition comparison_of :: "task \<Rightarrow> string \<Rightarrow> string res" where
  "comparison_of t name = (case map_of (tk_comparisons t) name of None \<Rightarrow> Inl (KeyError name) | Some c \<Rightarrow> Inr c)"

section \<open>Waiting for a state\<close>

definition sleep_for :: "world \<Rightarrow> rat \<Rightarrow> unit io" where
  "sleep_for W d = bindI (ext W ''sleep'' [PInt (fst (quotient_of d)), PInt (snd (quotient_of d))]) (\<lambda>_. retI ())"

definition status_of :: "bool \<Rightarrow> pyval \<Rightarrow> pyval res" where
  "status_of health_state result =
     bindR (py_get result ''State'' PNone) (\<lambda>s0.
     let s1 = (if truthy s0 then s0 else PDict []) in
     bindR (if health_state then bindR (py_get s1 ''Health'' PNone) (\<lambda>h. Inr (if truthy h then h else PDict [])) else Inr s1) (\<lambda>s2.
       py_get s2 ''Status'' PNone))"

text \<open>What a poll decides: the wait is over with a result, it fails, or it goes on.\<close>

record wait_for =
  wf_complete :: "pyval list option"
  wf_wait :: "pyval list option"
  wf_accept_removal :: bool
  wf_max :: "rat option"
  wf_health :: bool

datatype poll = Done pyval | Failed exn | Again

definition fail_with_container :: "string \<Rightarrow> pyval \<Rightarrow> exn" where
  "fail_with_container msg result = FailJson [(''msg'', PStr msg), (''container'', result)]"

definition judge :: "wait_for \<Rightarrow> pyval \<Rightarrow> pyval \<Rightarrow> poll" where
  "judge w container_id result =
     (if result = PNone then
        (if wf_accept_removal w then Done result
         else Failed (fail_msg (''Encontered vanished container while waiting for container '' @ [CHR 0x22] @ py_str container_id @ [CHR 0x22])))
      else (case status_of (wf_health w) result of
        Inl e \<Rightarrow> Failed e
      | Inr st \<Rightarrow>
          if (case wf_complete w of None \<Rightarrow> False | Some cs \<Rightarrow> py_mem st cs) then Done result
          else if (case wf_wait w of None \<Rightarrow> False | Some ws \<Rightarrow> \<not> py_mem st ws) then
            Failed (fail_with_container (''Encontered unexpected state '' @ [CHR 0x22] @ py_str st @ [CHR 0x22]
              @ '' while waiting for container '' @ [CHR 0x22] @ py_str container_id @ [CHR 0x22]) result)
          else Again))"

definition timed_out :: "rat option \<Rightarrow> rat \<Rightarrow> rat \<Rightarrow> bool" where
  "timed_out max_wait delay total_wait = (case max_wait of None \<Rightarrow> False | Some mx \<Rightarrow> total_wait > mx \<or> delay < 1 / 10000)"

definition clip_delay :: "rat option \<Rightarrow> rat \<Rightarrow> rat \<Rightarrow> rat" where
  "clip_delay max_wait delay total_wait = (case max_wait of None \<Rightarrow> delay
     | Some mx \<Rightarrow> if total_wait + delay > mx then mx - total_wait else delay)"

fun wait_polls :: "world \<Rightarrow> wait_for \<Rightarrow> pyval \<Rightarrow> nat \<Rightarrow> rat \<Rightarrow> rat \<Rightarrow> pyval io" where
  "wait_polls W w container_id 0 delay total_wait = raiseI OutOfFuel"
| "wait_polls W w container_id (Suc fuel) delay total_wait =
     bindI (get_container_by_id W container_id) (\<lambda>result.
       case judge w container_id result of
         Done r \<Rightarrow> retI r
       | Failed e \<Rightarrow> raiseI e
       | Again \<Rightarrow>
           if timed_out (wf_max w) delay total_wait then
             raiseI (fail_with_container (''Timeout exceeded while waiting for container '' @ [CHR 0x22] @ py_str container_id @ [CHR 0x22]) result)
           else
             let d = clip_delay (wf_max w) delay total_wait in
             bindI (sleep_for W d) (\<lambda>_. wait_polls W w container_id fuel (min (d * 11 / 10) 10) (total_wait + d)))"

definition wait_for_state :: "world \<Rightarrow> wait_for \<Rightarrow> pyval \<Rightarrow> pyval io" where
  "wait_for_state W w container_id = wait_polls W w container_id (w_fuel W) 1 0"

definition wait_removed :: "task \<Rightarrow> wait_for" where
  "wait_removed t = \<lparr>wf_complete = None, wf_wait = Some [PStr ''removing''], wf_accept_removal = True,
     wf_max = tk_removal_wait_timeout t, wf_health = False\<rparr>"

definition wait_healthy :: "task \<Rightarrow> wait_for" where
  "wait_healthy t = \<lparr>wf_complete = Some [PStr ''healthy'', PNone], wf_wait = Some [PStr ''starting'', PStr ''unhealthy''],
     wf_accept_removal = False, wf_max = (if tk_healthy_wait_timeout t \<le> 0 then None else Some (tk_healthy_wait_timeout t)),
     wf_health = True\<rparr>"

section \<open>Calling the driver\<close>

text \<open>A change of the daemon's state: only outside check mode, and with its own message on failure.\<close>

definition change :: "world \<Rightarrow> task \<Rightarrow> string \<Rightarrow> 'a io \<Rightarrow> unit io" where
  "change W t what m = (if tk_check_mode t then retI ()
     else bindI (or_fail W (\<lambda>e. what @ e) m) (\<lambda>_. retI ()))"

definition container_kill :: "world \<Rightarrow> task \<Rightarrow> pyval \<Rightarrow> manager \<Rightarrow> manager io" where
  "container_kill W t container_id m =
     bindI (change W t (''Error killing container '' @ py_str container_id @ '': '')
        (kill_container W container_id (param t ''kill_signal''))) (\<lambda>_.
       retI (add_action [(''killed'', container_id), (''signal'', param t ''kill_signal'')] m))"

definition container_stop :: "world \<Rightarrow> task \<Rightarrow> pyval \<Rightarrow> manager \<Rightarrow> manager io" where
  "container_stop W t container_id m =
     (if flag t ''force_kill'' then container_kill W t container_id m
      else bindI (change W t (''Error stopping container '' @ py_str container_id @ '': '')
          (stop_container W container_id (param t ''stop_timeout''))) (\<lambda>_.
        retI (add_action [(''stopped'', container_id), (''timeout'', param t ''stop_timeout'')] m)))"

definition container_remove :: "world \<Rightarrow> task \<Rightarrow> pyval \<Rightarrow> bool \<Rightarrow> bool \<Rightarrow> manager \<Rightarrow> manager io" where
  "container_remove W t container_id link force m =
     (let volume_state = (\<not> flag t ''keep_volumes'') in
      bindI (change W t (''Error removing container '' @ py_str container_id @ '': '')
        (remove_container W container_id volume_state link force)) (\<lambda>_.
       retI (add_action [(''removed'', container_id), (''volume_state'', PBool volume_state), (''link'', PBool link),
         (''force'', PBool force)] m)))"

definition container_restart :: "world \<Rightarrow> task \<Rightarrow> pyval \<Rightarrow> manager \<Rightarrow> (container \<times> manager) io" where
  "container_restart W t container_id m =
     bindI (change W t (''Error restarting container '' @ py_str container_id @ '': '')
        (restart_container W container_id (if flag t ''stop_timeout'' then param t ''stop_timeout'' else PInt 10))) (\<lambda>_.
     bindI (get_cont W container_id) (\<lambda>c.
       retI (c, add_action [(''restarted'', container_id), (''timeout'', param t ''stop_timeout'')] m)))"

definition container_update :: "world \<Rightarrow> task \<Rightarrow> pyval \<Rightarrow> dict \<Rightarrow> manager \<Rightarrow> (container \<times> manager) io" where
  "container_update W t container_id update_parameters m =
     bindI (if update_parameters = [] then retI m
       else bindI (change W t (''Error updating container '' @ py_str container_id @ '': '')
           (update_container W container_id update_parameters)) (\<lambda>_.
         retI (add_action [(''updated'', container_id), (''update_parameters'', PDict update_parameters)] m))) (\<lambda>m'.
     bindI (get_cont W container_id) (\<lambda>c. retI (c, m')))"

text \<open>The parameters a container is created with; the platform goes to the query, not the body.\<close>

type_synonym collected = "(group \<times> dict) list"

definition compose_create_parameters :: "collected \<Rightarrow> pyval \<Rightarrow> dict res" where
  "compose_create_parameters parameters img =
     bindR (foldR (\<lambda>params (g, values). if en_can_set_value g then en_set_value g params values else Inr params) [] parameters)
       (\<lambda>params. Inr (AList.update ''Image'' img params))"

definition network_entry :: "pyval \<Rightarrow> (string \<times> dict) res" where
  "network_entry network = bindR (py_items network) (\<lambda>d. bindR (py_getitem network ''name'') (\<lambda>n.
     Inr (py_str n, filter (\<lambda>(k, v). k \<noteq> ''name'' \<and> k \<noteq> ''id'') d)))"

definition initial_networks :: "task \<Rightarrow> (string \<times> dict) list res" where
  "initial_networks t =
     (if flag t ''networks_cli_compatible'' \<and> flag t ''networks'' then
        bindR (py_iter (param t ''networks'')) (\<lambda>ns.
        bindR (supports_more_than_one_network (tk_api_version t)) (\<lambda>several.
        bindR (mapR network_entry (if several then ns else take 1 ns)) (\<lambda>es. Inr (dict_update [] es))))
      else Inr [])"

definition container_create :: "world \<Rightarrow> task \<Rightarrow> collected \<Rightarrow> pyval \<Rightarrow> manager \<Rightarrow> (container option \<times> manager) io" where
  "container_create W t parameters img m =
     bindI (liftI (compose_create_parameters parameters img)) (\<lambda>create_parameters.
     bindI (liftI (initial_networks t)) (\<lambda>networks.
       let action = (\<lambda>cp. [(''created'', PStr ''Created container''), (''create_parameters'', PDict cp),
             (''networks'', PDict (map (\<lambda>(k, d). (k, PDict d)) networks))])
       in if tk_check_mode t then retI (None, add_action (action create_parameters) m)
          else bindI (or_fail W (\<lambda>e. ''Error creating container: '' @ e)
              (create_container W (py_str (param t ''name'')) create_parameters networks)) (\<lambda>container_id.
            bindI (get_cont W container_id) (\<lambda>c.
              retI (Some c, add_action (action (AList.delete ''platform'' create_parameters)) m)))))"

text \<open>\<open>container_start\<close>; a container that is not detached is awaited, and its output reported.\<close>

definition set_output :: "container \<Rightarrow> pyval \<Rightarrow> container" where
  "set_output c output =
     (case co_raw c of
        PDict d \<Rightarrow> if d = [] then c\<lparr>co_raw := PDict [(''Output'', output)]\<rparr>
          else c\<lparr>co_raw := PDict (AList.update ''Output'' output d), co_container := PDict (AList.update ''Output'' output d)\<rparr>
      | _ \<Rightarrow> c\<lparr>co_raw := PDict [(''Output'', output)]\<rparr>)"

definition collect_output :: "world \<Rightarrow> task \<Rightarrow> pyval \<Rightarrow> pyval io" where
  "collect_output W t container_id =
     (if flag t ''auto_remove'' then
        bindI (if flag t ''output_logs'' then emit (Warn ''Cannot output_logs if auto_remove is enabled!'') else retI ()) (\<lambda>_.
          retI (PStr ''Cannot retrieve result as auto_remove is enabled''))
      else bindI (get_container_output W container_id) (\<lambda>(output, real_output).
        bindI (if real_output \<and> flag t ''output_logs'' then bindI (ext W ''log'' [output]) (\<lambda>_. retI ()) else retI ()) (\<lambda>_.
          retI output)))"

definition container_start :: "world \<Rightarrow> task \<Rightarrow> pyval \<Rightarrow> manager \<Rightarrow> (container \<times> manager) io" where
  "container_start W t container_id m0 =
     (let m = add_action [(''started'', container_id)] m0 in
      bindI (change W t (''Error starting container '' @ py_str container_id @ '': '') (start_container W container_id)) (\<lambda>_.
        if \<not> tk_check_mode t \<and> param t ''detach'' = PBool False then
          bindI (wait_for_container W container_id) (\<lambda>status.
          bindI (collect_output W t container_id) (\<lambda>output.
          bindI (if flag t ''cleanup'' then container_remove W t container_id False True m else retI m) (\<lambda>m1.
          bindI (get_cont W container_id) (\<lambda>insp.
            retI (set_output insp output, m1\<lparr>mg_results := (''status'', status) #
              (if \<not> py_eq status (PInt 0) then [(''failed'', PBool True), (''msg'', output)] else [])\<rparr>)))))
        else bindI (get_cont W container_id) (\<lambda>c. retI (c, m))))"

section \<open>Parameters and images\<close>

text \<open>
  An engine's \<open>preprocess_value\<close> changes the values in place; here it returns them as it leaves
  them.
\<close>

fun collect_params :: "task \<Rightarrow> group list \<Rightarrow> collected io" where
  "collect_params t [] = retI []"
| "collect_params t (g # gs) =
     (let given = map (\<lambda>o'. (op_name o', param t (op_name o')))
            (filter (\<lambda>o'. \<not> op_not_an_ansible_option o' \<and> param t (op_name o') \<noteq> PNone) (gr_all_options g))
      in bindI (gr_preprocess g (dict_update [] given)) (\<lambda>values.
         bindI (en_preprocess_value g values) (\<lambda>values'.
         bindI (collect_params t gs) (\<lambda>rest. retI ((g, values') # rest)))))"

definition needs_container_image :: "collected \<Rightarrow> bool" where
  "needs_container_image parameters = list_ex (\<lambda>(g, values). en_needs_container_image g values) parameters"

definition needs_host_info :: "collected \<Rightarrow> bool" where
  "needs_host_info parameters = list_ex (\<lambda>(g, values). en_needs_host_info g values) parameters"

definition image_by_name :: "world \<Rightarrow> task \<Rightarrow> string \<Rightarrow> pyval io" where
  "image_by_name W t name = (case parse_repository_tag name of (repository, tag) \<Rightarrow>
     find_image W (tk_api_version t) repository (case tag of None \<Rightarrow> ''latest'' | Some x \<Rightarrow> if x = [] then ''latest'' else x))"

definition get_container_image :: "world \<Rightarrow> task \<Rightarrow> container \<Rightarrow> pyval io" where
  "get_container_image W t c =
     bindI (liftI (co_removing c)) (\<lambda>removing.
       if \<not> co_exists c \<or> removing then retI PNone
       else (case co_image c of
           PStr img \<Rightarrow> if is_image_name_id img then find_image_by_id W (PStr img) True else image_by_name W t img
         | _ \<Rightarrow> raiseI TypeError))"

text \<open>\<open>param_pull\<close>: the booleans are old names.\<close>

definition pull_mode :: "task \<Rightarrow> string" where
  "pull_mode t = (case param t ''pull'' of PBool b \<Rightarrow> (if b then ''always'' else ''missing'') | v \<Rightarrow> py_str v)"

definition pull_if_needed :: "world \<Rightarrow> task \<Rightarrow> string \<Rightarrow> pyval \<Rightarrow> manager \<Rightarrow> (pyval \<times> manager) io" where
  "pull_if_needed W t name found m =
     (case parse_repository_tag name of (repository, tag0) \<Rightarrow>
       let tag = (case tag0 of None \<Rightarrow> ''latest'' | Some x \<Rightarrow> if x = [] then ''latest'' else x);
           what = (''pulled_image'', PStr (repository @ '':'' @ tag)) in
       if \<not> truthy found \<and> pull_mode t = ''never'' then
         fail_client (''Cannot find image with name '' @ repository @ '':'' @ tag @ '', and pull=never'')
       else if truthy found \<and> pull_mode t \<noteq> ''always'' then retI (found, m)
       else if \<not> tk_check_mode t then
         bindI (pull_image W (tk_api_version t) (tk_auth t) repository tag (param t ''platform'')) (\<lambda>(img, already).
           retI (img, (note_action [what, (''changed'', PBool (\<not> already))] m)\<lparr>mg_changed := \<not> already\<rparr>))
       else if \<not> truthy found \<or> param t ''pull_check_mode_behavior'' = PStr ''always'' then
         retI (found, add_action (what # (if truthy found then [] else [(''changed'', PBool True)])) m)
       else retI (found, m))"

text \<open>\<open>_get_image\<close>: the image asked for, the container's, and the one to compare with.\<close>

definition get_image :: "world \<Rightarrow> task \<Rightarrow> container \<Rightarrow> bool \<Rightarrow> manager \<Rightarrow> ((pyval \<times> pyval \<times> pyval) \<times> manager) io" where
  "get_image W t c needs_image m =
     (let given = flag t ''image''; get_theirs = needs_image \<or> \<not> given in
      bindI (if get_theirs then get_container_image W t c else retI PNone) (\<lambda>theirs.
        if \<not> given then retI ((PNone, theirs, theirs), m)
        else (let name = py_str (param t ''image'') in
          bindI (if is_image_name_id name then
              bindI (find_image_by_id W (PStr name) True) (\<lambda>img.
                if img = PNone then fail_client (''Cannot find image with ID '' @ name) else retI (img, m))
            else bindI (image_by_name W t name) (\<lambda>found. pull_if_needed W t name found m)) (\<lambda>(img, m').
          if param t ''image_comparison'' = PStr ''current-image'' then
            bindI (if get_theirs then retI theirs else get_container_image W t c) (\<lambda>cur. retI ((img, cur, cur), m'))
          else retI ((img, theirs, img), m')))))"

definition image_is_different :: "pyval \<Rightarrow> container \<Rightarrow> manager \<Rightarrow> (bool \<times> manager) res" where
  "image_is_different img c m =
     (if truthy img then
        bindR (py_get img ''Id'' PNone) (\<lambda>i.
          Inr (if truthy i \<and> truthy (co_image c) \<and> \<not> py_eq i (co_image c)
            then (True, track ''image'' i (co_image c) m) else (False, m)))
      else Inr (False, m))"

section \<open>Differences\<close>

text \<open>What \<open>sorted\<close> makes of texts and of numbers; other values cannot be compared.\<close>

definition sorted_values :: "pyval list \<Rightarrow> pyval list res" where
  "sorted_values xs =
     (if length xs \<le> 1 then Inr xs
      else if list_all (\<lambda>v. case v of PStr _ \<Rightarrow> True | _ \<Rightarrow> False) xs then Inr (sort_key py_str xs)
      else if list_all (\<lambda>v. num_of v \<noteq> None) xs then Inr (sort_key (\<lambda>v. the (num_of v)) xs)
      else Inl TypeError)"

definition sorted_items :: "pyval \<Rightarrow> (string \<times> string) list res" where
  "sorted_items x = bindR (py_items x) (\<lambda>d. Inr (sort (map (\<lambda>(a, b). (a, py_str b)) d)))"

definition sort_by :: "(pyval \<Rightarrow> 'k :: linorder res) \<Rightarrow> pyval list \<Rightarrow> pyval list res" where
  "sort_by f xs = bindR (mapR f xs) (\<lambda>ks. Inr (map snd (sort_key fst (zip ks xs))))"

text \<open>Sets are sorted for the report.\<close>

definition for_report :: "opt \<Rightarrow> pyval \<Rightarrow> pyval res" where
  "for_report option v =
     (if v = PNone \<or> op_comparison_type option \<notin> {''set'', ''set(dict)''} then Inr v
      else bindR (py_iter v) (\<lambda>xs. bindR
        (if op_comparison_type option = ''set'' then sorted_values xs
         else if op_name option = ''expected_mounts'' then sort_by (\<lambda>x. bindR (py_getitem x ''target'') (\<lambda>g. Inr (py_str g))) xs
         else sort_by sorted_items xs) (\<lambda>ys. Inr (PList ys))))"

fun record_options :: "task \<Rightarrow> group \<Rightarrow> pyval \<Rightarrow> dict \<Rightarrow> dict \<Rightarrow> pyval \<Rightarrow> opt list \<Rightarrow> tracker \<Rightarrow> tracker io" where
  "record_options t g img container_values expected_values host_info [] d = retI d"
| "record_options t g img container_values expected_values host_info (option # rest) d =
     (if has_key expected_values (op_name option) then
        let p = dget expected_values (op_name option); c = dget container_values (op_name option) in
        bindI (liftI (comparison_of t (op_name option))) (\<lambda>mode.
        bindI (liftI (en_compare_value g option mode p c)) (\<lambda>match.
          if match then record_options t g img container_values expected_values host_info rest d
          else bindI (en_ignore_mismatching_result g (option\<lparr>op_comparison := mode\<rparr>) img c p host_info) (\<lambda>ignore.
            if ignore then record_options t g img container_values expected_values host_info rest d
            else bindI (liftI (for_report option p)) (\<lambda>p'. bindI (liftI (for_report option c)) (\<lambda>c'.
              record_options t g img container_values expected_values host_info rest (tracker_add (op_name option) p' c' d))))))
      else record_options t g img container_values expected_values host_info rest d)"

text \<open>\<open>_record_differences\<close>.\<close>

definition record_differences :: "task \<Rightarrow> group \<Rightarrow> dict \<Rightarrow> container \<Rightarrow> pyval \<Rightarrow> pyval \<Rightarrow> pyval \<Rightarrow> tracker \<Rightarrow> tracker io" where
  "record_differences t g values c container_image img host_info d =
     bindI (en_get_value g (co_raw c) container_image host_info) (\<lambda>container_values.
     bindI (en_get_expected_values g img values host_info) (\<lambda>expected_values.
       record_options t g img container_values expected_values host_info (gr_options g) d))"

fun record_groups :: "(group \<Rightarrow> bool) \<Rightarrow> task \<Rightarrow> container \<Rightarrow> pyval \<Rightarrow> pyval \<Rightarrow> pyval \<Rightarrow> collected \<Rightarrow> tracker \<Rightarrow> tracker \<Rightarrow> (tracker \<times> tracker) io" where
  "record_groups which t c container_image img host_info [] d u = retI (d, u)"
| "record_groups which t c container_image img host_info ((g, values) # rest) d u =
     (if which g then bindI (record_differences t g values c container_image img host_info u) (\<lambda>u'.
        record_groups which t c container_image img host_info rest d u')
      else bindI (record_differences t g values c container_image img host_info d) (\<lambda>d'.
        record_groups which t c container_image img host_info rest d' u))"

text \<open>What can be updated counts only along with other differences.\<close>

definition has_different_configuration :: "task \<Rightarrow> collected \<Rightarrow> container \<Rightarrow> pyval \<Rightarrow> pyval \<Rightarrow> pyval \<Rightarrow> (bool \<times> tracker) io" where
  "has_different_configuration t parameters c container_image img host_info =
     bindI (record_groups en_can_update_value t c container_image img host_info parameters [] []) (\<lambda>(d, u).
       retI (if tracker_empty d then (False, d) else (True, tracker_merge u d)))"

definition has_different_resource_limits :: "task \<Rightarrow> collected \<Rightarrow> container \<Rightarrow> pyval \<Rightarrow> pyval \<Rightarrow> pyval \<Rightarrow> (bool \<times> tracker) io" where
  "has_different_resource_limits t parameters c container_image img host_info =
     bindI (record_groups en_can_update_value t c container_image img host_info
        (filter (\<lambda>(g, values). en_can_update_value g) parameters) [] []) (\<lambda>(d, u). retI (\<not> tracker_empty u, u))"

definition compose_update_parameters :: "collected \<Rightarrow> dict res" where
  "compose_update_parameters parameters =
     foldR (\<lambda>acc (g, values). if en_can_update_value g then en_update_value g acc values else Inr acc) [] parameters"

definition update_limits :: "world \<Rightarrow> task \<Rightarrow> collected \<Rightarrow> container \<Rightarrow> pyval \<Rightarrow> pyval \<Rightarrow> pyval \<Rightarrow> manager \<Rightarrow> (container \<times> manager) io" where
  "update_limits W t parameters c container_image img host_info m =
     bindI (has_different_resource_limits t parameters c container_image img host_info) (\<lambda>(differ, d).
       let m1 = (if differ then m\<lparr>mg_tracker := tracker_merge d (mg_tracker m)\<rparr> else m) in
       if differ \<and> \<not> tk_check_mode t then
         bindI (liftI (compose_update_parameters parameters)) (\<lambda>ps.
         bindI (container_update W t (co_id c) ps m1) (\<lambda>(c1, m2).
         bindI (get_cont W (co_id c)) (\<lambda>c'. retI (c', m2))))
       else retI (c, m1))"

section \<open>Networks\<close>

record netdiff =
  nd_parameter :: dict
  nd_container :: "dict option"

definition differs_in :: "dict \<Rightarrow> string \<Rightarrow> dict \<Rightarrow> string \<Rightarrow> bool" where
  "differs_in network key info field = (truthy (dget network key) \<and> \<not> py_eq (dget network key) (dget info field))"

definition link_text :: "pyval \<Rightarrow> pyval res" where
  "link_text v = bindR (link_pair v) (\<lambda>(a, b). Inr (PStr (a @ '':'' @ b)))"

definition misses_some :: "pyval \<Rightarrow> pyval \<Rightarrow> bool res" where
  "misses_some wanted there = bindR (compare_generic wanted there ''allow_more_present'' ''set'') (\<lambda>eq. Inr (\<not> eq))"

definition network_differs :: "dict \<Rightarrow> dict \<Rightarrow> dict \<Rightarrow> bool res" where
  "network_differs network info ipam =
     bindR (if truthy (dget network ''aliases'') then misses_some (dget network ''aliases'') (dget info ''Aliases'') else Inr False) (\<lambda>aliases.
     bindR (if truthy (dget network ''links'') then
         bindR (py_iter (dget network ''links'')) (\<lambda>ls. bindR (mapR link_text ls) (\<lambda>ts. misses_some (PList ts) (dget info ''Links'')))
       else Inr False) (\<lambda>links.
       Inr (differs_in network ''ipv4_address'' ipam ''IPv4Address'' \<or> differs_in network ''ipv6_address'' ipam ''IPv6Address''
         \<or> aliases \<or> links \<or> differs_in network ''mac_address'' info ''MacAddress'')))"

definition as_dict' :: "pyval \<Rightarrow> dict res" where
  "as_dict' v = (case v of PDict d \<Rightarrow> Inr d | _ \<Rightarrow> Inl AttributeError)"

definition network_difference :: "dict \<Rightarrow> pyval \<Rightarrow> netdiff option res" where
  "network_difference joined n =
     bindR (as_dict' n) (\<lambda>network. bindR (py_getitem n ''name'') (\<lambda>name.
       case dget joined (py_str name) of
         PNone \<Rightarrow> Inr (Some \<lparr>nd_parameter = network, nd_container = None\<rparr>)
       | v \<Rightarrow> bindR (as_dict' v) (\<lambda>info.
           bindR (if truthy (dget info ''IPAMConfig'') then as_dict' (dget info ''IPAMConfig'') else Inr []) (\<lambda>ipam.
           bindR (network_differs network info ipam) (\<lambda>differs. Inr (if differs then
             Some \<lparr>nd_parameter = network, nd_container = Some [(''name'', name), (''ipv4_address'', dget ipam ''IPv4Address''),
               (''ipv6_address'', dget ipam ''IPv6Address''), (''aliases'', dget info ''Aliases''), (''links'', dget info ''Links''),
               (''mac_address'', dget info ''MacAddress'')]\<rparr> else None))))))"

definition network_settings :: "string \<Rightarrow> container \<Rightarrow> dict res" where
  "network_settings caller c = bindR (py_get (co_container c) ''NetworkSettings'' PNone) (\<lambda>ns.
     if truthy ns then as_dict' ns
     else Inl (fail_msg (caller @ '': Error parsing container properties. NetworkSettings missing.'')))"

definition has_network_differences :: "task \<Rightarrow> container \<Rightarrow> netdiff list res" where
  "has_network_differences t c =
     (if \<not> flag t ''networks'' then Inr []
      else bindR (network_settings ''has_missing_networks'' c) (\<lambda>ns.
        bindR (bindR (py_getitem (PDict ns) ''Networks'') as_dict') (\<lambda>joined.
        bindR (py_iter (param t ''networks'')) (\<lambda>wanted.
        bindR (mapR (network_difference joined) wanted) (\<lambda>ds. Inr (List.map_filter id ds))))))"

definition has_extra_networks :: "task \<Rightarrow> container \<Rightarrow> (string \<times> pyval) list res" where
  "has_extra_networks t c =
     bindR (network_settings ''has_extra_networks'' c) (\<lambda>ns.
       if \<not> truthy (dget ns ''Networks'') then Inr []
       else bindR (as_dict' (dget ns ''Networks'')) (\<lambda>joined.
         bindR (if flag t ''networks'' then bindR (py_iter (param t ''networks'')) (mapR (\<lambda>n. py_getitem n ''name'')) else Inr []) (\<lambda>names.
         bindR (filterR (\<lambda>(network, config). Inr (\<not> py_mem (PStr network) names)) joined) (\<lambda>extra.
           mapR (\<lambda>(network, config). bindR (py_getitem config ''NetworkID'') (\<lambda>i. Inr (network, i))) extra))))"

fun add_networks :: "world \<Rightarrow> task \<Rightarrow> container \<Rightarrow> netdiff list \<Rightarrow> manager \<Rightarrow> manager io" where
  "add_networks W t c [] m = retI m"
| "add_networks W t c (diff # rest) m =
     (let d = nd_parameter diff; name = dget d ''name'' in
      bindI (if nd_container diff \<noteq> None then
          bindI (change W t (''Error disconnecting container from network '' @ py_str name @ '' - '')
            (bindI (liftI (py_getitem (PDict d) ''id'')) (disconnect_container_from_network W (co_id c)))) (\<lambda>_.
            retI (note_action [(''removed_from_network'', name)] m))
        else retI m) (\<lambda>m1.
      bindI (change W t (''Error connecting container to network '' @ py_str name @ '' - '')
          (bindI (liftI (py_getitem (PDict d) ''id'')) (\<lambda>i.
             connect_container_to_network W (co_id c) i (filter (\<lambda>(k, v). k \<noteq> ''id'' \<and> k \<noteq> ''name'') d)))) (\<lambda>_.
        add_networks W t c rest (note_action [(''added_to_network'', name), (''network_parameters'', PDict d)] m1))))"

fun purge_networks :: "world \<Rightarrow> task \<Rightarrow> container \<Rightarrow> (string \<times> pyval) list \<Rightarrow> manager \<Rightarrow> manager io" where
  "purge_networks W t c [] m = retI m"
| "purge_networks W t c ((name, i) # rest) m =
     bindI (change W t (''Error disconnecting container from network '' @ name @ '' - '')
        (disconnect_container_from_network W (co_id c) (PStr name))) (\<lambda>_.
       purge_networks W t c rest (note_action [(''removed_from_network'', PStr name)] m))"

definition note_difference :: "pyval \<Rightarrow> manager \<Rightarrow> manager" where
  "note_difference d m = m\<lparr>mg_differences := Some ((case mg_differences m of None \<Rightarrow> [] | Some ds \<Rightarrow> ds) @ [d])\<rparr>"

definition netdiff_py :: "netdiff \<Rightarrow> pyval" where
  "netdiff_py d = PDict [(''parameter'', PDict (nd_parameter d)),
     (''container'', case nd_container d of None \<Rightarrow> PNone | Some c \<Rightarrow> PDict c)]"

definition track_networks :: "netdiff list \<Rightarrow> manager \<Rightarrow> manager" where
  "track_networks ds m = fold (\<lambda>d. track (''network.'' @ py_str (dget (nd_parameter d) ''name'')) (PDict (nd_parameter d))
     (case nd_container d of None \<Rightarrow> PNone | Some c \<Rightarrow> PDict c)) ds m"

definition extra_py :: "string \<times> pyval \<Rightarrow> pyval" where
  "extra_py = (\<lambda>(name, i). PDict [(''name'', PStr name), (''id'', i)])"

definition missing_networks :: "world \<Rightarrow> task \<Rightarrow> container \<Rightarrow> manager \<Rightarrow> (container \<times> manager) io" where
  "missing_networks W t c m =
     bindI (liftI (has_network_differences t c)) (\<lambda>ds.
       if ds = [] then retI (c, m)
       else bindI (add_networks W t c ds
            ((track_networks ds (note_difference (PDict [(''network_differences'', PList (map netdiff_py ds))]) m))\<lparr>mg_changed := True\<rparr>)) (\<lambda>m1.
          bindI (get_cont W (co_id c)) (\<lambda>c'. retI (c', m1))))"

definition surplus_networks :: "world \<Rightarrow> task \<Rightarrow> container \<Rightarrow> container \<times> manager \<Rightarrow> (container \<times> manager) io" where
  "surplus_networks W t c = (\<lambda>(updated, m).
     bindI (liftI (has_extra_networks t c)) (\<lambda>extra.
       if extra = [] then retI (updated, m)
       else bindI (purge_networks W t c extra
            ((fold (\<lambda>e. track (''network.'' @ fst e) PNone (extra_py e)) extra
               (note_difference (PDict [(''purge_networks'', PList (map extra_py extra))]) m))\<lparr>mg_changed := True\<rparr>)) (\<lambda>m1.
          bindI (get_cont W (co_id c)) (\<lambda>c'. retI (c', m1)))))"

definition update_networks :: "world \<Rightarrow> task \<Rightarrow> container \<Rightarrow> bool \<Rightarrow> manager \<Rightarrow> (container \<times> manager) io" where
  "update_networks W t c container_created m =
     bindI (liftI (comparison_of t ''networks'')) (\<lambda>mode.
     bindI (if mode \<noteq> ''ignore'' \<or> container_created then missing_networks W t c m else retI (c, m)) (\<lambda>s.
       if mode = ''strict'' \<and> param t ''networks'' \<noteq> PNone then surplus_networks W t c s
       else if flag t ''purge_networks'' then
         bindI (emit (Deprecate ''purge_networks is used while networks is not specified'')) (\<lambda>_. surplus_networks W t c s)
       else retI s))"

section \<open>Bringing the container to its state\<close>

text \<open>\<open>container_create\<close> in the place of the container, if it gives one.\<close>

definition create_in_place :: "world \<Rightarrow> task \<Rightarrow> collected \<Rightarrow> pyval \<Rightarrow> container \<Rightarrow> manager \<Rightarrow> (container \<times> manager) io" where
  "create_in_place W t parameters img c m =
     bindI (container_create W t parameters img m) (\<lambda>(new, m1). retI (case new of None \<Rightarrow> c | Some c' \<Rightarrow> c', m1))"

definition await_removal :: "world \<Rightarrow> task \<Rightarrow> container \<Rightarrow> unit io" where
  "await_removal W t c = bindI (wait_for_state W (wait_removed t) (co_id c)) (\<lambda>_. retI ())"

definition create_new :: "world \<Rightarrow> task \<Rightarrow> collected \<Rightarrow> container \<Rightarrow> bool \<Rightarrow> manager \<Rightarrow> (container \<times> manager) io" where
  "create_new W t parameters c removing m =
     (if \<not> flag t ''image'' then fail_client ''Cannot create container when image is not specified!''
      else bindI (if removing \<and> \<not> tk_check_mode t then await_removal W t c else retI ()) (\<lambda>_.
        create_in_place W t parameters (param t ''image'') c (track ''exists'' (PBool True) (PBool False) m)))"

text \<open>Whether the existing container must go: its configuration, its image, or the image's name.\<close>

definition name_mismatch :: "task \<Rightarrow> container \<Rightarrow> bool" where
  "name_mismatch t c \<longleftrightarrow> param t ''image_name_mismatch'' \<noteq> PStr ''ignore'' \<and> param t ''image'' \<noteq> PNone
     \<and> \<not> py_eq (param t ''image'') (co_image_name c)"

definition must_recreate :: "task \<Rightarrow> pyval \<Rightarrow> container \<Rightarrow> bool \<Rightarrow> manager \<Rightarrow> ((bool \<times> bool) \<times> manager) io" where
  "must_recreate t img c different m =
     bindI (liftI (comparison_of t ''image'')) (\<lambda>mode.
       if mode \<noteq> ''strict'' then retI ((False, different), m)
       else bindI (liftI (image_is_different img c m)) (\<lambda>(image_different, m1).
         if \<not> name_mismatch t c then retI ((image_different, different), m1)
         else if param t ''image_name_mismatch'' = PStr ''recreate'' then
           retI ((image_different, True), track ''image_name'' (param t ''image'') (co_image_name c) m1)
         else bindI (emit (Deprecate ''The default value ignore for image_name_mismatch has been deprecated'')) (\<lambda>_.
           retI ((image_different, different), m1))))"

definition recreate :: "world \<Rightarrow> task \<Rightarrow> collected \<Rightarrow> container \<Rightarrow> manager \<Rightarrow> (container \<times> manager) io" where
  "recreate W t parameters c m =
     (let image_to_use = (if flag t ''image'' then param t ''image'' else co_image c) in
      if \<not> truthy image_to_use then
        fail_client ''Cannot recreate container when image is not specified or cannot be extracted from current container!''
      else bindI (liftI (co_running c)) (\<lambda>running.
        bindI (if running then container_stop W t (co_id c) m else retI m) (\<lambda>m1.
        bindI (container_remove W t (co_id c) False False m1) (\<lambda>m2.
        bindI (if tk_check_mode t then retI () else await_removal W t c) (\<lambda>_.
          create_in_place W t parameters image_to_use c m2)))))"

text \<open>The container to go on with, whether it was created, and the image to compare with.\<close>

definition provide :: "world \<Rightarrow> task \<Rightarrow> collected \<Rightarrow> container \<Rightarrow> pyval \<times> pyval \<times> pyval \<Rightarrow> pyval \<Rightarrow> manager
    \<Rightarrow> ((container \<times> bool \<times> pyval) \<times> manager) io" where
  "provide W t parameters c imgs host_info m =
     (case imgs of (img, container_image, comparison_image) \<Rightarrow>
      bindI (liftI (co_removing c)) (\<lambda>removing.
        if \<not> co_exists c \<or> removing then
          bindI (create_new W t parameters c removing m) (\<lambda>(c', m1). retI ((c', True, comparison_image), m1))
        else
          bindI (has_different_configuration t parameters c container_image comparison_image host_info) (\<lambda>(different, d).
          bindI (must_recreate t img c different m) (\<lambda>((image_different, different'), m1).
            if image_different \<or> different' \<or> flag t ''recreate'' then
              let m2 = m1\<lparr>mg_tracker := tracker_merge d (mg_tracker m1), mg_differences := Some (get_legacy_docker_container_diffs d),
                    mg_image_different := image_different\<rparr> in
              bindI (recreate W t parameters c m2) (\<lambda>(c', m3). retI ((c', True, img), m3))
            else retI ((c, False, comparison_image), m1)))))"

definition wants_running :: "string \<Rightarrow> bool" where
  "wants_running state \<longleftrightarrow> state = ''started'' \<or> state = ''healthy''"

text \<open>Starting, restarting and stopping.\<close>

definition set_running :: "world \<Rightarrow> task \<Rightarrow> string \<Rightarrow> bool \<Rightarrow> container \<Rightarrow> manager \<Rightarrow> (container \<times> manager) io" where
  "set_running W t state was_running c m =
     bindI (liftI (co_running c)) (\<lambda>running.
       if wants_running state \<and> \<not> running then
         container_start W t (co_id c) (track ''running'' (PBool True) (PBool was_running) m)
       else if wants_running state \<and> flag t ''restart'' then
         container_restart W t (co_id c)
           (track ''restarted'' (PBool True) (PBool False) (track ''running'' (PBool True) (PBool was_running) m))
       else if state = ''stopped'' \<and> running then
         bindI (container_stop W t (co_id c) (track ''running'' (PBool False) (PBool was_running) m)) (\<lambda>m1.
         bindI (get_cont W (co_id c)) (\<lambda>c'. retI (c', m1)))
       else retI (c, m))"

definition set_paused :: "world \<Rightarrow> task \<Rightarrow> string \<Rightarrow> pyval \<Rightarrow> container \<Rightarrow> manager \<Rightarrow> (container \<times> manager) io" where
  "set_paused W t state was_paused c m =
     bindI (liftI (co_paused c)) (\<lambda>paused.
       let wanted = param t ''paused'' in
       if wants_running state \<and> wanted \<noteq> PNone \<and> \<not> py_eq paused wanted then
         let m1 = add_action [(''set_paused'', wanted)] (track ''paused'' wanted was_paused m) in
         if tk_check_mode t then retI (c, m1)
         else bindI (or_fail W (\<lambda>e. ''Error '' @ (if truthy wanted then ''pausing'' else ''unpausing'') @ '' container ''
                @ py_str (co_id c) @ '': '' @ e)
              (if truthy wanted then pause_container W (co_id c) else unpause_container W (co_id c))) (\<lambda>_.
            bindI (get_cont W (co_id c)) (\<lambda>c'. retI (c', m1)))
       else retI (c, m))"

text \<open>\<open>present\<close>, once the images are known, and after its parameters have been collected.\<close>

definition after_image :: "world \<Rightarrow> task \<Rightarrow> string \<Rightarrow> collected \<Rightarrow> container \<Rightarrow> bool \<Rightarrow> pyval \<Rightarrow> (pyval \<times> pyval \<times> pyval) \<times> manager
    \<Rightarrow> (pyval \<times> manager) io" where
  "after_image W t state parameters c was_running was_paused = (\<lambda>(imgs, m1).
     bindI (if needs_host_info parameters then GET W ''/info'' PNone [] else retI PNone) (\<lambda>host_info.
     bindI (provide W t parameters c imgs host_info m1) (\<lambda>((c1, created, comparison_image), m2).
     bindI (if \<not> co_exists c1 then retI (c1, m2)
       else bindI (update_limits W t parameters c1 (fst (snd imgs)) comparison_image host_info m2) (\<lambda>(c2, m3).
         bindI (update_networks W t c2 created m3) (\<lambda>(c3, m4).
         bindI (set_running W t state was_running c3 m4) (\<lambda>(c4, m5).
           set_paused W t state was_paused c4 m5)))) (\<lambda>(c5, m6).
     if state = ''healthy'' \<and> \<not> tk_check_mode t then
       bindI (wait_for_state W (wait_healthy t) (co_id c5)) (\<lambda>inspected.
         retI (if truthy inspected then inspected else co_raw c5, m6))
     else retI (co_raw c5, m6)))))"

definition bring_about :: "world \<Rightarrow> task \<Rightarrow> string \<Rightarrow> manager \<Rightarrow> collected \<Rightarrow> (pyval \<times> manager) io" where
  "bring_about W t state m0 parameters =
     bindI (get_cont W (param t ''name'')) (\<lambda>c.
     bindI (liftI (co_running c)) (\<lambda>was_running.
     bindI (liftI (co_paused c)) (\<lambda>was_paused.
     bindI (get_image W t c (needs_container_image parameters) m0)
       (after_image W t state parameters c was_running was_paused))))"

definition present :: "world \<Rightarrow> task \<Rightarrow> string \<Rightarrow> manager \<Rightarrow> (pyval \<times> manager) io" where
  "present W t state m0 = bindI (collect_params t (tk_groups t)) (bring_about W t state m0)"

definition absent :: "world \<Rightarrow> task \<Rightarrow> manager \<Rightarrow> manager io" where
  "absent W t m =
     bindI (get_cont W (param t ''name'')) (\<lambda>c.
       if co_exists c then
         bindI (liftI (co_running c)) (\<lambda>running.
         bindI (if running then container_stop W t (co_id c) (track ''running'' (PBool False) (PBool True) m) else retI m) (\<lambda>m1.
           container_remove W t (co_id c) False False (track ''exists'' (PBool False) (PBool True) m1)))
       else retI m)"

definition results_of :: "task \<Rightarrow> pyval \<Rightarrow> manager \<Rightarrow> dict" where
  "results_of t facts m =
     [(''changed'', PBool (mg_changed m))] @
     (if tk_check_mode t \<or> flag t ''debug'' then [(''actions'', PList (mg_actions m))] else []) @ mg_results m @
     (if tk_diff t \<or> flag t ''debug'' then
        [(''diff'', PDict ((case mg_differences m of None \<Rightarrow> [] | Some ds \<Rightarrow> [(''differences'', PList ds)]) @
           (if mg_image_different m then [(''image_different'', PBool True)] else []) @
           (case get_before_after (mg_tracker m) of (before, after) \<Rightarrow> [(''before'', PDict before), (''after'', PDict after)])))]
      else []) @
     (if truthy facts then [(''container'', facts)] else [])"

definition run_state :: "world \<Rightarrow> task \<Rightarrow> manager \<Rightarrow> (pyval \<times> manager) io" where
  "run_state W t m = (case param t ''state'' of
     PStr state \<Rightarrow>
       if state \<in> {''stopped'', ''started'', ''present'', ''healthy''} then present W t state m
       else if state = ''absent'' then bindI (absent W t m) (\<lambda>m1. retI (PNone, m1))
       else retI (PNone, m)
   | _ \<Rightarrow> retI (PNone, m))"

text \<open>\<open>DockerAPIEngineDriver.run\<close> around \<open>execute\<close>: the module ends by one of its two exits.\<close>

definition driver_run :: "world \<Rightarrow> 'a io \<Rightarrow> 'a io" where
  "driver_run W m = tryI m (\<lambda>e.
     if (case e of DockerException _ \<Rightarrow> True | APIError _ \<Rightarrow> True | NotFoundError \<Rightarrow> True | _ \<Rightarrow> False) then
       fail_client (''An unexpected Docker error occurred: '' @ exn_text W e)
     else if (case e of RequestException _ \<Rightarrow> True | _ \<Rightarrow> False) then
       fail_client (''An unexpected requests error occurred when trying to talk to the Docker daemon: '' @ exn_text W e)
     else raiseI e)"

definition execute_module :: "world \<Rightarrow> task \<Rightarrow> unit io" where
  "execute_module W t = driver_run W (bindI (run_state W t new_manager) (\<lambda>(facts, m).
     raiseI (ExitJson (map (\<lambda>(k, v). (k, sanitize_result v)) (results_of t facts m)))))"

end
