(* ===== verification/DockerEngines.thy ===== *)
theory DockerEngines
  imports DockerPublish DockerManager
begin

text \<open>
  The engines that translate the options of \<open>docker_container\<close> to and from the API
  (\<open>module_container/docker_api.py\<close>). A group of options without an engine, as \<open>base.py\<close>
  makes it, gets its engine by functions from groups to groups: \<open>config_value\<close> and
  \<open>host_config_value\<close> for an option that is one field of the container's configuration, and
  record updates for the others. The sentinel for a value that is missing is \<open>None\<close>.
\<close>

section \<open>Options and groups\<close>

text \<open>The parameters of the module and what is taken from Ansible, the file system and the
  floating-point unit.\<close>

record surroundings =
  su_params :: dict
  su_human_to_bytes :: "pyval \<Rightarrow> int res"
  su_absolute :: "string \<Rightarrow> string"
  su_read_lines :: "string \<Rightarrow> string list"
  su_nano_cpus :: "pyval \<Rightarrow> int"

definition add_option :: "string \<Rightarrow> string \<Rightarrow> string option \<Rightarrow> opt" where
  "add_option name ty elements = \<lparr>op_name = name,
     op_comparison = default_comparison_of None (comparison_type_of ty elements),
     op_comparison_type = comparison_type_of ty elements, op_not_an_ansible_option = False, op_aliases = [],
     op_copy_comparison_from = None\<rparr>"

text \<open>The defaults of \<open>DockerAPIEngine\<close>; a group whose engine has no \<open>get_value\<close> is not complete.\<close>

definition option_group :: "(dict \<Rightarrow> dict io) \<Rightarrow> opt list \<Rightarrow> group" where
  "option_group preprocess options = \<lparr>gr_options = options, gr_all_options = options, gr_preprocess = preprocess,
     en_preprocess_value = retI, en_get_value = (\<lambda>container img host_info. raiseI NotImplementedError),
     en_get_expected_values = (\<lambda>img values host_info. retI values), en_compare_value = option_compare,
     en_ignore_mismatching_result = (\<lambda>option img c p host_info. retI False), en_can_set_value = False,
     en_can_update_value = False, en_set_value = (\<lambda>data values. Inr data), en_update_value = (\<lambda>data values. Inr data),
     en_needs_container_image = (\<lambda>values. False), en_needs_host_info = (\<lambda>values. False)\<rparr>"

section \<open>Engines for one field\<close>

definition single :: "opt list \<Rightarrow> string res" where
  "single options = (case options of [option] \<Rightarrow> Inr (op_name option) | _ \<Rightarrow> Inl AssertionError)"

definition preprocess_single :: "(pyval \<Rightarrow> pyval io) option \<Rightarrow> opt list \<Rightarrow> dict \<Rightarrow> dict io" where
  "preprocess_single preprocess options values =
     bindI (liftI (single options)) (\<lambda>name. case preprocess of
       None \<Rightarrow> retI values
     | Some f \<Rightarrow>
         if has_key values name then
           bindI (f (dget values name)) (\<lambda>v. retI (if v = PNone then AList.delete name values else AList.update name v values))
         else retI values)"

definition get_single :: "string \<Rightarrow> string \<Rightarrow> (pyval option \<Rightarrow> pyval option) \<Rightarrow> opt list \<Rightarrow> pyval \<Rightarrow> dict res" where
  "get_single section config_name postprocess options container =
     bindR (single options) (\<lambda>name.
     bindR (bindR (py_getitem container section) py_items) (\<lambda>config.
       Inr (case postprocess (map_of config config_name) of None \<Rightarrow> [] | Some v \<Rightarrow> [(name, v)])))"

definition expected_single :: "(pyval \<Rightarrow> pyval option \<Rightarrow> pyval option res) \<Rightarrow> opt list \<Rightarrow> pyval \<Rightarrow> dict \<Rightarrow> dict res" where
  "expected_single expected options img values =
     bindR (single options) (\<lambda>name. bindR (expected img (map_of values name)) (\<lambda>v.
       Inr (case v of None \<Rightarrow> values | Some x \<Rightarrow> [(name, x)])))"

definition set_single :: "(pyval \<Rightarrow> dict \<Rightarrow> dict res) \<Rightarrow> opt list \<Rightarrow> dict \<Rightarrow> dict \<Rightarrow> dict res" where
  "set_single put options data values =
     bindR (single options) (\<lambda>name. if has_key values name then put (dget values name) data else Inr data)"

definition put_config :: "string \<Rightarrow> pyval \<Rightarrow> dict \<Rightarrow> dict res" where
  "put_config config_name v data = Inr (AList.update config_name v data)"

definition put_host_config :: "string \<Rightarrow> pyval \<Rightarrow> dict \<Rightarrow> dict res" where
  "put_host_config config_name v data =
     bindR (if has_key data ''HostConfig'' then py_items (dget data ''HostConfig'') else Inr []) (\<lambda>h.
       Inr (AList.update ''HostConfig'' (PDict (AList.update config_name v h)) data))"

definition value_engine :: "string \<Rightarrow> (string \<Rightarrow> pyval \<Rightarrow> dict \<Rightarrow> dict res) \<Rightarrow> string \<Rightarrow> group \<Rightarrow> group" where
  "value_engine section put config_name g = g\<lparr>en_preprocess_value := preprocess_single None (gr_options g),
     en_get_value := (\<lambda>container img host_info. liftI (get_single section config_name id (gr_options g) container)),
     en_can_set_value := True, en_set_value := set_single (put config_name) (gr_options g)\<rparr>"

definition config_value :: "string \<Rightarrow> group \<Rightarrow> group" where
  "config_value = value_engine ''Config'' put_config"

definition host_config_value :: "string \<Rightarrow> group \<Rightarrow> group" where
  "host_config_value = value_engine ''HostConfig'' put_host_config"

text \<open>The keyword arguments of \<open>config_value\<close> and \<open>host_config_value\<close>.\<close>

definition preprocess_value :: "(pyval \<Rightarrow> pyval io) \<Rightarrow> group \<Rightarrow> group" where
  "preprocess_value f g = g\<lparr>en_preprocess_value := preprocess_single (Some f) (gr_options g)\<rparr>"

definition postprocess_for_get :: "string \<Rightarrow> (pyval option \<Rightarrow> pyval option) \<Rightarrow> group \<Rightarrow> group" where
  "postprocess_for_get config_name f g =
     g\<lparr>en_get_value := (\<lambda>container img host_info. liftI (get_single ''Config'' config_name f (gr_options g) container))\<rparr>"

definition get_expected_value :: "(pyval \<Rightarrow> pyval option \<Rightarrow> pyval option res) \<Rightarrow> group \<Rightarrow> group" where
  "get_expected_value f g =
     g\<lparr>en_get_expected_values := (\<lambda>img values host_info. liftI (expected_single f (gr_options g) img values))\<rparr>"

definition update_parameter :: "string \<Rightarrow> group \<Rightarrow> group" where
  "update_parameter name g = g\<lparr>en_can_update_value := True, en_update_value := set_single (put_config name) (gr_options g)\<rparr>"

definition ignore_mismatching :: "(opt \<Rightarrow> pyval \<Rightarrow> pyval \<Rightarrow> pyval \<Rightarrow> pyval \<Rightarrow> bool io) \<Rightarrow> group \<Rightarrow> group" where
  "ignore_mismatching f g = g\<lparr>en_ignore_mismatching_result := f\<rparr>"

section \<open>Values of single options\<close>

text \<open>\<open>image['Config'].get(key)\<close>.\<close>

definition config_field :: "pyval \<Rightarrow> string \<Rightarrow> pyval res" where
  "config_field v key = bindR (py_getitem v ''Config'') (\<lambda>c. py_get c key PNone)"

definition host_config_field :: "pyval \<Rightarrow> string \<Rightarrow> pyval res" where
  "host_config_field v key = bindR (py_getitem v ''HostConfig'') (\<lambda>c. py_get c key PNone)"

definition get_value_detach_interactive :: "pyval \<Rightarrow> dict res" where
  "get_value_detach_interactive container =
     bindR (config_field container ''OpenStdin'') (\<lambda>stdin.
     bindR (config_field container ''AttachStderr'') (\<lambda>stderr.
     bindR (config_field container ''AttachStdout'') (\<lambda>stdout.
       Inr [(''interactive'', PBool (truthy stdin)), (''detach'', PBool (\<not> (truthy stderr \<and> truthy stdout)))])))"

definition set_value_detach_interactive :: "dict \<Rightarrow> dict \<Rightarrow> dict res" where
  "set_value_detach_interactive data values =
     (let interactive = dget values ''interactive''; attached = \<not> truthy (dget values ''detach'') in
      Inr (dict_update data [(''AttachStdout'', PBool attached), (''AttachStderr'', PBool attached),
        (''AttachStdin'', PBool (attached \<and> truthy interactive)), (''StdinOnce'', PBool (attached \<and> truthy interactive)),
        (''OpenStdin'', interactive)]))"

definition env_entry :: "pyval \<Rightarrow> (string \<times> pyval) res" where
  "env_entry v = bindR (text_of v) (\<lambda>s. case split_max 1 (CHR ''='') s of [k, x] \<Rightarrow> Inr (k, PStr x) | _ \<Rightarrow> Inl IndexError)"

definition env_entries :: "pyval \<Rightarrow> dict res" where
  "env_entries v = (if truthy v then bindR (py_iter v) (mapR env_entry) else Inr [])"

definition expected_env :: "pyval \<Rightarrow> pyval option \<Rightarrow> pyval option res" where
  "expected_env img value =
     bindR (if truthy img then bindR (config_field img ''Env'') env_entries else Inr []) (\<lambda>from_image.
     bindR (case value of None \<Rightarrow> Inr [] | Some v \<Rightarrow> env_entries v) (\<lambda>from_task.
       Inr (Some (PList (map (\<lambda>(k, v). PStr (k @ ''='' @ py_str v)) (dict_update [] (from_image @ from_task)))))))"

definition preprocess_cpus :: "surroundings \<Rightarrow> pyval \<Rightarrow> pyval io" where
  "preprocess_cpus S v = retI (if v = PNone then PNone else PInt (su_nano_cpus S v))"

text \<open>\<open>if not value: return value\<close>, and otherwise the elements one by one.\<close>

definition each_of :: "(pyval \<Rightarrow> pyval res) \<Rightarrow> pyval \<Rightarrow> pyval io" where
  "each_of f v = (if \<not> truthy v then retI v else liftI (bindR (bindR (py_iter v) (mapR f)) (\<lambda>xs. Inr (PList xs))))"

definition device :: "pyval \<Rightarrow> pyval res" where
  "device v = bindR (text_of v) (\<lambda>s.
     let made = (\<lambda>perms inside outside. Inr (PDict [(''CgroupPermissions'', PStr perms), (''PathInContainer'', PStr inside), (''PathOnHost'', PStr outside)])) in
     case split_on (CHR '':'') s of
       [p] \<Rightarrow> made ''rwm'' p p | [h, c] \<Rightarrow> made ''rwm'' c h | h # c # perms # _ \<Rightarrow> made perms c h | [] \<Rightarrow> Inl IndexError)"

definition rate_bps :: "surroundings \<Rightarrow> pyval \<Rightarrow> pyval res" where
  "rate_bps S d = bindR (py_getitem d ''path'') (\<lambda>p. bindR (bindR (py_getitem d ''rate'') (su_human_to_bytes S)) (\<lambda>n.
     Inr (PDict [(''Path'', p), (''Rate'', PInt n)])))"

definition rate_iops :: "pyval \<Rightarrow> pyval res" where
  "rate_iops d = bindR (py_getitem d ''path'') (\<lambda>p. bindR (py_getitem d ''rate'') (\<lambda>n. Inr (PDict [(''Path'', p), (''Rate'', n)])))"

definition device_request :: "pyval \<Rightarrow> pyval res" where
  "device_request dr = bindR (mapR (\<lambda>(field, key). bindR (py_getitem dr key) (\<lambda>v. Inr (field, v)))
     [(''Driver'', ''driver''), (''Count'', ''count''), (''DeviceIDs'', ''device_ids''), (''Capabilities'', ''capabilities''), (''Options'', ''options'')])
     (\<lambda>d. Inr (PDict d))"

definition preprocess_etc_hosts :: "pyval \<Rightarrow> pyval io" where
  "preprocess_etc_hosts v = (if v = PNone then retI PNone
     else liftI (bindR (py_items v) (\<lambda>d. Inr (PList (map (\<lambda>(key, value). PStr (key @ '':'' @ py_str value)) d)))))"

definition no_healthcheck :: pyval where
  "no_healthcheck = PDict [(''Test'', PList [PStr ''NONE''])]"

definition preprocess_healthcheck_value :: "pyval \<Rightarrow> pyval io" where
  "preprocess_healthcheck_value v = (if v = PNone then retI PNone
     else bindI (liftI (py_items v)) (\<lambda>d.
       let test = dget d ''test'';
           d' = (if d = [] \<or> \<not> (truthy test \<or> truthy (dget d ''test_cli_compatible'') \<and> test = PNone) then [(''test'', PList [PStr ''NONE''])]
             else if has_key d ''test'' then AList.update ''test'' (normalize_healthcheck_test test) d else d)
       in retI (PDict (omit_none_from_dict [(''Test'', dget d' ''test''), (''Interval'', dget d' ''interval''), (''Timeout'', dget d' ''timeout''),
            (''StartPeriod'', dget d' ''start_period''), (''StartInterval'', dget d' ''start_interval''), (''Retries'', dget d' ''retries'')]))))"

definition postprocess_healthcheck :: "pyval option \<Rightarrow> pyval option" where
  "postprocess_healthcheck value = (case value of
     Some (PDict d) \<Rightarrow> Some (if dget d ''Test'' = PList [PStr ''NONE''] then no_healthcheck else PDict d)
   | _ \<Rightarrow> Some no_healthcheck)"

definition image_labels :: "pyval \<Rightarrow> dict res" where
  "image_labels img = (if \<not> truthy img then Inr [] else bindR (config_field img ''Labels'') (\<lambda>l. if truthy l then py_items l else Inr []))"

definition expected_labels :: "dict \<Rightarrow> pyval \<Rightarrow> pyval option \<Rightarrow> pyval option res" where
  "expected_labels params img value = (case value of
     None \<Rightarrow> Inr None
   | Some v \<Rightarrow> bindR (if dget params ''image_label_mismatch'' = PStr ''ignore'' then image_labels img else Inr []) (\<lambda>base.
       bindR (py_items v) (\<lambda>d. Inr (Some (PDict (dict_update (dict_update [] base) d))))))"

definition ignore_mismatching_label :: "dict \<Rightarrow> opt \<Rightarrow> pyval \<Rightarrow> pyval \<Rightarrow> pyval \<Rightarrow> pyval \<Rightarrow> bool io" where
  "ignore_mismatching_label params option img c p host_info =
     (if op_comparison option = ''strict'' \<and> dget params ''image_label_mismatch'' = PStr ''fail'' then
        bindI (liftI (image_labels img)) (\<lambda>labels.
        bindI (liftI (if truthy (dget params ''labels'') then py_items (dget params ''labels'') else Inr [])) (\<lambda>wanted.
          let removed = filter (\<lambda>k. \<not> has_key wanted k) (map fst labels) in
          if removed \<noteq> [] then
            fail_client (''Some labels should be removed but are present in the base image. You can set image_label_mismatch to ''
              @ [CHR 0x27] @ ''ignore'' @ [CHR 0x27] @ '' to ignore this error. Labels: ''
              @ py_join '', '' (map (\<lambda>k. CHR 0x22 # k @ [CHR 0x22]) removed))
          else retI False))
      else retI False)"

definition link :: "dict \<Rightarrow> pyval \<Rightarrow> pyval res" where
  "link params v = bindR (text_of v) (\<lambda>s.
     let (target, alias) = (case split_max 1 (CHR '':'') s of [a, b] \<Rightarrow> (a, b) | parts \<Rightarrow> (hd parts, hd parts)) in
     Inr (PStr (''/'' @ target @ '':/'' @ py_str (dget params ''name'') @ ''/'' @ alias)))"

definition preprocess_links :: "dict \<Rightarrow> pyval \<Rightarrow> pyval io" where
  "preprocess_links params v = (if v = PNone then retI PNone
     else liftI (bindR (bindR (py_iter v) (mapR (link params))) (\<lambda>xs. Inr (PList xs))))"

definition preprocess_container_names :: "world \<Rightarrow> pyval \<Rightarrow> pyval io" where
  "preprocess_container_names W v = (if v = PNone then retI PNone
     else bindI (liftI (text_of v)) (\<lambda>s.
       if \<not> starts_with s ''container:'' then retI v
       else let container_name = drop (length ''container:'') s in
         bindI (get_container W (PStr container_name)) (\<lambda>container.
           if container = PNone then
             bindI (emit (Warn (''Cannot find a container with name or ID '' @ [CHR 0x22] @ container_name @ [CHR 0x22]))) (\<lambda>_. retI v)
           else bindI (liftI (py_getitem container ''Id'')) (\<lambda>i. retI (PStr (''container:'' @ py_str i))))))"

end
