(* ===== verification/DockerGroups.thy ===== *)
theory DockerGroups
  imports DockerEngines
begin

text \<open>
  The engines of \<open>docker_container\<close> for groups of several options, or for one that is not a
  plain field: networks, mounts and volumes, logging, platform, restart policy and ports. A
  published port is a dictionary entry whose key is the number of the port, or the number, a
  slash and the protocol; Python's integer \<open>80\<close> is the key \<open>80\<close> without a slash.
\<close>

section \<open>Networks\<close>

definition ignore_mismatching_network :: "opt \<Rightarrow> pyval \<Rightarrow> pyval \<Rightarrow> pyval \<Rightarrow> pyval \<Rightarrow> bool io" where
  "ignore_mismatching_network option img c p host_info =
     (if op_name option = ''networks'' then retI True
      else if op_name option = ''network_mode'' \<and> p = PStr ''default'' then
        liftI (bindR (if truthy host_info then py_get host_info ''OSType'' PNone else Inr PNone) (\<lambda>os_type.
          Inr ((c, os_type) \<in> {(PStr ''bridge'', PStr ''linux''), (PStr ''nat'', PStr ''windows'')})))
      else retI False)"

definition network_named :: "pyval \<Rightarrow> pyval \<Rightarrow> bool res" where
  "network_named name network = bindR (py_getitem network ''Name'') (\<lambda>n. Inr (py_eq n name))"

definition get_network_id :: "world \<Rightarrow> pyval \<Rightarrow> pyval io" where
  "get_network_id W name =
     or_fail W (\<lambda>t. ''Error getting network id for '' @ py_str name @ '' - '' @ t)
       (bindI (GET W ''/networks'' PNone [(''filters'', PStr (''{'' @ json_str ''name'' @ '': ['' @ dumps False name @ '']}''))]) (\<lambda>networks.
          liftI (bindR (bindR (py_iter networks) (findR (network_named name))) (\<lambda>found. case found of
            None \<Rightarrow> Inr PNone | Some n \<Rightarrow> py_getitem n ''Id''))))"

definition with_network_id :: "world \<Rightarrow> pyval \<Rightarrow> pyval io" where
  "with_network_id W network =
     bindI (liftI (py_items network)) (\<lambda>d.
     bindI (liftI (py_getitem network ''name'')) (\<lambda>name.
     bindI (get_network_id W name) (\<lambda>i.
       if \<not> truthy i then
         fail_client (''Parameter error: network named '' @ py_str name @ '' could not be found. Does it exist?'')
       else retI (PDict (AList.update ''id'' i d)))))"

definition preprocess_network_values :: "world \<Rightarrow> dict \<Rightarrow> dict io" where
  "preprocess_network_values W values =
     bindI (if has_key values ''networks'' then
         bindI (liftI (py_iter (dget values ''networks''))) (\<lambda>ns. bindI (mapI (with_network_id W) ns) (\<lambda>ns'.
           retI (AList.update ''networks'' (PList ns') values)))
       else retI values) (\<lambda>values'.
     if has_key values' ''network_mode'' then
       bindI (preprocess_container_names W (dget values' ''network_mode'')) (\<lambda>m. retI (AList.update ''network_mode'' m values'))
     else retI values')"

definition get_values_network :: "pyval \<Rightarrow> dict res" where
  "get_values_network container =
     bindR (bindR (py_getitem container ''HostConfig'') py_items) (\<lambda>h. Inr (case map_of h ''NetworkMode'' of
       None \<Rightarrow> [] | Some v \<Rightarrow> [(''network_mode'', v)]))"

definition set_values_network :: "dict \<Rightarrow> dict \<Rightarrow> dict res" where
  "set_values_network data values =
     (if has_key values ''network_mode'' then put_host_config ''NetworkMode'' (dget values ''network_mode'') data else Inr data)"

section \<open>Mounts and volumes\<close>

text \<open>\<open>mount.get(outer, {}).get(inner, missing)\<close>.\<close>

definition inner_field :: "pyval \<Rightarrow> string \<Rightarrow> string \<Rightarrow> pyval \<Rightarrow> pyval res" where
  "inner_field mount outer inner missing = bindR (py_get mount outer (PDict [])) (\<lambda>o'. py_get o' inner missing)"

definition driver_field :: "pyval \<Rightarrow> string \<Rightarrow> pyval \<Rightarrow> pyval res" where
  "driver_field mount key missing = bindR (inner_field mount ''VolumeOptions'' ''DriverConfig'' (PDict [])) (\<lambda>c. py_get c key missing)"

definition get_mount :: "pyval \<Rightarrow> pyval res" where
  "get_mount mount =
     bindR (mapR (\<lambda>(name, r). bindR r (\<lambda>v. Inr (name, v)))
       [(''type'', py_get mount ''Type'' PNone), (''source'', py_get mount ''Source'' PNone), (''target'', py_get mount ''Target'' PNone),
        (''read_only'', py_get mount ''ReadOnly'' (PBool False)), (''consistency'', py_get mount ''Consistency'' PNone),
        (''propagation'', inner_field mount ''BindOptions'' ''Propagation'' PNone),
        (''no_copy'', inner_field mount ''VolumeOptions'' ''NoCopy'' (PBool False)),
        (''labels'', inner_field mount ''VolumeOptions'' ''Labels'' (PDict [])),
        (''volume_driver'', driver_field mount ''Name'' PNone), (''volume_options'', driver_field mount ''Options'' (PDict [])),
        (''tmpfs_size'', inner_field mount ''TmpfsOptions'' ''SizeBytes'' PNone),
        (''tmpfs_mode'', inner_field mount ''TmpfsOptions'' ''Mode'' PNone)]) (\<lambda>d. Inr (PDict d))"

definition get_values_mounts :: "pyval \<Rightarrow> dict res" where
  "get_values_mounts container =
     bindR (config_field container ''Volumes'') (\<lambda>volumes.
     bindR (host_config_field container ''Binds'') (\<lambda>binds.
     bindR (host_config_field container ''Mounts'') (\<lambda>mounts.
     bindR (if mounts = PNone then Inr [] else bindR (bindR (py_iter mounts) (mapR get_mount)) (\<lambda>ms. Inr [(''mounts'', PList ms)])) (\<lambda>m.
       Inr ((if volumes \<noteq> PNone then [(''volumes'', volumes)] else []) @ (if binds \<noteq> PNone then [(''volume_binds'', binds)] else []) @ m)))))"

definition bind_from_entry :: "string \<times> pyval \<Rightarrow> string list" where
  "bind_from_entry = (\<lambda>(host_path, config). case config of
     PDict c \<Rightarrow> if truthy (dget c ''bind'') then
         [host_path @ '':'' @ py_str (dget c ''bind'') @ '':'' @ (if has_key c ''mode'' then py_str (dget c ''mode'') else ''rw'')] else []
   | _ \<Rightarrow> [])"

definition bind_from_dict :: "pyval \<Rightarrow> string list res" where
  "bind_from_dict v = (if \<not> truthy v then Inr [] else bindR (py_items v) (\<lambda>d. Inr (concat (map bind_from_entry d))))"

definition image_binds :: "pyval \<Rightarrow> string list res" where
  "image_binds volumes = (case volumes of
     PDict _ \<Rightarrow> bind_from_dict volumes
   | PList vs \<Rightarrow> bindR (mapR bind_from_dict vs) (\<lambda>bs. Inr (concat bs))
   | _ \<Rightarrow> Inr [])"

text \<open>Only anonymous volumes are volumes of the container; the others are binds.\<close>

definition is_anonymous :: "string \<Rightarrow> bool" where
  "is_anonymous vol \<longleftrightarrow> (case split_on (CHR '':'') vol of
     [a, b, c] \<Rightarrow> False | [a, b] \<Rightarrow> is_volume_permissions b | _ \<Rightarrow> True)"

definition anonymous_volumes :: "pyval \<Rightarrow> dict res" where
  "anonymous_volumes v = bindR (bindR (py_iter v) (mapR text_of)) (\<lambda>vs.
     Inr (map (\<lambda>vol. (vol, PDict [])) (filter is_anonymous vs)))"

text \<open>\<open>list(set(xs))\<close>: in which order does not matter, for the option is compared as a set.\<close>

definition list_of_set :: "string list \<Rightarrow> pyval" where
  "list_of_set xs = PList (map PStr (remdups xs))"

definition expected_values_mounts :: "pyval \<Rightarrow> dict \<Rightarrow> dict res" where
  "expected_values_mounts img values =
     bindR (if truthy img then config_field img ''Volumes'' else Inr PNone) (\<lambda>image_volumes.
     bindR (if truthy image_volumes then py_items image_volumes else Inr []) (\<lambda>from_image.
     bindR (if has_key values ''volumes'' then anonymous_volumes (dget values ''volumes'') else Inr []) (\<lambda>from_task.
     bindR (image_binds image_volumes) (\<lambda>image_vols.
     bindR (if has_key values ''volume_binds'' then bindR (py_iter (dget values ''volume_binds'')) (mapR text_of) else Inr []) (\<lambda>param_vols.
       let vols = dict_update (dict_update [] from_image) from_task in
       Inr ((if has_key values ''mounts'' then [(''mounts'', dget values ''mounts'')] else [])
         @ (if vols \<noteq> [] then [(''volumes'', PDict vols)] else [])
         @ [(''volume_binds'', list_of_set (image_vols @ param_vols))]))))))"

text \<open>One mount for the API: the fields that every mount has, and those of its type.\<close>

definition given_fields :: "(string \<times> pyval) list \<Rightarrow> dict" where
  "given_fields = filter (\<lambda>(k, v). truthy v)"

definition driver_config :: "dict \<Rightarrow> pyval" where
  "driver_config mount = (if truthy (dget mount ''volume_driver'') then
     PDict ((''Name'', dget mount ''volume_driver'') # given_fields [(''Options'', dget mount ''volume_options'')]) else PNone)"

definition volume_opts :: "dict \<Rightarrow> dict" where
  "volume_opts mount = (if truthy (dget mount ''no_copy'') then [(''NoCopy'', PBool True)] else [])
     @ given_fields [(''Labels'', dget mount ''labels''), (''DriverConfig'', driver_config mount)]"

definition tmpfs_opts :: "dict \<Rightarrow> dict" where
  "tmpfs_opts mount = given_fields [(''Mode'', dget mount ''tmpfs_mode''), (''SizeBytes'', dget mount ''tmpfs_size'')]"

definition set_mount :: "dict \<Rightarrow> dict" where
  "set_mount mount =
     (let ty = dget mount ''type'' in
      [(''Target'', dget mount ''target''), (''Source'', dget mount ''source''), (''Type'', ty), (''ReadOnly'', dget mount ''read_only'')]
      @ (if has_key mount ''consistency'' then [(''Consistency'', dget mount ''consistency'')] else [])
      @ (if ty = PStr ''bind'' \<and> has_key mount ''propagation'' then
           [(''BindOptions'', PDict [(''Propagation'', dget mount ''propagation'')])] else [])
      @ (if ty = PStr ''volume'' \<and> volume_opts mount \<noteq> [] then [(''VolumeOptions'', PDict (volume_opts mount))] else [])
      @ (if ty = PStr ''tmpfs'' \<and> tmpfs_opts mount \<noteq> [] then [(''TmpfsOptions'', PDict (tmpfs_opts mount))] else []))"

definition set_values_mounts :: "dict \<Rightarrow> dict \<Rightarrow> dict res" where
  "set_values_mounts data values =
     bindR (if has_key values ''mounts'' then
         bindR (bindR (py_iter (dget values ''mounts'')) (mapR py_items)) (\<lambda>ms.
           put_host_config ''Mounts'' (PList (map (PDict \<circ> set_mount) ms)) data)
       else Inr data) (\<lambda>d1.
     bindR (if has_key values ''volumes'' then
         bindR (anonymous_volumes (dget values ''volumes'')) (\<lambda>vs. put_config ''Volumes'' (PDict (dict_update [] vs)) d1)
       else Inr d1) (\<lambda>d2.
     if has_key values ''volume_binds'' then put_host_config ''Binds'' (dget values ''volume_binds'') d2 else Inr d2))"

section \<open>Logging, platform and restart policy\<close>

definition get_values_log :: "pyval \<Rightarrow> dict res" where
  "get_values_log container =
     bindR (host_config_field container ''LogConfig'') (\<lambda>c.
     bindR (if truthy c then py_items c else Inr []) (\<lambda>log_config.
       Inr [(''log_driver'', dget log_config ''Type''), (''log_options'', dget log_config ''Config'')]))"

definition set_values_log :: "dict \<Rightarrow> dict \<Rightarrow> dict res" where
  "set_values_log data values =
     (if has_key values ''log_driver'' then
        put_host_config ''LogConfig'' (PDict [(''Type'', dget values ''log_driver''),
          (''Config'', if truthy (dget values ''log_options'') then dget values ''log_options'' else PDict [])]) data
      else Inr data)"

definition text_option :: "pyval \<Rightarrow> string option res" where
  "text_option v = (case v of PNone \<Rightarrow> Inr None | PStr s \<Rightarrow> Inr (Some s) | _ \<Rightarrow> Inl AttributeError)"

definition host_text :: "pyval \<Rightarrow> string \<Rightarrow> string option res" where
  "host_text host_info key = bindR (if truthy host_info then py_get host_info key PNone else Inr PNone) text_option"

definition get_values_platform :: "pyval \<Rightarrow> pyval \<Rightarrow> pyval \<Rightarrow> dict res" where
  "get_values_platform container img host_info =
     bindR (if truthy img then py_items img else Inr []) (\<lambda>i.
     if truthy (dget i ''Os'') \<or> truthy (dget i ''Architecture'') \<or> truthy (dget i ''Variant'') then
       bindR (text_option (dget i ''Os'')) (\<lambda>os. bindR (text_option (dget i ''Architecture'')) (\<lambda>arch.
       bindR (text_option (dget i ''Variant'')) (\<lambda>variant.
       bindR (host_text host_info ''OSType'') (\<lambda>daemon_os. bindR (host_text host_info ''Architecture'') (\<lambda>daemon_arch.
       bindR (compose_platform_string os arch variant daemon_os daemon_arch) (\<lambda>p. Inr [(''platform'', PStr p)]))))))
     else bindR (py_get container ''Platform'' PNone) (\<lambda>p. Inr [(''platform'', p)]))"

definition expected_values_platform :: "dict \<Rightarrow> pyval \<Rightarrow> dict res" where
  "expected_values_platform values host_info =
     (if has_key values ''platform'' then
        bindR (text_option (dget values ''platform'')) (\<lambda>s.
        bindR (host_text host_info ''OSType'') (\<lambda>daemon_os. bindR (host_text host_info ''Architecture'') (\<lambda>daemon_arch.
          (case normalize_platform_string s daemon_os daemon_arch of
             Inr p \<Rightarrow> Inr [(''platform'', PStr p)]
           | Inl (ValueError m) \<Rightarrow> Inl (fail_msg (''Error while parsing platform parameer: '' @ m))
           | Inl e \<Rightarrow> Inl e))))
      else Inr [])"

definition set_values_platform :: "dict \<Rightarrow> dict \<Rightarrow> dict res" where
  "set_values_platform data values =
     (if has_key values ''platform'' then put_config ''platform'' (dget values ''platform'') data else Inr data)"

definition get_values_restart :: "pyval \<Rightarrow> dict res" where
  "get_values_restart container =
     bindR (host_config_field container ''RestartPolicy'') (\<lambda>r.
     bindR (if truthy r then py_items r else Inr []) (\<lambda>policy.
       Inr [(''restart_policy'', dget policy ''Name''), (''restart_retries'', dget policy ''MaximumRetryCount'')]))"

definition restart_policy :: "dict \<Rightarrow> pyval" where
  "restart_policy values = PDict [(''Name'', dget values ''restart_policy''), (''MaximumRetryCount'', dget values ''restart_retries'')]"

definition set_values_restart :: "dict \<Rightarrow> dict \<Rightarrow> dict res" where
  "set_values_restart data values =
     (if has_key values ''restart_policy'' then put_host_config ''RestartPolicy'' (restart_policy values) data else Inr data)"

definition update_value_restart :: "dict \<Rightarrow> dict \<Rightarrow> dict res" where
  "update_value_restart data values =
     (if has_key values ''restart_policy'' then put_config ''RestartPolicy'' (restart_policy values) data else Inr data)"

end
