(* ===== verification/DockerTable.thy ===== *)
theory DockerTable
  imports DockerGroups
begin

text \<open>
  The ports of \<open>docker_container\<close> and the table of all its options: each group as
  \<open>module_container/base.py\<close> declares it, with the engine that \<open>module_container/docker_api.py\<close>
  gives it. What the options need in versions of the API is left to the client.
\<close>

section \<open>Ports\<close>

text \<open>The bindings and the exposed ports, as values of the group.\<close>

definition bind_value :: "bind_entry \<Rightarrow> pyval" where
  "bind_value b = (case b of One x \<Rightarrow> PTuple x | Many xs \<Rightarrow> PList (map PTuple xs))"

definition bind_key_text :: "bind_key \<Rightarrow> string" where
  "bind_key_text = (\<lambda>(port, protocol). dec_int port @ (if protocol = [] then [] else CHR ''/'' # protocol))"

definition ports_values :: "dict \<Rightarrow> dict res" where
  "ports_values values = bindR (preprocess_ports values) (\<lambda>(binds, exposed).
     Inr (AList.update ''ports'' (PList (map (\<lambda>(port, protocol). PTuple [port, PStr protocol]) exposed))
       (case binds of None \<Rightarrow> values
        | Some bs \<Rightarrow> AList.update ''published_ports'' (PDict (map (\<lambda>(k, b). (bind_key_text k, bind_value b)) bs)) values)))"

definition normalize_port :: "string \<Rightarrow> string" where
  "normalize_port port = (if CHR ''/'' \<notin> set port then port @ ''/tcp'' else port)"

definition exposed_of :: "pyval \<Rightarrow> string list res" where
  "exposed_of v = (if truthy v then bindR (py_items v) (\<lambda>d. Inr (map (normalize_port \<circ> fst) d)) else Inr [])"

definition get_values_ports :: "pyval \<Rightarrow> dict res" where
  "get_values_ports container =
     bindR (host_config_field container ''PortBindings'') (\<lambda>bindings.
     bindR (bindR (config_field container ''ExposedPorts'') exposed_of) (\<lambda>exposed.
     bindR (host_config_field container ''PublishAllPorts'') (\<lambda>all.
       Inr [(''published_ports'', bindings), (''exposed_ports'', PList (map PStr exposed)), (''publish_all_ports'', all)])))"

text \<open>The elements of a binding, which is a tuple or a list of tuples.\<close>

definition elements_of :: "pyval \<Rightarrow> pyval list res" where
  "elements_of config = (case config of PTuple xs \<Rightarrow> Inr xs | PList xs \<Rightarrow> Inr xs | _ \<Rightarrow> Inl TypeError)"

definition host_binding :: "pyval \<Rightarrow> pyval \<Rightarrow> pyval" where
  "host_binding ip port = PDict [(''HostIp'', ip), (''HostPort'', port)]"

definition binding_pair :: "pyval \<Rightarrow> pyval res" where
  "binding_pair v = bindR (elements_of v) (\<lambda>xs. case xs of
     [ip, port] \<Rightarrow> Inr (host_binding ip (PStr (py_str port))) | _ \<Rightarrow> Inl (ValueError ''wrong number of values to unpack''))"

definition expected_binding :: "pyval \<Rightarrow> pyval list res" where
  "expected_binding config = bindR (elements_of config) (\<lambda>xs. case xs of
     [] \<Rightarrow> Inl IndexError
   | [x] \<Rightarrow> Inr [case x of PInt _ \<Rightarrow> host_binding (PStr ''0.0.0.0'') x | _ \<Rightarrow> host_binding x (PStr [])]
   | PTuple _ # _ \<Rightarrow> mapR binding_pair xs
   | ip # port # _ \<Rightarrow> Inr [host_binding ip (PStr (py_str port))])"

definition port_text :: "pyval \<Rightarrow> string res" where
  "port_text p = bindR (elements_of p) (\<lambda>xs. case xs of
     port # PStr protocol # _ \<Rightarrow> Inr (py_str port @ ''/'' @ protocol) | _ # _ # _ \<Rightarrow> Inl TypeError | _ \<Rightarrow> Inl IndexError)"

definition expected_values_ports :: "pyval \<Rightarrow> dict \<Rightarrow> dict res" where
  "expected_values_ports img values =
     bindR (if has_key values ''published_ports'' then
         bindR (py_items (dget values ''published_ports'')) (\<lambda>d.
         bindR (foldR (\<lambda>acc (port, config). bindR (expected_binding config) (\<lambda>bs. Inr (AList.update (normalize_port port) (PList bs) acc))) [] d)
           (\<lambda>bound. Inr [(''published_ports'', PDict bound)]))
       else Inr []) (\<lambda>published.
     bindR (if truthy img then bindR (config_field img ''ExposedPorts'') exposed_of else Inr []) (\<lambda>image_ports.
     bindR (if has_key values ''ports'' then bindR (py_iter (dget values ''ports'')) (mapR port_text) else Inr []) (\<lambda>param_ports.
       Inr (published @ [(''exposed_ports'', list_of_set (image_ports @ param_ports))]
         @ (if has_key values ''publish_all_ports'' then [(''publish_all_ports'', dget values ''publish_all_ports'')] else [])))))"

definition exposed_key :: "pyval \<Rightarrow> string" where
  "exposed_key p = (case p of
     PTuple [port, protocol] \<Rightarrow> py_str port @ ''/'' @ py_str protocol
   | PTuple (port # _) \<Rightarrow> py_str port @ ''/tcp''
   | _ \<Rightarrow> py_str p @ ''/tcp'')"

definition set_values_ports :: "dict \<Rightarrow> dict \<Rightarrow> dict res" where
  "set_values_ports data values =
     bindR (if has_key values ''ports'' then
         bindR (py_iter (dget values ''ports'')) (\<lambda>ps. put_config ''ExposedPorts'' (PDict (dict_update [] (map (\<lambda>p. (exposed_key p, PDict [])) ps))) data)
       else Inr data) (\<lambda>d1.
     bindR (if has_key values ''published_ports'' then
         bindR (bindR (py_items (dget values ''published_ports'')) convert_port_bindings) (\<lambda>b. put_host_config ''PortBindings'' (PDict b) d1)
       else Inr d1) (\<lambda>d2.
     if truthy (dget values ''publish_all_ports'') then put_host_config ''PublishAllPorts'' (dget values ''publish_all_ports'') d2 else Inr d2))"

text \<open>The default address of the host, of the first bridge among the networks that names one.\<close>

definition BINDING_IPV4 :: string where
  "BINDING_IPV4 = ''com.docker.network.bridge.host_binding_ipv4''"

fun bridge_ip :: "world \<Rightarrow> pyval list \<Rightarrow> pyval io" where
  "bridge_ip W [] = retI (PStr ''0.0.0.0'')"
| "bridge_ip W (network_data # rest) =
     bindI (liftI (py_get network_data ''name'' PNone)) (\<lambda>name.
     if \<not> truthy name then bridge_ip W rest
     else bindI (get_network W name PNone) (\<lambda>network.
       if network = PNone then
         fail_client (''Cannot inspect the network '' @ [CHR 0x27] @ py_str name @ [CHR 0x27] @ '' to determine the default IP'')
       else bindI (liftI (py_get network ''Driver'' PNone)) (\<lambda>driver.
         bindI (liftI (if driver = PStr ''bridge'' then inner_field network ''Options'' BINDING_IPV4 PNone else Inr PNone)) (\<lambda>ip.
           if truthy ip then retI ip else bridge_ip W rest))))"

definition get_default_host_ip :: "world \<Rightarrow> dict \<Rightarrow> pyval io" where
  "get_default_host_ip W params =
     (if dget params ''default_host_ip'' \<noteq> PNone then retI (dget params ''default_host_ip'')
      else bindI (liftI (if truthy (dget params ''networks'') then py_iter (dget params ''networks'') else Inr [])) (bridge_ip W))"

text \<open>Only the first element of a binding is looked at: for a list of bindings that is a tuple, never
  the placeholder.\<close>

definition has_placeholder :: "pyval \<Rightarrow> bool res" where
  "has_placeholder spec = bindR (elements_of spec) (\<lambda>xs. case xs of [] \<Rightarrow> Inl IndexError | x # _ \<Rightarrow> Inr (x = PStr DEFAULT_IP))"

definition replace_placeholder :: "pyval \<Rightarrow> string \<times> pyval \<Rightarrow> (string \<times> pyval) res" where
  "replace_placeholder ip = (\<lambda>(port, spec). bindR (has_placeholder spec) (\<lambda>found.
     if found then bindR (elements_of spec) (\<lambda>xs. Inr (port, PTuple (ip # tl xs))) else Inr (port, spec)))"

definition preprocess_value_ports :: "world \<Rightarrow> dict \<Rightarrow> dict \<Rightarrow> dict io" where
  "preprocess_value_ports W params values =
     (if \<not> has_key values ''published_ports'' then retI values
      else bindI (liftI (py_items (dget values ''published_ports''))) (\<lambda>d.
        bindI (liftI (anyR has_placeholder (map snd d))) (\<lambda>found.
          if \<not> found then retI values
          else bindI (get_default_host_ip W params) (\<lambda>ip.
            bindI (liftI (mapR (replace_placeholder ip) d)) (\<lambda>d'. retI (AList.update ''published_ports'' (PDict d') values))))))"

section \<open>The groups\<close>

definition pure :: "(dict \<Rightarrow> dict res) \<Rightarrow> dict \<Rightarrow> dict io" where
  "pure f values = liftI (f values)"

definition log_values :: "dict \<Rightarrow> dict io" where
  "log_values values = bindI (liftI (preprocess_log values)) (\<lambda>(result, warnings).
     bindI (mapI (\<lambda>w. emit (Warn w)) warnings) (\<lambda>_. retI result))"

definition platform_compare :: "string \<Rightarrow> pyval \<Rightarrow> pyval \<Rightarrow> bool res" where
  "platform_compare comparison p c = bindR (text_option p) (\<lambda>p'. bindR (text_option c) (\<lambda>c'. compare_platform comparison p' c'))"

definition OPTION_AUTO_REMOVE :: group where
  "OPTION_AUTO_REMOVE = option_group retI [add_option ''auto_remove'' ''bool'' None]"

definition OPTION_BLKIO_WEIGHT :: group where
  "OPTION_BLKIO_WEIGHT = option_group retI [add_option ''blkio_weight'' ''int'' None]"

definition OPTION_CAPABILITIES :: group where
  "OPTION_CAPABILITIES = option_group retI [add_option ''capabilities'' ''set'' (Some ''str'')]"

definition OPTION_CAP_DROP :: group where
  "OPTION_CAP_DROP = option_group retI [add_option ''cap_drop'' ''set'' (Some ''str'')]"

definition OPTION_CGROUP_NS_MODE :: group where
  "OPTION_CGROUP_NS_MODE = option_group retI [add_option ''cgroupns_mode'' ''str'' None]"

definition OPTION_CGROUP_PARENT :: group where
  "OPTION_CGROUP_PARENT = option_group retI [add_option ''cgroup_parent'' ''str'' None]"

definition OPTION_COMMAND :: "surroundings \<Rightarrow> group" where
  "OPTION_COMMAND S = option_group (pure (preprocess_command (su_params S))) [add_option ''command'' ''list'' (Some ''str'')]"

definition OPTION_CPU_PERIOD :: group where
  "OPTION_CPU_PERIOD = option_group retI [add_option ''cpu_period'' ''int'' None]"

definition OPTION_CPU_QUOTA :: group where
  "OPTION_CPU_QUOTA = option_group retI [add_option ''cpu_quota'' ''int'' None]"

definition OPTION_CPUSET_CPUS :: group where
  "OPTION_CPUSET_CPUS = option_group retI [add_option ''cpuset_cpus'' ''str'' None]"

definition OPTION_CPUSET_MEMS :: group where
  "OPTION_CPUSET_MEMS = option_group retI [add_option ''cpuset_mems'' ''str'' None]"

definition OPTION_CPU_SHARES :: group where
  "OPTION_CPU_SHARES = option_group retI [add_option ''cpu_shares'' ''int'' None]"

definition OPTION_ENTRYPOINT :: "surroundings \<Rightarrow> group" where
  "OPTION_ENTRYPOINT S = option_group (pure (preprocess_entrypoint (su_params S))) [add_option ''entrypoint'' ''list'' (Some ''str'')]"

definition OPTION_CPUS :: group where
  "OPTION_CPUS = option_group retI [add_option ''cpus'' ''int'' None]"

definition OPTION_DETACH_INTERACTIVE :: group where
  "OPTION_DETACH_INTERACTIVE = option_group retI [add_option ''detach'' ''bool'' None,
     add_option ''interactive'' ''bool'' None]"

definition OPTION_DEVICES :: group where
  "OPTION_DEVICES = option_group retI [add_option ''devices'' ''set'' (Some ''dict'')]"

definition OPTION_DEVICE_READ_BPS :: group where
  "OPTION_DEVICE_READ_BPS = option_group retI [add_option ''device_read_bps'' ''set'' (Some ''dict'')]"

definition OPTION_DEVICE_WRITE_BPS :: group where
  "OPTION_DEVICE_WRITE_BPS = option_group retI [add_option ''device_write_bps'' ''set'' (Some ''dict'')]"

definition OPTION_DEVICE_READ_IOPS :: group where
  "OPTION_DEVICE_READ_IOPS = option_group retI [add_option ''device_read_iops'' ''set'' (Some ''dict'')]"

definition OPTION_DEVICE_WRITE_IOPS :: group where
  "OPTION_DEVICE_WRITE_IOPS = option_group retI [add_option ''device_write_iops'' ''set'' (Some ''dict'')]"

definition OPTION_DEVICE_REQUESTS :: group where
  "OPTION_DEVICE_REQUESTS = option_group retI [add_option ''device_requests'' ''set'' (Some ''dict'')]"

definition OPTION_DEVICE_CGROUP_RULES :: group where
  "OPTION_DEVICE_CGROUP_RULES = option_group retI [add_option ''device_cgroup_rules'' ''list'' (Some ''str'')]"

definition OPTION_DNS_SERVERS :: group where
  "OPTION_DNS_SERVERS = option_group retI [add_option ''dns_servers'' ''list'' (Some ''str'')]"

definition OPTION_DNS_OPTS :: group where
  "OPTION_DNS_OPTS = option_group retI [add_option ''dns_opts'' ''set'' (Some ''str'')]"

definition OPTION_DNS_SEARCH_DOMAINS :: group where
  "OPTION_DNS_SEARCH_DOMAINS = option_group retI [add_option ''dns_search_domains'' ''list'' (Some ''str'')]"

definition OPTION_DOMAINNAME :: group where
  "OPTION_DOMAINNAME = option_group retI [add_option ''domainname'' ''str'' None]"

definition OPTION_ENVIRONMENT :: "surroundings \<Rightarrow> group" where
  "OPTION_ENVIRONMENT S = (option_group (pure (preprocess_env (su_read_lines S))) [add_option ''env'' ''set'' (Some ''str'')])
     \<lparr>gr_all_options := [add_option ''env'' ''set'' (Some ''str''), add_option ''env_file'' ''set'' (Some ''str'')]\<rparr>"

definition OPTION_ETC_HOSTS :: group where
  "OPTION_ETC_HOSTS = option_group retI [add_option ''etc_hosts'' ''set'' (Some ''str'')]"

definition OPTION_GROUPS :: group where
  "OPTION_GROUPS = option_group retI [add_option ''groups'' ''set'' (Some ''str'')]"

definition OPTION_HEALTHCHECK :: group where
  "OPTION_HEALTHCHECK = option_group (pure preprocess_healthcheck) [add_option ''healthcheck'' ''dict'' None]"

definition OPTION_HOSTNAME :: group where
  "OPTION_HOSTNAME = option_group retI [add_option ''hostname'' ''str'' None]"

definition OPTION_IMAGE :: group where
  "OPTION_IMAGE = option_group retI [add_option ''image'' ''str'' None]"

definition OPTION_INIT :: group where
  "OPTION_INIT = option_group retI [add_option ''init'' ''bool'' None]"

definition OPTION_IPC_MODE :: group where
  "OPTION_IPC_MODE = option_group retI [add_option ''ipc_mode'' ''str'' None]"

definition OPTION_KERNEL_MEMORY :: "surroundings \<Rightarrow> group" where
  "OPTION_KERNEL_MEMORY S = option_group (pure (preprocess_convert_to_bytes (su_human_to_bytes S) ''kernel_memory'' None)) [add_option ''kernel_memory'' ''int'' None]"

definition OPTION_LABELS :: group where
  "OPTION_LABELS = option_group retI [add_option ''labels'' ''dict'' None]"

definition OPTION_LINKS :: group where
  "OPTION_LINKS = option_group retI [add_option ''links'' ''set'' (Some ''list'')]"

definition OPTION_LOG_DRIVER_OPTIONS :: group where
  "OPTION_LOG_DRIVER_OPTIONS = option_group log_values [add_option ''log_driver'' ''str'' None,
     (add_option ''log_options'' ''dict'' None)\<lparr>op_aliases := [''log_opt'']\<rparr>]"

definition OPTION_MAC_ADDRESS :: group where
  "OPTION_MAC_ADDRESS = option_group (pure preprocess_mac_address) [add_option ''mac_address'' ''str'' None]"

definition OPTION_MEMORY :: "surroundings \<Rightarrow> group" where
  "OPTION_MEMORY S = option_group (pure (preprocess_convert_to_bytes (su_human_to_bytes S) ''memory'' None)) [add_option ''memory'' ''int'' None]"

definition OPTION_MEMORY_RESERVATION :: "surroundings \<Rightarrow> group" where
  "OPTION_MEMORY_RESERVATION S = option_group (pure (preprocess_convert_to_bytes (su_human_to_bytes S) ''memory_reservation'' None)) [add_option ''memory_reservation'' ''int'' None]"

definition OPTION_MEMORY_SWAP :: "surroundings \<Rightarrow> group" where
  "OPTION_MEMORY_SWAP S = option_group (pure (preprocess_convert_to_bytes (su_human_to_bytes S) ''memory_swap'' (Some (- 1)))) [add_option ''memory_swap'' ''int'' None]"

definition OPTION_MEMORY_SWAPPINESS :: group where
  "OPTION_MEMORY_SWAPPINESS = option_group retI [add_option ''memory_swappiness'' ''int'' None]"

definition OPTION_STOP_TIMEOUT :: group where
  "OPTION_STOP_TIMEOUT = option_group retI [(add_option ''stop_timeout'' ''int'' None)\<lparr>op_comparison := ''ignore''\<rparr>]"

definition OPTION_NETWORK :: "surroundings \<Rightarrow> group" where
  "OPTION_NETWORK S = option_group (pure (preprocess_networks (su_params S))) [add_option ''network_mode'' ''str'' None,
     add_option ''networks'' ''set'' (Some ''dict'')]"

definition OPTION_OOM_KILLER :: group where
  "OPTION_OOM_KILLER = option_group retI [add_option ''oom_killer'' ''bool'' None]"

definition OPTION_OOM_SCORE_ADJ :: group where
  "OPTION_OOM_SCORE_ADJ = option_group retI [add_option ''oom_score_adj'' ''int'' None]"

definition OPTION_PID_MODE :: group where
  "OPTION_PID_MODE = option_group retI [add_option ''pid_mode'' ''str'' None]"

definition OPTION_PIDS_LIMIT :: group where
  "OPTION_PIDS_LIMIT = option_group retI [add_option ''pids_limit'' ''int'' None]"

definition OPTION_PLATFORM :: group where
  "OPTION_PLATFORM = (option_group retI [add_option ''platform'' ''str'' None])
     \<lparr>en_compare_value := (\<lambda>option. platform_compare)\<rparr>"

definition OPTION_PRIVILEGED :: group where
  "OPTION_PRIVILEGED = option_group retI [add_option ''privileged'' ''bool'' None]"

definition OPTION_READ_ONLY :: group where
  "OPTION_READ_ONLY = option_group retI [add_option ''read_only'' ''bool'' None]"

definition OPTION_RESTART_POLICY :: group where
  "OPTION_RESTART_POLICY = option_group retI [add_option ''restart_policy'' ''str'' None,
     add_option ''restart_retries'' ''int'' None]"

definition OPTION_RUNTIME :: group where
  "OPTION_RUNTIME = option_group retI [add_option ''runtime'' ''str'' None]"

definition OPTION_SECURITY_OPTS :: group where
  "OPTION_SECURITY_OPTS = option_group retI [add_option ''security_opts'' ''set'' (Some ''str'')]"

definition OPTION_SHM_SIZE :: "surroundings \<Rightarrow> group" where
  "OPTION_SHM_SIZE S = option_group (pure (preprocess_convert_to_bytes (su_human_to_bytes S) ''shm_size'' None)) [add_option ''shm_size'' ''int'' None]"

definition OPTION_STOP_SIGNAL :: group where
  "OPTION_STOP_SIGNAL = option_group retI [add_option ''stop_signal'' ''str'' None]"

definition OPTION_STORAGE_OPTS :: group where
  "OPTION_STORAGE_OPTS = option_group retI [add_option ''storage_opts'' ''dict'' None]"

definition OPTION_SYSCTLS :: group where
  "OPTION_SYSCTLS = option_group (pure preprocess_sysctls) [add_option ''sysctls'' ''dict'' None]"

definition OPTION_TMPFS :: group where
  "OPTION_TMPFS = option_group (pure preprocess_tmpfs) [add_option ''tmpfs'' ''dict'' None]"

definition OPTION_TTY :: group where
  "OPTION_TTY = option_group retI [add_option ''tty'' ''bool'' None]"

definition OPTION_ULIMITS :: group where
  "OPTION_ULIMITS = option_group (pure preprocess_ulimits) [add_option ''ulimits'' ''set'' (Some ''dict'')]"

definition OPTION_USER :: group where
  "OPTION_USER = option_group retI [add_option ''user'' ''str'' None]"

definition OPTION_USERNS_MODE :: group where
  "OPTION_USERNS_MODE = option_group retI [add_option ''userns_mode'' ''str'' None]"

definition OPTION_UTS :: group where
  "OPTION_UTS = option_group retI [add_option ''uts'' ''str'' None]"

definition OPTION_VOLUME_DRIVER :: group where
  "OPTION_VOLUME_DRIVER = option_group retI [add_option ''volume_driver'' ''str'' None]"

definition OPTION_VOLUMES_FROM :: group where
  "OPTION_VOLUMES_FROM = option_group retI [add_option ''volumes_from'' ''set'' (Some ''str'')]"

definition OPTION_WORKING_DIR :: group where
  "OPTION_WORKING_DIR = option_group retI [add_option ''working_dir'' ''str'' None]"

definition OPTION_MOUNTS_VOLUMES :: "surroundings \<Rightarrow> group" where
  "OPTION_MOUNTS_VOLUMES S = option_group (pure (preprocess_mounts (su_absolute S) (su_human_to_bytes S))) [add_option ''mounts'' ''set'' (Some ''dict''),
     add_option ''volumes'' ''set'' (Some ''str''),
     (add_option ''volume_binds'' ''set'' (Some ''str''))\<lparr>op_not_an_ansible_option := True, op_copy_comparison_from := Some ''volumes''\<rparr>]"

definition OPTION_PORTS :: group where
  "OPTION_PORTS = option_group (pure ports_values) [(add_option ''exposed_ports'' ''set'' (Some ''str''))\<lparr>op_aliases := [''exposed'', ''expose'']\<rparr>,
     add_option ''publish_all_ports'' ''bool'' None,
     (add_option ''published_ports'' ''dict'' None)\<lparr>op_aliases := [''ports'']\<rparr>,
     (add_option ''ports'' ''set'' (Some ''str''))\<lparr>op_not_an_ansible_option := True, op_comparison := ''ignore''\<rparr>]"

section \<open>The engines\<close>

definition detach_interactive_engine :: "group \<Rightarrow> group" where
  "detach_interactive_engine g = g\<lparr>en_get_value := (\<lambda>container img host_info. liftI (get_value_detach_interactive container)),
     en_can_set_value := True, en_set_value := set_value_detach_interactive\<rparr>"

definition log_driver_options_engine :: "group \<Rightarrow> group" where
  "log_driver_options_engine g = g\<lparr>en_get_value := (\<lambda>container img host_info. liftI (get_values_log container)),
     en_can_set_value := True, en_set_value := set_values_log\<rparr>"

definition network_engine :: "world \<Rightarrow> group \<Rightarrow> group" where
  "network_engine W g = g\<lparr>en_preprocess_value := preprocess_network_values W,
     en_get_value := (\<lambda>container img host_info. liftI (get_values_network container)),
     en_can_set_value := True, en_set_value := set_values_network, en_ignore_mismatching_result := ignore_mismatching_network,
     en_needs_host_info := (\<lambda>values. dget values ''network_mode'' = PStr ''default'')\<rparr>"

definition platform_engine :: "group \<Rightarrow> group" where
  "platform_engine g = g\<lparr>en_get_value := (\<lambda>container img host_info. liftI (get_values_platform container img host_info)),
     en_get_expected_values := (\<lambda>img values host_info. liftI (expected_values_platform values host_info)),
     en_can_set_value := True, en_set_value := set_values_platform,
     en_needs_container_image := (\<lambda>values. has_key values ''platform''), en_needs_host_info := (\<lambda>values. has_key values ''platform'')\<rparr>"

definition restart_policy_engine :: "group \<Rightarrow> group" where
  "restart_policy_engine g = g\<lparr>en_get_value := (\<lambda>container img host_info. liftI (get_values_restart container)),
     en_can_set_value := True, en_set_value := set_values_restart, en_can_update_value := True, en_update_value := update_value_restart\<rparr>"

definition mounts_volumes_engine :: "group \<Rightarrow> group" where
  "mounts_volumes_engine g = g\<lparr>en_get_value := (\<lambda>container img host_info. liftI (get_values_mounts container)),
     en_get_expected_values := (\<lambda>img values host_info. liftI (expected_values_mounts img values)),
     en_can_set_value := True, en_set_value := set_values_mounts\<rparr>"

definition ports_engine :: "world \<Rightarrow> surroundings \<Rightarrow> group \<Rightarrow> group" where
  "ports_engine W S g = g\<lparr>en_preprocess_value := preprocess_value_ports W (su_params S),
     en_get_value := (\<lambda>container img host_info. liftI (get_values_ports container)),
     en_get_expected_values := (\<lambda>img values host_info. liftI (expected_values_ports img values)),
     en_can_set_value := True, en_set_value := set_values_ports\<rparr>"

section \<open>The table\<close>

definition first_options :: "world \<Rightarrow> surroundings \<Rightarrow> group list" where
  "first_options W S =
     [host_config_value ''AutoRemove'' OPTION_AUTO_REMOVE,
      update_parameter ''BlkioWeight'' (host_config_value ''BlkioWeight'' OPTION_BLKIO_WEIGHT),
      host_config_value ''CapAdd'' OPTION_CAPABILITIES,
      host_config_value ''CapDrop'' OPTION_CAP_DROP,
      host_config_value ''CgroupnsMode'' OPTION_CGROUP_NS_MODE,
      host_config_value ''CgroupParent'' OPTION_CGROUP_PARENT,
      config_value ''Cmd'' (OPTION_COMMAND S),
      update_parameter ''CpuPeriod'' (host_config_value ''CpuPeriod'' OPTION_CPU_PERIOD),
      update_parameter ''CpuQuota'' (host_config_value ''CpuQuota'' OPTION_CPU_QUOTA),
      update_parameter ''CpusetCpus'' (host_config_value ''CpusetCpus'' OPTION_CPUSET_CPUS),
      update_parameter ''CpusetMems'' (host_config_value ''CpusetMems'' OPTION_CPUSET_MEMS),
      update_parameter ''CpuShares'' (host_config_value ''CpuShares'' OPTION_CPU_SHARES),
      config_value ''Entrypoint'' (OPTION_ENTRYPOINT S),
      preprocess_value (preprocess_cpus S) (host_config_value ''NanoCpus'' OPTION_CPUS)]"

definition second_options :: "world \<Rightarrow> surroundings \<Rightarrow> group list" where
  "second_options W S =
     [detach_interactive_engine OPTION_DETACH_INTERACTIVE,
      preprocess_value (each_of device) (host_config_value ''Devices'' OPTION_DEVICES),
      preprocess_value (each_of (rate_bps S)) (host_config_value ''BlkioDeviceReadBps'' OPTION_DEVICE_READ_BPS),
      preprocess_value (each_of (rate_bps S)) (host_config_value ''BlkioDeviceWriteBps'' OPTION_DEVICE_WRITE_BPS),
      preprocess_value (each_of rate_iops) (host_config_value ''BlkioDeviceReadIOps'' OPTION_DEVICE_READ_IOPS),
      preprocess_value (each_of rate_iops) (host_config_value ''BlkioDeviceWriteIOps'' OPTION_DEVICE_WRITE_IOPS),
      preprocess_value (each_of device_request) (host_config_value ''DeviceRequests'' OPTION_DEVICE_REQUESTS),
      host_config_value ''DeviceCgroupRules'' OPTION_DEVICE_CGROUP_RULES,
      host_config_value ''Dns'' OPTION_DNS_SERVERS,
      host_config_value ''DnsOptions'' OPTION_DNS_OPTS,
      host_config_value ''DnsSearch'' OPTION_DNS_SEARCH_DOMAINS,
      config_value ''Domainname'' OPTION_DOMAINNAME,
      get_expected_value expected_env (config_value ''Env'' (OPTION_ENVIRONMENT S)),
      preprocess_value preprocess_etc_hosts (host_config_value ''ExtraHosts'' OPTION_ETC_HOSTS)]"

definition third_options :: "world \<Rightarrow> surroundings \<Rightarrow> group list" where
  "third_options W S =
     [host_config_value ''GroupAdd'' OPTION_GROUPS,
      postprocess_for_get ''Healthcheck'' postprocess_healthcheck (preprocess_value preprocess_healthcheck_value (config_value ''Healthcheck'' OPTION_HEALTHCHECK)),
      config_value ''Hostname'' OPTION_HOSTNAME,
      ignore_mismatching (\<lambda>option img c p host_info. retI True) (config_value ''Image'' OPTION_IMAGE),
      host_config_value ''Init'' OPTION_INIT,
      preprocess_value (preprocess_container_names W) (host_config_value ''IpcMode'' OPTION_IPC_MODE),
      update_parameter ''KernelMemory'' (host_config_value ''KernelMemory'' (OPTION_KERNEL_MEMORY S)),
      ignore_mismatching (ignore_mismatching_label (su_params S)) (get_expected_value (expected_labels (su_params S)) (config_value ''Labels'' OPTION_LABELS)),
      preprocess_value (preprocess_links (su_params S)) (host_config_value ''Links'' OPTION_LINKS),
      log_driver_options_engine OPTION_LOG_DRIVER_OPTIONS,
      config_value ''MacAddress'' OPTION_MAC_ADDRESS,
      update_parameter ''Memory'' (host_config_value ''Memory'' (OPTION_MEMORY S)),
      update_parameter ''MemoryReservation'' (host_config_value ''MemoryReservation'' (OPTION_MEMORY_RESERVATION S)),
      update_parameter ''MemorySwap'' (host_config_value ''MemorySwap'' (OPTION_MEMORY_SWAP S))]"

definition fourth_options :: "world \<Rightarrow> surroundings \<Rightarrow> group list" where
  "fourth_options W S =
     [host_config_value ''MemorySwappiness'' OPTION_MEMORY_SWAPPINESS,
      config_value ''StopTimeout'' OPTION_STOP_TIMEOUT,
      network_engine W (OPTION_NETWORK S),
      host_config_value ''OomKillDisable'' OPTION_OOM_KILLER,
      host_config_value ''OomScoreAdj'' OPTION_OOM_SCORE_ADJ,
      preprocess_value (preprocess_container_names W) (host_config_value ''PidMode'' OPTION_PID_MODE),
      host_config_value ''PidsLimit'' OPTION_PIDS_LIMIT,
      platform_engine OPTION_PLATFORM,
      host_config_value ''Privileged'' OPTION_PRIVILEGED,
      host_config_value ''ReadonlyRootfs'' OPTION_READ_ONLY,
      restart_policy_engine OPTION_RESTART_POLICY,
      host_config_value ''Runtime'' OPTION_RUNTIME,
      host_config_value ''SecurityOpt'' OPTION_SECURITY_OPTS,
      host_config_value ''ShmSize'' (OPTION_SHM_SIZE S)]"

definition fifth_options :: "world \<Rightarrow> surroundings \<Rightarrow> group list" where
  "fifth_options W S =
     [config_value ''StopSignal'' OPTION_STOP_SIGNAL,
      host_config_value ''StorageOpt'' OPTION_STORAGE_OPTS,
      host_config_value ''Sysctls'' OPTION_SYSCTLS,
      host_config_value ''Tmpfs'' OPTION_TMPFS,
      config_value ''Tty'' OPTION_TTY,
      host_config_value ''Ulimits'' OPTION_ULIMITS,
      config_value ''User'' OPTION_USER,
      host_config_value ''UsernsMode'' OPTION_USERNS_MODE,
      host_config_value ''UTSMode'' OPTION_UTS,
      host_config_value ''VolumeDriver'' OPTION_VOLUME_DRIVER,
      host_config_value ''VolumesFrom'' OPTION_VOLUMES_FROM,
      config_value ''WorkingDir'' OPTION_WORKING_DIR,
      mounts_volumes_engine (OPTION_MOUNTS_VOLUMES S),
      ports_engine W S OPTION_PORTS]"

definition OPTIONS :: "world \<Rightarrow> surroundings \<Rightarrow> group list" where
  "OPTIONS W S = first_options W S @ second_options W S @ third_options W S @ fourth_options W S @ fifth_options W S"

end
