(* ===== verification/PyHonest.thy ===== *)
theory PyHonest
  imports PyIO
begin

text \<open>
  What a computation that reports about itself may say. A set of events counts as changes;
  \<open>honest b m says\<close> holds of a computation whose value owns up, by \<open>says\<close>, to every change
  the computation made, and to those made before it, which \<open>b\<close> stands for. There is a rule for
  every way computations are put together.
\<close>

definition honest :: "(event \<Rightarrow> bool) \<Rightarrow> bool \<Rightarrow> 'a io \<Rightarrow> ('a \<Rightarrow> bool) \<Rightarrow> bool" where
  "honest C b m says \<longleftrightarrow> (\<forall>h x h'. m h = (Inr x, h') \<longrightarrow>
     (\<exists>es. h' = h @ es \<and> (b \<or> list_ex C es \<longrightarrow> says x)))"

abbreviation quiet :: "(event \<Rightarrow> bool) \<Rightarrow> 'a io \<Rightarrow> bool" where
  "quiet C m \<equiv> emits (\<lambda>e. \<not> C e) m"

lemma quiet_list: "list_all (\<lambda>e. \<not> C e) es \<longleftrightarrow> \<not> list_ex C es"
  by (induction es) auto

text \<open>The values of a computation may matter for what follows it.\<close>

lemma emits_bind_value:
  assumes "emits P m" and "\<And>x h h'. m h = (Inr x, h') \<Longrightarrow> emits P (f x)"
  shows "emits P (bindI m f)"
  unfolding emits_def
proof
  fix h
  obtain r h' where m: "m h = (r, h')" by (cases "m h")
  with assms(1) obtain es where es: "h' = h @ es" "list_all P es"
    unfolding emits_def by (metis snd_conv)
  show "\<exists>es. snd (bindI m f h) = h @ es \<and> list_all P es"
  proof (cases r)
    case (Inr x)
    from assms(2) [of h x h'] m Inr obtain es' where "snd (f x h') = h' @ es'" "list_all P es'"
      unfolding emits_def by blast
    with es m Inr show ?thesis by (intro exI [of _ "es @ es'"]) (simp add: bindI_def)
  qed (use es m in \<open>simp add: bindI_def\<close>)
qed

lemma honest_ret: "(b \<Longrightarrow> says x) \<Longrightarrow> honest C b (retI x) says"
  by (auto simp: honest_def run_simps)

lemma honest_raise: "honest C b (raiseI e) says"
  by (simp add: honest_def run_simps)

lemma honest_lift: "(\<And>x. r = Inr x \<Longrightarrow> b \<Longrightarrow> says x) \<Longrightarrow> honest C b (liftI r) says"
  by (auto simp: honest_def run_simps)

lemma honest_bind:
  assumes "honest C b m said" and "\<And>x. honest C (said x) (f x) says"
  shows "honest C b (bindI m f) says"
  unfolding honest_def
proof (intro allI impI)
  fix h y h''
  assume "bindI m f h = (Inr y, h'')"
  then obtain x h' where m: "m h = (Inr x, h')" and f: "f x h' = (Inr y, h'')" by (auto simp: bind_Inr_iff)
  from assms(1) m obtain es where es: "h' = h @ es" "b \<or> list_ex C es \<longrightarrow> said x" unfolding honest_def by blast
  from assms(2) [of x] f obtain es' where es': "h'' = h' @ es'" "said x \<or> list_ex C es' \<longrightarrow> says y" unfolding honest_def by blast
  from es es' show "\<exists>es. h'' = h @ es \<and> (b \<or> list_ex C es \<longrightarrow> says y)"
    by (intro exI [of _ "es @ es'"]) auto
qed

lemma honest_bind_value:
  assumes "quiet C m" and "\<And>x h h'. m h = (Inr x, h') \<Longrightarrow> honest C b (f x) says"
  shows "honest C b (bindI m f) says"
  unfolding honest_def
proof (intro allI impI)
  fix h y h''
  assume "bindI m f h = (Inr y, h'')"
  then obtain x h' where m: "m h = (Inr x, h')" and f: "f x h' = (Inr y, h'')" by (auto simp: bind_Inr_iff)
  from assms(1) m obtain es where es: "h' = h @ es" "\<not> list_ex C es" unfolding emits_def quiet_list by (metis snd_conv)
  from assms(2) [OF m] f obtain es' where "h'' = h' @ es'" "b \<or> list_ex C es' \<longrightarrow> says y" unfolding honest_def by blast
  with es show "\<exists>es. h'' = h @ es \<and> (b \<or> list_ex C es \<longrightarrow> says y)"
    by (intro exI [of _ "es @ es'"]) auto
qed

lemma honest_emits: "emits P m \<Longrightarrow> (\<And>x. says x) \<Longrightarrow> honest C b m says"
  unfolding honest_def emits_def by (metis snd_conv)

lemma honest_quiet: "quiet C m \<Longrightarrow> (\<And>x. b \<Longrightarrow> says x) \<Longrightarrow> honest C b m says"
  unfolding honest_def emits_def quiet_list by (metis snd_conv)

lemma honest_after_quiet:
  "quiet C m \<Longrightarrow> (\<And>x. honest C b (f x) says) \<Longrightarrow> honest C b (bindI m f) says"
  by (rule honest_bind [where said = "\<lambda>x. b"]) (auto intro: honest_quiet)

text \<open>After any step, claiming a change is honest.\<close>

lemma honest_after_change:
  "emits (\<lambda>e. True) m \<Longrightarrow> (\<And>x. honest C True (f x) says) \<Longrightarrow> honest C b (bindI m f) says"
  by (rule honest_bind [where said = "\<lambda>x. True"]) (auto intro: honest_emits)

text \<open>What every value of a step claims may be used for what follows it.\<close>

lemma honest_claimed:
  assumes "emits (\<lambda>e. True) m" and "honest C True m said" and "\<And>x. said x \<Longrightarrow> honest C True (f x) says"
  shows "honest C b (bindI m f) says"
  unfolding honest_def
proof (intro allI impI)
  fix h y h''
  assume "bindI m f h = (Inr y, h'')"
  then obtain x h' where m: "m h = (Inr x, h')" and f: "f x h' = (Inr y, h'')" by (auto simp: bind_Inr_iff)
  from assms(2) m obtain es where es: "h' = h @ es" "said x" unfolding honest_def by blast
  from assms(3) [OF es(2)] f obtain es' where "h'' = h' @ es'" "says y" unfolding honest_def by blast
  with es show "\<exists>es. h'' = h @ es \<and> (b \<or> list_ex C es \<longrightarrow> says y)"
    by (intro exI [of _ "es @ es'"]) simp
qed

lemma honest_if: "(c \<Longrightarrow> honest C b m says) \<Longrightarrow> (\<not> c \<Longrightarrow> honest C b n says) \<Longrightarrow> honest C b (if c then m else n) says"
  by simp

lemma honest_pair: "(\<And>x y. p = (x, y) \<Longrightarrow> honest C b (f x y) says) \<Longrightarrow> honest C b (case p of (x, y) \<Rightarrow> f x y) says"
  by (cases p) simp

lemma honest_option: "(x = None \<Longrightarrow> honest C b m says) \<Longrightarrow> (\<And>y. x = Some y \<Longrightarrow> honest C b (f y) says)
    \<Longrightarrow> honest C b (case x of None \<Rightarrow> m | Some y \<Rightarrow> f y) says"
  by (cases x) auto

lemma honest_weaken: "honest C b m said \<Longrightarrow> (\<And>x. said x \<Longrightarrow> says x) \<Longrightarrow> (b' \<Longrightarrow> b) \<Longrightarrow> honest C b' m says"
  unfolding honest_def by blast

lemma honestD: "honest C b m says \<Longrightarrow> m h = (Inr x, h @ es) \<Longrightarrow> \<not> says x \<Longrightarrow> \<not> list_ex C es"
  unfolding honest_def by blast

lemmas honest_rules = honest_ret honest_raise honest_lift honest_if honest_pair honest_option

end
