(* ===== verification/DockerManagerSafety.thy ===== *)
theory DockerManagerSafety
  imports DockerManager PyHonest
begin

text \<open>
  What the manager of \<open>docker_container\<close> does to the daemon: nothing in check mode, and
  nothing that it does not report as a change. Both go through the operations one by one,
  with the rules for what a computation emits and for what it owns up to. A pull is reported
  when the image is another one afterwards; \<open>get_image\<close> is followed step by step for that.
\<close>

section \<open>Requests that change something\<close>

definition mutates :: "event \<Rightarrow> bool" where
  "mutates e = (case e of Ext name args \<Rightarrow> name = ''POST'' \<or> name = ''DELETE'' | _ \<Rightarrow> False)"

definition pulls :: "event \<Rightarrow> bool" where
  "pulls e = (case e of Ext name args \<Rightarrow> name = ''POST'' \<and> args \<noteq> [] \<and> hd args = PStr ''/images/create'' | _ \<Rightarrow> False)"

abbreviation reads :: "'a io \<Rightarrow> bool" where
  "reads m \<equiv> emits (\<lambda>e. \<not> mutates e) m"

text \<open>An engine whose operations only read.\<close>

definition engine_reads :: "group \<Rightarrow> bool" where
  "engine_reads g \<longleftrightarrow> (\<forall>v. reads (gr_preprocess g v)) \<and> (\<forall>v. reads (en_preprocess_value g v)) \<and> (\<forall>a b c. reads (en_get_value g a b c))
     \<and> (\<forall>a b c. reads (en_get_expected_values g a b c)) \<and> (\<forall>a b c d e. reads (en_ignore_mismatching_result g a b c d e))"

lemma engine_readsD [io_rules]:
  assumes "engine_reads g"
  shows "reads (gr_preprocess g v)" "reads (en_preprocess_value g v)" "reads (en_get_value g a b c)" "reads (en_get_expected_values g a v c)"
    "reads (en_ignore_mismatching_result g op a b c d)"
  using assms by (simp_all add: engine_reads_def)

declare emits_option [io_rules] emits_pair [io_rules]

lemma anything_ext [io_rules]: "emits (\<lambda>e. True) (ext W n a)"
  by (rule emits_ext) simp

lemma anything_emit [io_rules]: "emits (\<lambda>e. True) (emit e)"
  by (rule emits_emit) simp

lemma reads_GET [io_rules]: "reads (GET W p a q)"
  unfolding GET_def by (rule emits_ext) (simp add: mutates_def)

lemma reads_warn [io_rules]: "reads (emit (Warn t))" "reads (emit (Deprecate t))"
  by (rule emits_emit, simp add: mutates_def)+

lemma reads_sleep [io_rules]: "reads (sleep_for W d)"
  unfolding sleep_for_def by (intro io_rules emits_ext) (simp add: mutates_def)

lemma emits_or_fail [io_rules]: "emits P m \<Longrightarrow> emits P (or_fail W f m)"
  unfolding or_fail_def fail_client_def by (intro io_rules)

lemma emits_none_or_fail [io_rules]: "emits P m \<Longrightarrow> emits P (none_or_fail W f m)"
  unfolding none_or_fail_def fail_client_def by (intro io_rules)

lemma emits_fail_client [io_rules]: "emits P (fail_client msg)"
  unfolding fail_client_def by (rule io_rules)

section \<open>What only reads\<close>

lemma reads_container_by_id [io_rules]: "reads (get_container_by_id W i)"
  unfolding get_container_by_id_def by (intro io_rules)

lemma reads_get_container [io_rules]: "reads (get_container W n)"
  unfolding get_container_def by (cases n) (auto intro!: io_rules)

lemma reads_get_network [io_rules]: "reads (get_network W n i)"
  unfolding get_network_def by (auto intro!: io_rules)

lemma reads_get_cont [io_rules]: "reads (get_cont W n)"
  unfolding get_cont_def by (intro io_rules)

lemma reads_image_lookup [io_rules]: "reads (image_lookup W v n t)"
  unfolding image_lookup_def by (intro io_rules)

lemma reads_find_images [io_rules]: "reads (find_images W v n t)"
  unfolding find_images_def or_lookup_def by (intro io_rules)

lemma reads_find_image [io_rules]: "reads (find_image W v n t)"
  unfolding find_image_def by (auto intro!: io_rules split: list.split)

lemma reads_find_image_by_id [io_rules]: "reads (find_image_by_id W i a)"
  unfolding find_image_by_id_def by (intro io_rules)

lemma reads_image_by_name [io_rules]: "reads (image_by_name W t n)"
  unfolding image_by_name_def by (intro io_rules)

lemma reads_container_image [io_rules]: "reads (get_container_image W t c)"
  unfolding get_container_image_def by (auto intro!: io_rules split: pyval.split)

lemma reads_wait_polls [io_rules]: "reads (wait_polls W w i fuel d s)"
proof (induction fuel arbitrary: d s)
  case (Suc fuel)
  show ?case by (auto intro!: io_rules Suc split: poll.split simp: Let_def)
qed (simp add: io_rules)

lemma reads_wait_for_state [io_rules]: "reads (wait_for_state W w i)" "reads (await_removal W t c)"
  unfolding wait_for_state_def await_removal_def by (intro io_rules)+

lemma reads_record_options [io_rules]:
  "engine_reads g \<Longrightarrow> reads (record_options t g i cv ev hi os d)"
  by (induction os arbitrary: d) (auto intro!: io_rules simp: Let_def)

lemma reads_record_differences [io_rules]: "engine_reads g \<Longrightarrow> reads (record_differences t g v c ci i hi d)"
  unfolding record_differences_def by (intro io_rules)

definition engines_read :: "collected \<Rightarrow> bool" where
  "engines_read ps \<longleftrightarrow> (\<forall>(g, v) \<in> set ps. engine_reads g)"

lemma reads_record_groups [io_rules]: "engines_read ps \<Longrightarrow> reads (record_groups which t c ci i hi ps d u)"
proof (induction ps arbitrary: d u)
  case (Cons p ps)
  then show ?case by (cases p) (auto intro!: io_rules simp: engines_read_def)
qed (simp add: io_rules)

lemma engines_read_filter: "engines_read ps \<Longrightarrow> engines_read (filter P ps)"
  by (auto simp: engines_read_def)

lemma reads_differences [io_rules]:
  "engines_read ps \<Longrightarrow> reads (has_different_configuration t ps c ci i hi)"
  "engines_read ps \<Longrightarrow> reads (has_different_resource_limits t ps c ci i hi)"
  unfolding has_different_configuration_def has_different_resource_limits_def
  by (intro io_rules engines_read_filter | assumption)+

lemma reads_collect_params [io_rules]: "list_all engine_reads gs \<Longrightarrow> reads (collect_params t gs)"
  by (induction gs) (auto intro!: io_rules simp: Let_def)

lemma collect_params_engines:
  "collect_params t gs h = (Inr ps, h') \<Longrightarrow> list_all engine_reads gs \<Longrightarrow> engines_read ps"
proof (induction gs arbitrary: h ps h')
  case (Cons g gs)
  from Cons.prems(1) obtain v rest h1 where "collect_params t gs h1 = (Inr rest, h')" "ps = (g, v) # rest"
    by (auto simp: Let_def bind_Inr_iff run_simps)
  with Cons.IH [OF this(1)] Cons.prems(2) show ?case by (auto simp: engines_read_def)
qed (simp add: run_simps engines_read_def)

section \<open>Check mode\<close>

text \<open>What the check mode of the task turns off.\<close>

lemma reads_change [io_rules]: "tk_check_mode t \<Longrightarrow> reads (change W t what m)"
  unfolding change_def by (simp add: io_rules)

lemma check_mode_steps [io_rules]:
  assumes "tk_check_mode t"
  shows "reads (container_kill W t i m)" "reads (container_restart W t i m)" "reads (container_remove W t i l f m)"
    "reads (container_update W t i ps m)"
  using assms unfolding container_kill_def container_restart_def container_remove_def container_update_def Let_def
  by (auto intro!: io_rules)

lemma check_mode_stop [io_rules]: "tk_check_mode t \<Longrightarrow> reads (container_stop W t i m)"
  unfolding container_stop_def by (auto intro!: io_rules)

lemma check_mode_container_create [io_rules]: "tk_check_mode t \<Longrightarrow> reads (container_create W t ps i m)"
  unfolding container_create_def Let_def by (auto intro!: io_rules)

lemma check_mode_start [io_rules]: "tk_check_mode t \<Longrightarrow> reads (container_start W t i m)"
  unfolding container_start_def Let_def by (auto intro!: io_rules)

lemma check_mode_pull [io_rules]: "tk_check_mode t \<Longrightarrow> reads (pull_if_needed W t n f m)"
  unfolding pull_if_needed_def Let_def by (auto intro!: io_rules)

lemma check_mode_image [io_rules]: "tk_check_mode t \<Longrightarrow> reads (get_image W t c b m)"
  unfolding get_image_def Let_def by (auto intro!: io_rules)

lemma check_mode_limits [io_rules]: "tk_check_mode t \<Longrightarrow> engines_read ps \<Longrightarrow> reads (update_limits W t ps c ci i hi m)"
  unfolding update_limits_def Let_def by (auto intro!: io_rules)

lemma check_mode_add_networks [io_rules]: "tk_check_mode t \<Longrightarrow> reads (add_networks W t c ds m)"
  by (induction ds arbitrary: m) (auto intro!: io_rules simp: Let_def)

lemma check_mode_purge_networks [io_rules]: "tk_check_mode t \<Longrightarrow> reads (purge_networks W t c es m)"
  by (induction es arbitrary: m) (auto intro!: io_rules)

lemma check_mode_networks [io_rules]: "tk_check_mode t \<Longrightarrow> reads (update_networks W t c b m)"
  unfolding update_networks_def missing_networks_def surplus_networks_def Let_def by (auto intro!: io_rules)

lemma check_mode_create_new [io_rules]:
  "tk_check_mode t \<Longrightarrow> reads (create_in_place W t ps i c m)" "tk_check_mode t \<Longrightarrow> reads (create_new W t ps c r m)"
  "tk_check_mode t \<Longrightarrow> reads (recreate W t ps c m)"
  unfolding create_in_place_def create_new_def recreate_def Let_def by (auto intro!: io_rules)

lemma reads_must_recreate [io_rules]: "reads (must_recreate t i c d m)"
  unfolding must_recreate_def by (auto intro!: io_rules)

lemma check_mode_provide [io_rules]: "tk_check_mode t \<Longrightarrow> engines_read ps \<Longrightarrow> reads (provide W t ps c is hi m)"
  unfolding provide_def Let_def by (auto intro!: io_rules)

lemma check_mode_running [io_rules]:
  "tk_check_mode t \<Longrightarrow> reads (set_running W t s b c m)" "tk_check_mode t \<Longrightarrow> reads (set_paused W t s v c m)"
  unfolding set_running_def set_paused_def Let_def by (auto intro!: io_rules)

lemma check_mode_bring_about [io_rules]: "tk_check_mode t \<Longrightarrow> engines_read ps \<Longrightarrow> reads (bring_about W t s m ps)"
  unfolding bring_about_def after_image_def by (auto intro!: io_rules)

lemma check_mode_present [io_rules]:
  "tk_check_mode t \<Longrightarrow> list_all engine_reads (tk_groups t) \<Longrightarrow> reads (present W t s m)"
  unfolding present_def
  by (rule emits_bind_value) (auto intro: io_rules dest: collect_params_engines)

lemma check_mode_absent [io_rules]: "tk_check_mode t \<Longrightarrow> reads (absent W t m)"
  unfolding absent_def by (auto intro!: io_rules)

text \<open>In check mode the container module asks the daemon for nothing but information, whatever the task
  and whatever the daemon answers; the engines of the options only have to keep to reading.\<close>

theorem container_check_mode_is_safe:
  assumes "tk_check_mode t" and "list_all engine_reads (tk_groups t)"
  shows "emits (\<lambda>e. \<not> mutates e) (execute_module W t)"
  using assms unfolding execute_module_def driver_run_def run_state_def
  by (auto intro!: io_rules split: pyval.split)

section \<open>A sample task\<close>

definition sample_opt :: "string \<Rightarrow> opt" where
  "sample_opt name = \<lparr>op_name = name, op_comparison = ''strict'', op_comparison_type = ''value'', op_not_an_ansible_option = False,
     op_aliases = [], op_copy_comparison_from = None\<rparr>"

definition sample_group :: group where
  "sample_group = \<lparr>gr_options = [sample_opt ''image'', sample_opt ''networks''], gr_all_options = [sample_opt ''image''],
     gr_preprocess = retI, en_preprocess_value = retI, en_get_value = (\<lambda>raw ci hi. retI []),
     en_get_expected_values = (\<lambda>img values hi. retI []), en_compare_value = option_compare,
     en_ignore_mismatching_result = (\<lambda>op img c p hi. retI False), en_can_set_value = False, en_can_update_value = False,
     en_set_value = (\<lambda>d v. Inr d), en_update_value = (\<lambda>d v. Inr d), en_needs_container_image = (\<lambda>v. False),
     en_needs_host_info = (\<lambda>v. False)\<rparr>"

definition sample_task :: "bool \<Rightarrow> string \<Rightarrow> task" where
  "sample_task check state = \<lparr>tk_params = [(''name'', PStr ''web''), (''image'', PStr ''nginx''), (''state'', PStr state)],
     tk_check_mode = check, tk_diff = False, tk_groups = [sample_group],
     tk_comparisons = [(''image'', ''strict''), (''networks'', ''strict'')], tk_api_version = ''1.41'',
     tk_auth = (\<lambda>r. retI None), tk_removal_wait_timeout = None, tk_healthy_wait_timeout = 300\<rparr>"

definition sample_docker :: world where
  "sample_docker = sample_world (\<lambda>d e. d) (\<lambda>h v r b k. Inr PNone)"

lemma sample_group_reads [simp]: "engine_reads sample_group"
  by (simp add: engine_reads_def sample_group_def emits_ret)

theorem container_check_mode_is_safe_witness:
  "emits (\<lambda>e. \<not> mutates e) (execute_module sample_docker (sample_task True ''started''))"
  by (rule container_check_mode_is_safe) (simp_all add: sample_task_def)

section \<open>Nothing unreported\<close>

abbreviation owns :: "bool \<Rightarrow> 'a io \<Rightarrow> ('a \<Rightarrow> bool) \<Rightarrow> bool" where
  "owns b m says \<equiv> honest mutates b m says"

lemma anything: "emits P m \<Longrightarrow> emits (\<lambda>e. True) m"
  by (erule emits_mono) simp

lemma add_action_changed [simp]: "mg_changed (add_action a m)"
  by (simp add: add_action_def)

lemma same_changed [simp]: "mg_changed (note_action a m) = mg_changed m" "mg_changed (track n p q m) = mg_changed m"
  "mg_changed (note_difference d m) = mg_changed m"
  by (simp_all add: note_action_def track_def note_difference_def)

lemma anything_requests [io_rules]:
  "emits (\<lambda>e. True) (GET W p a q)" "emits (\<lambda>e. True) (POST W p a q d)" "emits (\<lambda>e. True) (DELETE W p a q)"
  unfolding GET_def POST_def DELETE_def by (rule io_rules)+

lemma anything_unpause [io_rules]: "emits (\<lambda>e. True) (unpause_again W i)"
  unfolding unpause_again_def unpause_container_def by (intro io_rules)

lemma anything_stop_tries [io_rules]: "emits (\<lambda>e. True) (stop_tries W i ps k)"
  by (induction k; subst stop_tries.simps) (auto intro!: io_rules split: sum.split)

lemma anything_remove_tries [io_rules]: "emits (\<lambda>e. True) (remove_tries W i ps k)"
  by (induction k; subst remove_tries.simps) (auto intro!: io_rules split: sum.split)

lemma anything_warn_each [io_rules]: "emits (\<lambda>e. True) (warn_each ws)"
  by (induction ws) (auto intro!: io_rules)

lemma anything_report_warnings [io_rules]: "emits (\<lambda>e. True) (report_warnings r k)"
  unfolding report_warnings_def by (auto intro!: io_rules split: option.split pyval.split)

lemma anything_driver [io_rules]:
  "emits (\<lambda>e. True) (kill_container W i s)" "emits (\<lambda>e. True) (stop_container W i v)"
  "emits (\<lambda>e. True) (remove_container W i r l f)" "emits (\<lambda>e. True) (restart_container W i v)"
  "emits (\<lambda>e. True) (update_container W i d)" "emits (\<lambda>e. True) (create_container W n d ns)"
  "emits (\<lambda>e. True) (start_container W i)" "emits (\<lambda>e. True) (pause_container W i)" "emits (\<lambda>e. True) (unpause_container W i)"
  "emits (\<lambda>e. True) (disconnect_container_from_network W i j)" "emits (\<lambda>e. True) (connect_container_to_network W i j d)"
  "emits (\<lambda>e. True) (wait_for_container W i)" "emits (\<lambda>e. True) (get_container_output W i)"
  unfolding kill_container_def stop_container_def remove_container_def restart_container_def update_container_def
    create_container_def start_container_def pause_container_def unpause_container_def disconnect_container_from_network_def
    connect_container_to_network_def wait_for_container_def get_container_output_def
  by (intro io_rules)+

lemma anything_get_cont [io_rules]: "emits (\<lambda>e. True) (get_cont W n)"
  by (rule anything) (rule io_rules)

lemma anything_change [io_rules]: "emits (\<lambda>e. True) m \<Longrightarrow> emits (\<lambda>e. True) (change W t what m)"
  unfolding change_def by (intro io_rules)

lemma anything_collect_output [io_rules]: "emits (\<lambda>e. True) (collect_output W t i)"
  unfolding collect_output_def by (intro io_rules)

lemmas owns_rules = honest_rules honest_after_change

lemma owns_kill: "owns b (container_kill W t i m) mg_changed"
  unfolding container_kill_def by (intro owns_rules io_rules) simp

lemma owns_stop: "owns b (container_stop W t i m) mg_changed"
  unfolding container_stop_def by (intro owns_rules io_rules owns_kill) simp

lemma owns_remove: "owns b (container_remove W t i l f m) mg_changed"
  unfolding container_remove_def Let_def by (intro owns_rules io_rules) simp

lemma owns_restart: "owns b (container_restart W t i m) (mg_changed \<circ> snd)"
  unfolding container_restart_def by (intro owns_rules io_rules) simp

lemma owns_update: "owns (mg_changed m) (container_update W t i ps m) (mg_changed \<circ> snd)"
  unfolding container_update_def
  by (rule honest_bind [where said = mg_changed]) (intro owns_rules io_rules honest_after_quiet | simp)+

lemma owns_create: "owns b (container_create W t ps i m) (mg_changed \<circ> snd)"
  unfolding container_create_def Let_def by (intro owns_rules io_rules | simp)+

lemma owns_start: "owns b (container_start W t i m) (mg_changed \<circ> snd)"
proof -
  let ?m = "add_action [(''started'', i)] m"
  have cleaned: "owns True (bindI (if flag t ''cleanup'' then container_remove W t i False True ?m else retI ?m) (\<lambda>m1.
      bindI (get_cont W i) (\<lambda>insp. retI (f insp, g m1)))) (mg_changed \<circ> snd)"
    if "\<And>m. mg_changed (g m) = mg_changed m" for f g
    by (rule honest_bind [where said = mg_changed])
      (auto intro!: honest_if owns_remove honest_ret honest_after_quiet io_rules simp: that)
  show ?thesis
    unfolding container_start_def Let_def
    by (intro honest_after_change honest_if cleaned honest_ret io_rules) simp_all
qed

text \<open>The steps that carry a manager along: what was changed stays reported.\<close>

abbreviation keeps :: "manager \<Rightarrow> ('a \<times> manager) io \<Rightarrow> bool" where
  "keeps m f \<equiv> owns (mg_changed m) f (mg_changed \<circ> snd)"

lemma keeps_bind: "keeps m f \<Longrightarrow> (\<And>x m'. keeps m' (g (x, m'))) \<Longrightarrow> keeps m (bindI f g)"
  by (rule honest_bind [where said = "mg_changed \<circ> snd"]) auto

lemma keeps_ret: "(mg_changed m \<Longrightarrow> mg_changed m') \<Longrightarrow> keeps m (retI (x, m'))"
  by (rule honest_ret) simp

lemma keeps_any: "owns b f says \<Longrightarrow> owns True f says \<Longrightarrow> owns b' f says"
  by (erule honest_weaken [of _ True]) simp_all

lemma keeps_read: "reads f \<Longrightarrow> (\<And>x. keeps m (g x)) \<Longrightarrow> keeps m (bindI f g)"
  by (rule honest_after_quiet)

lemma keeps_manager: "owns (mg_changed m) f mg_changed \<Longrightarrow> (\<And>m'. keeps m' (g m')) \<Longrightarrow> keeps m (bindI f g)"
  by (rule honest_bind [where said = mg_changed])

lemma keeps_limits: "engines_read ps \<Longrightarrow> keeps m (update_limits W t ps c ci i hi m)"
proof -
  assume e: "engines_read ps"
  have u: "keeps m' (bindI (container_update W t i ps' m') (\<lambda>(c1, m2). bindI (get_cont W j) (\<lambda>c'. retI (c', m2))))" for m' ps' i j
    by (rule keeps_bind [OF owns_update]) (auto intro!: keeps_read keeps_ret io_rules)
  show ?thesis
    unfolding update_limits_def Let_def
  proof (rule keeps_read [OF reads_differences(2) [OF e]], rule honest_pair)
    fix x differ d
    let ?m1 = "if differ then m\<lparr>mg_tracker := tracker_merge d (mg_tracker m)\<rparr> else m"
    have "keeps ?m1 (if differ \<and> \<not> tk_check_mode t then bindI (liftI (compose_update_parameters ps)) (\<lambda>ps.
         bindI (container_update W t (co_id c) ps ?m1) (\<lambda>(c1, m2).
         bindI (get_cont W (co_id c)) (\<lambda>c'. retI (c', m2)))) else retI (c, ?m1))"
      by (intro honest_if keeps_read keeps_ret u io_rules)
    moreover have "mg_changed ?m1 = mg_changed m" by simp
    ultimately show "keeps m (if differ \<and> \<not> tk_check_mode t then bindI (liftI (compose_update_parameters ps)) (\<lambda>ps.
         bindI (container_update W t (co_id c) ps ?m1) (\<lambda>(c1, m2).
         bindI (get_cont W (co_id c)) (\<lambda>c'. retI (c', m2)))) else retI (c, ?m1))" by simp
  qed
qed

lemma anything_add_networks [io_rules]: "emits (\<lambda>e. True) (add_networks W t c ds m)"
  by (induction ds arbitrary: m) (auto intro!: io_rules simp: Let_def)

lemma anything_purge_networks [io_rules]: "emits (\<lambda>e. True) (purge_networks W t c es m)"
  by (induction es arbitrary: m) (auto intro!: io_rules)

lemma owns_add_networks: "mg_changed m \<Longrightarrow> owns b (add_networks W t c ds m) mg_changed"
proof (induction ds arbitrary: m b)
  case (Cons d ds)
  have rest: "owns True (bindI (change W t what f) (\<lambda>_. add_networks W t c ds (note_action a m'))) mg_changed"
    if "mg_changed m'" "emits (\<lambda>e. True) f" for m' a what and f :: "'b io"
    by (intro honest_after_change io_rules that Cons.IH) (simp add: that)
  show ?case unfolding add_networks.simps Let_def
    by (rule honest_claimed [where said = mg_changed])
      (intro rest honest_after_change honest_if honest_ret io_rules | simp add: Cons.prems)+
qed (simp add: honest_ret)

lemma owns_purge_networks: "mg_changed m \<Longrightarrow> owns b (purge_networks W t c es m) mg_changed"
proof (induction es arbitrary: m b)
  case (Cons e es)
  then show ?case unfolding purge_networks.simps
    by (cases e) (auto intro!: honest_after_change io_rules Cons.IH)
qed (simp add: honest_ret)

lemmas owns_networks = owns_add_networks owns_purge_networks

lemma keeps_networks: "keeps m (update_networks W t c created m)"
proof -
  have fin: "owns b (bindI f (\<lambda>m1. bindI (get_cont W i) (\<lambda>c'. retI (c', m1)))) (mg_changed \<circ> snd)"
    if "owns b f mg_changed" for b f i
    by (rule honest_bind [OF that]) (auto intro!: honest_after_quiet io_rules honest_ret)
  have miss: "keeps m (missing_networks W t c m)" for m
    unfolding missing_networks_def
    by (intro keeps_read io_rules honest_if keeps_ret fin owns_networks) simp_all
  have surplus: "keeps m (surplus_networks W t c (u, m))" for u m
    unfolding surplus_networks_def prod.case
    by (intro keeps_read io_rules honest_if keeps_ret fin owns_networks) simp_all
  show ?thesis
    unfolding update_networks_def
    by (intro keeps_read io_rules keeps_bind [where m = m] honest_if keeps_ret miss surplus)
      (auto intro!: honest_if keeps_ret surplus miss keeps_read io_rules)
qed

lemma owns_in_place: "owns b (create_in_place W t ps i c m) (mg_changed \<circ> snd)"
  unfolding create_in_place_def
  by (rule honest_bind [OF owns_create]) (auto intro!: honest_ret)

lemma owns_create_new: "owns b (create_new W t ps c r m) (mg_changed \<circ> snd)"
  unfolding create_new_def
  by (intro honest_if honest_after_quiet io_rules owns_in_place) (simp add: fail_client_def honest_raise)

lemma owns_recreate: "keeps m (recreate W t ps c m)"
  unfolding recreate_def Let_def
  by (intro honest_if honest_after_quiet io_rules honest_bind [where said = mg_changed] owns_stop owns_remove owns_in_place
      honest_ret) (simp_all add: fail_client_def honest_raise)

lemma image_is_different_changed: "image_is_different i c m = Inr (d, m') \<Longrightarrow> mg_changed m' = mg_changed m"
  unfolding image_is_different_def by (auto simp: bindR_eq_Inr split: if_splits)

lemma keeps_must_recreate: "keeps m (must_recreate t i c d m)"
  unfolding must_recreate_def
  by (intro keeps_read io_rules honest_if keeps_ret honest_bind [where m = "liftI (image_is_different i c m)" and said = "mg_changed \<circ> snd"]
      honest_lift honest_pair) (auto simp: image_is_different_changed intro!: honest_if keeps_ret keeps_read io_rules)

lemma keeps_recreate: "mg_changed m' = mg_changed m \<Longrightarrow>
    keeps m (bindI (recreate W t ps c m') (\<lambda>(c', m3). retI ((f c', m3) :: 'b \<times> manager)))"
  by (rule honest_bind [where said = "mg_changed \<circ> snd"]) (use owns_recreate [of m' W t ps c] in \<open>auto intro!: honest_ret\<close>)

lemma keeps_provide: "engines_read ps \<Longrightarrow> keeps m (provide W t ps c is hi m)"
  unfolding provide_def Let_def
  by (cases "is") (auto intro!: keeps_recreate keeps_read keeps_bind [OF keeps_must_recreate] honest_if honest_pair keeps_ret
      honest_bind [OF owns_create_new] honest_ret emits_lift reads_differences)

lemma owns_get_cont: "owns b f mg_changed \<Longrightarrow> owns b (bindI f (\<lambda>m1. bindI (get_cont W i) (\<lambda>c'. retI (c', m1)))) (mg_changed \<circ> snd)"
  by (rule honest_bind [where said = mg_changed]) (auto intro!: honest_after_quiet io_rules honest_ret)

lemma keeps_running: "keeps m (set_running W t s b c m)"
  unfolding set_running_def
  by (intro keeps_read emits_lift honest_if owns_start owns_restart owns_get_cont owns_stop keeps_ret) simp

lemma keeps_paused: "keeps m (set_paused W t s v c m)"
proof -
  have paused: "emits (\<lambda>e. True) (or_fail W f (if b then pause_container W i else unpause_container W i))" for f b i
    by (intro io_rules)
  show ?thesis
    unfolding set_paused_def Let_def
    by (intro keeps_read emits_lift honest_if honest_after_change paused keeps_ret honest_after_quiet reads_get_cont honest_ret) simp_all
qed

text \<open>From the image to the end.\<close>

lemma keeps_after_image:
  assumes "engines_read ps"
  shows "keeps m1 (after_image W t s ps c b p (imgs, m1))"
proof -
  have changed: "keeps m (if \<not> co_exists c1 then retI (c1, m)
      else bindI (update_limits W t ps c1 ci i hi m) (\<lambda>(c2, m3).
        bindI (update_networks W t c2 created m3) (\<lambda>(c3, m4).
        bindI (set_running W t s b c3 m4) (\<lambda>(c4, m5). set_paused W t s p c4 m5))))" for m c1 ci i hi created b p
    by (intro honest_if keeps_ret keeps_bind keeps_limits assms(1)) (auto intro!: keeps_bind keeps_networks keeps_running keeps_paused)
  have finish: "keeps m (if s = ''healthy'' \<and> \<not> tk_check_mode t then
      bindI (wait_for_state W w i) (\<lambda>x. retI (f x, m)) else retI (r, m))" for m w i f r
    by (intro honest_if keeps_read keeps_ret reads_wait_for_state)
  show ?thesis
    unfolding after_image_def prod.case
    by (rule keeps_read) (auto intro!: emits_if reads_GET emits_ret keeps_bind [OF keeps_provide [OF assms(1)]]
      keeps_bind [OF changed] finish)
qed

lemma owns_absent: "owns (mg_changed m) (absent W t m) mg_changed"
  unfolding absent_def
  by (intro honest_after_quiet reads_get_cont emits_lift honest_if honest_bind [where said = mg_changed] owns_stop owns_remove
      honest_ret)

section \<open>Pulling the image\<close>

text \<open>The credentials for a registry are looked up, and no more.\<close>

definition auth_reads :: "task \<Rightarrow> bool" where
  "auth_reads t \<longleftrightarrow> (\<forall>r. reads (tk_auth t r))"

text \<open>The image that the daemon has under the name the task asks for, after a history of requests.\<close>

definition image_at :: "world \<Rightarrow> task \<Rightarrow> event list \<Rightarrow> pyval res" where
  "image_at W t h = fst (image_by_name W t (py_str (param t ''image'')) h)"

text \<open>The daemon was left as it was: it was only asked, or asked to pull an image that it has just as well before as after.\<close>

abbreviation only_asks :: "event list \<Rightarrow> bool" where
  "only_asks es \<equiv> list_all (\<lambda>e. \<not> mutates e) es"

definition left_alone :: "world \<Rightarrow> task \<Rightarrow> event list \<Rightarrow> event list \<Rightarrow> bool" where
  "left_alone W t h es \<longleftrightarrow> only_asks es \<or>
     (\<exists>before asked pull after old new. es = before @ asked @ pull # after \<and> pulls pull \<and> only_asks (before @ asked @ after) \<and>
        image_at W t (h @ before) = Inr old \<and> image_at W t (h @ before @ asked @ [pull]) = Inr new \<and> py_eq old new)"

lemma left_alone_between:
  assumes "only_asks xs" "only_asks zs" "left_alone W t (h @ xs) ys"
  shows "left_alone W t h (xs @ ys @ zs)"
proof (cases "only_asks ys")
  case False
  with assms(3) obtain before asked pull after old new where p: "ys = before @ asked @ pull # after" "pulls pull"
      "only_asks (before @ asked @ after)" "image_at W t ((h @ xs) @ before) = Inr old"
      "image_at W t ((h @ xs) @ before @ asked @ [pull]) = Inr new" "py_eq old new"
    unfolding left_alone_def by blast
  with assms(1,2) show ?thesis
    unfolding left_alone_def
    by (intro disjI2 exI [of _ "xs @ before"] exI [of _ asked] exI [of _ pull] exI [of _ "after @ zs"] exI [of _ old] exI [of _ new]) simp
qed (use assms in \<open>simp add: left_alone_def\<close>)

lemma only_asks_left_alone: "only_asks es \<Longrightarrow> left_alone W t h es"
  by (simp add: left_alone_def)

lemma reads_run: "reads m \<Longrightarrow> m h = (r, h') \<Longrightarrow> \<exists>es. h' = h @ es \<and> only_asks es"
  unfolding emits_def by (metis snd_conv)

lemma or_fail_Inr: "or_fail W f m h = (Inr x, h') \<longleftrightarrow> m h = (Inr x, h')"
  unfolding or_fail_def tryI_def by (auto simp: fail_client_def run_simps split: prod.splits sum.splits if_splits)

text \<open>A pull asks for the image before and after, and compares the two answers.\<close>

lemma pull_image_run:
  assumes "auth_reads t" "pull_image W v (tk_auth t) n g platform h = (Inr (new, already), h')"
  shows "\<exists>asked pull after old. h' = h @ asked @ pull # after \<and> pulls pull \<and> only_asks (asked @ after)
    \<and> fst (find_image W v n g h) = Inr old \<and> fst (find_image W v n g (h @ asked @ [pull])) = Inr new \<and> already = py_eq old new"
proof -
  obtain repository tag where name: "parse_repository_tag n = (repository, tag)" by (cases "parse_repository_tag n")
  from assms(2) obtain old h1 registry header h2 ev h3 where
    run: "find_image W v n g h = (Inr old, h1)" "tk_auth t registry h1 = (Inr header, h2)" "h3 = h2 @ [ev]" "pulls ev"
      "find_image W v n g h3 = (Inr new, h')" "already = py_eq old new"
    unfolding pull_image_def name
    by (simp add: bind_Inr_iff or_fail_Inr run_simps ext_def split: prod.splits)
      (elim exE conjE, rule that, assumption, assumption, erule sym, simp add: pulls_def, assumption, erule sym)
  have "reads (tk_auth t registry)" using assms(1) by (simp add: auth_reads_def)
  from reads_run [OF reads_find_image run(1)] reads_run [OF this run(2)] reads_run [OF reads_find_image run(5)]
  obtain es1 es2 es3 where es: "h1 = h @ es1" "h2 = h1 @ es2" "h' = h3 @ es3" "only_asks es1" "only_asks es2" "only_asks es3"
    by blast
  with run show ?thesis
    by (intro exI [of _ "es1 @ es2"] exI [of _ ev] exI [of _ es3] exI [of _ old]) simp
qed

lemma pull_if_needed_run:
  assumes "auth_reads t" "pull_if_needed W t (py_str (param t ''image'')) found m h = (Inr (img, m'), h')" "\<not> mg_changed m'"
  shows "\<exists>es. h' = h @ es \<and> left_alone W t h es"
proof -
  obtain n tag where name: "parse_repository_tag (py_str (param t ''image'')) = (n, tag)"
    by (cases "parse_repository_tag (py_str (param t ''image''))")
  define g where "g = (case tag of None \<Rightarrow> ''latest'' | Some x \<Rightarrow> if x = [] then ''latest'' else x)"
  have at: "image_at W t h = fst (find_image W (tk_api_version t) n g h)" for h
    by (simp add: image_at_def image_by_name_def name g_def)
  from assms(2,3) consider "h' = h"
    | already where "pull_image W (tk_api_version t) (tk_auth t) n g (param t ''platform'') h = (Inr (img, already), h')" "already"
    by (auto simp: pull_if_needed_def name Let_def g_def [symmetric] bind_Inr_iff run_simps fail_client_def split: if_splits prod.splits)
  then show ?thesis
  proof cases
    case 2
    from pull_image_run [OF assms(1) 2(1)] obtain asked pull after old where p: "h' = h @ asked @ pull # after" "pulls pull"
        "only_asks (asked @ after)" "image_at W t h = Inr old" "image_at W t (h @ asked @ [pull]) = Inr img" "py_eq old img"
      using 2(2) unfolding at by blast
    then have "left_alone W t h (asked @ pull # after)"
      unfolding left_alone_def
      by (intro disjI2 exI [of _ "[]"] exI [of _ asked] exI [of _ pull] exI [of _ after] exI [of _ old] exI [of _ img]) simp
    with p(1) show ?thesis by blast
  qed (simp add: left_alone_def)
qed

lemma left_alone_bind:
  assumes "bindI f g h = (Inr y, h')" "reads f" "\<And>x h1. f h = (Inr x, h1) \<Longrightarrow> g x h1 = (Inr y, h') \<Longrightarrow> \<exists>es. h' = h1 @ es \<and> left_alone W t h1 es"
  shows "\<exists>es. h' = h @ es \<and> left_alone W t h es"
proof -
  from assms(1) obtain x h1 where f: "f h = (Inr x, h1)" and g: "g x h1 = (Inr y, h')" by (auto simp: bind_Inr_iff)
  from reads_run [OF assms(2) f] obtain as where as: "h1 = h @ as" "only_asks as" by blast
  from assms(3) [OF f g] obtain es where "h' = h1 @ es" "left_alone W t h1 es" by blast
  with as left_alone_between [of as "[]" W t h es] show ?thesis by auto
qed

lemma left_alone_then:
  assumes "bindI f g h = (Inr y, h')" "\<And>x h1. f h = (Inr x, h1) \<Longrightarrow> g x h1 = (Inr y, h') \<Longrightarrow> \<exists>es. h1 = h @ es \<and> left_alone W t h es"
    "\<And>x h1. g x h1 = (Inr y, h') \<Longrightarrow> \<exists>es. h' = h1 @ es \<and> only_asks es"
  shows "\<exists>es. h' = h @ es \<and> left_alone W t h es"
proof -
  from assms(1) obtain x h1 where f: "f h = (Inr x, h1)" and g: "g x h1 = (Inr y, h')" by (auto simp: bind_Inr_iff)
  from assms(2) [OF f g] assms(3) [OF g] obtain es as where "h1 = h @ es" "left_alone W t h es" "h' = h1 @ as" "only_asks as" by blast
  with left_alone_between [of "[]" as W t h es] show ?thesis by auto
qed

lemma left_alone_reads: "reads f \<Longrightarrow> f h = (Inr y, h') \<Longrightarrow> \<exists>es. h' = h @ es \<and> left_alone W t h es"
  using reads_run [of f h "Inr y" h'] only_asks_left_alone by blast

lemma get_image_run:
  assumes "auth_reads t" "get_image W t c b m h = (Inr (imgs, m'), h')" "\<not> mg_changed m'"
  shows "\<exists>es. h' = h @ es \<and> left_alone W t h es"
proof -
  have theirs: "reads (if b \<or> \<not> flag t ''image'' then get_container_image W t c else retI PNone)"
    by (intro io_rules)
  have last: "\<exists>es. h2 = h1 @ es \<and> only_asks es \<and> m1 = m'"
    if "(if param t ''image_comparison'' = PStr ''current-image'' then
          bindI (if b \<or> \<not> flag t ''image'' then retI cont else get_container_image W t c) (\<lambda>cur. retI ((img, cur, cur), m1))
        else retI ((img, cont, img), m1)) h1 = (Inr (imgs, m'), h2)" for cont img m1 h1 h2
  proof -
    have "reads (if b \<or> \<not> flag t ''image'' then retI cont else get_container_image W t c)" by (intro io_rules)
    from reads_run [OF this] that show ?thesis by (auto simp: bind_Inr_iff run_simps split: if_splits)
  qed
  show ?thesis
    using assms(2) unfolding get_image_def Let_def
  proof (rule left_alone_bind [OF _ theirs])
    fix cont h1
    assume rest: "(if \<not> flag t ''image'' then retI ((PNone, cont, cont), m) else bindI
          (if is_image_name_id (py_str (param t ''image'')) then
             bindI (find_image_by_id W (PStr (py_str (param t ''image''))) True) (\<lambda>img.
               if img = PNone then fail_client (''Cannot find image with ID '' @ py_str (param t ''image'')) else retI (img, m))
           else bindI (image_by_name W t (py_str (param t ''image''))) (\<lambda>found. pull_if_needed W t (py_str (param t ''image'')) found m))
          (\<lambda>(img, m'). if param t ''image_comparison'' = PStr ''current-image'' then
             bindI (if b \<or> \<not> flag t ''image'' then retI cont else get_container_image W t c) (\<lambda>cur. retI ((img, cur, cur), m'))
           else retI ((img, cont, img), m'))) h1 = (Inr (imgs, m'), h')"
    show "\<exists>es. h' = h1 @ es \<and> left_alone W t h1 es"
    proof (cases "flag t ''image''")
      case False
      with rest show ?thesis by (auto simp: run_simps intro: only_asks_left_alone)
    next
      case True
      let ?img = "if is_image_name_id (py_str (param t ''image'')) then
             bindI (find_image_by_id W (PStr (py_str (param t ''image''))) True) (\<lambda>img.
               if img = PNone then fail_client (''Cannot find image with ID '' @ py_str (param t ''image'')) else retI (img, m))
           else bindI (image_by_name W t (py_str (param t ''image''))) (\<lambda>found. pull_if_needed W t (py_str (param t ''image'')) found m)"
      show ?thesis
      proof (rule left_alone_then [where f = ?img])
        fix x h2
        assume found: "?img h1 = (Inr x, h2)" and after: "(case x of (img, m') \<Rightarrow> if param t ''image_comparison'' = PStr ''current-image'' then
             bindI (if b \<or> \<not> flag t ''image'' then retI cont else get_container_image W t c) (\<lambda>cur. retI ((img, cur, cur), m'))
           else retI ((img, cont, img), m')) h2 = (Inr (imgs, m'), h')"
        obtain img where x: "x = (img, m')" using after by (cases x) (auto dest: last)
        show "\<exists>es. h2 = h1 @ es \<and> left_alone W t h1 es"
        proof (cases "is_image_name_id (py_str (param t ''image''))")
          case True
          then have "reads ?img" by (auto intro!: io_rules)
          from left_alone_reads [OF this found] show ?thesis .
        next
          case False
          then have "bindI (image_by_name W t (py_str (param t ''image''))) (\<lambda>found. pull_if_needed W t (py_str (param t ''image'')) found m) h1
              = (Inr (img, m'), h2)" using found x by simp
          then show ?thesis
            by (rule left_alone_bind) (auto intro: io_rules pull_if_needed_run [OF assms(1) _ assms(3)])
        qed
      next
        show "bindI ?img (\<lambda>(img, m'). if param t ''image_comparison'' = PStr ''current-image'' then
             bindI (if b \<or> \<not> flag t ''image'' then retI cont else get_container_image W t c) (\<lambda>cur. retI ((img, cur, cur), m'))
           else retI ((img, cont, img), m')) h1 = (Inr (imgs, m'), h')" using rest True by simp
      qed (auto dest: last)
    qed
  qed
qed

text \<open>A run that reports no change has left the daemon alone.\<close>

lemma keeps_unchanged: "keeps m f \<Longrightarrow> f h = (Inr (x, m'), h') \<Longrightarrow> \<not> mg_changed m' \<Longrightarrow> \<not> mg_changed m \<and> (\<exists>es. h' = h @ es \<and> only_asks es)"
  unfolding honest_def quiet_list by fastforce

lemma bring_about_run:
  assumes "engines_read ps" "auth_reads t" "bring_about W t s m0 ps h = (Inr (facts, m), h')" "\<not> mg_changed m"
  shows "\<exists>es. h' = h @ es \<and> left_alone W t h es"
  using assms(3) unfolding bring_about_def
proof (rule left_alone_bind [OF _ reads_get_cont])
  fix c h1
  assume "bindI (liftI (co_running c)) (\<lambda>was_running. bindI (liftI (co_paused c)) (\<lambda>was_paused.
      bindI (get_image W t c (needs_container_image ps) m0) (after_image W t s ps c was_running was_paused))) h1 = (Inr (facts, m), h')"
  then obtain b p where run: "bindI (get_image W t c (needs_container_image ps) m0) (after_image W t s ps c b p) h1 = (Inr (facts, m), h')"
    by (auto simp: bind_Inr_iff run_simps)
  then show "\<exists>es. h' = h1 @ es \<and> left_alone W t h1 es"
  proof (rule left_alone_then)
    fix x h2
    assume img: "get_image W t c (needs_container_image ps) m0 h1 = (Inr x, h2)" and rest: "after_image W t s ps c b p x h2 = (Inr (facts, m), h')"
    obtain imgs m1 where x: "x = (imgs, m1)" by (cases x)
    from keeps_unchanged [OF keeps_after_image [OF assms(1)] rest [unfolded x] assms(4)] have "\<not> mg_changed m1" by blast
    with img show "\<exists>es. h2 = h1 @ es \<and> left_alone W t h1 es" unfolding x by (intro get_image_run [OF assms(2)])
  next
    fix x h2
    assume rest: "after_image W t s ps c b p x h2 = (Inr (facts, m), h')"
    obtain imgs m1 where x: "x = (imgs, m1)" by (cases x)
    from keeps_unchanged [OF keeps_after_image [OF assms(1)] rest [unfolded x] assms(4)]
    show "\<exists>es. h' = h2 @ es \<and> only_asks es" by blast
  qed
qed

lemma present_run:
  assumes "list_all engine_reads (tk_groups t)" "auth_reads t" "present W t s m0 h = (Inr (facts, m), h')" "\<not> mg_changed m"
  shows "\<exists>es. h' = h @ es \<and> left_alone W t h es"
  using assms(3) unfolding present_def
  by (rule left_alone_bind [OF _ reads_collect_params [OF assms(1)]])
    (rule bring_about_run [OF collect_params_engines [OF _ assms(1)] assms(2) _ assms(4)])

lemma absent_run: "absent W t m0 h = (Inr m, h') \<Longrightarrow> \<not> mg_changed m \<Longrightarrow> \<exists>es. h' = h @ es \<and> left_alone W t h es"
  using owns_absent [of m0 W t] only_asks_left_alone unfolding honest_def quiet_list by blast

text \<open>A run of the container module that reports no change has made none: the daemon was only asked, or asked to pull
  an image that it has just as well before as after. The engines of the options and the credentials have to keep to reading.\<close>

theorem unreported_means_unchanged:
  assumes "list_all engine_reads (tk_groups t)" "auth_reads t"
    and "run_state W t m0 h = (Inr (facts, m), h @ es)"
    and "dget (results_of t facts m) ''changed'' = PBool False"
  shows "left_alone W t h es"
proof -
  have same: "\<not> mg_changed m" using assms(4) by (simp add: results_of_def dget_def)
  from assms(3) consider state where "present W t state m0 h = (Inr (facts, m), h @ es)"
    | "absent W t m0 h = (Inr m, h @ es)" | "es = []"
    by (auto simp: run_state_def bind_Inr_iff run_simps split: pyval.splits if_splits)
  then have "\<exists>es'. h @ es = h @ es' \<and> left_alone W t h es'"
  proof cases
    case 1 then show ?thesis by (rule present_run [OF assms(1,2) _ same])
  next
    case 2 then show ?thesis by (rule absent_run [OF _ same])
  qed (simp add: left_alone_def)
  then show ?thesis by simp
qed

text \<open>A daemon with one running container, made from the image it still has.\<close>

definition web_container :: pyval where
  "web_container = PDict [(''Id'', PStr ''c1''), (''Names'', PList [PStr ''/web'']), (''Image'', PStr ''sha256:1''),
     (''Config'', PDict [(''Image'', PStr ''nginx'')]), (''State'', PDict [(''Status'', PStr ''running''), (''Running'', PBool True)])]"

definition one_container :: world where
  "one_container = sample_docker\<lparr>w_ext := (\<lambda>h name args.
     if name \<noteq> ''GET'' then Inr PNone
     else if hd args = PStr ''/containers/json'' then Inr (PList [web_container])
     else if hd args = PStr ''/containers/{0}/json'' then Inr web_container
     else if hd args = PStr ''/images/json'' then Inr (PList [PDict [(''Id'', PStr ''sha256:1''), (''RepoTags'', PList [PStr ''nginx:latest''])]])
     else Inr (PDict [(''Id'', PStr ''sha256:1'')]))\<rparr>"

theorem unreported_means_unchanged_witness:
  "case run_state one_container (sample_task False ''started'') new_manager [] of
     (Inr (facts, m), h) \<Rightarrow> facts = web_container \<and> length h = 4 \<and> left_alone one_container (sample_task False ''started'') [] h | _ \<Rightarrow> False"
proof -
  have "case run_state one_container (sample_task False ''started'') new_manager [] of
     (Inr (facts, m), h) \<Rightarrow> \<not> mg_changed m \<and> facts = web_container \<and> length h = 4 | _ \<Rightarrow> False" by code_simp
  then obtain facts m h where run: "run_state one_container (sample_task False ''started'') new_manager [] = (Inr (facts, m), [] @ h)"
    "\<not> mg_changed m" "facts = web_container" "length h = 4"
    by (auto split: prod.splits sum.splits)
  have "left_alone one_container (sample_task False ''started'') [] h"
    by (rule unreported_means_unchanged [OF _ _ run(1)])
      (simp_all add: sample_task_def auth_reads_def emits_ret results_of_def dget_def run(2))
  with run show ?thesis by simp
qed

text \<open>With \<open>pull: always\<close>, a pull that brings the image the daemon has already is no change; one that brings another is.\<close>

definition pulling_task :: task where
  "pulling_task = (sample_task False ''started'')\<lparr>tk_params := [(''name'', PStr ''web''), (''image'', PStr ''nginx''), (''state'', PStr ''started''),
     (''pull'', PStr ''always'')], tk_comparisons := [(''image'', ''ignore''), (''networks'', ''strict'')]\<rparr>"

definition pulling_docker :: "string \<Rightarrow> world" where
  "pulling_docker new = one_container\<lparr>w_ext := (\<lambda>h name args.
     if name = ''POST'' \<and> hd args = PStr ''/images/create'' then Inr (PList [])
     else if name = ''GET'' \<and> hd args = PStr ''/images/{0}/json'' \<and> list_ex pulls h then Inr (PDict [(''Id'', PStr new)])
     else w_ext one_container h name args)\<rparr>"

lemma same_image_pulled:
  "case run_state (pulling_docker ''sha256:1'') pulling_task new_manager [] of
     (Inr (facts, m), h) \<Rightarrow> \<not> mg_changed m \<and> list_ex pulls h | _ \<Rightarrow> False"
  by code_simp

lemma new_image_pulled:
  "case run_state (pulling_docker ''sha256:2'') pulling_task new_manager [] of
     (Inr (facts, m), h) \<Rightarrow> mg_changed m \<and> list_ex pulls h | _ \<Rightarrow> False"
  by code_simp

section \<open>Limits\<close>

text \<open>An update of the limits is made, and reported, outside check mode only: the other operations of the manager
  report in check mode the change they would make.\<close>

lemma limits_unreported_in_check_mode:
  assumes "tk_check_mode t" and "update_limits W t ps c ci i hi m h = (Inr (c', m'), h')"
  shows "c' = c \<and> mg_changed m' = mg_changed m \<and> mg_actions m' = mg_actions m"
  using assms by (auto simp: update_limits_def bind_Inr_iff run_simps Let_def split: if_splits)

definition limit_group :: group where
  "limit_group = sample_group\<lparr>gr_options := [sample_opt ''memory''], gr_all_options := [sample_opt ''memory''],
     en_get_value := (\<lambda>raw ci hi. retI [(''memory'', PInt 1)]), en_get_expected_values := (\<lambda>img values hi. retI values),
     en_can_update_value := True, en_update_value := (\<lambda>d v. Inr (dict_update d v))\<rparr>"

definition limit_task :: "bool \<Rightarrow> task" where
  "limit_task check = (sample_task check ''started'')\<lparr>tk_comparisons := [(''memory'', ''strict'')]\<rparr>"

definition web :: container where
  "web = \<lparr>co_raw = web_container, co_container = web_container, co_id = PStr ''c1'', co_image = PStr ''sha256:1'', co_image_name = PStr ''nginx''\<rparr>"

lemma limits_unreported_in_check_mode_witness:
  "\<exists>m' h'. update_limits one_container (limit_task True) [(limit_group, [(''memory'', PInt 2)])] web PNone PNone PNone new_manager []
      = (Inr (web, m'), h') \<and> mg_tracker m' \<noteq> [] \<and> \<not> mg_changed m'"
proof -
  have "case update_limits one_container (limit_task True) [(limit_group, [(''memory'', PInt 2)])] web PNone PNone PNone new_manager [] of
     (Inr (c', m'), h') \<Rightarrow> mg_tracker m' \<noteq> [] | _ \<Rightarrow> False" by code_simp
  then obtain c' m' h' where run: "update_limits one_container (limit_task True) [(limit_group, [(''memory'', PInt 2)])] web PNone PNone PNone
      new_manager [] = (Inr (c', m'), h')" "mg_tracker m' \<noteq> []"
    by (auto split: prod.splits sum.splits)
  have check: "tk_check_mode (limit_task True)" by (simp add: limit_task_def sample_task_def)
  from run limits_unreported_in_check_mode [OF check run(1)] show ?thesis by (simp add: new_manager_def)
qed

lemma limits_are_reported_otherwise:
  "case update_limits one_container (limit_task False) [(limit_group, [(''memory'', PInt 2)])] web PNone PNone PNone new_manager [] of
     (Inr (c', m'), h') \<Rightarrow> mg_changed m' | _ \<Rightarrow> False"
  by code_simp

end
