(* ===== verification/DockerTableFacts.thy ===== *)
theory DockerTableFacts
  imports DockerTable DockerManagerSafety
begin

text \<open>
  The table of all options of \<open>docker_container\<close>: its engines only ask the daemon, so that what
  is proved of the manager holds of the module as it is; each option writes fields of its own,
  so that none disturbs another; a plain option is read back from the container that was
  created with it. A port with several bindings is where the table goes wrong.
\<close>

section \<open>Engines only ask\<close>

lemma reads_option_group: "(\<And>v. reads (pre v)) \<Longrightarrow> engine_reads (option_group pre options)"
  by (auto simp: engine_reads_def option_group_def intro!: io_rules)

lemma reads_pure [io_rules]: "reads (pure f v)" "reads (log_values v)"
  unfolding pure_def log_values_def by (intro io_rules emits_pair)+

lemma reads_more_options [io_rules]:
  "engine_reads g \<Longrightarrow> engine_reads (g\<lparr>gr_all_options := os\<rparr>)" "engine_reads g \<Longrightarrow> engine_reads (g\<lparr>en_compare_value := cmp\<rparr>)"
  by (simp_all add: engine_reads_def)

lemma reads_preprocess_single [io_rules]: "(\<And>f v. pre = Some f \<Longrightarrow> reads (f v)) \<Longrightarrow> reads (preprocess_single pre os vs)"
  unfolding preprocess_single_def by (intro io_rules emits_option) simp_all

lemma reads_value [io_rules]:
  assumes "engine_reads g"
  shows "engine_reads (config_value n g)" "engine_reads (host_config_value n g)"
  using assms by (auto simp: engine_reads_def config_value_def host_config_value_def value_engine_def intro!: io_rules)

lemma reads_preprocess_value: "engine_reads g \<Longrightarrow> (\<And>v. reads (f v)) \<Longrightarrow> engine_reads (preprocess_value f g)"
  by (auto simp: engine_reads_def preprocess_value_def intro!: io_rules)

lemma reads_ignore_mismatching:
  "engine_reads g \<Longrightarrow> (\<And>option a b c d. reads (f option a b c d)) \<Longrightarrow> engine_reads (ignore_mismatching f g)"
  by (auto simp: engine_reads_def ignore_mismatching_def)

lemma reads_keywords [io_rules]:
  assumes "engine_reads g"
  shows "engine_reads (postprocess_for_get n post g)" "engine_reads (get_expected_value expected g)" "engine_reads (update_parameter n g)"
  using assms by (auto simp: engine_reads_def postprocess_for_get_def get_expected_value_def update_parameter_def intro!: io_rules)

lemma reads_preprocess_functions [io_rules]:
  "reads (preprocess_cpus S v)" "reads (each_of f v)" "reads (preprocess_etc_hosts v)" "reads (preprocess_healthcheck_value v)"
  "reads (preprocess_links params v)" "reads (ignore_mismatching_label params option a b c d)"
  unfolding preprocess_cpus_def each_of_def preprocess_etc_hosts_def preprocess_healthcheck_value_def preprocess_links_def
    ignore_mismatching_label_def fail_client_def Let_def
  by (intro io_rules)+

lemma reads_preprocess_container_names [io_rules]: "reads (preprocess_container_names W v)"
  unfolding preprocess_container_names_def Let_def by (intro io_rules)

lemma reads_network_values [io_rules]: "reads (preprocess_network_values W v)"
  unfolding preprocess_network_values_def with_network_id_def get_network_id_def fail_client_def by (intro io_rules)

lemma reads_bridge_ip [io_rules]: "reads (bridge_ip W ns)"
  by (induction ns) (auto simp: fail_client_def intro!: io_rules)

lemma reads_ports_values [io_rules]: "reads (preprocess_value_ports W params v)"
  unfolding preprocess_value_ports_def get_default_host_ip_def by (intro io_rules)

lemma reads_engines [io_rules]:
  assumes "engine_reads g"
  shows "engine_reads (detach_interactive_engine g)" "engine_reads (log_driver_options_engine g)" "engine_reads (network_engine W g)"
    "engine_reads (platform_engine g)" "engine_reads (restart_policy_engine g)" "engine_reads (mounts_volumes_engine g)"
    "engine_reads (ports_engine W S g)"
  using assms
  by (auto simp: engine_reads_def detach_interactive_engine_def log_driver_options_engine_def network_engine_def platform_engine_def
      restart_policy_engine_def mounts_volumes_engine_def ports_engine_def ignore_mismatching_network_def intro!: io_rules)

lemmas option_defs =
  OPTION_AUTO_REMOVE_def OPTION_BLKIO_WEIGHT_def OPTION_CAPABILITIES_def OPTION_CAP_DROP_def OPTION_CGROUP_NS_MODE_def 
  OPTION_CGROUP_PARENT_def OPTION_COMMAND_def OPTION_CPU_PERIOD_def OPTION_CPU_QUOTA_def OPTION_CPUSET_CPUS_def OPTION_CPUSET_MEMS_def 
  OPTION_CPU_SHARES_def OPTION_ENTRYPOINT_def OPTION_CPUS_def OPTION_DETACH_INTERACTIVE_def OPTION_DEVICES_def 
  OPTION_DEVICE_READ_BPS_def OPTION_DEVICE_WRITE_BPS_def OPTION_DEVICE_READ_IOPS_def OPTION_DEVICE_WRITE_IOPS_def 
  OPTION_DEVICE_REQUESTS_def OPTION_DEVICE_CGROUP_RULES_def OPTION_DNS_SERVERS_def OPTION_DNS_OPTS_def OPTION_DNS_SEARCH_DOMAINS_def 
  OPTION_DOMAINNAME_def OPTION_ENVIRONMENT_def OPTION_ETC_HOSTS_def OPTION_GROUPS_def OPTION_HEALTHCHECK_def OPTION_HOSTNAME_def 
  OPTION_IMAGE_def OPTION_INIT_def OPTION_IPC_MODE_def OPTION_KERNEL_MEMORY_def OPTION_LABELS_def OPTION_LINKS_def 
  OPTION_LOG_DRIVER_OPTIONS_def OPTION_MAC_ADDRESS_def OPTION_MEMORY_def OPTION_MEMORY_RESERVATION_def OPTION_MEMORY_SWAP_def 
  OPTION_MEMORY_SWAPPINESS_def OPTION_STOP_TIMEOUT_def OPTION_NETWORK_def OPTION_OOM_KILLER_def OPTION_OOM_SCORE_ADJ_def 
  OPTION_PID_MODE_def OPTION_PIDS_LIMIT_def OPTION_PLATFORM_def OPTION_PRIVILEGED_def OPTION_READ_ONLY_def OPTION_RESTART_POLICY_def 
  OPTION_RUNTIME_def OPTION_SECURITY_OPTS_def OPTION_SHM_SIZE_def OPTION_STOP_SIGNAL_def OPTION_STORAGE_OPTS_def OPTION_SYSCTLS_def 
  OPTION_TMPFS_def OPTION_TTY_def OPTION_ULIMITS_def OPTION_USER_def OPTION_USERNS_MODE_def OPTION_UTS_def OPTION_VOLUME_DRIVER_def 
  OPTION_VOLUMES_FROM_def OPTION_WORKING_DIR_def OPTION_MOUNTS_VOLUMES_def OPTION_PORTS_def

lemma reads_OPTIONS: "list_all engine_reads (OPTIONS W S)"
  unfolding OPTIONS_def first_options_def second_options_def third_options_def fourth_options_def fifth_options_def
    list_all_append list.pred_inject option_defs
  by (intro conjI TrueI io_rules reads_option_group reads_preprocess_value reads_ignore_mismatching) simp_all

section \<open>Options do not disturb each other\<close>

text \<open>Where an option goes: to a field of the configuration, or of its part for the host.\<close>

datatype place = Top string | Host string

definition field_at :: "dict \<Rightarrow> place \<Rightarrow> pyval option" where
  "field_at data p = (case p of Top k \<Rightarrow> map_of data k
     | Host k \<Rightarrow> (case map_of data ''HostConfig'' of Some (PDict h) \<Rightarrow> map_of h k | _ \<Rightarrow> None))"

lemma put_config_at:
  assumes "put_config n v data = Inr data'" and "n \<noteq> ''HostConfig''"
  shows "field_at data' p = (if p = Top n then Some v else field_at data p)"
  using assms by (auto simp: put_config_def field_at_def map_of_update split: place.splits)

lemma put_host_config_at:
  assumes "put_host_config n v data = Inr data'" and "p \<noteq> Top ''HostConfig''"
  shows "field_at data' p = (if p = Host n then Some v else field_at data p)"
proof -
  from assms(1) obtain h where h: "(if has_key data ''HostConfig'' then py_items (dget data ''HostConfig'') else Inr []) = Inr h"
    and data': "data' = AList.update ''HostConfig'' (PDict (AList.update n v h)) data"
    by (auto simp: put_host_config_def bindR_eq_Inr)
  have "field_at data (Host k) = map_of h k" for k
    using h by (auto simp: field_at_def has_key_def py_items_def dget_def split: option.splits pyval.splits if_splits)
  with assms(2) show ?thesis
    unfolding data' by (cases p) (simp_all add: field_at_def map_of_update)
qed

definition writes_only :: "place list \<Rightarrow> group \<Rightarrow> bool" where
  "writes_only ps g \<longleftrightarrow> (\<forall>data values data' p. en_set_value g data values = Inr data' \<longrightarrow> p \<notin> set ps \<longrightarrow> p \<noteq> Top ''HostConfig''
     \<longrightarrow> field_at data' p = field_at data p)"

lemma writes_config_value: "n \<noteq> ''HostConfig'' \<Longrightarrow> writes_only [Top n] (config_value n g)"
  by (auto simp: writes_only_def config_value_def value_engine_def set_single_def bindR_eq_Inr put_config_at split: if_splits)

lemma writes_host_config_value: "writes_only [Host n] (host_config_value n g)"
  by (auto simp: writes_only_def host_config_value_def value_engine_def set_single_def bindR_eq_Inr put_host_config_at split: if_splits)

lemma keywords_set_value [simp]:
  "en_set_value (preprocess_value f g) = en_set_value g" "en_set_value (postprocess_for_get n post g) = en_set_value g"
  "en_set_value (get_expected_value e g) = en_set_value g" "en_set_value (update_parameter n g) = en_set_value g"
  "en_set_value (ignore_mismatching i g) = en_set_value g"
  by (simp_all add: preprocess_value_def postprocess_for_get_def get_expected_value_def update_parameter_def ignore_mismatching_def)

lemma writes_keywords:
  assumes "writes_only ps g"
  shows "writes_only ps (preprocess_value f g)" "writes_only ps (postprocess_for_get n post g)" "writes_only ps (get_expected_value e g)"
    "writes_only ps (update_parameter n g)" "writes_only ps (ignore_mismatching i g)"
  using assms by (simp_all add: writes_only_def)

lemma writes_detach: "writes_only (map Top [''AttachStdout'', ''AttachStderr'', ''AttachStdin'', ''StdinOnce'', ''OpenStdin''])
    (detach_interactive_engine g)"
  by (auto simp: writes_only_def detach_interactive_engine_def set_value_detach_interactive_def Let_def field_at_def map_of_update
      dict_update_def split: place.split)

lemma writes_one_field:
  "writes_only [Host ''LogConfig''] (log_driver_options_engine g)" "writes_only [Host ''NetworkMode''] (network_engine W g)"
  "writes_only [Top ''platform''] (platform_engine g)" "writes_only [Host ''RestartPolicy''] (restart_policy_engine g)"
  by (auto simp: writes_only_def log_driver_options_engine_def set_values_log_def network_engine_def set_values_network_def
      platform_engine_def set_values_platform_def restart_policy_engine_def set_values_restart_def put_host_config_at put_config_at
      split: if_splits)

lemma writes_mounts: "writes_only [Host ''Mounts'', Top ''Volumes'', Host ''Binds''] (mounts_volumes_engine g)"
  by (auto simp: writes_only_def mounts_volumes_engine_def set_values_mounts_def bindR_eq_Inr put_host_config_at put_config_at
      split: if_splits)

lemma writes_ports: "writes_only [Top ''ExposedPorts'', Host ''PortBindings'', Host ''PublishAllPorts''] (ports_engine W S g)"
  by (auto simp: writes_only_def ports_engine_def set_values_ports_def bindR_eq_Inr put_host_config_at put_config_at
      split: if_splits)

definition first_places :: "place list list" where
  "first_places =
     [[Host ''AutoRemove''], [Host ''BlkioWeight''], [Host ''CapAdd''], [Host ''CapDrop''], [Host ''CgroupnsMode''],
      [Host ''CgroupParent''], [Top ''Cmd''], [Host ''CpuPeriod''], [Host ''CpuQuota''], [Host ''CpusetCpus''],
      [Host ''CpusetMems''], [Host ''CpuShares''], [Top ''Entrypoint''], [Host ''NanoCpus'']]"

definition second_places :: "place list list" where
  "second_places =
     [map Top [''AttachStdout'', ''AttachStderr'', ''AttachStdin'', ''StdinOnce'', ''OpenStdin''], [Host ''Devices''],
      [Host ''BlkioDeviceReadBps''], [Host ''BlkioDeviceWriteBps''], [Host ''BlkioDeviceReadIOps''],
      [Host ''BlkioDeviceWriteIOps''], [Host ''DeviceRequests''], [Host ''DeviceCgroupRules''], [Host ''Dns''],
      [Host ''DnsOptions''], [Host ''DnsSearch''], [Top ''Domainname''], [Top ''Env''], [Host ''ExtraHosts'']]"

definition third_places :: "place list list" where
  "third_places =
     [[Host ''GroupAdd''], [Top ''Healthcheck''], [Top ''Hostname''], [Top ''Image''], [Host ''Init''], [Host ''IpcMode''],
      [Host ''KernelMemory''], [Top ''Labels''], [Host ''Links''], [Host ''LogConfig''], [Top ''MacAddress''],
      [Host ''Memory''], [Host ''MemoryReservation''], [Host ''MemorySwap'']]"

definition fourth_places :: "place list list" where
  "fourth_places =
     [[Host ''MemorySwappiness''], [Top ''StopTimeout''], [Host ''NetworkMode''], [Host ''OomKillDisable''],
      [Host ''OomScoreAdj''], [Host ''PidMode''], [Host ''PidsLimit''], [Top ''platform''], [Host ''Privileged''],
      [Host ''ReadonlyRootfs''], [Host ''RestartPolicy''], [Host ''Runtime''], [Host ''SecurityOpt''], [Host ''ShmSize'']]"

definition fifth_places :: "place list list" where
  "fifth_places =
     [[Top ''StopSignal''], [Host ''StorageOpt''], [Host ''Sysctls''], [Host ''Tmpfs''], [Top ''Tty''], [Host ''Ulimits''],
      [Top ''User''], [Host ''UsernsMode''], [Host ''UTSMode''], [Host ''VolumeDriver''], [Host ''VolumesFrom''],
      [Top ''WorkingDir''], [Host ''Mounts'', Top ''Volumes'', Host ''Binds''],
      [Top ''ExposedPorts'', Host ''PortBindings'', Host ''PublishAllPorts'']]"

definition OPTION_PLACES :: "place list list" where
  "OPTION_PLACES = first_places @ second_places @ third_places @ fourth_places @ fifth_places"

lemma table_places: "list_all2 writes_only OPTION_PLACES (OPTIONS W S)"
  unfolding OPTION_PLACES_def OPTIONS_def
  by (intro list_all2_appendI;
    simp only: first_places_def second_places_def third_places_def fourth_places_def fifth_places_def
      first_options_def second_options_def third_options_def fourth_options_def fifth_options_def list.rel_inject;
    intro conjI TrueI writes_keywords writes_config_value writes_host_config_value writes_detach writes_one_field
      writes_mounts writes_ports; simp)

lemma places_distinct: "distinct (concat OPTION_PLACES)" "Top ''HostConfig'' \<notin> set (concat OPTION_PLACES)"
  by code_simp+

section \<open>A container is as it was asked for\<close>

text \<open>The options that are no plain field: they have more to them than the value given.\<close>

definition special_options :: "string list" where
  "special_options = [''env'', ''healthcheck'', ''image'', ''labels'', ''platform'']"

primrec put_at :: "place \<Rightarrow> pyval \<Rightarrow> dict \<Rightarrow> dict res" where
  "put_at (Top n) = put_config n"
| "put_at (Host n) = put_host_config n"

primrec get_at :: "place \<Rightarrow> opt list \<Rightarrow> pyval \<Rightarrow> dict res" where
  "get_at (Top n) = get_single ''Config'' n id"
| "get_at (Host n) = get_single ''HostConfig'' n id"

definition usual_comparison :: "group \<Rightarrow> bool" where
  "usual_comparison g \<longleftrightarrow> en_get_expected_values g = (\<lambda>img values host_info. retI values) \<and> en_compare_value g = option_compare"

definition plain_field :: "place \<Rightarrow> opt \<Rightarrow> group \<Rightarrow> bool" where
  "plain_field p option g \<longleftrightarrow> p \<noteq> Top ''HostConfig'' \<and> p \<noteq> Top ''Image'' \<and> gr_options g = [option] \<and> usual_comparison g
     \<and> en_can_set_value g \<and> en_set_value g = set_single (put_at p) [option]
     \<and> en_get_value g = (\<lambda>container img host_info. liftI (get_at p [option] container))"

definition is_plain :: "place list \<Rightarrow> group \<Rightarrow> bool" where
  "is_plain ps g \<longleftrightarrow> (\<forall>option. gr_options g = [option] \<longrightarrow> op_name option \<notin> set special_options
     \<longrightarrow> (\<exists>p. ps = [p] \<and> plain_field p option g))"

lemma plain_value:
  assumes "usual_comparison g"
  shows "n \<noteq> ''HostConfig'' \<Longrightarrow> n \<noteq> ''Image'' \<Longrightarrow> is_plain [Top n] (config_value n g)" "is_plain [Host n] (host_config_value n g)"
  using assms
  by (auto simp: is_plain_def plain_field_def usual_comparison_def config_value_def host_config_value_def value_engine_def)

lemma plain_keywords:
  assumes "is_plain ps g"
  shows "is_plain ps (preprocess_value f g)" "is_plain ps (update_parameter n g)" "is_plain ps (ignore_mismatching i g)"
  using assms
  by (simp_all add: is_plain_def plain_field_def usual_comparison_def preprocess_value_def update_parameter_def ignore_mismatching_def)

lemma plain_special: "gr_options g = [option] \<Longrightarrow> op_name option \<in> set special_options \<Longrightarrow> is_plain ps g"
  by (simp add: is_plain_def)

lemma plain_several: "length (gr_options g) \<noteq> 1 \<Longrightarrow> is_plain ps g"
  by (auto simp: is_plain_def)

lemma usual_option_group: "usual_comparison (option_group pre options)"
  by (simp add: usual_comparison_def option_group_def)

lemma engine_options [simp]:
  "gr_options (option_group pre options) = options"
  "gr_options (config_value n g) = gr_options g" "gr_options (host_config_value n g) = gr_options g"
  "gr_options (preprocess_value f g) = gr_options g" "gr_options (postprocess_for_get n post g) = gr_options g"
  "gr_options (get_expected_value e g) = gr_options g" "gr_options (ignore_mismatching i g) = gr_options g"
  "gr_options (update_parameter n g) = gr_options g"
  "gr_options (detach_interactive_engine g) = gr_options g" "gr_options (log_driver_options_engine g) = gr_options g"
  "gr_options (network_engine W g) = gr_options g" "gr_options (platform_engine g) = gr_options g"
  "gr_options (restart_policy_engine g) = gr_options g" "gr_options (mounts_volumes_engine g) = gr_options g"
  "gr_options (ports_engine W S g) = gr_options g"
  by (simp_all add: option_group_def config_value_def host_config_value_def value_engine_def preprocess_value_def
      postprocess_for_get_def get_expected_value_def ignore_mismatching_def update_parameter_def detach_interactive_engine_def
      log_driver_options_engine_def network_engine_def platform_engine_def restart_policy_engine_def mounts_volumes_engine_def
      ports_engine_def)

lemma usual_environment: "usual_comparison (OPTION_ENVIRONMENT S)"
  by (simp add: usual_comparison_def OPTION_ENVIRONMENT_def option_group_def)

lemma table_plain: "list_all2 is_plain OPTION_PLACES (OPTIONS W S)"
  unfolding OPTION_PLACES_def OPTIONS_def
  by (intro list_all2_appendI;
    simp only: first_places_def second_places_def third_places_def fourth_places_def fifth_places_def
      first_options_def second_options_def third_options_def fourth_options_def fifth_options_def list.rel_inject option_defs;
    intro conjI TrueI;
    (intro plain_keywords plain_value usual_option_group; simp; fail | rule plain_several, simp; fail
      | rule plain_special, simp, simp add: special_options_def add_option_def))

section \<open>Composing\<close>

abbreviation compose_step :: "dict \<Rightarrow> group \<times> dict \<Rightarrow> dict res" where
  "compose_step \<equiv> \<lambda>params (g, vals). if en_can_set_value g then en_set_value g params vals else Inr params"

lemma compose_keeps:
  assumes "foldR compose_step data0 ps = Inr data" and "list_all2 writes_only pss (map fst ps)"
    and "p \<notin> set (concat pss)" and "p \<noteq> Top ''HostConfig''"
  shows "field_at data p = field_at data0 p"
  using assms
proof (induction ps arbitrary: pss data0)
  case (Cons x ps)
  obtain g vals where x: "x = (g, vals)" by (cases x)
  from Cons.prems(2) x obtain places qss where pss: "pss = places # qss" "writes_only places g"
      "list_all2 writes_only qss (map fst ps)" by (auto simp: list_all2_Cons2)
  from Cons.prems(1) x obtain data1 where step: "compose_step data0 (g, vals) = Inr data1" "foldR compose_step data1 ps = Inr data"
    by (auto simp: bindR_eq_Inr)
  have "field_at data1 p = field_at data0 p"
    using step(1) pss Cons.prems(3,4) by (auto simp: writes_only_def split: if_splits)
  with Cons.IH [OF step(2) pss(3)] Cons.prems(3,4) pss(1) show ?case by simp
qed simp

lemma put_at_field:
  assumes "put_at p v data = Inr data'" and "p \<noteq> Top ''HostConfig''"
  shows "field_at data' p = Some v"
  using assms by (cases p) (auto simp: put_config_at put_host_config_at)

lemma compose_puts:
  assumes "foldR compose_step data0 ps = Inr data" and "list_all2 writes_only pss (map fst ps)" and "distinct (concat pss)"
    and "list_all2 is_plain pss (map fst ps)" and "(g, vals) \<in> set ps" and "gr_options g = [option]"
    and "op_name option \<notin> set special_options" and "has_key vals (op_name option)"
  obtains p where "plain_field p option g" "field_at data p = Some (dget vals (op_name option))"
proof -
  from assms(5) obtain before after where ps: "ps = before @ (g, vals) # after" by (auto simp: in_set_conv_decomp)
  from assms(2) ps obtain us places vs where pss: "pss = us @ places # vs" "list_all2 writes_only vs (map fst after)"
      "length us = length before" by (auto simp: list_all2_append2 list_all2_Cons2 dest: list_all2_lengthD)
  with assms(4) ps have plain: "is_plain places g" by (simp add: list_all2_append)
  from plain assms(6,7) obtain p where p: "places = [p]" "plain_field p option g" by (auto simp: is_plain_def)
  from assms(1) ps obtain data1 data2 where steps: "compose_step data1 (g, vals) = Inr data2" "foldR compose_step data2 after = Inr data"
    by (auto simp: foldR_append bindR_eq_Inr)
  have "field_at data2 p = Some (dget vals (op_name option))"
    using steps(1) p(2) assms(8) by (auto simp: plain_field_def set_single_def single_def intro: put_at_field)
  moreover have "field_at data p = field_at data2 p"
    using compose_keeps [OF steps(2) pss(2)] assms(3) pss(1) p by (simp add: plain_field_def)
  ultimately show ?thesis using p(2) that by simp
qed


lemma collected_groups:
  "collect_params t gs h = (Inr ps, h') \<Longrightarrow> map fst ps = gs"
proof (induction gs arbitrary: h ps)
  case (Cons g gs)
  from Cons.prems obtain vals rest h1 where "collect_params t gs h1 = (Inr rest, h')" "ps = (g, vals) # rest"
    by (auto simp: Let_def bind_Inr_iff run_simps)
  with Cons.IH show ?case by auto
qed (simp add: run_simps)

text \<open>What the daemon shows of a container, and a container as it shows one that has what it was given.\<close>

definition inspected :: "pyval \<Rightarrow> place \<Rightarrow> pyval option" where
  "inspected container p =
     (let part = (\<lambda>section k. case container of
          PDict c \<Rightarrow> (case map_of c section of Some (PDict d) \<Rightarrow> map_of d k | _ \<Rightarrow> None) | _ \<Rightarrow> None)
      in case p of Top k \<Rightarrow> part ''Config'' k | Host k \<Rightarrow> part ''HostConfig'' k)"

lemma get_at_inspected:
  assumes "inspected container p = Some v"
  shows "get_at p [option] container = Inr [(op_name option, v)]"
  using assms
  by (cases p) (auto simp: inspected_def Let_def get_single_def single_def py_getitem_def py_items_def split: pyval.splits option.splits)

lemma dget_single: "dget [(k, v)] k = v"
  by (simp add: dget_def)

lemma value_matches_itself: "op_comparison_type option = ''value'' \<Longrightarrow> wf_py v \<Longrightarrow> option_compare option mode v v = Inr True"
  by (simp add: option_compare_def compare_generic_def py_eq_refl)

lemma record_nothing:
  assumes "comparison_of t (op_name option) = Inr mode" and "en_compare_value g option mode v v = Inr True"
    and "dget vals (op_name option) = v"
  shows "record_options t g img [(op_name option, v)] vals host_info [option] d h = (Inr d, h)"
  using assms by (simp add: bindI_def run_simps dget_single)

text \<open>C6: A container has the options it was created with: when the daemon shows the fields of a created container as
  it was given them, the value of an option that is a plain field is read back from where it was written, in spite of
  all the other options, and an option that is compared as a value makes no difference to the container.\<close>

theorem created_container_fits:
  assumes "tk_groups t = OPTIONS W S" and "collect_params t (tk_groups t) h0 = (Inr ps, h1)"
    and "compose_create_parameters ps img = Inr data"
    and "\<And>p v. field_at data p = Some v \<Longrightarrow> p \<noteq> Top ''HostConfig'' \<Longrightarrow> inspected (co_raw c) p = Some v"
    and "(g, vals) \<in> set ps" and "gr_options g = [option]" and "op_name option \<notin> set special_options"
    and "has_key vals (op_name option)"
  shows "en_get_value g (co_raw c) ci hi h = (Inr [(op_name option, dget vals (op_name option))], h)
    \<and> (op_comparison_type option = ''value'' \<longrightarrow> wf_py (dget vals (op_name option)) \<longrightarrow> map_of (tk_comparisons t) (op_name option) \<noteq> None
       \<longrightarrow> record_differences t g vals c ci im hi d h = (Inr d, h))"
proof -
  from assms(3) obtain composed where composed: "foldR compose_step [] ps = Inr composed" "data = AList.update ''Image'' img composed"
    by (auto simp: compose_create_parameters_def bindR_eq_Inr)
  have groups: "map fst ps = OPTIONS W S" using collected_groups [OF assms(2)] assms(1) by simp
  obtain p where p: "plain_field p option g" "field_at composed p = Some (dget vals (op_name option))"
    by (rule compose_puts [OF composed(1) _ _ _ assms(5-8)]) (use groups table_places table_plain places_distinct in simp_all)
  have "field_at data p = field_at composed p"
    using p(1) composed(2) by (auto simp: field_at_def map_of_update plain_field_def split: place.splits)
  with p assms(4) have "inspected (co_raw c) p = Some (dget vals (op_name option))" by (simp add: plain_field_def)
  then have read: "en_get_value g (co_raw c) ci hi h = (Inr [(op_name option, dget vals (op_name option))], h)" for h
    using p(1) get_at_inspected by (simp add: plain_field_def run_simps)
  have "record_differences t g vals c ci im hi d h = (Inr d, h)"
    if "op_comparison_type option = ''value''" "wf_py (dget vals (op_name option))" "comparison_of t (op_name option) = Inr mode" for mode
    using p(1) read record_nothing [OF that(3)] value_matches_itself [OF that(1,2)]
    by (simp add: record_differences_def plain_field_def usual_comparison_def bindI_def run_simps del: record_options.simps)
  with read show ?thesis by (auto simp: comparison_of_def)
qed


text \<open>A task with a host name and a limit of the memory.\<close>

definition sample_surroundings :: "dict \<Rightarrow> surroundings" where
  "sample_surroundings params = \<lparr>su_params = params, su_human_to_bytes = (\<lambda>v. Inr 4194304), su_absolute = (\<lambda>s. s),
     su_read_lines = (\<lambda>s. []), su_nano_cpus = (\<lambda>v. 0)\<rparr>"

definition table_params :: dict where
  "table_params = [(''name'', PStr ''web''), (''image'', PStr ''nginx''), (''state'', PStr ''started''), (''hostname'', PStr ''www''),
     (''memory'', PStr ''4M'')]"

definition bare_task :: "bool \<Rightarrow> task" where
  "bare_task check = (sample_task check ''started'')\<lparr>tk_params := table_params, tk_groups := [],
     tk_comparisons := [(''image'', ''strict''), (''networks'', ''strict''), (''hostname'', ''strict''), (''memory'', ''strict'')]\<rparr>"

definition table_task :: "world \<Rightarrow> bool \<Rightarrow> task" where
  "table_task W check = (bare_task check)\<lparr>tk_groups := OPTIONS W (sample_surroundings table_params)\<rparr>"

lemma collect_params_groups: "collect_params (t\<lparr>tk_groups := x\<rparr>) gs = collect_params t gs"
  by (induction gs) simp_all

definition shown :: "dict \<Rightarrow> pyval" where
  "shown data = PDict [(''Config'', PDict data), (''HostConfig'', dget data ''HostConfig'')]"

lemma inspected_shown: "field_at data p = Some v \<Longrightarrow> inspected (shown data) p = Some v"
  by (cases p) (auto simp: field_at_def inspected_def shown_def dget_def split: option.splits pyval.splits)

definition shown_container :: "dict \<Rightarrow> container" where
  "shown_container data = \<lparr>co_raw = shown data, co_container = PNone, co_id = PNone, co_image = PNone, co_image_name = PNone\<rparr>"

lemma bare_task_collected:
  "case collect_params (bare_task False) (OPTIONS W (sample_surroundings table_params)) [] of
     (Inr ps, h) \<Rightarrow> \<not> isl (compose_create_parameters ps (PStr ''nginx'')) \<and> snd (ps ! 30) = [(''hostname'', PStr ''www'')]
   | _ \<Rightarrow> False" by code_simp

lemma hostname_group: "OPTIONS W S ! 30 = config_value ''Hostname'' OPTION_HOSTNAME" "30 < length (OPTIONS W S)"
  by (simp_all add: OPTIONS_def first_options_def second_options_def third_options_def)

theorem created_container_fits_witness:
  "case collect_params (table_task sample_docker False) (tk_groups (table_task sample_docker False)) [] of
     (Inr ps, h) \<Rightarrow> (case compose_create_parameters ps (PStr ''nginx'') of
       Inr data \<Rightarrow> en_get_value (fst (ps ! 30)) (shown data) PNone PNone [] = (Inr [(''hostname'', PStr ''www'')], [])
         \<and> record_differences (table_task sample_docker False) (fst (ps ! 30)) (snd (ps ! 30)) (shown_container data) PNone PNone PNone [] []
           = (Inr [], [])
     | _ \<Rightarrow> False)
   | _ \<Rightarrow> False"
proof -
  let ?t = "table_task sample_docker False"
  have same: "collect_params ?t (tk_groups ?t) []
      = collect_params (bare_task False) (OPTIONS sample_docker (sample_surroundings table_params)) []"
    by (simp add: table_task_def collect_params_groups)
  obtain ps h where collected: "collect_params ?t (tk_groups ?t) [] = (Inr ps, h)" "\<not> isl (compose_create_parameters ps (PStr ''nginx''))"
      "snd (ps ! 30) = [(''hostname'', PStr ''www'')]"
    using bare_task_collected [of sample_docker] same by (auto split: prod.splits sum.splits)
  then obtain data where composed: "compose_create_parameters ps (PStr ''nginx'') = Inr data"
    by (cases "compose_create_parameters ps (PStr ''nginx'')") auto
  have groups: "map fst ps = OPTIONS sample_docker (sample_surroundings table_params)"
    using collected_groups [OF collected(1)] by (simp add: table_task_def)
  then have at30: "30 < length ps" "fst (ps ! 30) = config_value ''Hostname'' OPTION_HOSTNAME"
    using hostname_group by (metis length_map, metis length_map nth_map)
  have "(fst (ps ! 30), snd (ps ! 30)) \<in> set ps" using at30(1) by (simp only: prod.collapse nth_mem)
  note fits = created_container_fits [OF _ collected(1) composed _ this,
      where option = "add_option ''hostname'' ''str'' None" and c = "shown_container data"]
  have "en_get_value (fst (ps ! 30)) (shown data) PNone PNone [] = (Inr [(''hostname'', PStr ''www'')], [])
      \<and> record_differences ?t (fst (ps ! 30)) (snd (ps ! 30)) (shown_container data) PNone PNone PNone [] [] = (Inr [], [])"
    using fits [of sample_docker "sample_surroundings table_params" PNone PNone "[]" PNone "[]"]
    by (simp add: table_task_def bare_task_def shown_container_def inspected_shown at30 OPTION_HOSTNAME_def option_group_def add_option_def
        special_options_def collected(3) has_key_def dget_def comparison_type_of_def)
  with collected composed show ?thesis by simp
qed

section \<open>The manager with its table\<close>

text \<open>C9: In check mode the container module asks the daemon for nothing but information, whatever the task
  and whatever the daemon answers.\<close>

theorem module_check_mode_is_safe:
  assumes "tk_check_mode t" and "tk_groups t = OPTIONS W S"
  shows "emits (\<lambda>e. \<not> mutates e) (execute_module W t)"
  by (rule container_check_mode_is_safe) (simp_all add: assms reads_OPTIONS)

theorem module_check_mode_is_safe_witness:
  "emits (\<lambda>e. \<not> mutates e) (execute_module sample_docker (table_task sample_docker True))"
  by (rule module_check_mode_is_safe) (simp_all add: table_task_def bare_task_def sample_task_def)

text \<open>C3: A run of the container module that reports no change has made none: when the result says
  \<open>changed: false\<close>, the daemon got no request but questions; or it got, besides questions, one request to pull an image,
  and the image it gave for the name asked for is the same just before and just after that pull. Looking up credentials has to
  keep to reading.\<close>

theorem module_unreported_means_unchanged:
  assumes "tk_groups t = OPTIONS W S" and "auth_reads t"
    and "run_state W t new_manager h = (Inr (facts, m), h @ es)"
    and "dget (results_of t facts m) ''changed'' = PBool False"
  shows "left_alone W t h es"
  by (rule unreported_means_unchanged [OF _ assms(2-4)]) (simp add: assms(1) reads_OPTIONS)

text \<open>A daemon without containers, and a task that wants one absent.\<close>

definition empty_docker :: world where
  "empty_docker = sample_docker\<lparr>w_ext := (\<lambda>h name args. if name = ''GET'' then Inr (PList []) else Inr PNone)\<rparr>"

definition absent_task :: task where
  "absent_task = (sample_task False ''absent'')\<lparr>tk_groups := OPTIONS empty_docker (sample_surroundings table_params)\<rparr>"

lemma nothing_to_remove:
  "case get_cont empty_docker (PStr ''web'') [] of (Inr c, h) \<Rightarrow> \<not> co_exists c \<and> length h = 1 | _ \<Rightarrow> False"
  by code_simp

theorem module_unreported_means_unchanged_witness:
  "case run_state empty_docker absent_task new_manager [] of
     (Inr (facts, m), h) \<Rightarrow> length h = 1 \<and> left_alone empty_docker absent_task [] h | _ \<Rightarrow> False"
proof -
  from nothing_to_remove obtain c h where c: "get_cont empty_docker (PStr ''web'') [] = (Inr c, h)" "\<not> co_exists c" "length h = 1"
    by (auto split: prod.splits sum.splits)
  then have run: "run_state empty_docker absent_task new_manager [] = (Inr (PNone, new_manager), [] @ h)"
    by (simp add: run_state_def absent_def absent_task_def sample_task_def dget_def bindI_def run_simps)
  have "left_alone empty_docker absent_task [] h"
    by (rule module_unreported_means_unchanged [OF _ _ run])
      (simp_all add: absent_task_def sample_task_def auth_reads_def emits_ret results_of_def dget_def new_manager_def)
  with run c(3) show ?thesis by simp
qed

section \<open>Ports with several bindings\<close>

text \<open>A port that is published without a port of the host and also with one has two bindings. The placeholder
  for the default address is looked for in the first element of the specification, which is a binding and no address,
  and the bindings of the existing container are expected to be pairs.\<close>

definition two_bindings :: pyval where
  "two_bindings = PDict [(''80'', PList [PTuple [PStr DEFAULT_IP], PTuple [PStr DEFAULT_IP, PStr ''8080'']])]"

lemma two_bindings_published:
  "publish [PStr ''80'', PStr ''8080:80''] = Inr [((80, []), Many [[PStr DEFAULT_IP], [PStr DEFAULT_IP, PStr ''8080'']])]"
  by code_simp

lemma placeholder_stays:
  "preprocess_value_ports W params [(''published_ports'', two_bindings)] h = (Inr [(''published_ports'', two_bindings)], h)"
  by (simp add: preprocess_value_ports_def two_bindings_def has_placeholder_def elements_of_def has_key_def dget_def py_items_def
      bindI_def run_simps)

lemma several_bindings_crash:
  "expected_values_ports PNone [(''published_ports'', two_bindings)] = Inl (ValueError ''wrong number of values to unpack'')"
  by (simp add: expected_values_ports_def two_bindings_def expected_binding_def binding_pair_def elements_of_def has_key_def dget_def
      py_items_def)

end
