(* ===== verification/DockerComparisons.thy ===== *)
theory DockerComparisons
  imports DockerTableFacts
begin

text \<open>
  The comparisons in force: what \<open>_parse_comparisons\<close> makes of \<open>comparisons\<close>, of its wildcard
  and of the two old options \<open>ignore_image\<close> and \<open>purge_networks\<close>, over all options of the table. An option
  is compared in the mode given for it, else in that of the wildcard, else as the old options say, else by
  its default.
\<close>

section \<open>The mode of an option\<close>

text \<open>The keys of \<open>comparisons\<close> that mean an option.\<close>

definition known_as :: "opt \<Rightarrow> string list" where
  "known_as option = (if op_not_an_ansible_option option then [] else op_name option # op_aliases option)"

definition given_for :: "dict \<Rightarrow> opt \<Rightarrow> pyval option" where
  "given_for comparisons option = map_option snd (List.find (\<lambda>(k, v). k \<in> set (known_as option)) comparisons)"

text \<open>What the two old options and the wildcard say, where no entry does.\<close>

definition before_entries :: "dict \<Rightarrow> dict \<Rightarrow> opt \<Rightarrow> string" where
  "before_entries params comparisons option =
     (if map_of comparisons ''*'' \<noteq> None \<and> \<not> (op_name option = ''networks'' \<and> dget params ''networks'' = PNone) then
        py_str (dget comparisons ''*'')
      else if op_name option = ''image'' \<and> truthy (dget params ''ignore_image'') then ''ignore''
      else if op_name option = ''networks'' \<and> truthy (dget params ''purge_networks'') then ''strict''
      else op_comparison option)"

definition own_mode :: "dict \<Rightarrow> dict \<Rightarrow> opt \<Rightarrow> string" where
  "own_mode params comparisons option =
     (case given_for comparisons option of Some v \<Rightarrow> py_str v | None \<Rightarrow> before_entries params comparisons option)"

text \<open>Some options follow another.\<close>

definition mode_in_force :: "dict \<Rightarrow> dict \<Rightarrow> opt list \<Rightarrow> opt \<Rightarrow> string" where
  "mode_in_force params comparisons options option =
     (case op_copy_comparison_from option of
        None \<Rightarrow> own_mode params comparisons option
      | Some src \<Rightarrow> (case List.find (\<lambda>o'. op_name o' = src) options of
          None \<Rightarrow> own_mode params comparisons option | Some o' \<Rightarrow> own_mode params comparisons o'))"

text \<open>What the user may ask for: modes, of options that exist, one per option, and more than asked for only where
  there is more than one value.\<close>

definition two_modes :: "pyval list" where
  "two_modes = [PStr ''strict'', PStr ''ignore'']"

definition allowed :: "opt \<Rightarrow> pyval \<Rightarrow> bool" where
  "allowed option v \<longleftrightarrow> v \<in> set two_modes \<or> v = PStr ''allow_more_present'' \<and> op_comparison_type option \<noteq> ''value''"

definition entry_allowed :: "opt list \<Rightarrow> string \<times> pyval \<Rightarrow> bool" where
  "entry_allowed options = (\<lambda>(k, v). k = ''*'' \<or> list_ex (\<lambda>option. k \<in> set (known_as option) \<and> allowed option v) options)"

definition entries_for :: "dict \<Rightarrow> opt \<Rightarrow> nat" where
  "entries_for comparisons option = length (filter (\<lambda>(k, v). k \<in> set (known_as option)) comparisons)"

definition comparisons_allowed :: "opt list \<Rightarrow> dict \<Rightarrow> bool" where
  "comparisons_allowed options comparisons \<longleftrightarrow>
     (map_of comparisons ''*'' = None \<or> dget comparisons ''*'' \<in> set two_modes)
     \<and> list_all (entry_allowed options) comparisons \<and> list_all (\<lambda>option. entries_for comparisons option \<le> 1) options"

text \<open>\<open>comparisons\<close> is a dictionary or is not given.\<close>

definition given_comparisons :: "dict \<Rightarrow> dict option" where
  "given_comparisons params = (case dget params ''comparisons'' of PNone \<Rightarrow> Some [] | PDict d \<Rightarrow> Some d | _ \<Rightarrow> None)"

section \<open>Options with names of their own\<close>

definition well_named :: "opt list \<Rightarrow> bool" where
  "well_named options \<longleftrightarrow> distinct (map op_name options) \<and> distinct (concat (map known_as options))
     \<and> ''*'' \<notin> set (concat (map known_as options)) \<and> ''image'' \<in> set (map op_name options) \<and> ''networks'' \<in> set (map op_name options)
     \<and> list_all (\<lambda>option. case op_copy_comparison_from option of None \<Rightarrow> True
         | Some src \<Rightarrow> list_ex (\<lambda>o'. op_name o' = src \<and> op_copy_comparison_from o' = None) options) options"

lemma known_distinct:
  assumes "distinct (concat (map known_as options))" "a \<in> set options" "b \<in> set options" "k \<in> set (known_as a)" "k \<in> set (known_as b)"
    and "distinct (map op_name options)"
  shows "a = b"
  using assms
proof (induction options)
  case (Cons o' options)
  show ?case
  proof (cases "a = o' \<or> b = o'")
    case True
    with Cons.prems show ?thesis by auto
  qed (use Cons in auto)
qed simp

lemma aliases_fold: "map_of (fold (\<lambda>alias. AList.update alias n) as acc) k = (if k \<in> set as then Some n else map_of acc k)"
  by (induction as arbitrary: acc) (auto simp: map_of_update)

abbreviation add_aliases :: "opt \<Rightarrow> (string \<times> string) list \<Rightarrow> (string \<times> string) list" where
  "add_aliases o' acc \<equiv> (if op_not_an_ansible_option o' then acc
     else fold (\<lambda>alias. AList.update alias (op_name o')) (op_aliases o') (AList.update (op_name o') (op_name o') acc))"

lemma comp_aliases_step: "map_of (add_aliases o' acc) k = (if k \<in> set (known_as o') then Some (op_name o') else map_of acc k)"
  by (auto simp: aliases_fold known_as_def map_of_update)

lemma comp_aliases_fold:
  assumes "distinct (concat (map known_as options))"
  shows "map_of (fold add_aliases options acc) k
    = (case List.find (\<lambda>option. k \<in> set (known_as option)) options of Some option \<Rightarrow> Some (op_name option) | None \<Rightarrow> map_of acc k)"
  using assms
proof (induction options arbitrary: acc)
  case (Cons o' options)
  have none: "List.find (\<lambda>option. k \<in> set (known_as option)) options = None" if "k \<in> set (known_as o')"
    using Cons.prems that by (auto simp: find_None_iff)
  have "map_of (fold add_aliases (o' # options) acc) k = map_of (fold add_aliases options (add_aliases o' acc)) k" by simp
  also have "\<dots> = (case List.find (\<lambda>option. k \<in> set (known_as option)) options of Some option \<Rightarrow> Some (op_name option)
      | None \<Rightarrow> map_of (add_aliases o' acc) k)"
    using Cons.prems by (intro Cons.IH) simp
  finally show ?case using none unfolding comp_aliases_step by (simp split: option.split)
qed simp

lemma comp_aliases_find:
  assumes "well_named options"
  shows "map_of (comp_aliases options) k = map_option op_name (List.find (\<lambda>option. k \<in> set (known_as option)) options)"
  using assms comp_aliases_fold [of options "[]" k] unfolding comp_aliases_def well_named_def
  by (auto split: option.splits)

lemma find_named:
  assumes "well_named options" "option \<in> set options"
  shows "k \<in> set (known_as option) \<Longrightarrow> List.find (\<lambda>option. k \<in> set (known_as option)) options = Some option"
    "List.find (\<lambda>o'. op_name o' = op_name option) options = Some option"
proof -
  assume k: "k \<in> set (known_as option)"
  with assms(2) obtain o' where o': "List.find (\<lambda>option. k \<in> set (known_as option)) options = Some o'"
    by (metis find_None_iff not_None_eq)
  then have "o' \<in> set options" "k \<in> set (known_as o')" by (auto simp: find_Some_iff)
  with known_distinct [of options o' option k] assms k o' show "List.find (\<lambda>option. k \<in> set (known_as option)) options = Some option"
    by (simp add: well_named_def)
next
  obtain o' where o': "List.find (\<lambda>o'. op_name o' = op_name option) options = Some o'"
    using assms(2) by (metis (mono_tags, lifting) find_None_iff not_None_eq)
  then have "o' \<in> set options" "op_name o' = op_name option" by (auto simp: find_Some_iff)
  with assms have "o' = option" by (auto simp: well_named_def distinct_map inj_on_def)
  with o' show "List.find (\<lambda>o'. op_name o' = op_name option) options = Some option" by simp
qed

lemma same_name: "well_named options \<Longrightarrow> a \<in> set options \<Longrightarrow> b \<in> set options \<Longrightarrow> op_name a = op_name b \<longleftrightarrow> a = b"
  by (auto simp: well_named_def distinct_map inj_on_def)

lemma star_unknown: "well_named options \<Longrightarrow> option \<in> set options \<Longrightarrow> ''*'' \<notin> set (known_as option)"
  by (auto simp: well_named_def)

section \<open>The entries, one by one\<close>

definition room :: "(string \<times> string) list \<Rightarrow> opt \<Rightarrow> nat" where
  "room used option = (if map_of used (op_name option) = None then 1 else 0)"

definition entries_fit :: "opt list \<Rightarrow> (string \<times> string) list \<Rightarrow> dict \<Rightarrow> bool" where
  "entries_fit options used comparisons \<longleftrightarrow> list_all (entry_allowed options) comparisons
     \<and> list_all (\<lambda>option. entries_for comparisons option \<le> room used option) options"

definition put_given :: "opt list \<Rightarrow> dict \<Rightarrow> table \<Rightarrow> table \<Rightarrow> bool" where
  "put_given options comparisons t t' \<longleftrightarrow> (\<forall>option \<in> set options. map_of t' (op_name option)
     = (case given_for comparisons option of Some v \<Rightarrow> Some (py_str v) | None \<Rightarrow> map_of t (op_name option)))"

lemma value_type_named:
  assumes "well_named options" "option \<in> set options"
  shows "list_ex (\<lambda>o'. op_name o' = op_name option \<and> op_comparison_type o' = ''value'') options \<longleftrightarrow> op_comparison_type option = ''value''"
  using assms same_name [OF assms(1)] by (auto simp: list_ex_iff)

text \<open>One entry: what it is for, and whether it is taken.\<close>

lemma one_comparison_unknown:
  assumes "well_named options" "k \<noteq> ''*''" "\<forall>option \<in> set options. k \<notin> set (known_as option)"
  shows "\<exists>msg. one_comparison options (used, t) (k, v) = Inl (fail_msg msg)" "\<not> entry_allowed options (k, v)"
proof -
  have "List.find (\<lambda>option. k \<in> set (known_as option)) options = None" using assms(3) by (simp add: find_None_iff)
  with assms(2) show "\<exists>msg. one_comparison options (used, t) (k, v) = Inl (fail_msg msg)"
    by (simp add: one_comparison_def comp_aliases_find [OF assms(1)] fail_msg_def)
qed (use assms in \<open>auto simp: entry_allowed_def list_ex_iff\<close>)

lemma one_comparison_known:
  assumes "well_named options" "option \<in> set options" "k \<in> set (known_as option)"
  shows "entry_allowed options (k, v) \<longleftrightarrow> allowed option v"
    "map_of used (op_name option) = None \<Longrightarrow> allowed option v
      \<Longrightarrow> one_comparison options (used, t) (k, v) = Inr ((op_name option, k) # used, AList.update (op_name option) (py_str v) t)"
    "map_of used (op_name option) \<noteq> None \<or> \<not> allowed option v \<Longrightarrow> \<exists>msg. one_comparison options (used, t) (k, v) = Inl (fail_msg msg)"
proof -
  have k: "k \<noteq> ''*''" using star_unknown [OF assms(1,2)] assms(3) by auto
  have only: "o' = option" if "o' \<in> set options" "k \<in> set (known_as o')" for o'
    using find_named(1) [OF assms(1) that] find_named(1) [OF assms] by simp
  have "list_ex (\<lambda>option. k \<in> set (known_as option) \<and> allowed option v) options \<longleftrightarrow> allowed option v"
    unfolding list_ex_iff using only assms(2,3) by blast
  with k show "entry_allowed options (k, v) \<longleftrightarrow> allowed option v" by (simp add: entry_allowed_def)
  note run = one_comparison_def comp_aliases_find [OF assms(1)] find_named(1) [OF assms] k value_type_named [OF assms(1,2)] allowed_def
    two_modes_def
  show "one_comparison options (used, t) (k, v) = Inr ((op_name option, k) # used, AList.update (op_name option) (py_str v) t)"
    if "map_of used (op_name option) = None" "allowed option v"
    using that by (auto simp: run Let_def)
  show "\<exists>msg. one_comparison options (used, t) (k, v) = Inl (fail_msg msg)" if "map_of used (op_name option) \<noteq> None \<or> \<not> allowed option v"
    using that by (cases "map_of used (op_name option)") (auto simp: run Let_def fail_msg_def)
qed

lemma one_comparison_star: "one_comparison options s (''*'', v) = Inr s"
  by (cases s) (simp add: one_comparison_def)

lemma entries_for_Cons: "entries_for ((k, v) # cs) option = (if k \<in> set (known_as option) then 1 else 0) + entries_for cs option"
  by (simp add: entries_for_def)

lemma given_for_Cons: "given_for ((k, v) # cs) option = (if k \<in> set (known_as option) then Some v else given_for cs option)"
  by (simp add: given_for_def)

lemma no_entries: "entries_for cs option = 0 \<Longrightarrow> given_for cs option = None"
  by (auto simp: entries_for_def given_for_def filter_empty_conv find_None_iff)

lemma comparisons_fold:
  assumes "well_named options"
  shows "case foldR (one_comparison options) (used, t) cs of
      Inr (used', t') \<Rightarrow> entries_fit options used cs \<and> put_given options cs t t'
    | Inl e \<Rightarrow> \<not> entries_fit options used cs \<and> (\<exists>msg. e = fail_msg msg)"
proof (induction cs arbitrary: used t)
  case Nil
  show ?case by (simp add: entries_fit_def put_given_def entries_for_def given_for_def list_all_iff)
next
  case (Cons c cs)
  obtain k v where c: "c = (k, v)" by (cases c)
  consider "k = ''*''" | "k \<noteq> ''*''" "\<forall>option \<in> set options. k \<notin> set (known_as option)"
    | option where "option \<in> set options" "k \<in> set (known_as option)" by auto
  then show ?case
  proof cases
    case 1
    have star: "entries_for (c # cs) option = entries_for cs option" "given_for (c # cs) option = given_for cs option"
      if "option \<in> set options" for option
      using star_unknown [OF assms that] by (simp_all add: c 1 entries_for_Cons given_for_Cons)
    then have "entries_fit options used (c # cs) = entries_fit options used cs"
      "put_given options (c # cs) t = put_given options cs t"
      by (auto simp: entries_fit_def list_all_iff entry_allowed_def c 1 put_given_def)
    moreover have "foldR (one_comparison options) (used, t) (c # cs) = foldR (one_comparison options) (used, t) cs"
      by (simp add: c 1 one_comparison_star)
    ultimately show ?thesis using Cons.IH [of used t] by (simp split: sum.splits prod.splits)
  next
    case 2
    obtain msg where "one_comparison options (used, t) (k, v) = Inl (fail_msg msg)" using one_comparison_unknown(1) [OF assms 2] by blast
    then have "foldR (one_comparison options) (used, t) (c # cs) = Inl (fail_msg msg)" by (simp add: c)
    with one_comparison_unknown(2) [OF assms 2] show ?thesis by (auto simp: c entries_fit_def simp del: foldR.simps)
  next
    case (3 option)
    note known = one_comparison_known [OF assms 3]
    have other: "k \<notin> set (known_as o')" if "o' \<in> set options" "o' \<noteq> option" for o'
      using find_named(1) [OF assms that(1), of k] find_named(1) [OF assms 3] that(2) by auto
    show ?thesis
    proof (cases "map_of used (op_name option) = None \<and> allowed option v")
      case True
      let ?used = "(op_name option, k) # used" and ?t = "AList.update (op_name option) (py_str v) t"
      have step: "foldR (one_comparison options) (used, t) (c # cs) = foldR (one_comparison options) (?used, ?t) cs"
        using known(2) True by (simp add: c)
      have "entries_for (c # cs) o' \<le> room used o' \<longleftrightarrow> entries_for cs o' \<le> room ?used o'" if "o' \<in> set options" for o'
        using True 3 other [OF that] same_name [OF assms that 3(1)]
        by (cases "o' = option") (auto simp: c entries_for_Cons room_def)
      then have fit: "entries_fit options used (c # cs) = entries_fit options ?used cs"
        using known(1) True by (auto simp: entries_fit_def list_all_iff c)
      have put: "put_given options (c # cs) t t'" if p: "put_given options cs ?t t'" and f: "entries_fit options ?used cs" for t'
        unfolding put_given_def
      proof
        fix o' assume o': "o' \<in> set options"
        show "map_of t' (op_name o') = (case given_for (c # cs) o' of Some v \<Rightarrow> Some (py_str v) | None \<Rightarrow> map_of t (op_name o'))"
        proof (cases "o' = option")
          case True
          from f 3(1) have "entries_for cs option = 0" by (auto simp: entries_fit_def list_all_iff room_def)
          from no_entries [OF this] p o' 3 True show ?thesis by (simp add: put_given_def c given_for_Cons map_of_update)
        next
          case False
          with p o' other [OF o'] same_name [OF assms o' 3(1)] show ?thesis
            by (simp add: put_given_def c given_for_Cons map_of_update split: option.split)
        qed
      qed
      show ?thesis using Cons.IH [of ?used ?t] put unfolding step fit by (auto split: sum.splits)
    next
      case False
      then obtain msg where "one_comparison options (used, t) (k, v) = Inl (fail_msg msg)" using known(3) by blast
      moreover have "\<not> entries_fit options used (c # cs)"
      proof
        assume fit: "entries_fit options used (c # cs)"
        then have "entry_allowed options (k, v)" "entries_for (c # cs) option \<le> room used option"
          using 3(1) by (auto simp: entries_fit_def list_all_iff c)
        with False known(1) 3(2) show False by (auto simp: c entries_for_Cons room_def split: if_splits)
      qed
      ultimately show ?thesis by (auto simp add: c)
    qed
  qed
qed

section \<open>The whole table\<close>

lemma default_comparison_of_option:
  "well_named options \<Longrightarrow> option \<in> set options \<Longrightarrow> map_of (default_comparisons options) (op_name option) = Some (op_comparison option)"
  unfolding default_comparisons_def well_named_def
  by (intro map_of_is_SomeI) (auto simp: comp_def)

lemma wildcard_fold:
  "map_of (fold (\<lambda>o' acc. if op_name o' = ''networks'' \<and> skip then acc else AList.update (op_name o') m acc) options t) n
    = (if n \<in> set (map op_name options) \<and> \<not> (n = ''networks'' \<and> skip) then Some m else map_of t n)"
  by (induction options arbitrary: t) (auto simp: map_of_update)

text \<open>Copying does not disturb the options that are their own.\<close>

lemma copies_fold:
  assumes "\<And>a src. a \<in> set rest \<Longrightarrow> op_copy_comparison_from a = Some src
      \<Longrightarrow> \<exists>b \<in> set options. op_name b = src \<and> op_copy_comparison_from b = None"
    and "well_named options" "set rest \<subseteq> set options" "distinct (map op_name rest)"
    and "\<forall>option \<in> set options. map_of t (op_name option) \<noteq> None"
  shows "\<exists>t'. copy_comparisons rest t = Inr t' \<and> (\<forall>option \<in> set options. map_of t' (op_name option)
    = (if option \<in> set rest then (case op_copy_comparison_from option of None \<Rightarrow> map_of t (op_name option) | Some src \<Rightarrow> map_of t src)
       else map_of t (op_name option)))"
  using assms
proof (induction rest arbitrary: t)
  case (Cons o' rest)
  have o': "o' \<in> set options" "o' \<notin> set rest" using Cons.prems(3,4) by auto
  show ?case
  proof (cases "op_copy_comparison_from o'")
    case None
    from Cons.IH [of t] Cons.prems obtain t' where "copy_comparisons rest t = Inr t'"
      "\<forall>option \<in> set options. map_of t' (op_name option)
        = (if option \<in> set rest then (case op_copy_comparison_from option of None \<Rightarrow> map_of t (op_name option) | Some src \<Rightarrow> map_of t src)
           else map_of t (op_name option))" by auto
    with None o' show ?thesis by (intro exI [of _ t']) (auto simp: copy_comparisons_def)
  next
    case (Some src)
    with Cons.prems(1) [of o'] obtain s where s: "s \<in> set options" "op_name s = src" "op_copy_comparison_from s = None" by auto
    then obtain m where m: "map_of t src = Some m" using Cons.prems(5) by auto
    let ?t = "AList.update (op_name o') m t"
    have "\<forall>option \<in> set options. map_of ?t (op_name option) \<noteq> None" using Cons.prems(5) by (auto simp: map_of_update)
    with Cons.IH [of ?t] Cons.prems obtain t' where t': "copy_comparisons rest ?t = Inr t'"
      and in_force: "\<forall>option \<in> set options. map_of t' (op_name option)
        = (if option \<in> set rest then (case op_copy_comparison_from option of None \<Rightarrow> map_of ?t (op_name option) | Some src \<Rightarrow> map_of ?t src)
           else map_of ?t (op_name option))" by auto
    have step: "copy_comparisons (o' # rest) t = Inr t'" using t' Some m by (simp add: copy_comparisons_def)
    have keep: "map_of ?t (op_name a) = map_of t (op_name a)" if "a \<in> set options" "a \<noteq> o'" for a
      using same_name [OF Cons.prems(2) that(1) o'(1)] that(2) by (simp add: map_of_update)
    have source: "map_of ?t src' = map_of t src'" if a: "a \<in> set rest" "op_copy_comparison_from a = Some src'" for a src'
    proof -
      from a Cons.prems(1) [of a] obtain b where b: "b \<in> set options" "op_name b = src'" "op_copy_comparison_from b = None"
        by auto
      then have "b \<noteq> o'" using Some by auto
      with keep [OF b(1)] b(2) show ?thesis by simp
    qed
    have "map_of t' (op_name a) = (if a \<in> set (o' # rest)
        then (case op_copy_comparison_from a of None \<Rightarrow> map_of t (op_name a) | Some src \<Rightarrow> map_of t src) else map_of t (op_name a))"
      if a: "a \<in> set options" for a
    proof (cases "a = o'")
      case True
      then show ?thesis using in_force o' Some m by (simp add: map_of_update)
    next
      case False
      then show ?thesis using bspec [OF in_force a] keep [OF a False] source [of a] by (auto split: option.split)
    qed
    with step show ?thesis by blast
  qed
qed (simp add: copy_comparisons_def)

lemma copies_in_force:
  assumes "well_named options" "\<forall>option \<in> set options. map_of t (op_name option) = Some (f option)"
  shows "\<exists>t'. copy_comparisons options t = Inr t' \<and> (\<forall>option \<in> set options. map_of t' (op_name option)
    = Some (case op_copy_comparison_from option of None \<Rightarrow> f option
        | Some src \<Rightarrow> (case List.find (\<lambda>o'. op_name o' = src) options of None \<Rightarrow> f option | Some o' \<Rightarrow> f o')))"
proof -
  have copies: "\<exists>b \<in> set options. op_name b = src \<and> op_copy_comparison_from b = None"
    if "a \<in> set options" "op_copy_comparison_from a = Some src" for a src
    using assms(1) that by (fastforce simp: well_named_def list_all_iff list_ex_iff)
  have names: "distinct (map op_name options)" using assms(1) by (simp add: well_named_def)
  have "\<exists>t'. copy_comparisons options t = Inr t' \<and> (\<forall>option \<in> set options. map_of t' (op_name option)
    = (if option \<in> set options then (case op_copy_comparison_from option of None \<Rightarrow> map_of t (op_name option) | Some src \<Rightarrow> map_of t src)
       else map_of t (op_name option)))"
    by (rule copies_fold [OF copies assms(1) _ names]) (use assms(2) in auto)
  then obtain t' where t': "copy_comparisons options t = Inr t'"
    "\<forall>option \<in> set options. map_of t' (op_name option)
      = (case op_copy_comparison_from option of None \<Rightarrow> map_of t (op_name option) | Some src \<Rightarrow> map_of t src)" by auto
  have "map_of t' (op_name option) = Some (case op_copy_comparison_from option of None \<Rightarrow> f option
        | Some src \<Rightarrow> (case List.find (\<lambda>o'. op_name o' = src) options of None \<Rightarrow> f option | Some o' \<Rightarrow> f o'))"
    if "option \<in> set options" for option
  proof (cases "op_copy_comparison_from option")
    case None
    then show ?thesis using t'(2) assms(2) that by simp
  next
    case (Some src)
    from copies [OF that this] obtain o' where o': "o' \<in> set options" "op_name o' = src" by blast
    from find_named(2) [OF assms(1) o'(1)] o' Some t'(2) assms(2) that show ?thesis by auto
  qed
  with t'(1) show ?thesis by blast
qed

lemma old_options:
  assumes "well_named options"
  shows "\<exists>t2. bindR (if truthy (dget params ''ignore_image'') then set_comparison ''image'' ''ignore'' (default_comparisons options)
        else Inr (default_comparisons options)) (\<lambda>t1.
      if truthy (dget params ''purge_networks'') then set_comparison ''networks'' ''strict'' t1 else Inr t1) = Inr t2
    \<and> (\<forall>option \<in> set options. map_of t2 (op_name option) = Some (before_entries params [] option))"
proof -
  obtain i n where "i \<in> set options" "op_name i = ''image''" "n \<in> set options" "op_name n = ''networks''"
    using assms by (auto simp: well_named_def)
  with default_comparison_of_option [OF assms] have "map_of (default_comparisons options) ''image'' = Some (op_comparison i)"
    "map_of (default_comparisons options) ''networks'' = Some (op_comparison n)" by metis+
  then show ?thesis
    using default_comparison_of_option [OF assms] by (auto simp: set_comparison_def map_of_update before_entries_def)
qed

lemma wildcard_in_force:
  assumes "well_named options" "\<forall>option \<in> set options. map_of t2 (op_name option) = Some (before_entries params [] option)"
  shows "case (case map_of cs ''*'' of None \<Rightarrow> Inr t2 | Some v \<Rightarrow> wildcard params options v t2) of
      Inr t3 \<Rightarrow> (map_of cs ''*'' = None \<or> dget cs ''*'' \<in> set two_modes)
        \<and> (\<forall>option \<in> set options. map_of t3 (op_name option) = Some (before_entries params cs option))
    | Inl e \<Rightarrow> \<not> (map_of cs ''*'' = None \<or> dget cs ''*'' \<in> set two_modes) \<and> (\<exists>msg. e = fail_msg msg)"
proof (cases "map_of cs ''*''")
  case None
  with assms(2) show ?thesis by (simp add: before_entries_def)
next
  case (Some v)
  then have v: "dget cs ''*'' = v" by (simp add: dget_def)
  show ?thesis
  proof (cases "v \<in> set two_modes")
    case True
    then obtain m where m: "v = PStr m" "m = ''strict'' \<or> m = ''ignore''" by (auto simp: two_modes_def)
    then have "wildcard params options v t2
        = Inr (fold (\<lambda>o' acc. if op_name o' = ''networks'' \<and> dget params ''networks'' = PNone then acc
            else AList.update (op_name o') m acc) options t2)" by (simp add: wildcard_def)
    with Some v True m(1) assms(2) show ?thesis by (auto simp: wildcard_fold before_entries_def)
  next
    case False
    with Some v show ?thesis by (cases v) (auto simp: wildcard_def two_modes_def fail_msg_def)
  qed
qed

lemma comparisons_table:
  assumes "well_named options" and "given_comparisons params = Some cs"
  shows "case parse_comparisons params options of
      Inr (t, warnings) \<Rightarrow> comparisons_allowed options cs
        \<and> (\<forall>option \<in> set options. map_of t (op_name option) = Some (mode_in_force params cs options option))
    | Inl e \<Rightarrow> \<not> comparisons_allowed options cs \<and> (\<exists>msg. e = fail_msg msg)"
proof -
  obtain t1 t2 where t1: "(if truthy (dget params ''ignore_image'') then set_comparison ''image'' ''ignore'' (default_comparisons options)
        else Inr (default_comparisons options)) = Inr t1"
    and t2: "(if truthy (dget params ''purge_networks'') then set_comparison ''networks'' ''strict'' t1 else Inr t1) = Inr t2"
    and before: "\<forall>option \<in> set options. map_of t2 (op_name option) = Some (before_entries params [] option)"
    using old_options [OF assms(1), of params] by (auto simp: bindR_eq_Inr)
  define entries where "entries = bindR (case map_of cs ''*'' of None \<Rightarrow> Inr t2 | Some v \<Rightarrow> wildcard params options v t2) (\<lambda>t3.
      bindR (foldR (one_comparison options) ([], t3) cs) (\<lambda>(used, t4). Inr t4))"
  have taken: "(case dget params ''comparisons'' of PDict comparisons \<Rightarrow>
            bindR (case map_of comparisons ''*'' of None \<Rightarrow> Inr t2 | Some v \<Rightarrow> wildcard params options v t2) (\<lambda>t3.
            bindR (foldR (one_comparison options) ([], t3) comparisons) (\<lambda>(used, t4). Inr t4))
        | v \<Rightarrow> if truthy v then Inl TypeError else Inr t2) = entries"
    using assms(2) by (auto simp: given_comparisons_def entries_def split: pyval.splits)
  have fits: "entries_fit options [] cs \<longleftrightarrow> list_all (entry_allowed options) cs \<and> list_all (\<lambda>option. entries_for cs option \<le> 1) options"
    by (simp add: entries_fit_def room_def)
  have "case entries of Inr t5 \<Rightarrow> comparisons_allowed options cs
        \<and> (\<forall>option \<in> set options. map_of t5 (op_name option) = Some (own_mode params cs option))
    | Inl e \<Rightarrow> \<not> comparisons_allowed options cs \<and> (\<exists>msg. e = fail_msg msg)"
  proof (cases "case map_of cs ''*'' of None \<Rightarrow> Inr t2 | Some v \<Rightarrow> wildcard params options v t2")
    case (Inl e)
    with wildcard_in_force [OF assms(1) before, of cs] show ?thesis by (simp add: entries_def comparisons_allowed_def)
  next
    case (Inr t3)
    with wildcard_in_force [OF assms(1) before, of cs] have wild: "map_of cs ''*'' = None \<or> dget cs ''*'' \<in> set two_modes"
      "\<forall>option \<in> set options. map_of t3 (op_name option) = Some (before_entries params cs option)" by simp_all
    show ?thesis
    proof (cases "foldR (one_comparison options) ([], t3) cs")
      case (Inl e)
      with comparisons_fold [OF assms(1), where used = "[]" and t = t3 and cs = cs] Inr fits show ?thesis by (auto simp: entries_def comparisons_allowed_def)
    next
      case (Inr s)
      obtain used t4 where s: "s = (used, t4)" by (cases s)
      from comparisons_fold [OF assms(1), where used = "[]" and t = t3 and cs = cs] Inr s have "entries_fit options [] cs" "put_given options cs t3 t4" by simp_all
      with wild fits have "comparisons_allowed options cs"
        "\<forall>option \<in> set options. map_of t4 (op_name option) = Some (own_mode params cs option)"
        by (auto simp: comparisons_allowed_def put_given_def own_mode_def split: option.split)
      with Inr s \<open>(case map_of cs ''*'' of None \<Rightarrow> Inr t2 | Some v \<Rightarrow> wildcard params options v t2) = Inr t3\<close> show ?thesis
        by (simp add: entries_def)
    qed
  qed
  moreover have "\<exists>t6. copy_comparisons options t5 = Inr t6 \<and> (\<forall>option \<in> set options. map_of t6 (op_name option)
      = Some (mode_in_force params cs options option))"
    if "\<forall>option \<in> set options. map_of t5 (op_name option) = Some (own_mode params cs option)" for t5
    using copies_in_force [OF assms(1) that] unfolding mode_in_force_def .
  ultimately show ?thesis
    unfolding parse_comparisons_def Let_def t1 bindR.simps t2 taken by (cases entries) fastforce+
qed

section \<open>The table of the module\<close>

lemma table_well_named: "well_named (all_options_of (OPTIONS W S))"
proof -
  have "all_options_of (OPTIONS W S) = all_options_of (OPTIONS sample_docker (sample_surroundings []))"
    by (simp add: all_options_of_def OPTIONS_def first_options_def second_options_def third_options_def fourth_options_def
        fifth_options_def option_defs)
  also have "well_named \<dots>" by code_simp
  finally show ?thesis .
qed

text \<open>C35: The comparisons of the module, exactly: they are refused, with a message, precisely when an entry is for no
  option, when two entries are for one option, when a mode does not exist or does not fit the type of the option, or when
  the wildcard asks for another mode than \<open>strict\<close> or \<open>ignore\<close>; otherwise every option is compared
  in the mode given for it or one of its aliases, else in that of the wildcard (which leaves networks alone that are
  not asked for), else as the old options \<open>ignore_image\<close> and \<open>purge_networks\<close> say, else by its default; and the
  bind mounts follow the volumes.\<close>

theorem comparisons_in_force:
  assumes "given_comparisons params = Some comparisons"
  shows "case parse_comparisons params (all_options_of (OPTIONS W S)) of
      Inr (t, warnings) \<Rightarrow> comparisons_allowed (all_options_of (OPTIONS W S)) comparisons
        \<and> (\<forall>option \<in> set (all_options_of (OPTIONS W S)).
             map_of t (op_name option) = Some (mode_in_force params comparisons (all_options_of (OPTIONS W S)) option))
    | Inl e \<Rightarrow> \<not> comparisons_allowed (all_options_of (OPTIONS W S)) comparisons \<and> (\<exists>msg. e = fail_msg msg)"
  by (rule comparisons_table [OF table_well_named assms])

definition sample_options :: "opt list" where
  "sample_options = all_options_of (OPTIONS sample_docker (sample_surroundings []))"

definition given_modes :: dict where
  "given_modes = [(''expose'', PStr ''strict''), (''*'', PStr ''ignore''), (''volumes'', PStr ''allow_more_present'')]"

definition sample_comparisons :: dict where
  "sample_comparisons = [(''comparisons'', PDict given_modes), (''purge_networks'', PBool True)]"

text \<open>Each of the ways an option gets its mode.\<close>

definition expected_modes :: "(string \<times> string) list" where
  "expected_modes = [(''exposed_ports'', ''strict''), (''hostname'', ''ignore''), (''networks'', ''strict''),
     (''volumes'', ''allow_more_present''), (''volume_binds'', ''allow_more_present'')]"

lemma sample_modes:
  "comparisons_allowed sample_options given_modes"
  "list_all (\<lambda>(n, m). list_ex (\<lambda>option. op_name option = n
     \<and> mode_in_force sample_comparisons given_modes sample_options option = m) sample_options) expected_modes"
  by code_simp+

theorem comparisons_in_force_witness:
  "case parse_comparisons sample_comparisons sample_options of
     Inr (t, warnings) \<Rightarrow> \<forall>(n, m) \<in> set expected_modes. map_of t n = Some m | Inl e \<Rightarrow> False"
proof -
  have given: "given_comparisons sample_comparisons = Some given_modes" by code_simp
  note table = comparisons_in_force [OF given, of sample_docker "sample_surroundings []", folded sample_options_def]
  from table sample_modes(1) obtain t ws where run: "parse_comparisons sample_comparisons sample_options = Inr (t, ws)"
    by (auto split: sum.splits)
  with table have "\<forall>option \<in> set sample_options.
      map_of t (op_name option) = Some (mode_in_force sample_comparisons given_modes sample_options option)" by simp
  with sample_modes(2) have "\<forall>(n, m) \<in> set expected_modes. map_of t n = Some m"
    by (fastforce simp: list_all_iff list_ex_iff)
  with run show ?thesis by simp
qed

text \<open>A value has no more of itself, and an option has one entry.\<close>

lemma refused_comparisons:
  "\<not> comparisons_allowed sample_options [(''hostname'', PStr ''allow_more_present'')]"
  "\<not> comparisons_allowed sample_options [(''ports'', PStr ''strict''), (''published_ports'', PStr ''strict'')]"
  "\<not> comparisons_allowed sample_options [(''state'', PStr ''strict'')]"
  by code_simp+

end
