(* ===== verification/DockerLog.thy ===== *)
theory DockerLog
  imports PyJson PyBytes
begin

unbundle bit_operations_syntax

text \<open>
  Text formats of the Docker collection: the parser of Go's logfmt lines
  (\<open>_logfmt.py\<close>), a state machine with five modes, and the scrambling of values
  (\<open>_scramble.py\<close>). The parser's index is represented by what is left of the line from it;
  \<open>prev\<close> goes back to the backslash just passed.
\<close>

section \<open>The parser of logfmt lines\<close>

datatype lf_mode = GARBAGE | KEY | EQUAL | IDENT_VALUE | QUOTED_VALUE

type_synonym lf_result = "(string \<times> string option) list"

record lf_state =
  lf_mode :: lf_mode
  lf_rest :: string
  lf_key :: string
  lf_value :: string
  lf_result :: lf_result

definition ESCAPE_DICT :: "(char \<times> char) list" where
  "ESCAPE_DICT = [(CHR 0x22, CHR 0x22), (CHR 0x5C, CHR 0x5C), (CHR 0x27, CHR 0x27), (CHR ''/'', CHR ''/''),
     (CHR ''b'', CHR 0x08), (CHR ''f'', CHR 0x0C), (CHR ''n'', CHR 0x0A), (CHR ''r'', CHR 0x0D), (CHR ''t'', CHR 0x09)]"

definition is_ident :: "char \<Rightarrow> bool" where
  "is_ident cur \<longleftrightarrow> cur > CHR '' '' \<and> cur \<notin> {CHR 0x22, CHR ''=''}"

text \<open>
  Every round of the loop reads the digit at the parser's index, which is the backslash.
\<close>

definition parse_unicode_sequence :: "string \<Rightarrow> (char \<times> string) res" where
  "parse_unicode_sequence line =
     (if length line < 6 then Inl (InvalidLogFmt ''Not enough space for unicode escape'')
      else if take 2 line \<noteq> [CHR 0x5C, CHR ''u''] then Inl (InvalidLogFmt ''Invalid unicode escape start'')
      else bindR (foldR (\<lambda>v i. case hex_val (hd line) of
            Some d \<Rightarrow> Inr (v * 16 + d)
          | None \<Rightarrow> Inl (InvalidLogFmt (''Invalid unicode escape digit '' @ repr_str [hd line]))) 0 [2..<6]) (\<lambda>v.
        Inr (char_of v, drop 6 line)))"

definition handle_kv :: "bool \<Rightarrow> lf_state \<Rightarrow> lf_state" where
  "handle_kv has_no_value s = s\<lparr>lf_result := AList.update (lf_key s) (if has_no_value then None else Some (lf_value s)) (lf_result s),
     lf_key := [], lf_value := []\<rparr>"

definition goto :: "lf_mode \<Rightarrow> string \<Rightarrow> lf_state \<Rightarrow> lf_state" where
  "goto mode rest s = s\<lparr>lf_mode := mode, lf_rest := rest\<rparr>"

definition parse_garbage :: "char \<Rightarrow> string \<Rightarrow> lf_state \<Rightarrow> lf_state res" where
  "parse_garbage cur rest s =
     (if is_ident cur then Inr (goto KEY (cur # rest) s) else Inr (goto GARBAGE rest s))"

definition parse_key :: "bool \<Rightarrow> char \<Rightarrow> string \<Rightarrow> lf_state \<Rightarrow> lf_state res" where
  "parse_key logrus_mode cur rest s =
     (if is_ident cur then Inr (goto KEY rest (s\<lparr>lf_key := lf_key s @ [cur]\<rparr>))
      else if cur = CHR ''='' then Inr (goto EQUAL rest s)
      else if logrus_mode then Inl (InvalidLogFmt (''Key must always be followed by '' @ [CHR 0x22] @ ''='' @ [CHR 0x22] @ '' in logrus mode''))
      else Inr (goto GARBAGE rest (handle_kv True s)))"

definition parse_equal :: "char \<Rightarrow> string \<Rightarrow> lf_state \<Rightarrow> lf_state res" where
  "parse_equal cur rest s =
     (if is_ident cur then Inr (goto IDENT_VALUE rest (s\<lparr>lf_value := lf_value s @ [cur]\<rparr>))
      else if cur = CHR 0x22 then Inr (goto QUOTED_VALUE rest s)
      else Inr (goto GARBAGE rest (handle_kv False s)))"

definition parse_ident_value :: "char \<Rightarrow> string \<Rightarrow> lf_state \<Rightarrow> lf_state res" where
  "parse_ident_value cur rest s =
     (if is_ident cur then Inr (goto IDENT_VALUE rest (s\<lparr>lf_value := lf_value s @ [cur]\<rparr>))
      else Inr (goto GARBAGE rest (handle_kv False s)))"

definition parse_quoted_value :: "char \<Rightarrow> string \<Rightarrow> lf_state \<Rightarrow> lf_state res" where
  "parse_quoted_value cur rest s =
     (if cur = CHR 0x5C then
        (case rest of
           [] \<Rightarrow> Inl (InvalidLogFmt ''Unterminated escape sequence in quoted string'')
         | c # rest' \<Rightarrow> (case map_of ESCAPE_DICT c of
             Some e \<Rightarrow> Inr (goto QUOTED_VALUE rest' (s\<lparr>lf_value := lf_value s @ [e]\<rparr>))
           | None \<Rightarrow>
               if c \<noteq> CHR ''u'' then Inl (InvalidLogFmt (''Unknown escape sequence '' @ repr_str [CHR 0x5C, c]))
               else bindR (parse_unicode_sequence (cur # rest)) (\<lambda>(u, rest'').
                 Inr (goto QUOTED_VALUE (drop 1 rest'') (s\<lparr>lf_value := lf_value s @ [u]\<rparr>)))))
      else if cur = CHR 0x22 then Inr (goto GARBAGE rest (handle_kv False s))
      else if cur < CHR '' '' then Inl (InvalidLogFmt ''Control characters in quoted string are not allowed'')
      else Inr (goto QUOTED_VALUE rest (s\<lparr>lf_value := lf_value s @ [cur]\<rparr>)))"

definition lf_step :: "bool \<Rightarrow> lf_state \<Rightarrow> lf_state res" where
  "lf_step logrus_mode s = (case lf_rest s of
      [] \<Rightarrow> Inl IndexError
    | cur # rest \<Rightarrow> (case lf_mode s of
        GARBAGE \<Rightarrow> parse_garbage cur rest s
      | KEY \<Rightarrow> parse_key logrus_mode cur rest s
      | EQUAL \<Rightarrow> parse_equal cur rest s
      | IDENT_VALUE \<Rightarrow> parse_ident_value cur rest s
      | QUOTED_VALUE \<Rightarrow> parse_quoted_value cur rest s))"

text \<open>The loop: every step consumes a character or leaves \<open>GARBAGE\<close>.\<close>

definition lf_measure :: "lf_state \<Rightarrow> nat" where
  "lf_measure s = 2 * length (lf_rest s) + (if lf_mode s = GARBAGE then 1 else 0)"

lemma goto_sel [simp]:
  "lf_mode (goto m r s) = m" "lf_rest (goto m r s) = r" "lf_key (goto m r s) = lf_key s"
  "lf_value (goto m r s) = lf_value s" "lf_result (goto m r s) = lf_result s"
  by (simp_all add: goto_def)

lemma handle_kv_sel [simp]:
  "lf_mode (handle_kv b s) = lf_mode s" "lf_rest (handle_kv b s) = lf_rest s" "lf_key (handle_kv b s) = []"
  "lf_value (handle_kv b s) = []"
  "lf_result (handle_kv b s) = AList.update (lf_key s) (if b then None else Some (lf_value s)) (lf_result s)"
  by (simp_all add: handle_kv_def)

lemma parse_unicode_sequence_rest: "parse_unicode_sequence line = Inr (c, rest) \<Longrightarrow> length rest < length line"
  by (auto simp: parse_unicode_sequence_def bindR_eq_Inr split: if_splits)

lemma lf_step_decreases: "lf_step logrus_mode s = Inr s' \<Longrightarrow> lf_measure s' < lf_measure s"
  by (auto simp: lf_step_def lf_measure_def parse_garbage_def parse_key_def parse_equal_def parse_ident_value_def
      parse_quoted_value_def bindR_eq_Inr dest!: parse_unicode_sequence_rest
      split: list.splits lf_mode.splits if_splits option.splits)

function lf_run :: "bool \<Rightarrow> lf_state \<Rightarrow> lf_state res" where
  "lf_run logrus_mode s = (if lf_rest s = [] then Inr s else bindR (lf_step logrus_mode s) (lf_run logrus_mode))"
  by pat_completeness auto
termination
  by (relation "measure (lf_measure \<circ> snd)") (auto dest: lf_step_decreases)

declare lf_run.simps [simp del]

definition lf_start :: "string \<Rightarrow> lf_state" where
  "lf_start line = \<lparr>lf_mode = GARBAGE, lf_rest = line, lf_key = [], lf_value = [], lf_result = []\<rparr>"

definition lf_finish :: "bool \<Rightarrow> lf_state \<Rightarrow> lf_result res" where
  "lf_finish logrus_mode s =
     (if lf_mode s = KEY \<and> logrus_mode then Inl (InvalidLogFmt (''Key must always be followed by '' @ [CHR 0x22] @ ''='' @ [CHR 0x22] @ '' in logrus mode''))
      else case lf_mode s of
        KEY \<Rightarrow> Inr (lf_result (handle_kv True s))
      | EQUAL \<Rightarrow> Inr (lf_result (handle_kv True s))
      | IDENT_VALUE \<Rightarrow> Inr (lf_result (handle_kv False s))
      | QUOTED_VALUE \<Rightarrow> Inl (InvalidLogFmt ''Unterminated quoted string'')
      | GARBAGE \<Rightarrow> Inr (lf_result s))"

definition parse_line :: "string \<Rightarrow> bool \<Rightarrow> lf_result res" where
  "parse_line line logrus_mode = bindR (lf_run logrus_mode (lf_start line)) (lf_finish logrus_mode)"

section \<open>Writing and reading a line\<close>

definition esc_char :: "char \<Rightarrow> string" where
  "esc_char c = (if c \<in> {CHR 0x22, CHR 0x5C} then [CHR 0x5C, c]
     else if c = CHR 0x0A then [CHR 0x5C, CHR ''n''] else if c = CHR 0x0D then [CHR 0x5C, CHR ''r'']
     else if c = CHR 0x09 then [CHR 0x5C, CHR ''t''] else if c = CHR 0x08 then [CHR 0x5C, CHR ''b'']
     else if c = CHR 0x0C then [CHR 0x5C, CHR ''f''] else [c])"

definition quotable :: "char \<Rightarrow> bool" where
  "quotable c \<longleftrightarrow> \<not> c < CHR '' '' \<or> c \<in> {CHR 0x0A, CHR 0x0D, CHR 0x09, CHR 0x08, CHR 0x0C}"

definition quoted :: "string \<Rightarrow> string" where
  "quoted v = concat (map esc_char v)"

fun render_pair :: "string \<times> string option \<Rightarrow> string" where
  "render_pair (k, None) = k"
| "render_pair (k, Some v) = k @ [CHR ''='', CHR 0x22] @ quoted v @ [CHR 0x22]"

fun good_pair :: "string \<times> string option \<Rightarrow> bool" where
  "good_pair (k, v) \<longleftrightarrow> k \<noteq> [] \<and> list_all is_ident k \<and> (case v of None \<Rightarrow> True | Some w \<Rightarrow> list_all quotable w)"

definition render_line :: "(string \<times> string option) list \<Rightarrow> string" where
  "render_line kvs = py_join '' '' (map render_pair kvs)"

abbreviation st :: "lf_mode \<Rightarrow> string \<Rightarrow> string \<Rightarrow> string \<Rightarrow> lf_result \<Rightarrow> lf_state" where
  "st m r k v res \<equiv> \<lparr>lf_mode = m, lf_rest = r, lf_key = k, lf_value = v, lf_result = res\<rparr>"

lemma run_Nil: "lf_run l (st m [] k v res) = Inr (st m [] k v res)"
  by (simp add: lf_run.simps)

lemma run_Cons: "lf_run l (st m (c # r) k v res) = bindR (lf_step l (st m (c # r) k v res)) (lf_run l)"
  by (simp add: lf_run.simps [of l "st m (c # r) k v res"])

lemma run_garbage:
  "is_ident c \<Longrightarrow> lf_run l (st GARBAGE (c # r) [] [] res) = lf_run l (st KEY (c # r) [] [] res)"
  "\<not> is_ident c \<Longrightarrow> lf_run l (st GARBAGE (c # r) [] [] res) = lf_run l (st GARBAGE r [] [] res)"
  by (simp_all add: run_Cons [of l GARBAGE] lf_step_def parse_garbage_def goto_def)

lemma run_key: "list_all is_ident k \<Longrightarrow> lf_run l (st KEY (k @ r) k0 [] res) = lf_run l (st KEY r (k0 @ k) [] res)"
  by (induction k arbitrary: k0) (simp_all add: run_Cons lf_step_def parse_key_def goto_def)

lemma not_ident [simp]: "\<not> is_ident (CHR '' '')" "\<not> is_ident (CHR ''='')" "\<not> is_ident (CHR 0x22)"
  by (simp_all add: is_ident_def)

lemma run_equal:
  "lf_run l (st KEY (CHR ''='' # CHR 0x22 # r) k [] res) = lf_run l (st QUOTED_VALUE r k [] res)"
  by (simp add: run_Cons lf_step_def parse_key_def parse_equal_def goto_def)

lemma quotable_cases:
  assumes "quotable c"
  obtains e where "esc_char c = [CHR 0x5C, e]" "map_of ESCAPE_DICT e = Some c"
  | "esc_char c = [c]" "c \<noteq> CHR 0x5C" "c \<noteq> CHR 0x22" "\<not> c < CHR '' ''"
proof (cases "c \<in> {CHR 0x22, CHR 0x5C, CHR 0x0A, CHR 0x0D, CHR 0x09, CHR 0x08, CHR 0x0C}")
  case True
  then have "esc_char c = [CHR 0x5C, last (esc_char c)]" "map_of ESCAPE_DICT (last (esc_char c)) = Some c"
    by (auto simp: esc_char_def ESCAPE_DICT_def)
  then show thesis by (rule that(1))
next
  case False
  with assms show thesis by (intro that(2)) (auto simp: esc_char_def quotable_def)
qed

lemma run_quoted:
  "list_all quotable v \<Longrightarrow> lf_run l (st QUOTED_VALUE (quoted v @ r) k v0 res) = lf_run l (st QUOTED_VALUE r k (v0 @ v) res)"
proof (induction v arbitrary: v0)
  case (Cons c v)
  then have "quotable c" by simp
  then show ?case
  proof (cases rule: quotable_cases)
    case (1 e)
    with Cons show ?thesis
      by (simp add: quoted_def run_Cons lf_step_def parse_quoted_value_def goto_def)
  next
    case 2
    with Cons show ?thesis
      by (simp add: quoted_def run_Cons lf_step_def parse_quoted_value_def goto_def)
  qed
qed (simp add: quoted_def)

lemma run_pair_value:
  assumes "good_pair (k, Some v)"
  shows "lf_run l (st GARBAGE (render_pair (k, Some v) @ r) [] [] res)
    = lf_run l (st GARBAGE r [] [] (AList.update k (Some v) res))"
proof -
  from assms obtain c k' where k: "k = c # k'" "is_ident c" by (cases k) auto
  have "lf_run l (st GARBAGE (render_pair (k, Some v) @ r) [] [] res)
    = lf_run l (st KEY (k @ [CHR ''='', CHR 0x22] @ quoted v @ [CHR 0x22] @ r) [] [] res)"
    using k by (simp add: run_garbage)
  also have "\<dots> = lf_run l (st QUOTED_VALUE (quoted v @ [CHR 0x22] @ r) k [] res)"
    using assms by (simp add: run_key run_equal del: append.simps) (simp add: run_equal)
  also have "\<dots> = lf_run l (st QUOTED_VALUE ([CHR 0x22] @ r) k v res)"
    using assms run_quoted [of v l "[CHR 0x22] @ r" k "[]" res] by simp
  also have "\<dots> = lf_run l (st GARBAGE r [] [] (AList.update k (Some v) res))"
    by (simp add: run_Cons lf_step_def parse_quoted_value_def goto_def handle_kv_def)
  finally show ?thesis .
qed

lemma run_pair_key:
  assumes "good_pair (k, None)"
  shows "lf_run l (st GARBAGE (k @ r) [] [] res) = lf_run l (st KEY r k [] res)"
proof -
  from assms obtain c k' where k: "k = c # k'" "is_ident c" by (cases k) auto
  then have "lf_run l (st GARBAGE (k @ r) [] [] res) = lf_run l (st KEY (k @ r) [] [] res)"
    by (simp add: run_garbage)
  with assms show ?thesis by (simp add: run_key)
qed

text \<open>C28: A line written from keys and quoted values is read back: the parser gives these entries, the
  last one for a key that occurs twice. In logrus mode every key has a value.\<close>

theorem logfmt_roundtrip:
  assumes "list_all good_pair kvs" and "logrus_mode \<longrightarrow> None \<notin> snd ` set kvs"
  shows "parse_line (render_line kvs) logrus_mode = Inr (dict_update [] kvs)"
proof -
  have "bindR (lf_run logrus_mode (st GARBAGE (render_line kvs) [] [] res)) (lf_finish logrus_mode)
      = Inr (dict_update res kvs)" for res
    using assms
  proof (induction kvs arbitrary: res)
    case Nil
    show ?case by (simp add: render_line_def run_Nil lf_finish_def dict_update_def)
  next
    case (Cons kv kvs)
    obtain k v where kv: "kv = (k, v)" by (cases kv)
    have IH: "bindR (lf_run logrus_mode (st GARBAGE (render_line kvs) [] [] res)) (lf_finish logrus_mode)
      = Inr (dict_update res kvs)" for res
      using Cons by simp
    have line: "render_line (kv # kvs) = render_pair kv @ (if kvs = [] then [] else CHR '' '' # render_line kvs)"
      by (cases kvs) (simp_all add: render_line_def)
    show ?case
    proof (cases v)
      case (Some w)
      with Cons.prems have "good_pair (k, Some w)" by (simp add: kv)
      from run_pair_value [OF this] IH [of "AList.update k v res"] show ?thesis
        by (cases kvs) (simp_all add: line kv Some dict_update_def run_garbage render_line_def)
    next
      case None
      with Cons.prems have k: "good_pair (k, None)" "\<not> logrus_mode" by (auto simp: kv)
      show ?thesis
      proof (cases kvs)
        case Nil
        with k run_pair_key [OF k(1), of logrus_mode "[]" res] show ?thesis
          by (simp add: render_line_def kv None run_Nil lf_finish_def dict_update_def)
      next
        case (Cons kv' kvs')
        with k run_pair_key [OF k(1)] IH [of "AList.update k v res"] show ?thesis
          by (simp add: render_line_def kv None dict_update_def run_Cons lf_step_def parse_key_def goto_def handle_kv_def)
      qed
    qed
  qed
  then show ?thesis by (simp add: parse_line_def lf_start_def)
qed

theorem logfmt_roundtrip_witness:
  "parse_line (render_line [(''level'', Some ''a b''), (''msg'', Some [CHR 0x22, CHR 0x0A]), (''x'', None), (''msg'', Some [])]) False
     = Inr [(''level'', Some ''a b''), (''msg'', Some []), (''x'', None)]"
proof -
  let ?kvs = "[(''level'', Some ''a b''), (''msg'', Some [CHR 0x22, CHR 0x0A]), (''x'', None), (''msg'', Some [])]"
  have "list_all good_pair ?kvs" by code_simp
  from logfmt_roundtrip [OF this, of False] show ?thesis by (simp add: dict_update_def)
qed

text \<open>A unicode escape in a quoted value is never accepted, however well-formed it is: where the
  digits should be read, the parser reads the backslash.\<close>

theorem unicode_escape_rejected:
  assumes "good_pair (k, Some v)" and "4 \<le> length r"
  shows "parse_line (k @ [CHR ''='', CHR 0x22] @ quoted v @ [CHR 0x5C, CHR ''u''] @ r) logrus_mode
    = Inl (InvalidLogFmt (''Invalid unicode escape digit '' @ repr_str [CHR 0x5C]))"
proof -
  let ?r = "[CHR 0x5C, CHR ''u''] @ r"
  from assms(1) obtain c k' where k: "k = c # k'" "is_ident c" by (cases k) auto
  have "lf_run logrus_mode (st GARBAGE (k @ [CHR ''='', CHR 0x22] @ quoted v @ ?r) [] [] [])
    = lf_run logrus_mode (st KEY (k @ [CHR ''='', CHR 0x22] @ quoted v @ ?r) [] [] [])"
    using k by (simp add: run_garbage)
  also have "\<dots> = lf_run logrus_mode (st QUOTED_VALUE (quoted v @ ?r) k [] [])"
    using assms by (simp add: run_key run_equal del: append.simps) (simp add: run_equal)
  also have "\<dots> = lf_run logrus_mode (st QUOTED_VALUE ?r k v [])"
    using assms run_quoted [of v logrus_mode ?r k "[]" "[]"] by simp
  also have "\<dots> = Inl (InvalidLogFmt (''Invalid unicode escape digit '' @ repr_str [CHR 0x5C]))"
    using assms(2)
    by (simp add: run_Cons lf_step_def parse_quoted_value_def parse_unicode_sequence_def ESCAPE_DICT_def
        upt_conv_Cons hex_val_def is_digit_def)
  finally show ?thesis by (simp add: parse_line_def lf_start_def)
qed

theorem unicode_escape_rejected_witness:
  "parse_line (''msg='' @ [CHR 0x22] @ ''x'' @ [CHR 0x5C] @ ''u0041'' @ [CHR 0x22]) False
    = Inl (InvalidLogFmt (''Invalid unicode escape digit '' @ repr_str [CHR 0x5C]))"
proof -
  have "good_pair (''msg'', Some ''x'')" by code_simp
  from unicode_escape_rejected [OF this, of "''0041'' @ [CHR 0x22]" False] show ?thesis
    by (simp add: quoted_def esc_char_def)
qed

section \<open>Scrambling\<close>

text \<open>
  \<open>to_bytes\<close> and \<open>to_text\<close> are Ansible's conversions. The key is a byte string whose first
  byte is combined with every byte of the value.
\<close>

definition xor_byte :: "char \<Rightarrow> char \<Rightarrow> char" where
  "xor_byte k b = char_of (code k XOR code b)"

definition scramble :: "(string \<Rightarrow> string) \<Rightarrow> string \<Rightarrow> string \<Rightarrow> string res" where
  "scramble to_bytes v key = (case key of
      [] \<Rightarrow> Inl (ValueError ''Key must be at least one byte'')
    | k # _ \<Rightarrow> Inr (''=S='' @ b64encode (map (xor_byte k) (to_bytes v))))"

definition unscramble :: "(string \<Rightarrow> string) \<Rightarrow> string \<Rightarrow> string \<Rightarrow> string res" where
  "unscramble to_text v key = (case key of
      [] \<Rightarrow> Inl (ValueError ''Key must be at least one byte'')
    | k # _ \<Rightarrow>
        (if \<not> starts_with v ''=S='' then Inl (ValueError ''Value does not start with indicator'')
         else (case b64decode (drop 3 v) of
             None \<Rightarrow> Inl (ValueError ''binascii.Error'')
           | Some bytes \<Rightarrow> Inr (to_text (map (xor_byte k) bytes)))))"

lemma xor_byte_twice: "xor_byte k (xor_byte k b) = b"
proof -
  have "take_bit 8 (code k) = code k" "take_bit 8 (code b) = code b"
    by (simp_all add: take_bit_nat_eq_self)
  then have "take_bit 8 (code k XOR code b) = code k XOR code b" by (simp add: take_bit_xor)
  then have "code (char_of (code k XOR code b)) = code k XOR code b"
    by (simp add: take_bit_eq_mod)
  then show ?thesis by (simp add: xor_byte_def flip: xor.assoc)
qed

text \<open>What has been scrambled with a key is unscrambled with it.\<close>

theorem unscramble_scramble:
  assumes "key \<noteq> []" and "to_text (to_bytes v) = v"
  shows "\<exists>s. scramble to_bytes v key = Inr s \<and> unscramble to_text s key = Inr v"
proof -
  obtain k ks where key: "key = k # ks" using assms(1) by (cases key) auto
  have "map (xor_byte k) (map (xor_byte k) bs) = bs" for bs by (induction bs) (simp_all add: xor_byte_twice)
  then show ?thesis using assms(2)
    by (simp add: key scramble_def unscramble_def b64decode_encode)
qed

theorem unscramble_scramble_witness:
  "\<exists>s. scramble (\<lambda>x. x) ''pass'' [CHR 0x5A] = Inr s \<and> s \<noteq> ''pass'' \<and> unscramble (\<lambda>x. x) s [CHR 0x5A] = Inr ''pass''"
proof -
  obtain s where s: "scramble (\<lambda>x. x) ''pass'' [CHR 0x5A] = Inr s" "unscramble (\<lambda>x. x) s [CHR 0x5A] = Inr ''pass''"
    using unscramble_scramble [of "[CHR 0x5A]" "\<lambda>x. x" "\<lambda>x. x" "''pass''"] by auto
  then show ?thesis by (auto simp: scramble_def)
qed

end
