(* ===== verification/DockerVolume.thy ===== *)
theory DockerVolume
  imports DockerManager
begin

text \<open>
  The module \<open>docker_volume\<close>: \<open>TaskParameters\<close> and the settings of the run are the record
  \<open>settings\<close>; what \<open>DockerVolumeManager\<close> keeps while it runs is the record \<open>progress\<close>, which
  \<open>DockerNetwork\<close> shares.
\<close>

record settings =
  se_params :: dict
  se_check_mode :: bool
  se_diff :: bool

record progress =
  pg_existing :: pyval
  pg_changed :: bool
  pg_actions :: "string list"
  pg_tracker :: tracker
  pg_differences :: "string list option"

abbreviation setting :: "settings \<Rightarrow> string \<Rightarrow> pyval" where
  "setting s k \<equiv> dget (se_params s) k"

definition start_progress :: "pyval \<Rightarrow> progress" where
  "start_progress existing = \<lparr>pg_existing = existing, pg_changed = False, pg_actions = [], pg_tracker = [], pg_differences = None\<rparr>"

definition took_action :: "string \<Rightarrow> progress \<Rightarrow> progress" where
  "took_action text p = p\<lparr>pg_actions := pg_actions p @ [text], pg_changed := True\<rparr>"

definition track_exists :: "bool \<Rightarrow> progress \<Rightarrow> progress" where
  "track_exists wanted p = p\<lparr>pg_tracker := tracker_add ''exists'' (PBool wanted) (PBool (pg_existing p \<noteq> PNone)) (pg_tracker p)\<rparr>"

text \<open>\<open>except APIError as e: self.client.fail(to_native(e))\<close>.\<close>

definition api_or_fail :: "world \<Rightarrow> 'a io \<Rightarrow> 'a io" where
  "api_or_fail W m = tryI m (\<lambda>e. case e of APIError _ \<Rightarrow> fail_client (exn_text W e) | NotFoundError \<Rightarrow> fail_client (exn_text W e) | _ \<Rightarrow> raiseI e)"

definition named_volume :: "pyval \<Rightarrow> pyval \<Rightarrow> pyval res" where
  "named_volume name volumes =
     bindR (py_getitem volumes ''Volumes'') (\<lambda>vs.
       if vs = PNone then Inr PNone
       else bindR (py_iter vs) (\<lambda>xs.
         bindR (findR (\<lambda>v. bindR (py_getitem v ''Name'') (\<lambda>n. Inr (py_eq n name))) xs) (\<lambda>found.
           Inr (case found of None \<Rightarrow> PNone | Some v \<Rightarrow> v))))"

definition get_existing_volume :: "world \<Rightarrow> settings \<Rightarrow> pyval io" where
  "get_existing_volume W s =
     bindI (api_or_fail W (GET W ''/volumes'' PNone [])) (\<lambda>volumes. liftI (named_volume (setting s ''volume_name'') volumes))"

text \<open>\<open>has_different_config\<close>: driver, options and labels. An option whose value at the daemon is
  false counts as missing.\<close>

definition driver_difference :: "settings \<Rightarrow> pyval \<Rightarrow> tracker res" where
  "driver_difference s existing =
     (if truthy (setting s ''driver'') then bindR (py_getitem existing ''Driver'') (\<lambda>d.
        Inr (if py_eq (setting s ''driver'') d then [] else tracker_add ''driver'' (setting s ''driver'') d []))
      else Inr [])"

definition option_differences :: "settings \<Rightarrow> pyval \<Rightarrow> tracker res" where
  "option_differences s existing =
     (if truthy (setting s ''driver_options'') then bindR (py_get existing ''Options'' PNone) (\<lambda>there.
        if \<not> truthy there then Inr (tracker_add ''driver_options'' (setting s ''driver_options'') there [])
        else bindR (py_items (setting s ''driver_options'')) (\<lambda>wanted.
          foldR (\<lambda>t (key, value). bindR (py_get there key PNone) (\<lambda>cur.
            Inr (if \<not> truthy cur \<or> \<not> py_eq value cur then tracker_add (''driver_options.'' @ key) value cur t else t))) [] wanted))
      else Inr [])"

definition label_differences :: "settings \<Rightarrow> pyval \<Rightarrow> tracker res" where
  "label_differences s existing =
     (if truthy (setting s ''labels'') then bindR (py_get existing ''Labels'' PNone) (\<lambda>l.
        bindR (py_items (setting s ''labels'')) (\<lambda>wanted.
          foldR (\<lambda>t (label, value). bindR (py_get (if truthy l then l else PDict []) label PNone) (\<lambda>cur.
            Inr (if py_eq cur value then t else tracker_add (''labels.'' @ label) value cur t))) [] wanted))
      else Inr [])"

definition has_different_volume :: "settings \<Rightarrow> pyval \<Rightarrow> tracker res" where
  "has_different_volume s existing =
     bindR (driver_difference s existing) (\<lambda>a. bindR (option_differences s existing) (\<lambda>b.
     bindR (label_differences s existing) (\<lambda>c. Inr (a @ b @ c))))"

definition volume_data :: "settings \<Rightarrow> dict" where
  "volume_data s = [(''Name'', setting s ''volume_name''), (''Driver'', setting s ''driver''), (''DriverOpts'', setting s ''driver_options'')]
     @ (if setting s ''labels'' \<noteq> PNone then [(''Labels'', setting s ''labels'')] else [])"

definition create_volume :: "world \<Rightarrow> settings \<Rightarrow> progress \<Rightarrow> progress io" where
  "create_volume W s p =
     (if truthy (pg_existing p) then retI p
      else bindI (if se_check_mode s then retI (pg_existing p)
          else api_or_fail W (bindI (POST W ''/volumes/create'' PNone [] (volume_data s)) (\<lambda>resp.
            bindI (liftI (py_getitem resp ''Name'')) (\<lambda>n. GET W ''/volumes/{0}'' n [])))) (\<lambda>existing.
        retI (took_action (''Created volume '' @ py_str (setting s ''volume_name'') @ '' with driver '' @ py_str (setting s ''driver''))
          (p\<lparr>pg_existing := existing\<rparr>))))"

definition remove_volume :: "world \<Rightarrow> settings \<Rightarrow> progress \<Rightarrow> progress io" where
  "remove_volume W s p =
     (if \<not> truthy (pg_existing p) then retI p
      else bindI (if se_check_mode s then retI ()
          else api_or_fail W (bindI (DELETE W ''/volumes/{0}'' (setting s ''volume_name'') []) (\<lambda>_. retI ()))) (\<lambda>_.
        retI (took_action (''Removed volume '' @ py_str (setting s ''volume_name'')) p)))"

text \<open>What is left in the progress for the result, \<open>if self.diff or self.check_mode or debug\<close>.\<close>

definition verbose :: "settings \<Rightarrow> bool" where
  "verbose s \<longleftrightarrow> se_diff s \<or> se_check_mode s \<or> truthy (setting s ''debug'')"

definition note_differences :: "settings \<Rightarrow> tracker \<Rightarrow> progress \<Rightarrow> progress" where
  "note_differences s differences p =
     (if verbose s then p\<lparr>pg_differences := Some (get_legacy_docker_diffs differences), pg_tracker := tracker_merge differences (pg_tracker p)\<rparr>
      else p)"

definition volume_present :: "world \<Rightarrow> settings \<Rightarrow> progress \<Rightarrow> (progress \<times> pyval) io" where
  "volume_present W s p =
     bindI (liftI (if truthy (pg_existing p) then has_different_volume s (pg_existing p) else Inr [])) (\<lambda>differences.
       let p1 = track_exists True p; recreate = setting s ''recreate'' in
       bindI (if \<not> tracker_empty differences \<and> recreate = PStr ''options-changed'' \<or> recreate = PStr ''always''
         then bindI (remove_volume W s p1) (\<lambda>p2. retI (p2\<lparr>pg_existing := PNone\<rparr>)) else retI p1) (\<lambda>p3.
       bindI (create_volume W s p3) (\<lambda>p4.
       bindI (get_existing_volume W s) (\<lambda>facts. retI (note_differences s differences p4, facts)))))"

definition volume_absent :: "world \<Rightarrow> settings \<Rightarrow> progress \<Rightarrow> progress io" where
  "volume_absent W s p = remove_volume W s (track_exists False p)"

text \<open>The result; the actions of \<open>present\<close> only in check mode or when debugging.\<close>

definition progress_result :: "settings \<Rightarrow> progress \<Rightarrow> bool \<Rightarrow> dict \<Rightarrow> dict" where
  "progress_result s p keep_actions facts =
     [(''changed'', PBool (pg_changed p))] @ (if keep_actions then [(''actions'', PList (map PStr (pg_actions p)))] else []) @ facts @
     (if verbose s then [(''diff'', PDict ((case pg_differences p of None \<Rightarrow> [] | Some ds \<Rightarrow> [(''differences'', PList (map PStr ds))]) @
        (if se_diff s then (case get_before_after (pg_tracker p) of (before, after) \<Rightarrow> [(''before'', PDict before), (''after'', PDict after)]) else [])))]
      else [])"

definition keeps_actions :: "settings \<Rightarrow> bool" where
  "keeps_actions s \<longleftrightarrow> se_check_mode s \<or> truthy (setting s ''debug'')"

definition volume_run :: "world \<Rightarrow> settings \<Rightarrow> dict io" where
  "volume_run W s =
     bindI (get_existing_volume W s) (\<lambda>existing.
       let p = start_progress existing in
       if setting s ''state'' = PStr ''present'' then
         bindI (volume_present W s p) (\<lambda>(p', facts). retI (progress_result s p' (keeps_actions s) [(''volume'', facts)]))
       else if setting s ''state'' = PStr ''absent'' then
         bindI (volume_absent W s p) (\<lambda>p'. retI (progress_result s p' True []))
       else retI (progress_result s p True []))"

definition volume_main :: "world \<Rightarrow> settings \<Rightarrow> unit io" where
  "volume_main W s = driver_run W (bindI (volume_run W s) (\<lambda>results. raiseI (ExitJson results)))"

end
