(* ===== verification/DockerNetwork.thy ===== *)
theory DockerNetwork
  imports DockerVolume
begin

text \<open>
  The module \<open>docker_network\<close>: validation of the subnets, the comparison of a network with the
  parameters, and the requests that bring it about with the containers connected to it.
\<close>

section \<open>Parameters\<close>

definition prefix_up_to :: "(string \<Rightarrow> bool) \<Rightarrow> string \<Rightarrow> bool" where
  "prefix_up_to long n \<longleftrightarrow> list_all is_digit n \<and> (length n = 1 \<or> long n)"

definition is_cidr4 :: "string \<Rightarrow> bool" where
  "is_cidr4 cidr \<longleftrightarrow> (case split_on (CHR ''/'') (until_newline cidr) of
     [ip, n] \<Rightarrow>
       length (split_on (CHR ''.'') ip) = 4
       \<and> list_all (\<lambda>w. 1 \<le> length w \<and> length w \<le> 3 \<and> list_all is_digit w) (split_on (CHR ''.'') ip)
       \<and> prefix_up_to (\<lambda>n. length n = 2 \<and> (hd n \<in> {CHR ''1'', CHR ''2''} \<or> n \<in> {''30'', ''31'', ''32''})) n
   | _ \<Rightarrow> False)"

definition is_cidr6 :: "string \<Rightarrow> bool" where
  "is_cidr6 cidr \<longleftrightarrow> (case split_on (CHR ''/'') (until_newline cidr) of
     [ip, n] \<Rightarrow>
       hex_colons ip
       \<and> prefix_up_to (\<lambda>n. length n = 2 \<and> hd n \<noteq> CHR ''0''
           \<or> length n = 3 \<and> hd n = CHR ''1'' \<and> n ! 1 \<in> {CHR ''0'', CHR ''1'', CHR ''2''}) n
   | _ \<Rightarrow> False)"

definition validate_cidr :: "string \<Rightarrow> string res" where
  "validate_cidr cidr = (if is_cidr4 cidr then Inr ''ipv4'' else if is_cidr6 cidr then Inr ''ipv6''
     else Inl (ValueError (CHR 0x22 # cidr @ [CHR 0x22] @ '' is not a valid CIDR'')))"

definition normalize_ipam_config_key :: "string \<Rightarrow> string" where
  "normalize_ipam_config_key key = (if key = ''AuxiliaryAddresses'' then ''aux_addresses'' else py_lower key)"

definition dicts_are_essentially_equal :: "dict \<Rightarrow> dict \<Rightarrow> bool" where
  "dicts_are_essentially_equal a b = list_all (\<lambda>(k, v). v = PNone \<or> py_eq (dget b k) v) a"

definition container_names_in_network :: "pyval \<Rightarrow> pyval list res" where
  "container_names_in_network network =
     bindR (py_getitem network ''Containers'') (\<lambda>cs.
       if \<not> truthy cs then Inr []
       else bindR (py_items cs) (mapR (\<lambda>(i, c). py_getitem c ''Name'')))"

text \<open>The checks and completions of the parameters, when the network is known.\<close>

definition check_subnet :: "pyval \<Rightarrow> string res" where
  "check_subnet pool = bindR (py_getitem pool ''subnet'') (\<lambda>v. case v of PStr c \<Rightarrow> validate_cidr c | _ \<Rightarrow> Inl TypeError)"

definition check_pools :: "world \<Rightarrow> settings \<Rightarrow> unit io" where
  "check_pools W s =
     (if truthy (setting s ''ipam_config'') then
        tryI (bindI (liftI (bindR (py_iter (setting s ''ipam_config'')) (mapR check_subnet))) (\<lambda>_. retI ()))
          (\<lambda>e. case e of ValueError m \<Rightarrow> fail_client m | _ \<Rightarrow> raiseI e)
      else retI ())"

definition with_null_driver :: "settings \<Rightarrow> settings" where
  "with_null_driver s =
     (if truthy (setting s ''config_only'') then s\<lparr>se_params := AList.update ''driver'' (PStr ''null'') (se_params s)\<rparr> else s)"

definition with_connected :: "settings \<Rightarrow> pyval \<Rightarrow> settings res" where
  "with_connected s existing =
     (if \<not> truthy (setting s ''connected'') \<and> truthy existing then
        bindR (container_names_in_network existing) (\<lambda>names. Inr (s\<lparr>se_params := AList.update ''connected'' (PList names) (se_params s)\<rparr>))
      else Inr s)"

definition with_clean_options :: "settings \<Rightarrow> settings res" where
  "with_clean_options s =
     (if truthy (setting s ''driver_options'') then
        bindR (py_items (setting s ''driver_options'')) (\<lambda>d.
          Inr (s\<lparr>se_params := AList.update ''driver_options'' (PDict (clean_dict_booleans_for_docker_api (Some d) False)) (se_params s)\<rparr>))
      else Inr s)"

section \<open>Differences\<close>

text \<open>An option that is given and differs from what the network says, or from a default.\<close>

definition field_difference :: "settings \<Rightarrow> string \<Rightarrow> pyval \<Rightarrow> pyval \<Rightarrow> tracker" where
  "field_difference s name there shown =
     (if setting s name \<noteq> PNone \<and> \<not> py_eq (setting s name) there then tracker_add name (setting s name) shown [] else [])"

text \<open>\<open>driver_options\<close> and \<open>labels\<close>: each key of the parameter, or the whole when there are none.\<close>

definition key_differences :: "settings \<Rightarrow> string \<Rightarrow> pyval \<Rightarrow> tracker res" where
  "key_differences s name there =
     (if \<not> truthy (setting s name) then Inr []
      else if \<not> truthy there then Inr (tracker_add name (setting s name) there [])
      else bindR (py_items (setting s name)) (\<lambda>wanted. bindR (py_items there) (\<lambda>t.
        Inr (concat (map (\<lambda>(key, value). if \<not> has_key t key \<or> \<not> py_eq value (dget t key)
          then tracker_add (name @ ''.'' @ key) value (dget t key) [] else []) wanted)))))"

definition pool_differences :: "dict list \<Rightarrow> nat \<Rightarrow> dict \<Rightarrow> tracker" where
  "pool_differences theirs idx wanted =
     (let match = (case List.find (dicts_are_essentially_equal wanted) theirs of None \<Rightarrow> [] | Some c \<Rightarrow> c) in
      concat (map (\<lambda>(key, value). if value = PNone \<or> py_eq value (dget match key) then []
        else tracker_add (''ipam_config['' @ dec_nat idx @ ''].'' @ key) value (dget match key) []) wanted))"

definition normal_pool :: "pyval \<Rightarrow> dict res" where
  "normal_pool c = bindR (py_items c) (\<lambda>d. Inr (dict_update [] (map (\<lambda>(k, v). (normalize_ipam_config_key k, v)) d)))"

definition ipam_config_differences :: "settings \<Rightarrow> pyval \<Rightarrow> tracker res" where
  "ipam_config_differences s net =
     (if \<not> truthy (setting s ''ipam_config'') then Inr []
      else bindR (py_get net ''IPAM'' PNone) (\<lambda>ipam.
        bindR (if truthy ipam then py_getitem ipam ''Config'' else Inr PNone) (\<lambda>config.
        if \<not> truthy config then
          bindR (py_get net ''IPAM'' (PDict [])) (\<lambda>i. bindR (py_get i ''Config'' PNone) (\<lambda>there.
            Inr (tracker_add ''ipam_config'' (setting s ''ipam_config'') there [])))
        else bindR (bindR (py_iter config) (mapR normal_pool)) (\<lambda>theirs.
          bindR (bindR (py_iter (setting s ''ipam_config'')) (mapR py_items)) (\<lambda>wanted.
            Inr (concat (map (\<lambda>(idx, w). pool_differences theirs idx w) (enumerate 0 wanted))))))))"

definition ipam_differences :: "settings \<Rightarrow> pyval \<Rightarrow> tracker res" where
  "ipam_differences s net =
     bindR (py_get net ''IPAM'' PNone) (\<lambda>ipam.
     bindR (if truthy (setting s ''ipam_driver'') then
         bindR (if truthy ipam then bindR (py_getitem ipam ''Driver'') (\<lambda>d. Inr (py_eq d (setting s ''ipam_driver''))) else Inr False) (\<lambda>same.
           Inr (if same then [] else tracker_add ''ipam_driver'' (setting s ''ipam_driver'') ipam []))
       else Inr []) (\<lambda>driver.
     bindR (if setting s ''ipam_driver_options'' \<noteq> PNone then
         bindR (py_getitem net ''IPAM'') (\<lambda>i. bindR (py_get i ''Options'' PNone) (\<lambda>o'.
           Inr (field_difference s ''ipam_driver_options'' (if truthy o' then o' else PDict []) (if truthy o' then o' else PDict []))))
       else Inr []) (\<lambda>options.
     bindR (ipam_config_differences s net) (\<lambda>config. Inr (driver @ options @ config)))))"

definition config_from_difference :: "settings \<Rightarrow> pyval \<Rightarrow> tracker res" where
  "config_from_difference s net =
     (if setting s ''config_from'' = PNone then Inr []
      else bindR (py_get net ''ConfigFrom'' (PDict [])) (\<lambda>c. bindR (py_get c ''Network'' (PStr [])) (\<lambda>n.
        Inr (field_difference s ''config_from'' n n))))"

definition has_different_network :: "settings \<Rightarrow> pyval \<Rightarrow> tracker res" where
  "has_different_network s net =
     bindR (py_items net) (\<lambda>d.
     let or_false = (\<lambda>k. if has_key d k then dget d k else PBool False) in
     bindR (config_from_difference s net) (\<lambda>from.
     bindR (if truthy (setting s ''driver'') then bindR (py_getitem net ''Driver'') (\<lambda>v. Inr (field_difference s ''driver'' v v)) else Inr []) (\<lambda>driver.
     bindR (key_differences s ''driver_options'' (dget d ''Options'')) (\<lambda>options.
     bindR (ipam_differences s net) (\<lambda>ipam.
     bindR (key_differences s ''labels'' (dget d ''Labels'')) (\<lambda>labels.
       Inr (field_difference s ''config_only'' (or_false ''ConfigOnly'') (or_false ''ConfigOnly'') @ from @ driver @ options @ ipam @
         field_difference s ''enable_ipv6'' (or_false ''EnableIPv6'') (or_false ''EnableIPv6'') @
         field_difference s ''internal'' (or_false ''Internal'') (dget d ''Internal'') @
         field_difference s ''scope'' (dget d ''Scope'') (dget d ''Scope'') @
         field_difference s ''attachable'' (or_false ''Attachable'') (dget d ''Attachable'') @ labels)))))))"

section \<open>Requests\<close>

definition pool_data :: "pyval \<Rightarrow> pyval res" where
  "pool_data pool =
     bindR (py_getitem pool ''subnet'') (\<lambda>a. bindR (py_getitem pool ''iprange'') (\<lambda>b.
     bindR (py_getitem pool ''gateway'') (\<lambda>c. bindR (py_getitem pool ''aux_addresses'') (\<lambda>d.
       Inr (PDict [(''Subnet'', a), (''IPRange'', b), (''Gateway'', c), (''AuxiliaryAddresses'', d)])))))"

definition network_data :: "settings \<Rightarrow> dict res" where
  "network_data s =
     bindR (if truthy (setting s ''ipam_config'') then bindR (py_iter (setting s ''ipam_config'')) (mapR pool_data) else Inr []) (\<lambda>pools.
       let given = (\<lambda>k f. if setting s k \<noteq> PNone then [(f, setting s k)] else []);
           yes = (\<lambda>k f. if truthy (setting s k) then [(f, PBool True)] else []);
           ipam = (if truthy (setting s ''ipam_driver'') \<or> truthy (setting s ''ipam_driver_options'') \<or> pools \<noteq> []
             then PDict [(''Driver'', setting s ''ipam_driver''), (''Config'', PList pools), (''Options'', setting s ''ipam_driver_options'')]
             else PNone)
       in Inr ([(''Name'', setting s ''name''), (''Driver'', setting s ''driver''), (''Options'', setting s ''driver_options''),
            (''IPAM'', ipam), (''CheckDuplicate'', PNone)] @ given ''config_only'' ''ConfigOnly'' @
          (if truthy (setting s ''config_from'') then [(''ConfigFrom'', PDict [(''Network'', setting s ''config_from'')])] else []) @
          yes ''enable_ipv6'' ''EnableIPv6'' @ yes ''internal'' ''Internal'' @ given ''scope'' ''Scope'' @
          given ''attachable'' ''Attachable'' @ given ''labels'' ''Labels''))"

definition create_network :: "world \<Rightarrow> settings \<Rightarrow> progress \<Rightarrow> progress io" where
  "create_network W s p =
     (if truthy (pg_existing p) then retI p
      else bindI (liftI (network_data s)) (\<lambda>data.
        bindI (if se_check_mode s then retI (pg_existing p)
          else bindI (POST W ''/networks/create'' PNone [] data) (\<lambda>resp.
            bindI (report_warnings resp [''Warning'']) (\<lambda>_.
            bindI (liftI (py_getitem resp ''Id'')) (get_network W PNone)))) (\<lambda>existing.
          retI (took_action (''Created network '' @ py_str (setting s ''name'') @ '' with driver '' @ py_str (setting s ''driver''))
            (p\<lparr>pg_existing := existing\<rparr>)))))"

definition disconnect_container :: "world \<Rightarrow> settings \<Rightarrow> pyval \<Rightarrow> progress \<Rightarrow> progress io" where
  "disconnect_container W s name p =
     bindI (if se_check_mode s then retI ()
       else bindI (POST W ''/networks/{0}/disconnect'' (setting s ''name'') [] [(''Container'', name)]) (\<lambda>_. retI ())) (\<lambda>_.
       let p1 = took_action (''Disconnected container '' @ py_str name) p in
       retI (p1\<lparr>pg_tracker := tracker_add (''connected.'' @ py_str name) (PBool False) (PBool True) (pg_tracker p1)\<rparr>))"

text \<open>The containers of a network as its inspection lists them, which goes wrong when there is none.\<close>

fun disconnect_each :: "world \<Rightarrow> settings \<Rightarrow> (pyval \<Rightarrow> bool) \<Rightarrow> (string \<times> pyval) list \<Rightarrow> progress \<Rightarrow> progress io" where
  "disconnect_each W s which [] p = retI p"
| "disconnect_each W s which ((i, c) # rest) p =
     bindI (liftI (py_getitem c ''Name'')) (\<lambda>name.
     bindI (if which name then disconnect_container W s name p else retI p) (disconnect_each W s which rest))"

definition containers_of :: "pyval \<Rightarrow> (string \<times> pyval) list res" where
  "containers_of network = bindR (py_getitem network ''Containers'') (\<lambda>cs. if truthy cs then py_items cs else Inr [])"

definition disconnect_all_containers :: "world \<Rightarrow> settings \<Rightarrow> progress \<Rightarrow> progress io" where
  "disconnect_all_containers W s p =
     bindI (get_network W (setting s ''name'') PNone) (\<lambda>net.
     bindI (liftI (containers_of net)) (\<lambda>cs. disconnect_each W s (\<lambda>_. True) cs p))"

definition remove_network :: "world \<Rightarrow> settings \<Rightarrow> progress \<Rightarrow> progress io" where
  "remove_network W s p =
     (if \<not> truthy (pg_existing p) then retI p
      else bindI (disconnect_all_containers W s p) (\<lambda>p1.
        bindI (if se_check_mode s then retI () else bindI (DELETE W ''/networks/{0}'' (setting s ''name'') []) (\<lambda>_. retI ())) (\<lambda>_.
          retI (took_action (''Removed network '' @ py_str (setting s ''name'')) p1))))"

definition is_container_connected :: "pyval \<Rightarrow> pyval \<Rightarrow> bool res" where
  "is_container_connected name existing =
     (if \<not> truthy existing then Inr False else bindR (container_names_in_network existing) (\<lambda>names. Inr (py_mem name names)))"

fun connect_each :: "world \<Rightarrow> settings \<Rightarrow> pyval list \<Rightarrow> progress \<Rightarrow> progress io" where
  "connect_each W s [] p = retI p"
| "connect_each W s (name # rest) p =
     bindI (liftI (is_container_connected name (pg_existing p))) (\<lambda>there.
       if there then connect_each W s rest p
       else bindI (if se_check_mode s then retI ()
           else bindI (POST W ''/networks/{0}/connect'' (setting s ''name'') [] [(''Container'', name), (''EndpointConfig'', PNone)]) (\<lambda>_. retI ())) (\<lambda>_.
         let p1 = took_action (''Connected container '' @ py_str name) p in
         connect_each W s rest (p1\<lparr>pg_tracker := tracker_add (''connected.'' @ py_str name) (PBool True) (PBool False) (pg_tracker p1)\<rparr>)))"

definition connect_containers :: "world \<Rightarrow> settings \<Rightarrow> progress \<Rightarrow> progress io" where
  "connect_containers W s p = bindI (liftI (py_iter (setting s ''connected''))) (\<lambda>names. connect_each W s names p)"

definition disconnect_missing :: "world \<Rightarrow> settings \<Rightarrow> progress \<Rightarrow> progress io" where
  "disconnect_missing W s p =
     (if \<not> truthy (pg_existing p) then retI p
      else bindI (liftI (containers_of (pg_existing p))) (\<lambda>cs.
        bindI (liftI (py_iter (setting s ''connected''))) (\<lambda>wanted. disconnect_each W s (\<lambda>name. \<not> py_mem name wanted) cs p)))"

definition network_present :: "world \<Rightarrow> settings \<Rightarrow> progress \<Rightarrow> (progress \<times> pyval) io" where
  "network_present W s p =
     bindI (liftI (if truthy (pg_existing p) then has_different_network s (pg_existing p) else Inr [])) (\<lambda>differences.
       let p1 = track_exists True p in
       bindI (if truthy (setting s ''force'') \<or> \<not> tracker_empty differences
         then bindI (remove_network W s p1) (\<lambda>p2. retI (p2\<lparr>pg_existing := PNone\<rparr>)) else retI p1) (\<lambda>p3.
       bindI (create_network W s p3) (\<lambda>p4.
       bindI (connect_containers W s p4) (\<lambda>p5.
       bindI (if truthy (setting s ''appends'') then retI p5 else disconnect_missing W s p5) (\<lambda>p6.
       bindI (get_network W (setting s ''name'') PNone) (\<lambda>facts. retI (note_differences s differences p6, facts)))))))"

definition network_absent :: "world \<Rightarrow> settings \<Rightarrow> progress \<Rightarrow> progress io" where
  "network_absent W s p = remove_network W s (track_exists False p)"

definition network_run :: "world \<Rightarrow> settings \<Rightarrow> dict io" where
  "network_run W s0 =
     (let s1 = with_null_driver s0 in
      bindI (get_network W (setting s1 ''name'') PNone) (\<lambda>existing.
      bindI (liftI (with_connected s1 existing)) (\<lambda>s2.
      bindI (check_pools W s2) (\<lambda>_.
      bindI (liftI (with_clean_options s2)) (\<lambda>s.
        let p = start_progress existing in
        if setting s ''state'' = PStr ''present'' then
          bindI (network_present W s p) (\<lambda>(p', facts). retI (progress_result s p' (keeps_actions s) [(''network'', facts)]))
        else if setting s ''state'' = PStr ''absent'' then
          bindI (network_absent W s p) (\<lambda>p'. retI (progress_result s p' True []))
        else retI (progress_result s p True []))))))"

definition network_main :: "world \<Rightarrow> settings \<Rightarrow> unit io" where
  "network_main W s = driver_run W (bindI (network_run W s) (\<lambda>results. raiseI (ExitJson results)))"

end
