(* ===== verification/DockerObjects.thy ===== *)
theory DockerObjects
  imports DockerNetwork DockerManagerSafety
begin

text \<open>
  What the modules for volumes and networks promise: check mode only asks, a change is
  reported, and a volume that is as the task wants it is left alone.
\<close>

section \<open>Check mode\<close>

lemma emits_api_or_fail [io_rules]: "emits P m \<Longrightarrow> emits P (api_or_fail W m)"
  unfolding api_or_fail_def by (auto intro!: io_rules split: exn.split)

lemma emits_driver_run [io_rules]: "emits P m \<Longrightarrow> emits P (driver_run W m)"
  unfolding driver_run_def by (intro io_rules)

lemma reads_existing_volume [io_rules]: "reads (get_existing_volume W s)"
  unfolding get_existing_volume_def by (intro io_rules)

lemma reads_check_pools [io_rules]: "reads (check_pools W s)"
  unfolding check_pools_def by (auto intro!: io_rules split: exn.split)

lemma check_mode_volume [io_rules]:
  assumes "se_check_mode s"
  shows "reads (create_volume W s p)" "reads (remove_volume W s p)"
  using assms unfolding create_volume_def remove_volume_def by (auto intro!: io_rules)

lemma check_mode_volume_run [io_rules]: "se_check_mode s \<Longrightarrow> reads (volume_run W s)"
  unfolding volume_run_def volume_present_def volume_absent_def Let_def by (auto intro!: io_rules)

lemma check_mode_disconnect [io_rules]: "se_check_mode s \<Longrightarrow> reads (disconnect_container W s n p)"
  unfolding disconnect_container_def Let_def by (auto intro!: io_rules)

lemma check_mode_disconnect_each [io_rules]: "se_check_mode s \<Longrightarrow> reads (disconnect_each W s which cs p)"
  by (induction cs arbitrary: p) (auto intro!: io_rules)

lemma check_mode_connect_each [io_rules]: "se_check_mode s \<Longrightarrow> reads (connect_each W s ns p)"
  by (induction ns arbitrary: p) (auto intro!: io_rules simp: Let_def)

lemma check_mode_network [io_rules]:
  assumes "se_check_mode s"
  shows "reads (create_network W s p)" "reads (remove_network W s p)" "reads (connect_containers W s p)" "reads (disconnect_missing W s p)"
  using assms unfolding create_network_def remove_network_def disconnect_all_containers_def connect_containers_def disconnect_missing_def
  by (auto intro!: io_rules)

text \<open>The parameters that are completed on the way leave the mode alone.\<close>

lemma completed_check_mode:
  "se_check_mode (with_null_driver s) = se_check_mode s"
  "with_connected s e = Inr s' \<Longrightarrow> se_check_mode s' = se_check_mode s"
  "with_clean_options s = Inr s' \<Longrightarrow> se_check_mode s' = se_check_mode s"
  by (auto simp: with_null_driver_def with_connected_def with_clean_options_def bindR_eq_Inr split: if_splits)

lemma check_mode_network_run [io_rules]:
  assumes "se_check_mode s"
  shows "reads (network_run W s)"
  unfolding network_run_def network_present_def network_absent_def Let_def
  by (intro emits_bind_value io_rules) (auto simp: run_simps completed_check_mode assms intro!: io_rules)

text \<open>C15: In check mode the modules for volumes and networks ask the daemon for nothing but information.\<close>

theorem objects_check_mode_is_safe:
  assumes "se_check_mode s"
  shows "emits (\<lambda>e. \<not> mutates e) (volume_main W s) \<and> emits (\<lambda>e. \<not> mutates e) (network_main W s)"
  using assms unfolding volume_main_def network_main_def by (auto intro!: io_rules)

definition sample_settings :: "bool \<Rightarrow> settings" where
  "sample_settings check = \<lparr>se_params = [(''volume_name'', PStr ''data''), (''name'', PStr ''net''), (''state'', PStr ''present''),
     (''driver'', PStr ''local''), (''recreate'', PStr ''never''), (''connected'', PList [])], se_check_mode = check, se_diff = False\<rparr>"

theorem objects_check_mode_is_safe_witness:
  "emits (\<lambda>e. \<not> mutates e) (volume_main sample_docker (sample_settings True))
     \<and> emits (\<lambda>e. \<not> mutates e) (network_main sample_docker (sample_settings True))"
  by (rule objects_check_mode_is_safe) (simp add: sample_settings_def)

section \<open>Nothing unreported\<close>

lemma took_action_changed [simp]: "pg_changed (took_action a p)" "pg_changed (track_exists b p) = pg_changed p"
  "pg_changed (note_differences s d p) = pg_changed p" "pg_changed (start_progress e) = False"
  by (simp_all add: took_action_def track_exists_def note_differences_def start_progress_def)

abbreviation advances :: "progress \<Rightarrow> progress io \<Rightarrow> bool" where
  "advances p m \<equiv> owns (pg_changed p) m pg_changed"

lemma advances_change: "emits (\<lambda>e. True) m \<Longrightarrow> (\<And>x. pg_changed (f x)) \<Longrightarrow> owns b (bindI m (\<lambda>x. retI (f x))) pg_changed"
  by (intro honest_after_change honest_ret) simp_all

lemma advances_bind: "advances p m \<Longrightarrow> (\<And>p'. owns (pg_changed p') (f p') says) \<Longrightarrow> owns (pg_changed p) (bindI m f) says"
  by (rule honest_bind [where said = pg_changed])

lemma advances_after: "advances p m \<Longrightarrow> (\<And>p'. pg_changed p' \<Longrightarrow> says (f p')) \<Longrightarrow> owns (pg_changed p) (bindI m (\<lambda>p'. retI (f p'))) says"
  by (rule advances_bind) (auto intro: honest_ret)

lemma advances_volume: "advances p (create_volume W s p)" "advances p (remove_volume W s p)"
  unfolding create_volume_def remove_volume_def
  by (intro honest_if honest_ret advances_change io_rules; simp)+

lemma advances_cong: "advances p' m \<Longrightarrow> pg_changed p' = pg_changed p \<Longrightarrow> advances p m"
  by simp

lemma owns_volume_present: "owns (pg_changed p) (volume_present W s p) (pg_changed \<circ> fst)"
proof -
  have remove: "advances p (if c then bindI (remove_volume W s (track_exists True p)) (\<lambda>p2. retI (p2\<lparr>pg_existing := PNone\<rparr>))
      else retI (track_exists True p))" for c
    by (intro honest_if honest_ret advances_after [OF advances_cong [OF advances_volume(2)]]) simp_all
  show ?thesis
    unfolding volume_present_def Let_def
    by (intro honest_after_quiet emits_lift advances_bind [OF remove] advances_bind [OF advances_volume(1)] reads_existing_volume honest_ret) simp
qed

lemma owns_volume_absent: "advances p (volume_absent W s p)"
  unfolding volume_absent_def using advances_volume(2) [of "track_exists False p"] by simp

abbreviation reported :: "dict \<Rightarrow> bool" where
  "reported results \<equiv> dget results ''changed'' = PBool True"

lemma reported_result [simp]: "reported (progress_result s p k f) \<longleftrightarrow> pg_changed p"
  by (simp add: progress_result_def dget_def)

lemma owns_volume_run: "owns False (volume_run W s) reported"
proof -
  have p: "owns False (bindI (volume_present W s (start_progress e)) (\<lambda>(p', facts). retI (progress_result s p' k (f facts)))) reported" for e k f
    by (rule honest_bind [where said = "pg_changed \<circ> fst"]) (use owns_volume_present [of "start_progress e"] in \<open>auto intro!: honest_ret\<close>)
  have a: "owns False (bindI (volume_absent W s (start_progress e)) (\<lambda>p'. retI (progress_result s p' k f))) reported" for e k f
    by (rule honest_bind [where said = pg_changed]) (use owns_volume_absent [of "start_progress e"] in \<open>auto intro!: honest_ret\<close>)
  show ?thesis
    unfolding volume_run_def Let_def
    by (intro honest_after_quiet reads_existing_volume honest_if p a honest_ret) simp
qed

text \<open>Networks.\<close>

lemma anything_get_network [io_rules]: "emits (\<lambda>e. True) (get_network W n i)"
  by (rule anything) (rule io_rules)

lemma advances_create_network: "advances p (create_network W s p)"
  unfolding create_network_def
  by (intro honest_if honest_ret honest_after_quiet emits_lift advances_change io_rules) simp_all

lemma advances_disconnect: "owns b (disconnect_container W s n p) pg_changed"
  unfolding disconnect_container_def Let_def by (intro honest_after_change io_rules honest_ret) simp

lemma advances_disconnect_each: "advances p (disconnect_each W s which cs p)"
proof (induction cs arbitrary: p)
  case (Cons c cs)
  have step: "advances p (if b then disconnect_container W s n p else retI p)" for b n p
    by (intro honest_if advances_disconnect honest_ret)
  show ?case
    by (cases c) (auto intro!: honest_after_quiet emits_lift advances_bind [OF step] Cons.IH)
qed (simp add: honest_ret)

lemma advances_connect_each: "advances p (connect_each W s ns p)"
proof (induction ns arbitrary: p)
  case (Cons n ns)
  have rest: "owns True (connect_each W s ns p') pg_changed" if "pg_changed p'" for p'
    using Cons.IH [of p'] that by simp
  show ?case
    unfolding connect_each.simps Let_def
    by (intro honest_after_quiet emits_lift honest_if Cons.IH honest_after_change io_rules rest) simp
qed (simp add: honest_ret)

lemma advances_all: "advances p (disconnect_all_containers W s p)" "advances p (connect_containers W s p)" "advances p (disconnect_missing W s p)"
  unfolding disconnect_all_containers_def connect_containers_def disconnect_missing_def
  by (intro honest_after_quiet reads_get_network emits_lift advances_disconnect_each advances_connect_each honest_if honest_ret
      | assumption)+

lemma advances_remove_network: "advances p (remove_network W s p)"
  unfolding remove_network_def
  by (intro honest_if honest_ret advances_bind [OF advances_all(1)] advances_change io_rules) simp_all

lemma owns_network_present: "owns (pg_changed p) (network_present W s p) (pg_changed \<circ> fst)"
proof -
  have remove: "advances p (if c then bindI (remove_network W s (track_exists True p)) (\<lambda>p2. retI (p2\<lparr>pg_existing := PNone\<rparr>))
      else retI (track_exists True p))" for c
    by (intro honest_if honest_ret advances_after [OF advances_cong [OF advances_remove_network]]) simp_all
  have missing: "advances p (if c then retI p else disconnect_missing W s p)" for c p
    by (intro honest_if honest_ret advances_all)
  show ?thesis
    unfolding network_present_def Let_def
    by (intro honest_after_quiet [OF emits_lift] advances_bind [OF remove] advances_bind [OF advances_create_network]
        advances_bind [OF advances_all(2)] advances_bind [OF missing] honest_after_quiet [OF reads_get_network] honest_ret) simp
qed

lemma owns_network_run: "owns False (network_run W s) reported"
proof -
  have p: "owns False (bindI (network_present W s' (start_progress e)) (\<lambda>(p', facts). retI (progress_result s' p' k (f facts)))) reported" for e k f s'
    by (rule honest_bind [where said = "pg_changed \<circ> fst"]) (use owns_network_present [of "start_progress e"] in \<open>auto intro!: honest_ret\<close>)
  have a: "owns False (bindI (network_absent W s' (start_progress e)) (\<lambda>p'. retI (progress_result s' p' k f))) reported" for e k f s'
    unfolding network_absent_def
    by (rule honest_bind [where said = pg_changed])
      (use advances_remove_network [of "track_exists False (start_progress e)" W s'] in \<open>auto intro!: honest_ret\<close>)
  show ?thesis
    unfolding network_run_def Let_def
    by (intro honest_after_quiet reads_get_network reads_check_pools emits_lift honest_if p a honest_ret) simp
qed

text \<open>C10: When the module for volumes or for networks does not report a change, the daemon got no request to
  create, remove, connect or disconnect anything.\<close>

theorem objects_report_changes:
  assumes "volume_run W s h = (Inr r, h @ es) \<or> network_run W s h = (Inr r, h @ es)"
    and "dget r ''changed'' \<noteq> PBool True"
  shows "\<not> list_ex mutates es"
  using assms honestD [OF owns_volume_run] honestD [OF owns_network_run] by blast

section \<open>Volumes that are as they should be\<close>

text \<open>What a volume must say for the module to be satisfied: the driver, each option with a value
  that is not empty, and each label.\<close>

definition entries :: "pyval \<Rightarrow> dict" where
  "entries v = (case v of PDict d \<Rightarrow> d | _ \<Rightarrow> [])"

definition volume_as_wanted :: "settings \<Rightarrow> dict \<Rightarrow> bool" where
  "volume_as_wanted s d \<longleftrightarrow>
     (truthy (setting s ''driver'') \<longrightarrow> py_eq (setting s ''driver'') (dget d ''Driver''))
     \<and> list_all (\<lambda>(k, w). truthy (dget (entries (dget d ''Options'')) k) \<and> py_eq w (dget (entries (dget d ''Options'')) k))
         (entries (setting s ''driver_options''))
     \<and> list_all (\<lambda>(k, w). py_eq (dget (entries (dget d ''Labels'')) k) w) (entries (setting s ''labels''))"

lemma entries_simps [simp]: "entries (PDict d) = d" "entries PNone = []"
  by (simp_all add: entries_def)

text \<open>The types the argument specification and the API give.\<close>

definition dict_or_none :: "pyval \<Rightarrow> bool" where
  "dict_or_none v \<longleftrightarrow> v = PNone \<or> v = PDict (entries v)"

definition volume_typed :: "settings \<Rightarrow> dict \<Rightarrow> bool" where
  "volume_typed s d \<longleftrightarrow> has_key d ''Driver'' \<and> dict_or_none (setting s ''driver_options'') \<and> dict_or_none (setting s ''labels'')
     \<and> dict_or_none (dget d ''Options'') \<and> dict_or_none (dget d ''Labels'')"

lemma foldR_track: "foldR (\<lambda>t x. Inr (if P x then tracker_add (n x) (a x) (b x) t else t)) t xs
    = (Inr (t @ map (\<lambda>x. \<lparr>diff_name = n x, diff_parameter = a x, diff_active = b x\<rparr>) (filter P xs)) :: 'e + tracker)"
  by (induction xs arbitrary: t) (simp_all add: tracker_add_def)

lemma py_get_dict: "py_get (PDict d) k PNone = Inr (dget d k)"
  by (simp add: py_get_def dget_def)

lemma dict_or_noneE: "dict_or_none v \<Longrightarrow> (v = PNone \<Longrightarrow> P) \<Longrightarrow> (\<And>d. v = PDict d \<Longrightarrow> P) \<Longrightarrow> P"
  by (auto simp: dict_or_none_def)

lemma driver_exact: "has_key d ''Driver'' \<Longrightarrow> \<exists>t. driver_difference s (PDict d) = Inr t
    \<and> (t = [] \<longleftrightarrow> (truthy (setting s ''driver'') \<longrightarrow> py_eq (setting s ''driver'') (dget d ''Driver'')))"
  by (auto simp: driver_difference_def py_getitem_def has_key_def dget_def tracker_add_def split: option.split)

lemma options_exact:
  assumes "dict_or_none (setting s ''driver_options'')" "dict_or_none (dget d ''Options'')"
  shows "\<exists>t. option_differences s (PDict d) = Inr t \<and> (t = [] \<longleftrightarrow>
     list_all (\<lambda>(k, w). truthy (dget (entries (dget d ''Options'')) k) \<and> py_eq w (dget (entries (dget d ''Options'')) k))
       (entries (setting s ''driver_options'')))"
proof (cases "truthy (setting s ''driver_options'')")
  case False
  with assms(1) show ?thesis by (auto simp: option_differences_def entries_def elim: dict_or_noneE)
next
  case True
  with assms(1) obtain wanted where w: "setting s ''driver_options'' = PDict wanted" "wanted \<noteq> []" by (auto elim: dict_or_noneE)
  from assms(2) consider "\<not> truthy (dget d ''Options'')" "entries (dget d ''Options'') = []"
    | there where "dget d ''Options'' = PDict there" "there \<noteq> []"
    by (rule dict_or_noneE) (auto simp: entries_def)
  then show ?thesis
  proof cases
    case 1
    with w show ?thesis
      by (cases wanted) (auto simp: option_differences_def py_get_dict tracker_add_def entries_def dget_def)
  next
    case (2 there)
    have "option_differences s (PDict d) = foldR (\<lambda>t x. Inr (if \<not> truthy (dget there (fst x)) \<or> \<not> py_eq (snd x) (dget there (fst x))
        then tracker_add (''driver_options.'' @ fst x) (snd x) (dget there (fst x)) t else t)) [] wanted"
      by (simp add: option_differences_def py_get_dict w 2 py_items_def case_prod_unfold)
    then show ?thesis unfolding foldR_track using w 2
      by (auto simp: entries_def filter_empty_conv list_all_iff)
  qed
qed

lemma labels_exact:
  assumes "dict_or_none (setting s ''labels'')" "dict_or_none (dget d ''Labels'')"
  shows "\<exists>t. label_differences s (PDict d) = Inr t \<and> (t = [] \<longleftrightarrow>
     list_all (\<lambda>(k, w). py_eq (dget (entries (dget d ''Labels'')) k) w) (entries (setting s ''labels'')))"
proof (cases "truthy (setting s ''labels'')")
  case False
  with assms(1) show ?thesis by (auto simp: label_differences_def entries_def elim: dict_or_noneE)
next
  case True
  with assms(1) obtain wanted where w: "setting s ''labels'' = PDict wanted" by (auto elim: dict_or_noneE)
  let ?there = "entries (dget d ''Labels'')"
  have there: "(if truthy (dget d ''Labels'') then dget d ''Labels'' else PDict []) = PDict ?there"
    using assms(2) by (cases rule: dict_or_noneE) (auto simp: entries_def)
  have "label_differences s (PDict d) = foldR (\<lambda>t x. Inr (if \<not> py_eq (dget ?there (fst x)) (snd x)
      then tracker_add (''labels.'' @ fst x) (snd x) (dget ?there (fst x)) t else t)) [] wanted"
    using True by (auto simp: label_differences_def py_get_dict w there py_items_def case_prod_unfold intro!: arg_cong [where f = "\<lambda>f. foldR f [] wanted"] ext)
  then show ?thesis unfolding foldR_track using w
    by (auto simp: entries_def [of "setting s ''labels''"] filter_empty_conv list_all_iff)
qed

lemma volume_difference_exact:
  assumes "volume_typed s d"
  shows "\<exists>t. has_different_volume s (PDict d) = Inr t \<and> (t = [] \<longleftrightarrow> volume_as_wanted s d)"
proof -
  from assms have typed: "has_key d ''Driver''" "dict_or_none (setting s ''driver_options'')" "dict_or_none (setting s ''labels'')"
    "dict_or_none (dget d ''Options'')" "dict_or_none (dget d ''Labels'')"
    by (simp_all add: volume_typed_def)
  from driver_exact [OF typed(1), of s] options_exact [OF typed(2,4)] labels_exact [OF typed(3,5)] show ?thesis
    unfolding has_different_volume_def volume_as_wanted_def by auto
qed

text \<open>C16: A run of the volume module that finds the volume as the task wants it asks the daemon twice for its
  volumes, sends nothing else, reports no change and returns the volume.\<close>

theorem wanted_volume_left_alone:
  assumes daemon: "\<And>h. w_ext W h ''GET'' [PStr ''/volumes'', PNone, PDict []] = Inr volumes"
    and found: "named_volume (setting s ''volume_name'') volumes = Inr (PDict d)" "d \<noteq> []"
    and typed: "volume_typed s d" "volume_as_wanted s d"
    and task: "setting s ''state'' = PStr ''present''" "setting s ''recreate'' \<noteq> PStr ''always''"
  shows "\<exists>r. volume_run W s h = (Inr r, h @ replicate 2 (Ext ''GET'' [PStr ''/volumes'', PNone, PDict []]))
     \<and> dget r ''changed'' = PBool False \<and> dget r ''volume'' = PDict d"
proof -
  have ask: "get_existing_volume W s h = (Inr (PDict d), h @ [Ext ''GET'' [PStr ''/volumes'', PNone, PDict []]])" for h
    by (simp add: get_existing_volume_def api_or_fail_def tryI_def GET_def ext_def daemon bindI_def run_simps found)
  from volume_difference_exact [OF typed(1)] typed(2) have same: "has_different_volume s (PDict d) = Inr []" by auto
  show ?thesis
    unfolding volume_run_def volume_present_def Let_def
    by (simp add: bindI_def ask task found same run_simps start_progress_def track_exists_def tracker_empty_def create_volume_def
        note_differences_def progress_result_def numeral_2_eq_2)
qed

definition volume_settings :: settings where
  "volume_settings = \<lparr>se_params = [(''volume_name'', PStr ''data''), (''state'', PStr ''present''), (''driver'', PStr ''local''),
     (''driver_options'', PDict [(''type'', PStr ''nfs'')]), (''labels'', PDict [(''app'', PStr ''db'')]),
     (''recreate'', PStr ''options-changed'')], se_check_mode = False, se_diff = False\<rparr>"

definition data_volume :: dict where
  "data_volume = [(''Name'', PStr ''data''), (''Driver'', PStr ''local''), (''Options'', PDict [(''type'', PStr ''nfs'')]),
     (''Labels'', PDict [(''app'', PStr ''db''), (''other'', PStr ''x'')])]"

definition one_volume :: world where
  "one_volume = sample_docker\<lparr>w_ext := (\<lambda>h name args.
     Inr (if name = ''GET'' \<and> args = [PStr ''/volumes'', PNone, PDict []]
       then PDict [(''Volumes'', PList [PDict [(''Name'', PStr ''other'')], PDict data_volume])]
       else PDict [(''Name'', PStr ''data'')]))\<rparr>"

theorem wanted_volume_left_alone_witness:
  "\<exists>r. volume_run one_volume volume_settings [] = (Inr r, [] @ replicate 2 (Ext ''GET'' [PStr ''/volumes'', PNone, PDict []]))
     \<and> dget r ''changed'' = PBool False \<and> dget r ''volume'' = PDict data_volume"
proof (rule wanted_volume_left_alone)
  show "w_ext one_volume h ''GET'' [PStr ''/volumes'', PNone, PDict []]
      = Inr (PDict [(''Volumes'', PList [PDict [(''Name'', PStr ''other'')], PDict data_volume])])" for h
    by (simp add: one_volume_def)
qed code_simp+

text \<open>An option whose value is empty never counts as there, so that \<open>recreate: options-changed\<close>
  removes the volume on every run.\<close>

lemma empty_option_always_differs:
  "has_different_volume (volume_settings\<lparr>se_params := [(''driver_options'', PDict [(''o'', PStr [])])]\<rparr>)
     (PDict [(''Driver'', PStr ''local''), (''Options'', PDict [(''o'', PStr [])])]) \<noteq> Inr []"
  by code_simp

text \<open>The volume that is as it should be again.\<close>

theorem objects_report_changes_witness:
  "case volume_run one_volume volume_settings [] of (Inr r, h) \<Rightarrow> length h = 2 \<and> \<not> list_ex mutates h | _ \<Rightarrow> False"
proof -
  have "case volume_run one_volume volume_settings [] of (Inr r, h) \<Rightarrow> length h = 2 \<and> dget r ''changed'' \<noteq> PBool True | _ \<Rightarrow> False"
    by code_simp
  then obtain r h where run: "volume_run one_volume volume_settings [] = (Inr r, [] @ h)" "length h = 2" "dget r ''changed'' \<noteq> PBool True"
    by (auto split: prod.splits sum.splits)
  from objects_report_changes [OF disjI1 [OF run(1)] run(3)] run show ?thesis by simp
qed

end
