(* ===== verification/DockerPorts.thy ===== *)
theory DockerPorts
  imports PyString
begin

text \<open>
  Published ports (\<open>_api/utils/ports.py\<close>): the specification \<open>[[ip:]port[-port]:]port[-port][/proto]\<close>,
  the pairs of container and host ports it stands for, and the table of all bindings.
\<close>

section \<open>Port specifications\<close>

record port_parts =
  pp_host :: "string option"
  pp_ext :: "string option"
  pp_ext_end :: "string option"
  pp_int :: string
  pp_int_end :: "string option"
  pp_proto :: "string option"

text \<open>
  The regular expression, group by group. It has no ambiguity: the ranges hold no colon, so they
  follow the last colon, and only the protocol holds a slash.
\<close>

definition host_char :: "char \<Rightarrow> bool" where
  "host_char c \<longleftrightarrow> is_digit c \<or> c \<in> set ''abcdefABCDEF.:''"

definition host_group :: "string \<Rightarrow> string option" where
  "host_group s =
     (let a = (case s of c # r \<Rightarrow> if c = CHR ''['' then r else s | [] \<Rightarrow> s);
          b = (if a \<noteq> [] \<and> last a = CHR '']'' then butlast a else a)
      in if b \<noteq> [] \<and> list_all host_char b then Some b else None)"

definition range_group :: "string \<Rightarrow> (string \<times> string option) option" where
  "range_group s =
     (case dropWhile is_digit s of
        [] \<Rightarrow> Some (s, None)
      | c # e \<Rightarrow> if c = CHR ''-'' \<and> e \<noteq> [] \<and> list_all is_digit e
          then Some (takeWhile is_digit s, Some e) else None)"

definition external_group :: "string \<Rightarrow> (string option \<times> string \<times> string option) option" where
  "external_group s =
     (case rsplit1 (CHR '':'') s of
        [h, r] \<Rightarrow> (case (host_group h, range_group r) of
            (Some host, Some (ext, ext_end)) \<Rightarrow> Some (Some host, ext, ext_end) | _ \<Rightarrow> None)
      | _ \<Rightarrow> map_option (\<lambda>(ext, ext_end). (None, ext, ext_end)) (range_group s))"

definition internal_group :: "string \<Rightarrow> (string \<times> string option) option" where
  "internal_group s = (case range_group s of
      Some (n, n_end) \<Rightarrow> if n = [] then None else Some (n, n_end) | None \<Rightarrow> None)"

definition ports_group :: "string option \<Rightarrow> string \<Rightarrow> port_parts option" where
  "ports_group proto s =
     (case rsplit1 (CHR '':'') s of
        [e, i] \<Rightarrow> (case (external_group e, internal_group i) of
            (Some (host, ext, ext_end), Some (n, n_end)) \<Rightarrow>
              Some \<lparr>pp_host = host, pp_ext = Some ext, pp_ext_end = ext_end, pp_int = n, pp_int_end = n_end, pp_proto = proto\<rparr>
          | _ \<Rightarrow> None)
      | _ \<Rightarrow> map_option (\<lambda>(n, n_end).
          \<lparr>pp_host = None, pp_ext = None, pp_ext_end = None, pp_int = n, pp_int_end = n_end, pp_proto = proto\<rparr>) (internal_group s))"

definition PORT_SPEC :: "string \<Rightarrow> port_parts option" where
  "PORT_SPEC port =
     (let s = until_newline port in
      case rsplit1 (CHR ''/'') s of
        [p, proto] \<Rightarrow> if proto \<in> {''udp'', ''tcp'', ''sctp''} then ports_group (Some (CHR ''/'' # proto)) p else None
      | _ \<Rightarrow> ports_group None s)"

section \<open>The pairs of ports\<close>

text \<open>What \<open>port_range\<close> returns: its false \<open>start\<close> (\<open>None\<close> or the empty string), or a list.\<close>

datatype ports = NoPorts | EmptyPorts | Ports "string list"

fun ports_list :: "ports \<Rightarrow> string list" where
  "ports_list (Ports ps) = ps"
| "ports_list _ = []"

definition port_range :: "string option \<Rightarrow> string option \<Rightarrow> string \<Rightarrow> bool \<Rightarrow> ports" where
  "port_range start stop proto randomly_available_port =
     (case start of
        None \<Rightarrow> NoPorts
      | Some s \<Rightarrow>
          if s = [] then EmptyPorts
          else (case stop of
              None \<Rightarrow> Ports [s @ proto]
            | Some e \<Rightarrow>
                if e = [] then Ports [s @ proto]
                else if randomly_available_port then Ports [s @ ''-'' @ e @ proto]
                else Ports (map (\<lambda>port. dec_nat port @ proto) [nat_of_digits s ..< nat_of_digits e + 1])))"

text \<open>
  A host port: a text, or a host with a text or \<open>None\<close>; \<open>None\<close> alone where nothing is said.
\<close>

datatype external = AnyPort | HostPort string | HostAddress string "string option"

definition split_port :: "string \<Rightarrow> (string list \<times> external list option) res" where
  "split_port port =
     (case PORT_SPEC port of
        None \<Rightarrow> Inl (ValueError (''Invalid port '' @ [CHR 0x22] @ port @ [CHR 0x22]
                  @ '', should be [[remote_ip:]remote_port[-remote_port]:]port[/protocol]''))
      | Some parts \<Rightarrow>
          (let proto = (case pp_proto parts of Some p \<Rightarrow> p | None \<Rightarrow> []);
               internal = ports_list (port_range (Some (pp_int parts)) (pp_int_end parts) proto False);
               ext = port_range (pp_ext parts) (pp_ext_end parts) [] (length internal = 1)
           in case pp_host parts of
              None \<Rightarrow>
                if ext = NoPorts then Inr (internal, None)
                else if length internal \<noteq> length (ports_list ext) then Inl (ValueError ''Port ranges don't match in length'')
                else Inr (internal, Some (map HostPort (ports_list ext)))
            | Some host \<Rightarrow>
                if ports_list ext = [] then Inr (internal, Some (map (HostAddress host) (replicate (length internal) None)))
                else if length internal \<noteq> length (ports_list ext) then Inl (ValueError ''Port ranges don't match in length'')
                else Inr (internal, Some (map (HostAddress host) (map Some (ports_list ext))))))"

section \<open>The table of bindings\<close>

type_synonym bindings = "(string \<times> external list) list"

definition add_port_mapping :: "bindings \<Rightarrow> string \<Rightarrow> external \<Rightarrow> bindings" where
  "add_port_mapping port_bindings internal_port ext =
     (case map_of port_bindings internal_port of
        Some es \<Rightarrow> AList.update internal_port (es @ [ext]) port_bindings
      | None \<Rightarrow> AList.update internal_port [ext] port_bindings)"

definition add_port :: "bindings \<Rightarrow> string list \<Rightarrow> external list option \<Rightarrow> bindings" where
  "add_port port_bindings internal_port_range external_range =
     (case external_range of
        None \<Rightarrow> foldl (\<lambda>b internal_port. add_port_mapping b internal_port AnyPort) port_bindings internal_port_range
      | Some es \<Rightarrow> foldl (\<lambda>b (internal_port, external_port). add_port_mapping b internal_port external_port)
          port_bindings (zip internal_port_range es))"

definition build_port_bindings :: "string list \<Rightarrow> bindings res" where
  "build_port_bindings ports = foldR (\<lambda>port_bindings port.
     bindR (split_port port) (\<lambda>(internal_port_range, external_range).
       Inr (add_port port_bindings internal_port_range external_range))) [] ports"

section \<open>Bindings are collected in order\<close>

text \<open>The pairs one specification asks for.\<close>

fun wanted :: "string list \<times> external list option \<Rightarrow> (string \<times> external) list" where
  "wanted (is, None) = map (\<lambda>i. (i, AnyPort)) is"
| "wanted (is, Some es) = zip is es"

definition values_at :: "'k \<Rightarrow> ('k \<times> 'v) list \<Rightarrow> 'v list" where
  "values_at k ps = map snd (filter (\<lambda>p. fst p = k) ps)"

lemma values_at_append [simp]: "values_at k (ps @ qs) = values_at k ps @ values_at k qs"
  by (simp add: values_at_def)

definition bound :: "bindings \<Rightarrow> string \<Rightarrow> external list" where
  "bound b k = (case map_of b k of Some es \<Rightarrow> es | None \<Rightarrow> [])"

text \<open>A table never holds a port with no binding, and no port twice.\<close>

definition wf_bindings :: "bindings \<Rightarrow> bool" where
  "wf_bindings b \<longleftrightarrow> distinct (map fst b) \<and> (\<forall>(k, es) \<in> set b. es \<noteq> [])"

lemma set_update_pair: "p \<in> set (AList.update k v d) \<Longrightarrow> p \<in> set d \<or> p = (k, v)"
  by (induction d) (auto split: if_splits)

lemma add_port_mapping_step:
  assumes "wf_bindings b"
  shows "wf_bindings (add_port_mapping b i e)"
    and "bound (add_port_mapping b i e) k = bound b k @ values_at k [(i, e)]"
proof -
  have "distinct (map fst (add_port_mapping b i e))"
    using assms by (auto simp: wf_bindings_def add_port_mapping_def distinct_update split: option.split)
  moreover have "es \<noteq> []" if "(k, es) \<in> set (add_port_mapping b i e)" for k es
    using that assms by (auto simp: wf_bindings_def add_port_mapping_def dest!: set_update_pair split: option.splits)
  ultimately show "wf_bindings (add_port_mapping b i e)" by (auto simp: wf_bindings_def)
  show "bound (add_port_mapping b i e) k = bound b k @ values_at k [(i, e)]"
    by (auto simp: bound_def add_port_mapping_def values_at_def map_of_update split: option.split)
qed

lemma add_port_wanted: "add_port b is es = foldl (\<lambda>b (i, e). add_port_mapping b i e) b (wanted (is, es))"
proof (cases es)
  case None
  then show ?thesis by (simp add: add_port_def foldl_map)
qed (simp add: add_port_def)

lemma add_ports_step:
  assumes "wf_bindings b"
  shows "wf_bindings (foldl (\<lambda>b (i, e). add_port_mapping b i e) b ps)
    \<and> bound (foldl (\<lambda>b (i, e). add_port_mapping b i e) b ps) k = bound b k @ values_at k ps"
  using assms
proof (induction ps arbitrary: b)
  case (Cons p ps)
  obtain i e where p: "p = (i, e)" by (cases p)
  with Cons.IH [OF add_port_mapping_step(1) [OF Cons.prems]] show ?case
    by (simp add: add_port_mapping_step(2) [OF Cons.prems] values_at_def)
qed (simp add: values_at_def)

lemma foldR_bindings:
  "foldR (\<lambda>port_bindings port. bindR (split_port port) (\<lambda>(is, es). Inr (add_port port_bindings is es))) b ports
    = bindR (mapR split_port ports) (\<lambda>rs. Inr (foldl (\<lambda>b (i, e). add_port_mapping b i e) b (concat (map wanted rs))))"
proof (induction ports arbitrary: b)
  case (Cons p ports)
  then show ?case by (cases "split_port p") (auto simp: add_port_wanted bindR_assoc foldl_append)
qed simp

text \<open>C38: The table of bindings holds, for every container port, exactly the host ports that the
  specifications ask for, in their order, and no port without a binding; it is built exactly when every
  specification is valid, and otherwise the first error is raised.\<close>

theorem bindings_collected:
  "case mapR split_port ports of
     Inl e \<Rightarrow> build_port_bindings ports = Inl e
   | Inr rs \<Rightarrow> \<exists>b. build_port_bindings ports = Inr b \<and> wf_bindings b
       \<and> (\<forall>port. bound b port = values_at port (concat (map wanted rs)))"
proof -
  have "wf_bindings []" by (simp add: wf_bindings_def)
  from add_ports_step [OF this] show ?thesis
    by (auto simp: build_port_bindings_def foldR_bindings bound_def split: sum.split)
qed

section \<open>Ranges are paired port by port\<close>

definition render_ports :: "string option \<Rightarrow> nat \<Rightarrow> nat \<Rightarrow> nat \<Rightarrow> nat \<Rightarrow> string \<Rightarrow> string" where
  "render_ports host a b c d proto =
     (case host of None \<Rightarrow> [] | Some h \<Rightarrow> h @ '':'') @ dec_nat a @ ''-'' @ dec_nat b @ '':''
       @ dec_nat c @ ''-'' @ dec_nat d @ (if proto = [] then [] else ''/'' @ proto)"

definition host_address :: "string option \<Rightarrow> nat \<Rightarrow> external" where
  "host_address host port = (case host of None \<Rightarrow> HostPort (dec_nat port) | Some h \<Rightarrow> HostAddress h (Some (dec_nat port)))"

lemma range_group_dec_nat [simp]: "range_group (dec_nat a @ CHR ''-'' # dec_nat b) = Some (dec_nat a, Some (dec_nat b))"
  by (simp add: range_group_def)

lemma host_group_plain: "h \<noteq> [] \<Longrightarrow> list_all host_char h \<Longrightarrow> host_group h = Some h"
proof -
  assume h: "h \<noteq> []" "list_all host_char h"
  have "\<not> host_char (CHR ''['')" "\<not> host_char (CHR '']'')" by (simp_all add: host_char_def is_digit_def)
  then have "hd h \<noteq> CHR ''[''" "last h \<noteq> CHR '']''" using h by (metis hd_in_set last_in_set list_all_iff)+
  with h show ?thesis by (cases h) (simp_all add: host_group_def Let_def)
qed

definition valid_address :: "string option \<Rightarrow> bool" where
  "valid_address host = (case host of None \<Rightarrow> True | Some h \<Rightarrow> h \<noteq> [] \<and> list_all host_char h)"

definition render_pairs :: "string option \<Rightarrow> nat \<Rightarrow> nat \<Rightarrow> nat \<Rightarrow> nat \<Rightarrow> string" where
  "render_pairs host a b c d =
     (case host of None \<Rightarrow> [] | Some h \<Rightarrow> h @ '':'') @ dec_nat a @ ''-'' @ dec_nat b @ '':'' @ dec_nat c @ ''-'' @ dec_nat d"

lemma render_ports_pairs: "render_ports host a b c d proto = render_pairs host a b c d @ (if proto = [] then [] else CHR ''/'' # proto)"
  by (simp add: render_ports_def render_pairs_def)

lemma ports_group_render:
  assumes "valid_address host"
  shows "ports_group proto (render_pairs host a b c d)
    = Some \<lparr>pp_host = host, pp_ext = Some (dec_nat a), pp_ext_end = Some (dec_nat b),
        pp_int = dec_nat c, pp_int_end = Some (dec_nat d), pp_proto = proto\<rparr>"
proof -
  let ?e = "(case host of None \<Rightarrow> [] | Some h \<Rightarrow> h @ '':'') @ dec_nat a @ ''-'' @ dec_nat b"
  have free: "CHR '':'' \<notin> set (dec_nat x @ CHR ''-'' # dec_nat y)" for x y by (simp add: dec_nat_free)
  have "external_group ?e = Some (host, dec_nat a, Some (dec_nat b))"
    using assms free [of a b]
    by (cases host) (simp_all add: external_group_def rsplit1_free rsplit1_sep host_group_plain valid_address_def)
  moreover have "rsplit1 (CHR '':'') (?e @ CHR '':'' # dec_nat c @ ''-'' @ dec_nat d) = [?e, dec_nat c @ ''-'' @ dec_nat d]"
    using free [of c d] by (intro rsplit1_sep) simp
  ultimately show ?thesis by (simp add: ports_group_def internal_group_def render_pairs_def)
qed

lemma slash_free_pairs: "valid_address host \<Longrightarrow> CHR ''/'' \<notin> set (render_pairs host a b c d)"
proof -
  assume "valid_address host"
  moreover have "\<not> host_char (CHR ''/'')" by (simp add: host_char_def is_digit_def)
  ultimately show ?thesis
    by (cases host) (auto simp: render_pairs_def valid_address_def dec_nat_free list_all_iff)
qed

lemma until_newline_pairs: "CHR 0x0A \<notin> set s \<Longrightarrow> until_newline (render_pairs host a b c d @ s) = render_pairs host a b c d @ s"
proof -
  assume s: "CHR 0x0A \<notin> set s"
  have "CHR 0x0A \<notin> set (dec_nat d)" by (simp add: dec_nat_free)
  then have "last (dec_nat d) \<noteq> CHR 0x0A" using last_in_set [OF dec_nat_not_Nil, of d] by metis
  then show ?thesis using s
    by (cases s rule: rev_cases) (auto simp: until_newline_def render_pairs_def last_append)
qed

lemma PORT_SPEC_render:
  assumes "valid_address host" and "proto \<in> {[], ''udp'', ''tcp'', ''sctp''}"
  shows "PORT_SPEC (render_ports host a b c d proto)
    = Some \<lparr>pp_host = host, pp_ext = Some (dec_nat a), pp_ext_end = Some (dec_nat b), pp_int = dec_nat c,
        pp_int_end = Some (dec_nat d), pp_proto = (if proto = [] then None else Some (CHR ''/'' # proto))\<rparr>"
proof (cases "proto = []")
  case True
  then show ?thesis
    using until_newline_pairs [of "[]"] slash_free_pairs [OF assms(1)]
    by (simp add: PORT_SPEC_def render_ports_pairs rsplit1_free ports_group_render [OF assms(1)])
next
  case False
  with assms(2) have "CHR 0x0A \<notin> set (CHR ''/'' # proto)" "CHR ''/'' \<notin> set proto" by auto
  then show ?thesis
    using until_newline_pairs [of "CHR ''/'' # proto"] False assms(2)
    by (simp add: PORT_SPEC_def render_ports_pairs rsplit1_sep ports_group_render [OF assms(1)])
qed

lemma upt_shift: "map f [a ..< a + n] = map (\<lambda>k. f (a + k)) [0 ..< n]"
  by (induction n) simp_all

text \<open>A range of container ports is published on a range of host ports of the same length, port
  by port, on the given address and for the given protocol; ranges of different lengths are rejected.\<close>

theorem split_port_ranges:
  assumes "valid_address host" and "proto \<in> {[], ''udp'', ''tcp'', ''sctp''}"
    and "0 < n" and "1 < m"
  shows "split_port (render_ports host a (a + n - 1) c (c + m - 1) proto)
    = (if n = m then Inr (map (\<lambda>k. dec_nat (c + k) @ (if proto = [] then [] else CHR ''/'' # proto)) [0 ..< n],
                          Some (map (\<lambda>k. host_address host (a + k)) [0 ..< n]))
       else Inl (ValueError ''Port ranges don't match in length''))"
proof -
  have "[c ..< Suc (c + m - 1)] = [c ..< c + m]" "[a ..< Suc (a + n - 1)] = [a ..< a + n]"
    using assms(3,4) by auto
  then show ?thesis
    using assms(3,4) PORT_SPEC_render [OF assms(1,2)]
    by (cases host; cases "n = m") (simp_all add: split_port_def port_range_def Let_def upt_shift host_address_def comp_def)
qed

theorem split_port_ranges_witness:
  "split_port ''127.0.0.1:8000-8002:90-92/udp''
    = Inr ([''90/udp'', ''91/udp'', ''92/udp''],
           Some (map (HostAddress ''127.0.0.1'') [Some ''8000'', Some ''8001'', Some ''8002'']))"
proof -
  have "valid_address (Some ''127.0.0.1'')" by (simp add: valid_address_def host_char_def is_digit_def)
  moreover have "dec_nat 8000 = ''8000''" "dec_nat 8001 = ''8001''" "dec_nat 8002 = ''8002''"
    "dec_nat 90 = ''90''" "dec_nat 91 = ''91''" "dec_nat 92 = ''92''"
    by (simp_all add: dec_nat.simps)
  moreover have "[0 ..< 3] = [0, 1, 2 :: nat]" by (simp add: upt_rec)
  ultimately show ?thesis
    using split_port_ranges [of "Some ''127.0.0.1''" "''udp''" 3 3 8000 90] by (simp add: render_ports_def host_address_def)
qed

end
