(* ===== verification/DockerPublishFacts.thy ===== *)
theory DockerPublishFacts
  imports DockerPublish
begin

text \<open>
  What reading the mounts and ports promises: addresses in brackets stay in one piece, no mount
  point is taken twice, the table of published ports collects what the specifications ask for,
  and every published port is exposed.
\<close>

section \<open>Splitting around brackets\<close>

definition plain_part :: "string \<Rightarrow> bool" where
  "plain_part w \<longleftrightarrow> CHR '':'' \<notin> set w \<and> CHR ''['' \<notin> set w"

definition bracketed :: "string \<Rightarrow> bool" where
  "bracketed w \<longleftrightarrow> (\<exists>x. w = ''['' @ x @ '']'' \<and> CHR ''['' \<notin> set x \<and> CHR '']'' \<notin> set x)"

lemma index_of_free: "c \<notin> set s \<Longrightarrow> index_of c s = None"
  by (induction s) auto

lemma index_of_append: "c \<notin> set s \<Longrightarrow> index_of c (s @ c # t) = Some (length s)"
  by (induction s) auto

text \<open>Plain parts, each with the colon after it.\<close>

definition with_colon :: "string list \<Rightarrow> string" where
  "with_colon ps = concat (map (\<lambda>p. p @ '':'') ps)"

lemma split_with_colon: "list_all plain_part ps \<Longrightarrow> split_on (CHR '':'') (with_colon ps) = ps @ [[]]"
  by (induction ps) (auto simp: with_colon_def plain_part_def split_on_sep)

lemma no_bracket: "list_all plain_part ps \<Longrightarrow> CHR ''['' \<notin> set (with_colon ps)"
  by (induction ps) (auto simp: with_colon_def plain_part_def)

lemma py_join_Cons: "ws \<noteq> [] \<Longrightarrow> py_join sep (w # ws) = w @ sep @ py_join sep ws"
  by (cases ws) simp_all

lemma join_with_colon: "rest \<noteq> [] \<Longrightarrow> py_join '':'' (ps @ rest) = with_colon ps @ py_join '':'' rest"
  by (induction ps) (simp_all add: with_colon_def py_join_Cons)

lemma split_at_bracket:
  assumes "list_all plain_part ps" "bracketed b"
  shows "split_brackets text at result (with_colon ps @ b) = Inr (result @ ps @ [b])"
    and "split_brackets text at result (with_colon ps @ b @ CHR '':'' # t)
      = split_brackets text (at + length (with_colon ps) + length b + 1) (result @ ps @ [b]) t"
proof -
  from assms(2) obtain x where b: "b = ''['' @ x @ '']''" and x: "CHR ''['' \<notin> set x" "CHR '']'' \<notin> set x"
    by (auto simp: bracketed_def)
  let ?n = "length (with_colon ps)"
  have bra: "index_of (CHR ''['') (with_colon ps @ b @ r) = Some ?n" for r
    using index_of_append [OF no_bracket [OF assms(1)]] by (simp add: b)
  have ket: "index_of (CHR '']'') (b @ r) = Some (length x + 1)" for r
    using index_of_append [OF x(2), of r] by (simp add: b)
  have after: "drop (?n + (length x + 1)) (with_colon ps @ b @ r) = CHR '']'' # r" for r
    by (simp add: b)
  have len: "length b = length x + 2" "b \<noteq> []" by (simp_all add: b)
  have parts: "extend_last (result @ split_on (CHR '':'') (with_colon ps)) b = result @ ps @ [b]"
    by (simp add: split_with_colon [OF assms(1)] extend_last_def butlast_append)
  show "split_brackets text at result (with_colon ps @ b) = Inr (result @ ps @ [b])"
    using bra [of "[]"] ket [of "[]"] after [of "[]"] parts len by (subst split_brackets.simps) simp
  show "split_brackets text at result (with_colon ps @ b @ CHR '':'' # t)
      = split_brackets text (at + ?n + length b + 1) (result @ ps @ [b]) t"
    using bra [of "CHR '':'' # t"] ket [of "CHR '':'' # t"] after [of "CHR '':'' # t"] parts len
    by (subst split_brackets.simps) (simp add: Let_def ac_simps)
qed

lemma split_plain_or_bracket:
  assumes "list_all (\<lambda>w. plain_part w \<or> bracketed w) ws"
  obtains "list_all plain_part ws" | ps b rest where "ws = ps @ b # rest" "list_all plain_part ps" "bracketed b"
    "list_all (\<lambda>w. plain_part w \<or> bracketed w) rest"
proof (cases "list_all plain_part ws")
  case False
  then obtain ps b rest where "ws = ps @ b # rest" "\<not> plain_part b" "list_all plain_part ps"
    using split_list_first_prop [of ws "\<lambda>w. \<not> plain_part w"] by (auto simp: list_all_iff)
  with assms that(2) show ?thesis by auto
qed (use that in simp)

lemma plain_join: "ws \<noteq> [] \<Longrightarrow> list_all plain_part ws \<Longrightarrow> split_on (CHR '':'') (py_join '':'' ws) = ws \<and> CHR ''['' \<notin> set (py_join '':'' ws)"
proof -
  assume ws: "ws \<noteq> []" "list_all plain_part ws"
  have "CHR ''['' \<notin> set (py_join '':'' ws)"
    using ws(2) by (induction "'':''" ws rule: py_join.induct) (auto simp: plain_part_def)
  with ws show ?thesis by (auto simp: plain_part_def list_all_iff intro: split_on_join)
qed

lemma py_join_empty: "ws \<noteq> [] \<Longrightarrow> py_join '':'' ws = [] \<Longrightarrow> ws = [[]]"
  by (induction "'':''" ws rule: py_join.induct) auto

lemma split_brackets_join:
  assumes "ws \<noteq> []" "last ws \<noteq> []" "list_all (\<lambda>w. plain_part w \<or> bracketed w) ws"
  shows "split_brackets text at result (py_join '':'' ws) = Inr (result @ ws)"
  using assms
proof (induction ws arbitrary: at result rule: length_induct)
  case (1 ws)
  have nonempty: "py_join '':'' ws \<noteq> []" using py_join_empty [of ws] 1 by auto
  from 1(4) show ?case
  proof (cases rule: split_plain_or_bracket)
    case 1
    with plain_join [OF "1.prems"(1) 1] nonempty show ?thesis
      by (subst split_brackets.simps) (simp add: index_of_free)
  next
    case (2 ps b rest)
    show ?thesis
    proof (cases rest)
      case Nil
      then show ?thesis using split_at_bracket(1) [OF 2(2,3)] by (simp add: 2(1) join_with_colon)
    next
      case (Cons r rs)
      then have "py_join '':'' ws = with_colon ps @ b @ CHR '':'' # py_join '':'' rest"
        by (simp add: 2(1) join_with_colon)
      moreover have "length rest < length ws" "rest \<noteq> []" "last rest \<noteq> []" using 1(3) Cons by (simp_all add: 2(1))
      ultimately show ?thesis using 1(1) 2(4) by (simp add: split_at_bracket(2) [OF 2(2,3)] 2(1))
    qed
  qed
qed

text \<open>C13: Colons inside brackets do not separate: a text that is made of parts without colons and of addresses in
  brackets is split into exactly those parts. An empty part at the end is lost after an address in brackets.\<close>

theorem split_colon_roundtrip:
  assumes "ws \<noteq> []" "last ws \<noteq> []" "list_all (\<lambda>w. plain_part w \<or> bracketed w) ws"
  shows "split_colon_ipv6 (py_join '':'' ws) = Inr ws"
proof (cases "list_all plain_part ws")
  case True
  with plain_join [OF assms(1) True] show ?thesis by (simp add: split_colon_ipv6_def)
next
  case False
  then obtain b where "b \<in> set ws" "bracketed b" using assms(3) by (auto simp: list_all_iff)
  then have "CHR ''['' \<in> set (py_join '':'' ws)"
    by (induction "'':''" ws rule: py_join.induct) (auto simp: bracketed_def)
  with split_brackets_join [OF assms, of _ 0 "[]"] show ?thesis by (simp add: split_colon_ipv6_def)
qed

theorem split_colon_roundtrip_witness:
  "split_colon_ipv6 ''[::1]:8000:80'' = Inr [''[::1]'', ''8000'', ''80'']"
proof -
  have b: "bracketed ''[::1]''" unfolding bracketed_def by (rule exI [of _ "''::1''"]) simp
  show ?thesis using split_colon_roundtrip [of "[''[::1]'', ''8000'', ''80'']"] b by (simp add: plain_part_def)
qed

lemma empty_part_lost: "split_colon_ipv6 ''[::1]:'' = Inr [''[::1]'']"
  by code_simp

section \<open>Mount points\<close>

text \<open>Where the entries of the two options are mounted.\<close>

definition mount_target :: "pyval \<Rightarrow> string" where
  "mount_target m = (case m of PDict d \<Rightarrow> py_str (dget d ''target'') | _ \<Rightarrow> [])"

text \<open>A volume is \<open>path\<close>, \<open>path:mode\<close>, \<open>host:path\<close> or \<open>host:path:mode\<close>.\<close>

definition path_with_mode :: "pyval \<Rightarrow> bool" where
  "path_with_mode v \<longleftrightarrow> (case split_on (CHR '':'') (py_str v) of [path, mode] \<Rightarrow> is_volume_permissions mode | _ \<Rightarrow> False)"

definition volume_place :: "pyval \<Rightarrow> string" where
  "volume_place v = (case split_on (CHR '':'') (py_str v) of
     [path] \<Rightarrow> path
   | first # second # _ \<Rightarrow> if path_with_mode v then first else second
   | [] \<Rightarrow> [])"

text \<open>What the code compares: the second part, if there is one.\<close>

definition collision_key :: "pyval \<Rightarrow> string" where
  "collision_key v = (case split_on (CHR '':'') (py_str v) of [t] \<Rightarrow> t | _ # t # _ \<Rightarrow> t | [] \<Rightarrow> [])"

lemma collision_key_place: "\<not> path_with_mode v \<Longrightarrow> collision_key v = volume_place v"
  by (auto simp: collision_key_def volume_place_def split: list.split)

definition elements :: "dict \<Rightarrow> string \<Rightarrow> pyval list" where
  "elements values k = (if has_key values k then (case py_iter (dget values k) of Inr xs \<Rightarrow> xs | Inl _ \<Rightarrow> []) else [])"

definition mount_points :: "dict \<Rightarrow> string list" where
  "mount_points values = map mount_target (elements values ''mounts'')
     @ map volume_place (filter (\<lambda>v. \<not> path_with_mode v) (elements values ''volumes''))"

lemma distinct_places:
  assumes "distinct (rev (map collision_key vs) @ rev ms)"
  shows "distinct (ms @ map volume_place (filter (\<lambda>v. \<not> path_with_mode v) vs))"
proof -
  have "map volume_place (filter (\<lambda>v. \<not> path_with_mode v) vs) = map collision_key (filter (\<lambda>v. \<not> path_with_mode v) vs)"
    by (simp add: collision_key_place)
  moreover from assms have "distinct (ms @ map collision_key (filter (\<lambda>v. \<not> path_with_mode v) vs))"
    by (auto simp: distinct_map_filter)
  ultimately show ?thesis by metis
qed

lemma check_collision_Inr: "check_collision t n u = Inr u' \<longleftrightarrow> t \<notin> fst ` set u \<and> u' = (t, n) # u"
  using map_of_eq_None_iff [of u t] by (cases "map_of u t") (auto simp: check_collision_def)

lemma preprocess_mount_takes:
  "preprocess_mount h2b (ms, u) m = Inr (ms', u') \<Longrightarrow> mount_target m \<notin> fst ` set u \<and> map fst u' = mount_target m # map fst u"
  by (cases m) (auto simp: preprocess_mount_def bindR_eq_Inr py_items_def py_getitem_def text_of_def check_collision_Inr mount_target_def
      dget_def split: option.splits pyval.splits if_splits)

lemma preprocess_volume_takes:
  "preprocess_volume ab (vs, u) v = Inr (vs', u') \<Longrightarrow> collision_key v \<notin> fst ` set u \<and> map fst u' = collision_key v # map fst u"
  by (cases v) (auto simp: preprocess_volume_def bindR_eq_Inr text_of_def check_collision_Inr collision_key_def Let_def
      split: list.splits if_splits)

lemma foldR_takes:
  assumes "\<And>xs u x xs' u'. f (xs, u) x = Inr (xs', u') \<Longrightarrow> t x \<notin> fst ` set u \<and> map fst u' = t x # map fst u"
  shows "foldR f (xs, u) ys = Inr (xs', u') \<Longrightarrow> distinct (map fst u) \<Longrightarrow> map fst u' = rev (map t ys) @ map fst u \<and> distinct (map fst u')"
proof (induction ys arbitrary: xs u)
  case (Cons y ys)
  from Cons.prems(1) obtain xs1 u1 where "f (xs, u) y = Inr (xs1, u1)" "foldR f (xs1, u1) ys = Inr (xs', u')"
    by (auto simp: bindR_eq_Inr)
  from assms [OF this(1)] have "t y \<notin> set (map fst u)" "map fst u1 = t y # map fst u" by auto
  with Cons.IH [OF \<open>foldR f (xs1, u1) ys = Inr (xs', u')\<close>] Cons.prems(2)
  have all: "map fst u' = rev (map t ys) @ map fst u1 \<and> distinct (map fst u')" and new: "map fst u1 = t y # map fst u"
    by (metis distinct.simps(2))+
  then have "distinct (rev (map t ys) @ map fst u1)" by metis
  with all show ?case unfolding new by simp
qed simp

lemma mounts_taken: "foldR (preprocess_mount h2b) (xs, u) ys = Inr (xs', u') \<Longrightarrow> distinct (map fst u) \<Longrightarrow>
    map fst u' = rev (map mount_target ys) @ map fst u \<and> distinct (map fst u')"
  by (rule foldR_takes [where f = "preprocess_mount h2b"]) (rule preprocess_mount_takes)

lemma volumes_taken: "foldR (preprocess_volume ab) (xs, u) ys = Inr (xs', u') \<Longrightarrow> distinct (map fst u) \<Longrightarrow>
    map fst u' = rev (map collision_key ys) @ map fst u \<and> distinct (map fst u')"
  by (rule foldR_takes [where f = "preprocess_volume ab"]) (rule preprocess_volume_takes)

lemma take_mounts_points:
  assumes "take_mounts h2b values = Inr (values', u)"
  shows "map fst u = rev (map mount_target (elements values ''mounts''))" "distinct (map fst u)"
    "elements values' ''volumes'' = elements values ''volumes''"
proof -
  consider "\<not> has_key values ''mounts''" "values' = values" "u = []"
    | ms ms' where "has_key values ''mounts''" "py_iter (dget values ''mounts'') = Inr ms" "foldR (preprocess_mount h2b) ([], []) ms = Inr (ms', u)"
      "values' = AList.update ''mounts'' (PList ms') values"
    using assms by (auto simp: take_mounts_def bindR_eq_Inr split: if_splits)
  then have "map fst u = rev (map mount_target (elements values ''mounts'')) \<and> distinct (map fst u)
      \<and> elements values' ''volumes'' = elements values ''volumes''"
  proof cases
    case (2 ms ms')
    have "elements values ''mounts'' = ms" "elements values' ''volumes'' = elements values ''volumes''"
      by (simp_all add: elements_def 2(1,2)) (simp add: 2(4) has_key_def dget_def map_of_update)
    with mounts_taken [OF 2(3)] show ?thesis by (metis append_Nil2 distinct.simps(1) list.map(1))
  qed (simp add: elements_def)
  then show "map fst u = rev (map mount_target (elements values ''mounts''))" "distinct (map fst u)"
    "elements values' ''volumes'' = elements values ''volumes''" by blast+
qed

text \<open>C12: When the mounts and volumes of a container are accepted, no two of them, of the same option or of both,
  are mounted at the same place. A volume of the form \<open>path:mode\<close> is excepted: the code compares its mode.\<close>

theorem mount_points_distinct:
  assumes "preprocess_mounts absolute human_to_bytes values = Inr values'"
  shows "distinct (mount_points values)"
proof -
  from assms obtain v u s where m: "take_mounts human_to_bytes values = Inr (v, u)" and t: "take_volumes absolute (v, u) = Inr s"
    by (auto simp: preprocess_mounts_def bindR_eq_Inr)
  note points = take_mounts_points [OF m]
  show ?thesis
  proof (cases "has_key v ''volumes''")
    case True
    with t obtain vs vols u' where vs: "py_iter (dget v ''volumes'') = Inr vs" and f: "foldR (preprocess_volume absolute) ([], u) vs = Inr (vols, u')"
      by (auto simp: take_volumes_def bindR_eq_Inr)
    have "elements values ''volumes'' = vs" using True vs points(3) by (simp add: elements_def)
    with volumes_taken [OF f points(2)]
    have "distinct (rev (map collision_key (elements values ''volumes'')) @ rev (map mount_target (elements values ''mounts'')))"
      unfolding points(1) by metis
    then show ?thesis unfolding mount_points_def by (rule distinct_places)
  next
    case False
    with points(3) have "elements values ''volumes'' = []" by (simp add: elements_def)
    moreover have "distinct (rev (map mount_target (elements values ''mounts'')))" using points(2) unfolding points(1) .
    ultimately show ?thesis by (simp add: mount_points_def)
  qed
qed

definition sample_mounts :: "string \<Rightarrow> dict" where
  "sample_mounts path = [(''mounts'', PList [PDict [(''target'', PStr ''/data''), (''type'', PStr ''volume''), (''source'', PNone),
     (''volume_driver'', PNone), (''volume_options'', PNone), (''propagation'', PNone), (''no_copy'', PNone), (''labels'', PNone),
     (''tmpfs_size'', PNone), (''tmpfs_mode'', PNone)]]), (''volumes'', PList [PStr (''./here:'' @ path @ '':ro''), PStr ''/run''])]"

theorem mount_points_distinct_witness:
  "distinct (mount_points (sample_mounts ''/app'')) \<and> mount_points (sample_mounts ''/app'') = [''/data'', ''/app'', ''/run'']"
proof -
  have "case preprocess_mounts (\<lambda>p. ''/home/'' @ p) (\<lambda>v. Inr 0) (sample_mounts ''/app'') of Inr v \<Rightarrow> True | _ \<Rightarrow> False" by code_simp
  then obtain v where "preprocess_mounts (\<lambda>p. ''/home/'' @ p) (\<lambda>v. Inr 0) (sample_mounts ''/app'') = Inr v"
    by (auto split: sum.splits)
  from mount_points_distinct [OF this] show ?thesis by (rule conjI) code_simp
qed

text \<open>The mode of a \<open>path:mode\<close> volume is taken for its place: such a volume may hide a mount, and two of the same
  mode are refused.\<close>

definition read_only_volumes :: "string list \<Rightarrow> dict" where
  "read_only_volumes paths = [(''mounts'', dget (sample_mounts []) ''mounts''), (''volumes'', PList (map (\<lambda>p. PStr (p @ '':ro'')) paths))]"

lemma mode_taken_for_place:
  "case preprocess_mounts (\<lambda>p. p) (\<lambda>v. Inr 0) (read_only_volumes [''/data'']) of Inr v \<Rightarrow> True | Inl e \<Rightarrow> False"
  "volume_place (PStr ''/data:ro'') = ''/data''"
  "case preprocess_mounts (\<lambda>p. p) (\<lambda>v. Inr 0) (read_only_volumes [''/a'', ''/b'']) of Inl (FailJson _) \<Rightarrow> True | _ \<Rightarrow> False"
  by code_simp+

text \<open>The volume at the place of the mount is refused.\<close>

lemma colliding_volume_refused:
  "case preprocess_mounts (\<lambda>p. p) (\<lambda>v. Inr 0) (sample_mounts ''/data'') of Inl (FailJson _) \<Rightarrow> True | _ \<Rightarrow> False"
  by code_simp

section \<open>Published ports\<close>

definition listed :: "bind_entry \<Rightarrow> bind list" where
  "listed e = (case e of One b \<Rightarrow> [b] | Many bs \<Rightarrow> bs)"

definition bound_to :: "(bind_key \<times> bind_entry) list \<Rightarrow> bind_key \<Rightarrow> bind list" where
  "bound_to t k = (case map_of t k of None \<Rightarrow> [] | Some e \<Rightarrow> listed e)"

definition asked_for :: "bind_key \<Rightarrow> (bind_key \<times> bind) list \<Rightarrow> bind list" where
  "asked_for k ps = map snd (filter (\<lambda>p. fst p = k) ps)"

lemma bound_to_add: "bound_to (add_bind t (i, b)) k = bound_to t k @ (if k = i then [b] else [])"
  by (auto simp: bound_to_def add_bind_def listed_def map_of_update split: option.split bind_entry.split)

lemma bound_to_adds: "bound_to (foldl add_bind t ps) k = bound_to t k @ asked_for k ps"
proof (induction ps arbitrary: t)
  case (Cons p ps)
  then show ?case by (cases p) (auto simp: bound_to_add asked_for_def)
qed (simp add: asked_for_def)

lemma publish_fold:
  "foldR (\<lambda>binds port. bindR (binds_of port) (\<lambda>ps. Inr (foldl add_bind binds ps))) t ports
    = bindR (mapR binds_of ports) (\<lambda>pss. Inr (foldl add_bind t (concat pss)))"
proof (induction ports arbitrary: t)
  case (Cons p ports)
  then show ?case by (cases "binds_of p") (auto simp: bindR_assoc foldl_append)
qed simp

text \<open>C11: The table of published ports holds, for every port of the container, exactly the bindings that the
  specifications ask for, in their order; there is a table exactly when every specification is valid and none is
  \<open>all\<close>, and otherwise the first error is raised.\<close>

theorem published_ports_collected:
  "case publish ports of
     Inr t \<Rightarrow> \<not> py_mem (PStr ''all'') ports \<and> (\<exists>pss. mapR binds_of ports = Inr pss \<and> (\<forall>k. bound_to t k = asked_for k (concat pss)))
   | Inl e \<Rightarrow> py_mem (PStr ''all'') ports \<or> mapR binds_of ports = Inl e"
proof (cases "py_mem (PStr ''all'') ports")
  case True
  then show ?thesis by (simp add: publish_def)
next
  case False
  have "bound_to [] k = []" for k by (simp add: bound_to_def)
  with False show ?thesis by (cases "mapR binds_of ports") (simp_all add: publish_def publish_fold bound_to_adds)
qed

text \<open>The ranges of a specification are paired up to the end of the shorter one.\<close>

lemma unequal_ranges_cut:
  "binds_of (PStr ''8000-8001:80-82'') = Inr [((80, []), [PStr DEFAULT_IP, PInt 8000]), ((81, []), [PStr DEFAULT_IP, PInt 8001])]"
  by code_simp

section \<open>Exposed ports\<close>

lemma expose_published_exposes:
  assumes "expose_published exposed (port, proto) = Inr exposed'"
  shows "set exposed \<subseteq> set exposed' \<and> (\<exists>e \<in> set exposed'. is_exposed port (if proto \<noteq> [] then proto else ''tcp'') e = Inr True)"
proof -
  let ?p = "if proto \<noteq> [] then proto else ''tcp''"
  from assms obtain ms where ms: "mapR (is_exposed port ?p) exposed = Inr ms"
    "exposed' = (if list_ex id ms then exposed else exposed @ [(PInt port, ?p)])"
    by (auto simp: expose_published_def Let_def bindR_eq_Inr)
  show ?thesis
  proof (cases "list_ex id ms")
    case True
    have "\<exists>e \<in> set exposed. is_exposed port ?p e = Inr True" using ms(1) True
      by (induction exposed arbitrary: ms) (auto simp: bindR_eq_Inr)
    with ms(2) True show ?thesis by auto
  next
    case False
    then show ?thesis using ms(2) by (auto simp: is_exposed_def)
  qed
qed

lemma expose_all_exposes:
  "foldR expose_published exposed keys = Inr exposed' \<Longrightarrow> set exposed \<subseteq> set exposed' \<and>
     (\<forall>(port, proto) \<in> set keys. \<exists>e \<in> set exposed'. is_exposed port (if proto \<noteq> [] then proto else ''tcp'') e = Inr True)"
proof (induction keys arbitrary: exposed)
  case (Cons k keys)
  obtain port proto where k: "k = (port, proto)" by (cases k)
  with Cons.prems obtain e1 where e1: "expose_published exposed (port, proto) = Inr e1" "foldR expose_published e1 keys = Inr exposed'"
    by (auto simp: bindR_eq_Inr)
  from expose_published_exposes [OF e1(1)] Cons.IH [OF e1(2)] show ?case unfolding k by fastforce
qed simp

text \<open>C14: Any published port is also exposed, with its protocol, by an entry for the port or for a range it lies in.\<close>

theorem published_ports_are_exposed:
  assumes "preprocess_ports values = Inr (Some t, exposed)" and "(port, proto) \<in> fst ` set t"
  shows "\<exists>e \<in> set exposed. is_exposed port (if proto \<noteq> [] then proto else ''tcp'') e = Inr True"
proof -
  from assms(1) obtain e0 where "foldR expose_published e0 (map fst t) = Inr exposed"
    by (auto simp: preprocess_ports_def bindR_eq_Inr split: if_splits option.splits)
  from expose_all_exposes [OF this] assms(2) show ?thesis by fastforce
qed

definition sample_ports :: dict where
  "sample_ports = [(''published_ports'', PList [PStr ''127.0.0.1:8080:80/udp'', PStr ''443'']), (''exposed_ports'', PList [PStr ''440-450''])]"

theorem published_ports_are_exposed_witness:
  "\<exists>t exposed. preprocess_ports sample_ports = Inr (Some t, exposed) \<and> exposed = [(PStr ''440-450'', ''tcp''), (PInt 80, ''udp'')]
     \<and> (\<exists>e \<in> set exposed. is_exposed 80 ''udp'' e = Inr True)"
proof -
  have "case preprocess_ports sample_ports of Inr (Some t, exposed) \<Rightarrow>
      exposed = [(PStr ''440-450'', ''tcp''), (PInt 80, ''udp'')] \<and> (80, ''udp'') \<in> fst ` set t | _ \<Rightarrow> False" by code_simp
  then obtain t exposed where p: "preprocess_ports sample_ports = Inr (Some t, exposed)"
    "exposed = [(PStr ''440-450'', ''tcp''), (PInt 80, ''udp'')]" "(80, ''udp'') \<in> fst ` set t"
    by (auto split: sum.splits option.splits)
  from published_ports_are_exposed [OF p(1,3)] p(1,2) show ?thesis by auto
qed

text \<open>The text \<open>80\<close> is not the number: a published port that is already exposed is exposed again.\<close>

lemma exposed_twice:
  "case preprocess_ports [(''published_ports'', PList [PStr ''80'']), (''exposed_ports'', PList [PStr ''80''])] of
     Inr (t, exposed) \<Rightarrow> exposed = [(PStr ''80'', ''tcp''), (PInt 80, ''tcp'')] | _ \<Rightarrow> False"
  by code_simp

end
