(* ===== verification/Incremental.thy ===== *)
theory Incremental
  imports Prelude
begin

text \<open>
  Readers that are fed piece by piece: a buffer keeps what is not complete yet, and every
  new piece is worked off as far as it goes. The interface is a state, a test that the state
  has nothing left to work off, and the operation that takes a piece. Its law is that two
  pieces in a row have the effect of the joined piece; it follows that only the bytes
  matter and never how they were cut.
\<close>

locale incremental =
  fixes settled :: "'s \<Rightarrow> bool"
    and feed :: "'s \<Rightarrow> 'a list \<Rightarrow> 'e + 's"
  assumes feed_settles: "settled s \<Longrightarrow> feed s x = Inr t \<Longrightarrow> settled t"
    and feed_Nil: "settled s \<Longrightarrow> feed s [] = Inr s"
    and feed_append: "settled s \<Longrightarrow> feed s (x @ y) = bindR (feed s x) (\<lambda>t. feed t y)"
begin

lemma feed_pieces: "settled s \<Longrightarrow> foldR feed s xs = feed s (concat xs)"
proof (induction xs arbitrary: s)
  case (Cons x xs)
  then show ?case
    by (cases "feed s x") (simp_all add: feed_append feed_settles [OF Cons.prems])
qed (simp add: feed_Nil)

lemma cut_irrelevant: "settled s \<Longrightarrow> concat xs = concat ys \<Longrightarrow> foldR feed s xs = foldR feed s ys"
  by (simp add: feed_pieces)

end

end
