(* ===== verification/DockerStream.thy ===== *)
theory DockerStream
  imports PyValue PyString "HOL-Library.Word"
begin

text \<open>
  The multiplexed streams of attached containers: the generator of frames
  (\<open>_api/utils/socket.py\<close>) and the socket handler that is fed by whatever arrives
  (\<open>socket_handler.py\<close>). A frame is a header of eight bytes, \<open>>BxxxL\<close>: the number of the
  stream, three bytes of padding and the big-endian size; then the data. A socket is the list
  of what its reads will meet: \<open>Some\<close> chunk, or \<open>None\<close> for an error the reader may recover
  from (\<open>EINTR\<close>, \<open>EDEADLK\<close>, \<open>EWOULDBLOCK\<close>); at its end, reading gives the empty string.
\<close>

type_synonym byte = "8 word"
type_synonym bytes = "byte list"
type_synonym sock = "bytes option list"

section \<open>Headers\<close>

definition size_of :: "bytes \<Rightarrow> nat" where
  "size_of bs = foldl (\<lambda>n b. n * 256 + unat b) 0 bs"

text \<open>\<open>struct.unpack(">BxxxL", data)\<close> on eight bytes.\<close>

definition unpack :: "bytes \<Rightarrow> byte \<times> nat" where
  "unpack data = (data ! 0, size_of (drop 4 data))"

definition pack :: "byte \<Rightarrow> nat \<Rightarrow> bytes" where
  "pack stream n = [stream, 0, 0, 0, word_of_nat (n div 2 ^ 24), word_of_nat (n div 2 ^ 16),
     word_of_nat (n div 2 ^ 8), word_of_nat n]"

definition STDOUT :: byte where "STDOUT = 1"

definition STDERR :: byte where "STDERR = 2"

section \<open>Sockets\<close>

text \<open>
  \<open>read(socket, n)\<close> delivers at most \<open>n\<close> bytes of the next chunk; an empty chunk, or no chunk,
  is the end of the stream, and a recoverable error gives \<open>None\<close>.
\<close>

fun sock_read :: "nat \<Rightarrow> sock \<Rightarrow> bytes option \<times> sock" where
  "sock_read n [] = (Some [], [])"
| "sock_read n (None # cs) = (None, cs)"
| "sock_read n (Some c # cs) = (Some (take n c), if drop n c = [] then cs else Some (drop n c) # cs)"

definition arrives :: "sock \<Rightarrow> bytes" where
  "arrives s = concat (List.map_filter id s)"

definition pending :: "sock \<Rightarrow> nat" where
  "pending s = length (arrives s) + length (filter (\<lambda>e. e = None) s)"

lemma arrives_simps [simp]: "arrives [] = []" "arrives (None # s) = arrives s" "arrives (Some c # s) = c @ arrives s"
  by (simp_all add: arrives_def map_filter_simps)

lemma pending_simps [simp]:
  "pending [] = 0" "pending (None # s) = Suc (pending s)" "pending (Some c # s) = length c + pending s"
  by (simp_all add: pending_def)

lemma sock_read_arrives: "sock_read n s = (Some d, s') \<Longrightarrow> arrives s = d @ arrives s'"
proof (cases s)
  case (Cons e cs)
  assume r: "sock_read n s = (Some d, s')"
  show ?thesis
  proof (cases e)
    case (Some c)
    have "c = take n c @ drop n c" by simp
    with r Cons Some show ?thesis by (cases "drop n c = []") auto
  qed (use r Cons in auto)
qed simp

lemma sock_read_None: "sock_read n s = (None, s') \<longleftrightarrow> s = None # s'"
  by (cases "(n, s)" rule: sock_read.cases) auto

lemma pending_read: "sock_read n s = (Some d, s') \<Longrightarrow> pending s = length d + pending s'"
  by (cases "(n, s)" rule: sock_read.cases) (auto split: if_splits)

lemma sock_read_length: "sock_read n s = (Some d, s') \<Longrightarrow> length d \<le> n"
  by (cases "(n, s)" rule: sock_read.cases) auto

text \<open>A socket without interruptions that has not ended yet: every chunk has bytes in it.\<close>

definition live :: "sock \<Rightarrow> bool" where
  "live s = list_all (\<lambda>e. e \<noteq> None \<and> e \<noteq> Some []) s"

lemma live_read: "live s \<Longrightarrow> sock_read n s = (d, s') \<Longrightarrow> live s'"
  by (cases "(n, s)" rule: sock_read.cases) (auto simp: live_def split: if_splits)

lemma live_read_some: "live s \<Longrightarrow> \<exists>d s'. sock_read n s = (Some d, s')"
  by (cases "(n, s)" rule: sock_read.cases) (auto simp: live_def)

lemma live_read_empty: "live s \<Longrightarrow> 0 < n \<Longrightarrow> sock_read n s = (Some [], s') \<Longrightarrow> s = [] \<and> s' = []"
  by (cases "(n, s)" rule: sock_read.cases) (auto simp: live_def)

lemma live_arrives: "live s \<Longrightarrow> arrives s = [] \<Longrightarrow> s = []"
  by (cases "(0::nat, s)" rule: sock_read.cases) (auto simp: live_def)

section \<open>The generator of frames\<close>

text \<open>
  \<open>None\<close> is the \<open>SocketError\<close> for too little data. \<open>if not next_data\<close> takes an
  interrupted read for the end of the stream.
\<close>

function read_exactly :: "nat \<Rightarrow> sock \<Rightarrow> (bytes \<times> sock) option" where
  "read_exactly n s =
     (if n = 0 then Some ([], s)
      else (case sock_read n s of
        (None, s') \<Rightarrow> None
      | (Some d, s') \<Rightarrow>
          if d = [] then None
          else map_option (\<lambda>(ds, s''). (d @ ds, s'')) (read_exactly (n - length d) s')))"
  by pat_completeness auto
termination
proof (relation "measure fst")
  fix n :: nat and s :: sock and x y d s'
  assume "n \<noteq> 0" "d \<noteq> []"
  then have "0 < length d" by simp
  with \<open>n \<noteq> 0\<close> show "((n - length d, s'), n, s) \<in> measure fst" by simp
qed simp

declare read_exactly.simps [simp del]

lemma read_exactly_0 [simp]: "read_exactly 0 s = Some ([], s)"
  by (simp add: read_exactly.simps)

lemma read_exactly_None [simp]: "0 < n \<Longrightarrow> read_exactly n (None # s) = None"
  by (simp add: read_exactly.simps)

lemma read_exactly_step:
  "0 < n \<Longrightarrow> sock_read n s = (Some d, s') \<Longrightarrow> d \<noteq> []
    \<Longrightarrow> read_exactly n s = map_option (\<lambda>(ds, s''). (d @ ds, s'')) (read_exactly (n - length d) s')"
  by (subst read_exactly.simps) simp

lemma read_exactly_Some:
  "read_exactly n s = Some (d, s') \<Longrightarrow> arrives s = d @ arrives s' \<and> length d = n \<and> pending s = n + pending s'"
proof (induction n s arbitrary: d s' rule: read_exactly.induct)
  case (1 n s)
  show ?case
  proof (cases "n = 0")
    case False
    obtain r s1 where r: "sock_read n s = (r, s1)" by (cases "sock_read n s")
    from "1.prems" False r obtain d1 d2 where d1: "r = Some d1" "d1 \<noteq> []"
      and d2: "read_exactly (n - length d1) s1 = Some (d2, s')" "d = d1 @ d2"
      by (auto simp: read_exactly.simps [of n s] split: if_splits option.splits)
    note r = r [unfolded d1]
    show ?thesis
      using "1.IH" [OF False r [symmetric] refl d1(2) d2(1)] sock_read_arrives [OF r] pending_read [OF r]
        sock_read_length [OF r] d2(2) by simp
  qed (use "1.prems" in simp)
qed

text \<open>\<open>None\<close> is the pair \<open>(-1, -1)\<close>.\<close>

definition next_frame_header :: "sock \<Rightarrow> ((byte \<times> nat) \<times> sock) option" where
  "next_frame_header s = map_option (\<lambda>(data, s'). (unpack data, s')) (read_exactly 8 s)"

lemma pending_header:
  "next_frame_header s = Some (p, s') \<Longrightarrow> pending s = 8 + pending s'"
  unfolding next_frame_header_def by (auto dest!: read_exactly_Some)

text \<open>\<open>frames_iter_no_tty\<close>: the frame that is being read, and the next header when it is done.\<close>

function frames_iter_no_tty :: "sock \<Rightarrow> (byte \<times> bytes) list"
  and frame_data :: "byte \<Rightarrow> nat \<Rightarrow> sock \<Rightarrow> (byte \<times> bytes) list" where
  "frames_iter_no_tty s = (case next_frame_header s of
      None \<Rightarrow> [] | Some ((stream, n), s') \<Rightarrow> frame_data stream n s')"
| "frame_data stream n s =
     (if n = 0 then frames_iter_no_tty s
      else (case sock_read n s of
        (None, s') \<Rightarrow> frame_data stream n s'
      | (Some d, s') \<Rightarrow> if d = [] then [] else (stream, d) # frame_data stream (n - length d) s'))"
  by pat_completeness auto
termination
proof (relation "measures [\<lambda>x. case x of Inl s \<Rightarrow> pending s | Inr (_, _, s) \<Rightarrow> pending s,
    \<lambda>x. case x of Inl s \<Rightarrow> 0 | Inr _ \<Rightarrow> 1]")
  fix s x p s' stream n
  assume "next_frame_header s = Some x" "(p, s') = x" "(stream, n) = p"
  then show "(Inr (stream, n, s'), Inl s) \<in> measures [\<lambda>x. case x of Inl s \<Rightarrow> pending s | Inr (_, _, s) \<Rightarrow> pending s,
    \<lambda>x. case x of Inl s \<Rightarrow> 0 | Inr _ \<Rightarrow> 1]"
    by (auto dest!: pending_header)
next
  fix stream :: byte and n s x d s'
  assume "n \<noteq> 0" "(x, s') = sock_read n s" "x = Some d" "d \<noteq> []"
  then have "sock_read n s = (Some d, s')" "0 < length d" by simp_all
  then show "(Inr (stream, n - length d, s'), Inr (stream, n, s)) \<in> measures [\<lambda>x. case x of Inl s \<Rightarrow> pending s | Inr (_, _, s) \<Rightarrow> pending s,
    \<lambda>x. case x of Inl s \<Rightarrow> 0 | Inr _ \<Rightarrow> 1]"
    by (simp add: pending_read)
next
  fix stream :: byte and n s x s'
  assume "n \<noteq> 0" "(x, s') = sock_read n s" "x = None"
  then have "s = None # s'" using sock_read_None [of n s s'] by simp
  then show "(Inr (stream, n, s'), Inr (stream, n, s)) \<in> measures [\<lambda>x. case x of Inl s \<Rightarrow> pending s | Inr (_, _, s) \<Rightarrow> pending s,
    \<lambda>x. case x of Inl s \<Rightarrow> 0 | Inr _ \<Rightarrow> 1]"
    by simp
qed auto

declare frames_iter_no_tty.simps [simp del] frame_data.simps [simp del]

text \<open>
  With a terminal, what arrives is passed on, at most 4096 bytes at a time; \<open>len(None)\<close> is a
  \<open>TypeError\<close>.
\<close>

function frames_iter_tty :: "sock \<Rightarrow> bytes list res" where
  "frames_iter_tty s = (case sock_read 4096 s of
     (None, s') \<Rightarrow> Inl TypeError
   | (Some d, s') \<Rightarrow> if d = [] then Inr [] else bindR (frames_iter_tty s') (\<lambda>ds. Inr (d # ds)))"
  by pat_completeness auto
termination
proof (relation "measure pending")
  fix s x d s'
  assume "(x, s') = sock_read 4096 s" "x = Some d" "d \<noteq> ([] :: bytes)"
  then have "sock_read 4096 s = (Some d, s')" "0 < length d" by simp_all
  then show "(s', s) \<in> measure pending" by (simp add: pending_read)
qed simp

declare frames_iter_tty.simps [simp del]

definition frames_iter :: "sock \<Rightarrow> bool \<Rightarrow> (byte \<times> bytes) list res" where
  "frames_iter s tty =
     (if tty then bindR (frames_iter_tty s) (\<lambda>ds. Inr (map (Pair STDOUT) ds)) else Inr (frames_iter_no_tty s))"

definition demux_adaptor :: "byte \<Rightarrow> bytes \<Rightarrow> (bytes option \<times> bytes option) res" where
  "demux_adaptor stream_id data =
     (if stream_id = STDOUT then Inr (Some data, None)
      else if stream_id = STDERR then Inr (None, Some data)
      else Inl (ValueError ''{0} is not a valid stream''))"

definition join_opt :: "bytes option \<Rightarrow> bytes option \<Rightarrow> bytes option" where
  "join_opt acc data = (case acc of None \<Rightarrow> data | Some a \<Rightarrow> map_option ((@) a) data)"

text \<open>
  The loop of \<open>consume_socket_output(frames, demux=True)\<close>; without \<open>demux\<close> the data is joined.
  The generator and the loop alternate, so a frame is checked when it is consumed.
\<close>

definition consume_frame :: "bytes option \<times> bytes option \<Rightarrow> bytes option \<times> bytes option
    \<Rightarrow> (bytes option \<times> bytes option) res" where
  "consume_frame acc frame =
     (if frame = (None, None) then Inl AssertionError
      else if fst frame \<noteq> None then Inr (join_opt (fst acc) (fst frame), snd acc)
      else Inr (fst acc, join_opt (snd acc) (snd frame)))"

definition read_from_socket_demux :: "sock \<Rightarrow> bool \<Rightarrow> (bytes option \<times> bytes option) res" where
  "read_from_socket_demux s tty = bindR (frames_iter s tty)
     (foldR (\<lambda>acc (stream, d). bindR (demux_adaptor stream d) (consume_frame acc)) (None, None))"

definition read_from_socket_joined :: "sock \<Rightarrow> bool \<Rightarrow> bytes res" where
  "read_from_socket_joined s tty = bindR (frames_iter s tty) (\<lambda>fs. Inr (concat (map snd fs)))"

section \<open>The buffered response\<close>

text \<open>\<open>_multiplexed_buffer_helper\<close>: the walker is what is left of the buffer.\<close>

function multiplexed_buffer :: "bytes \<Rightarrow> bytes list" where
  "multiplexed_buffer buf =
     (if length buf < 8 then []
      else case unpack (take 8 buf) of (dummy, n) \<Rightarrow>
        take n (drop 8 buf) # multiplexed_buffer (drop n (drop 8 buf)))"
  by pat_completeness auto
termination by (relation "measure length") auto

declare multiplexed_buffer.simps [simp del]

section \<open>What a stream of frames says\<close>

type_synonym frame = "byte \<times> bytes"

definition wire :: "frame list \<Rightarrow> bytes" where
  "wire fs = concat (map (\<lambda>(i, d). pack i (length d) @ d) fs)"

definition valid_frames :: "frame list \<Rightarrow> bool" where
  "valid_frames fs = list_all (\<lambda>(i, d). (i = STDOUT \<or> i = STDERR) \<and> length d < 2 ^ 32) fs"

definition collect :: "byte \<Rightarrow> frame list \<Rightarrow> bytes" where
  "collect i fs = concat (map snd (filter (\<lambda>f. fst f = i) fs))"

lemma wire_simps [simp]: "wire [] = []" "wire ((i, d) # fs) = pack i (length d) @ d @ wire fs"
  by (simp_all add: wire_def)

lemma valid_frames_simps [simp]: "valid_frames []"
  "valid_frames ((i, d) # fs) \<longleftrightarrow> (i = STDOUT \<or> i = STDERR) \<and> length d < 2 ^ 32 \<and> valid_frames fs"
  by (simp_all add: valid_frames_def)

lemma collect_simps [simp]: "collect i [] = []"
  "collect i ((j, d) # fs) = (if i = j then d @ collect i fs else collect i fs)"
  by (auto simp: collect_def)

lemma STDOUT_STDERR [simp]: "STDOUT \<noteq> STDERR" "STDERR \<noteq> STDOUT"
  by (simp_all add: STDOUT_def STDERR_def)

lemma length_pack [simp]: "length (pack i n) = 8"
  by (simp add: pack_def)

lemma horner_256: "n = a * 256 + x \<Longrightarrow> a = b * 256 + y \<Longrightarrow> b = c * 256 + z
    \<Longrightarrow> ((c * 256 + z) * 256 + y) * 256 + x = (n :: nat)"
  by simp

lemma base_256: "n < 2 ^ 32 \<Longrightarrow>
    ((n div 2 ^ 24 mod 256 * 256 + n div 2 ^ 16 mod 256) * 256 + n div 2 ^ 8 mod 256) * 256 + n mod 256 = (n :: nat)"
proof -
  assume "n < 2 ^ 32"
  define a b c where "a = n div 2 ^ 8" "b = n div 2 ^ 16" "c = n div 2 ^ 24"
  have "c < 256" using \<open>n < 2 ^ 32\<close> by (simp add: a_b_c_def less_mult_imp_div_less)
  then have "c mod 256 = c" by simp
  moreover have "((c * 256 + b mod 256) * 256 + a mod 256) * 256 + n mod 256 = n"
  proof (rule horner_256)
    show "n = a * 256 + n mod 256" by (simp add: a_b_c_def)
    show "a = b * 256 + a mod 256"
      using div_mult_mod_eq [of a 256] by (simp add: a_b_c_def flip: div_mult2_eq)
    show "b = c * 256 + b mod 256"
      using div_mult_mod_eq [of b 256] by (simp add: a_b_c_def flip: div_mult2_eq)
  qed
  ultimately have "((c mod 256 * 256 + b mod 256) * 256 + a mod 256) * 256 + n mod 256 = n" by simp
  then show ?thesis unfolding a_b_c_def .
qed

lemma unpack_pack:
  assumes "n < 2 ^ 32"
  shows "unpack (pack i n) = (i, n)"
  using base_256 [OF assms] assms by (simp add: unpack_def pack_def size_of_def unat_of_nat)

section \<open>What the readers make of it\<close>

lemma multiplexed_buffer_wire: "valid_frames fs \<Longrightarrow> multiplexed_buffer (wire fs) = map snd fs"
proof (induction fs)
  case (Cons f fs)
  obtain i d where f: "f = (i, d)" by (cases f)
  with Cons show ?case
    by (simp add: multiplexed_buffer.simps [of "pack i (length d) @ d @ wire fs"] unpack_pack)
qed (simp add: multiplexed_buffer.simps)

lemma read_exactly_live:
  "live s \<Longrightarrow> n \<le> length (arrives s) \<Longrightarrow>
    \<exists>s'. read_exactly n s = Some (take n (arrives s), s') \<and> live s' \<and> arrives s' = drop n (arrives s)"
proof (induction n s rule: read_exactly.induct)
  case (1 n s)
  show ?case
  proof (cases "n = 0")
    case False
    obtain d s1 where r: "sock_read n s = (Some d, s1)" using live_read_some [OF "1.prems"(1)] by blast
    have d: "d \<noteq> []" using live_read_empty [OF "1.prems"(1), of n s1] False r "1.prems"(2) by (cases "d = []") auto
    note a = sock_read_arrives [OF r] sock_read_length [OF r]
    have l: "live s1" by (rule live_read [OF "1.prems"(1) r])
    have "n - length d \<le> length (arrives s1)" using "1.prems"(2) a by simp
    from "1.IH" [OF False r [symmetric] refl d l this] obtain s'
      where "read_exactly (n - length d) s1 = Some (take (n - length d) (arrives s1), s')" "live s'"
        "arrives s' = drop (n - length d) (arrives s1)" by blast
    with a d False r show ?thesis by (simp add: read_exactly_step)
  qed (use "1.prems" in simp)
qed

text \<open>
  A live socket whose bytes wire frames: the generator delivers pieces that are not empty
  and that give, stream by stream, the data of the frames.
\<close>

definition delivers :: "frame list \<Rightarrow> frame list \<Rightarrow> bool" where
  "delivers gs fs \<longleftrightarrow> (\<forall>i. collect i gs = collect i fs) \<and> list_all (\<lambda>(i, d). (i = STDOUT \<or> i = STDERR) \<and> d \<noteq> []) gs"

lemma frames_deliver:
  "live s \<Longrightarrow> valid_frames fs \<Longrightarrow> arrives s = wire fs \<Longrightarrow> delivers (frames_iter_no_tty s) fs"
  "live s \<Longrightarrow> valid_frames fs \<Longrightarrow> i = STDOUT \<or> i = STDERR \<Longrightarrow> length d = n \<Longrightarrow> arrives s = d @ wire fs
    \<Longrightarrow> delivers (frame_data i n s) ((i, d) # fs)"
proof (induction s and i n s arbitrary: fs and fs d rule: frames_iter_no_tty_frame_data.induct)
  case (1 s)
  show ?case
  proof (cases fs)
    case Nil
    with 1 have "s = []" by (simp add: live_arrives)
    with Nil show ?thesis
      by (simp add: frames_iter_no_tty.simps next_frame_header_def read_exactly.simps delivers_def)
  next
    case (Cons f fs')
    obtain i d where f: "f = (i, d)" by (cases f)
    obtain s' where s': "read_exactly 8 s = Some (pack i (length d), s')" "live s'" "arrives s' = d @ wire fs'"
      using read_exactly_live [of s 8] 1 Cons f by auto
    then have "next_frame_header s = Some ((i, length d), s')"
      using 1 Cons f by (simp add: next_frame_header_def unpack_pack)
    with "1.IH" [OF this refl refl s'(2) _ _ refl s'(3)] "1.prems" Cons f show ?thesis
      by (simp add: frames_iter_no_tty.simps [of s])
  qed
next
  case (2 i n s)
  show ?case
  proof (cases "n = 0")
    case True
    with 2 have "delivers (frames_iter_no_tty s) fs" by simp
    with True 2 show ?thesis by (simp add: frame_data.simps [of i 0 s] delivers_def)
  next
    case False
    obtain d1 s1 where r: "sock_read n s = (Some d1, s1)" using live_read_some [OF "2.prems"(1)] by blast
    have d1: "d1 \<noteq> []" using live_read_empty [OF "2.prems"(1), of n s1] False r "2.prems"(4,5) by (cases "d1 = []") auto
    have l: "length d1 \<le> n" by (rule sock_read_length [OF r])
    have a: "d @ wire fs = d1 @ arrives s1" using sock_read_arrives [OF r] "2.prems"(5) by simp
    define d2 where "d2 = drop (length d1) d"
    have "take (length d1) d = d1" using arg_cong [OF a, of "take (length d1)"] l "2.prems"(4) by simp
    then have d: "d = d1 @ d2" using append_take_drop_id [of "length d1" d] by (simp add: d2_def)
    have "delivers (frame_data i (n - length d1) s1) ((i, d2) # fs)"
      by (rule "2.IH"(3) [OF False r [symmetric] refl d1 live_read [OF "2.prems"(1) r] "2.prems"(2,3)])
        (use a d "2.prems"(4) in auto)
    with False r d1 d "2.prems"(3) show ?thesis
      by (simp add: frame_data.simps [of i n s] delivers_def)
  qed
qed

definition some_data :: "bytes \<Rightarrow> bytes option" where
  "some_data d = (if d = [] then None else Some d)"

lemma demux_consume:
  "list_all (\<lambda>(i, d). (i = STDOUT \<or> i = STDERR) \<and> d \<noteq> []) gs \<Longrightarrow>
    foldR (\<lambda>acc (stream, d). bindR (demux_adaptor stream d) (consume_frame acc)) (some_data a, some_data b) gs
      = Inr (some_data (a @ collect STDOUT gs), some_data (b @ collect STDERR gs))"
proof (induction gs arbitrary: a b)
  case (Cons g gs)
  obtain i d where g: "g = (i, d)" by (cases g)
  have j: "join_opt (some_data x) (Some d) = some_data (x @ d)" for x
    using Cons.prems g by (auto simp: join_opt_def some_data_def)
  show ?case
    using Cons.prems Cons.IH [of "a @ d" b] Cons.IH [of a "b @ d"] g
    by (auto simp: demux_adaptor_def consume_frame_def j)
qed simp

lemma read_from_socket_demux_frames:
  "live s \<Longrightarrow> valid_frames fs \<Longrightarrow> arrives s = wire fs \<Longrightarrow>
    read_from_socket_demux s False = Inr (some_data (collect STDOUT fs), some_data (collect STDERR fs))"
  using frames_deliver(1) [of s fs] demux_consume [of "frames_iter_no_tty s" "[]" "[]"]
  by (simp add: read_from_socket_demux_def frames_iter_def delivers_def some_data_def)

end
