(* ===== verification/DockerSocketHandler.thy ===== *)
theory DockerSocketHandler
  imports Incremental DockerStream
begin

text \<open>
  The socket handler of \<open>socket_handler.py\<close>: a state machine on a socket that does not
  block. What arrives goes to a read buffer and is cut into blocks, one for every frame;
  what is to be sent waits in a write buffer until the socket takes it. The workaround for
  Paramiko (a socket that cannot be selected for writing) is not modelled.
\<close>

section \<open>State\<close>

text \<open>
  \<open>hd_callback\<close> says that the callback of \<open>consume\<close> is set; its two lists are \<open>hd_out\<close>
  and \<open>hd_err\<close>. \<open>hd_want_write\<close> is the registration with the selector, \<open>hd_sent\<close> and
  \<open>hd_shut\<close> are what the other side has seen: the bytes, and the number of shutdowns.
\<close>

record handler =
  hd_callback :: bool
  hd_block_buffer :: "(byte option \<times> bytes) list"
  hd_eof :: bool
  hd_read_buffer :: bytes
  hd_write_buffer :: bytes
  hd_end_of_writing :: bool
  hd_stream :: "byte option"
  hd_missing :: nat
  hd_buffer :: bytes
  hd_want_write :: bool
  hd_out :: "bytes list"
  hd_err :: "bytes list"
  hd_sent :: bytes
  hd_shut :: nat

definition new_handler :: handler where
  "new_handler = \<lparr>hd_callback = False, hd_block_buffer = [], hd_eof = False, hd_read_buffer = [],
     hd_write_buffer = [], hd_end_of_writing = False, hd_stream = None, hd_missing = 0, hd_buffer = [],
     hd_want_write = False, hd_out = [], hd_err = [], hd_sent = [], hd_shut = 0\<rparr>"

text \<open>What \<open>recv\<close> answers: data, nothing yet, the end as OpenSSL reports it, or an error.\<close>

datatype received = Data bytes | NoData | ZeroReturn | ReadError exn

section \<open>Reading\<close>

definition append_block :: "byte option \<Rightarrow> bytes \<Rightarrow> handler \<Rightarrow> handler res" where
  "append_block stream_id data h =
     (if stream_id = Some STDOUT then Inr (h\<lparr>hd_out := hd_out h @ [data]\<rparr>)
      else if stream_id = Some STDERR then Inr (h\<lparr>hd_err := hd_err h @ [data]\<rparr>)
      else Inl (ValueError ''{0} is not a valid stream ID''))"

definition add_block :: "byte option \<Rightarrow> bytes \<Rightarrow> handler \<Rightarrow> handler res" where
  "add_block stream_id data h =
     (if hd_callback h then append_block stream_id data h
      else Inr (h\<lparr>hd_block_buffer := hd_block_buffer h @ [(stream_id, data)]\<rparr>))"

text \<open>\<open>self._block_buffer.remove(0)\<close> looks for an element that is equal to \<open>0\<close>.\<close>

definition set_block_done_callback :: "handler \<Rightarrow> handler res" where
  "set_block_done_callback h =
     (if hd_block_buffer h = [] then Inr (h\<lparr>hd_callback := True\<rparr>)
      else Inl (ValueError ''list.remove(x): x not in list''))"

text \<open>The body of the loop of \<open>_read\<close>: first the data that the current frame misses \<dots>\<close>

definition take_missing :: "handler \<Rightarrow> handler res" where
  "take_missing h =
     (if 0 < hd_missing h
      then let n = min (length (hd_read_buffer h)) (hd_missing h);
               h' = h\<lparr>hd_buffer := hd_buffer h @ take n (hd_read_buffer h),
                      hd_read_buffer := drop n (hd_read_buffer h),
                      hd_missing := hd_missing h - n\<rparr>
           in if hd_missing h' = 0
              then bindR (add_block (hd_stream h') (hd_buffer h') h') (\<lambda>h''. Inr (h''\<lparr>hd_buffer := []\<rparr>))
              else Inr h'
      else Inr h)"

text \<open>\<dots> then the next header. The size is unsigned, so it is never negative.\<close>

definition take_header :: "handler \<Rightarrow> handler" where
  "take_header h = (case unpack (take 8 (hd_read_buffer h)) of (stream, n) \<Rightarrow>
     h\<lparr>hd_stream := Some stream, hd_missing := n, hd_read_buffer := drop 8 (hd_read_buffer h)\<rparr>)"

lemma add_block_keeps:
  "add_block i d h = Inr h' \<Longrightarrow> hd_read_buffer h' = hd_read_buffer h \<and> hd_missing h' = hd_missing h
     \<and> hd_buffer h' = hd_buffer h \<and> hd_eof h' = hd_eof h \<and> hd_callback h' = hd_callback h"
  by (auto simp: add_block_def append_block_def split: if_splits)

lemma take_missing_shrinks: "take_missing h = Inr h' \<Longrightarrow> length (hd_read_buffer h') \<le> length (hd_read_buffer h)"
  by (auto simp: take_missing_def Let_def bindR_eq_Inr dest!: add_block_keeps split: if_splits)

function process :: "handler \<Rightarrow> handler res" where
  "process h =
     (if hd_read_buffer h = [] then Inr h
      else bindR (take_missing h) (\<lambda>h'.
        if length (hd_read_buffer h') < 8 then Inr h' else process (take_header h')))"
  by pat_completeness auto
termination
proof (relation "measure (length \<circ> hd_read_buffer)")
  fix h h'
  assume "take_missing h = Inr h'" "\<not> length (hd_read_buffer h') < 8"
  then show "(take_header h', h) \<in> measure (length \<circ> hd_read_buffer)"
    using take_missing_shrinks [of h h'] by (simp add: take_header_def split: prod.split)
qed simp

declare process.simps [simp del]

definition read_step :: "received \<Rightarrow> handler \<Rightarrow> handler res" where
  "read_step r h =
     (if hd_eof h then Inr h
      else (case r of
        ZeroReturn \<Rightarrow> Inr (h\<lparr>hd_eof := True\<rparr>)
      | ReadError e \<Rightarrow> Inl e
      | NoData \<Rightarrow> Inr h
      | Data data \<Rightarrow>
          if data = [] then Inr (h\<lparr>hd_eof := True\<rparr>)
          else process (h\<lparr>hd_read_buffer := hd_read_buffer h @ data\<rparr>)))"

section \<open>Writing\<close>

definition handle_end_of_writing :: "handler \<Rightarrow> handler" where
  "handle_end_of_writing h =
     (if hd_end_of_writing h \<and> hd_write_buffer h = []
      then h\<lparr>hd_end_of_writing := False, hd_shut := Suc (hd_shut h)\<rparr> else h)"

text \<open>The socket takes at most \<open>cap\<close> bytes, or the call raises.\<close>

definition write_step :: "exn + nat \<Rightarrow> handler \<Rightarrow> handler res" where
  "write_step cap h =
     (if hd_write_buffer h \<noteq> []
      then bindR cap (\<lambda>c.
        let written = min c (length (hd_write_buffer h));
            h' = h\<lparr>hd_sent := hd_sent h @ take written (hd_write_buffer h),
                   hd_write_buffer := drop written (hd_write_buffer h)\<rparr>
        in Inr (handle_end_of_writing (h'\<lparr>hd_want_write := hd_write_buffer h' \<noteq> []\<rparr>)))
      else Inr h)"

definition handler_write :: "exn + nat \<Rightarrow> bytes \<Rightarrow> handler \<Rightarrow> handler res" where
  "handler_write cap str h =
     (let h' = h\<lparr>hd_write_buffer := hd_write_buffer h @ str\<rparr>
      in if length (hd_write_buffer h') = length str then write_step cap h' else Inr h')"

definition end_of_writing :: "handler \<Rightarrow> handler" where
  "end_of_writing h = handle_end_of_writing (h\<lparr>hd_end_of_writing := True\<rparr>)"

section \<open>Waiting\<close>

text \<open>
  One \<open>select\<close>: the socket is readable, writable, both or (after a time-out) neither; it is
  reported writable only while it is registered for that.
\<close>

record round =
  rd_read :: "received option"
  rd_write :: "(exn + nat) option"

definition select_step :: "round \<Rightarrow> handler \<Rightarrow> handler res" where
  "select_step r h =
     bindR (case rd_read r of None \<Rightarrow> Inr h | Some x \<Rightarrow> read_step x h) (\<lambda>h'.
       case rd_write r of None \<Rightarrow> Inr h' | Some cap \<Rightarrow> if hd_want_write h then write_step cap h' else Inr h')"

text \<open>The loop of \<open>consume\<close>; when no more rounds come, it has not ended.\<close>

fun select_loop :: "round list \<Rightarrow> handler \<Rightarrow> handler res" where
  "select_loop rs h =
     (if hd_eof h then Inr h
      else (case rs of [] \<Rightarrow> Inl OutOfFuel | r # rs' \<Rightarrow> bindR (select_step r h) (select_loop rs')))"

definition consume :: "round list \<Rightarrow> handler \<Rightarrow> (bytes \<times> bytes) res" where
  "consume rs h = bindR (set_block_done_callback (end_of_writing h)) (\<lambda>h1.
     bindR (select_loop rs h1) (\<lambda>h2. Inr (concat (hd_out h2), concat (hd_err h2))))"

text \<open>\<open>docker_container_exec\<close> with standard input: write, then consume.\<close>

definition exec_with_stdin :: "exn + nat \<Rightarrow> bytes \<Rightarrow> round list \<Rightarrow> (bytes \<times> bytes) res" where
  "exec_with_stdin cap stdin rs =
     bindR (if stdin \<noteq> [] then handler_write cap stdin new_handler else Inr new_handler) (consume rs)"

section \<open>The reader does not depend on how the data is cut\<close>

definition feed :: "handler \<Rightarrow> bytes \<Rightarrow> handler res" where
  "feed h data = process (h\<lparr>hd_read_buffer := hd_read_buffer h @ data\<rparr>)"

definition idle :: "handler \<Rightarrow> bool" where
  "idle h \<longleftrightarrow> (if hd_missing h = 0 then length (hd_read_buffer h) < 8 else hd_read_buffer h = [])"

abbreviation with_more :: "bytes \<Rightarrow> handler \<Rightarrow> handler" where
  "with_more y h \<equiv> h\<lparr>hd_read_buffer := hd_read_buffer h @ y\<rparr>"

lemma take_missing_none: "hd_missing h = 0 \<Longrightarrow> take_missing h = Inr h"
  by (simp add: take_missing_def)

lemma take_missing_enough:
  assumes "0 < hd_missing h" "hd_missing h \<le> length (hd_read_buffer h)"
  shows "take_missing (with_more y h) = bindR (take_missing h) (\<lambda>t. Inr (with_more y t))"
proof -
  have "min (length (hd_read_buffer h) + length y) (hd_missing h) = hd_missing h"
    "min (length (hd_read_buffer h)) (hd_missing h) = hd_missing h" using assms(2) by simp_all
  with assms show ?thesis by (simp add: take_missing_def Let_def add_block_def append_block_def)
qed

lemma take_missing_enough_done:
  assumes "0 < hd_missing h" "hd_missing h \<le> length (hd_read_buffer h)" "take_missing h = Inr t"
  shows "hd_missing t = 0 \<and> hd_read_buffer t = drop (hd_missing h) (hd_read_buffer h)"
  using assms by (auto simp: take_missing_def Let_def min_def bindR_eq_Inr dest!: add_block_keeps split: if_splits)

lemma take_missing_short:
  assumes "length (hd_read_buffer h) < hd_missing h"
  shows "take_missing h = Inr (h\<lparr>hd_buffer := hd_buffer h @ hd_read_buffer h,
      hd_missing := hd_missing h - length (hd_read_buffer h), hd_read_buffer := []\<rparr>)"
  using assms by (simp add: take_missing_def Let_def)

lemma take_missing_resumed:
  assumes "length (hd_read_buffer h) < hd_missing h"
  shows "take_missing (with_more y h) = take_missing (h\<lparr>hd_buffer := hd_buffer h @ hd_read_buffer h,
      hd_missing := hd_missing h - length (hd_read_buffer h), hd_read_buffer := y\<rparr>)"
proof -
  let ?k = "length (hd_read_buffer h)"
  have "min (?k + length y) (hd_missing h) = ?k + min (length y) (hd_missing h - ?k)" using assms by linarith
  then show ?thesis using assms unfolding take_missing_def Let_def by simp
qed

lemma process_step:
  "hd_read_buffer h \<noteq> [] \<Longrightarrow> process h = bindR (take_missing h) (\<lambda>h'.
        if length (hd_read_buffer h') < 8 then Inr h' else process (take_header h'))"
  by (subst process.simps) simp

lemma process_no_missing:
  "hd_missing h = 0 \<Longrightarrow> process h = (if length (hd_read_buffer h) < 8 then Inr h else process (take_header h))"
  by (cases "hd_read_buffer h = []") (simp_all add: process_step take_missing_none process.simps)

lemma take_header_more:
  "8 \<le> length (hd_read_buffer h) \<Longrightarrow> take_header (with_more y h) = with_more y (take_header h)"
  by (simp add: take_header_def split: prod.split)

lemma process_more: "process (with_more y h) = bindR (process h) (\<lambda>t. process (with_more y t))"
proof (induction h rule: process.induct)
  case (1 h)
  have no_missing: "process (with_more y t) = bindR (if length (hd_read_buffer t) < 8 then Inr t else process (take_header t))
      (\<lambda>t. process (with_more y t))" if "hd_missing t = 0" "hd_read_buffer h \<noteq> []" "take_missing h = Inr t" for t
  proof (cases "length (hd_read_buffer t) < 8")
    case False
    then show ?thesis
      using that "1.IH" [OF that(2,3) False] by (simp add: process_no_missing take_header_more)
  qed simp
  consider "hd_read_buffer h = []" | "hd_read_buffer h \<noteq> []" "hd_missing h = 0"
    | "hd_read_buffer h \<noteq> []" "0 < hd_missing h" "hd_missing h \<le> length (hd_read_buffer h)"
    | "hd_read_buffer h \<noteq> []" "length (hd_read_buffer h) < hd_missing h" by linarith
  then show ?case
  proof cases
    case 1
    then show ?thesis by (simp add: process.simps [of h])
  next
    case 2
    with no_missing [of h] show ?thesis by (simp add: process_no_missing [of h] take_missing_none)
  next
    case 3
    show ?thesis
    proof (cases "take_missing h")
      case (Inr t)
      note d = take_missing_enough_done [OF 3(2,3) Inr]
      have "process (with_more y h) = process (with_more y t)"
        using 3 d Inr by (simp add: process_step take_missing_enough process_no_missing)
      also have "\<dots> = bindR (process h) (\<lambda>t. process (with_more y t))"
        using no_missing [of t] d 3(1) Inr by (simp add: process_step [of h])
      finally show ?thesis .
    qed (use 3 in \<open>simp add: process_step take_missing_enough\<close>)
  next
    case 4
    then have h: "process h = take_missing h" by (simp add: process_step take_missing_short)
    show ?thesis
    proof (cases "y = []")
      case True
      with 4 show ?thesis by (simp add: h take_missing_short process.simps)
    next
      case False
      with 4 show ?thesis
        by (simp add: h take_missing_short process_step take_missing_resumed)
    qed
  qed
qed

lemma process_settled: "idle h \<Longrightarrow> process h = Inr h"
  by (cases "hd_missing h = 0", simp add: idle_def process_no_missing)
    (simp add: idle_def process.simps [of h])

lemma take_missing_result: "take_missing h = Inr t \<Longrightarrow> hd_missing t = 0 \<or> hd_read_buffer t = []"
  by (auto simp: take_missing_def Let_def min_def bindR_eq_Inr dest!: add_block_keeps split: if_splits)

lemma process_settles: "process h = Inr t \<Longrightarrow> idle t"
proof (induction h rule: process.induct)
  case (1 h)
  show ?case
  proof (cases "hd_read_buffer h = []")
    case False
    from "1.prems" False obtain t' where t': "take_missing h = Inr t'"
      and r: "(if length (hd_read_buffer t') < 8 then Inr t' else process (take_header t')) = Inr t"
      by (auto simp: process_step bindR_eq_Inr)
    show ?thesis
      using "1.IH" [OF False t'] r take_missing_result [OF t'] by (auto simp: idle_def split: if_splits)
  qed (use "1.prems" in \<open>auto simp: process.simps [of h] idle_def\<close>)
qed

interpretation reader: incremental idle feed
proof
  fix h t :: handler and x y :: bytes
  show "idle h \<Longrightarrow> feed h x = Inr t \<Longrightarrow> idle t" by (auto simp: feed_def intro: process_settles)
  show "idle h \<Longrightarrow> feed h [] = Inr h" by (simp add: feed_def process_settled)
  assume "idle h"
  show "feed h (x @ y) = bindR (feed h x) (\<lambda>t. feed t y)"
    using process_more [of "with_more x h" y] by (simp add: feed_def)
qed

section \<open>Blocks are frames\<close>

text \<open>What the state is after the frames have been taken in, with the callback set.\<close>

definition accept :: "frame \<Rightarrow> handler \<Rightarrow> handler" where
  "accept f h = (case f of (i, d) \<Rightarrow> h\<lparr>hd_stream := Some i,
     hd_out := if i = STDOUT \<and> d \<noteq> [] then hd_out h @ [d] else hd_out h,
     hd_err := if i = STDERR \<and> d \<noteq> [] then hd_err h @ [d] else hd_err h\<rparr>)"

definition between_frames :: "handler \<Rightarrow> bool" where
  "between_frames h \<longleftrightarrow> hd_callback h \<and> hd_missing h = 0 \<and> hd_buffer h = []"

lemma between_frames_accept: "between_frames h \<Longrightarrow> between_frames (accept f h)"
  by (simp add: between_frames_def accept_def split: prod.split)

lemma process_frame:
  assumes h: "between_frames h" and i: "i = STDOUT \<or> i = STDERR" and n: "length d < 2 ^ 32"
  shows "process (h\<lparr>hd_read_buffer := pack i (length d) @ d @ rest\<rparr>) = process (accept (i, d) h\<lparr>hd_read_buffer := rest\<rparr>)"
proof -
  let ?h1 = "h\<lparr>hd_stream := Some i, hd_missing := length d, hd_read_buffer := d @ rest\<rparr>"
  have "process (h\<lparr>hd_read_buffer := pack i (length d) @ d @ rest\<rparr>) = process ?h1"
    using h n by (simp add: between_frames_def process_no_missing take_header_def unpack_pack)
  also have "\<dots> = process (accept (i, d) h\<lparr>hd_read_buffer := rest\<rparr>)"
  proof (cases "d = []")
    case True
    with h show ?thesis by (cases h) (simp add: accept_def between_frames_def)
  next
    case False
    then have "take_missing ?h1 = Inr (accept (i, d) h\<lparr>hd_read_buffer := rest\<rparr>)"
      using h i by (auto simp: take_missing_def Let_def accept_def between_frames_def add_block_def append_block_def)
    with False between_frames_accept [OF h, of "(i, d)"] show ?thesis
      by (simp add: process_step process_no_missing between_frames_def)
  qed
  finally show ?thesis .
qed

lemma process_frames:
  "between_frames h \<Longrightarrow> valid_frames fs
    \<Longrightarrow> process (h\<lparr>hd_read_buffer := wire fs\<rparr>) = Inr (fold accept fs h\<lparr>hd_read_buffer := []\<rparr>)"
proof (induction fs arbitrary: h)
  case (Cons f fs)
  then show ?case by (cases f) (simp add: process_frame between_frames_accept)
qed (simp add: process.simps)

lemma fold_accept:
  "valid_frames fs \<Longrightarrow> concat (hd_out (fold accept fs h)) = concat (hd_out h) @ collect STDOUT fs \<and>
    concat (hd_err (fold accept fs h)) = concat (hd_err h) @ collect STDERR fs \<and> hd_eof (fold accept fs h) = hd_eof h"
  by (induction fs arbitrary: h) (auto simp: accept_def)

section \<open>Reading while writing\<close>

text \<open>Writing touches the fields of the writer only, and reading commutes with that.\<close>

type_synonym writer = "bytes \<times> bool \<times> bool \<times> bytes \<times> nat"

definition set_writer :: "writer \<Rightarrow> handler \<Rightarrow> handler" where
  "set_writer w h = (case w of (wb, eow, want, sent, shut) \<Rightarrow>
     h\<lparr>hd_write_buffer := wb, hd_end_of_writing := eow, hd_want_write := want, hd_sent := sent, hd_shut := shut\<rparr>)"

lemma set_writer_fields [simp]:
  "hd_read_buffer (set_writer w h) = hd_read_buffer h" "hd_missing (set_writer w h) = hd_missing h"
  "hd_eof (set_writer w h) = hd_eof h" "hd_out (set_writer w h) = hd_out h" "hd_err (set_writer w h) = hd_err h"
  "hd_callback (set_writer w h) = hd_callback h" "hd_block_buffer (set_writer w h) = hd_block_buffer h"
  "hd_buffer (set_writer w h) = hd_buffer h" "hd_stream (set_writer w h) = hd_stream h"
  "set_writer w (set_writer v h) = set_writer w h"
  by (simp_all add: set_writer_def split: prod.split)

lemma set_writer_updates:
  "(set_writer w h)\<lparr>hd_read_buffer := x\<rparr> = set_writer w (h\<lparr>hd_read_buffer := x\<rparr>)"
  "(set_writer w h)\<lparr>hd_eof := b\<rparr> = set_writer w (h\<lparr>hd_eof := b\<rparr>)"
  "(set_writer w h)\<lparr>hd_buffer := x\<rparr> = set_writer w (h\<lparr>hd_buffer := x\<rparr>)"
  "(set_writer w h)\<lparr>hd_missing := m\<rparr> = set_writer w (h\<lparr>hd_missing := m\<rparr>)"
  by (simp_all add: set_writer_def split: prod.split)

lemma add_block_set_writer: "add_block i d (set_writer w h) = bindR (add_block i d h) (\<lambda>t. Inr (set_writer w t))"
  by (simp add: set_writer_def add_block_def append_block_def split: prod.split)

lemma take_missing_set_writer: "take_missing (set_writer w h) = bindR (take_missing h) (\<lambda>t. Inr (set_writer w t))"
  by (simp add: take_missing_def Let_def set_writer_updates add_block_set_writer bindR_assoc)

definition writer_of :: "handler \<Rightarrow> writer" where
  "writer_of h = (hd_write_buffer h, hd_end_of_writing h, hd_want_write h, hd_sent h, hd_shut h)"

lemma writer_of_set [simp]: "writer_of (set_writer w h) = w"
  by (simp add: writer_of_def set_writer_def split: prod.split)

lemma set_writer_of [simp]: "set_writer (writer_of h) h = h"
  by (simp add: writer_of_def set_writer_def)

lemma take_header_set_writer: "take_header (set_writer w h) = set_writer w (take_header h)"
  by (simp add: set_writer_def take_header_def split: prod.split)

lemma process_set_writer: "process (set_writer w h) = bindR (process h) (\<lambda>t. Inr (set_writer w t))"
proof (induction h rule: process.induct)
  case (1 h)
  show ?case
  proof (cases "hd_read_buffer h = []")
    case False
    then show ?thesis
      using "1.IH" [OF False]
      by (cases "take_missing h") (simp_all add: process_step take_missing_set_writer take_header_set_writer)
  qed (simp add: process.simps)
qed

lemma write_step_writer: "write_step (Inr c) h = Inr t \<Longrightarrow> \<exists>w. t = set_writer w h"
  by (rule exI [of _ "(hd_write_buffer t, hd_end_of_writing t, hd_want_write t, hd_sent t, hd_shut t)"])
    (auto simp: write_step_def set_writer_def Let_def handle_end_of_writing_def split: if_splits)

lemma write_step_total: "\<exists>w. write_step (Inr c) h = Inr (set_writer w h)"
proof -
  obtain t where "write_step (Inr c) h = Inr t"
    by (cases "hd_write_buffer h = []") (simp_all add: write_step_def Let_def)
  with write_step_writer show ?thesis by blast
qed

definition write_ok :: "round \<Rightarrow> bool" where
  "write_ok r = (case rd_write r of Some (Inl e) \<Rightarrow> False | _ \<Rightarrow> True)"

text \<open>A round that does not end the stream, and what it brings.\<close>

definition open_round :: "round \<Rightarrow> bool" where
  "open_round r \<longleftrightarrow> write_ok r \<and> (case rd_read r of
     None \<Rightarrow> True | Some NoData \<Rightarrow> True | Some (Data d) \<Rightarrow> d \<noteq> [] | Some _ \<Rightarrow> False)"

definition last_round :: "round \<Rightarrow> bool" where
  "last_round r \<longleftrightarrow> write_ok r \<and> (rd_read r = Some (Data []) \<or> rd_read r = Some ZeroReturn)"

definition brings :: "round \<Rightarrow> bytes" where
  "brings r = (case rd_read r of Some (Data d) \<Rightarrow> d | _ \<Rightarrow> [])"

lemma write_part: "write_ok r \<Longrightarrow> \<exists>w. (case rd_write r of None \<Rightarrow> Inr h
    | Some cap \<Rightarrow> if b then write_step cap h else Inr h) = Inr (set_writer w h)"
proof -
  have same: "\<exists>w. h = set_writer w h" using set_writer_of by metis
  assume "write_ok r"
  then consider "rd_write r = None" | c where "rd_write r = Some (Inr c)"
    by (auto simp: write_ok_def split: option.splits sum.splits)
  then show ?thesis
    by cases (use same write_step_total [of _ h] in simp_all)
qed

lemma select_open:
  assumes "open_round r" "idle h" "\<not> hd_eof h" "feed h (brings r) = Inr t"
  shows "\<exists>w. select_step r h = Inr (set_writer w t)"
proof -
  have "(case rd_read r of None \<Rightarrow> Inr h | Some x \<Rightarrow> read_step x h) = Inr t"
    using assms reader.feed_Nil [OF assms(2)]
    by (auto simp: open_round_def brings_def read_step_def feed_def split: option.splits received.splits)
  then show ?thesis
    using write_part [of r] assms(1) by (simp add: select_step_def open_round_def)
qed

lemma select_last:
  assumes "last_round r" "\<not> hd_eof h"
  shows "\<exists>w. select_step r h = Inr (set_writer w (h\<lparr>hd_eof := True\<rparr>))"
proof -
  have "(case rd_read r of None \<Rightarrow> Inr h | Some x \<Rightarrow> read_step x h) = Inr (h\<lparr>hd_eof := True\<rparr>)"
    using assms by (auto simp: last_round_def read_step_def)
  then show ?thesis
    using write_part [of r] assms(1) by (simp add: select_step_def last_round_def)
qed

declare select_loop.simps [simp del]

lemma feed_set_writer: "feed (set_writer w h) d = bindR (feed h d) (\<lambda>t. Inr (set_writer w t))"
  by (simp add: feed_def set_writer_updates process_set_writer)

lemma idle_set_writer [simp]: "idle (set_writer w h) = idle h"
  by (simp add: idle_def)

lemma process_keeps_eof: "process h = Inr t \<Longrightarrow> hd_eof t = hd_eof h"
proof (induction h rule: process.induct)
  case (1 h)
  have keeps: "hd_eof t' = hd_eof h" if "take_missing h = Inr t'" for t'
    using that by (auto simp: take_missing_def Let_def bindR_eq_Inr dest!: add_block_keeps split: if_splits)
  show ?case
  proof (cases "hd_read_buffer h = []")
    case False
    with "1.prems" obtain t' where t': "take_missing h = Inr t'"
      and r: "(if length (hd_read_buffer t') < 8 then Inr t' else process (take_header t')) = Inr t"
      by (auto simp: process_step bindR_eq_Inr)
    have "hd_eof (take_header t') = hd_eof t'" by (simp add: take_header_def split: prod.split)
    with "1.IH" [OF False t'] r keeps [OF t'] show ?thesis by (auto split: if_splits)
  qed (use "1.prems" in \<open>simp add: process.simps [of h]\<close>)
qed

lemma select_loop_reads:
  assumes "last_round e"
  shows "list_all open_round rs \<Longrightarrow> idle h \<Longrightarrow> \<not> hd_eof h \<Longrightarrow> feed h (concat (map brings rs)) = Inr t
    \<Longrightarrow> \<exists>w. select_loop (rs @ e # later) h = Inr (set_writer w (t\<lparr>hd_eof := True\<rparr>))"
proof (induction rs arbitrary: h t)
  case Nil
  then have "t = h" by (simp add: reader.feed_Nil)
  with select_last [OF assms Nil.prems(3)] obtain w where
    w: "select_step e h = Inr (set_writer w (t\<lparr>hd_eof := True\<rparr>))" by blast
  have "select_loop later (set_writer w (t\<lparr>hd_eof := True\<rparr>)) = Inr (set_writer w (t\<lparr>hd_eof := True\<rparr>))"
    by (subst select_loop.simps) simp
  with w Nil.prems(3) have "select_loop ([] @ e # later) h = Inr (set_writer w (t\<lparr>hd_eof := True\<rparr>))"
    by (subst select_loop.simps) simp
  then show ?case by blast
next
  case (Cons r rs)
  from Cons.prems(4) obtain u where u: "feed h (brings r) = Inr u" "feed u (concat (map brings rs)) = Inr t"
    by (auto simp: reader.feed_append [OF Cons.prems(2)] bindR_eq_Inr)
  from select_open [OF _ Cons.prems(2,3) u(1)] Cons.prems(1) obtain w
    where w: "select_step r h = Inr (set_writer w u)" by auto
  have "hd_eof u = hd_eof h" using u(1) process_keeps_eof by (fastforce simp: feed_def)
  moreover have "idle u" by (rule reader.feed_settles [OF Cons.prems(2) u(1)])
  moreover have "feed (set_writer w u) (concat (map brings rs)) = Inr (set_writer w t)"
    using u(2) by (simp add: feed_set_writer)
  ultimately obtain v where
    "select_loop (rs @ e # later) (set_writer w u) = Inr (set_writer v ((set_writer w t)\<lparr>hd_eof := True\<rparr>))"
    using Cons.IH [of "set_writer w u" "set_writer w t"] Cons.prems(1,3) by auto
  with w Cons.prems(3) have "select_loop ((r # rs) @ e # later) h = Inr (set_writer v (t\<lparr>hd_eof := True\<rparr>))"
    by (subst select_loop.simps) (simp add: set_writer_updates)
  then show ?case by blast
qed

section \<open>Properties\<close>

definition fresh :: "handler \<Rightarrow> bool" where
  "fresh h \<longleftrightarrow> (\<exists>w. h = set_writer w new_handler)"

lemma consume_frames:
  assumes h: "fresh h" and rs: "list_all open_round rs" and e: "last_round e"
    and fs: "valid_frames fs" "concat (map brings rs) = wire fs"
  shows "consume (rs @ e # later) h = Inr (collect STDOUT fs, collect STDERR fs)"
proof -
  from h obtain w where w: "h = set_writer w new_handler" by (auto simp: fresh_def)
  obtain v where v: "end_of_writing h = set_writer v new_handler"
    by (rule that [of "(hd_write_buffer (end_of_writing h), hd_end_of_writing (end_of_writing h),
        hd_want_write (end_of_writing h), hd_sent (end_of_writing h), hd_shut (end_of_writing h))"])
      (cases w, simp add: w end_of_writing_def handle_end_of_writing_def set_writer_def)
  define h1 where "h1 = (end_of_writing h)\<lparr>hd_callback := True\<rparr>"
  have fields: "between_frames h1" "idle h1" "\<not> hd_eof h1" "hd_read_buffer h1 = []" "hd_out h1 = []" "hd_err h1 = []"
    by (simp_all add: h1_def v idle_def between_frames_def) (simp_all add: new_handler_def)
  have f: "feed h1 (concat (map brings rs)) = Inr (fold accept fs h1\<lparr>hd_read_buffer := []\<rparr>)"
    using process_frames [OF fields(1) fs(1)] by (simp add: feed_def fields fs(2))
  have "set_block_done_callback (end_of_writing h) = Inr h1"
    by (simp add: h1_def v set_block_done_callback_def) (simp add: new_handler_def)
  with select_loop_reads [OF e rs fields(2,3) f, of later] fold_accept [OF fs(1), of h1] show ?thesis
    by (auto simp: consume_def fields set_writer_updates)
qed

lemma fresh_written: "handler_write (Inr c) str new_handler = Inr h \<Longrightarrow> fresh h"
proof -
  assume "handler_write (Inr c) str new_handler = Inr h"
  then have w: "write_step (Inr c) (new_handler\<lparr>hd_write_buffer := str\<rparr>) = Inr h"
    by (simp add: handler_write_def Let_def new_handler_def)
  have "new_handler\<lparr>hd_write_buffer := str\<rparr> = set_writer (str, False, False, [], 0) new_handler"
    by (simp add: set_writer_def new_handler_def)
  with write_step_writer [OF w] show ?thesis by (auto simp: fresh_def)
qed

lemma exec_frames:
  assumes "list_all open_round rs" and "last_round e"
    and "valid_frames fs" and "concat (map brings rs) = wire fs"
  shows "exec_with_stdin (Inr c) stdin (rs @ e # later) = Inr (collect STDOUT fs, collect STDERR fs)"
proof -
  obtain h where h: "(if stdin \<noteq> [] then handler_write (Inr c) stdin new_handler else Inr new_handler) = Inr h" "fresh h"
  proof (cases "stdin = []")
    case True
    have "new_handler = set_writer ([], False, False, [], 0) new_handler"
      by (simp add: set_writer_def new_handler_def)
    then have "fresh new_handler" unfolding fresh_def by blast
    with True that show ?thesis by simp
  next
    case False
    obtain h where "handler_write (Inr c) stdin new_handler = Inr h"
      using write_step_total [of c "new_handler\<lparr>hd_write_buffer := stdin\<rparr>"]
      by (auto simp: handler_write_def Let_def new_handler_def)
    with False that fresh_written show ?thesis by simp
  qed
  with consume_frames [OF h(2) assms] show ?thesis by (simp add: exec_with_stdin_def)
qed

text \<open>C4: \<open>docker_container_exec\<close> with standard input gives the output of the command, split in
  standard output and standard error, whatever way the frames arrive: cut at any place,
  with headers torn apart, with rounds in between that bring nothing or only take input.\<close>

theorem handler_demultiplexes:
  assumes "list_all open_round rs" and "last_round e"
    and "valid_frames fs" and "concat (map brings rs) = wire fs"
  shows "exec_with_stdin (Inr c) stdin (rs @ e # later) = Inr (collect STDOUT fs, collect STDERR fs)"
  by (rule exec_frames [OF assms])

definition torn :: "round list" where
  "torn = map (\<lambda>d. \<lparr>rd_read = Some (Data d), rd_write = Some (Inr 1)\<rparr>) [[1, 0, 0], [0, 0, 0, 0, 2, 104], [105, 2, 0, 0, 0, 0, 0, 0, 1, 33]]"

theorem handler_demultiplexes_witness:
  "exec_with_stdin (Inr 1) [7, 8, 9] (torn @ \<lparr>rd_read = Some (Data []), rd_write = None\<rparr> # []) = Inr ([104, 105], [33])"
  using handler_demultiplexes [where rs = torn and e = "\<lparr>rd_read = Some (Data []), rd_write = None\<rparr>"
      and fs = "[(STDOUT, [104, 105]), (STDERR, [33])]" and c = 1 and stdin = "[7, 8, 9]" and later = "[]"]
  by (simp add: torn_def open_round_def last_round_def write_ok_def brings_def pack_def STDOUT_def STDERR_def)

text \<open>C30: The two readers agree: what the generator of frames collects from a socket is what the
  handler collects when it is fed the same bytes, where no output at all is \<open>None\<close> for the one
  and the empty string for the other.\<close>

theorem readers_agree:
  assumes "live s" and "list_all open_round rs" and "last_round e"
    and "valid_frames fs" and "arrives s = wire fs" and "concat (map brings rs) = wire fs"
  shows "exec_with_stdin (Inr c) stdin (rs @ e # later)
    = bindR (read_from_socket_demux s False) (\<lambda>(out, err). Inr (case_option [] id out, case_option [] id err))"
  using exec_frames [OF assms(2-4,6)] read_from_socket_demux_frames [OF assms(1,4,5)] by (simp add: some_data_def)

theorem readers_agree_witness:
  "exec_with_stdin (Inr 1) [7, 8, 9] (torn @ \<lparr>rd_read = Some ZeroReturn, rd_write = None\<rparr> # [])
    = bindR (read_from_socket_demux [Some [1, 0, 0, 0, 0, 0, 0, 2, 104, 105, 2], Some [0, 0, 0, 0, 0, 0, 1, 33]] False)
        (\<lambda>(out, err). Inr (case_option [] id out, case_option [] id err))"
  by (rule readers_agree [where fs = "[(STDOUT, [104, 105]), (STDERR, [33])]"])
    (simp_all add: torn_def live_def open_round_def last_round_def write_ok_def brings_def pack_def STDOUT_def STDERR_def)

section \<open>The writer\<close>

text \<open>
  What can happen to a handler: a call of \<open>write\<close>, a round of \<open>select\<close>, the announcement that
  nothing more will be written. The first arguments are what has been written so far, and
  whether the end has been announced; nothing is written after that.
\<close>

inductive handler_run :: "bytes \<Rightarrow> bool \<Rightarrow> handler \<Rightarrow> bool" where
  started: "handler_run [] False new_handler"
| written: "handler_run w False h \<Longrightarrow> handler_write cap str h = Inr h' \<Longrightarrow> handler_run (w @ str) False h'"
| waited: "handler_run w ended h \<Longrightarrow> select_step r h = Inr h' \<Longrightarrow> handler_run w ended h'"
| finished: "handler_run w False h \<Longrightarrow> handler_run w True (end_of_writing h)"

definition writer_inv :: "bytes \<Rightarrow> bool \<Rightarrow> handler \<Rightarrow> bool" where
  "writer_inv w ended h \<longleftrightarrow>
     hd_sent h @ hd_write_buffer h = w \<and> hd_want_write h = (hd_write_buffer h \<noteq> [])
     \<and> hd_end_of_writing h = (ended \<and> hd_write_buffer h \<noteq> [])
     \<and> hd_shut h = (if ended \<and> hd_write_buffer h = [] then 1 else 0)"

lemma process_writer: "process h = Inr t \<Longrightarrow> writer_of t = writer_of h"
proof -
  assume p: "process h = Inr t"
  then have "t = set_writer (writer_of h) t"
    using process_set_writer [of "writer_of h" h] by simp
  then show ?thesis by (metis writer_of_set)
qed

lemma read_step_writer: "read_step x h = Inr t \<Longrightarrow> writer_of t = writer_of h"
  by (auto simp: read_step_def writer_of_def dest!: process_writer split: if_splits received.splits)

lemma writer_inv_cong: "writer_of t = writer_of h \<Longrightarrow> writer_inv w ended t = writer_inv w ended h"
  by (simp add: writer_inv_def writer_of_def)

text \<open>Sending needs the invariant only as far as it speaks of the bytes; it restores the rest.\<close>

lemma write_step_inv:
  assumes "hd_sent h @ hd_write_buffer h = w" and "hd_write_buffer h = [] \<Longrightarrow> writer_inv w ended h"
    and "hd_write_buffer h \<noteq> [] \<Longrightarrow> hd_end_of_writing h = ended \<and> hd_shut h = 0"
    and "write_step cap h = Inr t"
  shows "writer_inv w ended t"
proof (cases "hd_write_buffer h = []")
  case False
  with assms(4) obtain c where c: "cap = Inr c" by (auto simp: write_step_def bindR_eq_Inr)
  have "hd_sent h @ take n (hd_write_buffer h) @ drop n (hd_write_buffer h) = w" for n
    using assms(1) by simp
  with assms(3,4) False show ?thesis
    by (auto simp: c write_step_def Let_def handle_end_of_writing_def writer_inv_def split: if_splits)
qed (use assms in \<open>simp add: write_step_def\<close>)

lemma write_step_inv': "writer_inv w ended h \<Longrightarrow> write_step cap h = Inr t \<Longrightarrow> writer_inv w ended t"
proof (rule write_step_inv)
  assume i: "writer_inv w ended h"
  show "hd_sent h @ hd_write_buffer h = w" using i unfolding writer_inv_def by blast
  show "writer_inv w ended h" by (rule i)
  assume "hd_write_buffer h \<noteq> []"
  with i show "hd_end_of_writing h = ended \<and> hd_shut h = 0" unfolding writer_inv_def by presburger
qed

lemma handler_write_inv:
  assumes "writer_inv w False h" "handler_write cap str h = Inr t"
  shows "writer_inv (w @ str) False t"
proof (cases "hd_write_buffer h = []")
  case True
  then have t: "write_step cap (h\<lparr>hd_write_buffer := str\<rparr>) = Inr t"
    using assms(2) by (simp add: handler_write_def Let_def)
  show ?thesis
    by (rule write_step_inv [OF _ _ _ t]) (use assms(1) True in \<open>simp_all add: writer_inv_def\<close>)
next
  case False
  with assms show ?thesis by (auto simp: handler_write_def writer_inv_def Let_def)
qed

lemma select_step_inv:
  assumes "writer_inv w ended h" "select_step r h = Inr t"
  shows "writer_inv w ended t"
proof -
  obtain u where u: "(case rd_read r of None \<Rightarrow> Inr h | Some x \<Rightarrow> read_step x h) = Inr u"
    and t: "(case rd_write r of None \<Rightarrow> Inr u | Some cap \<Rightarrow> if hd_want_write h then write_step cap u else Inr u) = Inr t"
    using assms(2) by (auto simp: select_step_def bindR_eq_Inr)
  have "writer_of u = writer_of h"
  proof (cases "rd_read r")
    case (Some x)
    with u have "read_step x h = Inr u" by simp
    then show ?thesis by (rule read_step_writer)
  qed (use u in simp)
  from writer_inv_cong [OF this] have "writer_inv w ended u" using assms(1) by blast
  moreover have "t = u \<or> (\<exists>cap. write_step cap u = Inr t)"
    using t by (cases "rd_write r") (auto split: if_splits)
  ultimately show ?thesis using write_step_inv' by blast
qed

text \<open>C29: What the other side receives is what was written, in order and without a gap: sent and
  waiting bytes are together all that was written. The handler asks to be told when it may write
  exactly as long as something waits. After the end of writing was announced the connection is
  shut down for writing once, and only when everything has been sent.\<close>

theorem writer_invariant:
  assumes "handler_run w ended h"
  shows "hd_sent h @ hd_write_buffer h = w \<and> hd_want_write h = (hd_write_buffer h \<noteq> [])
     \<and> hd_end_of_writing h = (ended \<and> hd_write_buffer h \<noteq> [])
     \<and> hd_shut h = (if ended \<and> hd_write_buffer h = [] then 1 else 0)"
proof -
  from assms have "writer_inv w ended h"
  proof (induction rule: handler_run.induct)
    case started
    show ?case by (simp add: writer_inv_def new_handler_def)
  next
    case (finished w h)
    then show ?case by (auto simp: writer_inv_def end_of_writing_def handle_end_of_writing_def)
  qed (blast intro: handler_write_inv select_step_inv)+
  then show ?thesis by (simp add: writer_inv_def)
qed

definition after_run :: handler where
  "after_run = new_handler\<lparr>hd_sent := [1, 2, 3], hd_shut := 1\<rparr>"

lemma after_run_run: "handler_run [1, 2, 3] True after_run"
proof -
  have "handler_run ([] @ [1, 2, 3]) False (new_handler\<lparr>hd_write_buffer := [2, 3], hd_sent := [1], hd_want_write := True\<rparr>)"
    by (rule handler_run.written [OF handler_run.started, where cap = "Inr 1"])
      (simp add: handler_write_def Let_def write_step_def handle_end_of_writing_def new_handler_def)
  from handler_run.finished [OF this] have
    "handler_run [1, 2, 3] True (new_handler\<lparr>hd_write_buffer := [2, 3], hd_sent := [1], hd_want_write := True, hd_end_of_writing := True\<rparr>)"
    by (simp add: end_of_writing_def handle_end_of_writing_def new_handler_def)
  then show ?thesis
    by (rule handler_run.waited [where r = "\<lparr>rd_read = Some NoData, rd_write = Some (Inr 5)\<rparr>"])
      (simp add: select_step_def read_step_def Let_def write_step_def handle_end_of_writing_def new_handler_def after_run_def)
qed

theorem writer_invariant_witness:
  "hd_sent after_run @ hd_write_buffer after_run = [1, 2, 3] \<and> hd_want_write after_run = (hd_write_buffer after_run \<noteq> [])
     \<and> hd_end_of_writing after_run = (True \<and> hd_write_buffer after_run \<noteq> [])
     \<and> hd_shut after_run = (if True \<and> hd_write_buffer after_run = [] then 1 else 0)"
  by (rule writer_invariant [OF after_run_run])

text \<open>
  Blocks that arrived before the callback was set cannot be delivered any more: setting the
  callback fails.
\<close>

theorem early_block_breaks_consume:
  "bindR (read_step (Data [1, 0, 0, 0, 0, 0, 0, 1, 65]) new_handler) (consume rs)
    = Inl (ValueError ''list.remove(x): x not in list'')"
proof -
  let ?h = "new_handler\<lparr>hd_block_buffer := [(Some 1, [65])], hd_stream := Some 1\<rparr>"
  have "read_step (Data [1, 0, 0, 0, 0, 0, 0, 1, 65]) new_handler = Inr ?h"
    by (simp add: read_step_def new_handler_def process_no_missing take_header_def unpack_def size_of_def
        process_step take_missing_def Let_def add_block_def)
  then show ?thesis
    by (simp add: consume_def end_of_writing_def handle_end_of_writing_def set_block_done_callback_def new_handler_def)
qed

end
