(* ===== verification/DockerWaiting.thy ===== *)
theory DockerWaiting
  imports DockerManagerSafety
begin

text \<open>
  The loops of the container module come to an end: the wait for a state of a container, by its
  time limit, and the attempts to stop a container that may have been paused.
\<close>

section \<open>Waiting ends\<close>

definition never_out_of_fuel :: "'a io \<Rightarrow> bool" where
  "never_out_of_fuel m \<longleftrightarrow> (\<forall>h. fst (m h) \<noteq> Inl OutOfFuel)"

lemma in_fuel_bind: "never_out_of_fuel m \<Longrightarrow> (\<And>x. never_out_of_fuel (f x)) \<Longrightarrow> never_out_of_fuel (bindI m f)"
  unfolding never_out_of_fuel_def bindI_def by (auto split: prod.split sum.split) (metis fst_conv)+

lemma in_fuel_simps [simp]: "never_out_of_fuel (retI x)" "never_out_of_fuel (raiseI e) \<longleftrightarrow> e \<noteq> OutOfFuel"
  by (auto simp: never_out_of_fuel_def run_simps)

text \<open>Neither the daemon nor the clock runs out of fuel: that is not theirs.\<close>

definition answers :: "world \<Rightarrow> bool" where
  "answers W \<longleftrightarrow> (\<forall>h n a. w_ext W h n a \<noteq> Inl OutOfFuel)"

lemma in_fuel_requests: "answers W \<Longrightarrow> never_out_of_fuel (get_container_by_id W i)" "answers W \<Longrightarrow> never_out_of_fuel (sleep_for W d)"
  unfolding get_container_by_id_def none_or_fail_def GET_def sleep_for_def fail_client_def never_out_of_fuel_def answers_def
  by (auto simp: ext_def tryI_def bindI_def run_simps is_Exception_def split: sum.split exn.split prod.split)

lemma py_get_Inl: "py_get v k d = Inl e \<Longrightarrow> e = AttributeError"
  by (auto simp: py_get_def split: pyval.splits)

lemma status_of_Inl: "status_of b r = Inl e \<Longrightarrow> e = AttributeError"
  unfolding status_of_def by (cases b) (auto simp: bindR_eq_Inl Let_def simp del: truthy.simps dest: py_get_Inl)

lemma judge_in_fuel: "judge w i r \<noteq> Failed OutOfFuel"
  unfolding judge_def fail_with_container_def fail_msg_def
  by (cases "status_of (wf_health w) r") (auto split: if_splits dest: status_of_Inl)

lemma in_fuel_poll:
  assumes "answers W"
    and "\<not> timed_out (wf_max w) delay tw \<Longrightarrow>
      never_out_of_fuel (wait_polls W w i fuel (min (clip_delay (wf_max w) delay tw * 11 / 10) 10) (tw + clip_delay (wf_max w) delay tw))"
  shows "never_out_of_fuel (wait_polls W w i (Suc fuel) delay tw)"
  unfolding wait_polls.simps
proof (rule in_fuel_bind [OF in_fuel_requests(1) [OF assms(1)]])
  fix r
  show "never_out_of_fuel (case judge w i r of Done r \<Rightarrow> retI r | Failed e \<Rightarrow> raiseI e | Again \<Rightarrow>
      if timed_out (wf_max w) delay tw then
        raiseI (fail_with_container (''Timeout exceeded while waiting for container '' @ [CHR 0x22] @ py_str i @ [CHR 0x22]) r)
      else let d = clip_delay (wf_max w) delay tw in
        bindI (sleep_for W d) (\<lambda>_. wait_polls W w i fuel (min (d * 11 / 10) 10) (tw + d)))"
    using judge_in_fuel [of w i r] assms
    by (auto split: poll.split simp: fail_with_container_def Let_def intro!: in_fuel_bind in_fuel_requests(2))
qed

lemma in_fuel_late:
  assumes "answers W" "wf_max w = Some mx"
  shows "never_out_of_fuel (wait_polls W w i (Suc (Suc fuel)) delay mx)"
proof (rule in_fuel_poll [OF assms(1)])
  assume "\<not> timed_out (wf_max w) delay mx"
  then have "clip_delay (wf_max w) delay mx = 0" by (auto simp: timed_out_def clip_delay_def assms(2))
  then show "never_out_of_fuel (wait_polls W w i (Suc fuel) (min (clip_delay (wf_max w) delay mx * 11 / 10) 10)
      (mx + clip_delay (wf_max w) delay mx))"
    by (intro in_fuel_poll [OF assms(1)]) (simp add: timed_out_def assms(2))
qed

lemma in_fuel_early:
  assumes "answers W" "wf_max w = Some mx" "1 \<le> delay" "nat \<lceil>mx - tw\<rceil> + 3 \<le> fuel"
  shows "never_out_of_fuel (wait_polls W w i fuel delay tw)"
  using assms(3,4)
proof (induction fuel arbitrary: delay tw)
  case (Suc fuel)
  show ?case
  proof (rule in_fuel_poll [OF assms(1)])
    assume on: "\<not> timed_out (wf_max w) delay tw"
    show "never_out_of_fuel (wait_polls W w i fuel (min (clip_delay (wf_max w) delay tw * 11 / 10) 10) (tw + clip_delay (wf_max w) delay tw))"
    proof (cases "tw + delay > mx")
      case True
      obtain k where "fuel = Suc (Suc k)" using Suc.prems(2) by (metis Suc_le_D add_leD2 numeral_3_eq_3 Suc_le_mono)
      with True show ?thesis using in_fuel_late [OF assms(1,2)] by (simp add: clip_delay_def assms(2))
    next
      case False
      have "\<lceil>mx - (tw + delay)\<rceil> \<le> \<lceil>mx - tw - 1\<rceil>" by (rule ceiling_mono) (use Suc.prems(1) in simp)
      then have "\<lceil>mx - (tw + delay)\<rceil> \<le> \<lceil>mx - tw\<rceil> - 1" unfolding ceiling_diff_one .
      moreover have "1 \<le> mx - tw" using False Suc.prems(1) by simp
      then have "1 \<le> \<lceil>mx - tw\<rceil>" by (simp add: le_ceiling_iff)
      ultimately have "nat \<lceil>mx - (tw + delay)\<rceil> + 3 \<le> fuel" using Suc.prems(2) by linarith
      then show ?thesis using False Suc.prems(1) by (simp add: clip_delay_def assms(2) Suc.IH)
    qed
  qed
qed simp

text \<open>C26: Waiting for a container with a time limit ends: with a limit of \<open>mx\<close> seconds the loop is over after at most
  \<open>mx + 3\<close> polls, whatever the daemon reports, although the delay of the next poll is clipped to what is left of the
  limit and the limit itself is tested only against the time waited so far.\<close>

theorem container_wait_ends:
  assumes "answers W" "wf_max w = Some mx" "nat \<lceil>mx\<rceil> + 3 \<le> w_fuel W"
  shows "fst (wait_for_state W w i h) \<noteq> Inl OutOfFuel"
  using in_fuel_early [OF assms(1,2), of 1 0 "w_fuel W" i] assms(3)
  unfolding wait_for_state_def never_out_of_fuel_def by simp

text \<open>The wait for a removal, with a limit of three seconds.\<close>

theorem container_wait_ends_witness:
  "fst (wait_for_state one_container (wait_removed (sample_task False ''absent''\<lparr>tk_removal_wait_timeout := Some 3\<rparr>)) (PStr ''c1'') []) \<noteq> Inl OutOfFuel"
proof (rule container_wait_ends)
  have "\<lceil>3 :: rat\<rceil> = 3" by (rule ceiling_numeral)
  then show "nat \<lceil>3 :: rat\<rceil> + 3 \<le> w_fuel one_container" by (simp add: one_container_def sample_docker_def)
qed (simp_all add: answers_def one_container_def sample_docker_def wait_removed_def)

section \<open>Stopping\<close>

abbreviation stop_request :: "pyval \<Rightarrow> dict \<Rightarrow> pyval list" where
  "stop_request i ps \<equiv> [PStr ''/containers/{0}/stop'', i, PDict ps, PDict []]"

lemma unpause_again_once: "\<exists>e. snd (unpause_again W i h) = h @ [e]"
  unfolding unpause_again_def unpause_container_def POST_def
  by (auto simp: bindI_def tryI_def ext_def run_simps split: sum.split)

lemma stop_tries_accepted:
  "stop_tries W i ps k h = (Inr (), h') \<Longrightarrow>
     \<exists>es x. h' = h @ es @ [Ext ''POST'' (stop_request i ps)] \<and> length es \<le> 2 * k \<and> w_ext W (h @ es) ''POST'' (stop_request i ps) = Inr x"
proof (induction k arbitrary: h)
  case 0
  then show ?case
    by (subst (asm) stop_tries.simps)
      (auto simp: bind_Inr_iff attemptI_def POST_def ext_def run_simps split: sum.splits if_splits)
next
  case (Suc k)
  let ?e = "Ext ''POST'' (stop_request i ps)"
  show ?case
  proof (cases "w_ext W h ''POST'' (stop_request i ps)")
    case (Inr x)
    with Suc.prems have "h' = h @ [?e]"
      by (subst (asm) stop_tries.simps) (auto simp: bind_Inr_iff attemptI_def POST_def ext_def run_simps)
    with Inr show ?thesis by (intro exI [of _ "[]"]) simp
  next
    case (Inl e)
    with Suc.prems obtain u h1 where u: "unpause_again W i (h @ [?e]) = (Inr u, h1)" and s: "stop_tries W i ps k h1 = (Inr (), h')"
      by (subst (asm) stop_tries.simps) (auto simp: bind_Inr_iff attemptI_def POST_def ext_def run_simps split: if_splits)
    from unpause_again_once [of W i "h @ [?e]"] u obtain e' where "h1 = h @ [?e, e']" by auto
    with Suc.IH [OF s] obtain es x where "h' = h @ (?e # e' # es) @ [?e]" "length es \<le> 2 * k"
      "w_ext W (h @ ?e # e' # es) ''POST'' (stop_request i ps) = Inr x" by auto
    then show ?thesis by (intro exI [of _ "?e # e' # es"]) auto
  qed
qed

text \<open>C34: When stopping a container returns, the last thing that happened is a request to stop it which the daemon
  accepted, and before it came at most six more: three refused ones and three to unpause the container.\<close>

theorem stop_was_accepted:
  assumes "stop_container W i v h = (Inr (), h')"
  shows "\<exists>es ps x. h' = h @ es @ [Ext ''POST'' (stop_request i ps)] \<and> length es \<le> 6
     \<and> w_ext W (h @ es) ''POST'' (stop_request i ps) = Inr x \<and> dget ps ''t'' = (if truthy v then v else PNone)"
  using stop_tries_accepted [OF assms [unfolded stop_container_def]]
  by (elim exE conjE) (intro exI conjI, assumption, simp, assumption, simp add: dget_def)

text \<open>A paused container, which can be stopped once it has been unpaused.\<close>

definition paused_container :: world where
  "paused_container = sample_docker\<lparr>w_ext := (\<lambda>h name args.
     if args \<noteq> stop_request (PStr ''c1'') [] \<or> length h \<ge> 2 then Inr PNone
     else Inl (APIError ''Unpause the container before stopping or killing''))\<rparr>"

theorem stop_was_accepted_witness:
  "\<exists>h es ps x. stop_container paused_container (PStr ''c1'') PNone [] = (Inr (), h) \<and> length h = 3
     \<and> h = [] @ es @ [Ext ''POST'' (stop_request (PStr ''c1'') ps)] \<and> length es \<le> 6
     \<and> w_ext paused_container ([] @ es) ''POST'' (stop_request (PStr ''c1'') ps) = Inr x \<and> dget ps ''t'' = PNone"
proof -
  have "case stop_container paused_container (PStr ''c1'') PNone [] of (Inr u, h) \<Rightarrow> length h = 3 | _ \<Rightarrow> False" by code_simp
  then obtain h where h: "stop_container paused_container (PStr ''c1'') PNone [] = (Inr (), h)" "length h = 3"
    by (auto split: prod.splits sum.splits)
  from stop_was_accepted [OF h(1)] h show ?thesis by (elim exE conjE) (intro exI conjI, simp_all)
qed

end
