(* ===== verification/K8sApply.thy ===== *)
theory K8sApply
  imports PyJson
begin

text \<open>
  The client-side three-way merge of the \<open>kubernetes.core\<close> collection
  (\<open>plugins/module_utils/apply.py\<close>): how the patch that takes the live object to the
  desired one is computed from the last applied, the live and the desired configuration,
  and how two objects are compared for the module's diff.

  \<open>dict_merge\<close> is Ansible's, not the repository's: every definition that calls it takes it
  as its argument \<open>dm\<close>, and the locale \<open>dict_merging\<close> states what Ansible documents of it.
\<close>

section \<open>The strategic merge keys\<close>

definition LAST_APPLIED_CONFIG_ANNOTATION :: string where
  "LAST_APPLIED_CONFIG_ANNOTATION = ''kubectl.kubernetes.io/last-applied-configuration''"

definition POD_SPEC_SUFFIXES :: "(string \<times> string) list" where
  "POD_SPEC_SUFFIXES = [
     (''containers'', ''name''),
     (''initContainers'', ''name''),
     (''ephemeralContainers'', ''name''),
     (''volumes'', ''name''),
     (''imagePullSecrets'', ''name''),
     (''containers.volumeMounts'', ''mountPath''),
     (''containers.volumeDevices'', ''devicePath''),
     (''containers.env'', ''name''),
     (''containers.ports'', ''containerPort''),
     (''initContainers.volumeMounts'', ''mountPath''),
     (''initContainers.volumeDevices'', ''devicePath''),
     (''initContainers.env'', ''name''),
     (''initContainers.ports'', ''containerPort''),
     (''ephemeralContainers.volumeMounts'', ''mountPath''),
     (''ephemeralContainers.volumeDevices'', ''devicePath''),
     (''ephemeralContainers.env'', ''name''),
     (''ephemeralContainers.ports'', ''containerPort'')]"

definition POD_SPEC_PREFIXES :: "string list" where
  "POD_SPEC_PREFIXES = [
     ''Pod.spec'',
     ''Deployment.spec.template.spec'',
     ''DaemonSet.spec.template.spec'',
     ''StatefulSet.spec.template.spec'',
     ''Job.spec.template.spec'',
     ''Cronjob.spec.jobTemplate.spec.template.spec'']"

definition STRATEGIC_MERGE_PATCH_KEYS :: "(string \<times> string) list" where
  "STRATEGIC_MERGE_PATCH_KEYS = dict_update
     [(''Service.spec.ports'', ''port''),
      (''ServiceAccount.secrets'', ''name''),
      (''ValidatingWebhookConfiguration.webhooks'', ''name''),
      (''MutatingWebhookConfiguration.webhooks'', ''name'')]
     (concat (map (\<lambda>prefix. map (\<lambda>(key, v). (prefix @ ''.'' @ key, v)) POD_SPEC_SUFFIXES)
        POD_SPEC_PREFIXES))"

definition merge_key :: "string \<Rightarrow> string option" where
  "merge_key position = map_of STRATEGIC_MERGE_PATCH_KEYS position"

lemma merge_key_ending:
  assumes "merge_key position = Some v"
  shows "take 2 (rev position) \<in> {''sr'', ''se'', ''st'', ''vn'', ''sk''}"
proof -
  let ?E = "\<lambda>s. take 2 (rev s) \<in> {''sr'', ''se'', ''st'', ''vn'', ''sk''}"
  have suffixes: "\<forall>(key, v) \<in> set POD_SPEC_SUFFIXES. length key \<ge> 2 \<and> ?E key"
    by (simp add: POD_SPEC_SUFFIXES_def)
  have "(\<exists>(key, v) \<in> set POD_SPEC_SUFFIXES. \<exists>prefix. position = prefix @ ''.'' @ key) \<or>
    position \<in> {''Service.spec.ports'', ''ServiceAccount.secrets'',
      ''ValidatingWebhookConfiguration.webhooks'', ''MutatingWebhookConfiguration.webhooks''}"
    using assms
    by (fastforce simp: merge_key_def STRATEGIC_MERGE_PATCH_KEYS_def
        dest!: map_of_SomeD set_dict_update)
  then show ?thesis
  proof
    assume "\<exists>(key, v) \<in> set POD_SPEC_SUFFIXES. \<exists>prefix. position = prefix @ ''.'' @ key"
    then obtain key prefix where "length key \<ge> 2" "?E key" "position = prefix @ ''.'' @ key"
      using suffixes by blast
    then show ?thesis by simp
  qed (auto simp: numeral_2_eq_2)
qed

section \<open>Dictionaries keyed by a value of the item\<close>

definition kt_get :: "(pyval \<times> pyval) list \<Rightarrow> pyval \<Rightarrow> pyval option" where
  "kt_get t k = map_option snd (find (\<lambda>(k', _). py_eq k' k) t)"

fun kt_set :: "pyval \<Rightarrow> pyval \<Rightarrow> (pyval \<times> pyval) list \<Rightarrow> (pyval \<times> pyval) list" where
  "kt_set k v [] = [(k, v)]"
| "kt_set k v ((k', w) # t) = (if py_eq k' k then (k', v) # t else (k', w) # kt_set k v t)"

definition list_to_dict :: "pyval \<Rightarrow> string \<Rightarrow> string \<Rightarrow> (pyval \<times> pyval) list res" where
  "list_to_dict lst key position = bindR (py_iter lst) (foldR (\<lambda>result item.
     (case py_getitem item key of
        Inl (KeyError _) \<Rightarrow> Inl (ApplyException
          (''Expected key '' @ [CHR 0x27] @ key @ [CHR 0x27] @ '' not found in position '' @ position))
      | Inl e \<Rightarrow> Inl e
      | Inr k \<Rightarrow> (if hashable k then Inr (kt_set k item result) else Inl TypeError))) [])"

lemma kt_set_values: "p \<in> set (kt_set k v t) \<Longrightarrow> snd p = v \<or> p \<in> set t"
  by (induction t) (auto split: if_splits)

lemma list_to_dict_values:
  assumes "list_to_dict (PList xs) key position = Inr t" and "(k, v) \<in> set t"
  shows "v \<in> set xs"
proof -
  let ?f = "\<lambda>result item. (case py_getitem item key of
        Inl (KeyError _) \<Rightarrow> Inl (ApplyException
          (''Expected key '' @ [CHR 0x27] @ key @ [CHR 0x27] @ '' not found in position '' @ position))
      | Inl e \<Rightarrow> Inl e
      | Inr k \<Rightarrow> (if hashable k then Inr (kt_set k item result) else Inl TypeError))"
  have "foldR ?f [] xs = Inr t"
    using assms(1) by (simp add: list_to_dict_def py_iter_def)
  then have "\<forall>p \<in> set t. snd p \<in> set xs"
    by (rule foldR_invariant)
      (auto dest!: kt_set_values split: sum.splits exn.splits if_splits)
  with assms(2) show ?thesis by force
qed

section \<open>The three-way merge\<close>

text \<open>What disappeared from the last applied configuration: \<open>None\<close> marks a deletion.\<close>

fun get_deletions :: "dict \<Rightarrow> dict \<Rightarrow> dict" where
  "get_deletions last_applied desired = concat (map (\<lambda>(k, last_applied_value).
     (case (last_applied_value, dget desired k) of
        (PDict l, PDict d) \<Rightarrow> (let p = get_deletions l d in if p \<noteq> [] then [(k, PDict p)] else [])
      | (_, desired_value) \<Rightarrow>
          (if \<not> py_eq last_applied_value desired_value then [(k, desired_value)] else [])))
     last_applied)"

declare get_deletions.simps [simp del]

text \<open>\<open>position or desired["kind"]\<close>; a position is only ever formatted and tested.\<close>

definition merge_position :: "string option \<Rightarrow> dict \<Rightarrow> string option res" where
  "merge_position position desired = (case position of
       Some p \<Rightarrow> (if p \<noteq> [] then Inr (Some p)
          else bindR (py_getitem (PDict desired) ''kind'') (\<lambda>k. Inr (if truthy k then Some (py_str k) else None)))
     | None \<Rightarrow> bindR (py_getitem (PDict desired) ''kind'') (\<lambda>k. Inr (if truthy k then Some (py_str k) else None)))"

definition sub_position :: "string option \<Rightarrow> string \<Rightarrow> string res" where
  "sub_position position k = (case position of
       Some p \<Rightarrow> Inr (p @ ''.'' @ k)
     | None \<Rightarrow> Inl UnboundLocalError)"

abbreviation dict_size :: "dict \<Rightarrow> nat" where
  "dict_size d \<equiv> size_list (\<lambda>x. Suc (size (snd x))) d"

lemma dict_size_entry: "(k, v) \<in> set d \<Longrightarrow> size v < dict_size d"
  by (induction d) auto

lemma size_elem: "x \<in> set xs \<Longrightarrow> size (x::pyval) < size_list size xs"
  by (induction xs) auto

function (sequential) get_delta ::
    "(dict \<Rightarrow> dict \<Rightarrow> dict) \<Rightarrow> pyval \<Rightarrow> pyval \<Rightarrow> dict \<Rightarrow> string option \<Rightarrow> dict res"
  and list_merge ::
    "(dict \<Rightarrow> dict \<Rightarrow> dict) \<Rightarrow> pyval \<Rightarrow> pyval \<Rightarrow> pyval list \<Rightarrow> string \<Rightarrow> pyval list res"
  and merge ::
    "(dict \<Rightarrow> dict \<Rightarrow> dict) \<Rightarrow> dict \<Rightarrow> dict \<Rightarrow> dict \<Rightarrow> string option \<Rightarrow> dict res" where
  "get_delta dm last_applied actual desired position =
     bindR (mapR (\<lambda>(k, desired_value).
       bindR (py_get actual k PNone) (\<lambda>actual_value.
         if actual_value = PNone then Inr [(k, desired_value)]
         else (case desired_value of
             PDict d \<Rightarrow>
               bindR (py_get last_applied k (PDict [])) (\<lambda>l.
               bindR (sub_position position k) (\<lambda>this_position.
               bindR (get_delta dm l actual_value d (Some this_position)) (\<lambda>p.
                 Inr (if p \<noteq> [] then [(k, PDict p)] else []))))
           | PList xs \<Rightarrow>
               bindR (py_get last_applied k (PList [])) (\<lambda>l.
               bindR (sub_position position k) (\<lambda>this_position.
               bindR (list_merge dm l actual_value xs this_position) (\<lambda>p.
                 Inr (if p \<noteq> [] then [(k, PList (filter (\<lambda>item. item \<noteq> PNone) p))] else []))))
           | _ \<Rightarrow> Inr (if \<not> py_eq actual_value desired_value then [(k, desired_value)] else []))))
       desired) (\<lambda>entries. Inr (concat entries))"
| "list_merge dm last_applied actual desired position =
     (case merge_key position of
        Some patch_merge_key \<Rightarrow>
          (if truthy last_applied then
             bindR (list_to_dict last_applied patch_merge_key position) (\<lambda>last_applied_dict.
             bindR (list_to_dict actual patch_merge_key position) (\<lambda>actual_dict.
             bindR (list_to_dict (PList desired) patch_merge_key position) (\<lambda>desired_dict.
             bindR (mapR (\<lambda>(key, item).
                (case (kt_get last_applied_dict key, kt_get actual_dict key) of
                   (Some l, Some a) \<Rightarrow>
                     (case (l, item, a) of
                        (PDict l', PDict d', PDict a') \<Rightarrow>
                          bindR (merge dm l' d' a' (Some position)) (\<lambda>patch.
                            Inr (PDict (dm a' patch)))
                      | _ \<Rightarrow> Inl AttributeError)
                 | _ \<Rightarrow> Inr item)) desired_dict) (\<lambda>result.
               Inr (result @ map snd (filter (\<lambda>(key, item).
                  kt_get desired_dict key = None \<and> kt_get last_applied_dict key = None) actual_dict))))))
           else Inr desired)
      | None \<Rightarrow> Inr desired)"
| "merge dm last_applied desired actual position =
     (let deletions = get_deletions last_applied desired in
      bindR (merge_position position desired) (\<lambda>position'.
      bindR (get_delta dm (PDict last_applied) (PDict actual) desired position') (\<lambda>delta.
        Inr (dm deletions delta))))"
  by pat_completeness auto
termination
proof (relation "measure (\<lambda>x. case x of
      Inl (dm, la, ac, de, pos) \<Rightarrow> 2 * dict_size de
    | Inr (Inl (dm, la, ac, de, pos)) \<Rightarrow> 2 * size_list size de
    | Inr (Inr (dm, la, de, ac, pos)) \<Rightarrow> Suc (2 * dict_size de))", goal_cases)
  case (2 dm la ac de pos p k v av d l q)
  then show ?case using dict_size_entry [of k v de] by auto
next
  case (3 dm la ac de pos p k v av xs l q)
  then show ?case using dict_size_entry [of k v de] by auto
next
  case (4 dm la ac de pos pk lad acd ded p k it)
  then show ?case using list_to_dict_values [of de pk pos ded] size_elem by fastforce
qed auto

declare get_delta.simps [simp del] list_merge.simps [simp del] merge.simps [simp del]

section \<open>Comparing two objects\<close>

text \<open>
  Python iterates over a set of keys in an unspecified order; the model takes the order of
  the first operand.
\<close>

definition diff_position :: "dict \<Rightarrow> dict \<Rightarrow> string option \<Rightarrow> string option" where
  "diff_position dict1 dict2 position = (case position of
      Some p \<Rightarrow> (if p \<noteq> [] then Some p
        else if has_key dict1 ''kind'' \<and> py_eq (dget dict1 ''kind'') (dget dict2 ''kind'')
             \<and> truthy (dget dict1 ''kind'') then Some (py_str (dget dict1 ''kind'')) else None)
    | None \<Rightarrow> (if has_key dict1 ''kind'' \<and> py_eq (dget dict1 ''kind'') (dget dict2 ''kind'')
             \<and> truthy (dget dict1 ''kind'') then Some (py_str (dget dict1 ''kind'')) else None))"

function (sequential) recursive_list_diff ::
    "pyval list \<Rightarrow> pyval list \<Rightarrow> string \<Rightarrow> (pyval list \<times> pyval list) option res"
  and recursive_diff :: "dict \<Rightarrow> dict \<Rightarrow> string option \<Rightarrow> (dict \<times> dict) option res" where
  "recursive_list_diff list1 list2 position =
     (case merge_key position of
        Some patch_merge_key \<Rightarrow>
          bindR (list_to_dict (PList list1) patch_merge_key position) (\<lambda>dict1.
          bindR (list_to_dict (PList list2) patch_merge_key position) (\<lambda>dict2.
          bindR (mapR (\<lambda>(key, item).
             (case kt_get dict2 key of
                None \<Rightarrow> Inr []
              | Some item2 \<Rightarrow>
                  (case (item, item2) of
                     (PDict d1, PDict d2) \<Rightarrow>
                       bindR (recursive_diff d1 d2 (Some position)) (\<lambda>diff.
                         Inr (case diff of
                           None \<Rightarrow> []
                         | Some (l, r) \<Rightarrow>
                             [(PDict (AList.update patch_merge_key (dget d1 patch_merge_key) l),
                               PDict (AList.update patch_merge_key (dget d2 patch_merge_key) r))]))
                   | _ \<Rightarrow> Inl AttributeError))) dict1) (\<lambda>common.
            let result0 = map snd (filter (\<lambda>(key, item). kt_get dict2 key = None) dict1)
                  @ map fst (concat common);
                result1 = map snd (filter (\<lambda>(key, item). kt_get dict1 key = None) dict2)
                  @ map snd (concat common)
            in Inr (if result0 \<noteq> [] \<or> result1 \<noteq> [] then Some (result0, result1) else None))))
      | None \<Rightarrow> Inr (if \<not> py_eq (PList list1) (PList list2) then Some (list1, list2) else None))"
| "recursive_diff dict1 dict2 position =
     (let position' = diff_position dict1 dict2 position;
          left = filter (\<lambda>(k, v). \<not> has_key dict2 k) dict1;
          right = filter (\<lambda>(k, v). \<not> has_key dict1 k) dict2
      in bindR (mapR (\<lambda>(k, v1).
           (case map_of dict2 k of
              None \<Rightarrow> Inr []
            | Some v2 \<Rightarrow>
                (case (v1, v2) of
                   (PDict d1, PDict d2) \<Rightarrow>
                     bindR (sub_position position' k) (\<lambda>this_position.
                     bindR (recursive_diff d1 d2 (Some this_position)) (\<lambda>result.
                       Inr (case result of None \<Rightarrow> [] | Some (l, r) \<Rightarrow> [(k, PDict l, PDict r)])))
                 | (PList l1, PList l2) \<Rightarrow>
                     bindR (sub_position position' k) (\<lambda>this_position.
                     bindR (recursive_list_diff l1 l2 this_position) (\<lambda>result.
                       Inr (case result of None \<Rightarrow> [] | Some (l, r) \<Rightarrow> [(k, PList l, PList r)])))
                 | _ \<Rightarrow> Inr (if \<not> py_eq v1 v2 then [(k, v1, v2)] else [])))) dict1) (\<lambda>common.
         let left' = left @ map (\<lambda>(k, l, r). (k, l)) (concat common);
             right' = right @ map (\<lambda>(k, l, r). (k, r)) (concat common)
         in Inr (if left' \<noteq> [] \<or> right' \<noteq> [] then Some (left', right') else None)))"
  by pat_completeness auto
termination
proof (relation "measure (\<lambda>x. case x of
      Inl (l1, l2, pos) \<Rightarrow> size_list size l1
    | Inr (d1, d2, pos) \<Rightarrow> dict_size d1)", goal_cases)
  case (2 l1 l2 pos pk d1 d2 p k it it2 q x1 x2)
  then show ?case using list_to_dict_values [of l1 pk pos d1] size_elem by fastforce
next
  case (3 d1 d2 pos pos' l r p k v1 v2 q x y tp)
  then show ?case using dict_size_entry [of k v1 d1] by auto
next
  case (4 d1 d2 pos pos' l r p k v1 v2 q x y tp)
  then show ?case using dict_size_entry [of k v1 d1] by auto
qed auto

declare recursive_list_diff.simps [simp del] recursive_diff.simps [simp del]

section \<open>The patch for an object\<close>

definition annotate :: "dict \<Rightarrow> dict" where
  "annotate desired = [(''metadata'', PDict [(''annotations'', PDict
     [(LAST_APPLIED_CONFIG_ANNOTATION, PStr (dumps True (PDict desired)))])])]"

definition apply_patch :: "(dict \<Rightarrow> dict \<Rightarrow> dict) \<Rightarrow> dict \<Rightarrow> dict \<Rightarrow> (dict \<times> dict) res" where
  "apply_patch dm actual desired =
     bindR (py_getitem (PDict actual) ''metadata'') (\<lambda>metadata.
     bindR (py_get metadata ''annotations'' (PDict [])) (\<lambda>annotations.
     bindR (py_get annotations LAST_APPLIED_CONFIG_ANNOTATION PNone) (\<lambda>last_applied.
       if truthy last_applied then
         bindR (case last_applied of PStr s \<Rightarrow> loads s | _ \<Rightarrow> Inl TypeError) (\<lambda>la.
         case la of
           PDict l \<Rightarrow>
             bindR (merge dm (dm l (annotate l)) (dm desired (annotate desired)) actual None) (\<lambda>patch.
               Inr (actual, if patch \<noteq> [] then patch else actual))
         | _ \<Rightarrow> Inl TypeError)
       else Inr (actual, dm desired (annotate desired)))))"

end
