(* ===== verification/K8sDiff.thy ===== *)
theory K8sDiff
  imports K8sApply
begin

text \<open>
  The comparison of two objects that decides whether a module reports a change
  (\<open>recursive_diff\<close>): it succeeds, it names exactly the fields that differ, and it returns
  nothing exactly when the two objects are equal.
\<close>

definition differs :: "dict \<Rightarrow> dict \<Rightarrow> string \<Rightarrow> bool" where
  "differs d1 d2 k \<longleftrightarrow> \<not> rel_option py_eq (map_of d1 k) (map_of d2 k)"

definition diff_keys :: "(dict \<times> dict) option \<Rightarrow> string set" where
  "diff_keys r = (case r of None \<Rightarrow> {} | Some (l, r') \<Rightarrow> fst ` set l \<union> fst ` set r')"

text \<open>No list sits at a strategic merge key (where the order of items does not count).\<close>

fun unkeyed :: "string \<Rightarrow> dict \<Rightarrow> bool" where
  "unkeyed position d = list_all (\<lambda>(k, v).
     (case v of
        PDict d' \<Rightarrow> unkeyed (position @ ''.'' @ k) d'
      | PList xs \<Rightarrow> merge_key (position @ ''.'' @ k) = None
      | _ \<Rightarrow> True)) d"

declare unkeyed.simps [simp del]

definition common_item :: "dict \<Rightarrow> string option \<Rightarrow> string \<Rightarrow> pyval \<Rightarrow> (string \<times> pyval \<times> pyval) list res" where
  "common_item dict2 position k v1 = (case map_of dict2 k of
      None \<Rightarrow> Inr []
    | Some v2 \<Rightarrow>
        (case (v1, v2) of
           (PDict d1, PDict d2) \<Rightarrow>
             bindR (sub_position position k) (\<lambda>this_position.
             bindR (recursive_diff d1 d2 (Some this_position)) (\<lambda>result.
               Inr (case result of None \<Rightarrow> [] | Some (l, r) \<Rightarrow> [(k, PDict l, PDict r)])))
         | (PList l1, PList l2) \<Rightarrow>
             bindR (sub_position position k) (\<lambda>this_position.
             bindR (recursive_list_diff l1 l2 this_position) (\<lambda>result.
               Inr (case result of None \<Rightarrow> [] | Some (l, r) \<Rightarrow> [(k, PList l, PList r)])))
         | _ \<Rightarrow> Inr (if \<not> py_eq v1 v2 then [(k, v1, v2)] else [])))"

lemma recursive_diff_items:
  "recursive_diff dict1 dict2 position =
     bindR (mapR (\<lambda>(k, v1). common_item dict2 (diff_position dict1 dict2 position) k v1) dict1) (\<lambda>common.
       let l = filter (\<lambda>(k, v). \<not> has_key dict2 k) dict1 @ map (\<lambda>(k, l, r). (k, l)) (concat common);
           r = filter (\<lambda>(k, v). \<not> has_key dict1 k) dict2 @ map (\<lambda>(k, l, r). (k, r)) (concat common)
       in Inr (if l \<noteq> [] \<or> r \<noteq> [] then Some (l, r) else None))"
  by (subst recursive_diff.simps) (simp add: common_item_def [abs_def] Let_def)

lemma differs_iff_py_eq:
  assumes "wf_dict d1" "wf_dict d2"
  shows "{k. differs d1 d2 k} = {} \<longleftrightarrow> py_eq (PDict d1) (PDict d2)"
  using py_eq_dict [of d1 d2] assms by (auto simp: differs_def simp del: py_eq.simps)

lemma diff_keys_if: "diff_keys (if l \<noteq> [] \<or> r \<noteq> [] then Some (l, r) else None) = fst ` set l \<union> fst ` set r"
  by (auto simp: diff_keys_def)

lemma diff_keys_if_empty:
  "Inr (if l \<noteq> [] \<or> r' \<noteq> [] then Some (l, r') else None) = Inr r \<Longrightarrow> diff_keys r = {} \<longleftrightarrow> r = None"
  by (auto simp: diff_keys_def split: if_splits)

lemma diff_keys_empty: "recursive_diff d1 d2 p = Inr r \<Longrightarrow> diff_keys r = {} \<longleftrightarrow> r = None"
  unfolding recursive_diff_items bindR_eq_Inr Let_def by (elim exE conjE) (rule diff_keys_if_empty)

lemma named_fields:
  assumes "fst ` set common = {k. has_key d1 k \<and> has_key d2 k \<and> differs d1 d2 k}"
  shows "fst ` set (filter (\<lambda>(k, v). \<not> has_key d2 k) d1 @ map (\<lambda>(k, l, r). (k, l)) common)
    \<union> fst ` set (filter (\<lambda>(k, v). \<not> has_key d1 k) d2 @ map (\<lambda>(k, l, r). (k, r)) common) = {k. differs d1 d2 k}"
proof -
  have keys: "fst ` set (filter (\<lambda>(k, v). \<not> has_key b k) a) = {k. has_key a k \<and> \<not> has_key b k}" for a b :: dict
    by (force simp: has_key_def map_of_eq_None_iff dest: map_of_SomeD)
  have proj: "fst ` set (map (\<lambda>(k, l, r). (k, l)) xs) = fst ` set xs"
    "fst ` set (map (\<lambda>(k, l, r). (k, r)) xs) = fst ` set xs" for xs :: "(string \<times> pyval \<times> pyval) list"
    by (force simp: image_iff)+
  show ?thesis
    unfolding set_append image_Un proj keys assms
    by (auto simp: differs_def has_key_def rel_option_iff split: option.splits)
qed

lemma recursive_diff_keys:
  assumes "wf_dict d1" "wf_dict d2" "diff_position d1 d2 p = Some position" "unkeyed position d1"
  shows "\<exists>r. recursive_diff d1 d2 p = Inr r \<and> diff_keys r = {k. differs d1 d2 k}"
  using assms
proof (induction "dict_size d1" arbitrary: d1 d2 p position rule: less_induct)
  case less
  have item: "\<exists>e. common_item d2 (Some position) k v1 = Inr e
      \<and> fst ` set e = (if has_key d2 k \<and> differs d1 d2 k then {k} else {})"
    if kv: "(k, v1) \<in> set d1" for k v1
  proof (cases "map_of d2 k")
    case (Some v2)
    have v1: "map_of d1 k = Some v1" using kv less.prems(1) by simp
    have dif: "has_key d2 k" "differs d1 d2 k \<longleftrightarrow> \<not> py_eq v1 v2"
      using Some v1 by (simp_all add: has_key_def differs_def)
    have wf: "wf_py v1" "wf_py v2" using v1 Some less.prems(1,2) wf_dict_lookup by blast+
    show ?thesis
    proof (cases "(\<exists>x y. v1 = PDict x \<and> v2 = PDict y) \<or> (\<exists>x y. v1 = PList x \<and> v2 = PList y)")
      case True
      then show ?thesis
      proof
        assume "\<exists>x y. v1 = PDict x \<and> v2 = PDict y"
        then obtain x y where xy: "v1 = PDict x" "v2 = PDict y" by blast
        have "unkeyed (position @ ''.'' @ k) x"
          using less.prems(4) kv xy(1) by (auto simp: unkeyed.simps [of position] list_all_iff)
        moreover have "dict_size x < dict_size d1" using dict_size_entry [OF kv] xy by simp
        ultimately obtain r where r: "recursive_diff x y (Some (position @ ''.'' @ k)) = Inr r"
          "diff_keys r = {q. differs x y q}"
          using less.hyps [of x y "Some (position @ ''.'' @ k)" "position @ ''.'' @ k"] wf xy
          by (auto simp: diff_position_def)
        have "r = None \<longleftrightarrow> py_eq v1 v2"
          using diff_keys_empty [OF r(1)] differs_iff_py_eq [of x y] r(2) wf xy by simp
        then show ?thesis
          using r(1) dif Some xy
          by (auto simp: common_item_def sub_position_def simp del: py_eq.simps split: option.splits)
      next
        assume "\<exists>x y. v1 = PList x \<and> v2 = PList y"
        then obtain x y where xy: "v1 = PList x" "v2 = PList y" by blast
        have "merge_key (position @ ''.'' @ k) = None"
          using less.prems(4) kv xy(1) by (auto simp: unkeyed.simps [of position] list_all_iff)
        with dif Some xy show ?thesis
          by (simp add: common_item_def sub_position_def recursive_list_diff.simps del: py_eq.simps)
      qed
    next
      case False
      then have "common_item d2 (Some position) k v1 = Inr (if \<not> py_eq v1 v2 then [(k, v1, v2)] else [])"
        using Some by (cases v1; cases v2) (simp_all add: common_item_def)
      with dif show ?thesis by simp
    qed
  qed (simp add: common_item_def has_key_def)
  then have "\<exists>es. mapR (\<lambda>(k, v1). common_item d2 (Some position) k v1) d1 = Inr es"
    unfolding mapR_ok_iff by fastforce
  then obtain es where es: "mapR (\<lambda>(k, v1). common_item d2 (Some position) k v1) d1 = Inr es" by blast
  have common: "fst ` set (concat es) = {k. has_key d1 k \<and> has_key d2 k \<and> differs d1 d2 k}"
  proof (intro set_eqI iffI)
    fix k assume "k \<in> fst ` set (concat es)"
    then obtain e where e: "e \<in> set es" "k \<in> fst ` set e" by auto
    from mapR_Inr_mem [OF es e(1)] obtain q v where
      qv: "(q, v) \<in> set d1" "common_item d2 (Some position) q v = Inr e" by auto
    with item [OF qv(1)] e(2) have "k = q" "has_key d2 q \<and> differs d1 d2 q"
      by (auto split: if_splits)
    with qv(1) less.prems(1) show "k \<in> {k. has_key d1 k \<and> has_key d2 k \<and> differs d1 d2 k}"
      by (auto simp: has_key_def)
  next
    fix k assume k: "k \<in> {k. has_key d1 k \<and> has_key d2 k \<and> differs d1 d2 k}"
    then obtain v where v: "(k, v) \<in> set d1" by (auto simp: has_key_def dest: map_of_SomeD)
    from mapR_Inr_memD [OF es v] item [OF v] k obtain e where "e \<in> set es" "k \<in> fst ` set e"
      by auto
    then show "k \<in> fst ` set (concat es)" by auto
  qed
  let ?l = "filter (\<lambda>(k, v). \<not> has_key d2 k) d1 @ map (\<lambda>(k, l, r). (k, l)) (concat es)"
  let ?r = "filter (\<lambda>(k, v). \<not> has_key d1 k) d2 @ map (\<lambda>(k, l, r). (k, r)) (concat es)"
  have result: "recursive_diff d1 d2 p = Inr (if ?l \<noteq> [] \<or> ?r \<noteq> [] then Some (?l, ?r) else None)"
    by (simp add: recursive_diff_items less.prems(3) es)
  have "fst ` set ?l \<union> fst ` set ?r = {k. differs d1 d2 k}" by (rule named_fields [OF common])
  then have "diff_keys (if ?l \<noteq> [] \<or> ?r \<noteq> [] then Some (?l, ?r) else None) = {k. differs d1 d2 k}"
    unfolding diff_keys_if .
  with result show ?case by blast
qed

text \<open>Fields that both objects have, as objects or as lists: to compare those the position is needed.\<close>

definition nested :: "pyval \<Rightarrow> pyval \<Rightarrow> bool" where
  "nested v w \<longleftrightarrow> (\<exists>x y. v = PDict x \<and> w = PDict y) \<or> (\<exists>x y. v = PList x \<and> w = PList y)"

definition nested_fields :: "dict \<Rightarrow> dict \<Rightarrow> bool" where
  "nested_fields d1 d2 \<longleftrightarrow> (\<exists>k v w. map_of d1 k = Some v \<and> map_of d2 k = Some w \<and> nested v w)"

lemma common_item_flat:
  assumes "\<And>w. map_of d2 k = Some w \<Longrightarrow> \<not> nested v w"
  shows "common_item d2 p k v = Inr (case map_of d2 k of None \<Rightarrow> [] | Some w \<Rightarrow> if \<not> py_eq v w then [(k, v, w)] else [])"
proof (cases "map_of d2 k")
  case (Some w)
  with assms have "\<not> nested v w" by simp
  with Some show ?thesis by (cases v; cases w) (simp_all add: common_item_def nested_def del: py_eq.simps)
qed (simp add: common_item_def)

lemma common_item_nested:
  assumes "map_of d2 k = Some w" "nested v w"
  shows "common_item d2 None k v = Inl UnboundLocalError"
  using assms by (auto simp: common_item_def nested_def sub_position_def)

lemma mapR_only_error:
  assumes "\<And>x. x \<in> set xs \<Longrightarrow> f x = Inl e \<or> (\<exists>y. f x = Inr y)" and "x \<in> set xs" "f x = Inl e"
  shows "mapR f xs = Inl e"
  using assms
proof (induction xs)
  case (Cons a xs)
  show ?case
  proof (cases "f a")
    case (Inl e')
    with Cons.prems(1) [of a] show ?thesis by auto
  next
    case (Inr y)
    with Cons.prems(2,3) have "x \<in> set xs" by auto
    with Cons Inr show ?thesis by simp
  qed
qed simp

text \<open>Without a position, fields are compared only when they are not nested in both objects.\<close>

lemma recursive_diff_no_position:
  assumes "wf_dict d1" "wf_dict d2" "diff_position d1 d2 p = None"
  shows "if nested_fields d1 d2 then recursive_diff d1 d2 p = Inl UnboundLocalError
    else \<exists>r. recursive_diff d1 d2 p = Inr r \<and> diff_keys r = {k. differs d1 d2 k}"
proof (cases "nested_fields d1 d2")
  case True
  then obtain k v w where kvw: "map_of d1 k = Some v" "map_of d2 k = Some w" "nested v w" by (auto simp: nested_fields_def)
  have "mapR (\<lambda>(k, v1). common_item d2 None k v1) d1 = Inl UnboundLocalError"
  proof (rule mapR_only_error [where x = "(k, v)"])
    fix x assume "x \<in> set d1"
    show "(case x of (k, v1) \<Rightarrow> common_item d2 None k v1) = Inl UnboundLocalError
        \<or> (\<exists>y. (case x of (k, v1) \<Rightarrow> common_item d2 None k v1) = Inr y)"
    proof (cases x)
      case (Pair q u)
      then show ?thesis
        using common_item_flat [of d2 q u None] common_item_nested [of d2 q _ u] by (cases "map_of d2 q"; cases "\<exists>w. map_of d2 q = Some w \<and> nested u w") auto
    qed
  qed (use kvw common_item_nested map_of_SomeD in auto)
  with True assms(3) show ?thesis by (simp add: recursive_diff_items)
next
  case False
  let ?item = "\<lambda>(k, v). case map_of d2 k of None \<Rightarrow> [] | Some w \<Rightarrow> if \<not> py_eq v w then [(k, v, w)] else []"
  have "(case x of (k, v) \<Rightarrow> common_item d2 None k v) = Inr (?item x)" if "x \<in> set d1" for x
  proof (cases x)
    case (Pair k v)
    with that assms(1) have "map_of d1 k = Some v" by simp
    with False have "\<And>w. map_of d2 k = Some w \<Longrightarrow> \<not> nested v w" by (auto simp: nested_fields_def)
    from common_item_flat [OF this] Pair show ?thesis by simp
  qed
  then have items: "mapR (\<lambda>(k, v). common_item d2 None k v) d1 = Inr (map ?item d1)"
    by (induction d1) auto
  define common where "common = concat (map ?item d1)"
  have mem: "fst ` set common = {k. has_key d1 k \<and> has_key d2 k \<and> differs d1 d2 k}"
  proof (intro set_eqI iffI)
    fix k assume "k \<in> fst ` set common"
    then obtain v w where "(k, v) \<in> set d1" "map_of d2 k = Some w" "\<not> py_eq v w"
      by (auto simp: common_def split: option.splits if_splits) (metis)
    with assms(1) show "k \<in> {k. has_key d1 k \<and> has_key d2 k \<and> differs d1 d2 k}" by (auto simp: has_key_def differs_def)
  next
    fix k assume "k \<in> {k. has_key d1 k \<and> has_key d2 k \<and> differs d1 d2 k}"
    then obtain v w where "map_of d1 k = Some v" "map_of d2 k = Some w" "\<not> py_eq v w" by (auto simp: has_key_def differs_def)
    then have "(k, v, w) \<in> set common" by (force simp: common_def dest: map_of_SomeD)
    then show "k \<in> fst ` set common" by force
  qed
  let ?l = "filter (\<lambda>(k, v). \<not> has_key d2 k) d1 @ map (\<lambda>(k, l, r). (k, l)) common"
  let ?r = "filter (\<lambda>(k, v). \<not> has_key d1 k) d2 @ map (\<lambda>(k, l, r). (k, r)) common"
  have "recursive_diff d1 d2 p = Inr (if ?l \<noteq> [] \<or> ?r \<noteq> [] then Some (?l, ?r) else None)"
    by (simp add: recursive_diff_items assms(3) items common_def)
  moreover have "diff_keys (if ?l \<noteq> [] \<or> ?r \<noteq> [] then Some (?l, ?r) else None) = {k. differs d1 d2 k}"
    unfolding diff_keys_if by (rule named_fields [OF mem])
  ultimately have "\<exists>r. recursive_diff d1 d2 p = Inr r \<and> diff_keys r = {k. differs d1 d2 k}" by blast
  with False show ?thesis by simp
qed

text \<open>C37: The comparison of two objects, in every case but that of a list at a strategic merge key (where the order of
  the items does not count). Where the position is known (both objects have the same kind, or it is given) or no field is an object in both or a list in
  both, the comparison succeeds, names exactly the top-level fields whose values differ, and returns nothing exactly
  when the objects are equal. Where the position is not known and there is such a field, it raises
  \<open>UnboundLocalError\<close>.\<close>

theorem recursive_diff_exact:
  assumes "wf_dict d1" "wf_dict d2" "\<And>position. diff_position d1 d2 p = Some position \<Longrightarrow> unkeyed position d1"
  shows "if diff_position d1 d2 p = None \<and> nested_fields d1 d2 then recursive_diff d1 d2 p = Inl UnboundLocalError
    else \<exists>r. recursive_diff d1 d2 p = Inr r \<and> diff_keys r = {k. differs d1 d2 k} \<and> (r = None \<longleftrightarrow> py_eq (PDict d1) (PDict d2))"
proof -
  have "if diff_position d1 d2 p = None \<and> nested_fields d1 d2 then recursive_diff d1 d2 p = Inl UnboundLocalError
    else \<exists>r. recursive_diff d1 d2 p = Inr r \<and> diff_keys r = {k. differs d1 d2 k}"
    using recursive_diff_keys [OF assms(1,2) _ assms(3)] recursive_diff_no_position [OF assms(1,2)]
    by (cases "diff_position d1 d2 p") auto
  then show ?thesis using diff_keys_empty [of d1 d2 p] differs_iff_py_eq [OF assms(1,2)] by (auto split: if_splits)
qed

theorem recursive_diff_exact_witness:
  "\<exists>r. recursive_diff [(''kind'', PStr ''Job''), (''x'', PList [PInt 1]), (''y'', PInt 2)]
      [(''x'', PList [PInt 1]), (''kind'', PStr ''Job''), (''y'', PInt 3)] None = Inr r \<and> r \<noteq> None"
proof -
  let ?d = "[(''kind'', PStr ''Job''), (''x'', PList [PInt 1]), (''y'', PInt 2)]"
  let ?e = "[(''x'', PList [PInt 1]), (''kind'', PStr ''Job''), (''y'', PInt 3)]"
  have "unkeyed ''Job'' ?d"
    using merge_key_ending [of "''Job.x''"]
    by (cases "merge_key ''Job.x''") (auto simp: unkeyed.simps [of "''Job''"])
  moreover have "diff_position ?d ?e None = Some ''Job''"
    by (simp add: diff_position_def has_key_def py_str_def)
  ultimately show ?thesis
    using recursive_diff_exact [of ?d ?e None] by auto
qed

end
