(* ===== verification/K8sNode.thy ===== *)
theory K8sNode
  imports PyIO
begin

text \<open>
  Nodes: the part of the Kubernetes client's \<open>CoreV1Api\<close> that the node modules call, as a
  record of parameters, and the module that taints nodes (\<open>k8s_taint.py\<close>). A request is
  an \<open>Ext\<close> event; what it answers may depend on the whole history. \<open>ApiException r\<close> is
  an \<open>ApiException\<close> whose \<open>reason\<close> is \<open>r\<close>.
\<close>

section \<open>The client's interface\<close>

text \<open>What the code reads of a pod: the keys of its annotations, its phase, for each volume
  whether it is an \<open>emptyDir\<close>, and the kinds of its owners.\<close>

record pod =
  pod_namespace :: string
  pod_name :: string
  pod_annotations :: "string list option"
  pod_phase :: string
  pod_volumes :: "bool list option"
  pod_owners :: "string list option"

type_synonym pod_id = "string \<times> string"

record core_v1 =
  cv_read_node :: "event list \<Rightarrow> string \<Rightarrow> pyval res"
  cv_patch_node :: "event list \<Rightarrow> string \<Rightarrow> pyval \<Rightarrow> pyval res"
  cv_list_pods :: "event list \<Rightarrow> dict \<Rightarrow> pod list res"
  cv_delete_pod :: "event list \<Rightarrow> pod_id \<Rightarrow> int option \<Rightarrow> unit res"
  cv_evict_pod :: "event list \<Rightarrow> pod_id \<Rightarrow> int option \<Rightarrow> unit res"
  cv_read_pod :: "event list \<Rightarrow> pod_id \<Rightarrow> bool res"
  cv_now :: "event list \<Rightarrow> int"
  cv_text :: "exn \<Rightarrow> string"
  cv_status :: "exn \<Rightarrow> pyval"

definition request :: "string \<Rightarrow> pyval list \<Rightarrow> (event list \<Rightarrow> 'a res) \<Rightarrow> 'a io" where
  "request name args answer = (\<lambda>h. (answer h, h @ [Ext name args]))"

definition read_node :: "core_v1 \<Rightarrow> string \<Rightarrow> pyval io" where
  "read_node A name = request ''read_node'' [PStr name] (\<lambda>h. cv_read_node A h name)"

definition patch_node_request :: "core_v1 \<Rightarrow> string \<Rightarrow> pyval \<Rightarrow> pyval io" where
  "patch_node_request A name body = request ''patch_node'' [PStr name, body] (\<lambda>h. cv_patch_node A h name body)"

definition fail_with :: "string \<Rightarrow> dict \<Rightarrow> 'a io" where
  "fail_with msg extra = raiseI (FailJson ((''msg'', PStr msg) # extra))"

text \<open>Both modules read the node first and patch it in the same way.\<close>

definition get_node :: "core_v1 \<Rightarrow> string \<Rightarrow> string \<Rightarrow> pyval io" where
  "get_node A not_found name = tryI (read_node A name) (\<lambda>e. case e of
      ApiException reason \<Rightarrow>
        if reason = ''Not Found'' then fail_with not_found []
        else fail_with (''Failed to retrieve node '' @ [CHR 0x27] @ name @ [CHR 0x27] @ '' due to: '' @ reason) [(''status'', cv_status A e)]
    | _ \<Rightarrow> if is_Exception e
        then fail_with (''Failed to retrieve node '' @ [CHR 0x27] @ name @ [CHR 0x27] @ '' due to: '' @ cv_text A e) []
        else raiseI e)"

definition patch_node :: "core_v1 \<Rightarrow> string \<Rightarrow> pyval \<Rightarrow> pyval io" where
  "patch_node A name spec = tryI (patch_node_request A name (PDict [(''spec'', spec)]))
     (\<lambda>e. if is_Exception e then fail_with (''Failed to patch node due to: '' @ cv_text A e) [] else raiseI e)"

section \<open>Comparing taints\<close>

text \<open>Taints are the same when they agree on the key and, where both have one, the effect.\<close>

definition equal_dicts :: "dict \<Rightarrow> dict \<Rightarrow> bool res" where
  "equal_dicts a b = allR (\<lambda>x. bindR (py_getitem (PDict a) x) (\<lambda>v. bindR (py_getitem (PDict b) x) (\<lambda>w. Inr (py_eq v w))))
     (if has_key a ''effect'' \<and> has_key b ''effect'' then [''key'', ''effect''] else [''key''])"

definition get_difference :: "dict list \<Rightarrow> dict list \<Rightarrow> dict list res" where
  "get_difference a b = filterR (\<lambda>a_item. bindR (anyR (equal_dicts a_item) b) (\<lambda>found. Inr (\<not> found))) a"

definition get_intersection :: "dict list \<Rightarrow> dict list \<Rightarrow> dict list res" where
  "get_intersection a b = filterR (\<lambda>a_item. anyR (equal_dicts a_item) b) a"

definition update_exists :: "dict list \<Rightarrow> dict list \<Rightarrow> bool res" where
  "update_exists a b = anyR (\<lambda>a_item. anyR (\<lambda>b_item.
     bindR (equal_dicts a_item b_item) (\<lambda>e. Inr (e \<and> \<not> py_eq (dget a_item ''value'') (dget b_item ''value'')))) b) a"

section \<open>Tainting a node\<close>

definition dicts_of :: "pyval \<Rightarrow> dict list res" where
  "dicts_of v = bindR (py_iter v) (mapR (\<lambda>x. case x of PDict d \<Rightarrow> Inr d | _ \<Rightarrow> Inl TypeError))"

text \<open>\<open>node.spec.to_dict().get("taints") or []\<close>, on the dictionary of the node.\<close>

definition existing_taints :: "pyval \<Rightarrow> dict list res" where
  "existing_taints node =
     bindR (py_getitem node ''spec'') (\<lambda>spec.
     bindR (py_get spec ''taints'' PNone) (\<lambda>taints.
       if truthy taints then dicts_of taints else Inr []))"

definition exit_taint :: "bool \<Rightarrow> pyval \<Rightarrow> 'a io" where
  "exit_taint changed result = raiseI (ExitJson [(''changed'', PBool changed), (''result'', result)])"

definition patch_taints :: "core_v1 \<Rightarrow> string \<Rightarrow> dict list \<Rightarrow> pyval io" where
  "patch_taints A name taints = patch_node A name (PDict [(''taints'', PList (map PDict taints))])"

definition taint_present :: "core_v1 \<Rightarrow> bool \<Rightarrow> bool \<Rightarrow> string \<Rightarrow> pyval \<Rightarrow> dict list \<Rightarrow> dict list \<Rightarrow> dict list \<Rightarrow> unit io" where
  "taint_present A check_mode replace name node taints existing diff =
     (if diff \<noteq> [] then
        (if check_mode then exit_taint True (PDict [])
         else if replace then bindI (patch_taints A name taints) (exit_taint True)
         else bindI (liftI (get_difference existing taints)) (\<lambda>others.
           bindI (patch_taints A name (others @ taints)) (exit_taint True)))
      else bindI (liftI (update_exists existing taints)) (\<lambda>update.
        if update then
          (if check_mode then exit_taint True (PDict [])
           else bindI (liftI (get_difference existing taints)) (\<lambda>others.
             bindI (patch_taints A name (others @ taints)) (exit_taint True)))
        else exit_taint False node))"

definition taint_absent :: "core_v1 \<Rightarrow> bool \<Rightarrow> string \<Rightarrow> pyval \<Rightarrow> dict list \<Rightarrow> dict list \<Rightarrow> dict list \<Rightarrow> unit io" where
  "taint_absent A check_mode name node taints existing diff =
     (let result = (if existing = [] then node else PDict []);
          remove = (if check_mode then exit_taint True result
            else bindI (liftI (get_difference existing taints)) (\<lambda>others.
              bindI (patch_taints A name others) (\<lambda>_. exit_taint True result)))
      in if diff = [] then remove
         else bindI (liftI (get_intersection existing taints)) (\<lambda>common.
           if common \<noteq> [] then remove else exit_taint False result))"

definition taint_module :: "core_v1 \<Rightarrow> bool \<Rightarrow> string \<Rightarrow> bool \<Rightarrow> string \<Rightarrow> dict list \<Rightarrow> unit io" where
  "taint_module A check_mode state replace name taints =
     bindI (get_node A (''Node '' @ [CHR 0x27] @ name @ [CHR 0x27] @ '' has not been found.'') name) (\<lambda>node.
     bindI (liftI (existing_taints node)) (\<lambda>existing.
     bindI (liftI (get_difference taints existing)) (\<lambda>diff.
       if state = ''present'' then taint_present A check_mode replace name node taints existing diff
       else taint_absent A check_mode name node taints existing diff)))"

section \<open>Tainting settles\<close>

text \<open>A taint with a key, and the pure comparison of two of them.\<close>

definition is_taint :: "dict \<Rightarrow> bool" where
  "is_taint d \<longleftrightarrow> has_key d ''key'' \<and> wf_dict d"

definition same_taint :: "dict \<Rightarrow> dict \<Rightarrow> bool" where
  "same_taint a b \<longleftrightarrow> py_eq (dget a ''key'') (dget b ''key'')
     \<and> (has_key a ''effect'' \<and> has_key b ''effect'' \<longrightarrow> py_eq (dget a ''effect'') (dget b ''effect''))"

lemma equal_dicts_taints:
  assumes "is_taint a" and "is_taint b"
  shows "equal_dicts a b = Inr (same_taint a b)"
proof -
  have get: "has_key d k \<Longrightarrow> py_getitem (PDict d) k = Inr (dget d k)" for d k
    by (auto simp: has_key_def py_getitem_def dget_def split: option.split)
  show ?thesis using assms by (auto simp: equal_dicts_def same_taint_def is_taint_def get)
qed

lemma same_taint_refl: "is_taint a \<Longrightarrow> same_taint a a"
proof -
  assume "is_taint a"
  then have "wf_py (dget a k)" for k
    using wf_dict_lookup [of a k] by (auto simp: is_taint_def dget_def split: option.split)
  then show ?thesis by (simp add: same_taint_def py_eq_refl)
qed

lemma get_difference_taints:
  assumes "\<forall>a \<in> set as. is_taint a" and "\<forall>b \<in> set bs. is_taint b"
  shows "get_difference as bs = Inr (filter (\<lambda>a. \<forall>b \<in> set bs. \<not> same_taint a b) as)"
proof -
  have "anyR (equal_dicts a) bs = Inr (\<exists>b \<in> set bs. same_taint a b)" if "a \<in> set as" for a
    using that assms by (intro anyR_Inr) (auto intro: equal_dicts_taints)
  then show ?thesis unfolding get_difference_def by (intro filterR_Inr) auto
qed

lemma update_exists_taints:
  assumes "\<forall>a \<in> set as. is_taint a" and "\<forall>b \<in> set bs. is_taint b"
  shows "update_exists as bs
    = Inr (\<exists>a \<in> set as. \<exists>b \<in> set bs. same_taint a b \<and> \<not> py_eq (dget a ''value'') (dget b ''value''))"
  unfolding update_exists_def using assms by (intro anyR_Inr) (auto simp: equal_dicts_taints)

text \<open>Taints that can all be on a node: the same taint is never asked for with two values.\<close>

definition consistent :: "dict list \<Rightarrow> bool" where
  "consistent ts \<longleftrightarrow> (\<forall>a \<in> set ts. is_taint a)
     \<and> (\<forall>a \<in> set ts. \<forall>b \<in> set ts. same_taint a b \<longrightarrow> py_eq (dget a ''value'') (dget b ''value''))"

definition settled :: "dict list \<Rightarrow> dict list \<Rightarrow> bool" where
  "settled taints existing \<longleftrightarrow> get_difference taints existing = Inr [] \<and> update_exists existing taints = Inr False"

lemma settled_after_patch:
  assumes "consistent taints" and "\<forall>a \<in> set existing. is_taint a" and "get_difference existing taints = Inr others"
  shows "settled taints (others @ taints)"
proof -
  have o: "others = filter (\<lambda>a. \<forall>b \<in> set taints. \<not> same_taint a b) existing"
    using assms get_difference_taints [of existing taints] by (auto simp: consistent_def)
  have t: "\<forall>a \<in> set taints. is_taint a" using assms(1) by (simp add: consistent_def)
  then have both: "\<forall>a \<in> set (others @ taints). is_taint a" using assms(2) o by auto
  have "\<exists>b \<in> set (others @ taints). same_taint a b" if "a \<in> set taints" for a
    using that t same_taint_refl by auto
  then show ?thesis
    using assms(1)
    unfolding settled_def get_difference_taints [OF t both] update_exists_taints [OF both t]
    by (auto simp: o consistent_def filter_empty_conv)
qed

lemma read_ok: "cv_read_node A h name = Inr node \<Longrightarrow> get_node A msg name h = (Inr node, h @ [Ext ''read_node'' [PStr name]])"
  by (simp add: get_node_def read_node_def request_def run_try)

lemma settled_run:
  assumes "cv_read_node A h name = Inr node" and "existing_taints node = Inr existing" and "settled taints existing"
  shows "taint_module A check_mode ''present'' replace name taints h
    = (Inl (ExitJson [(''changed'', PBool False), (''result'', node)]), h @ [Ext ''read_node'' [PStr name]])"
  using assms
  by (simp add: taint_module_def taint_present_def read_ok run_bind run_simps settled_def exit_taint_def)

text \<open>
  The taints of the node once the server has done what the events ask: a patch sets the list
  (the API gives \<open>spec.taints\<close> no merge strategy), and nothing else changes it.
\<close>

definition taints_after :: "event list \<Rightarrow> dict list \<Rightarrow> dict list res" where
  "taints_after h existing = (case last h of Ext name args \<Rightarrow>
      (if name = ''patch_node'' \<and> length args = 2 then existing_taints (args ! 1) else Inr existing)
    | _ \<Rightarrow> Inr existing)"

lemma existing_taints_body:
  "existing_taints (PDict [(''spec'', PDict [(''taints'', PList (map PDict ts))])]) = Inr ts"
proof -
  have "mapR (\<lambda>x. case x of PDict d \<Rightarrow> Inr d | _ \<Rightarrow> Inl TypeError) (map PDict ts) = Inr (map (\<lambda>x. case x of PDict d \<Rightarrow> d) (map PDict ts))"
    by (intro mapR_Inr) auto
  then show ?thesis by (simp add: existing_taints_def py_getitem_def py_get_def dicts_of_def py_iter_def comp_def)
qed

lemma patch_taints_history:
  "patch_taints A name ts h = (r, h') \<Longrightarrow> taints_after h' existing = Inr ts"
  by (auto simp: patch_taints_def patch_node_def patch_node_request_def request_def run_try fail_with_def run_simps
        taints_after_def existing_taints_body split: sum.splits if_splits)

lemma patch_then_exit_history:
  "bindI (patch_taints A name ts) (exit_taint c) h = (r, h') \<Longrightarrow> taints_after h' existing = Inr ts"
  by (cases "patch_taints A name ts h") (auto simp: run_bind exit_taint_def run_simps patch_taints_history split: sum.splits)

lemma bindI_lift: "bindI (liftI (Inr x)) f = f x"
  by (simp add: bindI_def liftI_def)

lemma present_settles:
  assumes "consistent taints" and "\<forall>a \<in> set existing. is_taint a" and "get_difference taints existing = Inr diff"
    and "last h = Ext ''read_node'' args"
    and "taint_present A False False name node taints existing diff h = (Inl (ExitJson kvs), h')"
  shows "\<exists>E. taints_after h' existing = Inr E \<and> settled taints E"
proof -
  have t: "\<forall>a \<in> set taints. is_taint a" using assms(1) by (simp add: consistent_def)
  obtain others where o: "get_difference existing taints = Inr others"
    using get_difference_taints [OF assms(2) t] by blast
  obtain u where u: "update_exists existing taints = Inr u"
    using update_exists_taints [OF assms(2) t] by blast
  show ?thesis
  proof (cases "diff \<noteq> [] \<or> u")
    case True
    then have "bindI (patch_taints A name (others @ taints)) (exit_taint True :: pyval \<Rightarrow> unit io) h = (Inl (ExitJson kvs), h')"
      using assms(5) by (auto simp: taint_present_def o u bindI_lift split: if_splits)
    then show ?thesis using patch_then_exit_history settled_after_patch [OF assms(1,2) o] by blast
  next
    case False
    then have "h' = h" using assms(5) by (simp add: taint_present_def u run_bind run_simps exit_taint_def)
    moreover have "settled taints existing" using False assms(3) u by (simp add: settled_def)
    ultimately show ?thesis using assms(4) by (simp add: taints_after_def)
  qed
qed

text \<open>C23: Tainting settles: once the server has applied what a first run with state \<open>present\<close> asked
  for, a second run with the same taints finds them on the node, sends no patch and reports no change.\<close>

theorem taint_settles:
  assumes "consistent taints" and "cv_read_node A h name = Inr node" and "existing_taints node = Inr existing"
    and "\<forall>a \<in> set existing. is_taint a"
    and "taint_module A False ''present'' False name taints h = (Inl (ExitJson kvs), h')"
    and "cv_read_node A h' name = Inr node'" and "existing_taints node' = taints_after h' existing"
  shows "taint_module A check_mode ''present'' replace name taints h'
    = (Inl (ExitJson [(''changed'', PBool False), (''result'', node')]), h' @ [Ext ''read_node'' [PStr name]])"
proof -
  have t: "\<forall>a \<in> set taints. is_taint a" using assms(1) by (simp add: consistent_def)
  obtain diff where d: "get_difference taints existing = Inr diff"
    using get_difference_taints [OF t assms(4)] by blast
  have "taint_present A False False name node taints existing diff (h @ [Ext ''read_node'' [PStr name]]) = (Inl (ExitJson kvs), h')"
    using assms(5) by (simp add: taint_module_def read_ok [OF assms(2)] assms(3) d run_bind run_simps)
  from present_settles [OF assms(1,4) d _ this] obtain E where "taints_after h' existing = Inr E" "settled taints E"
    by auto
  with assms(6,7) show ?thesis by (intro settled_run) simp_all
qed

text \<open>A server with one node: reading it gives the taints of the last patch.\<close>

definition one_node :: "dict list \<Rightarrow> core_v1" where
  "one_node existing = \<lparr>
     cv_read_node = (\<lambda>h name. Inr (case h of [] \<Rightarrow> PDict [(''spec'', PDict [(''taints'', PList (map PDict existing))])]
       | _ \<Rightarrow> (case last h of Ext _ [_, body] \<Rightarrow> body | _ \<Rightarrow> PNone))),
     cv_patch_node = (\<lambda>h name body. Inr body),
     cv_list_pods = (\<lambda>h params. Inr []), cv_delete_pod = (\<lambda>h pod grace. Inr ()), cv_evict_pod = (\<lambda>h pod grace. Inr ()),
     cv_read_pod = (\<lambda>h pod. Inl (ApiException ''Not Found'')), cv_now = slept, cv_text = (\<lambda>e. ''error''), cv_status = (\<lambda>e. PNone)\<rparr>"

theorem taint_settles_witness:
  "let t = [(''effect'', PStr ''NoSchedule''), (''key'', PStr ''gpu'')];
       h = [Ext ''read_node'' [PStr ''n''],
            Ext ''patch_node'' [PStr ''n'', PDict [(''spec'', PDict [(''taints'', PList [PDict t])])]]]
   in taint_module (one_node []) True ''present'' False ''n'' [t] h
     = (Inl (ExitJson [(''changed'', PBool False), (''result'', PDict [(''spec'', PDict [(''taints'', PList [PDict t])])])]),
        h @ [Ext ''read_node'' [PStr ''n'']])"
proof -
  let ?t = "[(''effect'', PStr ''NoSchedule''), (''key'', PStr ''gpu'')]"
  let ?body = "PDict [(''spec'', PDict [(''taints'', PList [PDict ?t])])]"
  let ?h = "[Ext ''read_node'' [PStr ''n''], Ext ''patch_node'' [PStr ''n'', ?body]]"
  have c: "consistent [?t]" by (simp add: consistent_def is_taint_def has_key_def)
  have r: "cv_read_node (one_node []) [] ''n'' = Inr (PDict [(''spec'', PDict [(''taints'', PList [])])])"
    "cv_read_node (one_node []) ?h ''n'' = Inr ?body"
    by (simp_all add: one_node_def)
  have e: "existing_taints (PDict [(''spec'', PDict [(''taints'', PList [])])]) = Inr []"
    "existing_taints ?body = Inr [?t]"
    using existing_taints_body [of "[]"] existing_taints_body [of "[?t]"] by simp_all
  have p: "cv_patch_node (one_node []) h n body = Inr body" for h n body by (simp add: one_node_def)
  have d: "get_difference [?t] [] = Inr [?t]" "get_difference [] [?t] = Inr []"
    by (simp_all add: get_difference_def)
  have "taint_module (one_node []) False ''present'' False ''n'' [?t] [] = (Inl (ExitJson [(''changed'', PBool True), (''result'', ?body)]), ?h)"
    by (simp add: taint_module_def read_ok [OF r(1)] e d taint_present_def run_bind run_simps patch_taints_def patch_node_def
        patch_node_request_def request_def run_try exit_taint_def p)
  from taint_settles [OF c r(1) e(1) _ this r(2), of True False] e(2) show ?thesis
    by (simp add: taints_after_def)
qed

end
