(* ===== verification/K8sDrain.thy ===== *)
theory K8sDrain
  imports K8sNode
begin

text \<open>
  Cordoning and draining nodes (\<open>k8s_drain.py\<close>): which pods may be removed, their eviction,
  the wait for their end, and the module. The attribute \<open>_changed\<close> is passed through the
  operations that read or write it. The wait is cut off by fuel (\<open>OutOfFuel\<close>), as the code's
  own loop need not end.
\<close>

section \<open>Choosing the pods\<close>

definition pod_id :: "pod \<Rightarrow> pod_id" where
  "pod_id pod = (pod_namespace pod, pod_name pod)"

record pod_lists =
  pl_daemon_set :: "pod_id list"
  pl_unmanaged :: "pod_id list"
  pl_mirror :: "pod_id list"
  pl_local_storage :: "pod_id list"
  pl_to_delete :: "pod_id list"

definition no_pods :: pod_lists where
  "no_pods = \<lparr>pl_daemon_set = [], pl_unmanaged = [], pl_mirror = [], pl_local_storage = [], pl_to_delete = []\<rparr>"

definition is_mirror :: "pod \<Rightarrow> bool" where
  "is_mirror pod \<longleftrightarrow> (case pod_annotations pod of Some ks \<Rightarrow> ''kubernetes.io/config.mirror'' \<in> set ks | None \<Rightarrow> False)"

definition is_finished :: "pod \<Rightarrow> bool" where
  "is_finished pod \<longleftrightarrow> pod_phase pod \<in> {''Succeeded'', ''Failed''}"

definition has_local_storage :: "pod \<Rightarrow> bool" where
  "has_local_storage pod \<longleftrightarrow> (case pod_volumes pod of Some vs \<Rightarrow> list_ex (\<lambda>v. v) vs | None \<Rightarrow> False)"

definition owners :: "pod \<Rightarrow> string list" where
  "owners pod = (case pod_owners pod of Some os \<Rightarrow> os | None \<Rightarrow> [])"

definition file_owner :: "pod \<Rightarrow> pod_lists \<Rightarrow> string \<Rightarrow> pod_lists" where
  "file_owner pod l owner =
     (if owner = ''DaemonSet'' then l\<lparr>pl_daemon_set := pl_daemon_set l @ [pod_id pod]\<rparr>
      else l\<lparr>pl_to_delete := pl_to_delete l @ [pod_id pod]\<rparr>)"

definition file_pod :: "pod_lists \<Rightarrow> pod \<Rightarrow> pod_lists" where
  "file_pod l pod =
     (if is_mirror pod then l\<lparr>pl_mirror := pl_mirror l @ [pod_id pod]\<rparr>
      else if is_finished pod then l\<lparr>pl_to_delete := pl_to_delete l @ [pod_id pod]\<rparr>
      else if has_local_storage pod then l\<lparr>pl_local_storage := pl_local_storage l @ [pod_id pod]\<rparr>
      else if owners pod = [] then l\<lparr>pl_unmanaged := pl_unmanaged l @ [pod_id pod]\<rparr>
      else foldl (file_owner pod) l (owners pod))"

definition pod_names :: "pod_id list \<Rightarrow> string" where
  "pod_names pods = py_join '','' (map (\<lambda>(namespace, name). namespace @ ''/'' @ name) pods)"

definition unmanaged_message :: "bool \<Rightarrow> pod_id list \<Rightarrow> string" where
  "unmanaged_message force pods =
     (if force then ''Deleting Pods not managed by ReplicationController, ReplicaSet, Job, DaemonSet or StatefulSet: ''
      else ''cannot delete Pods not managed by ReplicationController, ReplicaSet, Job,''
        @ '' DaemonSet or StatefulSet (use option force set to yes): '') @ pod_names pods @ ''.''"

definition mirror_message :: "pod_id list \<Rightarrow> string" where
  "mirror_message pods = ''cannot delete mirror Pods using API server: '' @ pod_names pods @ ''.''"

definition local_message :: "bool \<Rightarrow> pod_id list \<Rightarrow> string" where
  "local_message delete pods =
     (if delete then ''Deleting Pods with local storage: '' else ''cannot delete Pods with local storage: '')
       @ pod_names pods @ ''.''"

definition daemon_message :: "bool \<Rightarrow> pod_id list \<Rightarrow> string" where
  "daemon_message ignore pods =
     (if ignore then ''Ignoring DaemonSet-managed Pods: ''
      else ''cannot delete DaemonSet-managed Pods (use option ignore_daemonset set to yes): '') @ pod_names pods @ ''.''"

text \<open>The pods to remove, the warnings and the errors.\<close>

definition filter_pods :: "pod list \<Rightarrow> bool \<Rightarrow> bool \<Rightarrow> bool \<Rightarrow> pod_id list \<times> string list \<times> string list" where
  "filter_pods pods force ignore_daemonset delete_emptydir_data =
     (let l = foldl file_pod no_pods pods;
          msg = (\<lambda>b m. if b then [m] else []);
          un = pl_unmanaged l; ls = pl_local_storage l; ds = pl_daemon_set l
      in (pl_to_delete l @ (if force then un else []) @ (if delete_emptydir_data then ls else []),
          msg (un \<noteq> [] \<and> force) (unmanaged_message True un) @ msg (pl_mirror l \<noteq> []) (mirror_message (pl_mirror l))
            @ msg (ls \<noteq> [] \<and> delete_emptydir_data) (local_message True ls) @ msg (ds \<noteq> [] \<and> ignore_daemonset) (daemon_message True ds),
          msg (un \<noteq> [] \<and> \<not> force) (unmanaged_message False un)
            @ msg (ls \<noteq> [] \<and> \<not> delete_emptydir_data) (local_message False ls) @ msg (ds \<noteq> [] \<and> \<not> ignore_daemonset) (daemon_message False ds)))"

section \<open>Removing pods and waiting for their end\<close>

definition pod_args :: "pod_id \<Rightarrow> pyval list" where
  "pod_args pod = [PStr (fst pod), PStr (snd pod)]"

definition remove_pod :: "core_v1 \<Rightarrow> bool \<Rightarrow> int option \<Rightarrow> pod_id \<Rightarrow> unit io" where
  "remove_pod A disable_eviction grace pod =
     (if disable_eviction then request ''delete_namespaced_pod'' (pod_args pod) (\<lambda>h. cv_delete_pod A h pod grace)
      else request ''create_namespaced_pod_eviction'' (pod_args pod) (\<lambda>h. cv_evict_pod A h pod grace))"

text \<open>The result is the attribute \<open>_changed\<close>.\<close>

fun evict_pods :: "core_v1 \<Rightarrow> bool \<Rightarrow> int option \<Rightarrow> pod_id list \<Rightarrow> bool \<Rightarrow> bool io" where
  "evict_pods A disable_eviction grace [] changed = retI changed"
| "evict_pods A disable_eviction grace (pod # pods) changed =
     bindI (attemptI (remove_pod A disable_eviction grace pod)) (\<lambda>r. case r of
        Inr _ \<Rightarrow> evict_pods A disable_eviction grace pods True
      | Inl e \<Rightarrow> (case e of
          ApiException reason \<Rightarrow>
            if reason \<noteq> ''Not Found'' then
              fail_with (''Failed to delete pod '' @ fst pod @ ''/'' @ snd pod @ '' due to: '' @ reason) []
            else evict_pods A disable_eviction grace pods changed
        | _ \<Rightarrow> if is_Exception e then
              fail_with (''Failed to delete pod '' @ fst pod @ ''/'' @ snd pod @ '' due to: '' @ cv_text A e) []
            else raiseI e))"

text \<open>\<open>datetime.now()\<close> in microseconds; \<open>.seconds\<close> is what is left of a duration after its days.\<close>

definition now :: "core_v1 \<Rightarrow> int io" where
  "now A = (\<lambda>h. (Inr (cv_now A h), h @ [Monotonic]))"

definition elapsed_time :: "core_v1 \<Rightarrow> int \<Rightarrow> int io" where
  "elapsed_time A start = bindI (now A) (\<lambda>t. retI ((t - start) div 10 ^ 6 mod 86400))"

definition poll_pod :: "core_v1 \<Rightarrow> int \<Rightarrow> pod_id \<Rightarrow> bool io" where
  "poll_pod A wait_sleep pod =
     bindI (attemptI (request ''read_namespaced_pod'' (pod_args pod) (\<lambda>h. cv_read_pod A h pod))) (\<lambda>r. case r of
        Inr response \<Rightarrow>
          if wait_sleep < 0 then fail_with ''Exception raised: sleep length must be non-negative'' []
          else bindI (emit (Sleep wait_sleep)) (\<lambda>_. retI response)
      | Inl e \<Rightarrow> (case e of
          ApiException reason \<Rightarrow>
            if reason \<noteq> ''Not Found'' then fail_with (''Exception raised: '' @ reason) [] else retI False
        | _ \<Rightarrow> if is_Exception e then fail_with (''Exception raised: '' @ cv_text A e) [] else raiseI e))"

text \<open>The pod looked at (\<open>None\<close>: the next one is to be taken) and those still in the list.\<close>

fun wait_pods :: "core_v1 \<Rightarrow> int \<Rightarrow> int \<Rightarrow> int \<Rightarrow> nat \<Rightarrow> pod_id option \<Rightarrow> pod_id list \<Rightarrow> string option io" where
  "wait_pods A start wait_timeout wait_sleep 0 pod pods = raiseI OutOfFuel"
| "wait_pods A start wait_timeout wait_sleep (Suc fuel) pod pods =
     bindI (elapsed_time A start) (\<lambda>t.
       if (t < wait_timeout \<or> wait_timeout = 0) \<and> pods \<noteq> [] then
         (let (p, rest) = (case pod of Some p \<Rightarrow> (p, pods) | None \<Rightarrow> (last pods, butlast pods))
          in bindI (poll_pod A wait_sleep p) (\<lambda>alive.
               wait_pods A start wait_timeout wait_sleep fuel (if alive then Some p else None) rest))
       else retI (if pods = [] then None else Some ''timeout reached while pods were still running.''))"

definition wait_for_pod_deletion :: "core_v1 \<Rightarrow> nat \<Rightarrow> pod_id list \<Rightarrow> int \<Rightarrow> int \<Rightarrow> string option io" where
  "wait_for_pod_deletion A fuel pods wait_timeout wait_sleep =
     bindI (now A) (\<lambda>start.
       if pods = [] then raiseI IndexError
       else wait_pods A start wait_timeout wait_sleep fuel (Some (last pods)) (butlast pods))"

section \<open>The module\<close>

record drain_options =
  do_grace :: "int option"
  do_force :: bool
  do_ignore_daemonsets :: bool
  do_delete_emptydir_data :: bool
  do_disable_eviction :: bool
  do_wait_timeout :: "int option"
  do_wait_sleep :: int

definition list_pods :: "core_v1 \<Rightarrow> string \<Rightarrow> string list \<Rightarrow> pod list io" where
  "list_pods A name pod_selectors =
     (let params = (''field_selector'', PStr (''spec.nodeName='' @ name))
            # (if pod_selectors = [] then [] else [(''label_selector'', PStr (py_join '','' pod_selectors))])
      in request ''list_pod_for_all_namespaces'' [PDict params] (\<lambda>h. cv_list_pods A h params))"

definition unschedulable :: "bool \<Rightarrow> pyval" where
  "unschedulable b = PDict [(''unschedulable'', PBool b)]"

text \<open>\<open>_revert_node_patch\<close>, then \<open>fail_json\<close>.\<close>

definition revert_and_fail :: "core_v1 \<Rightarrow> string \<Rightarrow> bool \<Rightarrow> string \<Rightarrow> dict \<Rightarrow> 'a io" where
  "revert_and_fail A name changed msg extra =
     (if changed then bindI (patch_node A name (unschedulable False)) (\<lambda>_. fail_with msg extra)
      else fail_with msg extra)"

text \<open>
  The \<open>try\<close> around the choice of the pods. \<open>None\<close>: the list could not be found, and
  \<open>warnings\<close> was never assigned.
\<close>

definition choose_pods :: "core_v1 \<Rightarrow> string \<Rightarrow> string list \<Rightarrow> drain_options \<Rightarrow> bool \<Rightarrow> (pod_id list \<times> string list) option io" where
  "choose_pods A name pod_selectors opts changed =
     bindI (attemptI (list_pods A name pod_selectors)) (\<lambda>r. case r of
        Inr pods \<Rightarrow>
          (case filter_pods pods (do_force opts) (do_ignore_daemonsets opts) (do_delete_emptydir_data opts) of
             (to_delete, warnings, errors) \<Rightarrow>
               if errors \<noteq> [] then revert_and_fail A name changed (''Pod deletion errors: '' @ py_join '' '' errors) []
               else retI (Some (to_delete, warnings)))
      | Inl e \<Rightarrow> (case e of
          ApiException reason \<Rightarrow>
            if reason \<noteq> ''Not Found'' then
              revert_and_fail A name changed (''Failed to list pod from node '' @ name @ '' due to: '' @ reason) [(''status'', cv_status A e)]
            else retI None
        | _ \<Rightarrow> if is_Exception e then
              revert_and_fail A name changed (''Failed to list pod from node '' @ name @ '' due to: '' @ cv_text A e) []
            else raiseI e))"

definition cordon_first :: "core_v1 \<Rightarrow> string \<Rightarrow> bool \<Rightarrow> (string \<times> bool) io" where
  "cordon_first A name node_unschedulable =
     (if \<not> node_unschedulable then
        bindI (patch_node A name (unschedulable True)) (\<lambda>_. retI (''node '' @ name @ '' marked unschedulable.'', True))
      else retI (''node '' @ name @ '' already marked unschedulable.'', False))"

definition remove_chosen :: "core_v1 \<Rightarrow> nat \<Rightarrow> drain_options \<Rightarrow> pod_id list \<Rightarrow> bool \<Rightarrow> (bool \<times> string list \<times> string list) io" where
  "remove_chosen A fuel opts pods changed =
     bindI (evict_pods A (do_disable_eviction opts) (do_grace opts) pods changed) (\<lambda>changed.
     bindI (case do_wait_timeout opts of
         Some t \<Rightarrow> wait_for_pod_deletion A fuel pods t (do_wait_sleep opts) | None \<Rightarrow> retI None) (\<lambda>warn.
       retI (changed, [dec_nat (length pods) @ '' Pod(s) deleted from node.''],
         case warn of Some w \<Rightarrow> [w] | None \<Rightarrow> [])))"

definition delete_or_evict_pods :: "core_v1 \<Rightarrow> nat \<Rightarrow> string \<Rightarrow> string list \<Rightarrow> drain_options \<Rightarrow> bool \<Rightarrow> (bool \<times> dict) io" where
  "delete_or_evict_pods A fuel name pod_selectors opts node_unschedulable =
     bindI (cordon_first A name node_unschedulable) (\<lambda>(result, changed).
     bindI (choose_pods A name pod_selectors opts changed) (\<lambda>chosen. case chosen of
        None \<Rightarrow> raiseI UnboundLocalError
      | Some (pods, warnings) \<Rightarrow>
          bindI (if pods \<noteq> [] then remove_chosen A fuel opts pods changed else retI (changed, [], [])) (\<lambda>(changed, extra, warn).
            retI (changed, (''result'', PStr (py_join '' '' (result # extra)))
              # (if warnings @ warn \<noteq> [] then [(''warnings'', PList (map PStr (warnings @ warn)))] else [])))))"

definition drain_module :: "core_v1 \<Rightarrow> nat \<Rightarrow> string \<Rightarrow> string \<Rightarrow> string list \<Rightarrow> drain_options \<Rightarrow> unit io" where
  "drain_module A fuel state name pod_selectors opts =
     bindI (get_node A (''Node '' @ name @ '' not found.'') name) (\<lambda>node.
     bindI (liftI (bindR (py_getitem node ''spec'') (\<lambda>spec. py_getitem spec ''unschedulable''))) (\<lambda>u.
       let patched = (\<lambda>b msg. bindI (patch_node A name (unschedulable b)) (\<lambda>_.
             raiseI (ExitJson [(''changed'', PBool True), (''result'', PStr (''node '' @ name @ msg))])))
       in if state = ''cordon'' then
            (if truthy u then raiseI (ExitJson [(''result'', PStr (''node '' @ name @ '' already marked unschedulable.''))])
             else patched True '' marked unschedulable.'')
          else if state = ''uncordon'' then
            (if \<not> truthy u then raiseI (ExitJson [(''result'', PStr (''node '' @ name @ '' already marked schedulable.''))])
             else patched False '' marked schedulable.'')
          else bindI (delete_or_evict_pods A fuel name pod_selectors opts (truthy u)) (\<lambda>(changed, ret).
            raiseI (ExitJson ((''changed'', PBool changed) # ret)))))"

section \<open>Which pods are removed\<close>

definition ordinary :: "pod \<Rightarrow> bool" where
  "ordinary p \<longleftrightarrow> \<not> is_mirror p \<and> \<not> is_finished p \<and> \<not> has_local_storage p"

definition stores_locally :: "pod \<Rightarrow> bool" where
  "stores_locally p \<longleftrightarrow> \<not> is_mirror p \<and> \<not> is_finished p \<and> has_local_storage p"

text \<open>May be removed whatever the options say.\<close>

definition free_to_go :: "pod \<Rightarrow> bool" where
  "free_to_go p \<longleftrightarrow> \<not> is_mirror p \<and> (is_finished p \<or> (\<not> has_local_storage p \<and> (\<exists>owner \<in> set (owners p). owner \<noteq> ''DaemonSet'')))"

definition removable :: "bool \<Rightarrow> bool \<Rightarrow> pod \<Rightarrow> bool" where
  "removable force delete_emptydir_data p \<longleftrightarrow> free_to_go p
     \<or> (ordinary p \<and> owners p = [] \<and> force) \<or> (stores_locally p \<and> delete_emptydir_data)"

definition refused :: "bool \<Rightarrow> bool \<Rightarrow> bool \<Rightarrow> pod \<Rightarrow> bool" where
  "refused force ignore_daemonset delete_emptydir_data p \<longleftrightarrow>
     (ordinary p \<and> owners p = [] \<and> \<not> force) \<or> (stores_locally p \<and> \<not> delete_emptydir_data)
     \<or> (ordinary p \<and> ''DaemonSet'' \<in> set (owners p) \<and> \<not> ignore_daemonset)"

lemma file_owners:
  "set (pl_daemon_set (foldl (file_owner p) l os)) = set (pl_daemon_set l) \<union> (if ''DaemonSet'' \<in> set os then {pod_id p} else {})"
  "set (pl_to_delete (foldl (file_owner p) l os)) = set (pl_to_delete l) \<union> (if \<exists>owner \<in> set os. owner \<noteq> ''DaemonSet'' then {pod_id p} else {})"
  "pl_unmanaged (foldl (file_owner p) l os) = pl_unmanaged l"
  "pl_mirror (foldl (file_owner p) l os) = pl_mirror l"
  "pl_local_storage (foldl (file_owner p) l os) = pl_local_storage l"
  by (induction os arbitrary: l) (auto simp: file_owner_def)

lemma file_pod_sets:
  "set (pl_daemon_set (file_pod l p)) = set (pl_daemon_set l) \<union> (if ordinary p \<and> ''DaemonSet'' \<in> set (owners p) then {pod_id p} else {})"
  "set (pl_to_delete (file_pod l p)) = set (pl_to_delete l) \<union> (if free_to_go p then {pod_id p} else {})"
  "set (pl_unmanaged (file_pod l p)) = set (pl_unmanaged l) \<union> (if ordinary p \<and> owners p = [] then {pod_id p} else {})"
  "set (pl_local_storage (file_pod l p)) = set (pl_local_storage l) \<union> (if stores_locally p then {pod_id p} else {})"
  by (auto simp: file_pod_def file_owners ordinary_def free_to_go_def stores_locally_def)

lemma file_pods_sets:
  "set (pl_daemon_set (foldl file_pod l ps))
    = set (pl_daemon_set l) \<union> pod_id ` {p \<in> set ps. ordinary p \<and> ''DaemonSet'' \<in> set (owners p)}"
  "set (pl_to_delete (foldl file_pod l ps)) = set (pl_to_delete l) \<union> pod_id ` {p \<in> set ps. free_to_go p}"
  "set (pl_unmanaged (foldl file_pod l ps))
    = set (pl_unmanaged l) \<union> pod_id ` {p \<in> set ps. ordinary p \<and> owners p = []}"
  "set (pl_local_storage (foldl file_pod l ps)) = set (pl_local_storage l) \<union> pod_id ` {p \<in> set ps. stores_locally p}"
  by (induction ps arbitrary: l) (auto simp: file_pod_sets)

lemma filter_pods_parts:
  "set (fst (filter_pods pods force ign del)) = pod_id ` {p \<in> set pods. removable force del p}"
  "snd (snd (filter_pods pods force ign del)) = [] \<longleftrightarrow> (\<forall>p \<in> set pods. \<not> refused force ign del p)"
proof -
  let ?l = "foldl file_pod no_pods pods"
  have sets: "set (pl_daemon_set ?l) = pod_id ` {p \<in> set pods. ordinary p \<and> ''DaemonSet'' \<in> set (owners p)}"
    "set (pl_to_delete ?l) = pod_id ` {p \<in> set pods. free_to_go p}"
    "set (pl_unmanaged ?l) = pod_id ` {p \<in> set pods. ordinary p \<and> owners p = []}"
    "set (pl_local_storage ?l) = pod_id ` {p \<in> set pods. stores_locally p}"
    by (simp_all add: file_pods_sets no_pods_def)
  show "set (fst (filter_pods pods force ign del)) = pod_id ` {p \<in> set pods. removable force del p}"
    by (auto simp: filter_pods_def Let_def sets removable_def)
  have empties: "pl_daemon_set ?l = [] \<longleftrightarrow> (\<forall>p \<in> set pods. \<not> (ordinary p \<and> ''DaemonSet'' \<in> set (owners p)))"
    "pl_unmanaged ?l = [] \<longleftrightarrow> (\<forall>p \<in> set pods. \<not> (ordinary p \<and> owners p = []))"
    "pl_local_storage ?l = [] \<longleftrightarrow> (\<forall>p \<in> set pods. \<not> stores_locally p)"
    using sets by (simp_all flip: set_empty) blast+
  show "snd (snd (filter_pods pods force ign del)) = [] \<longleftrightarrow> (\<forall>p \<in> set pods. \<not> refused force ign del p)"
    by (auto simp: filter_pods_def Let_def empties refused_def)
qed

text \<open>C32: The pods to remove are exactly the ones that may go whatever the options say, the unmanaged
  ones under \<open>force\<close> and the ones with local storage under \<open>delete_emptydir_data\<close>; there is an
  error exactly when some pod needs an option that is not set.\<close>

theorem filter_pods_exact:
  "case filter_pods pods force ign del of (to_delete, warnings, errors) \<Rightarrow>
     set to_delete = pod_id ` {p \<in> set pods. removable force del p}
     \<and> (errors = [] \<longleftrightarrow> list_all (\<lambda>p. \<not> refused force ign del p) pods)"
  using filter_pods_parts [where pods = pods and force = force and ign = ign and del = del]
  by (simp add: split_beta list_all_iff)

section \<open>A refused drain leaves the node as it was\<close>

definition patch_event :: "string \<Rightarrow> bool \<Rightarrow> event" where
  "patch_event name b = Ext ''patch_node'' [PStr name, PDict [(''spec'', unschedulable b)]]"

definition list_event :: "string \<Rightarrow> string list \<Rightarrow> event" where
  "list_event name sel = Ext ''list_pod_for_all_namespaces'' [PDict ((''field_selector'', PStr (''spec.nodeName='' @ name))
     # (if sel = [] then [] else [(''label_selector'', PStr (py_join '','' sel))]))]"

lemma patch_node_ok:
  "\<exists>v. cv_patch_node A h name (PDict [(''spec'', s)]) = Inr v
    \<Longrightarrow> \<exists>v. patch_node A name s h = (Inr v, h @ [Ext ''patch_node'' [PStr name, PDict [(''spec'', s)]]])"
  by (auto simp: patch_node_def patch_node_request_def request_def run_try)

text \<open>C8: When some pod may not be removed, draining removes none: the requests sent are the cordon, the
  listing of the pods and, if the module itself cordoned the node, the patch that lifts it again.\<close>

theorem refused_drain_removes_nothing:
  assumes "\<And>h body. \<exists>v. cv_patch_node A h name body = Inr v"
    and "\<And>h params. cv_list_pods A h params = Inr pods"
    and "\<exists>p \<in> set pods. refused (do_force opts) (do_ignore_daemonsets opts) (do_delete_emptydir_data opts) p"
  shows "\<exists>kvs. delete_or_evict_pods A fuel name sel opts cordoned h
    = (Inl (FailJson kvs), h @ (if cordoned then [list_event name sel]
         else [patch_event name True, list_event name sel, patch_event name False]))"
proof -
  let ?f = "filter_pods pods (do_force opts) (do_ignore_daemonsets opts) (do_delete_emptydir_data opts)"
  obtain d w e where f: "?f = (d, w, e)" by (metis prod_cases3)
  have "e \<noteq> []" using filter_pods_parts(2) [of pods "do_force opts" "do_ignore_daemonsets opts" "do_delete_emptydir_data opts"] assms(3) f by auto
  moreover have "list_pods A name sel h = (Inr pods, h @ [list_event name sel])" for h
    using assms(2) by (simp add: list_pods_def request_def list_event_def Let_def)
  ultimately have choose: "choose_pods A name sel opts c h
      = revert_and_fail A name c (''Pod deletion errors: '' @ py_join '' '' e) [] (h @ [list_event name sel])" for c h
    by (simp add: choose_pods_def run_bind run_simps f)
  have patch: "\<exists>v. patch_node A name (unschedulable b) h = (Inr v, h @ [patch_event name b])" for b h
    unfolding patch_event_def using assms(1) by (intro patch_node_ok)
  show ?thesis
  proof (cases cordoned)
    case True
    then show ?thesis
      by (simp add: delete_or_evict_pods_def cordon_first_def run_bind run_simps choose revert_and_fail_def fail_with_def)
  next
    case False
    obtain v where v: "patch_node A name (unschedulable True) h = (Inr v, h @ [patch_event name True])" using patch by blast
    obtain v' where v': "patch_node A name (unschedulable False) (h @ [patch_event name True, list_event name sel])
        = (Inr v', h @ [patch_event name True, list_event name sel, patch_event name False])" using patch [of False "h @ [patch_event name True, list_event name sel]"] by auto
    show ?thesis using False v v'
      by (simp add: delete_or_evict_pods_def cordon_first_def run_bind run_simps choose revert_and_fail_def fail_with_def)
  qed
qed

theorem refused_drain_removes_nothing_witness:
  "\<exists>kvs. delete_or_evict_pods ((one_node [])\<lparr>cv_list_pods := \<lambda>h params. Inr
        [\<lparr>pod_namespace = ''default'', pod_name = ''app'', pod_annotations = None, pod_phase = ''Running'',
          pod_volumes = None, pod_owners = None\<rparr>]\<rparr>) 0 ''n'' []
      \<lparr>do_grace = None, do_force = False, do_ignore_daemonsets = True, do_delete_emptydir_data = True,
       do_disable_eviction = False, do_wait_timeout = None, do_wait_sleep = 5\<rparr> False []
    = (Inl (FailJson kvs), [patch_event ''n'' True, list_event ''n'' [], patch_event ''n'' False])"
proof -
  let ?p = "\<lparr>pod_namespace = ''default'', pod_name = ''app'', pod_annotations = None, pod_phase = ''Running'',
          pod_volumes = None, pod_owners = None\<rparr>"
  let ?o = "\<lparr>do_grace = None, do_force = False, do_ignore_daemonsets = True, do_delete_emptydir_data = True,
       do_disable_eviction = False, do_wait_timeout = None, do_wait_sleep = 5\<rparr>"
  have "\<exists>p \<in> set [?p]. refused (do_force ?o) (do_ignore_daemonsets ?o) (do_delete_emptydir_data ?o) p"
    by (simp add: refused_def ordinary_def is_mirror_def is_finished_def has_local_storage_def owners_def)
  then show ?thesis
    using refused_drain_removes_nothing [where A = "(one_node [])\<lparr>cv_list_pods := \<lambda>h params. Inr [?p]\<rparr>" and pods = "[?p]"
        and opts = ?o and fuel = 0 and name = "''n''" and sel = "[]" and cordoned = False and h = "[]"]
    by (simp add: one_node_def)
qed

section \<open>Waiting\<close>

text \<open>The pod that is taken from the list first is not waited for when it is the only one: the wait
  returns at once and reads no pod.\<close>

theorem lonely_pod_not_awaited:
  "wait_for_pod_deletion A (Suc fuel) [pod] wait_timeout wait_sleep h = (Inr None, h @ [Monotonic, Monotonic])"
  by (simp add: wait_for_pod_deletion_def now_def elapsed_time_def run_bind run_simps)

text \<open>Each pod has a time of its own, in seconds of sleep, by which the server no longer finds it; before that it may
  be found or not.\<close>

definition pods_end :: "core_v1 \<Rightarrow> (pod_id \<Rightarrow> int) \<Rightarrow> bool" where
  "pods_end A lifetime \<longleftrightarrow> (\<forall>h pod. (cv_read_pod A h pod = Inr True \<or> cv_read_pod A h pod = Inl (ApiException ''Not Found''))
     \<and> (lifetime pod * 10 ^ 9 \<le> slept h \<longrightarrow> cv_read_pod A h pod = Inl (ApiException ''Not Found'')))"

lemma poll_pod_ends:
  assumes "pods_end A lifetime" and "0 \<le> wait_sleep"
  shows "poll_pod A wait_sleep pod h = (Inr True, h @ [Ext ''read_namespaced_pod'' (pod_args pod), Sleep wait_sleep]) \<and> slept h < lifetime pod * 10 ^ 9
    \<or> poll_pod A wait_sleep pod h = (Inr False, h @ [Ext ''read_namespaced_pod'' (pod_args pod)])"
proof -
  from assms(1) have "cv_read_pod A h pod = Inr True \<and> slept h < lifetime pod * 10 ^ 9
      \<or> cv_read_pod A h pod = Inl (ApiException ''Not Found'')"
    unfolding pods_end_def by (metis linorder_not_le)
  with assms(2) show ?thesis by (auto simp: poll_pod_def request_def run_bind run_simps)
qed

lemma wait_pods_step:
  "wait_pods A start 0 wait_sleep (Suc fuel) pod pods h =
     (if pods = [] then (Inr None, h @ [Monotonic])
      else (let (p, rest) = (case pod of Some p \<Rightarrow> (p, pods) | None \<Rightarrow> (last pods, butlast pods))
            in bindI (poll_pod A wait_sleep p) (\<lambda>alive.
               wait_pods A start 0 wait_sleep fuel (if alive then Some p else None) rest) (h @ [Monotonic])))"
  by (cases pod) (simp_all add: elapsed_time_def now_def run_bind run_simps Let_def)

text \<open>\<open>k\<close> seconds have been slept: every poll of a pod that is found takes one at least.\<close>

lemma wait_pods_end:
  assumes "pods_end A lifetime" and "1 \<le> wait_sleep" and "\<And>pod. pod \<in> S \<Longrightarrow> lifetime pod \<le> limit"
  shows "set_option pod \<union> set pods \<subseteq> S \<Longrightarrow> k * 10 ^ 9 \<le> slept h \<Longrightarrow> nat (limit - k) + 2 * length pods + (if pod = None then 0 else 1) < fuel
    \<Longrightarrow> fst (wait_pods A start 0 wait_sleep fuel pod pods h) = Inr None"
proof (induction fuel arbitrary: pod pods h k)
  case (Suc fuel)
  show ?case
  proof (cases "pods = []")
    case False
    obtain p rest where r: "(case pod of Some p \<Rightarrow> (p, pods) | None \<Rightarrow> (last pods, butlast pods)) = (p, rest)"
      by (cases pod) auto
    let ?h = "h @ [Monotonic]"
    let ?next = "\<lambda>alive h'. wait_pods A start 0 wait_sleep fuel (if alive then Some p else None) rest h'"
    have len: "2 * length rest + (if pod = None then 2 else 0) = 2 * length pods"
      using r False by (cases pod; cases pods rule: rev_cases) auto
    have S: "p \<in> S" "set rest \<subseteq> S"
      using r False Suc.prems(1) by (cases pod; auto dest: in_set_butlastD)+
    have step: "wait_pods A start 0 wait_sleep (Suc fuel) pod pods h
      = bindI (poll_pod A wait_sleep p) (\<lambda>alive. wait_pods A start 0 wait_sleep fuel (if alive then Some p else None) rest) ?h"
      using False r by (simp add: wait_pods_step del: wait_pods.simps)
    have same: "slept ?h = slept h" by (simp add: slept_def)
    consider
        "poll_pod A wait_sleep p ?h = (Inr True, ?h @ [Ext ''read_namespaced_pod'' (pod_args p), Sleep wait_sleep])" "slept ?h < lifetime p * 10 ^ 9"
      | "poll_pod A wait_sleep p ?h = (Inr False, ?h @ [Ext ''read_namespaced_pod'' (pod_args p)])"
      using poll_pod_ends [OF assms(1), of wait_sleep p ?h] assms(2) by auto
    then show ?thesis
    proof cases
      case 1
      let ?h' = "?h @ [Ext ''read_namespaced_pod'' (pod_args p), Sleep wait_sleep]"
      have "lifetime p * 10 ^ 9 \<le> limit * (10 ^ 9 :: int)" using assms(3) [OF S(1)] by simp
      with 1(2) Suc.prems(2) same have "k * 10 ^ 9 < limit * (10 ^ 9 :: int)" by linarith
      then have "k < limit" by simp
      then have "nat (limit - (k + 1)) + 2 * length rest + 1 < fuel"
        using Suc.prems(3) len by (auto split: if_splits)
      moreover have "(k + 1) * 10 ^ 9 \<le> slept ?h'"
        using Suc.prems(2) assms(2) by (simp add: slept_def)
      ultimately have "fst (wait_pods A start 0 wait_sleep fuel (Some p) rest ?h') = Inr None"
        using Suc.IH [of "Some p" rest "k + 1" ?h'] S by simp
      with 1(1) show ?thesis unfolding step by (simp add: run_bind del: wait_pods.simps)
    next
      case 2
      let ?h' = "?h @ [Ext ''read_namespaced_pod'' (pod_args p)]"
      have "nat (limit - k) + 2 * length rest < fuel" using Suc.prems(3) len by (auto split: if_splits)
      moreover have "k * 10 ^ 9 \<le> slept ?h'" using Suc.prems(2) by (simp add: slept_def)
      ultimately have "fst (wait_pods A start 0 wait_sleep fuel None rest ?h') = Inr None"
        using Suc.IH [of None rest k ?h'] S by simp
      with 2 show ?thesis unfolding step by (simp add: run_bind del: wait_pods.simps)
    qed
  qed (simp add: wait_pods_step del: wait_pods.simps)
qed simp

text \<open>C39: Without a timeout the wait for evicted pods ends: each pod may go at a time of its own; if none lasts longer than
  \<open>limit\<close> seconds, the wait, which sleeps at least a second between two looks at a pod, returns without a warning after
  at most \<open>limit + 2 * n\<close> rounds for \<open>n\<close> pods.\<close>

theorem drain_wait_ends:
  assumes "pods_end A lifetime" and "\<And>pod. pod \<in> set pods \<Longrightarrow> lifetime pod \<le> limit"
    and "1 \<le> wait_sleep" and "pods \<noteq> []" and "nat limit + 2 * length pods \<le> fuel"
  shows "fst (wait_for_pod_deletion A fuel pods 0 wait_sleep h) = Inr None"
proof -
  have "nat (limit - 0) + 2 * length (butlast pods) + 1 < fuel"
    using assms(4,5) by (cases pods rule: rev_cases) auto
  moreover have "set_option (Some (last pods)) \<union> set (butlast pods) \<subseteq> set pods" using assms(4) by (auto dest: in_set_butlastD)
  ultimately have "fst (wait_pods A start 0 wait_sleep fuel (Some (last pods)) (butlast pods) (h @ [Monotonic])) = Inr None" for start
    by (intro wait_pods_end [OF assms(1,3,2), where k = 0]) (simp_all add: slept_nonneg)
  then show ?thesis using assms(4) by (simp add: wait_for_pod_deletion_def now_def run_bind)
qed

text \<open>Two pods, gone after ten and after twenty-five seconds.\<close>

definition two_lifetimes :: "pod_id \<Rightarrow> int" where
  "two_lifetimes pod = (if snd pod = ''a'' then 10 else 25)"

theorem drain_wait_ends_witness:
  "fst (wait_for_pod_deletion ((one_node [])\<lparr>cv_read_pod := \<lambda>h pod. if slept h < two_lifetimes pod * 10 ^ 9 then Inr True else Inl (ApiException ''Not Found'')\<rparr>)
     29 [(''default'', ''a''), (''default'', ''b'')] 0 5 []) = Inr None"
  by (rule drain_wait_ends [where lifetime = two_lifetimes and limit = 25]) (auto simp: pods_end_def two_lifetimes_def)

end
