(* ===== verification/K8sMerge.thy ===== *)
theory K8sMerge
  imports K8sApply
begin

text \<open>
  What the three-way merge of \<open>K8sApply\<close> is for. \<open>merge_patch\<close> is the JSON merge patch
  of RFC 7386, which the API server applies to the live object; \<open>three_way\<close> is the
  contract: every field of the desired configuration has its value, every field that was
  last applied and is no longer desired is gone, every other field is as it was. The main
  lemma \<open>delta_three_way\<close> shows that the patch built by the code establishes it.
\<close>

section \<open>What Ansible documents of dict_merge\<close>

locale dict_merging =
  fixes dm :: "dict \<Rightarrow> dict \<Rightarrow> dict"
  assumes dm_lookup: "wf_dict a \<Longrightarrow> wf_dict b \<Longrightarrow> map_of (dm a b) k =
      (case map_of b k of
         None \<Rightarrow> map_of a k
       | Some v \<Rightarrow> Some (case (map_of a k, v) of
             (Some (PDict x), PDict y) \<Rightarrow> PDict (dm x y) | _ \<Rightarrow> v))"
    and dm_wf: "wf_dict a \<Longrightarrow> wf_dict b \<Longrightarrow> wf_dict (dm a b)"

fun dict_merge_ref :: "dict \<Rightarrow> dict \<Rightarrow> dict" where
  "dict_merge_ref a b = foldl (\<lambda>acc (k, v). AList.update k
      (case (map_of acc k, v) of (Some (PDict x), PDict y) \<Rightarrow> PDict (dict_merge_ref x y) | _ \<Rightarrow> v) acc) a b"

declare dict_merge_ref.simps [simp del]

text \<open>A loop over the entries of a dictionary that rewrites one key of the accumulator each.\<close>

lemma map_of_foldl_update:
  assumes "distinct (map fst b)"
  shows "map_of (foldl (\<lambda>acc (k, v). AList.update k (f (map_of acc k) v) acc) a b) k =
    (case map_of b k of None \<Rightarrow> map_of a k | Some v \<Rightarrow> Some (f (map_of a k) v))"
  using assms
proof (induction b arbitrary: a)
  case (Cons p b)
  obtain k' v' where p: "p = (k', v')" by (cases p)
  have "map_of b k' = None" using Cons.prems by (simp add: p map_of_eq_None_iff)
  with Cons p show ?case by (auto simp: map_of_update split: option.splits)
qed simp

lemma wf_dict_foldl_update:
  assumes "wf_dict a" and "wf_dict b"
    and "\<And>k v w. (k, v) \<in> set b \<Longrightarrow> wf_py v \<Longrightarrow> (\<And>u. w = Some u \<Longrightarrow> wf_py u) \<Longrightarrow> wf_py (f w v)"
  shows "wf_dict (foldl (\<lambda>acc (k, v). AList.update k (f (map_of acc k) v) acc) a b)"
  using assms
proof (induction b arbitrary: a)
  case (Cons p b)
  obtain k v where p: "p = (k, v)" by (cases p)
  have "wf_py (f (map_of a k) v)"
    using Cons.prems by (intro Cons.prems(3) [of k]) (auto simp: p intro: wf_dict_lookup)
  then have a: "wf_dict (AList.update k (f (map_of a k) v) a)"
    using Cons.prems(1) by (intro wf_dict_update)
  have b: "wf_dict b" using Cons.prems(2) by (simp add: p)
  have "wf_dict (foldl (\<lambda>acc (k, v). AList.update k (f (map_of acc k) v) acc)
      (AList.update k (f (map_of a k) v) a) b)"
    using Cons.prems(3) by (intro Cons.IH [OF a b]) auto
  then show ?case by (simp add: p)
qed simp

abbreviation dict_merge_value :: "pyval option \<Rightarrow> pyval \<Rightarrow> pyval" where
  "dict_merge_value w v \<equiv>
     (case (w, v) of (Some (PDict x), PDict y) \<Rightarrow> PDict (dict_merge_ref x y) | _ \<Rightarrow> v)"

lemma dict_merge_ref_fold:
  "dict_merge_ref a b = foldl (\<lambda>acc (k, v). AList.update k (dict_merge_value (map_of acc k) v) acc) a b"
  by (subst dict_merge_ref.simps) simp

lemma wf_dict_merge_ref: "wf_dict a \<Longrightarrow> wf_dict b \<Longrightarrow> wf_dict (dict_merge_ref a b)"
proof (induction "dict_size b" arbitrary: a b rule: less_induct)
  case less
  show ?case
  proof (subst dict_merge_ref_fold, rule wf_dict_foldl_update [OF less.prems])
    fix k v and w :: "pyval option"
    assume kv: "(k, v) \<in> set b" and v: "wf_py v" and w: "\<And>u. w = Some u \<Longrightarrow> wf_py u"
    show "wf_py (dict_merge_value w v)"
    proof (cases "\<exists>x y. w = Some (PDict x) \<and> v = PDict y")
      case True
      then obtain x y where xy: "w = Some (PDict x)" "v = PDict y" by blast
      have "dict_size y < dict_size b" using dict_size_entry [OF kv] xy by simp
      then have "wf_dict (dict_merge_ref x y)"
        by (rule less.hyps) (use v w xy in auto)
      with xy show ?thesis by simp
    next
      case False
      with v show ?thesis by (auto split: option.splits pyval.splits)
    qed
  qed
qed

interpretation ref: dict_merging dict_merge_ref
proof
  fix a b :: dict and k
  assume "wf_dict a" "wf_dict b"
  then show "map_of (dict_merge_ref a b) k = (case map_of b k of None \<Rightarrow> map_of a k
      | Some v \<Rightarrow> Some (dict_merge_value (map_of a k) v))"
    by (subst dict_merge_ref_fold, intro map_of_foldl_update) simp
qed (rule wf_dict_merge_ref)

section \<open>The server's merge patch\<close>

fun merge_patch :: "pyval \<Rightarrow> pyval \<Rightarrow> pyval" where
  "merge_patch target (PDict patch) = PDict (foldl (\<lambda>t (k, p).
      if p = PNone then AList.delete k t
      else AList.update k (merge_patch (dget t k) p) t)
      (case target of PDict t \<Rightarrow> t | _ \<Rightarrow> []) patch)"
| "merge_patch target p = p"

declare merge_patch.simps(1) [simp del]

definition patched :: "dict \<Rightarrow> dict \<Rightarrow> dict" where
  "patched t patch = foldl (\<lambda>t (k, p).
      if p = PNone then AList.delete k t
      else AList.update k (merge_patch (dget t k) p) t) t patch"

lemma merge_patch_dict [simp]:
  "merge_patch (PDict t) (PDict p) = PDict (patched t p)"
  "merge_patch PNone (PDict p) = PDict (patched [] p)"
  by (simp_all add: merge_patch.simps(1) patched_def)

lemma map_of_patched:
  assumes "distinct (map fst patch)"
  shows "map_of (patched t patch) k = (case map_of patch k of
      None \<Rightarrow> map_of t k
    | Some p \<Rightarrow> if p = PNone then None else Some (merge_patch (dget t k) p))"
  using assms unfolding patched_def
proof (induction patch arbitrary: t)
  case (Cons q patch)
  obtain k' p' where q: "q = (k', p')" by (cases q)
  have "map_of patch k' = None" using Cons.prems by (simp add: q map_of_eq_None_iff)
  with Cons q show ?case
    by (auto simp: map_of_update delete_conv' dget_def split: option.splits)
qed simp

section \<open>The contract\<close>

text \<open>The mapping below a key, empty when there is none.\<close>

definition sub_dict :: "dict \<Rightarrow> string \<Rightarrow> dict" where
  "sub_dict d k = (case map_of d k of Some (PDict x) \<Rightarrow> x | _ \<Rightarrow> [])"

fun three_way :: "dict \<Rightarrow> dict \<Rightarrow> dict \<Rightarrow> dict \<Rightarrow> bool" where
  "three_way last_applied desired actual r \<longleftrightarrow>
     list_all (\<lambda>(k, v).
       (case v of
          PDict d \<Rightarrow> (case map_of r k of
              Some (PDict r') \<Rightarrow> three_way (sub_dict last_applied k) d (sub_dict actual k) r'
            | _ \<Rightarrow> False)
        | _ \<Rightarrow> (case map_of r k of Some w \<Rightarrow> py_eq w v | None \<Rightarrow> False))) desired
     \<and> list_all (\<lambda>k. has_key desired k \<or>
          map_of r k = (if dget last_applied k \<noteq> PNone then None else map_of actual k))
        (map fst last_applied @ map fst actual @ map fst r)"

declare three_way.simps [simp del]

text \<open>
  The configurations the contract is about. \<open>plain\<close>: no nulls, and lists only where the
  code replaces them whole (not at a strategic merge key), non-empty and without nulls.
  \<open>conforms\<close>: where the desired configuration has a mapping, so has the other one, if it
  has the field at all (or, for the live object, a null).
\<close>

fun plain :: "string \<Rightarrow> dict \<Rightarrow> bool" where
  "plain position d = list_all (\<lambda>(k, v).
     (case v of
        PNone \<Rightarrow> False
      | PDict d' \<Rightarrow> plain (position @ ''.'' @ k) d'
      | PList xs \<Rightarrow> merge_key (position @ ''.'' @ k) = None \<and> xs \<noteq> [] \<and> PNone \<notin> set xs
      | _ \<Rightarrow> True)) d"

declare plain.simps [simp del]

fun conforms :: "bool \<Rightarrow> dict \<Rightarrow> dict \<Rightarrow> bool" where
  "conforms null_ok other d = list_all (\<lambda>(k, v).
     (case v of
        PDict d' \<Rightarrow> (case map_of other k of
            None \<Rightarrow> True
          | Some (PDict x) \<Rightarrow> conforms null_ok x d'
          | Some PNone \<Rightarrow> null_ok
          | _ \<Rightarrow> False)
      | _ \<Rightarrow> True)) d"

declare conforms.simps [simp del]

lemma plainD:
  assumes "plain position d" and "(k, v) \<in> set d"
  shows "v \<noteq> PNone" and "v = PDict d' \<Longrightarrow> plain (position @ ''.'' @ k) d'"
    and "v = PList xs \<Longrightarrow> merge_key (position @ ''.'' @ k) = None \<and> xs \<noteq> [] \<and> PNone \<notin> set xs"
  using assms by (auto simp: plain.simps [of position d] list_all_iff)

lemma conformsD:
  assumes "conforms b other d" and "(k, PDict d') \<in> set d"
  shows "map_of other k = None \<or> (\<exists>x. map_of other k = Some (PDict x) \<and> conforms b x d')
     \<or> (b \<and> map_of other k = Some PNone)"
proof -
  from assms have *: "case map_of other k of None \<Rightarrow> True
      | Some (PDict x) \<Rightarrow> conforms b x d' | Some PNone \<Rightarrow> b | _ \<Rightarrow> False"
    by (fastforce simp: conforms.simps [of b other d] list_all_iff)
  show ?thesis
  proof (cases "map_of other k")
    case (Some w)
    with * show ?thesis by (cases w) auto
  qed simp
qed

lemma conforms_Nil [simp]: "conforms b [] d"
proof (induction b "[] :: dict" d rule: conforms.induct)
  case (1 b d)
  then show ?case by (auto simp: conforms.simps [of b "[]" d] list_all_iff split: pyval.splits)
qed

section \<open>Deletions and delta, entry by entry\<close>

definition deletion_entry :: "pyval \<Rightarrow> pyval \<Rightarrow> pyval option" where
  "deletion_entry lv dv = (case (lv, dv) of
      (PDict l, PDict d) \<Rightarrow> (let p = get_deletions l d in if p \<noteq> [] then Some (PDict p) else None)
    | _ \<Rightarrow> (if \<not> py_eq lv dv then Some dv else None))"

lemma get_deletions_entry:
  "get_deletions la de = concat (map (\<lambda>(k, lv).
     case deletion_entry lv (dget de k) of None \<Rightarrow> [] | Some w \<Rightarrow> [(k, w)]) la)"
proof -
  have "(case (lv, dget de k) of
        (PDict l, PDict d) \<Rightarrow> (let p = get_deletions l d in if p \<noteq> [] then [(k, PDict p)] else [])
      | (_, dv) \<Rightarrow> (if \<not> py_eq lv dv then [(k, dv)] else []))
    = (case deletion_entry lv (dget de k) of None \<Rightarrow> [] | Some w \<Rightarrow> [(k, w)])" for k lv
    by (cases lv; cases "dget de k") (simp_all add: deletion_entry_def Let_def del: py_eq.simps)
  then show ?thesis by (subst get_deletions.simps) (simp add: case_prod_beta)
qed

lemma map_of_get_deletions:
  assumes "distinct (map fst la)"
  shows "map_of (get_deletions la de) k =
    (case map_of la k of None \<Rightarrow> None | Some lv \<Rightarrow> deletion_entry lv (dget de k))"
  unfolding get_deletions_entry
  by (rule map_of_concat_keyed [OF assms, where g = "\<lambda>k v. deletion_entry v (dget de k)"]) simp

lemma wf_dget: "wf_dict d \<Longrightarrow> wf_py (dget d k)"
  by (auto simp: dget_def intro: wf_dict_lookup split: option.split)

lemma wf_get_deletions: "wf_dict la \<Longrightarrow> wf_dict de \<Longrightarrow> wf_dict (get_deletions la de)"
proof (induction "dict_size la" arbitrary: la de rule: less_induct)
  case less
  have "wf_py w" if "map_of la k = Some lv" "deletion_entry lv (dget de k) = Some w" for k lv w
  proof (cases "\<exists>l d. lv = PDict l \<and> dget de k = PDict d")
    case True
    then obtain l d where ld: "lv = PDict l" "dget de k = PDict d" by blast
    have "dict_size l < dict_size la"
      using dict_size_entry [OF map_of_SomeD [OF that(1)]] ld by simp
    moreover have "wf_dict l" "wf_dict d"
      using less.prems that(1) ld wf_dget [of de k] by (auto dest: wf_dict_lookup simp del: wf_py.simps)
    ultimately have "wf_dict (get_deletions l d)" by (rule less.hyps)
    with that ld show ?thesis by (auto simp: deletion_entry_def Let_def split: if_splits)
  next
    case False
    then have "w = dget de k"
      using that(2) by (cases lv; cases "dget de k") (auto simp: deletion_entry_def split: if_splits)
    with less.prems(2) show ?thesis by (simp add: wf_dget del: wf_py.simps)
  qed
  note entry = this
  have dist: "distinct (map fst (get_deletions la de))"
    unfolding get_deletions_entry using less.prems(1)
    by (intro distinct_concat_keyed [where g = "\<lambda>k v. deletion_entry v (dget de k)"]) auto
  have "wf_py w" if "(k, w) \<in> set (get_deletions la de)" for k w
  proof -
    have "map_of (get_deletions la de) k = Some w" using dist that by simp
    then show ?thesis
      using less.prems(1) entry by (auto simp: map_of_get_deletions split: option.splits)
  qed
  with dist show ?case by (auto simp: list_all_iff)
qed

text \<open>On conforming plain configurations the delta does not depend on the last applied one.\<close>

fun plain_delta :: "dict \<Rightarrow> dict \<Rightarrow> dict" where
  "plain_delta ac d = concat (map (\<lambda>(k, v).
     (if dget ac k = PNone then [(k, v)]
      else (case v of
          PDict d' \<Rightarrow> (let p = plain_delta (sub_dict ac k) d' in if p \<noteq> [] then [(k, PDict p)] else [])
        | PList xs \<Rightarrow> [(k, PList xs)]
        | _ \<Rightarrow> (if \<not> py_eq (dget ac k) v then [(k, v)] else [])))) d)"

declare plain_delta.simps [simp del]

lemma get_delta_plain:
  assumes "plain position d" and "conforms True ac d" and "conforms False la d"
  shows "get_delta dm (PDict la) (PDict ac) d (Some position) = Inr (plain_delta ac d)"
  using assms
proof (induction "dict_size d" arbitrary: position d ac la rule: less_induct)
  case less
  have step: "(\<lambda>(k, v). bindR (py_get (PDict ac) k PNone) (\<lambda>actual_value.
         if actual_value = PNone then Inr [(k, v)]
         else (case v of
             PDict d \<Rightarrow>
               bindR (py_get (PDict la) k (PDict [])) (\<lambda>l.
               bindR (sub_position (Some position) k) (\<lambda>this_position.
               bindR (get_delta dm l actual_value d (Some this_position)) (\<lambda>p.
                 Inr (if p \<noteq> [] then [(k, PDict p)] else []))))
           | PList xs \<Rightarrow>
               bindR (py_get (PDict la) k (PList [])) (\<lambda>l.
               bindR (sub_position (Some position) k) (\<lambda>this_position.
               bindR (list_merge dm l actual_value xs this_position) (\<lambda>p.
                 Inr (if p \<noteq> [] then [(k, PList (filter (\<lambda>item. item \<noteq> PNone) p))] else []))))
           | _ \<Rightarrow> Inr (if \<not> py_eq actual_value v then [(k, v)] else [])))) x
     = Inr ((\<lambda>(k, v). if dget ac k = PNone then [(k, v)]
      else (case v of
          PDict d' \<Rightarrow> (let p = plain_delta (sub_dict ac k) d' in if p \<noteq> [] then [(k, PDict p)] else [])
        | PList xs \<Rightarrow> [(k, PList xs)]
        | _ \<Rightarrow> (if \<not> py_eq (dget ac k) v then [(k, v)] else []))) x)"
    if x: "x \<in> set d" for x
  proof (cases "dget ac (fst x) = PNone")
    case False
    obtain k v where kv': "x = (k, v)" by (cases x)
    have kv: "(k, v) \<in> set d" using x kv' by simp
    have nn: "dget ac k \<noteq> PNone" using False kv' by simp
    have get: "py_get (PDict ac) k PNone = Inr (dget ac k)"
      by (simp add: py_get_def dget_def)
    show ?thesis
    proof (cases v)
      case (PDict d')
      have d': "(k, PDict d') \<in> set d" using kv PDict by simp
      from conformsD [OF less.prems(2) d'] nn obtain a' where
        a': "map_of ac k = Some (PDict a')" "conforms True a' d'" by auto
      from conformsD [OF less.prems(3) d'] obtain l' where
        l': "py_get (PDict la) k (PDict []) = Inr (PDict l')" "conforms False l' d'"
        by (auto simp: py_get_def)
      have "get_delta dm (PDict l') (PDict a') d' (Some (position @ ''.'' @ k)) = Inr (plain_delta a' d')"
        using dict_size_entry [OF d'] plainD(2) [OF less.prems(1) kv PDict] a'(2) l'(2)
        by (intro less.hyps) auto
      with a' l' PDict kv' show ?thesis
        by (simp add: get sub_position_def sub_dict_def Let_def)
    next
      case (PList xs)
      have "merge_key (position @ ''.'' @ k) = None" "xs \<noteq> []" "PNone \<notin> set xs"
        using plainD(3) [OF less.prems(1) kv PList] by auto
      moreover from this have "filter (\<lambda>item. item \<noteq> PNone) xs = xs"
        by (metis (mono_tags, lifting) filter_True)
      ultimately show ?thesis
        using nn PList kv' by (simp add: get sub_position_def py_get_def list_merge.simps)
    qed (use nn kv' in \<open>simp_all add: get\<close>)
  qed (cases x; simp add: py_get_def dget_def split: option.splits)
  show ?case
    by (subst get_delta.simps, subst plain_delta.simps, subst mapR_Inr [OF step]) simp_all
qed

definition delta_entry :: "dict \<Rightarrow> string \<Rightarrow> pyval \<Rightarrow> pyval option" where
  "delta_entry ac k v = (if dget ac k = PNone then Some v
     else (case v of
         PDict d' \<Rightarrow> (let p = plain_delta (sub_dict ac k) d' in if p \<noteq> [] then Some (PDict p) else None)
       | PList xs \<Rightarrow> Some v
       | _ \<Rightarrow> (if \<not> py_eq (dget ac k) v then Some v else None)))"

lemma plain_delta_entry:
  "plain_delta ac d = concat (map (\<lambda>(k, v).
     case delta_entry ac k v of None \<Rightarrow> [] | Some w \<Rightarrow> [(k, w)]) d)"
proof -
  have "(if dget ac k = PNone then [(k, v)]
      else (case v of
          PDict d' \<Rightarrow> (let p = plain_delta (sub_dict ac k) d' in if p \<noteq> [] then [(k, PDict p)] else [])
        | PList xs \<Rightarrow> [(k, PList xs)]
        | _ \<Rightarrow> (if \<not> py_eq (dget ac k) v then [(k, v)] else [])))
    = (case delta_entry ac k v of None \<Rightarrow> [] | Some w \<Rightarrow> [(k, w)])" for k v
    by (cases v) (simp_all add: delta_entry_def Let_def del: py_eq.simps)
  then show ?thesis by (subst plain_delta.simps) (simp add: case_prod_beta)
qed

lemma map_of_plain_delta:
  assumes "distinct (map fst d)"
  shows "map_of (plain_delta ac d) k =
    (case map_of d k of None \<Rightarrow> None | Some v \<Rightarrow> delta_entry ac k v)"
  unfolding plain_delta_entry by (rule map_of_concat_keyed [OF assms]) simp

lemma wf_sub_dict [simp]: "wf_dict d \<Longrightarrow> wf_dict (sub_dict d k)"
  by (auto simp: sub_dict_def simp del: wf_py.simps dest: wf_dict_lookup split: option.splits pyval.splits)

lemma wf_plain_delta: "wf_dict d \<Longrightarrow> wf_dict (plain_delta ac d)"
proof (induction "dict_size d" arbitrary: d ac rule: less_induct)
  case less
  have entry: "wf_py w" if "(k, v) \<in> set d" "delta_entry ac k v = Some w" for k v w
  proof -
    have v: "wf_py v" using wf_dict_value [OF less.prems that(1)] .
    show ?thesis
    proof (cases v)
      case (PDict d')
      then have "wf_dict (plain_delta a d')" for a
        using v dict_size_entry [OF that(1)] by (intro less.hyps) simp_all
      with v that(2) PDict show ?thesis
        by (auto simp: delta_entry_def Let_def simp del: wf_py.simps split: if_splits)
    qed (use v that(2) in \<open>auto simp: delta_entry_def split: if_splits\<close>)
  qed
  have dist: "distinct (map fst (plain_delta ac d))"
    unfolding plain_delta_entry using less.prems by (intro distinct_concat_keyed) auto
  have "wf_py w" if "(k, w) \<in> set (plain_delta ac d)" for k w
    using that entry unfolding plain_delta_entry by (auto split: option.splits)
  with dist show ?case by (auto simp: list_all_iff)
qed

lemma plain_delta_Nil [simp]: "plain_delta [] d = d"
  by (subst plain_delta.simps) (simp add: dget_def)

lemma get_deletions_Nil [simp]: "get_deletions [] d = []"
  by (subst get_deletions.simps) simp

section \<open>The patch establishes the contract\<close>

lemma patched_Nil_cong:
  "distinct (map fst p) \<Longrightarrow> map_of p = map_of q \<Longrightarrow> distinct (map fst q) \<Longrightarrow>
   map_of (patched t p) = map_of (patched t q)"
  by (auto simp: map_of_patched fun_eq_iff)

context dict_merging begin

lemma dm_Nil_left: "wf_dict b \<Longrightarrow> map_of (dm [] b) = map_of b"
  by (rule ext) (simp add: dm_lookup split: option.split)

lemma dm_Nil_right: "wf_dict a \<Longrightarrow> map_of (dm a []) = map_of a"
  by (rule ext) (simp add: dm_lookup)

text \<open>The combined patch for a field whose desired value is a mapping.\<close>

lemma patch_at_dict:
  assumes wf: "wf_dict la" "wf_dict d" "wf_dict ac"
    and P: "map_of P = map_of (dm (get_deletions la d) (plain_delta ac d))"
    and c: "conforms True ac d" "conforms False la d"
    and k: "map_of d k = Some (PDict d')"
  obtains P' where "map_of P' = map_of (dm (get_deletions (sub_dict la k) d') (plain_delta (sub_dict ac k) d'))"
    and "map_of P k = Some (PDict P') \<or> (map_of P k = None \<and> P' = [] \<and> (\<exists>a'. map_of ac k = Some (PDict a')))"
proof -
  let ?D = "get_deletions (sub_dict la k) d'" and ?E = "plain_delta (sub_dict ac k) d'"
  have wfs: "wf_dict (get_deletions la d)" "wf_dict (plain_delta ac d)" "wf_dict d'"
    using wf k by (auto simp: wf_get_deletions wf_plain_delta simp del: wf_py.simps dest: wf_dict_lookup)
  then have wfDE: "wf_dict ?D" "wf_dict ?E"
    using wf by (simp_all add: wf_get_deletions wf_plain_delta del: wf_py.simps)
  have mem: "(k, PDict d') \<in> set d" using k by (rule map_of_SomeD)
  have dd: "dget d k = PDict d'" using k by simp
  have dist: "distinct (map fst la)" "distinct (map fst d)" using wf by auto
  have D: "map_of (get_deletions la d) k = (if ?D = [] then None else Some (PDict ?D))"
    using conformsD [OF c(2) mem]
    by (auto simp: map_of_get_deletions [OF dist(1)] dd deletion_entry_def sub_dict_def Let_def)
  have E: "map_of (plain_delta ac d) k = (if dget ac k = PNone then Some (PDict ?E)
      else if ?E = [] then None else Some (PDict ?E))"
  proof (cases "dget ac k = PNone")
    case True
    then have "sub_dict ac k = []"
      using conformsD [OF c(1) mem] by (auto simp: sub_dict_def dget_def split: option.splits)
    with True k show ?thesis by (simp add: map_of_plain_delta [OF dist(2)] delta_entry_def)
  next
    case False
    with k show ?thesis by (simp add: map_of_plain_delta [OF dist(2)] delta_entry_def Let_def)
  qed
  have Pk: "map_of P k = (case map_of (plain_delta ac d) k of None \<Rightarrow> map_of (get_deletions la d) k
      | Some v \<Rightarrow> Some (case (map_of (get_deletions la d) k, v) of
          (Some (PDict x), PDict y) \<Rightarrow> PDict (dm x y) | _ \<Rightarrow> v))"
    using wfs by (simp add: P dm_lookup del: wf_py.simps)
  consider "dget ac k = PNone \<or> ?E \<noteq> []" | "dget ac k \<noteq> PNone" "?E = []" "?D \<noteq> []"
    | "dget ac k \<noteq> PNone" "?E = []" "?D = []" by blast
  then show thesis
  proof cases
    case 1
    then have "map_of P k = Some (PDict (if ?D = [] then ?E else dm ?D ?E))"
      using Pk D E by auto
    then show thesis
      using wfDE by (intro that [of "if ?D = [] then ?E else dm ?D ?E"]) (auto simp: dm_Nil_left simp del: wf_py.simps)
  next
    case 2
    then have "map_of P k = Some (PDict ?D)" using Pk D E by simp
    then show thesis
      using 2 wfDE by (intro that [of ?D]) (auto simp: dm_Nil_right simp del: wf_py.simps)
  next
    case 3
    then have "map_of P k = None" using Pk D E by simp
    moreover have "\<exists>a'. map_of ac k = Some (PDict a')"
      using conformsD [OF c(1) mem] 3(1) by (auto simp: dget_def split: option.splits)
    moreover have "map_of [] = map_of (dm ?D ?E)" using 3 dm_Nil_left [of "[]"] by simp
    ultimately show thesis by (intro that [of "[]"]) auto
  qed
qed

text \<open>The combined patch for a field whose desired value is not a mapping.\<close>

lemma patch_at_value:
  assumes wf: "wf_dict la" "wf_dict d" "wf_dict ac"
    and P: "map_of P = map_of (dm (get_deletions la d) (plain_delta ac d))"
    and k: "map_of d k = Some v" and v: "v \<noteq> PNone" "\<And>d'. v \<noteq> PDict d'"
  shows "map_of P k = Some v \<or> (map_of P k = None \<and> (\<exists>w. map_of ac k = Some w \<and> py_eq w v))"
proof -
  have wfs: "wf_dict (get_deletions la d)" "wf_dict (plain_delta ac d)"
    using wf by (simp_all add: wf_get_deletions wf_plain_delta del: wf_py.simps)
  have dist: "distinct (map fst la)" "distinct (map fst d)" using wf by auto
  have D: "map_of (get_deletions la d) k \<in> {None, Some v}"
  proof -
    have "deletion_entry lv v \<in> {None, Some v}" for lv
      using v(2) by (cases lv; cases v) (auto simp: deletion_entry_def)
    with k show ?thesis by (auto simp: map_of_get_deletions [OF dist(1)] split: option.splits)
  qed
  have E: "delta_entry ac k v = Some v \<or> (delta_entry ac k v = None \<and> (\<exists>w. map_of ac k = Some w \<and> py_eq w v))"
    using v by (cases v; cases "map_of ac k") (auto simp: delta_entry_def)
  have Pk: "map_of P k = (case delta_entry ac k v of None \<Rightarrow> map_of (get_deletions la d) k
      | Some v' \<Rightarrow> Some (case (map_of (get_deletions la d) k, v') of
          (Some (PDict x), PDict y) \<Rightarrow> PDict (dm x y) | _ \<Rightarrow> v'))"
    using wfs k by (simp add: P dm_lookup map_of_plain_delta [OF dist(2)] del: wf_py.simps)
  from E show ?thesis
  proof
    assume "delta_entry ac k v = Some v"
    with Pk v(2) show ?thesis by (auto split: option.splits pyval.splits)
  next
    assume "delta_entry ac k v = None \<and> (\<exists>w. map_of ac k = Some w \<and> py_eq w v)"
    with Pk D show ?thesis by auto
  qed
qed

text \<open>The combined patch for a field that is not desired.\<close>

lemma patch_at_other:
  assumes wf: "wf_dict la" "wf_dict d" "wf_dict ac"
    and P: "map_of P = map_of (dm (get_deletions la d) (plain_delta ac d))"
    and k: "map_of d k = None"
  shows "map_of P k = (if dget la k \<noteq> PNone then Some PNone else None)"
proof -
  have wfs: "wf_dict (get_deletions la d)" "wf_dict (plain_delta ac d)"
    using wf by (simp_all add: wf_get_deletions wf_plain_delta del: wf_py.simps)
  have dist: "distinct (map fst la)" "distinct (map fst d)" using wf by auto
  have "deletion_entry lv PNone = (if lv = PNone then None else Some PNone)" for lv
    by (cases lv) (auto simp: deletion_entry_def)
  with k wfs show ?thesis
    by (simp add: P dm_lookup map_of_plain_delta [OF dist(2)] map_of_get_deletions [OF dist(1)] dget_def
        del: wf_py.simps split: option.split)
qed

theorem patched_three_way:
  assumes "wf_dict la" "wf_dict d" "wf_dict ac" and "plain position d"
    and "conforms True ac d" "conforms False la d"
    and "wf_dict P" and "map_of P = map_of (dm (get_deletions la d) (plain_delta ac d))"
  shows "three_way la d ac (patched ac P)"
  using assms
proof (induction "dict_size d" arbitrary: d la ac P position rule: less_induct)
  case less
  note wf = less.prems(1-3) and P = less.prems(8)
  have distP: "distinct (map fst P)" using less.prems(7) by simp
  note look = map_of_patched [OF distP]
  have desired: "(case v of
       PDict d' \<Rightarrow> (case map_of (patched ac P) k of
           Some (PDict r') \<Rightarrow> three_way (sub_dict la k) d' (sub_dict ac k) r' | _ \<Rightarrow> False)
     | _ \<Rightarrow> (case map_of (patched ac P) k of Some w \<Rightarrow> py_eq w v | None \<Rightarrow> False))"
    if kv: "(k, v) \<in> set d" for k v
  proof -
    have k: "map_of d k = Some v" using kv wf(2) by simp
    have wfv: "wf_py v" using wf_dict_value [OF wf(2) kv] .
    show ?thesis
    proof (cases "\<exists>d'. v = PDict d'")
      case True
      then obtain d' where v: "v = PDict d'" by blast
      obtain P' where P': "map_of P' = map_of (dm (get_deletions (sub_dict la k) d') (plain_delta (sub_dict ac k) d'))"
        "map_of P k = Some (PDict P') \<or> (map_of P k = None \<and> P' = [] \<and> (\<exists>a'. map_of ac k = Some (PDict a')))"
        using patch_at_dict [OF wf P less.prems(5,6)] k v by metis
      have c: "conforms True (sub_dict ac k) d'" "conforms False (sub_dict la k) d'"
        using conformsD [OF less.prems(5)] conformsD [OF less.prems(6)] kv v
        by (fastforce simp: sub_dict_def)+
      have ac: "map_of ac k = None \<or> map_of ac k = Some PNone \<or> (\<exists>a'. map_of ac k = Some (PDict a'))"
        using conformsD [OF less.prems(5)] kv v by blast
      have wfP': "wf_dict P'"
        using P'(2) less.prems(7) by (auto simp del: wf_py.simps dest: wf_dict_lookup)
      have "three_way (sub_dict la k) d' (sub_dict ac k) (patched (sub_dict ac k) P')"
        using wf wfv v plainD(2) [OF less.prems(4) kv v] dict_size_entry [OF kv] c wfP' P'(1)
        by (intro less.hyps) (simp_all del: wf_py.simps)
      moreover have "map_of (patched ac P) k = Some (PDict (patched (sub_dict ac k) P'))"
        using P'(2) ac by (auto simp: look sub_dict_def dget_def patched_def [of _ "[]"])
      ultimately show ?thesis by (simp add: v)
    next
      case False
      then have "map_of P k = Some v \<or> (map_of P k = None \<and> (\<exists>w. map_of ac k = Some w \<and> py_eq w v))"
        using plainD(1) [OF less.prems(4) kv] by (intro patch_at_value [OF wf P k]) auto
      moreover have "merge_patch t v = v" for t using False by (cases v) auto
      ultimately have "\<exists>w. map_of (patched ac P) k = Some w \<and> py_eq w v"
        using py_eq_refl [OF wfv] plainD(1) [OF less.prems(4) kv] by (auto simp: look)
      with False show ?thesis by (cases v) auto
    qed
  qed
  have other: "map_of (patched ac P) k = (if dget la k \<noteq> PNone then None else map_of ac k)"
    if "\<not> has_key d k" for k
    using that patch_at_other [OF wf P, of k] by (simp add: look has_key_def)
  show ?case
    unfolding three_way.simps [of la d ac] list_all_iff
  proof (intro conjI ballI)
    fix x assume "x \<in> set d"
    with desired [of "fst x" "snd x"] show "case x of (k, v) \<Rightarrow> (case v of
       PDict d' \<Rightarrow> (case map_of (patched ac P) k of
           Some (PDict r') \<Rightarrow> three_way (sub_dict la k) d' (sub_dict ac k) r' | _ \<Rightarrow> False)
     | _ \<Rightarrow> (case map_of (patched ac P) k of Some w \<Rightarrow> py_eq w v | None \<Rightarrow> False))"
      by (simp add: case_prod_beta)
  qed (use other in blast)
qed

end

lemma wf_merge_patch: "wf_py t \<Longrightarrow> wf_py p \<Longrightarrow> wf_py (merge_patch t p)"
proof (induction "size p" arbitrary: t p rule: less_induct)
  case less
  show ?case
  proof (cases p)
    case (PDict patch)
    have step: "wf_dict (foldl (\<lambda>t (k, p). if p = PNone then AList.delete k t
        else AList.update k (merge_patch (dget t k) p) t) a ps)"
      if "wf_dict a" "set ps \<subseteq> set patch" for a ps
      using that
    proof (induction ps arbitrary: a)
      case (Cons q ps)
      obtain k v where q: "q = (k, v)" by (cases q)
      have kv: "(k, v) \<in> set patch" using Cons.prems q by auto
      have "wf_py (merge_patch (dget a k) v)"
        using less.prems(2) PDict kv Cons.prems(1) size_dict_value [OF kv, of size]
        by (intro less.hyps) (auto intro: wf_dget wf_dict_value simp del: wf_py.simps)
      then have "wf_dict (AList.update k (merge_patch (dget a k) v) a)"
        using Cons.prems(1) by (intro wf_dict_update)
      moreover have "wf_dict (AList.delete k a)"
        using Cons.prems(1) by (rule wf_dict_delete)
      ultimately show ?case using Cons q by simp
    qed simp
    have "wf_dict (case t of PDict t \<Rightarrow> t | _ \<Rightarrow> [])" using less.prems(1) by (cases t) auto
    from step [OF this subset_refl] show ?thesis by (simp only: PDict merge_patch.simps(1))
  qed (use less.prems in auto)
qed

lemma wf_patched: "wf_dict t \<Longrightarrow> wf_dict p \<Longrightarrow> wf_dict (patched t p)"
  using wf_merge_patch [of "PDict t" "PDict p"] by simp

section \<open>Properties of the merge\<close>

text \<open>What the contract says of one key, whatever the lists it was checked on.\<close>

lemma three_way_other:
  assumes "three_way la d ac r" and "map_of d k = None"
  shows "map_of r k = (if dget la k \<noteq> PNone then None else map_of ac k)"
proof (cases "k \<in> fst ` set la \<union> fst ` set ac \<union> fst ` set r")
  case True
  then have "k \<in> set (map fst la @ map fst ac @ map fst r)" by auto
  with assms show ?thesis
    unfolding three_way.simps [of la d ac] list_all_iff has_key_def by blast
next
  case False
  then have "map_of la k = None" "map_of ac k = None" "map_of r k = None"
    by (auto simp: map_of_eq_None_iff)
  then show ?thesis by simp
qed

lemma three_way_dict:
  assumes "three_way la d ac r" and "(k, PDict d') \<in> set d"
  obtains r' where "map_of r k = Some (PDict r')" "three_way (sub_dict la k) d' (sub_dict ac k) r'"
proof -
  from assms have *: "case map_of r k of
      Some (PDict r') \<Rightarrow> three_way (sub_dict la k) d' (sub_dict ac k) r' | _ \<Rightarrow> False"
    unfolding three_way.simps [of la d ac] list_all_iff by fastforce
  show thesis
  proof (cases "map_of r k")
    case (Some w)
    with * that show thesis by (cases w) auto
  qed (use * in simp)
qed

lemma three_way_value:
  assumes "three_way la d ac r" and "(k, v) \<in> set d" and "\<And>d'. v \<noteq> PDict d'"
  obtains w where "map_of r k = Some w" "py_eq w v"
proof -
  from assms(1,2) have *: "(case v of
       PDict d' \<Rightarrow> (case map_of r k of
           Some (PDict r') \<Rightarrow> three_way (sub_dict la k) d' (sub_dict ac k) r' | _ \<Rightarrow> False)
     | _ \<Rightarrow> (case map_of r k of Some w \<Rightarrow> py_eq w v | None \<Rightarrow> False))"
    unfolding three_way.simps [of la d ac] list_all_iff by blast
  with assms(3) show thesis
    by (cases v; cases "map_of r k") (auto intro: that)
qed

lemma three_way_conforms: "three_way la d ac r \<Longrightarrow> conforms b r d"
proof (induction "dict_size d" arbitrary: la d ac r rule: less_induct)
  case less
  have "case v of PDict d' \<Rightarrow> (case map_of r k of None \<Rightarrow> True
      | Some (PDict x) \<Rightarrow> conforms b x d' | Some PNone \<Rightarrow> b | _ \<Rightarrow> False) | _ \<Rightarrow> True"
    if kv: "(k, v) \<in> set d" for k v
  proof (cases v)
    case (PDict d')
    obtain r' where "map_of r k = Some (PDict r')" "three_way (sub_dict la k) d' (sub_dict ac k) r'"
      using three_way_dict [OF less.prems] kv PDict by blast
    then show ?thesis
      using less.hyps [of d'] dict_size_entry [OF kv] PDict by simp
  qed auto
  then show ?case by (auto simp: conforms.simps [of b r d] list_all_iff)
qed

lemma conforms_self: "wf_dict d \<Longrightarrow> conforms b d d"
proof (induction "dict_size d" arbitrary: d rule: less_induct)
  case less
  have "case v of PDict d' \<Rightarrow> (case map_of d k of None \<Rightarrow> True
      | Some (PDict x) \<Rightarrow> conforms b x d' | Some PNone \<Rightarrow> b | _ \<Rightarrow> False) | _ \<Rightarrow> True"
    if kv: "(k, v) \<in> set d" for k v
  proof (cases v)
    case (PDict d')
    have "map_of d k = Some v" using kv less.prems by simp
    moreover have "conforms b d' d'"
      using PDict dict_size_entry [OF kv] wf_dict_value [OF less.prems kv]
      by (intro less.hyps) simp_all
    ultimately show ?thesis using PDict by simp
  qed auto
  then show ?case by (auto simp: conforms.simps [of b d d] list_all_iff)
qed

text \<open>Establishing the same configuration once more changes nothing.\<close>

lemma three_way_again:
  assumes "wf_dict d" "wf_dict r" "wf_dict r2" and "plain position d"
    and "three_way la d ac r" and "three_way d d r r2"
  shows "py_eq (PDict r2) (PDict r)"
  using assms
proof (induction "dict_size d" arbitrary: la d ac r r2 position rule: less_induct)
  case less
  have dist: "distinct (map fst r2)" "distinct (map fst r)" "distinct (map fst d)"
    using less.prems(1-3) by auto
  have "rel_option py_eq (map_of r2 k) (map_of r k)" for k
  proof (cases "map_of d k")
    case None
    then have "map_of r2 k = map_of r k"
      using three_way_other [OF less.prems(6), of k] by simp
    then show ?thesis
      using less.prems(2) by (cases "map_of r k") (auto intro: py_eq_refl wf_dict_lookup simp del: wf_py.simps)
  next
    case (Some v)
    then have kv: "(k, v) \<in> set d" by (rule map_of_SomeD)
    show ?thesis
    proof (cases "\<exists>d'. v = PDict d'")
      case True
      then obtain d' where v: "v = PDict d'" by blast
      obtain r' where r': "map_of r k = Some (PDict r')" "three_way (sub_dict la k) d' (sub_dict ac k) r'"
        using three_way_dict [OF less.prems(5)] kv v by blast
      obtain r2' where r2': "map_of r2 k = Some (PDict r2')" "three_way (sub_dict d k) d' (sub_dict r k) r2'"
        using three_way_dict [OF less.prems(6)] kv v by blast
      have "py_eq (PDict r2') (PDict r')"
      proof (rule less.hyps)
        show "three_way d' d' r' r2'" using r2'(2) Some v r'(1) by (simp add: sub_dict_def)
        show "wf_dict d'" "wf_dict r'" "wf_dict r2'"
          using less.prems(1-3) Some v r'(1) r2'(1) by (auto simp del: wf_py.simps dest: wf_dict_lookup)
        show "plain (position @ ''.'' @ k) d'" using plainD(2) [OF less.prems(4) kv v] .
      qed (use r'(2) dict_size_entry [OF kv] v in auto)
      with r'(1) r2'(1) show ?thesis by simp
    next
      case False
      then obtain w where w: "map_of r k = Some w" "py_eq w v"
        using three_way_value [OF less.prems(5) kv] by blast
      obtain w2 where w2: "map_of r2 k = Some w2" "py_eq w2 v"
        using three_way_value [OF less.prems(6) kv] False by blast
      have "wf_py v" "wf_py w" "wf_py w2"
        using less.prems(1-3) Some w(1) w2(1) by (auto simp del: wf_py.simps dest: wf_dict_lookup)
      then have "py_eq w2 w" using w(2) w2(2) py_eq_sym py_eq_trans by blast
      with w w2 show ?thesis by simp
    qed
  qed
  then show ?case by (simp add: py_eq_dict [OF dist(1,2)] del: py_eq.simps)
qed

text \<open>C1: The three-way merge meets its contract: for a plain desired configuration to which
  the live and the last applied object conform, \<open>merge\<close> returns a patch (it raises nothing),
  and the object the API server makes of the live one with that patch has every desired
  field, none of the fields that were last applied and are no longer desired, and every
  other field unchanged, at every depth.\<close>

theorem merge_three_way:
  assumes "dict_merging dm"
    and "wf_dict last_applied" "wf_dict desired" "wf_dict actual"
    and "map_of desired ''kind'' = Some (PStr kind)" "kind \<noteq> []"
    and "plain kind desired" "conforms True actual desired" "conforms False last_applied desired"
  shows "\<exists>patch. merge dm last_applied desired actual None = Inr patch \<and> wf_dict patch
    \<and> three_way last_applied desired actual (patched actual patch)"
proof -
  note dm_wf = dict_merging.dm_wf [OF assms(1)]
    and patched_three_way = dict_merging.patched_three_way [OF assms(1)]
  let ?D = "get_deletions last_applied desired" and ?E = "plain_delta actual desired"
  have "merge dm last_applied desired actual None = Inr (dm ?D ?E)"
    using assms(5,6) get_delta_plain [OF assms(7-9), of dm]
    by (simp add: merge.simps merge_position_def py_getitem_def)
  moreover have "wf_dict (dm ?D ?E)"
    using assms(2-4) by (intro dm_wf wf_get_deletions wf_plain_delta)
  moreover from this have "three_way last_applied desired actual (patched actual (dm ?D ?E))"
    by (rule patched_three_way [OF assms(2-4,7-9)]) simp
  ultimately show ?thesis by blast
qed

text \<open>C36: Applying the same configuration again is a no-op: if the live object \<open>r\<close> meets the
  contract for \<open>desired\<close> and \<open>desired\<close> is what was last applied, then the merge succeeds
  and its patch leaves the live object equal to what it was.\<close>

theorem merge_idempotent:
  assumes "dict_merging dm"
    and "wf_dict desired" "wf_dict r"
    and "map_of desired ''kind'' = Some (PStr kind)" "kind \<noteq> []" "plain kind desired"
    and "three_way last_applied desired actual r"
  shows "\<exists>patch. merge dm desired desired r None = Inr patch
    \<and> py_eq (PDict (patched r patch)) (PDict r)"
proof -
  note dm_wf = dict_merging.dm_wf [OF assms(1)]
    and patched_three_way = dict_merging.patched_three_way [OF assms(1)]
  let ?P = "dm (get_deletions desired desired) (plain_delta r desired)"
  have c: "conforms True r desired" "conforms False desired desired"
    using three_way_conforms [OF assms(7)] conforms_self [OF assms(2)] by auto
  have eq: "merge dm desired desired r None = Inr ?P"
    using assms(4,5) get_delta_plain [OF assms(6) c, of dm]
    by (simp add: merge.simps merge_position_def py_getitem_def)
  have wfP: "wf_dict ?P"
    using assms(2,3) by (intro dm_wf wf_get_deletions wf_plain_delta)
  then have "three_way desired desired r (patched r ?P)"
    by (rule patched_three_way [OF assms(2,2,3,6) c]) simp
  then have "py_eq (PDict (patched r ?P)) (PDict r)"
    by (rule three_way_again [OF assms(2,3) wf_patched [OF assms(3) wfP] assms(6,7)])
  with eq show ?thesis by blast
qed

definition example_last :: dict where
  "example_last = [(''kind'', PStr ''Deployment''),
     (''spec'', PDict [(''replicas'', PInt 1), (''paused'', PBool True)])]"

definition example_desired :: dict where
  "example_desired = [(''kind'', PStr ''Deployment''),
     (''spec'', PDict [(''replicas'', PInt 3), (''args'', PList [PStr ''a'', PStr ''b''])])]"

definition example_live :: dict where
  "example_live = [(''kind'', PStr ''Deployment''),
     (''spec'', PDict [(''replicas'', PInt 1), (''paused'', PBool True), (''strategy'', PStr ''x'')]),
     (''status'', PDict [(''replicas'', PInt 1)])]"

lemmas example_defs = example_last_def example_desired_def example_live_def

lemma example_merge_key: "merge_key ''Deployment.spec.args'' = None"
  using merge_key_ending [of "''Deployment.spec.args''"] by (cases "merge_key ''Deployment.spec.args''") auto

lemma plain_rules:
  "plain position []"
  "plain position ((k, v) # d) \<longleftrightarrow>
     (case v of
        PNone \<Rightarrow> False
      | PDict d' \<Rightarrow> plain (position @ ''.'' @ k) d'
      | PList xs \<Rightarrow> merge_key (position @ ''.'' @ k) = None \<and> xs \<noteq> [] \<and> PNone \<notin> set xs
      | _ \<Rightarrow> True) \<and> plain position d"
   apply (subst plain.simps, simp)
  by (subst plain.simps, cases v) (simp_all add: plain.simps [of position d])

lemma conforms_rule:
  "conforms b other ((k, v) # d) \<longleftrightarrow>
     (case v of
        PDict d' \<Rightarrow> (case map_of other k of
            None \<Rightarrow> True
          | Some (PDict x) \<Rightarrow> conforms b x d'
          | Some PNone \<Rightarrow> b
          | _ \<Rightarrow> False)
      | _ \<Rightarrow> True) \<and> conforms b other d"
  by (subst conforms.simps, cases v) (simp_all add: conforms.simps [of b other d])

lemma conforms_empty: "conforms b other []"
  by (subst conforms.simps) simp

lemma example_wf: "wf_dict example_last" "wf_dict example_desired" "wf_dict example_live"
  by (simp_all add: example_defs)

lemma example_plain: "plain ''Deployment'' example_desired"
  by (simp add: example_desired_def plain_rules example_merge_key)

lemma example_conforms:
  "conforms True example_live example_desired" "conforms False example_last example_desired"
  by (simp_all add: example_defs conforms_rule conforms_empty)

theorem merge_three_way_witness:
  "\<exists>patch. merge dict_merge_ref example_last example_desired example_live None = Inr patch
    \<and> wf_dict patch
    \<and> three_way example_last example_desired example_live (patched example_live patch)"
  by (rule merge_three_way [OF ref.dict_merging_axioms example_wf _ _ example_plain example_conforms])
    (simp_all add: example_desired_def)

definition example_result :: dict where
  "example_result = [(''kind'', PStr ''Deployment''),
     (''spec'', PDict [(''replicas'', PInt 3), (''strategy'', PStr ''x''),
        (''args'', PList [PStr ''a'', PStr ''b''])]),
     (''status'', PDict [(''replicas'', PInt 1)])]"

theorem merge_idempotent_witness:
  "\<exists>patch. merge dict_merge_ref example_desired example_desired example_result None = Inr patch
    \<and> py_eq (PDict (patched example_result patch)) (PDict example_result)"
proof (rule merge_idempotent [OF ref.dict_merging_axioms example_wf(2) _ _ _ example_plain])
  show "wf_dict example_result" by (simp add: example_result_def)
  show "three_way example_last example_desired example_live example_result"
    by code_simp
qed (simp_all add: example_desired_def)

end
