(* ===== verification/K8sDrift.thy ===== *)
theory K8sDrift
  imports K8sMerge
begin

text \<open>
  The three-way merge without the restriction to plain configurations: the patch is a
  dictionary again whatever the configurations are, lists at a strategic merge key are
  merged item by item, and what the merge does not notice (a list that was emptied in the
  configuration, a \<open>CronJob\<close>'s pod template).
\<close>

section \<open>One field of the delta\<close>

definition delta_item ::
    "(dict \<Rightarrow> dict \<Rightarrow> dict) \<Rightarrow> pyval \<Rightarrow> pyval \<Rightarrow> string option \<Rightarrow> string \<Rightarrow> pyval \<Rightarrow> dict res" where
  "delta_item dm la ac position k v =
     bindR (py_get ac k PNone) (\<lambda>a.
       if a = PNone then Inr [(k, v)]
       else (case v of
           PDict d \<Rightarrow>
             bindR (py_get la k (PDict [])) (\<lambda>l.
             bindR (sub_position position k) (\<lambda>this_position.
             bindR (get_delta dm l a d (Some this_position)) (\<lambda>p.
               Inr (if p \<noteq> [] then [(k, PDict p)] else []))))
         | PList xs \<Rightarrow>
             bindR (py_get la k (PList [])) (\<lambda>l.
             bindR (sub_position position k) (\<lambda>this_position.
             bindR (list_merge dm l a xs this_position) (\<lambda>p.
               Inr (if p \<noteq> [] then [(k, PList (filter (\<lambda>item. item \<noteq> PNone) p))] else []))))
         | _ \<Rightarrow> Inr (if \<not> py_eq a v then [(k, v)] else [])))"

lemma get_delta_items:
  "get_delta dm la ac d position =
     bindR (mapR (\<lambda>(k, v). delta_item dm la ac position k v) d) (\<lambda>es. Inr (concat es))"
  by (subst get_delta.simps) (simp add: delta_item_def [abs_def])

lemma delta_item_keyed:
  assumes "delta_item dm la ac position k v = Inr e"
  shows "e = [] \<or> (\<exists>w. e = [(k, w)])"
  using assms
  by (cases v) (auto simp: delta_item_def result_simps split: if_splits)

lemma keyed_concat_distinct:
  assumes "mapR (\<lambda>(k, v). f k v) d = Inr es" and "distinct (map fst d)"
    and "\<And>k v e. f k v = Inr e \<Longrightarrow> e = [] \<or> (\<exists>w. e = [(k, w)])"
  shows "distinct (map fst (concat es)) \<and> fst ` set (concat es) \<subseteq> fst ` set d"
  using assms(1,2)
proof (induction d arbitrary: es)
  case (Cons p d)
  obtain k v where p: "p = (k, v)" by (cases p)
  with Cons.prems obtain e es' where e: "f k v = Inr e" "mapR (\<lambda>(k, v). f k v) d = Inr es'"
    "es = e # es'" by (auto simp: bindR_eq_Inr)
  have IH: "distinct (map fst (concat es'))" "fst ` set (concat es') \<subseteq> fst ` set d"
    using Cons.IH [OF e(2)] Cons.prems(2) by auto
  have "k \<notin> fst ` set (concat es')" using Cons.prems(2) IH(2) by (auto simp: p simp del: set_concat)
  with assms(3) [OF e(1)] IH show ?case by (auto simp: p e(3) simp del: set_concat intro: rev_image_eqI)
qed simp

lemma keyed_concat_entry:
  assumes "mapR (\<lambda>(k, v). f k v) d = Inr es" and "(k, w) \<in> set (concat es)"
    and "\<And>k v e. f k v = Inr e \<Longrightarrow> e = [] \<or> (\<exists>w. e = [(k, w)])"
  shows "\<exists>v. (k, v) \<in> set d \<and> f k v = Inr [(k, w)]"
proof -
  from assms(2) obtain e where e: "e \<in> set es" "(k, w) \<in> set e" by auto
  from mapR_Inr_mem [OF assms(1) e(1)] obtain k' v where "(k', v) \<in> set d" "f k' v = Inr e" by auto
  with assms(3) [of k' v e] e(2) show ?thesis by auto
qed

lemma get_delta_distinct:
  assumes "get_delta dm la ac d position = Inr r" and "distinct (map fst d)"
  shows "distinct (map fst r)"
proof -
  from assms(1) obtain es where es: "r = concat es"
    "mapR (\<lambda>(k, v). delta_item dm la ac position k v) d = Inr es"
    by (auto simp: get_delta_items bindR_eq_Inr)
  from keyed_concat_distinct [OF es(2) assms(2) delta_item_keyed] es(1) show ?thesis by simp
qed

lemma get_delta_entry:
  assumes "get_delta dm la ac d position = Inr r" and "(k, w) \<in> set r"
  shows "\<exists>v. (k, v) \<in> set d \<and> delta_item dm la ac position k v = Inr [(k, w)]"
proof -
  from assms(1) obtain es where es: "r = concat es"
    "mapR (\<lambda>(k, v). delta_item dm la ac position k v) d = Inr es"
    by (auto simp: get_delta_items bindR_eq_Inr)
  from keyed_concat_entry [OF es(2) _ delta_item_keyed] assms(2) es(1) show ?thesis by simp
qed

section \<open>The patch is a dictionary\<close>

lemma wf_py_iter: "wf_py v \<Longrightarrow> py_iter v = Inr xs \<Longrightarrow> list_all wf_py xs"
  by (cases v) (auto simp: py_iter_def list_all_iff)

lemma list_to_dict_wf:
  assumes "list_to_dict v key position = Inr t" and "wf_py v" and "(k, x) \<in> set t"
  shows "wf_py x"
proof -
  from assms(1) obtain xs where xs: "py_iter v = Inr xs" "list_to_dict (PList xs) key position = Inr t"
    by (auto simp: list_to_dict_def result_simps py_iter_def [of "PList _"])
  with list_to_dict_values [OF xs(2) assms(3)] wf_py_iter [OF assms(2) xs(1)]
  show ?thesis by (auto simp: list_all_iff)
qed

lemma kt_get_mem: "kt_get t k = Some v \<Longrightarrow> \<exists>k'. (k', v) \<in> set t \<and> py_eq k' k"
  by (auto simp: kt_get_def find_Some_iff simp del: py_eq.simps) (metis nth_mem)

section \<open>One item of a merged list\<close>

definition merged_item :: "(dict \<Rightarrow> dict \<Rightarrow> dict) \<Rightarrow> string \<Rightarrow> (pyval \<times> pyval) list
    \<Rightarrow> (pyval \<times> pyval) list \<Rightarrow> pyval \<Rightarrow> pyval \<Rightarrow> pyval res" where
  "merged_item dm position last_applied_dict actual_dict key item =
     (case (kt_get last_applied_dict key, kt_get actual_dict key) of
        (Some l, Some a) \<Rightarrow>
          (case (l, item, a) of
             (PDict l', PDict d', PDict a') \<Rightarrow>
               bindR (merge dm l' d' a' (Some position)) (\<lambda>patch. Inr (PDict (dm a' patch)))
           | _ \<Rightarrow> Inl AttributeError)
      | _ \<Rightarrow> Inr item)"

lemma list_merge_items:
  assumes "list_merge dm la ac xs position = Inr ys"
    and "merge_key position = Some pk" and "truthy la"
  obtains lad acd ded ws where
    "list_to_dict la pk position = Inr lad" "list_to_dict ac pk position = Inr acd"
    "list_to_dict (PList xs) pk position = Inr ded"
    "mapR (\<lambda>(key, item). merged_item dm position lad acd key item) ded = Inr ws"
    "ys = ws @ map snd (filter (\<lambda>(key, item).
       kt_get ded key = None \<and> kt_get lad key = None) acd)"
  using assms by (auto simp: list_merge.simps result_simps merged_item_def [abs_def])

lemma merged_item_cases:
  assumes "merged_item dm position lad acd key item = Inr w"
  obtains "w = item" "kt_get lad key = None \<or> kt_get acd key = None"
  | l d a patch where "kt_get lad key = Some (PDict l)" "kt_get acd key = Some (PDict a)"
      "item = PDict d" "merge dm l d a (Some position) = Inr patch" "w = PDict (dm a patch)"
  using assms by (auto simp: merged_item_def result_simps split: option.splits pyval.splits)

context dict_merging
begin

lemma wf_merge_all:
  "get_delta dm' la ac d position = Inr r \<Longrightarrow> dm' = dm \<Longrightarrow> wf_py la \<Longrightarrow> wf_py ac \<Longrightarrow> wf_dict d
     \<Longrightarrow> wf_dict r"
  "list_merge dm' la ac xs pos = Inr ys \<Longrightarrow> dm' = dm \<Longrightarrow> wf_py la \<Longrightarrow> wf_py ac
     \<Longrightarrow> list_all wf_py xs \<Longrightarrow> list_all wf_py ys"
  "merge dm' l e a position' = Inr p \<Longrightarrow> dm' = dm \<Longrightarrow> wf_dict l \<Longrightarrow> wf_dict e \<Longrightarrow> wf_dict a
     \<Longrightarrow> wf_dict p"
proof (induction dm' la ac d position and dm' la ac xs pos and dm' l e a position'
    arbitrary: r and ys and p rule: get_delta_list_merge_merge.induct)
  case (1 dm' la ac d position)
  have "wf_py w" if kw: "(k, w) \<in> set r" for k w
  proof -
    from get_delta_entry [OF 1(3) kw] obtain v where
      v: "(k, v) \<in> set d" "delta_item dm' la ac position k v = Inr [(k, w)]" by blast
    have wfv: "wf_py v" using 1(7) v(1) by (auto simp: list_all_iff)
    have get: "wf_py b" if "py_get c k dflt = Inr b" "wf_py c" "wf_py dflt" for c b dflt
      using that wf_dict_lookup by (auto simp: py_get_def split: pyval.splits option.splits)
    show ?thesis
    proof (cases v)
      case (PDict d')
      with v(2) wfv 1(2) [OF v(1) refl _ _ PDict] 1(4-6) get show ?thesis
        by (auto simp: delta_item_def result_simps split: if_splits)
    next
      case (PList xs)
      with v(2) wfv 1(1) [OF v(1) refl _ _ PList] 1(4-6) get show ?thesis
        by (fastforce simp: delta_item_def result_simps list_all_iff split: if_splits)
    qed (use v(2) wfv in \<open>auto simp: delta_item_def result_simps split: if_splits\<close>)
  qed
  moreover have "distinct (map fst r)"
    using get_delta_distinct [OF 1(3)] 1(7) by simp
  ultimately show ?case by (auto simp: list_all_iff)
next
  case (2 dm' la ac xs pos)
  show ?case
  proof (cases "merge_key pos")
    case (Some pk)
    show ?thesis
    proof (cases "truthy la")
      case True
      from list_merge_items [OF 2(2) Some True] obtain lad acd ded ws where
        dicts: "list_to_dict la pk pos = Inr lad" "list_to_dict ac pk pos = Inr acd"
          "list_to_dict (PList xs) pk pos = Inr ded"
        and ws: "mapR (\<lambda>(key, item). merged_item dm' pos lad acd key item) ded = Inr ws"
        and ys: "ys = ws @ map snd (filter (\<lambda>(key, item).
                  kt_get ded key = None \<and> kt_get lad key = None) acd)"
        by blast
      have wfs: "wf_py v" if "(k, v) \<in> set lad \<union> set acd \<union> set ded" for k v
        using that list_to_dict_wf [OF dicts(1)] list_to_dict_wf [OF dicts(2)]
          list_to_dict_wf [OF dicts(3)] 2(4-6) by auto
      have "wf_py w" if "w \<in> set ws" for w
      proof -
        from mapR_Inr_mem [OF ws that] obtain key item where ki: "(key, item) \<in> set ded"
          "merged_item dm' pos lad acd key item = Inr w" by auto
        from ki(2) show ?thesis
        proof (cases rule: merged_item_cases)
          case 1
          with ki(1) wfs show ?thesis by blast
        next
          case (2 l d a patch)
          have "wf_py (PDict l)" "wf_py (PDict a)" "wf_py (PDict d)"
            using kt_get_mem [OF 2(1)] kt_get_mem [OF 2(2)] ki(1) 2(3) wfs by blast+
          moreover from this have "wf_dict patch"
            using "2.IH" [OF Some True dicts ki(1) refl refl 2(1) 2(2) refl refl refl 2(3) refl 2(4)] \<open>dm' = dm\<close>
            by (simp add: 2)
          ultimately show ?thesis using \<open>dm' = dm\<close> 2(5) dm_wf by simp
        qed
      qed
      moreover have "wf_py b" if "(a, b) \<in> set acd" for a b
        using that wfs by blast
      ultimately show ?thesis by (auto simp: list_all_iff ys simp del: wf_py.simps)
    next
      case False
      with 2 Some show ?thesis by (simp add: list_merge.simps)
    qed
  next
    case None
    with 2 show ?thesis by (simp add: list_merge.simps)
  qed
next
  case (3 dm' l e a position')
  then show ?case
    by (auto simp: merge.simps result_simps intro!: dm_wf wf_get_deletions simp del: wf_py.simps)
qed

end

section \<open>Lists merged item by item\<close>

text \<open>\<open>item_with pk k i\<close>: the item is an object whose field \<open>pk\<close> is \<open>k\<close>.\<close>

definition item_with :: "string \<Rightarrow> pyval \<Rightarrow> pyval \<Rightarrow> bool" where
  "item_with pk k item = (case item of
     PDict d \<Rightarrow> (case map_of d pk of Some v \<Rightarrow> py_eq v k | None \<Rightarrow> False) | _ \<Rightarrow> False)"

definition keyed_by :: "string \<Rightarrow> (pyval \<times> pyval) list \<Rightarrow> bool" where
  "keyed_by pk t = list_all (\<lambda>(k, item). wf_py k \<and> wf_py item \<and> hashable k \<and> item_with pk k item \<and>
     (case item of PDict d \<Rightarrow> hashable (dget d pk) | _ \<Rightarrow> False)) t"

lemma kt_get_Cons: "kt_get ((k, v) # t) q = (if py_eq k q then Some v else kt_get t q)"
  by (simp add: kt_get_def)

lemma kt_get_kt_set:
  assumes "keyed_by pk t" and "wf_py k" and "wf_py q"
  shows "kt_get (kt_set k v t) q \<noteq> None \<longleftrightarrow> py_eq k q \<or> kt_get t q \<noteq> None"
  using assms(1)
proof (induction t)
  case Nil
  show ?case by (simp add: kt_get_def)
next
  case (Cons p t)
  obtain k' w where p: "p = (k', w)" by (cases p)
  have k': "wf_py k'" and t: "keyed_by pk t" using Cons.prems by (auto simp: keyed_by_def p)
  note sym = py_eq_sym [OF k' assms(2)] and trans = py_eq_trans [OF assms(2) k' assms(3)]
    and trans' = py_eq_trans [OF k' assms(2,3)]
  from Cons.IH [OF t] show ?case
    using sym trans trans' by (auto simp: p kt_get_Cons)
qed

lemma keyed_by_kt_set:
  assumes "keyed_by pk t" and "wf_py k" "wf_py (PDict d)" "hashable k" "map_of d pk = Some k"
  shows "keyed_by pk (kt_set k (PDict d) t)"
  using assms(1)
proof (induction t)
  case Nil
  with assms(2-) show ?case by (simp add: keyed_by_def item_with_def py_eq_refl)
next
  case (Cons p t)
  obtain k' w where p: "p = (k', w)" by (cases p)
  have k': "wf_py k'" "hashable k'" using Cons.prems by (auto simp: keyed_by_def p)
  have sym: "py_eq k' k \<Longrightarrow> py_eq k k'" by (rule py_eq_sym [OF k'(1) assms(2)])
  from Cons assms(2-) k' sym show ?case
    by (auto simp: p keyed_by_def item_with_def)
qed

lemma list_to_dict_keys:
  assumes "list_to_dict (PList xs) pk position = Inr t" and "list_all wf_py xs"
  shows "keyed_by pk t"
    and "wf_py k \<Longrightarrow> kt_get t k \<noteq> None \<longleftrightarrow> (\<exists>item \<in> set xs. item_with pk k item)"
proof -
  let ?f = "\<lambda>result item. (case py_getitem item pk of
        Inl (KeyError _) \<Rightarrow> Inl (ApplyException
          (''Expected key '' @ [CHR 0x27] @ pk @ [CHR 0x27] @ '' not found in position '' @ position))
      | Inl e \<Rightarrow> Inl e
      | Inr k \<Rightarrow> (if hashable k then Inr (kt_set k item result) else Inl TypeError))"
  have step: "\<exists>d v. x = PDict d \<and> map_of d pk = Some v \<and> hashable v \<and> t' = kt_set v x t0"
    if "?f t0 x = Inr t'" for t0 x t'
    using that by (auto simp: py_getitem_def split: pyval.splits option.splits exn.splits if_splits)
  have *: "keyed_by pk t \<and> (\<forall>k. wf_py k \<longrightarrow> (kt_get t k \<noteq> None \<longleftrightarrow>
      kt_get t0 k \<noteq> None \<or> (\<exists>item \<in> set xs. item_with pk k item)))"
    if "foldR ?f t0 xs = Inr t" "keyed_by pk t0" "list_all wf_py xs" for t0
    using that
  proof (induction xs arbitrary: t0)
    case (Cons x xs)
    from Cons.prems(1) obtain t1 where t1: "?f t0 x = Inr t1" "foldR ?f t1 xs = Inr t"
      by (simp only: foldR.simps bindR_eq_Inr) blast
    from step [OF t1(1)] obtain d v where
      v: "x = PDict d" "map_of d pk = Some v" "hashable v" "t1 = kt_set v x t0" by blast
    have wf: "wf_py v" "wf_py (PDict d)"
      using Cons.prems(3) v wf_dict_lookup [of d pk v] by simp_all
    have t1k: "keyed_by pk t1"
      unfolding v(1,4) by (rule keyed_by_kt_set [OF Cons.prems(2) wf v(3,2)])
    have "kt_get t1 k \<noteq> None \<longleftrightarrow> item_with pk k x \<or> kt_get t0 k \<noteq> None" if "wf_py k" for k
      using kt_get_kt_set [OF Cons.prems(2) wf(1) that, of x] by (simp add: v(1,2,4) item_with_def)
    with Cons.IH [OF t1(2) t1k] Cons.prems(3) show ?case by auto
  qed simp
  have "foldR ?f [] xs = Inr t" using assms(1) by (simp add: list_to_dict_def py_iter_def)
  from * [OF this _ assms(2)] show "keyed_by pk t"
    and "wf_py k \<Longrightarrow> kt_get t k \<noteq> None \<longleftrightarrow> (\<exists>item \<in> set xs. item_with pk k item)"
    by (auto simp: keyed_by_def kt_get_def)
qed

lemma merge_keeps_key:
  assumes "dict_merging dm" and "wf_dict l" "wf_dict d" "wf_dict a" and "position \<noteq> []"
    and "merge dm l d a (Some position) = Inr patch"
    and "map_of l pk = Some vl" "map_of d pk = Some vd" "map_of a pk = Some va"
    and "py_eq vl vd" "hashable vd" "hashable va"
  shows "map_of (dm a patch) pk \<in> {Some va, Some vd}"
proof -
  note dm_lookup = dict_merging.dm_lookup [OF assms(1)] and dm_wf = dict_merging.dm_wf [OF assms(1)]
  obtain delta where delta: "get_delta dm (PDict l) (PDict a) d (Some position) = Inr delta"
    "patch = dm (get_deletions l d) delta"
    using assms(5,6) by (auto simp: merge.simps merge_position_def result_simps)
  have wfd: "wf_dict delta" "wf_dict (get_deletions l d)"
    using dict_merging.wf_merge_all(1) [OF assms(1) delta(1)] assms(2-4) wf_get_deletions by auto
  have no_dict: "vd \<noteq> PDict x" "vd \<noteq> PList ys" for x ys using assms(11) by auto
  have vd: "dget d pk = vd" using assms(8) by simp
  have "map_of (get_deletions l d) pk = None"
    using assms(2,7,10) no_dict vd map_of_get_deletions [of l d pk]
    by (auto simp: deletion_entry_def split: pyval.splits simp del: py_eq.simps)
  moreover have "map_of delta pk \<in> {None, Some vd}"
  proof (cases "map_of delta pk")
    case (Some w)
    from get_delta_entry [OF delta(1) map_of_SomeD [OF Some]] obtain v where
      v: "(pk, v) \<in> set d" "delta_item dm (PDict l) (PDict a) (Some position) pk v = Inr [(pk, w)]"
      by blast
    have "v = vd" using v(1) assms(3,8) by simp
    with v(2) no_dict have "w = vd"
      by (cases vd) (auto simp: delta_item_def result_simps split: if_splits)
    with Some show ?thesis by simp
  qed simp
  ultimately have "map_of patch pk \<in> {None, Some vd}"
    unfolding delta(2) using dm_lookup [OF wfd(2,1), of pk] no_dict
    by (cases vd) (auto split: option.splits)
  moreover have "wf_dict patch" unfolding delta(2) using wfd by (intro dm_wf)
  moreover have "(case (Some va, w) of (Some (PDict x), PDict y) \<Rightarrow> PDict (dm x y) | _ \<Rightarrow> w) = w" for w
    using assms(12) by (cases va) auto
  ultimately show ?thesis
    using dm_lookup [OF assms(4), of patch pk] assms(9)
    by (cases "map_of patch pk") (simp_all del: wf_py.simps map_of_eq_Some_iff)
qed

lemma item_withD:
  "item_with pk k item \<Longrightarrow> \<exists>d v. item = PDict d \<and> map_of d pk = Some v \<and> py_eq v k"
  by (cases item) (auto simp: item_with_def simp del: py_eq.simps split: option.splits)

lemma keyed_byD:
  assumes "keyed_by pk t" and "(key, item) \<in> set t"
  shows "\<exists>d v. item = PDict d \<and> map_of d pk = Some v \<and> py_eq v key \<and> wf_py v \<and> hashable v
    \<and> wf_py key \<and> wf_dict d"
proof -
  from assms have *: "wf_py key" "wf_py item" "item_with pk key item"
    "case item of PDict d \<Rightarrow> hashable (dget d pk) | _ \<Rightarrow> False"
    by (auto simp: keyed_by_def list_all_iff simp del: wf_py.simps)
  from item_withD [OF *(3)] obtain d v where "item = PDict d" "map_of d pk = Some v" "py_eq v key"
    by blast
  with * wf_dict_lookup [of d pk v] show ?thesis by simp
qed

lemma kt_get_keyed:
  assumes "keyed_by pk t" and "kt_get t k = Some item" and "wf_py k"
  shows "\<exists>d v. item = PDict d \<and> map_of d pk = Some v \<and> py_eq v k \<and> wf_py v \<and> hashable v \<and> wf_dict d"
proof -
  from kt_get_mem [OF assms(2)] obtain k' where k': "(k', item) \<in> set t" "py_eq k' k" by blast
  from keyed_byD [OF assms(1) k'(1)] k'(2) assms(3) py_eq_trans show ?thesis by blast
qed

lemma kt_get_mem_iff: "kt_get t k \<noteq> None \<longleftrightarrow> (\<exists>(key, item) \<in> set t. py_eq key k)"
  by (auto simp: kt_get_def find_None_iff simp del: py_eq.simps)

lemma kt_get_cong:
  assumes "keyed_by pk t" and "wf_py k" "wf_py q" and "py_eq k q"
  shows "kt_get t k = None \<longleftrightarrow> kt_get t q = None"
proof -
  have "py_eq key k \<longleftrightarrow> py_eq key q" if "(key, item) \<in> set t" for key item
    using keyed_byD [OF assms(1) that] assms(2-) py_eq_trans py_eq_sym by metis
  then show ?thesis using kt_get_mem_iff [of t k] kt_get_mem_iff [of t q] by blast
qed

lemma merged_item_key:
  assumes "dict_merging dm" and "position \<noteq> []"
    and "keyed_by pk lad" "keyed_by pk acd" "keyed_by pk ded"
    and "(key, item) \<in> set ded" "merged_item dm position lad acd key item = Inr w" "wf_py k"
  shows "item_with pk k w \<longleftrightarrow> py_eq key k"
proof -
  from keyed_byD [OF assms(5,6)] obtain d vd where d: "item = PDict d" "map_of d pk = Some vd"
    "py_eq vd key" "wf_py vd" "hashable vd" "wf_py key" "wf_dict d" by blast
  have equiv: "py_eq v k \<longleftrightarrow> py_eq key k" if "py_eq v key" "wf_py v" for v
    using that d(6) assms(8) py_eq_sym py_eq_trans by metis
  from assms(7) show ?thesis
  proof (cases rule: merged_item_cases)
    case 1
    with d equiv show ?thesis by (simp add: item_with_def)
  next
    case (2 l d' a patch)
    have [simp]: "d' = d" using 2(3) d(1) by simp
    from kt_get_keyed [OF assms(3) 2(1) d(6)] obtain vl where
      vl: "wf_dict l" "map_of l pk = Some vl" "py_eq vl key" "wf_py vl" by auto
    from kt_get_keyed [OF assms(4) 2(2) d(6)] obtain va where
      va: "wf_dict a" "map_of a pk = Some va" "py_eq va key" "wf_py va" "hashable va" by auto
    have "py_eq vl vd" using py_eq_trans [OF vl(4) d(6,4) vl(3)] py_eq_sym [OF d(4,6,3)] by blast
    then have "map_of (dm a patch) pk \<in> {Some va, Some vd}"
      using merge_keeps_key [OF assms(1) vl(1) _ va(1) assms(2) 2(4) vl(2) _ va(2) _ d(5) va(5)] d
      by simp
    then show ?thesis
      using equiv [OF va(3,4)] equiv [OF d(3,4)] by (auto simp: 2(5) item_with_def)
  qed
qed

text \<open>C24: A list at a strategic merge key is merged by key: where the field has been applied
  before, the resulting list has an item with key \<open>k\<close> exactly when the desired list has
  one, or the live list has one that was not in the last applied list. So items that others
  added are kept, items removed from the configuration go, and nothing is invented.\<close>

theorem list_merge_by_key:
  assumes "dict_merging dm" and "position \<noteq> []" "merge_key position = Some pk"
    and "last_applied \<noteq> []" "list_all wf_py last_applied" "list_all wf_py actual" "list_all wf_py desired"
    and "list_merge dm (PList last_applied) (PList actual) desired position = Inr result"
    and "wf_py k"
  shows "(\<exists>item \<in> set result. item_with pk k item) \<longleftrightarrow>
    (\<exists>item \<in> set desired. item_with pk k item) \<or>
    (\<exists>item \<in> set actual. item_with pk k item) \<and> \<not> (\<exists>item \<in> set last_applied. item_with pk k item)"
proof -
  have "truthy (PList last_applied)" using assms(4) by simp
  from list_merge_items [OF assms(8,3) this] obtain lad acd ded ws where
    dicts: "list_to_dict (PList last_applied) pk position = Inr lad"
      "list_to_dict (PList actual) pk position = Inr acd"
      "list_to_dict (PList desired) pk position = Inr ded"
    and ws: "mapR (\<lambda>(key, item). merged_item dm position lad acd key item) ded = Inr ws"
    and result: "result = ws @ map snd (filter (\<lambda>(key, item).
       kt_get ded key = None \<and> kt_get lad key = None) acd)" by blast
  note keyed = list_to_dict_keys(1) [OF dicts(1) assms(5)] list_to_dict_keys(1) [OF dicts(2) assms(6)]
    list_to_dict_keys(1) [OF dicts(3) assms(7)]
  note keys = list_to_dict_keys(2) [OF dicts(1) assms(5)] list_to_dict_keys(2) [OF dicts(2) assms(6)]
    list_to_dict_keys(2) [OF dicts(3) assms(7)]
  note item = merged_item_key [OF assms(1,2) keyed _ _ assms(9)]
  have new: "(\<exists>w \<in> set ws. item_with pk k w) \<longleftrightarrow> kt_get ded k \<noteq> None"
  proof
    assume "\<exists>w \<in> set ws. item_with pk k w"
    then obtain w where w: "w \<in> set ws" "item_with pk k w" by blast
    from mapR_Inr_mem [OF ws w(1)] obtain key x where
      "(key, x) \<in> set ded" "merged_item dm position lad acd key x = Inr w" by auto
    with item w(2) show "kt_get ded k \<noteq> None" by (auto simp: kt_get_mem_iff simp del: not_None_eq)
  next
    assume "kt_get ded k \<noteq> None"
    then obtain key x where x: "(key, x) \<in> set ded" "py_eq key k"
      by (auto simp: kt_get_mem_iff simp del: not_None_eq)
    from mapR_Inr_memD [OF ws x(1)] obtain w where
      "w \<in> set ws" "merged_item dm position lad acd key x = Inr w" by auto
    with item x show "\<exists>w \<in> set ws. item_with pk k w" by blast
  qed
  have old: "item_with pk k x \<longleftrightarrow> py_eq key k" if kx: "(key, x) \<in> set acd" for key x
  proof -
    from keyed_byD [OF keyed(2) kx] obtain d v where "x = PDict d" "map_of d pk = Some v"
      "py_eq v key" "wf_py v" "wf_py key" by blast
    then show ?thesis
      using py_eq_trans [of v key k] py_eq_trans [of key v k] py_eq_sym [of v key] assms(9)
      by (auto simp: item_with_def simp del: py_eq.simps)
  qed
  have same: "kt_get t key = None \<longleftrightarrow> kt_get t k = None"
    if "(key, x) \<in> set acd" "py_eq key k" "keyed_by pk t" for key x t
    using keyed_byD [OF keyed(2) that(1)] kt_get_cong [OF that(3) _ assms(9) that(2)] by blast
  have kept: "(\<exists>(key, x) \<in> set acd. kt_get ded key = None \<and> kt_get lad key = None \<and> item_with pk k x)
     \<longleftrightarrow> kt_get acd k \<noteq> None \<and> kt_get ded k = None \<and> kt_get lad k = None"
    using old same [OF _ _ keyed(1)] same [OF _ _ keyed(3)] unfolding kt_get_mem_iff [of acd] by blast
  have "(\<exists>w \<in> set result. item_with pk k w) \<longleftrightarrow> (\<exists>w \<in> set ws. item_with pk k w)
     \<or> (\<exists>(key, x) \<in> set acd. kt_get ded key = None \<and> kt_get lad key = None \<and> item_with pk k x)"
    unfolding result by force
  then show ?thesis unfolding new kept using keys [OF assms(9)] by blast
qed

definition container :: "string \<Rightarrow> string \<Rightarrow> pyval" where
  "container name img = PDict [(''name'', PStr name), (''image'', PStr img)]"

lemma merge_keyI:
  assumes "prefix \<in> set POD_SPEC_PREFIXES" and "(key, v) \<in> set POD_SPEC_SUFFIXES"
    and "\<forall>(key', v') \<in> set POD_SPEC_SUFFIXES. take 2 (rev key') = take 2 (rev key) \<longrightarrow> v' = v"
  shows "merge_key (prefix @ ''.'' @ key) = Some v"
  unfolding merge_key_def STRATEGIC_MERGE_PATCH_KEYS_def
proof (rule map_of_dict_update_unique)
  show "(prefix @ ''.'' @ key, v) \<in> set (concat (map (\<lambda>prefix. map (\<lambda>(key, v). (prefix @ ''.'' @ key, v))
      POD_SPEC_SUFFIXES) POD_SPEC_PREFIXES))"
    using assms(1,2) by force
next
  fix v'
  assume "(prefix @ ''.'' @ key, v') \<in> set (concat (map (\<lambda>prefix. map (\<lambda>(key, v). (prefix @ ''.'' @ key, v))
      POD_SPEC_SUFFIXES) POD_SPEC_PREFIXES))"
  then obtain prefix' key' where "prefix' \<in> set POD_SPEC_PREFIXES" "(key', v') \<in> set POD_SPEC_SUFFIXES"
    "prefix @ ''.'' @ key = prefix' @ ''.'' @ key'" by auto
  moreover have "\<forall>(key', v') \<in> set POD_SPEC_SUFFIXES. length key' \<ge> 2"
    by (simp add: POD_SPEC_SUFFIXES_def)
  ultimately have "length key' \<ge> 2" "length key \<ge> 2" using assms(2) by auto
  then have "take 2 (rev (prefix @ ''.'' @ key)) = take 2 (rev key)"
    "take 2 (rev (prefix' @ ''.'' @ key')) = take 2 (rev key')" by simp_all
  then have "take 2 (rev key') = take 2 (rev key)"
    using \<open>prefix @ ''.'' @ key = prefix' @ ''.'' @ key'\<close> by (simp only:)
  with assms(3) \<open>(key', v') \<in> set POD_SPEC_SUFFIXES\<close> show "v' = v" by blast
qed

lemma example_pod_key: "merge_key ''Pod.spec.containers'' = Some ''name''"
  by (rule merge_keyI [of "''Pod.spec''" "''containers''" "''name''", simplified])
    (simp_all add: POD_SPEC_PREFIXES_def POD_SPEC_SUFFIXES_def)

text \<open>An injected sidecar is kept, a removed container goes.\<close>

lemma example_list_merge:
  "list_merge dict_merge_ref (PList [container ''web'' ''v1'', container ''old'' ''v1''])
     (PList [container ''web'' ''v1'', container ''old'' ''v1'', container ''proxy'' ''v9''])
     [container ''web'' ''v2''] ''Pod.spec.containers''
   = Inr [container ''web'' ''v2'', container ''proxy'' ''v9'']"
  by (simp add: list_merge.simps example_pod_key list_to_dict_def py_iter_def container_def
      py_getitem_def kt_get_def merge.simps merge_position_def get_deletions.simps get_delta.simps
      dict_merge_ref.simps py_get_def)

theorem list_merge_by_key_witness:
  "\<not> (\<exists>item \<in> set [container ''web'' ''v2'', container ''proxy'' ''v9'']. item_with ''name'' (PStr ''old'') item)"
proof -
  have wf: "wf_py (container n i)" for n i by (simp add: container_def)
  have *: "(\<exists>item \<in> set [container ''web'' ''v2'', container ''proxy'' ''v9'']. item_with ''name'' (PStr ''old'') item)
    \<longleftrightarrow> (\<exists>item \<in> set [container ''web'' ''v2'']. item_with ''name'' (PStr ''old'') item) \<or>
    (\<exists>item \<in> set [container ''web'' ''v1'', container ''old'' ''v1'', container ''proxy'' ''v9''].
       item_with ''name'' (PStr ''old'') item) \<and>
    \<not> (\<exists>item \<in> set [container ''web'' ''v1'', container ''old'' ''v1'']. item_with ''name'' (PStr ''old'') item)"
    by (rule list_merge_by_key [OF ref.dict_merging_axioms _ example_pod_key _ _ _ _ example_list_merge])
      (simp_all add: wf)
  show ?thesis unfolding * by (simp add: item_with_def container_def)
qed

section \<open>What the merge does not notice\<close>

text \<open>A list emptied in the configuration is not defended. Where the desired and the last
  applied value of a field are both the empty list, the patch does not mention the field,
  whatever list is live: items that others put there stay, although a drift of a non-empty
  desired list is always overwritten.\<close>

theorem empty_list_drift_kept:
  assumes "dict_merging dm"
    and "wf_dict last_applied" "wf_dict desired" "wf_dict actual"
    and "map_of desired k = Some (PList [])" "map_of last_applied k = Some (PList [])"
    and "map_of actual k = Some (PList live)"
    and "merge dm last_applied desired actual position = Inr patch"
  shows "map_of patch k = None \<and> map_of (patched actual patch) k = Some (PList live)"
proof -
  obtain position' delta where delta:
    "get_delta dm (PDict last_applied) (PDict actual) desired position' = Inr delta"
    "patch = dm (get_deletions last_applied desired) delta"
    using assms(8) by (auto simp: merge.simps result_simps)
  have wfd: "wf_dict delta" "wf_dict (get_deletions last_applied desired)"
    using dict_merging.wf_merge_all(1) [OF assms(1) delta(1)] assms(2-4) wf_get_deletions by auto
  have "map_of (get_deletions last_applied desired) k = None"
    using assms(2,5,6) map_of_get_deletions [of last_applied desired k] by (simp add: deletion_entry_def)
  moreover have "map_of delta k = None"
  proof (rule ccontr)
    assume "map_of delta k \<noteq> None"
    then obtain w where "(k, w) \<in> set delta" by (auto dest: map_of_SomeD)
    from get_delta_entry [OF delta(1) this] obtain v where
      v: "(k, v) \<in> set desired"
      "delta_item dm (PDict last_applied) (PDict actual) position' k v = Inr [(k, w)]" by blast
    have "v = PList []" using v(1) assms(3,5) by simp
    with v(2) assms(6,7) show False
      by (auto simp: delta_item_def py_get_def list_merge.simps result_simps split: option.splits if_splits)
  qed
  ultimately have none: "map_of patch k = None"
    unfolding delta(2) using dict_merging.dm_lookup [OF assms(1) wfd(2,1), of k] by simp
  have "wf_dict patch" unfolding delta(2) using wfd by (intro dict_merging.dm_wf [OF assms(1)])
  with none assms(4,7) map_of_patched [of patch actual k] show ?thesis by simp
qed

definition emptied_desired :: dict where
  "emptied_desired = [(''kind'', PStr ''Deployment''), (''finalizers'', PList [])]"

definition drifted_live :: dict where
  "drifted_live = [(''kind'', PStr ''Deployment''), (''finalizers'', PList [PStr ''x''])]"

theorem empty_list_drift_kept_witness:
  "\<exists>patch. merge dict_merge_ref emptied_desired emptied_desired drifted_live None = Inr patch
     \<and> map_of (patched drifted_live patch) ''finalizers'' = Some (PList [PStr ''x''])"
proof -
  have "merge dict_merge_ref emptied_desired emptied_desired drifted_live None = Inr []"
    by (simp add: emptied_desired_def drifted_live_def merge.simps merge_position_def py_getitem_def
        get_deletions.simps get_delta.simps py_get_def sub_position_def list_merge.simps
        dict_merge_ref.simps split: option.split)
  moreover from empty_list_drift_kept [OF ref.dict_merging_axioms _ _ _ _ _ _ this, of "''finalizers''"]
  have "map_of (patched drifted_live []) ''finalizers'' = Some (PList [PStr ''x''])"
    by (simp add: emptied_desired_def drifted_live_def)
  ultimately show ?thesis by blast
qed

text \<open>The keys are looked up by the object's kind; the table spells \<open>CronJob\<close> as \<open>Cronjob\<close>.\<close>

lemma merge_key_cases:
  assumes "merge_key position = Some v"
  shows "position \<in> {''Service.spec.ports'', ''ServiceAccount.secrets'',
      ''ValidatingWebhookConfiguration.webhooks'', ''MutatingWebhookConfiguration.webhooks''}
    \<or> (\<exists>prefix \<in> set POD_SPEC_PREFIXES. \<exists>(key, v) \<in> set POD_SPEC_SUFFIXES. position = prefix @ ''.'' @ key)"
  using assms
  by (fastforce simp: merge_key_def STRATEGIC_MERGE_PATCH_KEYS_def dest!: map_of_SomeD set_dict_update)

text \<open>A \<open>CronJob\<close>'s lists are never merged by key: at every position inside an object
  of kind \<open>CronJob\<close> the desired list replaces the live one, sidecar containers included,
  although the table of merge keys has the entries of its pod template.\<close>

theorem cronjob_lists_replaced:
  "list_merge dm last_applied actual desired (''CronJob.'' @ rest) = Inr desired
   \<and> merge_key ''Cronjob.spec.jobTemplate.spec.template.spec.containers'' = Some ''name''"
proof
  have "merge_key (''CronJob.'' @ rest) = None"
  proof (rule ccontr)
    assume "merge_key (''CronJob.'' @ rest) \<noteq> None"
    then obtain v where "merge_key (''CronJob.'' @ rest) = Some v" by blast
    from merge_key_cases [OF this] show False by (auto simp: POD_SPEC_PREFIXES_def)
  qed
  then show "list_merge dm last_applied actual desired (''CronJob.'' @ rest) = Inr desired"
    by (simp add: list_merge.simps)
  show "merge_key ''Cronjob.spec.jobTemplate.spec.template.spec.containers'' = Some ''name''"
    by (rule merge_keyI [of "''Cronjob.spec.jobTemplate.spec.template.spec''" "''containers''" "''name''", simplified])
      (simp_all add: POD_SPEC_PREFIXES_def POD_SPEC_SUFFIXES_def)
qed

end
