(* ===== verification/K8sClient.thy ===== *)
theory K8sClient
  imports K8sApply K8sVersion PyIO PyBytes
begin

text \<open>
  The proxy of the dynamic client that the modules use (\<open>k8s/client.py\<close>, \<open>k8s/core.py\<close>,
  \<open>k8sdynamicclient.py\<close>) and the part of \<open>apply.py\<close> that talks to the server. A client is
  its \<open>dry_run\<close> flag: every request that changes the cluster goes through
  \<open>ensure_dry_run\<close>.
\<close>

section \<open>Versions\<close>

definition requires :: "world \<Rightarrow> string \<Rightarrow> string option \<Rightarrow> string option \<Rightarrow> unit res" where
  "requires W dependency minimum reason =
     bindR (has_at_least (w_versions W) dependency minimum) (\<lambda>present.
       if \<not> present then
         (let lib = (case minimum of Some m \<Rightarrow> dependency @ ''>='' @ m | None \<Rightarrow> dependency)
          in Inl (PyException (w_missing_required_lib W lib reason)))
       else Inr ())"

definition server_side_dry_run :: "world \<Rightarrow> bool \<Rightarrow> bool res" where
  "server_side_dry_run W check_mode =
     (if check_mode then has_at_least (w_versions W) ''kubernetes'' (Some ''18.20.0'') else Inr False)"

section \<open>Finding a resource\<close>

definition not_exactly_one :: "exn \<Rightarrow> bool" where
  "not_exactly_one e \<longleftrightarrow> e = ResourceNotFoundError \<or> e = ResourceNotUniqueError"

fun try_attributes :: "world \<Rightarrow> string option \<Rightarrow> pyval \<Rightarrow> pyval \<Rightarrow> string list \<Rightarrow> resource io" where
  "try_attributes W prefix kind api_version [] = find W prefix api_version ''short_names'' (PList [kind])"
| "try_attributes W prefix kind api_version (attribute # rest) =
     tryI (find W prefix api_version attribute kind)
       (\<lambda>e. if not_exactly_one e then try_attributes W prefix kind api_version rest else raiseI e)"

definition find_resource_with_prefix :: "world \<Rightarrow> string option \<Rightarrow> pyval \<Rightarrow> pyval \<Rightarrow> resource io" where
  "find_resource_with_prefix W prefix kind api_version =
     try_attributes W prefix kind api_version [''kind'', ''name'', ''singular_name'']"

definition client_resource :: "world \<Rightarrow> pyval \<Rightarrow> pyval \<Rightarrow> resource io" where
  "client_resource W kind api_version =
     (if py_eq api_version (PStr ''v1'') then
        tryI (find_resource_with_prefix W (Some ''api'') kind api_version)
          (\<lambda>e. if e = ResourceNotFoundError then find_resource_with_prefix W None kind api_version else raiseI e)
      else find_resource_with_prefix W None kind api_version)"

section \<open>Requests\<close>

definition K8S_SERVER_DRY_RUN :: string where
  "K8S_SERVER_DRY_RUN = ''All''"

definition ensure_dry_run :: "bool \<Rightarrow> dict \<Rightarrow> dict" where
  "ensure_dry_run dry_run params =
     (if dry_run then AList.update ''dry_run'' (PStr K8S_SERVER_DRY_RUN) params else params)"

definition client_get :: "world \<Rightarrow> resource \<Rightarrow> dict \<Rightarrow> pyval io" where
  "client_get W resource params = call W Get resource PNone params"

definition client_delete :: "world \<Rightarrow> bool \<Rightarrow> resource \<Rightarrow> dict \<Rightarrow> pyval io" where
  "client_delete W dry_run resource params = call W Delete resource PNone (ensure_dry_run dry_run params)"

definition client_create :: "world \<Rightarrow> bool \<Rightarrow> resource \<Rightarrow> dict \<Rightarrow> dict \<Rightarrow> pyval io" where
  "client_create W dry_run resource defn params = call W Create resource (PDict defn) (ensure_dry_run dry_run params)"

definition client_replace :: "world \<Rightarrow> bool \<Rightarrow> resource \<Rightarrow> dict \<Rightarrow> dict \<Rightarrow> pyval io" where
  "client_replace W dry_run resource defn params = call W Replace resource (PDict defn) (ensure_dry_run dry_run params)"

definition client_patch :: "world \<Rightarrow> bool \<Rightarrow> resource \<Rightarrow> dict \<Rightarrow> dict \<Rightarrow> pyval io" where
  "client_patch W dry_run resource defn params = call W Patch resource (PDict defn) (ensure_dry_run dry_run params)"

text \<open>\<open>instance.to_dict()\<close>.\<close>

definition to_dict :: "pyval \<Rightarrow> dict res" where
  "to_dict v = (case v of PDict d \<Rightarrow> Inr d | _ \<Rightarrow> Inl AttributeError)"

section \<open>Client-side and server-side apply\<close>

definition name_and_namespace :: "dict \<Rightarrow> (pyval \<times> pyval) res" where
  "name_and_namespace defn =
     bindR (py_getitem (PDict defn) ''metadata'') (\<lambda>metadata.
     bindR (py_getitem metadata ''name'') (\<lambda>name.
     bindR (py_get metadata ''namespace'' PNone) (\<lambda>namespace. Inr (name, namespace))))"

text \<open>
  The second component is \<open>None\<close> where the code returns \<open>None\<close> for the patch.
\<close>

definition apply_object :: "world \<Rightarrow> resource \<Rightarrow> dict \<Rightarrow> bool \<Rightarrow> (dict option \<times> dict option) io" where
  "apply_object W resource defn server_side =
     bindI (tryI
       (bindI (liftI (name_and_namespace defn)) (\<lambda>(name, namespace).
        bindI (call W Get resource PNone [(''name'', name), (''namespace'', namespace)]) (\<lambda>actual. retI (Some actual))))
       (\<lambda>e. if e = NotFoundError then retI None else raiseI e)) (\<lambda>found.
     case found of
       None \<Rightarrow> retI (None, Some (w_dict_merge W defn (annotate defn)))
     | Some actual \<Rightarrow>
         bindI (liftI (to_dict actual)) (\<lambda>actual_dict.
           if server_side then retI (Some actual_dict, None)
           else bindI (liftI (apply_patch (w_dict_merge W) actual_dict defn)) (\<lambda>(existing, patch).
             retI (Some existing, Some patch))))"

text \<open>\<open>json.dumps(obj)\<close> with the default separators.\<close>

fun dumps_spaced :: "pyval \<Rightarrow> string" where
  "dumps_spaced (PList xs) = ''['' @ py_join '', '' (map dumps_spaced xs) @ '']''"
| "dumps_spaced (PTuple xs) = ''['' @ py_join '', '' (map dumps_spaced xs) @ '']''"
| "dumps_spaced (PDict d) = ''{'' @ py_join '', '' (map (\<lambda>(k, v). json_str k @ '': '' @ dumps_spaced v) d) @ ''}''"
| "dumps_spaced v = dumps False v"

definition k8s_apply :: "world \<Rightarrow> resource \<Rightarrow> dict \<Rightarrow> dict \<Rightarrow> pyval io" where
  "k8s_apply W resource defn kwargs =
     bindI (apply_object W resource defn False) (\<lambda>(existing, desired).
     if truthy (dget kwargs ''server_side'') then
       bindI (liftI (case map_of (w_versions W) ''kubernetes'' of
                Some v \<Rightarrow> loose_lt v ''25.0.0'' | None \<Rightarrow> Inl (KeyError ''kubernetes''))) (\<lambda>old.
       bindI (liftI (name_and_namespace defn)) (\<lambda>(name, namespace).
         call W ServerApply resource (if old then PStr (dumps_spaced (PDict defn)) else PDict defn)
           [(''name'', name), (''namespace'', namespace), (''force_conflicts'', dget kwargs ''force_conflicts''),
            (''field_manager'', dget kwargs ''field_manager''), (''dry_run'', dget kwargs ''dry_run'')]))
     else (case (existing, desired) of
        (_, None) \<Rightarrow> raiseI AssertionError
      | (None, Some body) \<Rightarrow>
          bindI (liftI (bindR (py_getitem (PDict defn) ''metadata'') (\<lambda>metadata. py_get metadata ''namespace'' PNone))) (\<lambda>namespace.
            call W Create resource (PDict body) ((''namespace'', namespace) # kwargs))
      | (Some e, Some body) \<Rightarrow>
          if e = [] then
            bindI (liftI (bindR (py_getitem (PDict defn) ''metadata'') (\<lambda>metadata. py_get metadata ''namespace'' PNone))) (\<lambda>namespace.
              call W Create resource (PDict body) ((''namespace'', namespace) # kwargs))
          else
            bindI (liftI (name_and_namespace defn)) (\<lambda>(name, namespace).
              if py_eq (PDict e) (PDict body) then
                call W Get resource PNone [(''name'', name), (''namespace'', namespace)]
              else call W Patch resource (PDict body) ([(''name'', name), (''namespace'', namespace),
                (''content_type'', PStr ''application/merge-patch+json'')] @ kwargs))))"

text \<open>
  The dynamic client's \<open>apply\<close>. \<open>serialize_body\<close> and \<open>ensure_namespace\<close> are the
  Kubernetes package's.
\<close>

definition dynamic_apply :: "world \<Rightarrow> resource \<Rightarrow> dict \<Rightarrow> pyval \<Rightarrow> dict \<Rightarrow> pyval io" where
  "dynamic_apply W resource body namespace kwargs =
     bindI (liftI (w_serialize_body W body)) (\<lambda>body.
     let body = AList.update ''metadata'' (case map_of body ''metadata'' of Some m \<Rightarrow> m | None \<Rightarrow> PDict []) body in
     bindI (liftI (py_getitem (PDict body) ''metadata'')) (\<lambda>metadata.
     bindI (liftI (py_get metadata ''name'' PNone)) (\<lambda>name.
       if \<not> truthy name then
         raiseI (ValueError (''name is required to apply '' @ res_group_version resource @ ''.'' @ res_kind resource))
       else
         bindI (liftI (if res_namespaced resource then
             bindR (w_ensure_namespace W resource namespace body) (\<lambda>ns.
               (case metadata of PDict m \<Rightarrow> Inr (AList.update ''metadata'' (PDict (AList.update ''namespace'' ns m)) body)
                | _ \<Rightarrow> Inl TypeError))
           else Inr body)) (\<lambda>body.
         tryI (k8s_apply W resource body kwargs)
           (\<lambda>e. case e of ApplyException m \<Rightarrow> raiseI (ValueError
              (''Could not apply strategic merge to '' @ py_str (dget body ''kind'') @ ''/'' @ py_str name @ '': '' @ m))
            | _ \<Rightarrow> raiseI e)))))"

definition client_apply :: "world \<Rightarrow> bool \<Rightarrow> resource \<Rightarrow> dict \<Rightarrow> pyval \<Rightarrow> dict \<Rightarrow> pyval io" where
  "client_apply W dry_run resource defn namespace params =
     dynamic_apply W resource defn namespace (ensure_dry_run dry_run params)"

section \<open>Which requests change the cluster\<close>

definition mutating :: "event \<Rightarrow> bool" where
  "mutating e = (case e of Call v _ _ _ \<Rightarrow> v \<noteq> Get | Ext _ _ \<Rightarrow> True | _ \<Rightarrow> False)"

text \<open>A request the server does not act upon: it reads, or it asks for a dry run.\<close>

definition harmless :: "event \<Rightarrow> bool" where
  "harmless e = (case e of
     Call v _ _ kwargs \<Rightarrow> v = Get \<or> map_of kwargs ''dry_run'' = Some (PStr K8S_SERVER_DRY_RUN)
   | Ext _ _ \<Rightarrow> False | _ \<Rightarrow> True)"

lemma harmless_simps [simp]:
  "harmless (Call Get r b k)" "harmless (Find p a t v)" "harmless Monotonic" "harmless (Sleep n)"
  "harmless (Warn s)" "harmless (Deprecate s)" "harmless (Load s)"
  by (simp_all add: harmless_def)

lemma not_mutating_simps [simp]:
  "\<not> mutating (Call Get r b k)" "\<not> mutating (Find p a t v)" "\<not> mutating Monotonic" "\<not> mutating (Sleep n)"
  "\<not> mutating (Warn s)" "\<not> mutating (Deprecate s)" "\<not> mutating (Load s)"
  by (simp_all add: mutating_def)

lemma not_mutating_harmless: "\<not> mutating e \<Longrightarrow> harmless e"
  by (cases e) (auto simp: harmless_def mutating_def)

lemma ensure_dry_run_True [simp]: "map_of (ensure_dry_run True params) ''dry_run'' = Some (PStr K8S_SERVER_DRY_RUN)"
  by (simp add: ensure_dry_run_def map_of_update)

lemma dget_dry_run [simp]: "dget (ensure_dry_run True params) ''dry_run'' = PStr K8S_SERVER_DRY_RUN"
  by (simp add: dget_def)

text \<open>Reading never changes the cluster.\<close>

abbreviation reads :: "'a io \<Rightarrow> bool" where
  "reads m \<equiv> emits (\<lambda>e. \<not> mutating e) m"

lemma reads_harmless: "reads m \<Longrightarrow> emits harmless m"
  by (erule emits_mono) (rule not_mutating_harmless)

lemma reads_get [io_rules]: "reads (call W Get r b k)"
  by (rule emits_call) simp

lemma reads_find [io_rules]: "reads (find W p a t v)"
  by (rule emits_find) simp

lemma reads_client_get [io_rules]: "reads (client_get W r k)"
  unfolding client_get_def by (intro io_rules)

lemma reads_try_attributes [io_rules]: "reads (try_attributes W p k a as)"
  by (induction as) (auto intro!: io_rules)

lemma reads_client_resource [io_rules]: "reads (client_resource W k a)"
  unfolding client_resource_def find_resource_with_prefix_def by (intro io_rules)

lemma reads_apply_object [io_rules]: "reads (apply_object W r d s)"
  unfolding apply_object_def
  by (auto intro!: io_rules split: prod.splits option.splits)

lemma dry_call:
  "emits harmless (client_create W True r d p)" "emits harmless (client_replace W True r d p)"
  "emits harmless (client_patch W True r d p)" "emits harmless (client_delete W True r p)"
  unfolding client_create_def client_replace_def client_patch_def client_delete_def
  by (rule emits_call, simp add: harmless_def)+

lemma dry_k8s_apply:
  assumes "map_of kwargs ''dry_run'' = Some (PStr K8S_SERVER_DRY_RUN)"
  shows "emits harmless (k8s_apply W r d kwargs)"
  unfolding k8s_apply_def
  using assms
  by (auto intro!: io_rules emits_call reads_harmless [OF reads_apply_object] simp: harmless_def
      split: prod.splits option.splits)

lemma dry_client_apply: "emits harmless (client_apply W True r d n p)"
  unfolding client_apply_def dynamic_apply_def Let_def
  by (auto intro!: io_rules dry_k8s_apply split: exn.splits)

end
