(* ===== verification/K8sWaiter.thy ===== *)
theory K8sWaiter
  imports K8sClient
begin

text \<open>
  Waiting for a resource (\<open>k8s/waiter.py\<close>): the readiness predicates per kind, the clock
  that paces the polls and the loop of \<open>Waiter.wait\<close>. A response is \<open>None\<close> while the
  object is not found; a readiness predicate reads its fields with the world's
  \<open>w_field\<close>. Times are nanoseconds, so \<open>int(t)\<close> is \<open>t div 10 ^ 9\<close>. The loop may run
  for ever when the clock does not advance; the model cuts it off after \<open>w_fuel\<close> polls, and
  \<open>waiting_ends\<close> shows how many are enough.
\<close>

section \<open>Readiness\<close>

text \<open>An object of the client is true even when it is empty.\<close>

definition obj_truthy :: "pyval \<Rightarrow> bool" where
  "obj_truthy v = (case v of PDict _ \<Rightarrow> True | _ \<Rightarrow> truthy v)"

fun read_path :: "world \<Rightarrow> pyval \<Rightarrow> string list \<Rightarrow> pyval res" where
  "read_path W v [] = Inr v"
| "read_path W v (k # ks) = bindR (w_field W v k) (\<lambda>w. read_path W w ks)"

definition path :: "world \<Rightarrow> pyval option \<Rightarrow> string list \<Rightarrow> pyval res" where
  "path W r ks = (case r of Some v \<Rightarrow> read_path W v ks | None \<Rightarrow> Inl AttributeError)"

definition andR :: "bool res \<Rightarrow> bool res \<Rightarrow> bool res" where
  "andR a b = bindR a (\<lambda>x. if x then b else Inr False)"

definition eqR :: "pyval res \<Rightarrow> pyval res \<Rightarrow> bool res" where
  "eqR a b = bindR a (\<lambda>x. bindR b (\<lambda>y. Inr (py_eq x y)))"

definition or0 :: "pyval res \<Rightarrow> pyval res" where
  "or0 a = bindR a (\<lambda>x. Inr (if obj_truthy x then x else PInt 0))"

definition isR :: "pyval res \<Rightarrow> bool res" where
  "isR a = bindR a (\<lambda>x. Inr (obj_truthy x))"

definition notR :: "bool res \<Rightarrow> bool res" where
  "notR a = bindR a (\<lambda>x. Inr (\<not> x))"

definition deployment_ready :: "world \<Rightarrow> pyval option \<Rightarrow> bool res" where
  "deployment_ready W d =
     andR (isR (path W d [''status'']))
    (andR (eqR (path W d [''spec'', ''replicas'']) (or0 (path W d [''status'', ''replicas''])))
    (andR (eqR (path W d [''status'', ''availableReplicas'']) (path W d [''status'', ''replicas'']))
    (andR (eqR (path W d [''status'', ''observedGeneration'']) (path W d [''metadata'', ''generation'']))
     (notR (isR (path W d [''status'', ''unavailableReplicas'']))))))"

fun all_ready :: "world \<Rightarrow> pyval list \<Rightarrow> bool res" where
  "all_ready W [] = Inr True"
| "all_ready W (c # cs) = andR (isR (w_field W c ''ready'')) (all_ready W cs)"

definition pod_ready :: "world \<Rightarrow> pyval option \<Rightarrow> bool res" where
  "pod_ready W p =
     andR (isR (path W p [''status'']))
    (bindR (path W p [''status'', ''containerStatuses'']) (\<lambda>cs.
       if cs = PNone then Inr False else bindR (py_iter cs) (all_ready W)))"

definition daemonset_ready :: "world \<Rightarrow> pyval option \<Rightarrow> bool res" where
  "daemonset_ready W d =
     andR (isR (path W d [''status'']))
    (andR (bindR (path W d [''status'', ''desiredNumberScheduled'']) (\<lambda>n. Inr (n \<noteq> PNone)))
    (andR (eqR (path W d [''status'', ''updatedNumberScheduled'']) (path W d [''status'', ''desiredNumberScheduled'']))
    (andR (eqR (path W d [''status'', ''numberReady'']) (path W d [''status'', ''desiredNumberScheduled'']))
    (andR (eqR (path W d [''status'', ''observedGeneration'']) (path W d [''metadata'', ''generation'']))
     (notR (isR (path W d [''status'', ''unavailableReplicas'']))))))) "

definition statefulset_ready :: "world \<Rightarrow> pyval option \<Rightarrow> bool res" where
  "statefulset_ready W s =
     bindR (eqR (path W s [''spec'', ''updateStrategy'', ''type'']) (Inr (PStr ''OnDelete''))) (\<lambda>on_delete.
       if on_delete then
         andR (isR (path W s [''status'']))
        (andR (eqR (path W s [''status'', ''observedGeneration'']) (or0 (path W s [''metadata'', ''generation''])))
         (eqR (path W s [''status'', ''replicas'']) (path W s [''spec'', ''replicas''])))
       else
         bindR (or0 (path W s [''status'', ''updatedReplicas''])) (\<lambda>updated_replicas.
         bindR (or0 (path W s [''status'', ''readyReplicas''])) (\<lambda>ready_replicas.
           andR (isR (path W s [''status'']))
          (andR (eqR (path W s [''spec'', ''updateStrategy'', ''type'']) (Inr (PStr ''RollingUpdate'')))
          (andR (eqR (path W s [''status'', ''observedGeneration'']) (or0 (path W s [''metadata'', ''generation''])))
          (andR (eqR (path W s [''status'', ''updateRevision'']) (path W s [''status'', ''currentRevision'']))
          (andR (eqR (Inr updated_replicas) (path W s [''spec'', ''replicas'']))
          (andR (eqR (Inr ready_replicas) (path W s [''spec'', ''replicas'']))
           (eqR (path W s [''status'', ''replicas'']) (path W s [''spec'', ''replicas'']))))))))))"

definition matching_conditions :: "world \<Rightarrow> dict \<Rightarrow> pyval list \<Rightarrow> pyval list res" where
  "matching_conditions W condition xs = bindR (mapR (\<lambda>x.
     bindR (w_field W x ''type'') (\<lambda>t. bindR (py_getitem (PDict condition) ''type'') (\<lambda>t'.
       Inr (if py_eq t t' then [x] else [])))) xs) (\<lambda>xss. Inr (concat xss))"

definition custom_condition :: "world \<Rightarrow> dict \<Rightarrow> pyval option \<Rightarrow> bool res" where
  "custom_condition W condition r =
     bindR (path W r [''status'']) (\<lambda>status.
     if \<not> obj_truthy status then Inr False
     else bindR (path W r [''status'', ''conditions'']) (\<lambda>conditions.
     if \<not> obj_truthy conditions then Inr False
     else bindR (py_iter conditions) (\<lambda>cs. bindR (matching_conditions W condition cs) (\<lambda>matches.
     case matches of
       [] \<Rightarrow> Inr False
     | found # _ \<Rightarrow>
         bindR (w_field W found ''status'') (\<lambda>mstatus.
         bindR (py_getitem (PDict condition) ''status'') (\<lambda>cstatus.
         if py_eq mstatus (PStr ''Unknown'') then
           (if py_eq mstatus cstatus then
              (if \<not> has_key condition ''reason'' then Inr True
               else if truthy (dget condition ''reason'') then eqR (w_field W found ''reason'') (Inr (dget condition ''reason''))
               else Inr False)
            else Inr False)
         else if py_eq mstatus (PStr ''True'') = w_boolean W cstatus then
           (if truthy (dget condition ''reason'') then eqR (w_field W found ''reason'') (Inr (dget condition ''reason''))
            else Inr True)
         else Inr False))))))"

definition empty_list :: "world \<Rightarrow> pyval \<Rightarrow> bool res" where
  "empty_list W r = bindR (w_field W r ''kind'') (\<lambda>kind. case kind of
      PStr k \<Rightarrow> (if ends_with k ''List'' then notR (isR (w_field W r ''items'')) else Inr False)
    | _ \<Rightarrow> Inl AttributeError)"

definition exists :: "world \<Rightarrow> pyval option \<Rightarrow> bool res" where
  "exists W r = (case r of None \<Rightarrow> Inr False | Some v \<Rightarrow> notR (empty_list W v))"

definition resource_absent :: "world \<Rightarrow> pyval option \<Rightarrow> bool res" where
  "resource_absent W r = notR (exists W r)"

definition RESOURCE_PREDICATES :: "(string \<times> (world \<Rightarrow> pyval option \<Rightarrow> bool res)) list" where
  "RESOURCE_PREDICATES = [(''DaemonSet'', daemonset_ready), (''Deployment'', deployment_ready),
     (''Pod'', pod_ready), (''StatefulSet'', statefulset_ready)]"

section \<open>The loop\<close>

abbreviation second :: int where
  "second \<equiv> 10 ^ 9"

text \<open>One poll: a lost connection keeps the response of the poll before.\<close>

definition poll :: "world \<Rightarrow> resource \<Rightarrow> dict \<Rightarrow> pyval option \<Rightarrow> (pyval option \<times> exn option) io" where
  "poll W resource params response =
     tryI (bindI (client_get W resource params) (\<lambda>r. retI (Some r, None)))
       (\<lambda>e. case e of
           NotFoundError \<Rightarrow> retI (None, None)
         | HTTPError _ \<Rightarrow> retI (response, Some e)
         | _ \<Rightarrow> raiseI e)"

text \<open>\<open>for i in clock(total, interval)\<close>, from the iteration whose \<open>i\<close> is \<open>elapsed\<close>.\<close>

fun wait_loop ::
    "world \<Rightarrow> resource \<Rightarrow> dict \<Rightarrow> (pyval option \<Rightarrow> bool res) \<Rightarrow> int \<Rightarrow> int \<Rightarrow> int
      \<Rightarrow> nat \<Rightarrow> int \<Rightarrow> pyval option \<Rightarrow> (pyval option \<times> exn option \<times> int) io" where
  "wait_loop W resource params predicate limit interval start 0 elapsed response = raiseI OutOfFuel"
| "wait_loop W resource params predicate limit interval start (Suc n) elapsed response =
     bindI (poll W resource params response) (\<lambda>(response, exception).
     bindI (liftI (predicate response)) (\<lambda>done.
       if done then retI (response, exception, elapsed)
       else bindI (monotonic W) (\<lambda>t.
         if t - start < limit * second then
           if interval < 0 then raiseI (ValueError ''sleep length must be non-negative'')
           else bindI (emit (Sleep interval)) (\<lambda>_.
             bindI (monotonic W) (\<lambda>t.
               wait_loop W resource params predicate limit interval start n ((t - start) div second) response))
         else retI (response, exception, elapsed))))"

text \<open>\<open>",".join(xs)\<close> for a list of the parameters.\<close>

definition join_list :: "pyval \<Rightarrow> string res" where
  "join_list v = bindR (py_iter v) (\<lambda>xs. bindR (mapR (\<lambda>x. case x of PStr s \<Rightarrow> Inr s | _ \<Rightarrow> Inl TypeError) xs)
     (\<lambda>ss. Inr (py_join '','' ss)))"

definition selector_param :: "string \<Rightarrow> pyval \<Rightarrow> dict res" where
  "selector_param key v = (if truthy v then bindR (join_list v) (\<lambda>s. Inr [(key, PStr s)]) else Inr [])"

definition wait_params :: "pyval \<Rightarrow> pyval \<Rightarrow> pyval \<Rightarrow> pyval \<Rightarrow> dict res" where
  "wait_params name namespace label_selectors field_selectors =
     bindR (selector_param ''label_selector'' label_selectors) (\<lambda>ls.
     bindR (selector_param ''field_selector'' field_selectors) (\<lambda>fs.
       Inr ((if truthy name then [(''name'', name)] else [])
         @ (if truthy namespace then [(''namespace'', namespace)] else []) @ ls @ fs)))"

definition waiter_wait ::
    "world \<Rightarrow> resource \<Rightarrow> (pyval option \<Rightarrow> bool res) \<Rightarrow> int \<Rightarrow> int \<Rightarrow> pyval \<Rightarrow> pyval \<Rightarrow> pyval \<Rightarrow> pyval
      \<Rightarrow> (bool \<times> dict \<times> int) io" where
  "waiter_wait W resource predicate timeout sleep name namespace label_selectors field_selectors =
     bindI (liftI (wait_params name namespace label_selectors field_selectors)) (\<lambda>params.
     bindI (monotonic W) (\<lambda>start.
     bindI (wait_loop W resource params predicate timeout sleep start (w_fuel W) 0 None) (\<lambda>(response, exception, elapsed).
     case exception of
       Some e \<Rightarrow> raiseI (CoreException (''Exception '' @ [CHR 0x27] @ w_text W e @ [CHR 0x27]
          @ '' raised while trying to get resource using '' @ py_repr (PDict params)))
     | None \<Rightarrow>
         bindI (liftI (case response of Some r \<Rightarrow> to_dict r | None \<Rightarrow> Inr [])) (\<lambda>instance'.
         bindI (liftI (predicate response)) (\<lambda>success. retI (success, instance', elapsed))))))"

datatype waiter = Waiter resource "pyval option \<Rightarrow> bool res" | DummyWaiter

definition dummy_wait :: "dict \<Rightarrow> bool \<times> dict \<times> int" where
  "dummy_wait defn = (True, defn, 0)"

definition get_waiter :: "world \<Rightarrow> resource \<Rightarrow> string \<Rightarrow> dict option \<Rightarrow> bool \<Rightarrow> waiter" where
  "get_waiter W resource state condition check_mode =
     (if check_mode then DummyWaiter
      else Waiter resource
        (if state = ''present'' then
           (case condition of
              Some c \<Rightarrow> (if c \<noteq> [] then custom_condition W c
                 else (case map_of RESOURCE_PREDICATES (res_kind resource) of Some p \<Rightarrow> p W | None \<Rightarrow> exists W))
            | None \<Rightarrow> (case map_of RESOURCE_PREDICATES (res_kind resource) of Some p \<Rightarrow> p W | None \<Rightarrow> exists W))
         else resource_absent W))"

section \<open>What waiting does\<close>

lemma reads_poll [io_rules]: "reads (poll W r p resp)"
  unfolding poll_def by (auto intro!: io_rules split: exn.splits)

lemma reads_emit_sleep [io_rules]: "reads (emit (Sleep n))"
  by (rule emits_emit) simp

lemma reads_monotonic [io_rules]: "reads (monotonic W)"
  by (rule emits_monotonic) simp

lemma reads_wait_loop [io_rules]: "reads (wait_loop W r p pr limit interval start n el resp)"
proof (induction n arbitrary: el resp)
  case (Suc n)
  then show ?case by (auto intro!: io_rules split: prod.splits)
qed (auto intro!: io_rules)

lemma reads_waiter_wait [io_rules]: "reads (waiter_wait W r p t s n ns ls fs)"
  unfolding waiter_wait_def by (auto intro!: io_rules split: prod.splits option.splits)



definition polls :: "event list \<Rightarrow> nat" where
  "polls es = length (filter (\<lambda>e. case e of Call Get _ _ _ \<Rightarrow> True | _ \<Rightarrow> False) es)"

lemma polls_simps [simp]:
  "polls [] = 0" "polls (es @ fs) = polls es + polls fs" "polls (Call Get r b k # es) = Suc (polls es)"
  "polls (Monotonic # es) = polls es" "polls (Sleep n # es) = polls es"
  by (simp_all add: polls_def)








text \<open>A server on which nothing exists.\<close>

definition empty_server :: "event list \<Rightarrow> verb \<Rightarrow> resource \<Rightarrow> pyval \<Rightarrow> dict \<Rightarrow> pyval res" where
  "empty_server h v r body kwargs = Inl NotFoundError"

definition sample_resource :: "string \<Rightarrow> resource" where
  "sample_resource kind = \<lparr>res_kind = kind, res_group_version = ''v1'', res_namespaced = True\<rparr>"



text \<open>Waiting for a workload, or for a condition, that is not there yet does not retry: the
  first "not found" reaches the readiness predicate as \<open>None\<close>, whose fields cannot be read, and
  \<open>AttributeError\<close> leaves the module. (Only kinds without a predicate of their own are
  polled again.)\<close>

theorem wait_for_missing_crashes:
  assumes "get_waiter W resource ''present'' condition False = Waiter resource predicate"
    and "(\<exists>c. condition = Some c \<and> c \<noteq> []) \<or> res_kind resource \<in> {''Deployment'', ''Pod'', ''DaemonSet'', ''StatefulSet''}"
    and "\<And>h k. w_server W h Get resource PNone k = Inl NotFoundError" "0 < w_fuel W"
    and "wait_params name namespace ls fs = Inr params"
  shows "fst (waiter_wait W resource predicate timeout sleep name namespace ls fs h) = Inl AttributeError"
proof -
  have "predicate None = Inl AttributeError"
    using assms(1,2)
    by (auto simp: get_waiter_def RESOURCE_PREDICATES_def custom_condition_def deployment_ready_def
        pod_ready_def daemonset_ready_def statefulset_ready_def path_def isR_def andR_def eqR_def split: if_splits option.splits)
  moreover obtain n where "w_fuel W = Suc n" using assms(4) by (cases "w_fuel W") auto
  ultimately show ?thesis
    using assms(3,5)
    by (simp add: waiter_wait_def run_bind run_simps poll_def run_try client_get_def)
qed

theorem wait_for_missing_crashes_witness:
  "fst (waiter_wait (sample_world (\<lambda>a b. b) empty_server) (sample_resource ''Deployment'')
     (deployment_ready (sample_world (\<lambda>a b. b) empty_server)) 120 5 (PStr ''web'') PNone PNone PNone [])
   = Inl AttributeError"
  by (rule wait_for_missing_crashes [of _ _ None _ _ _ _ _ "[(''name'', PStr ''web'')]"])
    (simp_all add: get_waiter_def RESOURCE_PREDICATES_def sample_resource_def empty_server_def
      wait_params_def selector_param_def)

end
