(* ===== verification/K8sHash.thy ===== *)
theory K8sHash
  imports PyJson
begin

text \<open>
  The hash that \<open>append_hash\<close> puts after the name of a ConfigMap or Secret
  (\<open>plugins/module_utils/hashes.py\<close>). \<open>hashlib.sha256(...).hexdigest()\<close> is the
  parameter \<open>sha256\<close>. \<open>generate_hash\<close> writes its scratch field into the definition it is
  given; the model returns the definition it leaves behind.
\<close>

section \<open>The code\<close>

fun sorted_dict :: "dict \<Rightarrow> dict" where
  "sorted_dict unsorted_dict = sort_key fst (map (\<lambda>(k, v).
     (k, case v of PDict d \<Rightarrow> PDict (sorted_dict d) | _ \<Rightarrow> v)) unsorted_dict)"

declare sorted_dict.simps [simp del]

definition marshal :: "dict \<Rightarrow> string list \<Rightarrow> string" where
  "marshal data keys = dumps False (PDict (map (\<lambda>key.
     (key, case map_of data key of Some v \<Rightarrow> v | None \<Rightarrow> PStr '''')) keys))"

definition hash_char :: "char \<Rightarrow> char" where
  "hash_char c = (case map_of (zip ''013ae'' ''ghkmt'') c of Some c' \<Rightarrow> c' | None \<Rightarrow> c)"

definition encode :: "(string \<Rightarrow> string) \<Rightarrow> string \<Rightarrow> string" where
  "encode sha256 resource = map hash_char (take 10 (sha256 resource))"

definition generate_hash :: "(string \<Rightarrow> string) \<Rightarrow> dict \<Rightarrow> (string \<times> dict) res" where
  "generate_hash sha256 resource =
     bindR (py_get (PDict resource) ''metadata'' (PDict [])) (\<lambda>metada.
     bindR (py_get metada ''name'' (PStr '''')) (\<lambda>name.
     bindR (py_get metada ''generateName'' (PStr '''')) (\<lambda>generate_name.
       let r1 = AList.update ''name'' name resource;
           generated = (py_eq name (PStr '''') \<and> truthy generate_name);
           key = (if generated then ''generateName'' else ''name'');
           r2 = (if generated then AList.update ''generateName'' generate_name (AList.delete ''name'' r1) else r1)
       in bindR (py_getitem (PDict r2) ''kind'') (\<lambda>kind.
         if py_eq kind (PStr ''ConfigMap'') then
           Inr (encode sha256 (marshal (sorted_dict r2) [''data'', ''kind'', key]), AList.delete key r2)
         else if py_eq kind (PStr ''Secret'') then
           Inr (encode sha256 (marshal (sorted_dict r2) [''data'', ''kind'', key, ''type'']), AList.delete key r2)
         else Inl NotImplementedError))))"

section \<open>The canonical order of the items\<close>

text \<open>The same items in another order, at any depth of nested dictionaries.\<close>

inductive reordered :: "dict \<Rightarrow> dict \<Rightarrow> bool" where
  perm: "mset d = mset e \<Longrightarrow> reordered d e"
| inside: "reordered d' e' \<Longrightarrow> reordered ((k, PDict d') # d) ((k, PDict e') # d)"
| trans: "reordered d e \<Longrightarrow> reordered e f \<Longrightarrow> reordered d f"

definition canon :: "pyval \<Rightarrow> pyval" where
  "canon v = (case v of PDict d \<Rightarrow> PDict (sorted_dict d) | _ \<Rightarrow> v)"

lemma sorted_dict_canon: "sorted_dict d = sort_key fst (map (\<lambda>(k, v). (k, canon v)) d)"
  by (subst sorted_dict.simps) (simp add: canon_def)

lemma sort_key_unique:
  assumes "distinct (map fst d)" and "mset d = mset e"
  shows "sort_key fst d = sort_key fst e"
proof -
  have "distinct (map fst e)" using assms by (metis mset_eq_imp_distinct_iff mset_map)
  moreover have "inj_on fst (set d)" using assms(1) by (simp add: distinct_map)
  moreover have "set d = set e" using assms(2) by (rule mset_eq_setD)
  ultimately show ?thesis
    using assms by (intro map_sorted_distinct_set_unique [where f = fst]) (auto intro: sorted_sort_key)
qed

lemma reordered_keys: "reordered d e \<Longrightarrow> mset (map fst d) = mset (map fst e)"
  by (induction rule: reordered.induct) auto

lemma reordered_distinct: "reordered d e \<Longrightarrow> distinct (map fst d) \<Longrightarrow> distinct (map fst e)"
  using reordered_keys mset_eq_imp_distinct_iff by blast

lemma reordered_wf: "reordered d e \<Longrightarrow> wf_dict d \<Longrightarrow> wf_dict e"
proof (induction rule: reordered.induct)
  case (perm d e)
  then show ?case
    using reordered_distinct [OF reordered.perm [OF perm(1)]] mset_eq_setD [OF perm(1)]
    by (simp add: list_all_iff)
next
  case (inside d' e' k d)
  then show ?case by simp
qed simp

lemma sorted_dict_reordered: "reordered d e \<Longrightarrow> wf_dict d \<Longrightarrow> sorted_dict d = sorted_dict e"
proof (induction rule: reordered.induct)
  case (perm d e)
  have "mset (map (\<lambda>(k, v). (k, canon v)) d) = mset (map (\<lambda>(k, v). (k, canon v)) e)"
    using perm(1) by simp
  moreover have "distinct (map fst (map (\<lambda>(k, v). (k, canon v)) d))"
    using perm(2) by (simp add: comp_def case_prod_beta)
  ultimately show ?case unfolding sorted_dict_canon by (rule sort_key_unique [rotated])
next
  case (inside d' e' k d)
  then show ?case by (simp add: sorted_dict_canon canon_def)
next
  case (trans d e f)
  then show ?case using reordered_wf by simp
qed

lemma map_of_sort_key: "distinct (map fst d) \<Longrightarrow> map_of (sort_key fst d) = map_of d"
  by (rule map_of_eqI) (auto simp: distinct_map map_of_eq_Some_iff intro!: map_of_eqI)

lemma map_of_sorted_dict:
  assumes "distinct (map fst d)"
  shows "map_of (sorted_dict d) k = map_option canon (map_of d k)"
proof -
  have "distinct (map fst (map (\<lambda>(k, v). (k, canon v)) d))"
    using assms by (simp add: comp_def case_prod_beta)
  then have "map_of (sorted_dict d) = map_of (map (\<lambda>(k, v). (k, canon v)) d)"
    unfolding sorted_dict_canon by (rule map_of_sort_key)
  then show ?thesis by (simp add: map_of_map)
qed

lemma sorted_dict_distinct: "distinct (map fst d) \<Longrightarrow> distinct (map fst (sorted_dict d))"
  by (simp add: sorted_dict_canon comp_def case_prod_beta)

lemma sorted_dict_keys: "sorted (map fst (sorted_dict d))"
  by (simp add: sorted_dict_canon)

text \<open>Two dictionaries have the same canonical form when each key has the same canonical value.\<close>

lemma sorted_dict_eq_iff:
  assumes "distinct (map fst d)" "distinct (map fst e)"
  shows "sorted_dict d = sorted_dict e \<longleftrightarrow> (\<forall>k. map_option canon (map_of d k) = map_option canon (map_of e k))"
proof
  assume "\<forall>k. map_option canon (map_of d k) = map_option canon (map_of e k)"
  then have "map_of (sorted_dict d) = map_of (sorted_dict e)"
    using assms by (auto simp: map_of_sorted_dict fun_eq_iff)
  then have "set (sorted_dict d) = set (sorted_dict e)"
    using assms sorted_dict_distinct by (metis map_of_inject_set)
  then show "sorted_dict d = sorted_dict e"
    using assms sorted_dict_distinct sorted_dict_keys
    by (intro map_sorted_distinct_set_unique [where f = fst]) (auto simp: distinct_map)
qed (metis assms map_of_sorted_dict)

lemma sorted_dict_Nil_iff [simp]: "sorted_dict d = [] \<longleftrightarrow> d = []"
proof -
  have "length (sorted_dict d) = length d" by (simp add: sorted_dict_canon)
  then show ?thesis by auto
qed

lemma canon_simps:
  "canon v = PStr s \<longleftrightarrow> v = PStr s" "truthy (canon v) = truthy v"
  by (cases v; simp add: canon_def)+

lemma py_eq_str: "py_eq v (PStr s) \<longleftrightarrow> v = PStr s"
  by (cases v) auto

lemma py_get_canon:
  assumes "distinct (map fst d)" "distinct (map fst e)" "sorted_dict d = sorted_dict e"
  shows "canon (case map_of d k of Some v \<Rightarrow> v | None \<Rightarrow> x) = canon (case map_of e k of Some v \<Rightarrow> v | None \<Rightarrow> x)"
  using assms sorted_dict_eq_iff [of d e] by (metis option.case_eq_if option.collapse option.map_disc_iff option.map_sel)

lemma sorted_dict_update:
  assumes "distinct (map fst d)" "distinct (map fst e)" "sorted_dict d = sorted_dict e" "canon v = canon w"
  shows "sorted_dict (AList.update k v d) = sorted_dict (AList.update k w e)"
  using assms sorted_dict_eq_iff [of d e]
  by (subst sorted_dict_eq_iff) (auto simp: map_of_update distinct_update)

lemma sorted_dict_delete:
  assumes "distinct (map fst d)" "distinct (map fst e)" "sorted_dict d = sorted_dict e"
  shows "sorted_dict (AList.delete k d) = sorted_dict (AList.delete k e)"
  using assms sorted_dict_eq_iff [of d e]
  by (subst sorted_dict_eq_iff) (auto simp: delete_conv' distinct_delete)

lemma canon_dict_cases:
  assumes "canon v = canon w"
  obtains "v = w" | d e where "v = PDict d" "w = PDict e" "sorted_dict d = sorted_dict e"
  using assms by (cases v; cases w) (auto simp: canon_def)

text \<open>What remains once the two names are read.\<close>

definition named_hash :: "(string \<Rightarrow> string) \<Rightarrow> dict \<Rightarrow> pyval \<Rightarrow> pyval \<Rightarrow> (string \<times> dict) res" where
  "named_hash sha256 resource name generate_name =
     (let r1 = AList.update ''name'' name resource;
          generated = (py_eq name (PStr '''') \<and> truthy generate_name);
          key = (if generated then ''generateName'' else ''name'');
          r2 = (if generated then AList.update ''generateName'' generate_name (AList.delete ''name'' r1) else r1)
      in bindR (py_getitem (PDict r2) ''kind'') (\<lambda>kind.
         if py_eq kind (PStr ''ConfigMap'') then
           Inr (encode sha256 (marshal (sorted_dict r2) [''data'', ''kind'', key]), AList.delete key r2)
         else if py_eq kind (PStr ''Secret'') then
           Inr (encode sha256 (marshal (sorted_dict r2) [''data'', ''kind'', key, ''type'']), AList.delete key r2)
         else Inl NotImplementedError))"

lemma generate_hash_named: "generate_hash sha256 resource =
    bindR (py_get (PDict resource) ''metadata'' (PDict [])) (\<lambda>metada.
    bindR (py_get metada ''name'' (PStr '''')) (\<lambda>name.
    bindR (py_get metada ''generateName'' (PStr '''')) (\<lambda>generate_name.
      named_hash sha256 resource name generate_name)))"
  by (simp add: generate_hash_def named_hash_def Let_def)

lemma named_hash_canon:
  assumes "distinct (map fst d)" "distinct (map fst e)" "sorted_dict d = sorted_dict e"
    and "canon n = canon n'" "canon g = canon g'"
  shows "map_sum id fst (named_hash sha256 d n g) = map_sum id fst (named_hash sha256 e n' g')"
proof -
  have gen: "py_eq n (PStr []) \<and> truthy g \<longleftrightarrow> py_eq n' (PStr []) \<and> truthy g'"
    using assms(4,5) canon_simps by (metis py_eq_str)
  let ?r = "\<lambda>d n g. if py_eq n (PStr []) \<and> truthy g
    then AList.update ''generateName'' g (AList.delete ''name'' (AList.update ''name'' n d))
    else AList.update ''name'' n d"
  have dist: "distinct (map fst (?r d n g))" "distinct (map fst (?r e n' g'))"
    using assms(1,2) by (simp_all add: distinct_update distinct_delete)
  have r: "sorted_dict (?r d n g) = sorted_dict (?r e n' g')"
    using assms gen by (auto intro!: sorted_dict_update sorted_dict_delete simp: distinct_update distinct_delete)
  have k: "map_option canon (map_of (?r d n g) ''kind'') = map_option canon (map_of (?r e n' g') ''kind'')"
    using r sorted_dict_eq_iff [OF dist] by blast
  show ?thesis
  proof (cases "map_of (?r d n g) ''kind''")
    case None
    then have "map_of (?r e n' g') ''kind'' = None" using k by simp
    with None show ?thesis
      unfolding named_hash_def Let_def by (simp add: py_getitem_def)
  next
    case (Some v)
    then obtain w where w: "map_of (?r e n' g') ''kind'' = Some w" "canon w = canon v"
      using k by (cases "map_of (?r e n' g') ''kind''") auto
    then have "py_eq v (PStr s) \<longleftrightarrow> py_eq w (PStr s)" for s
      using canon_simps(1) [of v s] canon_simps(1) [of w s] by (simp add: py_eq_str)
    with Some w r gen show ?thesis
      unfolding named_hash_def Let_def by (simp add: py_getitem_def del: py_eq.simps)
  qed
qed

lemma generate_hash_canon:
  assumes "wf_dict d" "wf_dict e" "sorted_dict d = sorted_dict e"
  shows "map_sum id fst (generate_hash sha256 d) = map_sum id fst (generate_hash sha256 e)"
proof -
  have dist: "distinct (map fst d)" "distinct (map fst e)" using assms by simp_all
  let ?m = "\<lambda>d. case map_of d ''metadata'' of Some v \<Rightarrow> v | None \<Rightarrow> PDict []"
  have wfm: "wf_py (?m d)" if "wf_dict d" for d
    using that wf_dict_lookup [of d "''metadata''"] by (auto split: option.split)
  have get: "py_get (PDict x) k y = Inr (case map_of x k of Some v \<Rightarrow> v | None \<Rightarrow> y)" for x k y
    by (simp add: py_get_def)
  have bad: "py_get v k y = Inl AttributeError" if "\<forall>x. v \<noteq> PDict x" for v k y
    using that by (cases v) (simp_all add: py_get_def)
  have step: ?thesis if "?m d = PDict m" "?m e = PDict n" "distinct (map fst m)" "distinct (map fst n)"
    "sorted_dict m = sorted_dict n" for m n
    unfolding generate_hash_named get bindR.simps that(1,2)
    by (intro named_hash_canon dist assms(3) py_get_canon that(3-5))
  from py_get_canon [OF dist assms(3), where k = "''metadata''" and x = "PDict []"] show ?thesis
  proof (cases rule: canon_dict_cases)
    case 1
    show ?thesis
    proof (cases "\<exists>m. ?m d = PDict m")
      case True
      then obtain m where m: "?m d = PDict m" by blast
      then have m': "?m e = PDict m" using 1 by (simp only:)
      have "distinct (map fst m)" using wfm [OF assms(1), unfolded m] by simp
      then show ?thesis using step [OF m m'] by blast
    next
      case False
      then have "\<forall>x. ?m d \<noteq> PDict x" "\<forall>x. ?m e \<noteq> PDict x" using 1 by (simp_all only:) blast+
      then have "py_get (?m d) k y = Inl AttributeError" "py_get (?m e) k y = Inl AttributeError" for k y
        by (intro bad; blast)+
      then show ?thesis
        unfolding generate_hash_named get bindR.simps by (simp only: bindR.simps map_sum.simps)
    qed
  next
    case (2 m n)
    have "distinct (map fst m)" "distinct (map fst n)"
      using wfm [OF assms(1), unfolded 2(1)] wfm [OF assms(2), unfolded 2(2)] by simp_all
    then show ?thesis by (rule step [OF 2(1,2) _ _ 2(3)])
  qed
qed

text \<open>C17: The hash does not depend on the order in which the fields of the resource are
  written, at any depth of nested mappings.\<close>

theorem hash_order_insensitive:
  assumes "wf_dict d" and "reordered d e"
  shows "map_sum id fst (generate_hash sha256 d) = map_sum id fst (generate_hash sha256 e)"
  by (rule generate_hash_canon [OF assms(1) reordered_wf [OF assms(2,1)] sorted_dict_reordered [OF assms(2,1)]])

definition example_config_map :: dict where
  "example_config_map = [(''kind'', PStr ''ConfigMap''),
     (''data'', PDict [(''b'', PStr ''2''), (''a'', PStr ''1'')]),
     (''metadata'', PDict [(''name'', PStr ''cfg'')])]"

theorem hash_order_insensitive_witness:
  "map_sum id fst (generate_hash id example_config_map)
   = map_sum id fst (generate_hash id [(''data'', PDict [(''a'', PStr ''1''), (''b'', PStr ''2'')]),
       (''kind'', PStr ''ConfigMap''), (''metadata'', PDict [(''name'', PStr ''cfg'')])])"
proof (rule hash_order_insensitive)
  show "wf_dict example_config_map" by (simp add: example_config_map_def)
  let ?kind = "(''kind'', PStr ''ConfigMap'')" and ?meta = "(''metadata'', PDict [(''name'', PStr ''cfg'')])"
  let ?d = "(''data'', PDict [(''b'', PStr ''2''), (''a'', PStr ''1'')])"
  let ?e = "(''data'', PDict [(''a'', PStr ''1''), (''b'', PStr ''2'')])"
  have "reordered example_config_map (?d # [?kind, ?meta])"
    by (rule perm) (simp add: example_config_map_def)
  moreover have "reordered (?d # [?kind, ?meta]) (?e # [?kind, ?meta])"
    by (rule inside, rule perm) simp
  ultimately show "reordered example_config_map [?e, ?kind, ?meta]" by (rule reordered.trans)
qed

lemma delete_update_new: "k \<notin> fst ` set d \<Longrightarrow> AList.delete k (AList.update k v d) = d"
  by (induction d) auto

text \<open>Hashing gives ten characters and leaves the resource as it was, when the resource has
  no top-level field \<open>name\<close> or \<open>generateName\<close> of its own (the scratch fields it writes).\<close>

theorem generate_hash_restores:
  assumes "\<not> has_key resource ''name''" "\<not> has_key resource ''generateName''"
    and "\<And>s. length (sha256 s) \<ge> 10"
    and "generate_hash sha256 resource = Inr (h, resource')"
  shows "resource' = resource \<and> length h = 10"
proof -
  have new: "''name'' \<notin> fst ` set resource" "''generateName'' \<notin> fst ` set resource"
    using assms(1,2) by (auto simp: has_key_def map_of_eq_None_iff)
  from assms(4) obtain name gn where *: "named_hash sha256 resource name gn = Inr (h, resource')"
    by (auto simp: generate_hash_named bindR_eq_Inr)
  have len: "length (encode sha256 s) = 10" for s using assms(3) [of s] by (simp add: encode_def)
  show ?thesis
  proof (cases "py_eq name (PStr '''') \<and> truthy gn")
    case True
    with * show ?thesis
      by (auto simp: named_hash_def bindR_eq_Inr Let_def delete_update_new [OF new(1)]
          delete_update_new [OF new(2)] len simp del: py_eq.simps split: if_split_asm)
  next
    case False
    then have "(py_eq name (PStr '''') \<and> truthy gn) = False" by simp
    with * show ?thesis
      by (auto simp: named_hash_def bindR_eq_Inr Let_def delete_update_new [OF new(1)] len
          simp del: py_eq.simps split: if_split_asm)
  qed
qed

theorem generate_hash_restores_witness:
  "\<exists>h. generate_hash (\<lambda>s. s @ replicate 10 (CHR ''0'')) example_config_map = Inr (h, example_config_map)
     \<and> length h = 10"
proof -
  let ?sha = "\<lambda>s. s @ replicate 10 (CHR ''0'')"
  obtain h r where hr: "generate_hash ?sha example_config_map = Inr (h, r)"
    by (auto simp: generate_hash_def example_config_map_def py_get_def py_getitem_def Let_def)
  from generate_hash_restores [OF _ _ _ hr] have "r = example_config_map \<and> length h = 10"
    by (simp add: example_config_map_def has_key_def)
  with hr show ?thesis by blast
qed

end
