(* ===== verification/K8sSelector.thy ===== *)
theory K8sSelector
  imports PyString
begin

text \<open>
  Label selectors (\<open>plugins/module_utils/selector.py\<close>): how one requirement is parsed, and
  which labels it admits. The regular expression of the set-based form is matched by hand:
  each of its runs is followed by a character the run cannot contain, so the greedy choice
  is the only one that can match, up to the last closing parenthesis of the line.
\<close>

section \<open>Parsing a requirement\<close>

definition is_alnum :: "char \<Rightarrow> bool" where
  "is_alnum c \<longleftrightarrow> is_digit c \<or> is_lower_ascii c \<or> is_upper_ascii c"

definition key_char :: "char \<Rightarrow> bool" where
  "key_char c \<longleftrightarrow> is_alnum c \<or> c \<in> {CHR ''.'', CHR ''_'', CHR ''-''}"

abbreviation is_blank :: "char \<Rightarrow> bool" where
  "is_blank c \<equiv> c = CHR '' ''"

text \<open>\<open>\((.*)\)\<close>: \<open>None\<close> without a closing parenthesis before the end of the line.\<close>

definition parenthesised :: "string \<Rightarrow> string option" where
  "parenthesised s = (case s of
      CHR ''('' # s' \<Rightarrow>
        (let line = takeWhile (\<lambda>c. c \<noteq> CHR 0x0A) s'
         in if CHR '')'' \<in> set line then Some (rev (tl (dropWhile (\<lambda>c. c \<noteq> CHR '')'') (rev line)))) else None)
    | _ \<Rightarrow> None)"

definition set_operator :: "string \<Rightarrow> (string \<times> string) option" where
  "set_operator s = (if starts_with s ''notin'' then Some (''notin'', drop 5 s)
     else if starts_with s ''in'' then Some (''in'', drop 2 s) else None)"

definition set_requirement :: "string \<Rightarrow> (string \<times> string \<times> string) option" where
  "set_requirement data =
     (let s = dropWhile is_blank data; key = takeWhile key_char s; s1 = dropWhile key_char s
      in if 2 \<le> length key \<and> is_alnum (hd key) \<and> is_alnum (last key) \<and> starts_with s1 '' '' then
           (case set_operator (dropWhile is_blank s1) of
              Some (op, s2) \<Rightarrow>
                (if starts_with s2 '' '' then
                   map_option (\<lambda>values. (key, op, values)) (parenthesised (dropWhile is_blank s2))
                 else None)
            | None \<Rightarrow> None)
         else None)"

record selector =
  sel_operator :: "string option"
  sel_key :: "string option"
  sel_data :: "string list option"

definition equality_based_operators :: "string list" where
  "equality_based_operators = [''=='', ''!='', ''='']"

definition parse_set_based_requirement :: "selector \<Rightarrow> string \<Rightarrow> bool \<times> selector" where
  "parse_set_based_requirement self data = (case set_requirement data of
      Some (key, op, values) \<Rightarrow>
        (True, self\<lparr>sel_key := Some key, sel_operator := Some op,
           sel_data := Some (map (replace_char (CHR '' '') []) (filter (\<lambda>x. x \<noteq> []) (split_on (CHR '','') values)))\<rparr>)
    | None \<Rightarrow>
        (if list_all (\<lambda>x. \<not> contains data x) equality_based_operators then
           (let key = lstrip_by is_blank (rstrip_by is_blank data)
            in if starts_with key ''!'' then
                 (True, self\<lparr>sel_key := Some (lstrip_by is_blank (tl key)), sel_operator := Some ''!''\<rparr>)
               else (True, self\<lparr>sel_key := Some key\<rparr>))
         else (False, self)))"

fun first_operator :: "string \<Rightarrow> string list \<Rightarrow> (string \<times> nat) option" where
  "first_operator s [] = None"
| "first_operator s (op # ops) = (case py_find s op of Some idx \<Rightarrow> Some (op, idx) | None \<Rightarrow> first_operator s ops)"

definition Selector :: "string \<Rightarrow> selector" where
  "Selector data =
     (case parse_set_based_requirement \<lparr>sel_operator = None, sel_key = None, sel_data = None\<rparr> data of
        (True, self) \<Rightarrow> self
      | (False, self) \<Rightarrow>
          (let no_whitespace_data = replace_char (CHR '' '') [] data
           in case first_operator no_whitespace_data equality_based_operators of
                Some (op, idx) \<Rightarrow> self\<lparr>
                  sel_operator := Some (if op = ''=='' \<or> op = ''='' then ''in'' else ''notin''),
                  sel_key := Some (take idx no_whitespace_data),
                  sel_data := Some [drop (idx + length op) no_whitespace_data]\<rparr>
              | None \<Rightarrow> self))"

section \<open>Matching labels\<close>

definition isMatch :: "selector \<Rightarrow> dict \<Rightarrow> bool res" where
  "isMatch self labels = (case sel_key self of
      None \<Rightarrow> Inl AttributeError
    | Some key \<Rightarrow>
        (let among = (case sel_data self of
             Some ds \<Rightarrow> Inr (py_mem (dget labels key) (map PStr ds)) | None \<Rightarrow> Inl TypeError)
         in if sel_operator self = Some ''in'' then (if has_key labels key then among else Inr False)
            else if sel_operator self = Some ''notin'' then
              (if \<not> has_key labels key then Inr True else bindR among (\<lambda>b. Inr (\<not> b)))
            else Inr (if sel_operator self = Some ''!'' then \<not> has_key labels key else has_key labels key)))"

definition LabelSelectorFilter :: "string list \<Rightarrow> selector list" where
  "LabelSelectorFilter label_selectors = map Selector label_selectors"

fun all_match :: "selector list \<Rightarrow> dict \<Rightarrow> bool res" where
  "all_match [] labels = Inr True"
| "all_match (sel # sels) labels = bindR (isMatch sel labels) (\<lambda>b. if b then all_match sels labels else Inr False)"

text \<open>The result is a truth value, or Python's \<open>None\<close> (here \<open>None\<close>) for labels that are no mapping.\<close>

definition isMatching :: "selector list \<Rightarrow> dict \<Rightarrow> bool option res" where
  "isMatching selectors defn =
     (case map_of defn ''metadata'' of
        None \<Rightarrow> Inr (Some False)
      | Some metadata \<Rightarrow>
          bindR (str_in ''labels'' metadata) (\<lambda>present.
            if \<not> present then Inr (Some False)
            else bindR (py_getitem metadata ''labels'') (\<lambda>labels.
              case labels of
                PDict ls \<Rightarrow> bindR (all_match selectors ls) (\<lambda>b. Inr (Some b))
              | _ \<Rightarrow> Inr None)))"

section \<open>What a requirement means\<close>

datatype requirement =
    In string "string list"
  | NotIn string "string list"
  | Eq string string
  | Neq string string
  | Exists string
  | NotExists string

fun render :: "requirement \<Rightarrow> string" where
  "render (In k vs) = k @ '' in ('' @ py_join '','' vs @ '')''"
| "render (NotIn k vs) = k @ '' notin ('' @ py_join '','' vs @ '')''"
| "render (Eq k v) = k @ ''='' @ v"
| "render (Neq k v) = k @ ''!='' @ v"
| "render (Exists k) = k"
| "render (NotExists k) = CHR ''!'' # k"

fun holds :: "requirement \<Rightarrow> dict \<Rightarrow> bool" where
  "holds (In k vs) labels \<longleftrightarrow> (\<exists>v \<in> set vs. map_of labels k = Some (PStr v))"
| "holds (NotIn k vs) labels \<longleftrightarrow> \<not> (\<exists>v \<in> set vs. map_of labels k = Some (PStr v))"
| "holds (Eq k v) labels \<longleftrightarrow> map_of labels k = Some (PStr v)"
| "holds (Neq k v) labels \<longleftrightarrow> map_of labels k \<noteq> Some (PStr v)"
| "holds (Exists k) labels \<longleftrightarrow> map_of labels k \<noteq> None"
| "holds (NotExists k) labels \<longleftrightarrow> map_of labels k = None"

definition valid_key :: "string \<Rightarrow> bool" where
  "valid_key k \<longleftrightarrow> 2 \<le> length k \<and> list_all key_char k \<and> is_alnum (hd k) \<and> is_alnum (last k)"

definition valid_value :: "string \<Rightarrow> bool" where
  "valid_value v \<longleftrightarrow> v \<noteq> [] \<and> list_all key_char v"

text \<open>The keys of labels, with or without a prefix before a slash.\<close>

definition label_char :: "char \<Rightarrow> bool" where
  "label_char c \<longleftrightarrow> key_char c \<or> c = CHR ''/''"

definition label_key :: "string \<Rightarrow> bool" where
  "label_key k \<longleftrightarrow> k \<noteq> [] \<and> list_all label_char k \<and> is_alnum (hd k) \<and> is_alnum (last k)"

fun valid :: "requirement \<Rightarrow> bool" where
  "valid (In k vs) \<longleftrightarrow> label_key k \<and> vs \<noteq> [] \<and> list_all valid_value vs"
| "valid (NotIn k vs) \<longleftrightarrow> label_key k \<and> vs \<noteq> [] \<and> list_all valid_value vs"
| "valid (Eq k v) \<longleftrightarrow> label_key k \<and> valid_value v"
| "valid (Neq k v) \<longleftrightarrow> label_key k \<and> valid_value v"
| "valid (Exists k) \<longleftrightarrow> label_key k"
| "valid (NotExists k) \<longleftrightarrow> label_key k"

text \<open>Which requirements the code recognises: the keys of the set-based forms have two letters or more
  and no prefix.\<close>

fun recognised :: "requirement \<Rightarrow> bool" where
  "recognised (In k vs) \<longleftrightarrow> valid_key k"
| "recognised (NotIn k vs) \<longleftrightarrow> valid_key k"
| "recognised r \<longleftrightarrow> True"

lemma key_char_literals [simp]:
  "\<not> key_char (CHR '' '')" "\<not> key_char (CHR ''('')" "\<not> key_char (CHR '')'')" "\<not> key_char (CHR '','')"
  "\<not> key_char (CHR ''='')" "\<not> key_char (CHR ''!'')" "\<not> key_char (CHR 0x0A)" "\<not> key_char (CHR ''/'')"
  by (simp_all add: key_char_def is_alnum_def is_digit_def is_lower_ascii_def is_upper_ascii_def)

lemma is_alnum_key_char: "is_alnum c \<Longrightarrow> key_char c"
  by (simp add: key_char_def)

lemma valid_key_parts:
  assumes "valid_key k"
  shows "2 \<le> length k" "is_alnum (hd k)" "is_alnum (last k)" "\<forall>c \<in> set k. key_char c" "k \<noteq> []"
    "\<not> is_blank (hd k)" "\<not> is_blank (last k)" "hd k \<noteq> CHR ''!''"
  using assms is_alnum_key_char [of "hd k"] is_alnum_key_char [of "last k"]
  by (auto simp: valid_key_def list_all_iff)

lemma set_requirement_key:
  assumes "valid_key k" and "r = [] \<or> \<not> key_char (hd r)"
  shows "dropWhile is_blank (k @ r) = k @ r" "takeWhile key_char (k @ r) = k" "dropWhile key_char (k @ r) = r"
proof -
  note k = valid_key_parts [OF assms(1)]
  show "dropWhile is_blank (k @ r) = k @ r" using k(5,6) by (cases k) auto
  show "takeWhile key_char (k @ r) = k" "dropWhile key_char (k @ r) = r"
    using k(4) assms(2) by (cases r; simp add: takeWhile_append dropWhile_append)+
qed

lemma parenthesised_last:
  assumes "CHR '')'' \<notin> set v" "CHR 0x0A \<notin> set v"
  shows "parenthesised (CHR ''('' # v @ '')'') = Some v"
proof -
  have "takeWhile (\<lambda>c. c \<noteq> CHR 0x0A) (v @ '')'') = v @ '')''" using assms(2) by (simp add: takeWhile_append)
  then show ?thesis by (simp add: parenthesised_def)
qed

lemma set_requirement_set:
  assumes "valid_key k" "CHR '')'' \<notin> set v" "CHR 0x0A \<notin> set v"
  shows "set_requirement (k @ '' in ('' @ v @ '')'') = Some (k, ''in'', v)"
    and "set_requirement (k @ '' notin ('' @ v @ '')'') = Some (k, ''notin'', v)"
  using valid_key_parts [OF assms(1)] set_requirement_key [OF assms(1), of "CHR '' '' # s" for s]
    parenthesised_last [OF assms(2,3)]
  by (simp_all add: set_requirement_def set_operator_def)

lemma label_key_parts:
  assumes "label_key k"
  shows "k \<noteq> []" "\<forall>c \<in> set k. label_char c" "\<not> is_blank (hd k)" "\<not> is_blank (last k)" "hd k \<noteq> CHR ''!''"
    "CHR ''='' \<notin> set k" "CHR ''!'' \<notin> set k" "CHR '' '' \<notin> set k" "CHR '','' \<notin> set k" "CHR ''('' \<notin> set k" "CHR '')'' \<notin> set k"
  using assms is_alnum_key_char [of "hd k"] is_alnum_key_char [of "last k"]
  by (auto simp: label_key_def list_all_iff label_char_def)

lemma set_requirement_none:
  assumes "label_key k" and "r = [] \<or> \<not> key_char (hd r)" and "\<not> starts_with r '' ''"
  shows "set_requirement (k @ r) = None"
proof -
  have lead: "dropWhile is_blank (k @ r) = k @ r" using label_key_parts(1,3) [OF assms(1)] by (cases k) auto
  show ?thesis
  proof (cases "CHR ''/'' \<in> set k")
    case True
    then have "\<exists>x \<in> set k. \<not> key_char x" using key_char_literals(8) by blast
    from split_list_first_propE [OF this] obtain x a b where x: "k = a @ x # b" "\<not> key_char x" "list_all key_char a"
      by (auto simp: list_all_iff)
    then have "x = CHR ''/''" using label_key_parts(2) [OF assms(1)] by (auto simp: label_char_def)
    then have "dropWhile key_char (k @ r) = CHR ''/'' # b @ r" using x by (auto simp: dropWhile_append list_all_iff)
    then show ?thesis using lead by (simp add: set_requirement_def Let_def)
  next
    case False
    then have "\<forall>c \<in> set k. key_char c" using label_key_parts(2) [OF assms(1)] by (auto simp: label_char_def)
    then have "dropWhile key_char (k @ r) = r" using assms(2) by (cases r; simp add: dropWhile_append)
    then show ?thesis using lead assms(3) by (simp add: set_requirement_def Let_def)
  qed
qed

lemma py_find_absent: "c \<in> set p \<Longrightarrow> c \<notin> set s \<Longrightarrow> py_find s p = None"
  using py_find_Some [of s p] by (cases "py_find s p") (auto dest: arg_cong [where f = set])

lemma py_find_skip: "c \<notin> set k \<Longrightarrow> py_find (k @ s) (c # p) = map_option (\<lambda>i. length k + i) (py_find s (c # p))"
  by (induction k; cases "py_find s (c # p)") auto

lemma no_operator: "CHR ''='' \<notin> set s \<Longrightarrow> list_all (\<lambda>x. \<not> contains s x) equality_based_operators"
  using py_find_absent [of "CHR ''=''"]
  by (simp add: equality_based_operators_def contains_def)

lemma valid_value_parts:
  assumes "valid_value v"
  shows "v \<noteq> []" "CHR '' '' \<notin> set v" "CHR '','' \<notin> set v" "CHR '')'' \<notin> set v" "CHR ''='' \<notin> set v"
    "CHR ''!'' \<notin> set v" "CHR 0x0A \<notin> set v"
  using assms by (auto simp: valid_value_def list_all_iff)

lemma replace_blank_id: "CHR '' '' \<notin> set v \<Longrightarrow> replace_char (CHR '' '') [] v = v"
  by (induction v) (auto simp: replace_char_def)

lemma set_py_join: "c \<in> set (py_join sep vs) \<Longrightarrow> c \<in> set sep \<or> (\<exists>v \<in> set vs. c \<in> set v)"
  by (induction sep vs rule: py_join.induct) auto

lemma parsed_values:
  assumes "list_all valid_value vs" "vs \<noteq> []"
  shows "map (replace_char (CHR '' '') []) (filter (\<lambda>x. x \<noteq> []) (split_on (CHR '','') (py_join '','' vs))) = vs"
proof -
  have "split_on (CHR '','') (py_join '','' vs) = vs"
    using assms valid_value_parts(3) by (intro split_on_join) (auto simp: list_all_iff)
  moreover have "filter (\<lambda>x. x \<noteq> []) vs = vs" "map (replace_char (CHR '' '') []) vs = vs"
    using assms(1) valid_value_parts(1,2) by (auto simp: list_all_iff filter_id_conv replace_blank_id map_idI)
  ultimately show ?thesis by simp
qed

lemma joined_values:
  assumes "list_all valid_value vs"
  shows "CHR '')'' \<notin> set (py_join '','' vs)" "CHR 0x0A \<notin> set (py_join '','' vs)" "CHR ''='' \<notin> set (py_join '','' vs)"
  using assms valid_value_parts(4,5,7) by (auto simp: list_all_iff dest!: set_py_join)

lemma mem_values: "py_mem v (map PStr vs) \<longleftrightarrow> (\<exists>s \<in> set vs. v = PStr s)"
  by (auto simp: py_mem_def list_ex_iff)

lemma Selector_set:
  assumes "valid_key k" "list_all valid_value vs" "vs \<noteq> []"
  shows "Selector (k @ '' in ('' @ py_join '','' vs @ '')'') =
      \<lparr>sel_operator = Some ''in'', sel_key = Some k, sel_data = Some vs\<rparr>"
    and "Selector (k @ '' notin ('' @ py_join '','' vs @ '')'') =
      \<lparr>sel_operator = Some ''notin'', sel_key = Some k, sel_data = Some vs\<rparr>"
  using set_requirement_set [OF assms(1) joined_values(1,2) [OF assms(2)]] parsed_values [OF assms(2,3)]
  by (simp_all add: Selector_def parse_set_based_requirement_def)

lemma Selector_eq:
  assumes "label_key k" "valid_value v"
  shows "Selector (k @ ''='' @ v) = \<lparr>sel_operator = Some ''in'', sel_key = Some k, sel_data = Some [v]\<rparr>"
    and "Selector (k @ ''!='' @ v) = \<lparr>sel_operator = Some ''notin'', sel_key = Some k, sel_data = Some [v]\<rparr>"
proof -
  note free = label_key_parts(6-8) [OF assms(1)] valid_value_parts [OF assms(2)]
  have none: "set_requirement (k @ ''='' @ v) = None" "set_requirement (k @ ''!='' @ v) = None"
    by (rule set_requirement_none [OF assms(1)]; simp)+
  have blank: "replace_char (CHR '' '') [] (k @ CHR ''='' # v) = k @ CHR ''='' # v"
    "replace_char (CHR '' '') [] (k @ CHR ''!'' # CHR ''='' # v) = k @ CHR ''!'' # CHR ''='' # v"
    using free by (auto intro!: replace_blank_id)
  have v: "py_find v ''=='' = None" "py_find v ''='' = None" "py_find v ''!='' = None"
    "\<not> starts_with v ''=''"
    using free by (auto intro!: py_find_absent [of "CHR ''=''"]) (cases v; auto)
  have find: "py_find (k @ s) ''=='' = map_option (\<lambda>i. length k + i) (py_find s ''=='')"
    "py_find (k @ s) ''='' = map_option (\<lambda>i. length k + i) (py_find s ''='')"
    "py_find (k @ s) ''!='' = map_option (\<lambda>i. length k + i) (py_find s ''!='')" for s
    using free by (auto intro!: py_find_skip)
  show "Selector (k @ ''='' @ v) = \<lparr>sel_operator = Some ''in'', sel_key = Some k, sel_data = Some [v]\<rparr>"
    using none(1) by (simp add: Selector_def parse_set_based_requirement_def equality_based_operators_def
        contains_def blank find v)
  show "Selector (k @ ''!='' @ v) = \<lparr>sel_operator = Some ''notin'', sel_key = Some k, sel_data = Some [v]\<rparr>"
    using none(2) by (simp add: Selector_def parse_set_based_requirement_def equality_based_operators_def
        contains_def blank find v)
qed

lemma strip_key: "label_key k \<Longrightarrow> lstrip_by is_blank k = k" "label_key k \<Longrightarrow> rstrip_by is_blank (s @ k) = s @ k"
proof -
  assume "label_key k"
  note k = label_key_parts [OF this]
  show "lstrip_by is_blank k = k" using k(1,3) by (cases k) (auto simp: lstrip_by_def)
  have "dropWhile is_blank (rev (s @ k)) = rev (s @ k)"
    using k(1,4) by (cases k rule: rev_cases) auto
  then show "rstrip_by is_blank (s @ k) = s @ k" by (simp add: rstrip_by_def)
qed

lemma Selector_exists:
  assumes "label_key k"
  shows "Selector k = \<lparr>sel_operator = None, sel_key = Some k, sel_data = None\<rparr>"
    and "Selector (CHR ''!'' # k) = \<lparr>sel_operator = Some ''!'', sel_key = Some k, sel_data = None\<rparr>"
proof -
  have "set_requirement k = None" using set_requirement_none [OF assms, of "[]"] by simp
  moreover have "\<not> starts_with k ''!''" using label_key_parts(1,5) [OF assms] by (cases k) auto
  ultimately show "Selector k = \<lparr>sel_operator = None, sel_key = Some k, sel_data = None\<rparr>"
    using no_operator [OF label_key_parts(6) [OF assms]] strip_key(1) [OF assms] strip_key(2) [OF assms, of "[]"]
    by (simp add: Selector_def parse_set_based_requirement_def)
  have "set_requirement (CHR ''!'' # k) = None" by (simp add: set_requirement_def)
  then show "Selector (CHR ''!'' # k) = \<lparr>sel_operator = Some ''!'', sel_key = Some k, sel_data = None\<rparr>"
    using no_operator [of "CHR ''!'' # k"] label_key_parts(6) [OF assms] strip_key(1) [OF assms]
      strip_key(2) [OF assms, of "''!''"]
    by (simp add: Selector_def parse_set_based_requirement_def lstrip_by_def)
qed

fun parsed :: "requirement \<Rightarrow> selector" where
  "parsed (In k vs) = \<lparr>sel_operator = Some ''in'', sel_key = Some k, sel_data = Some vs\<rparr>"
| "parsed (NotIn k vs) = \<lparr>sel_operator = Some ''notin'', sel_key = Some k, sel_data = Some vs\<rparr>"
| "parsed (Eq k v) = \<lparr>sel_operator = Some ''in'', sel_key = Some k, sel_data = Some [v]\<rparr>"
| "parsed (Neq k v) = \<lparr>sel_operator = Some ''notin'', sel_key = Some k, sel_data = Some [v]\<rparr>"
| "parsed (Exists k) = \<lparr>sel_operator = None, sel_key = Some k, sel_data = None\<rparr>"
| "parsed (NotExists k) = \<lparr>sel_operator = Some ''!'', sel_key = Some k, sel_data = None\<rparr>"

lemma Selector_render: "valid r \<Longrightarrow> recognised r \<Longrightarrow> Selector (render r) = parsed r"
  using Selector_set Selector_eq Selector_exists by (cases r) simp_all

lemma isMatch_parsed: "isMatch (parsed r) labels = Inr (holds r labels)"
  using mem_values [of _ "[v]" for v] by (cases r) (auto simp: isMatch_def mem_values has_key_def)

text \<open>A set-based requirement on a key with a prefix (\<open>app.kubernetes.io/name\<close>) or on a
  one-letter key is not recognised: the text is taken for the name of a label, and no label
  set satisfies it, whatever the value of the key, for \<open>in\<close> and for \<open>notin\<close>.\<close>

theorem prefixed_key_never_matches:
  assumes "CHR ''/'' \<in> set k \<or> length k = 1" "CHR '' '' \<notin> set k" "CHR ''='' \<notin> set k" "hd k \<noteq> CHR ''!''"
    and "op = ''in'' \<or> op = ''notin''" "CHR ''='' \<notin> set v"
    and "\<forall>(name, value) \<in> set labels. CHR '' '' \<notin> set name"
  shows "isMatch (Selector (k @ '' '' @ op @ '' ('' @ v @ '')'')) labels = Inr False"
proof -
  let ?s = "k @ '' '' @ op @ '' ('' @ v @ '')''"
  have k: "k \<noteq> []" "hd k \<noteq> CHR '' ''" using assms(1,2) by (cases k; auto)+
  have lead: "dropWhile is_blank ?s = ?s" using k by (cases k) auto
  have none: "set_requirement ?s = None"
  proof (cases "CHR ''/'' \<in> set k")
    case True
    then have "\<exists>x \<in> set k. \<not> key_char x" using key_char_literals(8) by blast
    from split_list_first_propE [OF this] obtain x a b where
      "k = a @ x # b" "\<not> key_char x" "list_all key_char a"
      by (auto simp: list_all_iff)
    then have "dropWhile key_char ?s = x # b @ '' '' @ op @ '' ('' @ v @ '')''" "x \<noteq> CHR '' ''"
      using assms(2) by (auto simp: dropWhile_append list_all_iff)
    then show ?thesis using lead by (simp add: set_requirement_def Let_def)
  next
    case False
    then obtain c where "k = [c]" using assms(1) by (cases k) auto
    then have "length (takeWhile key_char ?s) < 2" by simp
    then show ?thesis using lead by (simp add: set_requirement_def Let_def)
  qed
  have "CHR ''='' \<notin> set ?s" using assms(3,5,6) by auto
  note ops = no_operator [OF this]
  have strip: "lstrip_by is_blank (rstrip_by is_blank ?s) = ?s"
    using lead by (simp add: lstrip_by_def rstrip_by_def)
  have "\<not> starts_with ?s ''!''" using k(1) assms(4) by (cases k) auto
  then have "Selector ?s = \<lparr>sel_operator = None, sel_key = Some ?s, sel_data = None\<rparr>"
    unfolding Selector_def parse_set_based_requirement_def none option.case Let_def strip
    using ops by simp
  moreover have "map_of labels ?s = None"
    using assms(7) by (fastforce simp: map_of_eq_None_iff)
  ultimately show ?thesis by (simp add: isMatch_def has_key_def)
qed

theorem prefixed_key_never_matches_witness:
  "isMatch (Selector ''app.kubernetes.io/name in (web)'') [(''app.kubernetes.io/name'', PStr ''web'')] = Inr False"
  using prefixed_key_never_matches [of "''app.kubernetes.io/name''" "''in''" "''web''"
      "[(''app.kubernetes.io/name'', PStr ''web'')]"]
  by simp

lemma not_valid_key: "label_key k \<Longrightarrow> \<not> valid_key k \<Longrightarrow> CHR ''/'' \<in> set k \<or> length k = 1"
  by (cases k; cases "tl k") (auto simp: label_key_def valid_key_def label_char_def list_all_iff)

text \<open>C19: A requirement in any of the six forms, with any label key, is parsed and matched as its meaning says:
  it holds of a set of labels exactly when it is recognised and the labels meet it. Only the set-based forms
  \<open>in\<close> and \<open>notin\<close> with a key that has a prefix or is one letter are not recognised, and then no set of labels is
  selected.\<close>

theorem selector_meaning:
  assumes "valid r" and "\<forall>(name, value) \<in> set labels. CHR '' '' \<notin> set name"
  shows "isMatch (Selector (render r)) labels = Inr (recognised r \<and> holds r labels)"
proof (cases "recognised r")
  case True
  with assms(1) show ?thesis by (simp add: Selector_render isMatch_parsed)
next
  case False
  then obtain k vs where r: "r = In k vs \<or> r = NotIn k vs" "\<not> valid_key k" by (cases r) auto
  with assms(1) have key: "label_key k" "list_all valid_value vs" by auto
  note unrecognised = prefixed_key_never_matches [OF not_valid_key [OF key(1) r(2)] label_key_parts(8,6,5) [OF key(1)] _
      joined_values(3) [OF key(2)] assms(2)]
  from r(1) show ?thesis using unrecognised [of "''in''"] unrecognised [of "''notin''"] False by auto
qed

theorem selector_meaning_witness:
  "isMatch (Selector ''env notin (prod,qa)'') [(''env'', PStr ''qa'')] = Inr False
   \<and> isMatch (Selector ''example.com/env!=prod'') [(''example.com/env'', PStr ''qa'')] = Inr True"
  using selector_meaning [of "NotIn ''env'' [''prod'', ''qa'']" "[(''env'', PStr ''qa'')]"]
    selector_meaning [of "Neq ''example.com/env'' ''prod''" "[(''example.com/env'', PStr ''qa'')]"]
  by (simp add: valid_key_def label_key_def label_char_def valid_value_def key_char_def is_alnum_def is_digit_def is_lower_ascii_def)

end
