(* ===== verification/K8sService.thy ===== *)
theory K8sService
  imports K8sWaiter K8sHash K8sSelector "HOL-Library.Sublist"
begin

text \<open>
  The service the modules work through (\<open>k8s/service.py\<close>): finding, retrieving, creating,
  applying, replacing, patching and deleting an object, and the diff that is reported. The
  methods of \<open>K8sService\<close> take the record \<open>service\<close>: the module's parameters and modes, and
  the client's \<open>dry_run\<close>. Where the code changes the definition it is given, the model
  returns the changed one.
\<close>

record service =
  s_params :: dict
  s_check_mode :: bool
  s_diff :: bool
  s_dry_run :: bool

definition client_side_dry_run :: "service \<Rightarrow> bool" where
  "client_side_dry_run s \<longleftrightarrow> s_check_mode s \<and> \<not> s_dry_run s"

definition param :: "service \<Rightarrow> string \<Rightarrow> pyval" where
  "param s k = dget (s_params s) k"

text \<open>What \<open>retrieve\<close> may return: nothing, an object of the cluster, or a module result.\<close>

datatype existing = Absent | Live dict | Answer dict

definition existing_truthy :: "existing \<Rightarrow> bool" where
  "existing_truthy e = (case e of Absent \<Rightarrow> False | Live _ \<Rightarrow> True | Answer d \<Rightarrow> d \<noteq> [])"

definition existing_dict :: "existing \<Rightarrow> dict res" where
  "existing_dict e = (case e of Live d \<Rightarrow> Inr d | _ \<Rightarrow> Inl AttributeError)"

definition existing_exists :: "world \<Rightarrow> existing \<Rightarrow> bool res" where
  "existing_exists W e = (case e of
      Absent \<Rightarrow> Inr False
    | Live d \<Rightarrow> exists W (Some (PDict d))
    | Answer d \<Rightarrow> (if d = [] then Inr False
        else bindR (py_getitem (PDict d) ''kind'') (\<lambda>kind. case kind of
            PStr k \<Rightarrow> Inr (\<not> (ends_with k ''List'' \<and> \<not> truthy (dget d ''items'')))
          | _ \<Rightarrow> Inl AttributeError)))"

text \<open>\<open>except Exception as e: raise CoreException(what + reason) from e\<close>.\<close>

definition wrapI :: "world \<Rightarrow> string \<Rightarrow> 'a io \<Rightarrow> 'a io" where
  "wrapI W what m = tryI m (\<lambda>e. if is_Exception e then raiseI (CoreException (what @ exn_text W e)) else raiseI e)"

definition metadata_get :: "dict \<Rightarrow> string \<Rightarrow> pyval res" where
  "metadata_get defn k = bindR (py_getitem (PDict defn) ''metadata'') (\<lambda>m. py_get m k PNone)"

definition as_int :: "pyval \<Rightarrow> int res" where
  "as_int v = (case num_of v of Some i \<Rightarrow> Inr i | None \<Rightarrow> Inl TypeError)"

section \<open>Encoding of string data\<close>

definition encode_stringdata :: "world \<Rightarrow> dict \<Rightarrow> dict res" where
  "encode_stringdata W defn =
     bindR (py_getitem (PDict defn) ''kind'') (\<lambda>kind.
       if py_eq kind (PStr ''Secret'') \<and> has_key defn ''stringData'' then
         bindR (py_items (dget defn ''stringData'')) (\<lambda>items.
         bindR (foldR (\<lambda>d (k, v).
             (let d' = setdefault ''data'' (PDict []) d
              in case dget d' ''data'' of
                   PDict data \<Rightarrow> Inr (AList.update ''data''
                     (PDict (AList.update k (PStr (b64encode (w_to_bytes W v))) data)) d')
                 | _ \<Rightarrow> Inl TypeError)) defn items) (\<lambda>d. Inr (AList.delete ''stringData'' d)))
       else Inr defn)"

section \<open>Finding and waiting\<close>

definition find_resource :: "world \<Rightarrow> pyval \<Rightarrow> pyval \<Rightarrow> bool \<Rightarrow> resource option io" where
  "find_resource W kind api_version fail =
     tryI (bindI (client_resource W kind api_version) (\<lambda>r. retI (Some r)))
       (\<lambda>e. if not_exactly_one e then
              (if fail then raiseI (CoreException (''Failed to find exact match for '' @ py_str api_version @ ''.'' @ py_str kind
                 @ '' by [kind, name, singularName, shortNames]'')) else retI None)
            else raiseI e)"

definition svc_wait :: "world \<Rightarrow> service \<Rightarrow> resource \<Rightarrow> dict \<Rightarrow> (bool \<times> dict \<times> int) io" where
  "svc_wait W s resource instance' =
     bindI (liftI (if truthy (param s ''wait_condition'') then
         bindR (py_get (param s ''wait_condition'') ''type'' PNone) (\<lambda>t.
           if truthy t then (case param s ''wait_condition'' of PDict c \<Rightarrow> Inr (Some c) | _ \<Rightarrow> Inl AttributeError)
           else Inr None)
       else Inr None)) (\<lambda>wait_condition.
     let state = (if py_eq (param s ''state'') (PStr ''absent'') then ''absent'' else ''present'') in
     case get_waiter W resource state wait_condition False of
       DummyWaiter \<Rightarrow> retI (dummy_wait instance')
     | Waiter r predicate \<Rightarrow>
         bindI (liftI (metadata_get instance' ''name'')) (\<lambda>name.
         bindI (liftI (metadata_get instance' ''namespace'')) (\<lambda>namespace.
         bindI (liftI (as_int (param s ''wait_timeout''))) (\<lambda>timeout.
         bindI (liftI (as_int (param s ''wait_sleep''))) (\<lambda>sleep.
           waiter_wait W r predicate timeout sleep name namespace (param s ''label_selectors'') PNone)))))"

section \<open>Changing the cluster\<close>

definition create_project_request :: "world \<Rightarrow> service \<Rightarrow> dict \<Rightarrow> (dict \<times> dict) io" where
  "create_project_request W s defn =
     (let defn = AList.update ''kind'' (PStr ''ProjectRequest'') defn in
      bindI (liftI (py_getitem (PDict defn) ''apiVersion'')) (\<lambda>api_version.
      bindI (find_resource W (PStr ''ProjectRequest'') api_version True) (\<lambda>found.
      case found of
        None \<Rightarrow> raiseI AssertionError
      | Some resource \<Rightarrow>
          bindI (if \<not> s_check_mode s then
              wrapI W ''Failed to create object: '' (bindI (client_create W (s_dry_run s) resource defn []) (\<lambda>k8s_obj. liftI (to_dict k8s_obj)))
            else retI []) (\<lambda>result.
            retI ([(''changed'', PBool True), (''result'', PDict result)], defn)))))"

definition patch_resource :: "world \<Rightarrow> service \<Rightarrow> resource \<Rightarrow> dict \<Rightarrow> pyval \<Rightarrow> pyval \<Rightarrow> pyval \<Rightarrow> dict io" where
  "patch_resource W s resource defn name namespace merge_type =
     bindI (if py_eq merge_type (PStr ''json'') then
         emit (Deprecate ''json as a merge_type value is deprecated. Please use the k8s_json_patch module instead.'')
       else retI ()) (\<lambda>_.
     wrapI W ''Failed to patch object: ''
       (bindI (client_patch W (s_dry_run s) resource defn ([(''name'', name), (''namespace'', namespace)]
           @ (if truthy merge_type then
                [(''content_type'', PStr (''application/'' @ py_str merge_type @ ''-patch+json''))] else [])))
         (\<lambda>k8s_obj. liftI (to_dict k8s_obj))))"

text \<open>The request parameters; \<open>append_hash\<close> renames the definition first.\<close>

definition apply_hash :: "world \<Rightarrow> service \<Rightarrow> dict \<Rightarrow> pyval \<Rightarrow> pyval \<Rightarrow> (pyval \<times> dict) res" where
  "apply_hash W s defn name generate_name =
     (if truthy (param s ''append_hash'') then
        bindR (py_getitem (PDict defn) ''kind'') (\<lambda>kind.
          if py_eq kind (PStr ''ConfigMap'') \<or> py_eq kind (PStr ''Secret'') then
            (if truthy name then
               bindR (generate_hash (w_sha256 W) defn) (\<lambda>(h, d).
                 (let name = PStr (py_str name @ ''-'' @ h)
                  in case dget d ''metadata'' of
                       PDict m \<Rightarrow> Inr (name, AList.update ''metadata'' (PDict (AList.update ''name'' name m)) d)
                     | _ \<Rightarrow> Inl TypeError))
             else if truthy generate_name then
               bindR (generate_hash (w_sha256 W) defn) (\<lambda>(h, d).
                 (case dget d ''metadata'' of
                    PDict m \<Rightarrow> Inr (name, AList.update ''metadata'' (PDict (AList.update ''generateName''
                      (PStr (py_str generate_name @ ''-'' @ h)) m)) d)
                  | _ \<Rightarrow> Inl TypeError))
             else Inr (name, defn))
          else Inr (name, defn))
      else Inr (name, defn))"

text \<open>The two statements that read; the clauses of \<open>retrieve\<close> that answer an exception follow.\<close>

definition retrieve_get :: "world \<Rightarrow> service \<Rightarrow> resource \<Rightarrow> pyval \<Rightarrow> pyval \<Rightarrow> existing io" where
  "retrieve_get W s resource name namespace =
     bindI (liftI (selector_param ''label_selector'' (param s ''label_selectors''))) (\<lambda>ls.
     let params = (if truthy name then [(''name'', name)] else [])
           @ (if truthy namespace then [(''namespace'', namespace)] else []) @ ls
     in if has_key params ''name'' \<or> has_key params ''label_selector'' then
          bindI (client_get W resource params) (\<lambda>r. bindI (liftI (to_dict r)) (\<lambda>d. retI (Live d)))
        else retI Absent)"

definition retrieve_failed :: "world \<Rightarrow> service \<Rightarrow> dict \<Rightarrow> exn \<Rightarrow> (existing \<times> dict) io" where
  "retrieve_failed W s defn e = (case e of
      NotFoundError \<Rightarrow> retI (Absent, defn)
    | MethodNotAllowedError \<Rightarrow> retI (Absent, defn)
    | ForbiddenError m \<Rightarrow>
        bindI (liftI (py_getitem (PDict defn) ''kind'')) (\<lambda>kind.
        if (py_eq kind (PStr ''Project'') \<or> py_eq kind (PStr ''ProjectRequest''))
            \<and> \<not> py_eq (param s ''state'') (PStr ''absent'') then
          bindI (create_project_request W s defn) (\<lambda>(result, defn). retI (Answer result, defn))
        else raiseI (CoreException (''Failed to retrieve requested object: '' @ exn_text W e)))
    | _ \<Rightarrow> if is_Exception e then raiseI (CoreException (''Failed to retrieve requested object: '' @ exn_text W e))
         else raiseI e)"

definition retrieve :: "world \<Rightarrow> service \<Rightarrow> resource \<Rightarrow> dict \<Rightarrow> (existing \<times> dict) io" where
  "retrieve W s resource defn =
     bindI (liftI (metadata_get defn ''name'')) (\<lambda>name.
     bindI (liftI (metadata_get defn ''generateName'')) (\<lambda>generate_name.
     bindI (liftI (metadata_get defn ''namespace'')) (\<lambda>namespace.
     case apply_hash W s defn name generate_name of
       Inl e \<Rightarrow> retrieve_failed W s defn e
     | Inr (name, defn) \<Rightarrow>
         bindI (attemptI (retrieve_get W s resource name namespace)) (\<lambda>r. case r of
            Inl e \<Rightarrow> retrieve_failed W s defn e
          | Inr existing \<Rightarrow> retI (existing, defn)))))"

fun collect_items :: "world \<Rightarrow> resource \<Rightarrow> pyval \<Rightarrow> pyval list \<Rightarrow> dict list \<Rightarrow> dict list io" where
  "collect_items W resource namespace [] definitions = retI definitions"
| "collect_items W resource namespace (item # items) definitions =
     bindI (tryI
         (bindI (liftI (read_path W item [''metadata'', ''name''])) (\<lambda>name.
          bindI (client_get W resource [(''name'', name), (''namespace'', namespace)]) (\<lambda>existing.
          bindI (liftI (to_dict existing)) (\<lambda>d. retI (Some d)))))
         (\<lambda>e. if e = NotFoundError \<or> e = MethodNotAllowedError then retI None
            else if is_Exception e then
              raiseI (CoreException (''Failed to retrieve requested object: '' @ exn_text W e)) else raiseI e)) (\<lambda>found.
       case found of None \<Rightarrow> retI definitions
       | Some d \<Rightarrow> collect_items W resource namespace items (definitions @ [d]))"

definition retrieve_all :: "world \<Rightarrow> resource \<Rightarrow> pyval \<Rightarrow> pyval \<Rightarrow> dict list io" where
  "retrieve_all W resource namespace label_selectors =
     bindI (tryI
         (bindI (liftI (selector_param ''label_selector'' label_selectors)) (\<lambda>ls.
          bindI (client_get W resource ((''namespace'', namespace) # ls)) (\<lambda>resource_list.
          bindI (liftI (w_field W resource_list ''items'')) (\<lambda>items.
          bindI (liftI (py_iter items)) (\<lambda>xs. retI (Some xs))))))
         (\<lambda>e. if e = NotFoundError \<or> e = MethodNotAllowedError then retI None
            else if is_Exception e then
              raiseI (CoreException (''Failed to retrieve requested object: '' @ exn_text W e)) else raiseI e)) (\<lambda>found.
       case found of None \<Rightarrow> retI [] | Some xs \<Rightarrow> collect_items W resource namespace xs [])"

definition svc_create :: "world \<Rightarrow> service \<Rightarrow> resource \<Rightarrow> dict \<Rightarrow> dict io" where
  "svc_create W s resource defn =
     bindI (liftI (metadata_get defn ''namespace'')) (\<lambda>namespace.
     bindI (liftI (metadata_get defn ''name'')) (\<lambda>name.
     if client_side_dry_run s then liftI (encode_stringdata W defn)
     else tryI (bindI (client_create W (s_dry_run s) resource defn [(''namespace'', namespace)]) (\<lambda>r. liftI (to_dict r)))
       (\<lambda>e. case e of
           ConflictError _ \<Rightarrow> bindI (emit (Warn (py_str name @ '' was not found, but creating it returned a 409 Conflict error. This can happen                             if the resource you are creating does not directly create a resource of the same kind.''))) (\<lambda>_. retI [])
         | _ \<Rightarrow> if is_Exception e then raiseI (CoreException (''Failed to create object: '' @ exn_text W e)) else raiseI e)))"

definition svc_apply :: "world \<Rightarrow> service \<Rightarrow> resource \<Rightarrow> dict \<Rightarrow> existing \<Rightarrow> dict io" where
  "svc_apply W s resource defn existing =
     bindI (liftI (metadata_get defn ''namespace'')) (\<lambda>namespace.
     let server_side_apply = param s ''server_side_apply'' in
     bindI (liftI (if truthy server_side_apply then
         requires W ''kubernetes'' (Some ''19.15.0'') (Some ''to use server side apply'') else Inr ())) (\<lambda>_.
     if client_side_dry_run s then
       bindI (liftI (encode_stringdata W defn)) (\<lambda>defn.
       bindI (apply_object W resource defn False) (\<lambda>(ignored, patch).
         let patch = (case patch of Some p \<Rightarrow> p | None \<Rightarrow> []) in
         if existing_truthy existing then
           bindI (liftI (existing_dict existing)) (\<lambda>d. retI (w_dict_merge W d patch))
         else retI patch))
     else
       wrapI W ''Failed to apply object: ''
         (bindI (liftI (if truthy server_side_apply then
              bindR (py_items server_side_apply) (\<lambda>options. Inr (dict_update [(''server_side'', PBool True)] options))
            else Inr [])) (\<lambda>params.
          bindI (client_apply W (s_dry_run s) resource defn namespace params) (\<lambda>r. liftI (to_dict r))))))"

definition svc_replace :: "world \<Rightarrow> service \<Rightarrow> resource \<Rightarrow> dict \<Rightarrow> dict io" where
  "svc_replace W s resource defn =
     bindI (liftI (metadata_get defn ''name'')) (\<lambda>name.
     bindI (liftI (metadata_get defn ''namespace'')) (\<lambda>namespace.
     if client_side_dry_run s then liftI (encode_stringdata W defn)
     else wrapI W ''Failed to replace object: ''
       (bindI (client_replace W (s_dry_run s) resource defn [(''name'', name), (''namespace'', namespace),
           (''append_hash'', case map_of (s_params s) ''append_hash'' of Some v \<Rightarrow> v | None \<Rightarrow> PBool False)])
         (\<lambda>r. liftI (to_dict r)))))"

fun try_merge_types :: "world \<Rightarrow> service \<Rightarrow> resource \<Rightarrow> dict \<Rightarrow> pyval \<Rightarrow> pyval \<Rightarrow> pyval list \<Rightarrow> exn option \<Rightarrow> dict io" where
  "try_merge_types W s resource defn name namespace [] exception =
     raiseI (case exception of Some e \<Rightarrow> e | None \<Rightarrow> UnboundLocalError)"
| "try_merge_types W s resource defn name namespace (t # ts) exception =
     tryI (patch_resource W s resource defn name namespace t)
       (\<lambda>e. if is_CoreException e then try_merge_types W s resource defn name namespace ts (Some e) else raiseI e)"

definition svc_update :: "world \<Rightarrow> service \<Rightarrow> resource \<Rightarrow> dict \<Rightarrow> existing \<Rightarrow> dict io" where
  "svc_update W s resource defn existing =
     bindI (liftI (metadata_get defn ''name'')) (\<lambda>name.
     bindI (liftI (metadata_get defn ''namespace'')) (\<lambda>namespace.
     if client_side_dry_run s then
       bindI (liftI (existing_dict existing)) (\<lambda>d. bindI (liftI (encode_stringdata W defn)) (\<lambda>e. retI (w_dict_merge W d e)))
     else
       bindI (liftI (if truthy (param s ''merge_type'') then py_iter (param s ''merge_type'')
           else Inr [PStr ''strategic-merge'', PStr ''merge''])) (\<lambda>types.
         try_merge_types W s resource defn name namespace types None)))"

text \<open>
  \<open>delete\<close>, on the definition's name and namespace. For the items of a list the runner
  passes an object of the client in the definition's place.
\<close>

definition svc_delete_named :: "world \<Rightarrow> service \<Rightarrow> resource \<Rightarrow> pyval \<Rightarrow> pyval \<Rightarrow> existing \<Rightarrow> dict io" where
  "svc_delete_named W s resource name namespace existing =
     bindI (liftI (existing_exists W existing)) (\<lambda>there.
     if \<not> there then retI []
     else if client_side_dry_run s then retI []
     else
       bindI (liftI (selector_param ''label_selector'' (param s ''label_selectors''))) (\<lambda>ls.
       bindI (liftI (if truthy (param s ''delete_options'') then
            bindR (py_items (param s ''delete_options'')) (\<lambda>options.
              Inr [(''body'', PDict (dict_update [(''apiVersion'', PStr ''v1''), (''kind'', PStr ''DeleteOptions'')] options))])
          else Inr [])) (\<lambda>body.
       wrapI W ''Failed to delete object: ''
         (bindI (client_delete W (s_dry_run s) resource ((if truthy name then [(''name'', name)] else [])
            @ (if truthy namespace then [(''namespace'', namespace)] else []) @ ls @ body)) (\<lambda>r. liftI (to_dict r))))))"

definition svc_delete :: "world \<Rightarrow> service \<Rightarrow> resource \<Rightarrow> dict \<Rightarrow> existing \<Rightarrow> dict io" where
  "svc_delete W s resource defn existing =
     bindI (liftI (metadata_get defn ''name'')) (\<lambda>name.
     bindI (liftI (metadata_get defn ''namespace'')) (\<lambda>namespace.
       svc_delete_named W s resource name namespace existing))"

definition svc_delete_item :: "world \<Rightarrow> service \<Rightarrow> resource \<Rightarrow> pyval \<Rightarrow> existing \<Rightarrow> dict io" where
  "svc_delete_item W s resource item existing =
     bindI (liftI (bindR (w_item W item ''metadata'') (\<lambda>m. w_get W m ''name''))) (\<lambda>name.
     bindI (liftI (bindR (w_item W item ''metadata'') (\<lambda>m. w_get W m ''namespace''))) (\<lambda>namespace.
       svc_delete_named W s resource name namespace existing))"

section \<open>Hiding fields\<close>

lemma split_max_second:
  "split_max (Suc 0) c s = [a, b] \<Longrightarrow> length b < length s"
  by (induction s arbitrary: a) (auto simp: split_max_0 split: list.splits if_splits)

function hide_field :: "pyval \<Rightarrow> string \<Rightarrow> pyval res" where
  "hide_field defn hidden_field = (case split_max (Suc 0) (CHR ''.'') hidden_field of
      [k] \<Rightarrow> bindR (str_in k defn) (\<lambda>present.
        if \<not> present then Inr defn
        else (case defn of PDict d \<Rightarrow> Inr (PDict (AList.delete k d)) | _ \<Rightarrow> Inl TypeError))
    | [k, rest] \<Rightarrow> bindR (str_in k defn) (\<lambda>present.
        if \<not> present then Inr defn
        else (case defn of
            PDict d \<Rightarrow> bindR (hide_field (dget d k) rest) (\<lambda>v. Inr (PDict (AList.update k v d)))
          | _ \<Rightarrow> Inl TypeError))
    | _ \<Rightarrow> Inl IndexError)"
  by pat_completeness auto
termination
  by (relation "measure (\<lambda>(_, hidden_field). length hidden_field)") (auto dest: split_max_second)

declare hide_field.simps [simp del]

definition hide_fields :: "pyval \<Rightarrow> pyval \<Rightarrow> pyval res" where
  "hide_fields defn hidden_fields =
     (if \<not> truthy hidden_fields then Inr defn
      else bindR (py_iter hidden_fields) (foldR (\<lambda>result hidden_field. case hidden_field of
          PStr f \<Rightarrow> hide_field result f | _ \<Rightarrow> Inl AttributeError) defn))"

section \<open>The reported difference\<close>

definition keys_of :: "pyval \<Rightarrow> string list res" where
  "keys_of v = (case v of PDict d \<Rightarrow> Inr (map fst d) | _ \<Rightarrow> Inl AttributeError)"

definition ignored_keys :: "string list" where
  "ignored_keys = [''generation'', ''resourceVersion'']"

definition diff_objects :: "dict \<Rightarrow> dict \<Rightarrow> pyval \<Rightarrow> (bool \<times> dict) res" where
  "diff_objects existing new hidden_fields =
     bindR (recursive_diff existing new None) (\<lambda>diff. case diff of
       None \<Rightarrow> Inr (True, [])
     | Some (before, after) \<Rightarrow>
         (let result = [(''before'', PDict before), (''after'', PDict after)] in
          if map fst after \<noteq> [''metadata''] \<or> map fst before \<noteq> [''metadata''] then Inr (False, result)
          else bindR (keys_of (dget after ''metadata'')) (\<lambda>ks.
            if \<not> set ks \<subseteq> set ignored_keys then Inr (False, result)
            else bindR (keys_of (dget before ''metadata'')) (\<lambda>ks.
              if \<not> set ks \<subseteq> set ignored_keys then Inr (False, result)
              else bindR (hide_fields (PDict before) hidden_fields) (\<lambda>b.
                   bindR (hide_fields (PDict after) hidden_fields) (\<lambda>a.
                     Inr (True, [(''before'', b), (''after'', a)])))))))"

section \<open>Gathering information\<close>

definition found_nothing :: "dict \<Rightarrow> bool res" where
  "found_nothing resources = (if resources = [] then Inr True
     else bindR (py_getitem (PDict resources) ''kind'') (\<lambda>kind. case kind of
         PStr k \<Rightarrow> Inr (ends_with k ''List'' \<and> \<not> truthy (dget resources ''items''))
       | _ \<Rightarrow> Inl AttributeError))"

fun find_each :: "world \<Rightarrow> waiter \<Rightarrow> int \<Rightarrow> int \<Rightarrow> pyval \<Rightarrow> pyval list \<Rightarrow> pyval list io" where
  "find_each W waiter wait_timeout wait_sleep hidden_fields [] = retI []"
| "find_each W waiter wait_timeout wait_sleep hidden_fields (instance' # instances) =
     bindI (liftI (bindR (py_getitem instance' ''metadata'') (\<lambda>m. py_get m ''name'' PNone))) (\<lambda>name.
     bindI (liftI (bindR (py_getitem instance' ''metadata'') (\<lambda>m. py_get m ''namespace'' PNone))) (\<lambda>namespace.
     bindI (case waiter of
         DummyWaiter \<Rightarrow> raiseI TypeError
       | Waiter r predicate \<Rightarrow> waiter_wait W r predicate wait_timeout wait_sleep name namespace PNone PNone)
       (\<lambda>(success, res, duration).
       if \<not> success then
         raiseI (CoreException (''Failed to gather information about '' @ py_str (dget res ''kind'')
           @ ''(s) even after waiting for '' @ py_str (PInt duration) @ '' seconds''))
       else bindI (liftI (hide_fields (PDict res) hidden_fields)) (\<lambda>hidden.
         bindI (find_each W waiter wait_timeout wait_sleep hidden_fields instances) (\<lambda>rest. retI (hidden # rest))))))"

definition svc_find :: "world \<Rightarrow> pyval \<Rightarrow> pyval \<Rightarrow> pyval \<Rightarrow> pyval \<Rightarrow> pyval \<Rightarrow> pyval \<Rightarrow> bool \<Rightarrow> int \<Rightarrow> int \<Rightarrow> string
    \<Rightarrow> dict option \<Rightarrow> pyval \<Rightarrow> dict io" where
  "svc_find W kind api_version name namespace label_selectors field_selectors wait wait_sleep wait_timeout
      state condition hidden_fields =
     bindI (find_resource W kind api_version False) (\<lambda>found. case found of
       None \<Rightarrow> retI [(''resources'', PList []),
         (''msg'', PStr (''Failed to find API for resource with apiVersion '' @ [CHR 0x22] @ py_str api_version @ [CHR 0x22] @ '' and kind '' @ [CHR 0x22]
            @ py_str kind @ [CHR 0x22])),
         (''api_found'', PBool False)]
     | Some resource \<Rightarrow>
        (let label_selectors = (if truthy label_selectors then label_selectors else PList []);
             field_selectors = (if truthy field_selectors then field_selectors else PList []);
             result = (\<lambda>rs. [(''resources'', PList rs), (''api_found'', PBool True)]);
             wait_timeout = (if wait then wait_timeout else 0);
             predicate = (if state = ''present'' then exists W else resource_absent W)
         in
         bindI (attemptI (waiter_wait W resource predicate wait_timeout wait_sleep name namespace
             label_selectors field_selectors)) (\<lambda>r. case r of
           Inl e \<Rightarrow> (case e of
               BadRequestError _ \<Rightarrow> retI (result [])
             | _ \<Rightarrow> if is_CoreException e \<or> \<not> is_Exception e then raiseI e
                 else raiseI (CoreException (''Exception '' @ [CHR 0x27] @ exn_text W e @ [CHR 0x27] @ '' raised while trying to get resource using (name=''
                   @ py_str name @ '', namespace='' @ py_str namespace @ '', label_selectors='' @ py_str label_selectors
                   @ '', field_selectors='' @ py_str field_selectors @ '')'')))
         | Inr (success, resources, duration) \<Rightarrow>
             bindI (liftI (found_nothing resources)) (\<lambda>nothing.
             if nothing then retI (result [])
             else
               bindI (liftI (if truthy (dget resources ''items'') then py_iter (dget resources ''items'')
                   else Inr [PDict resources])) (\<lambda>instances.
               if \<not> wait then
                 bindI (liftI (mapR (\<lambda>instance'. hide_fields instance' hidden_fields) instances)) (\<lambda>rs. retI (result rs))
               else
                 bindI (find_each W (get_waiter W resource state condition False) wait_timeout wait_sleep hidden_fields
                    instances) (\<lambda>rs. retI (result rs)))))))"

section \<open>What hiding removes\<close>

fun at_path :: "string list \<Rightarrow> pyval \<Rightarrow> pyval option" where
  "at_path [] v = Some v"
| "at_path (k # ks) v = (case v of
      PDict d \<Rightarrow> (case map_of d k of Some w \<Rightarrow> at_path ks w | None \<Rightarrow> None) | _ \<Rightarrow> None)"

lemma split_max_split_on:
  "(\<exists>k. split_max (Suc 0) c s = [k] \<and> split_on c s = [k])
   \<or> (\<exists>k r. split_max (Suc 0) c s = [k, r] \<and> split_on c s = k # split_on c r)"
  by (induction s) (auto simp: split_max_0)

lemma at_path_absent: "str_in k v = Inr False \<Longrightarrow> at_path (k # ks) v = None"
  by (auto simp: str_in_def has_key_def split: pyval.splits option.splits)

text \<open>
  One field: it is gone, no field appears, and the fields that neither contain it nor lie in
  it are untouched.
\<close>

definition hides :: "string list \<Rightarrow> pyval \<Rightarrow> pyval \<Rightarrow> bool" where
  "hides p v v' \<longleftrightarrow> at_path p v' = None \<and> (\<forall>q. at_path q v = None \<longrightarrow> at_path q v' = None)
     \<and> (\<forall>q. \<not> prefix p q \<longrightarrow> \<not> prefix q p \<longrightarrow> at_path q v' = at_path q v)"

lemma hides_unchanged: "at_path p v = None \<Longrightarrow> hides p v v"
  by (simp add: hides_def)

lemma hides_delete: "hides [k] (PDict d) (PDict (AList.delete k d))"
  unfolding hides_def
proof (intro conjI allI impI)
  show "at_path [k] (PDict (AList.delete k d)) = None" by (simp add: delete_conv')
next
  fix q assume "at_path q (PDict d) = None"
  then show "at_path q (PDict (AList.delete k d)) = None"
    by (cases q) (auto simp: delete_conv' split: option.splits)
next
  fix q assume "\<not> prefix [k] q" "\<not> prefix q [k]"
  then show "at_path q (PDict (AList.delete k d)) = at_path q (PDict d)"
    by (cases q) (auto simp: delete_conv')
qed

lemma hides_inside:
  assumes "map_of d k = Some w" and "hides p w w'"
  shows "hides (k # p) (PDict d) (PDict (AList.update k w' d))"
  unfolding hides_def
proof (intro conjI allI impI)
  show "at_path (k # p) (PDict (AList.update k w' d)) = None"
    using assms by (simp add: hides_def map_of_update)
next
  fix q assume "at_path q (PDict d) = None"
  then show "at_path q (PDict (AList.update k w' d)) = None"
    using assms by (cases q) (auto simp: hides_def map_of_update split: option.splits)
next
  fix q assume "\<not> prefix (k # p) q" "\<not> prefix q (k # p)"
  then show "at_path q (PDict (AList.update k w' d)) = at_path q (PDict d)"
    using assms by (cases q) (auto simp: hides_def map_of_update)
qed

lemma hide_field_hides: "hide_field v f = Inr v' \<Longrightarrow> hides (split_on (CHR ''.'') f) v v'"
proof (induction v f arbitrary: v' rule: hide_field.induct)
  case (1 v f)
  consider (one) k where "split_max (Suc 0) (CHR ''.'') f = [k]" "split_on (CHR ''.'') f = [k]"
    | (two) k r where "split_max (Suc 0) (CHR ''.'') f = [k, r]"
        "split_on (CHR ''.'') f = k # split_on (CHR ''.'') r"
    using split_max_split_on [of "CHR ''.''" f] by blast
  then show ?case
  proof cases
    case one
    from "1.prems" one(1) obtain present where present: "str_in k v = Inr present"
      by (auto simp: hide_field.simps [of v f] bindR_eq_Inr)
    show ?thesis
    proof (cases present)
      case True
      with "1.prems" one(1) present obtain d where "v = PDict d" "v' = PDict (AList.delete k d)"
        by (auto simp: hide_field.simps [of v f] split: pyval.splits)
      with one(2) show ?thesis by (simp add: hides_delete)
    next
      case False
      with "1.prems" one present show ?thesis
        by (auto simp: hide_field.simps [of v f] intro: hides_unchanged at_path_absent)
    qed
  next
    case two
    from "1.prems" two(1) obtain present where present: "str_in k v = Inr present"
      by (auto simp: hide_field.simps [of v f] bindR_eq_Inr)
    show ?thesis
    proof (cases present)
      case True
      with "1.prems" two(1) present obtain d w' where d: "v = PDict d" "hide_field (dget d k) r = Inr w'"
          "v' = PDict (AList.update k w' d)"
        by (auto simp: hide_field.simps [of v f] bindR_eq_Inr split: pyval.splits)
      from present True d(1) obtain w where w: "map_of d k = Some w"
        by (auto simp: str_in_def has_key_def split: option.splits)
      then have "hides (split_on (CHR ''.'') r) w w'"
        using "1.IH" [OF two(1) refl refl present _ d(1), of w'] True d(2) w by (simp add: dget_def)
      with w d two(2) show ?thesis by (simp add: hides_inside)
    next
      case False
      with "1.prems" two present show ?thesis
        by (auto simp: hide_field.simps [of v f] intro: hides_unchanged at_path_absent)
    qed
  qed
qed

text \<open>Hiding a list of fields removes exactly these: none of them is left, and whatever neither
  contains one of them nor lies in one of them is as it was.\<close>

theorem hide_fields_exact:
  assumes "hide_fields v (PList (map PStr fs)) = Inr v'"
  shows "(\<forall>f \<in> set fs. at_path (split_on (CHR ''.'') f) v' = None)
    \<and> (\<forall>q. (\<forall>f \<in> set fs. \<not> prefix (split_on (CHR ''.'') f) q \<and> \<not> prefix q (split_on (CHR ''.'') f))
         \<longrightarrow> at_path q v' = at_path q v)"
proof -
  have *: "foldR (\<lambda>result hidden_field. case hidden_field of
          PStr f \<Rightarrow> hide_field result f | _ \<Rightarrow> Inl AttributeError) v (map PStr fs) = Inr v'"
    using assms by (cases "fs = []") (simp_all add: hide_fields_def py_iter_def)
  have "(\<forall>q. at_path q v = None \<longrightarrow> at_path q v' = None)
    \<and> (\<forall>f \<in> set fs. at_path (split_on (CHR ''.'') f) v' = None)
    \<and> (\<forall>q. (\<forall>f \<in> set fs. \<not> prefix (split_on (CHR ''.'') f) q \<and> \<not> prefix q (split_on (CHR ''.'') f))
         \<longrightarrow> at_path q v' = at_path q v)"
    using *
  proof (induction fs arbitrary: v)
    case (Cons f fs)
    then obtain w where w: "hide_field v f = Inr w" by (auto simp: bindR_eq_Inr)
    then have "hides (split_on (CHR ''.'') f) v w" by (rule hide_field_hides)
    with Cons.IH [of w] Cons.prems w show ?case by (simp add: hides_def)
  qed simp
  then show ?thesis by blast
qed

theorem hide_fields_exact_witness:
  "\<exists>v'. hide_fields (PDict [(''metadata'', PDict [(''name'', PStr ''a''), (''managedFields'', PNone)]), (''status'', PNone)])
       (PList (map PStr [''status'', ''metadata.managedFields''])) = Inr v'
     \<and> at_path [''metadata'', ''managedFields''] v' = None \<and> at_path [''metadata'', ''name''] v' = Some (PStr ''a'')"
proof -
  let ?v = "PDict [(''metadata'', PDict [(''name'', PStr ''a''), (''managedFields'', PNone)]), (''status'', PNone)]"
  have split: "split_max (Suc 0) (CHR ''.'') ''metadata.managedFields'' = [''metadata'', ''managedFields'']" by simp
  obtain v' where v': "hide_fields ?v (PList (map PStr [''status'', ''metadata.managedFields''])) = Inr v'"
    by (simp add: hide_fields_def py_iter_def hide_field.simps str_in_def has_key_def dget_def)
  have "at_path [''metadata'', ''managedFields''] v' = None"
    using hide_fields_exact [OF v'] by simp
  moreover have "at_path [''metadata'', ''name''] v' = at_path [''metadata'', ''name''] ?v"
    by (rule hide_fields_exact [OF v', THEN conjunct2, rule_format]) auto
  ultimately show ?thesis using v' by simp
qed

end
