(* ===== verification/K8sResource.thy ===== *)
theory K8sResource
  imports PyIO
begin

text \<open>
  The resource definitions a module works on (\<open>k8s/resource.py\<close>): read from the parameter,
  a URL or a file (\<open>load\<close>), parsed as YAML (the world's \<open>w_yaml\<close>), completed with the
  module's parameters, and with list kinds replaced by their items.
\<close>

section \<open>The code\<close>

definition as_dict :: "pyval \<Rightarrow> dict res" where
  "as_dict v = (case v of PDict d \<Rightarrow> Inr d | _ \<Rightarrow> Inl AttributeError)"

definition rd_kind :: "dict \<Rightarrow> pyval" where
  "rd_kind self = dget self ''kind''"

definition rd_api_version :: "dict \<Rightarrow> pyval" where
  "rd_api_version self = dget self ''apiVersion''"

definition rd_namespace :: "dict \<Rightarrow> pyval res" where
  "rd_namespace self = bindR (py_get (PDict self) ''metadata'' (PDict [])) (\<lambda>metadata. py_get metadata ''namespace'' PNone)"

definition rd_name :: "dict \<Rightarrow> pyval res" where
  "rd_name self = bindR (py_get (PDict self) ''metadata'' (PDict [])) (\<lambda>metadata. py_get metadata ''name'' PNone)"

definition set_metadata :: "dict \<Rightarrow> string \<Rightarrow> string \<Rightarrow> pyval \<Rightarrow> pyval res" where
  "set_metadata params param key metadata =
     (if truthy (dget params param) then
        (case metadata of PDict m \<Rightarrow> Inr (PDict (setdefault key (dget params param) m)) | _ \<Rightarrow> Inl AttributeError)
      else Inr metadata)"

definition merge_params :: "dict \<Rightarrow> dict \<Rightarrow> dict res" where
  "merge_params defn params =
     (let d = setdefault ''metadata'' (PDict []) (setdefault ''apiVersion'' (dget params ''api_version'')
          (setdefault ''kind'' (dget params ''kind'') defn))
      in bindR (set_metadata params ''namespace'' ''namespace'' (dget d ''metadata'')) (\<lambda>m.
         bindR (set_metadata params ''name'' ''name'' m) (\<lambda>m.
         bindR (set_metadata params ''generate_name'' ''generateName'' m) (\<lambda>m.
           Inr (AList.update ''metadata'' m d)))))"

definition flatten_list_kind :: "dict \<Rightarrow> dict \<Rightarrow> dict list res" where
  "flatten_list_kind defn params =
     bindR (case dget defn ''kind'' of PStr k \<Rightarrow> Inr (take (length k - 4) k) | _ \<Rightarrow> Inl TypeError) (\<lambda>kind.
     bindR (py_get (PDict defn) ''items'' (PList [])) (\<lambda>items.
     bindR (py_iter items) (mapR (\<lambda>item. bindR (as_dict item) (\<lambda>d.
       merge_params (setdefault ''apiVersion'' (dget defn ''apiVersion'') (setdefault ''kind'' (PStr kind) d)) params)))))"

definition from_yaml :: "world \<Rightarrow> pyval \<Rightarrow> pyval list res" where
  "from_yaml W defn = bindR
     (case defn of
        PStr s \<Rightarrow> w_yaml W s
      | PList xs \<Rightarrow> bindR (mapR (\<lambda>item. case item of PStr s \<Rightarrow> w_yaml W s | _ \<Rightarrow> Inr [item]) xs) (\<lambda>ds. Inr (concat ds))
      | _ \<Rightarrow> Inr [defn]) (\<lambda>definitions. Inr (filter truthy definitions))"

definition from_file :: "world \<Rightarrow> string \<Rightarrow> pyval list io" where
  "from_file W filepath = bindI (load W filepath) (\<lambda>content.
     bindI (liftI (w_yaml W content)) (\<lambda>definitions. retI (filter truthy definitions)))"

definition is_url :: "string \<Rightarrow> bool" where
  "is_url d \<longleftrightarrow> starts_with d ''https://'' \<or> starts_with d ''http://'' \<or> starts_with d ''ftp://''"

definition expand_definition :: "dict \<Rightarrow> pyval \<Rightarrow> dict list res" where
  "expand_definition params v = bindR (as_dict v) (\<lambda>d. bindR (merge_params d params) (\<lambda>defn.
     let kind = dget defn ''kind'' in
     if truthy kind then
       (case kind of PStr k \<Rightarrow> (if ends_with k ''List'' then flatten_list_kind defn params else Inr [defn])
        | _ \<Rightarrow> Inl AttributeError)
     else Inr [defn]))"

definition create_definitions :: "world \<Rightarrow> dict \<Rightarrow> dict list io" where
  "create_definitions W params =
     bindI
       (if truthy (dget params ''resource_definition'') then liftI (from_yaml W (dget params ''resource_definition''))
        else if truthy (dget params ''src'') then
          (case dget params ''src'' of
             PStr d \<Rightarrow> (if is_url d then bindI (load W d) (\<lambda>data. liftI (from_yaml W (PStr data))) else from_file W d)
           | _ \<Rightarrow> raiseI TypeError)
        else retI [PDict []]) (\<lambda>definitions.
     liftI (bindR (mapR (expand_definition params) definitions) (\<lambda>dss. Inr (concat dss))))"

section \<open>What the parameters may change\<close>

lemma map_of_setdefault: "map_of (setdefault k v d) j = (case map_of d j of Some w \<Rightarrow> Some w | None \<Rightarrow> if j = k then Some v else None)"
  by (auto simp: setdefault_def has_key_def map_of_update split: option.splits)

lemma setdefault_keeps: "map_of d j = Some w \<Longrightarrow> map_of (setdefault k v d) j = Some w"
  by (simp add: map_of_setdefault)

lemma set_metadata_keeps:
  assumes "set_metadata params p key m = Inr m'" "m = PDict d"
  shows "\<exists>d'. m' = PDict d' \<and> (\<forall>j w. map_of d j = Some w \<longrightarrow> map_of d' j = Some w)
    \<and> (\<forall>j. j \<noteq> key \<longrightarrow> map_of d' j = map_of d j)
    \<and> (truthy (dget params p) \<longrightarrow> map_of d key = None \<longrightarrow> map_of d' key = Some (dget params p))"
  using assms by (auto simp: set_metadata_def map_of_setdefault split: if_splits option.splits)

text \<open>The module's parameters never override the definition: every field of the definition
  and of its metadata keeps its value, and a parameter that is given fills the field the
  definition lacks.\<close>

theorem definition_takes_precedence:
  assumes "merge_params defn params = Inr defn'"
    and "map_of defn ''metadata'' = Some (PDict m)"
  shows "\<exists>m'. map_of defn' ''metadata'' = Some (PDict m')
    \<and> (\<forall>k v. map_of defn k = Some v \<longrightarrow> k \<noteq> ''metadata'' \<longrightarrow> map_of defn' k = Some v)
    \<and> (\<forall>k v. map_of m k = Some v \<longrightarrow> map_of m' k = Some v)
    \<and> (map_of defn ''kind'' = None \<longrightarrow> map_of defn' ''kind'' = Some (dget params ''kind''))
    \<and> (truthy (dget params ''name'') \<longrightarrow> map_of m ''name'' = None \<longrightarrow> map_of m' ''name'' = Some (dget params ''name''))
    \<and> (truthy (dget params ''namespace'') \<longrightarrow> map_of m ''namespace'' = None
         \<longrightarrow> map_of m' ''namespace'' = Some (dget params ''namespace''))"
proof -
  let ?d = "setdefault ''metadata'' (PDict []) (setdefault ''apiVersion'' (dget params ''api_version'')
          (setdefault ''kind'' (dget params ''kind'') defn))"
  have md: "dget ?d ''metadata'' = PDict m" using assms(2) by (simp add: dget_def map_of_setdefault)
  from assms(1) obtain m1 m2 m3 where
    m1: "set_metadata params ''namespace'' ''namespace'' (PDict m) = Inr m1"
    and m2: "set_metadata params ''name'' ''name'' m1 = Inr m2"
    and m3: "set_metadata params ''generate_name'' ''generateName'' m2 = Inr m3"
    and d': "defn' = AList.update ''metadata'' m3 ?d"
    by (auto simp: merge_params_def Let_def bindR_eq_Inr md)
  obtain d1 where d1: "m1 = PDict d1"
    "\<forall>j w. map_of m j = Some w \<longrightarrow> map_of d1 j = Some w" "\<forall>j. j \<noteq> ''namespace'' \<longrightarrow> map_of d1 j = map_of m j"
    "truthy (dget params ''namespace'') \<longrightarrow> map_of m ''namespace'' = None
       \<longrightarrow> map_of d1 ''namespace'' = Some (dget params ''namespace'')"
    using set_metadata_keeps [OF m1 refl] by (elim exE conjE) (rule that)
  obtain d2 where d2: "m2 = PDict d2"
    "\<forall>j w. map_of d1 j = Some w \<longrightarrow> map_of d2 j = Some w" "\<forall>j. j \<noteq> ''name'' \<longrightarrow> map_of d2 j = map_of d1 j"
    "truthy (dget params ''name'') \<longrightarrow> map_of d1 ''name'' = None \<longrightarrow> map_of d2 ''name'' = Some (dget params ''name'')"
    using set_metadata_keeps [OF m2 d1(1)] by (elim exE conjE) (rule that)
  obtain d3 where d3: "m3 = PDict d3" "\<forall>j w. map_of d2 j = Some w \<longrightarrow> map_of d3 j = Some w"
    using set_metadata_keeps [OF m3 d2(1)] by (elim exE conjE) (rule that)
  have name: "map_of d1 ''name'' = map_of m ''name''" using d1(3) by simp
  have "map_of defn' ''metadata'' = Some (PDict d3)" by (simp add: d' map_of_update d3(1))
  moreover have "map_of defn k = Some v \<longrightarrow> k \<noteq> ''metadata'' \<longrightarrow> map_of defn' k = Some v" for k v
    by (simp add: d' map_of_update map_of_setdefault)
  moreover have "map_of defn ''kind'' = None \<longrightarrow> map_of defn' ''kind'' = Some (dget params ''kind'')"
    by (simp add: d' map_of_update map_of_setdefault)
  ultimately show ?thesis using d1(2,4) d2(2,4) d3(2) name by (intro exI [of _ d3]) simp
qed

theorem definition_takes_precedence_witness:
  "\<exists>defn'. merge_params [(''kind'', PStr ''Pod''), (''metadata'', PDict [(''name'', PStr ''a'')])]
      [(''name'', PStr ''b''), (''namespace'', PStr ''ns''), (''kind'', PStr ''Job'')] = Inr defn'
    \<and> (\<exists>m'. map_of defn' ''metadata'' = Some (PDict m') \<and> map_of m' ''name'' = Some (PStr ''a'')
         \<and> map_of m' ''namespace'' = Some (PStr ''ns''))"
proof -
  let ?d = "[(''kind'', PStr ''Pod''), (''metadata'', PDict [(''name'', PStr ''a'')])]"
  let ?p = "[(''name'', PStr ''b''), (''namespace'', PStr ''ns''), (''kind'', PStr ''Job'')]"
  obtain d' where d': "merge_params ?d ?p = Inr d'"
    by (simp add: merge_params_def set_metadata_def setdefault_def has_key_def dget_def)
  from definition_takes_precedence [OF d', of "[(''name'', PStr ''a'')]"] d' show ?thesis
    by (auto simp: dget_def)
qed

end
