(* ===== verification/K8sRunner.thy ===== *)
theory K8sRunner
  imports K8sService K8sResource
begin

text \<open>
  The loop of a module over its definitions (\<open>k8s/runner.py\<close>): validation, the action on one
  definition, and how a module ends. A module ends by \<open>exit_json\<close> or \<open>fail_json\<close>, the
  outcomes \<open>ExitJson\<close> and \<open>FailJson\<close> of the model. The client is built before
  (\<open>K8sAuth\<close>); its \<open>dry_run\<close> flag is part of the service.
\<close>

section \<open>Validation\<close>

definition prepend_resource_info :: "dict \<Rightarrow> string \<Rightarrow> string res" where
  "prepend_resource_info resource msg =
     bindR (py_getitem (PDict resource) ''kind'') (\<lambda>kind.
     bindR (py_getitem (PDict resource) ''metadata'') (\<lambda>metadata.
     bindR (py_getitem metadata ''name'') (\<lambda>name.
       Inr (py_str kind @ '' '' @ py_str name @ '': '' @ msg))))"

text \<open>\<open>AnsibleK8SModule.requires\<close>.\<close>

definition module_requires :: "world \<Rightarrow> string \<Rightarrow> string option \<Rightarrow> string option \<Rightarrow> unit res" where
  "module_requires W dependency minimum reason = (case requires W dependency minimum reason of
      Inl e \<Rightarrow> (if is_Exception e then Inl (FailJson [(''msg'', PStr (exn_text W e))]) else Inl e)
    | Inr u \<Rightarrow> Inr u)"

definition validate :: "world \<Rightarrow> service \<Rightarrow> dict \<Rightarrow> string list res" where
  "validate W s resource =
     bindR (module_requires W ''kubernetes-validate'' None None) (\<lambda>_.
     let options = param s ''validate'' in
     bindR (py_get options ''version'' PNone) (\<lambda>version.
     bindR (py_get options ''strict'' PNone) (\<lambda>strict.
     bindR (w_validate W resource version strict) (\<lambda>(warnings, errors).
     bindR (if errors = [] then Inr PNone else py_getitem options ''fail_on_error'') (\<lambda>fail_on_error.
       if errors \<noteq> [] \<and> truthy fail_on_error then
         bindR (mapR (prepend_resource_info resource) errors) (\<lambda>msgs.
           Inl (FailJson [(''msg'', PStr (py_join [CHR 0x0A] msgs))]))
       else mapR (prepend_resource_info resource) (warnings @ errors))))))"

section \<open>The definitions\<close>

definition get_definitions :: "world \<Rightarrow> service \<Rightarrow> dict list io" where
  "get_definitions W s =
     bindI (wrapI W ''Failed to load resource definition: '' (create_definitions W (s_params s))) (\<lambda>definitions.
     if truthy (param s ''delete_all'') \<and> py_eq (param s ''state'') (PStr ''absent'')
        \<and> param s ''name'' = PNone \<and> param s ''resource_definition'' = PNone \<and> param s ''src'' = PNone then
       (if param s ''kind'' = PNone then
          raiseI (CoreException ([CHR 0x27] @ ''kind'' @ [CHR 0x27] @ '' option is required to specify the resource type.''))
        else bindI (find_resource W (param s ''kind'') (param s ''api_version'') True) (\<lambda>found. case found of
            None \<Rightarrow> raiseI AssertionError
          | Some resource \<Rightarrow> retrieve_all W resource (param s ''namespace'') (param s ''label_selectors'')))
     else retI definitions)"

section \<open>One definition\<close>

definition add_warnings :: "pyval list \<Rightarrow> dict \<Rightarrow> dict res" where
  "add_warnings msgs result = (case dget (setdefault ''warnings'' (PList []) result) ''warnings'' of
      PList ws \<Rightarrow> Inr (AList.update ''warnings'' (PList (ws @ msgs)) result) | _ \<Rightarrow> Inl AttributeError)"

text \<open>The object or objects removed: the items of a list one by one.\<close>

definition delete_existing :: "world \<Rightarrow> service \<Rightarrow> resource \<Rightarrow> dict \<Rightarrow> existing \<Rightarrow> pyval io" where
  "delete_existing W s resource defn existing =
     bindI (liftI (existing_exists W existing)) (\<lambda>there.
     bindI (liftI (if \<not> there then Inr False else bindR (existing_dict existing) (\<lambda>d.
         bindR (w_field W (PDict d) ''kind'') (\<lambda>kind. case kind of
             PStr k \<Rightarrow> Inr (ends_with k ''List'') | _ \<Rightarrow> Inl AttributeError)))) (\<lambda>is_list.
       if is_list then
         bindI (liftI (bindR (existing_dict existing) (\<lambda>d. bindR (w_field W (PDict d) ''items'') py_iter))) (\<lambda>items.
         bindI (mapI (\<lambda>item. svc_delete_item W s resource item existing) items) (\<lambda>rs. retI (PList (map PDict rs))))
       else bindI (svc_delete W s resource defn existing) (\<lambda>d. retI (PDict d))))"

text \<open>
  What is done to the object: the instance and the result so far, or (\<open>Inl\<close>) the result
  the action returns at once.
\<close>

definition change_object :: "world \<Rightarrow> service \<Rightarrow> resource \<Rightarrow> dict \<Rightarrow> existing \<Rightarrow> pyval \<Rightarrow> pyval \<Rightarrow> dict
    \<Rightarrow> (dict + pyval \<times> string \<times> dict) io" where
  "change_object W s resource defn existing kind origin_name result =
     bindI (liftI (metadata_get defn ''namespace'')) (\<lambda>namespace.
     bindI (liftI (if truthy (param s ''label_selectors'') then
         bindR (py_iter (param s ''label_selectors'')) (\<lambda>xs.
         bindR (mapR (\<lambda>x. case x of PStr l \<Rightarrow> Inr l | _ \<Rightarrow> Inl AttributeError) xs) (\<lambda>ls.
         bindR (isMatching (LabelSelectorFilter ls) defn) (\<lambda>m. Inr (m = Some True))))
       else Inr True)) (\<lambda>selected.
     if \<not> selected then
       retI (Inl (AList.update ''msg'' (PStr (''resource '' @ [CHR 0x27] @ ''kind='' @ py_str kind @ '',name='' @ py_str origin_name
          @ '',namespace='' @ py_str namespace @ [CHR 0x27] @ '' filtered by label_selectors.''))
          (AList.update ''changed'' (PBool False) result)))
     else if truthy (param s ''apply'') then
       bindI (svc_apply W s resource defn existing) (\<lambda>instance'.
         retI (Inr (PDict instance', ''apply'', AList.update ''method'' (PStr ''apply'') result)))
     else if \<not> existing_truthy existing then
       (if py_eq (param s ''state'') (PStr ''patched'') then
          bindI (liftI (metadata_get defn ''name'')) (\<lambda>name.
          bindI (liftI (add_warnings [PStr (''resource '' @ [CHR 0x27] @ ''kind='' @ py_str kind @ '',name='' @ py_str name @ [CHR 0x27]
             @ '' was not found but will not be created as '' @ [CHR 0x27] @ ''state'' @ [CHR 0x27]
             @ '' parameter has been set to '' @ [CHR 0x27] @ py_str (param s ''state'') @ [CHR 0x27])] result)) (\<lambda>result.
            retI (Inl result)))
        else bindI (svc_create W s resource defn) (\<lambda>instance'.
          retI (Inr (PDict instance', ''create'', AList.update ''changed'' (PBool True)
             (AList.update ''method'' (PStr ''create'') result)))))
     else if truthy (param s ''force'') then
       bindI (svc_replace W s resource defn) (\<lambda>instance'.
         retI (Inr (PDict instance', ''replace'', AList.update ''method'' (PStr ''replace'') result)))
     else
       bindI (svc_update W s resource defn existing) (\<lambda>instance'.
         retI (Inr (PDict instance', ''update'', AList.update ''method'' (PStr ''update'') result)))))"

definition wait_if_asked :: "world \<Rightarrow> service \<Rightarrow> resource \<Rightarrow> dict \<Rightarrow> pyval \<Rightarrow> string \<Rightarrow> dict
    \<Rightarrow> (bool \<times> pyval \<times> dict) io" where
  "wait_if_asked W s resource defn instance' kind_of_action result =
     (if truthy (param s ''wait'') \<and> \<not> s_check_mode s then
        (if kind_of_action = ''delete'' then
           bindI (svc_wait W s resource defn) (\<lambda>(success, waited, duration).
             retI (success, instance', AList.update ''duration'' (PInt duration) result))
         else
           bindI (liftI (case instance' of PDict d \<Rightarrow> Inr d | _ \<Rightarrow> Inl TypeError)) (\<lambda>d.
           bindI (svc_wait W s resource d) (\<lambda>(success, waited, duration).
             retI (success, PDict waited, AList.update ''duration'' (PInt duration) result))))
      else retI (True, instance', result))"

definition report_diff :: "service \<Rightarrow> existing \<Rightarrow> pyval \<Rightarrow> string \<Rightarrow> dict \<Rightarrow> dict res" where
  "report_diff s existing instance' kind_of_action result =
     (if kind_of_action = ''create'' \<or> kind_of_action = ''delete'' then Inr result
      else bindR (if existing_truthy existing then existing_dict existing else Inr []) (\<lambda>before.
        bindR (case instance' of PDict d \<Rightarrow> Inr d | _ \<Rightarrow> Inl AttributeError) (\<lambda>after.
        bindR (diff_objects before after (param s ''hidden_fields'')) (\<lambda>(match, diffs).
        bindR (if match \<and> diffs \<noteq> [] then
            add_warnings [PStr ''No meaningful diff was generated, but the API may not be idempotent (only metadata.generation or metadata.resourceVersion were changed)''] result
          else Inr result) (\<lambda>result.
        let result = AList.update ''changed'' (PBool (\<not> match)) result in
        Inr (if s_diff s then AList.update ''diff'' (PDict diffs) result else result))))))"

definition no_change :: dict where
  "no_change = [(''changed'', PBool False), (''result'', PDict [])]"

text \<open>Waiting, comparing and the result.\<close>

definition conclude_action :: "world \<Rightarrow> service \<Rightarrow> resource \<Rightarrow> dict \<Rightarrow> existing \<Rightarrow> pyval
    \<Rightarrow> dict + pyval \<times> string \<times> dict \<Rightarrow> dict io" where
  "conclude_action W s resource defn existing origin_name outcome = (case outcome of
       Inl result \<Rightarrow> retI result
     | Inr (instance', kind_of_action, result) \<Rightarrow>
         bindI (wait_if_asked W s resource defn instance' kind_of_action result) (\<lambda>(success, instance', result).
         bindI (liftI (report_diff s existing instance' kind_of_action result)) (\<lambda>result.
         bindI (liftI (hide_fields instance' (param s ''hidden_fields''))) (\<lambda>hidden.
         let result = AList.update ''result'' hidden result in
         if \<not> success then
           raiseI (ResourceTimeout ([CHR 0x22] @ py_str (dget defn ''kind'') @ [CHR 0x22] @ '' '' @ [CHR 0x22]
             @ py_str origin_name @ [CHR 0x22] @ '': Timed out waiting on resource'') (PDict result))
         else retI result))))"

definition perform_action :: "world \<Rightarrow> service \<Rightarrow> dict \<Rightarrow> dict io" where
  "perform_action W s defn =
     bindI (liftI (metadata_get defn ''name'')) (\<lambda>origin_name.
     bindI (liftI (metadata_get defn ''namespace'')) (\<lambda>namespace.
     let kind = dget defn ''kind''; api_version = dget defn ''apiVersion'' in
     bindI (find_resource W kind api_version True) (\<lambda>found. case found of
       None \<Rightarrow> raiseI AssertionError
     | Some resource \<Rightarrow>
     let defn = AList.update ''apiVersion'' (PStr (res_group_version resource))
           (AList.update ''kind'' (PStr (res_kind resource)) defn) in
     bindI (retrieve W s resource defn) (\<lambda>(existing, defn).
     bindI (if py_eq (param s ''state'') (PStr ''absent'') then
         bindI (delete_existing W s resource defn existing) (\<lambda>instance'.
         bindI (liftI (existing_exists W existing)) (\<lambda>there.
         let result = AList.update ''method'' (PStr ''delete'') no_change in
           retI (Inr (instance', ''delete'', if there then AList.update ''changed'' (PBool True) result else result))))
       else change_object W s resource defn existing kind origin_name no_change) (\<lambda>outcome.
     conclude_action W s resource defn existing origin_name outcome)))))"

section \<open>The module\<close>

definition cause_reason :: "world \<Rightarrow> exn \<Rightarrow> string option io" where
  "cause_reason W e = (\<lambda>h. (Inr (w_cause_reason W h e), h))"

definition error_of :: "world \<Rightarrow> exn \<Rightarrow> string option \<Rightarrow> pyval list \<Rightarrow> dict res" where
  "error_of W e reason warnings =
     (let error = (case e of ResourceTimeout _ (PDict result) \<Rightarrow> result | _ \<Rightarrow> []);
          error = (case reason of Some r \<Rightarrow> AList.update ''reason'' (PStr r) error | None \<Rightarrow> error);
          error = AList.update ''msg'' (PStr (exn_text W e)) error
      in if warnings \<noteq> [] then add_warnings warnings error else Inr error)"

definition run_definition :: "world \<Rightarrow> service \<Rightarrow> dict \<Rightarrow> dict io" where
  "run_definition W s defn =
     bindI (liftI (if param s ''validate'' \<noteq> PNone then validate W s defn else Inr [])) (\<lambda>messages.
     let warnings = map PStr messages in
     bindI (attemptI (perform_action W s defn)) (\<lambda>outcome.
     bindI (case outcome of
         Inr result \<Rightarrow> retI result
       | Inl e \<Rightarrow>
           if \<not> is_Exception e then raiseI e
           else bindI (cause_reason W e) (\<lambda>reason. bindI (liftI (error_of W e reason warnings)) (\<lambda>error.
             if truthy (param s ''continue_on_error'') then retI (AList.update ''error'' (PDict error) no_change)
             else raiseI (FailJson error)))) (\<lambda>result.
       liftI (if warnings \<noteq> [] then add_warnings warnings result else Inr result))))"

definition finish_module :: "dict list \<Rightarrow> 'a io" where
  "finish_module results = (case results of
      [result] \<Rightarrow> raiseI (ExitJson result)
    | _ \<Rightarrow> raiseI (ExitJson [(''changed'', PBool (\<exists>r \<in> set results. truthy (dget r ''changed''))),
        (''result'', PDict [(''results'', PList (map PDict results))])]))"

definition run_module :: "world \<Rightarrow> service \<Rightarrow> unit io" where
  "run_module W s =
     bindI (get_definitions W s) (\<lambda>definitions.
     bindI (mapI (run_definition W s) definitions) finish_module)"

section \<open>Check mode\<close>

lemma harmless_reads [io_rules]:
  "emits harmless (client_get W r k)" "emits harmless (client_resource W kind a)"
  "emits harmless (apply_object W r d ss)" "emits harmless (waiter_wait W r pr t sl n ns ls fs)"
  by (rule reads_harmless, rule io_rules)+

lemma harmless_cause [io_rules]: "emits P (cause_reason W e)"
  by (simp add: emits_def cause_reason_def)

lemma harmless_load [io_rules]: "emits harmless (load W f)" "emits harmless (emit (Warn t))"
    "emits harmless (emit (Deprecate t))"
  by (simp_all add: emits_load emits_emit)

lemma harmless_wrap [io_rules]: "emits P m \<Longrightarrow> emits P (wrapI W t m)"
  unfolding wrapI_def by (intro io_rules)

lemma harmless_find_resource [io_rules]: "emits harmless (find_resource W k a b)"
  unfolding find_resource_def by (intro io_rules)

lemma harmless_create_definitions [io_rules]: "emits harmless (create_definitions W ps)"
  unfolding create_definitions_def from_file_def
  by (auto intro!: io_rules split: pyval.splits)

lemma harmless_collect_items [io_rules]: "emits harmless (collect_items W r ns items ds)"
  by (induction items arbitrary: ds) (auto intro!: io_rules split: option.splits)

lemma harmless_retrieve_all [io_rules]: "emits harmless (retrieve_all W r ns ls)"
  unfolding retrieve_all_def by (auto intro!: io_rules split: option.splits)

lemma harmless_get_definitions [io_rules]: "emits harmless (get_definitions W s)"
  unfolding get_definitions_def by (auto intro!: io_rules split: option.splits)

lemma harmless_svc_wait [io_rules]: "emits harmless (svc_wait W s r d)"
  unfolding svc_wait_def Let_def by (auto intro!: io_rules split: waiter.splits)

lemma harmless_wait_if_asked [io_rules]: "emits harmless (wait_if_asked W s r d i k res)"
  unfolding wait_if_asked_def by (auto intro!: io_rules split: prod.splits)

lemma dry_run_or_client_side:
  "s_check_mode s \<Longrightarrow> \<not> client_side_dry_run s \<Longrightarrow> s_dry_run s"
  by (simp add: client_side_dry_run_def)

lemma check_mode_create_project [io_rules]: "s_check_mode s \<Longrightarrow> emits harmless (create_project_request W s d)"
  unfolding create_project_request_def Let_def by (auto intro!: io_rules split: option.splits)

lemma check_mode_patch [io_rules]: "s_dry_run s \<Longrightarrow> emits harmless (patch_resource W s r d n ns t)"
  unfolding patch_resource_def by (auto intro!: io_rules dry_call)

lemma check_mode_merge_types [io_rules]: "s_dry_run s \<Longrightarrow> emits harmless (try_merge_types W s r d n ns ts e)"
  by (induction ts arbitrary: e) (auto intro!: io_rules)

lemma check_mode_retrieve_failed [io_rules]: "s_check_mode s \<Longrightarrow> emits harmless (retrieve_failed W s d e)"
  unfolding retrieve_failed_def by (cases e) (auto intro!: io_rules)

lemma check_mode_retrieve [io_rules]: "s_check_mode s \<Longrightarrow> emits harmless (retrieve W s r d)"
  unfolding retrieve_def retrieve_get_def Let_def
  by (auto intro!: io_rules split: sum.splits prod.splits)

lemma emits_on_conflict [io_rules]:
  "(\<And>m. emits P (f m)) \<Longrightarrow> emits P g \<Longrightarrow> emits P (case e of ConflictError m \<Rightarrow> f m | _ \<Rightarrow> g)"
  by (cases e) simp_all

lemma check_mode_create [io_rules]: "s_check_mode s \<Longrightarrow> emits harmless (svc_create W s r d)"
  unfolding svc_create_def Let_def
  by (auto intro!: io_rules dry_call dry_client_apply dest: dry_run_or_client_side split: prod.splits)

lemma check_mode_apply [io_rules]: "s_check_mode s \<Longrightarrow> emits harmless (svc_apply W s r d e)"
  unfolding svc_apply_def Let_def
  by (auto intro!: io_rules dry_call dry_client_apply dest: dry_run_or_client_side split: prod.splits)

lemma check_mode_replace [io_rules]: "s_check_mode s \<Longrightarrow> emits harmless (svc_replace W s r d)"
  unfolding svc_replace_def Let_def
  by (auto intro!: io_rules dry_call dry_client_apply dest: dry_run_or_client_side split: prod.splits)

lemma check_mode_update [io_rules]: "s_check_mode s \<Longrightarrow> emits harmless (svc_update W s r d e)"
  unfolding svc_update_def Let_def
  by (auto intro!: io_rules dry_call dry_client_apply dest: dry_run_or_client_side split: prod.splits)

lemma check_mode_delete_named [io_rules]: "s_check_mode s \<Longrightarrow> emits harmless (svc_delete_named W s r n ns e)"
  unfolding svc_delete_named_def Let_def
  by (auto intro!: io_rules dry_call dry_client_apply dest: dry_run_or_client_side split: prod.splits)

lemma check_mode_delete [io_rules]:
  assumes "s_check_mode s"
  shows "emits harmless (svc_delete W s r d e)" "emits harmless (svc_delete_item W s r i e)"
  unfolding svc_delete_def svc_delete_item_def using assms by (auto intro!: io_rules)

lemma check_mode_parts [io_rules]:
  assumes "s_check_mode s"
  shows "emits harmless (delete_existing W s r d e)" "emits harmless (change_object W s r d e k n res)"
  unfolding delete_existing_def change_object_def
  by (intro io_rules assms | rule assms)+

lemma harmless_conclude [io_rules]: "emits harmless (conclude_action W s r d e n outcome)"
  unfolding conclude_action_def Let_def by (auto intro!: io_rules split: sum.splits prod.splits)

lemma check_mode_perform [io_rules]: "s_check_mode s \<Longrightarrow> emits harmless (perform_action W s d)"
  unfolding perform_action_def Let_def
  by (auto intro!: io_rules split: option.splits prod.splits)

text \<open>C2: In check mode the module never changes the cluster: whatever the server, the definitions
  and the parameters, every request it sends either reads or carries \<open>dry_run=All\<close>.\<close>

theorem check_mode_is_safe:
  assumes "s_check_mode s"
  shows "emits harmless (run_module W s)"
  unfolding run_module_def run_definition_def finish_module_def Let_def
  using assms by (auto intro!: io_rules split: sum.splits list.splits)

theorem check_mode_is_safe_witness:
  "s_check_mode \<lparr>s_params = [(''state'', PStr ''absent'')], s_check_mode = True, s_diff = False, s_dry_run = False\<rparr>
    \<and> emits harmless (run_module (sample_world (\<lambda>a b. b) (\<lambda>h v r b k. Inl NotFoundError))
        \<lparr>s_params = [(''state'', PStr ''absent'')], s_check_mode = True, s_diff = False, s_dry_run = False\<rparr>)"
  by (intro conjI check_mode_is_safe) simp_all

section \<open>Deleting what is not there\<close>

lemma run_find_resource:
  assumes "\<And>h p a t v. \<exists>r. w_find W h p a t v = Inr r"
  shows "\<exists>r es. find_resource W k a f h = (Inr (Some r), h @ es) \<and> list_all (\<lambda>e. \<not> mutating e) es"
proof -
  have kind: "find_resource_with_prefix W p k a h = find W p a ''kind'' k h" for p
    using assms [of h p a "''kind''" k] by (auto simp: find_resource_with_prefix_def run_try run_simps)
  have "\<exists>p. client_resource W k a h = find W p a ''kind'' k h"
    using assms [of h "Some ''api''" a "''kind''" k]
    by (cases "py_eq a (PStr ''v1'')") (auto simp: client_resource_def kind run_try run_simps)
  then obtain p where "client_resource W k a h = find W p a ''kind'' k h" by blast
  then show ?thesis using assms [of h p a "''kind''" k]
    by (auto simp: find_resource_def run_try run_bind run_simps)
qed

lemma metadata_get_update [simp]:
  "k \<noteq> ''metadata'' \<Longrightarrow> metadata_get (AList.update k v d) j = metadata_get d j"
  by (simp add: metadata_get_def py_getitem_def map_of_update)

text \<open>Deleting an object the cluster does not have succeeds, reports no change and sends no
  request that changes the cluster.\<close>

theorem delete_missing_object:
  assumes server: "\<And>h r k. w_server W h Get r PNone k = Inl NotFoundError"
    and found: "\<And>h p a t v. \<exists>r. w_find W h p a t v = Inr r"
    and s: "param s ''state'' = PStr ''absent''" "\<not> truthy (param s ''wait'')" "\<not> truthy (param s ''append_hash'')"
      "\<not> truthy (param s ''label_selectors'')" "\<not> truthy (param s ''hidden_fields'')"
    and defn: "map_of defn ''metadata'' = Some (PDict m)"
  shows "\<exists>result es. perform_action W s defn h = (Inr result, h @ es) \<and> dget result ''changed'' = PBool False
    \<and> dget result ''method'' = PStr ''delete'' \<and> list_all (\<lambda>e. \<not> mutating e) es"
proof -
  obtain r es where r: "find_resource W (dget defn ''kind'') (dget defn ''apiVersion'') True h = (Inr (Some r), h @ es)"
    "list_all (\<lambda>e. \<not> mutating e) es"
    using run_find_resource [OF found] by blast
  let ?d = "AList.update ''apiVersion'' (PStr (res_group_version r)) (AList.update ''kind'' (PStr (res_kind r)) defn)"
  have md: "metadata_get defn k = Inr (dget m k)" for k
    by (simp add: metadata_get_def py_getitem_def py_get_def dget_def defn split: option.splits)
  obtain es' where retr: "retrieve W s r ?d (h @ es) = (Inr (Absent, ?d), (h @ es) @ es')"
    "list_all (\<lambda>e. \<not> mutating e) es'"
  proof (cases "truthy (dget m ''name'')")
    case True
    then show thesis using s that
      by (simp add: retrieve_def retrieve_get_def retrieve_failed_def apply_hash_def md run_bind run_simps
          selector_param_def client_get_def server has_key_def Let_def)
  next
    case False
    then show thesis using s that [of "[]"]
      by (simp add: retrieve_def retrieve_get_def retrieve_failed_def apply_hash_def md run_bind run_simps
          selector_param_def has_key_def Let_def)
  qed
  have "perform_action W s defn h = (Inr (AList.update ''result'' (PDict []) (AList.update ''method'' (PStr ''delete'') no_change)),
      (h @ es) @ es')"
    using s r(1) retr(1)
    by (simp add: perform_action_def md run_bind run_simps delete_existing_def existing_exists_def svc_delete_def
        svc_delete_named_def conclude_action_def wait_if_asked_def report_diff_def hide_fields_def Let_def)
  then show ?thesis using r(2) retr(2)
    by (intro exI conjI) (assumption | simp add: dget_def no_change_def)+
qed

theorem delete_missing_object_witness:
  "\<exists>result es. perform_action (sample_world (\<lambda>a b. b) (\<lambda>h v r b k. Inl NotFoundError))
      \<lparr>s_params = [(''state'', PStr ''absent'')], s_check_mode = False, s_diff = False, s_dry_run = False\<rparr>
      [(''kind'', PStr ''Pod''), (''apiVersion'', PStr ''v1''), (''metadata'', PDict [(''name'', PStr ''a'')])] []
      = (Inr result, es) \<and> dget result ''changed'' = PBool False \<and> list_all (\<lambda>e. \<not> mutating e) es"
  using delete_missing_object [of "sample_world (\<lambda>a b. b) (\<lambda>h v r b k. Inl NotFoundError)"
      "\<lparr>s_params = [(''state'', PStr ''absent'')], s_check_mode = False, s_diff = False, s_dry_run = False\<rparr>"
      "[(''kind'', PStr ''Pod''), (''apiVersion'', PStr ''v1''), (''metadata'', PDict [(''name'', PStr ''a'')])]"
      "[(''name'', PStr ''a'')]" "[]"]
  by (auto simp: param_def dget_def)

section \<open>Projects\<close>

text \<open>
  When the server forbids reading a project, \<open>retrieve\<close> asks for it with a
  \<open>ProjectRequest\<close> and returns the module result it has made, which \<open>perform_action\<close>
  takes for an object of the cluster.
\<close>

lemma change_object_answer:
  assumes "change_object W s r d (Answer a) k n res h = (Inr outcome, h')" and "a \<noteq> []"
    and "\<not> truthy (param s ''label_selectors'')"
  shows "\<exists>i m res'. outcome = Inr (i, m, res') \<and> m \<noteq> ''create'' \<and> m \<noteq> ''delete''"
  using assms
  by (auto simp: change_object_def bind_Inr_iff run_simps existing_truthy_def split: if_splits prod.splits sum.splits)

lemma report_diff_answer:
  "a \<noteq> [] \<Longrightarrow> m \<noteq> ''create'' \<Longrightarrow> m \<noteq> ''delete'' \<Longrightarrow> report_diff s (Answer a) i m res = Inl AttributeError"
  by (simp add: report_diff_def existing_truthy_def existing_dict_def)

text \<open>An action on a project the server forbids to read never returns a result, also where the
  server grants the \<open>ProjectRequest\<close> that is made for it.\<close>

theorem project_request_fails:
  assumes forbidden: "\<And>h r k. w_server W h Get r PNone k = Inl (ForbiddenError m)"
    and found: "\<And>h p a t v. \<exists>r. w_find W h p a t v = Inr r \<and> res_kind r = ''Project''"
    and s: "param s ''state'' = PStr ''present''" "\<not> truthy (param s ''append_hash'')"
      "\<not> truthy (param s ''label_selectors'')"
    and defn: "map_of defn ''metadata'' = Some (PDict md)" "map_of md ''name'' = Some (PStr (c # n))"
  shows "\<nexists>result h'. perform_action W s defn h = (Inr result, h')"
proof
  assume "\<exists>result h'. perform_action W s defn h = (Inr result, h')"
  then obtain result h' where run: "perform_action W s defn h = (Inr result, h')" by blast
  have find: "\<exists>r es. find_resource W k a f h = (Inr (Some r), es) \<and> res_kind r = ''Project''" for k a f h
  proof -
    have kind: "find_resource_with_prefix W p k a h = find W p a ''kind'' k h" for p
      using found [of h p a "''kind''" k] by (auto simp: find_resource_with_prefix_def run_try run_simps)
    have "\<exists>p. client_resource W k a h = find W p a ''kind'' k h"
      using found [of h "Some ''api''" a "''kind''" k]
      by (cases "py_eq a (PStr ''v1'')") (auto simp: client_resource_def kind run_try run_simps)
    then obtain p where "client_resource W k a h = find W p a ''kind'' k h" by blast
    then show ?thesis using found [of h p a "''kind''" k]
      by (auto simp: find_resource_def run_try run_bind run_simps)
  qed
  have mg: "metadata_get defn k = Inr (dget md k)" for k
    by (simp add: metadata_get_def py_getitem_def py_get_def dget_def defn split: option.splits)
  have name: "dget md ''name'' = PStr (c # n)" by (simp add: dget_def defn)
  obtain r h1 where r: "find_resource W (dget defn ''kind'') (dget defn ''apiVersion'') True h = (Inr (Some r), h1)"
    "res_kind r = ''Project''" using find by blast
  let ?d = "AList.update ''apiVersion'' (PStr (res_group_version r)) (AList.update ''kind'' (PStr (res_kind r)) defn)"
  have retr: "\<exists>a. existing = Answer a \<and> a \<noteq> []"
    if "retrieve W s r ?d h1 = (Inr (existing, d), h2)" for existing d h2
    using that s r(2) forbidden
    by (auto simp: retrieve_def retrieve_get_def retrieve_failed_def apply_hash_def mg run_bind run_simps name
        selector_param_def client_get_def has_key_def Let_def create_project_request_def bind_Inr_iff
        py_getitem_def map_of_update split: prod.splits sum.splits option.splits)
  from run r(1) s(1) obtain existing d h2 outcome h3 where
    "retrieve W s r ?d h1 = (Inr (existing, d), h2)"
    and co: "change_object W s r d existing (dget defn ''kind'') (dget md ''name'') no_change h2 = (Inr outcome, h3)"
    and rest: "conclude_action W s r d existing (dget md ''name'') outcome h3 = (Inr result, h')"
    by (auto simp: perform_action_def mg bind_Inr_iff run_simps Let_def)
  then obtain a where a: "existing = Answer a" "a \<noteq> []" using retr by blast
  moreover obtain i m res where "outcome = Inr (i, m, res)" "m \<noteq> ''create''" "m \<noteq> ''delete''"
    using change_object_answer [OF co [unfolded a(1)] a(2) s(3)] by blast
  ultimately show False using rest
    by (auto simp: conclude_action_def bind_Inr_iff run_simps report_diff_answer)
qed

theorem project_request_fails_witness:
  "\<nexists>result h'. perform_action
      (sample_world (\<lambda>a b. b) (\<lambda>h v r b k. if v = Get then Inl (ForbiddenError []) else Inr (PDict []))
         \<lparr>w_find := \<lambda>h prefix api attribute v.
            Inr \<lparr>res_kind = ''Project'', res_group_version = ''v1'', res_namespaced = False\<rparr>\<rparr>)
      \<lparr>s_params = [(''state'', PStr ''present'')], s_check_mode = False, s_diff = False, s_dry_run = False\<rparr>
      [(''kind'', PStr ''Project''), (''apiVersion'', PStr ''v1''), (''metadata'', PDict [(''name'', PStr ''a'')])] []
      = (Inr result, h')"
  by (rule project_request_fails [where m = "[]" and md = "[(''name'', PStr ''a'')]" and c = "CHR ''a''" and n = "[]"])
    (simp_all add: param_def dget_def)

end
