(* ===== verification/K8sRollback.thy ===== *)
theory K8sRollback
  imports K8sRunner
begin

text \<open>
  Rolling back a Deployment or a DaemonSet (\<open>k8s_rollback.py\<close>): the revision before the current
  one is looked for among the ReplicaSets or ControllerRevisions, and the object is patched back
  to it. The patch goes around the client's proxy and is the event \<open>Ext "PATCH"\<close>.
\<close>

section \<open>Revisions\<close>

fun subscripts :: "pyval \<Rightarrow> string list \<Rightarrow> pyval res" where
  "subscripts v [] = Inr v"
| "subscripts v (k # ks) = bindR (py_getitem v k) (\<lambda>x. subscripts x ks)"

definition REVISION :: string where
  "REVISION = ''deployment.kubernetes.io/revision''"

definition get_managed_resource :: "pyval \<Rightarrow> (string \<times> string) res" where
  "get_managed_resource kind =
     (if kind = PStr ''DaemonSet'' then Inr (''ControllerRevision'', ''apps/v1'')
      else if kind = PStr ''Deployment'' then Inr (''ReplicaSet'', ''apps/v1'')
      else Inl (CoreException (''Cannot perform rollback on resource of kind '' @ py_str kind)))"

definition current_revision :: "pyval \<Rightarrow> pyval \<Rightarrow> pyval res" where
  "current_revision kind resource =
     (if kind = PStr ''DaemonSet'' then subscripts resource [''metadata'', ''generation'']
      else if kind = PStr ''Deployment'' then subscripts resource [''metadata'', ''annotations'', REVISION]
      else Inr PNone)"

definition revision_annotation :: "pyval \<Rightarrow> string option" where
  "revision_annotation kind =
     (if kind = PStr ''ReplicaSet'' then Some REVISION
      else if kind = PStr ''ControllerRevision'' then Some ''deprecated.daemonset.template.generation''
      else None)"

definition revision_of :: "string \<Rightarrow> pyval \<Rightarrow> int res" where
  "revision_of annotation r = bindR (subscripts r [''metadata'', ''annotations'', annotation]) to_int"

definition is_previous :: "pyval \<Rightarrow> pyval \<Rightarrow> bool res" where
  "is_previous current r =
     bindR (py_getitem r ''kind'') (\<lambda>kind. case revision_annotation kind of
       None \<Rightarrow> Inr False
     | Some a \<Rightarrow> bindR (revision_of a r) (\<lambda>n. bindR (to_int current) (\<lambda>c. Inr (n = c - 1))))"

fun get_previous_revision :: "pyval list \<Rightarrow> pyval \<Rightarrow> pyval option res" where
  "get_previous_revision [] current = Inr None"
| "get_previous_revision (r # rs) current =
     bindR (is_previous current r) (\<lambda>b. if b then Inr (Some r) else get_previous_revision rs current)"

section \<open>The patch\<close>

text \<open>\<open>del template["metadata"]["labels"]["pod-template-hash"]\<close>.\<close>

definition without_hash :: "pyval \<Rightarrow> pyval res" where
  "without_hash template = (case template of
     PDict t \<Rightarrow> bindR (py_getitem template ''metadata'') (\<lambda>m. case m of
         PDict md \<Rightarrow> bindR (py_getitem m ''labels'') (\<lambda>l. case l of
             PDict ls \<Rightarrow> if has_key ls ''pod-template-hash''
               then Inr (PDict (AList.update ''metadata'' (PDict (AList.update ''labels'' (PDict (AList.delete ''pod-template-hash'' ls)) md)) t))
               else Inl (KeyError ''pod-template-hash'')
           | _ \<Rightarrow> Inl TypeError)
       | _ \<Rightarrow> Inl TypeError)
   | _ \<Rightarrow> Inl TypeError)"

definition json_replace :: "string \<Rightarrow> pyval \<Rightarrow> pyval" where
  "json_replace at value = PDict [(''op'', PStr ''replace''), (''path'', PStr at), (''value'', value)]"

definition rollback_patch :: "pyval \<Rightarrow> pyval \<Rightarrow> (pyval \<times> string \<times> string) res" where
  "rollback_patch kind previous =
     (if kind = PStr ''Deployment'' then
        bindR (bindR (subscripts previous [''spec'', ''template'']) without_hash) (\<lambda>template.
        bindR (subscripts previous [''metadata'', ''annotations'', REVISION]) (\<lambda>revision.
          Inr (PList [json_replace ''/spec/template'' template, json_replace ''/metadata/annotations'' (PDict [(REVISION, revision)])],
            ''deployments'', ''application/json-patch+json'')))
      else bindR (py_getitem previous ''data'') (\<lambda>data. Inr (data, ''daemonsets'', ''application/strategic-merge-patch+json'')))"

definition patch_path :: "service \<Rightarrow> string \<Rightarrow> string" where
  "patch_path s target = ''/apis/'' @ py_str (param s ''api_version'') @ ''/namespaces/'' @ py_str (param s ''namespace'') @ ''/'' @ target
     @ ''/'' @ py_str (param s ''name'')"

section \<open>The module\<close>

text \<open>\<open>svc.find\<close> with the defaults of its other parameters.\<close>

definition find_now :: "world \<Rightarrow> pyval \<Rightarrow> pyval \<Rightarrow> pyval \<Rightarrow> pyval \<Rightarrow> pyval \<Rightarrow> pyval \<Rightarrow> pyval list io" where
  "find_now W kind api_version name namespace label_selectors field_selectors =
     bindI (svc_find W kind api_version name namespace label_selectors field_selectors False 5 120 ''present'' None PNone)
       (\<lambda>found. liftI (py_iter (dget found ''resources'')))"

definition previous_of :: "world \<Rightarrow> service \<Rightarrow> pyval \<Rightarrow> pyval option io" where
  "previous_of W s resource =
     bindI (liftI (current_revision (param s ''kind'') resource)) (\<lambda>current.
     bindI (liftI (get_managed_resource (param s ''kind''))) (\<lambda>(mkind, mapi).
     bindI (liftI (subscripts resource [''spec'', ''selector'', ''matchLabels''])) (\<lambda>labels.
     bindI (find_now W (PStr mkind) (PStr mapi) (PStr []) (param s ''namespace'') labels (PStr [])) (\<lambda>history.
       liftI (get_previous_revision history current)))))"

definition restore :: "world \<Rightarrow> service \<Rightarrow> pyval \<Rightarrow> pyval \<Rightarrow> dict io" where
  "restore W s resource prev =
     bindI (liftI (rollback_patch (param s ''kind'') prev)) (\<lambda>(body, target, content_type).
     bindI (if s_check_mode s then retI resource
       else bindI (ext W ''PATCH'' [PStr (patch_path s target), body, PStr content_type]) (\<lambda>r.
         bindI (liftI (to_dict r)) (\<lambda>d. retI (PDict d)))) (\<lambda>rollback.
       retI [(''changed'', PBool True), (''method'', PStr ''patch''), (''body'', body), (''resources'', rollback)]))"

definition rollback_action :: "world \<Rightarrow> service \<Rightarrow> pyval \<Rightarrow> dict io" where
  "rollback_action W s resource =
     bindI (previous_of W s resource) (\<lambda>previous. case previous of
        None \<Rightarrow> bindI (liftI (subscripts resource [''metadata'', ''name''])) (\<lambda>name.
          retI [(''changed'', PBool False),
            (''warnings'', PList [PStr (''No rollout history found for resource '' @ py_str (param s ''kind'') @ ''/'' @ py_str name)])])
      | Some prev \<Rightarrow> restore W s resource prev)"

definition rollback_module :: "world \<Rightarrow> service \<Rightarrow> unit io" where
  "rollback_module W s =
     bindI (find_now W (param s ''kind'') (param s ''api_version'') (param s ''name'') (param s ''namespace'')
         (param s ''label_selectors'') (param s ''field_selectors'')) (\<lambda>resources.
     bindI (mapI (rollback_action W s) resources) (\<lambda>results.
       raiseI (ExitJson [(''changed'', PBool (list_ex (\<lambda>r. truthy (dget r ''changed'')) results)),
         (''rollback_info'', PList (map PDict results))])))"

text \<open>\<open>fail_from_exception\<close> also reports the text of the traceback.\<close>

definition rollback_main :: "world \<Rightarrow> service \<Rightarrow> unit io" where
  "rollback_main W s =
     tryI (rollback_module W s) (\<lambda>e. if is_CoreException e then raiseI (FailJson [(''msg'', PStr (exn_text W e))]) else raiseI e)"

section \<open>Check mode\<close>

lemma reads_find_resource [io_rules]: "reads (find_resource W k a b)"
  unfolding find_resource_def by (intro io_rules)

lemma reads_find_each [io_rules]: "reads (find_each W w t sl hf xs)"
  by (induction xs) (auto intro!: io_rules split: waiter.splits)

lemma emits_on_bad_request [io_rules]:
  "(\<And>m. emits P (f m)) \<Longrightarrow> emits P g \<Longrightarrow> emits P (case e of BadRequestError m \<Rightarrow> f m | _ \<Rightarrow> g)"
  by (cases e) simp_all

lemma reads_svc_find [io_rules]: "reads (svc_find W k a n ns ls fs w sl t st c hf)"
  unfolding svc_find_def Let_def
  by (intro io_rules | (rule emits_option emits_pair) | (split sum.split option.split, safe))+

lemma reads_find_now [io_rules]: "reads (find_now W k a n ns ls fs)"
  unfolding find_now_def by (intro io_rules)

lemma check_mode_rollback_action [io_rules]: "s_check_mode s \<Longrightarrow> reads (rollback_action W s r)"
  unfolding rollback_action_def previous_of_def restore_def by (auto intro!: io_rules split: option.splits)

lemma rollback_check_mode_is_safe:
  assumes "s_check_mode s"
  shows "reads (rollback_main W s)"
  unfolding rollback_main_def rollback_module_def using assms by (auto intro!: io_rules)

section \<open>What a rollback restores\<close>

lemma get_previous_revision_Some:
  assumes "get_previous_revision rs current = Inr (Some r)"
  shows "r \<in> set rs \<and> is_previous current r = Inr True"
  using assms by (induction rs) (auto simp: bindR_eq_Inr split: if_splits)

lemma is_previous_True:
  assumes "is_previous current r = Inr True"
  shows "\<exists>kind a n c. py_getitem r ''kind'' = Inr kind \<and> revision_annotation kind = Some a
     \<and> revision_of a r = Inr n \<and> to_int current = Inr c \<and> n = c - 1"
  using assms by (auto simp: is_previous_def bindR_eq_Inr split: option.splits)

lemma without_hash_parts:
  assumes "without_hash template = Inr t"
  obtains d md ls where "template = PDict d" "map_of d ''metadata'' = Some (PDict md)" "map_of md ''labels'' = Some (PDict ls)"
    "t = PDict (AList.update ''metadata'' (PDict (AList.update ''labels'' (PDict (AList.delete ''pod-template-hash'' ls)) md)) d)"
proof -
  from assms obtain d where d: "template = PDict d" by (cases template) (simp_all add: without_hash_def)
  from assms d obtain m where m: "py_getitem (PDict d) ''metadata'' = Inr m" by (auto simp: without_hash_def bindR_eq_Inr)
  from assms d m obtain md where md: "m = PDict md" by (cases m) (simp_all add: without_hash_def)
  from assms d m md obtain l where l: "py_getitem (PDict md) ''labels'' = Inr l" by (auto simp: without_hash_def bindR_eq_Inr)
  from assms d m md l obtain ls where ls: "l = PDict ls" by (cases l) (simp_all add: without_hash_def)
  from assms d m md l ls have
    "t = PDict (AList.update ''metadata'' (PDict (AList.update ''labels'' (PDict (AList.delete ''pod-template-hash'' ls)) md)) d)"
    by (simp add: without_hash_def split: if_splits)
  with d m md l ls show thesis
    by (intro that [of d md ls]) (auto simp: py_getitem_def split: option.splits)
qed

lemma without_hash_hides:
  assumes "without_hash template = Inr t"
  shows "hides [''metadata'', ''labels'', ''pod-template-hash''] template t"
  using assms by (rule without_hash_parts) (auto intro!: hides_inside hides_delete)

text \<open>The request for the history of an object.\<close>

abbreviation history_of :: "world \<Rightarrow> service \<Rightarrow> pyval \<Rightarrow> pyval list io" where
  "history_of W s labels \<equiv>
     find_now W (PStr ''ReplicaSet'') (PStr ''apps/v1'') (PStr []) (param s ''namespace'') labels (PStr [])"

definition rollback_request :: "service \<Rightarrow> pyval \<Rightarrow> pyval \<Rightarrow> event" where
  "rollback_request s template revision = Ext ''PATCH'' [PStr (patch_path s ''deployments''),
     PList [json_replace ''/spec/template'' template, json_replace ''/metadata/annotations'' (PDict [(REVISION, revision)])],
     PStr ''application/json-patch+json'']"

text \<open>What is restored: the template of an object of the revision before, without the label that the
  controller puts there. The revision of the Deployment and of a ReplicaSet is an annotation of the deployment controller;
  a ControllerRevision, which the server has no reason to answer with, would have the one of daemon sets.\<close>

definition revision_before :: "pyval \<Rightarrow> pyval \<Rightarrow> bool" where
  "revision_before resource prev \<longleftrightarrow> (\<exists>now.
     revision_of ''deployment.kubernetes.io/revision'' resource = Inr now
     \<and> (py_getitem prev ''kind'' = Inr (PStr ''ReplicaSet'') \<and> revision_of ''deployment.kubernetes.io/revision'' prev = Inr (now - 1)
        \<or> py_getitem prev ''kind'' = Inr (PStr ''ControllerRevision'')
          \<and> revision_of ''deprecated.daemonset.template.generation'' prev = Inr (now - 1)))"

definition restores :: "pyval \<Rightarrow> pyval \<Rightarrow> pyval \<Rightarrow> pyval \<Rightarrow> bool" where
  "restores resource prev template revision \<longleftrightarrow> revision_before resource prev \<and> (\<exists>old.
     subscripts prev [''spec'', ''template''] = Inr old \<and> hides [''metadata'', ''labels'', ''pod-template-hash''] old template
     \<and> subscripts prev [''metadata'', ''annotations'', ''deployment.kubernetes.io/revision''] = Inr revision)"

lemma rollback_patch_restores:
  assumes "get_previous_revision history current = Inr (Some prev)"
    and "current_revision (PStr ''Deployment'') resource = Inr current"
    and "rollback_patch (PStr ''Deployment'') prev = Inr (body, target, content_type)"
  shows "\<exists>template revision. restores resource prev template revision \<and> prev \<in> set history
    \<and> Ext ''PATCH'' [PStr (patch_path s target), body, PStr content_type] = rollback_request s template revision"
proof -
  from get_previous_revision_Some [OF assms(1)] is_previous_True obtain kind a n c where
    prev: "prev \<in> set history" "py_getitem prev ''kind'' = Inr kind" "revision_annotation kind = Some a"
      "revision_of a prev = Inr n" "to_int current = Inr c" "n = c - 1" by blast
  moreover have "revision_before resource prev"
    using prev(2-6) assms(2)
    by (auto simp: revision_before_def current_revision_def revision_annotation_def revision_of_def REVISION_def split: if_splits)
  moreover from assms(3) obtain old template revision where
    "subscripts prev [''spec'', ''template''] = Inr old" "without_hash old = Inr template"
    "subscripts prev [''metadata'', ''annotations'', REVISION] = Inr revision"
    "body = PList [json_replace ''/spec/template'' template, json_replace ''/metadata/annotations'' (PDict [(REVISION, revision)])]"
    "target = ''deployments''" "content_type = ''application/json-patch+json''"
    by (auto simp: rollback_patch_def bindR_eq_Inr simp del: subscripts.simps)
  ultimately show ?thesis
    using without_hash_hides unfolding restores_def rollback_request_def REVISION_def by blast
qed

lemma reads_events:
  assumes "reads m" and "m h = (r, h')"
  obtains es where "h' = h @ es" "filter mutating es = []"
  using assms unfolding emits_def by (metis (mono_tags, lifting) filter_False list_all_iff snd_conv)

lemma previous_of_found:
  assumes "previous_of W s resource h = (Inr previous, h')" and "param s ''kind'' = PStr ''Deployment''"
  obtains current labels history where "current_revision (PStr ''Deployment'') resource = Inr current"
    "subscripts resource [''spec'', ''selector'', ''matchLabels''] = Inr labels"
    "history_of W s labels h = (Inr history, h')" "get_previous_revision history current = Inr previous"
  using assms by (auto simp: previous_of_def get_managed_resource_def bind_Inr_iff run_simps simp del: subscripts.simps)

lemma restore_sends:
  assumes "restore W s resource prev h = (Inr result, h')"
  obtains body target ct where "rollback_patch (param s ''kind'') prev = Inr (body, target, ct)"
    "h' = h @ (if s_check_mode s then [] else [Ext ''PATCH'' [PStr (patch_path s target), body, PStr ct]])"
  using assms by (auto simp: restore_def bind_Inr_iff run_simps split: if_splits prod.splits)

text \<open>C20: Rolling a Deployment back sends at most one request that changes anything, and none in check mode or
  when no change is reported: it puts back the template of one of the ReplicaSets found, of the revision
  just before the current one, as the annotation of the deployment controller counts them, without the hash of its pods
  and otherwise as it was.\<close>

theorem rollback_restores_previous:
  assumes run: "rollback_action W s resource h = (Inr result, h @ es)"
    and kind: "param s ''kind'' = PStr ''Deployment''"
    and reported: "dget result ''changed'' = PBool True \<or> filter mutating es \<noteq> []"
  shows "\<exists>labels history h' prev template revision.
     subscripts resource [''spec'', ''selector'', ''matchLabels''] = Inr labels
     \<and> history_of W s labels h = (Inr history, h') \<and> prev \<in> set history \<and> restores resource prev template revision
     \<and> filter mutating es = (if s_check_mode s then [] else [rollback_request s template revision])"
proof -
  from run obtain previous h1 where found: "previous_of W s resource h = (Inr previous, h1)"
    by (auto simp: rollback_action_def bind_Inr_iff)
  from found kind obtain current labels history where
    cur: "current_revision (PStr ''Deployment'') resource = Inr current"
    and labels: "subscripts resource [''spec'', ''selector'', ''matchLabels''] = Inr labels"
    and hist: "history_of W s labels h = (Inr history, h1)"
    and prev: "get_previous_revision history current = Inr previous" by (rule previous_of_found)
  from reads_find_now hist obtain es1 where es1: "h1 = h @ es1" "filter mutating es1 = []" by (rule reads_events)
  show ?thesis
  proof (cases previous)
    case None
    with run found es1 have "dget result ''changed'' = PBool False \<and> es = es1"
      by (auto simp: rollback_action_def run_bind run_simps split: sum.splits simp del: subscripts.simps)
    with reported es1 show ?thesis by simp
  next
    case (Some p)
    with run found es1 have "restore W s resource p (h @ es1) = (Inr result, h @ es)"
      by (simp add: rollback_action_def run_bind)
    then obtain body target ct where patch: "rollback_patch (PStr ''Deployment'') p = Inr (body, target, ct)"
      and sent: "h @ es = (h @ es1) @ (if s_check_mode s then [] else [Ext ''PATCH'' [PStr (patch_path s target), body, PStr ct]])"
      unfolding kind [symmetric] by (rule restore_sends)
    from rollback_patch_restores [OF prev [unfolded Some] cur patch, of s] obtain template revision where
      r: "restores resource p template revision" "p \<in> set history"
        "Ext ''PATCH'' [PStr (patch_path s target), body, PStr ct] = rollback_request s template revision" by blast
    from sent r(3) es1 have "filter mutating es = (if s_check_mode s then [] else [rollback_request s template revision])"
      by (simp add: rollback_request_def mutating_def split: if_splits)
    with r labels hist show ?thesis by blast
  qed
qed

section \<open>A rollback to another object\<close>

text \<open>The labels that select the pods are a dictionary, of which joining takes the keys alone: the server is
  asked for every ReplicaSet that has those labels, with whatever values.\<close>

definition shop_history :: pyval where
  "shop_history = PDict [(''kind'', PStr ''ReplicaSet''),
     (''metadata'', PDict [(''name'', PStr ''shop-1''), (''annotations'', PDict [(REVISION, PStr ''1'')])]),
     (''spec'', PDict [(''template'', PDict
       [(''metadata'', PDict [(''labels'', PDict [(''app'', PStr ''shop''), (''pod-template-hash'', PStr ''5d4f'')])])])])]"

definition web_deployment :: pyval where
  "web_deployment = PDict [(''kind'', PStr ''Deployment''),
     (''metadata'', PDict [(''name'', PStr ''web''), (''annotations'', PDict [(REVISION, PStr ''2'')])]),
     (''spec'', PDict [(''selector'', PDict [(''matchLabels'', PDict [(''app'', PStr ''web'')])])])]"

definition shared_cluster :: world where
  "shared_cluster = (sample_world (\<lambda>a b. b) (\<lambda>h v r b k. Inr (PDict [(''kind'', PStr ''ReplicaSetList''),
        (''items'', PList (if dget k ''label_selector'' = PStr ''app'' then [shop_history] else []))])))
     \<lparr>w_ext := \<lambda>h name args. Inr (PDict [])\<rparr>"

definition web_task :: service where
  "web_task = \<lparr>s_params = [(''kind'', PStr ''Deployment''), (''api_version'', PStr ''apps/v1''), (''name'', PStr ''web''),
     (''namespace'', PStr ''default'')], s_check_mode = False, s_diff = False, s_dry_run = False\<rparr>"

abbreviation web_rollback :: "dict res \<times> event list" where
  "web_rollback \<equiv> rollback_action shared_cluster web_task web_deployment []"

lemma joined_keys:
  "ls \<noteq> [] \<Longrightarrow> selector_param ''label_selector'' (PDict ls) = Inr [(''label_selector'', PStr (py_join '','' (map fst ls)))]"
proof -
  assume "ls \<noteq> []"
  moreover have "mapR (\<lambda>x. case x of PStr s \<Rightarrow> Inr s | _ \<Rightarrow> Inl TypeError) (map (PStr \<circ> fst) ls) = Inr (map fst ls)"
    by (induction ls) auto
  ultimately show ?thesis by (simp add: selector_param_def join_list_def py_iter_def)
qed

lemma web_rollback_reports: "\<not> isl (fst web_rollback)" "dget (projr (fst web_rollback)) ''changed'' = PBool True"
  by code_simp+

theorem rolled_back_to_another:
  "filter mutating (snd web_rollback) =
     [rollback_request web_task (PDict [(''metadata'', PDict [(''labels'', PDict [(''app'', PStr ''shop'')])])]) (PStr ''1'')]"
  by code_simp

theorem rollback_restores_previous_witness:
  "\<exists>labels history h' prev template revision.
     subscripts web_deployment [''spec'', ''selector'', ''matchLabels''] = Inr labels
     \<and> history_of shared_cluster web_task labels [] = (Inr history, h') \<and> prev \<in> set history
     \<and> restores web_deployment prev template revision
     \<and> filter mutating (snd web_rollback) = [rollback_request web_task template revision]"
proof -
  have run: "web_rollback = (Inr (projr (fst web_rollback)), [] @ snd web_rollback)"
    using web_rollback_reports(1) by (metis append_Nil prod.collapse sum.collapse(2))
  from rollback_restores_previous [OF run] web_rollback_reports(2)
  show ?thesis by (simp add: web_task_def param_def)
qed

end
