(* ===== verification/K8sJsonPatch.thy ===== *)
theory K8sJsonPatch
  imports K8sRunner
begin

text \<open>
  The module \<open>k8s_json_patch\<close>. The package \<open>jsonpatch\<close>, when it is installed, is a function on
  the object and the patch; what an exception of the API says of itself is the record
  \<open>api_errors\<close>.
\<close>

datatype patch_outcome = Patched dict | InvalidJsonPatch string | JsonPatchConflict string | Raises exn

type_synonym patch_package = "(dict \<Rightarrow> pyval \<Rightarrow> patch_outcome) option"

record api_errors =
  ae_is :: "exn \<Rightarrow> bool"
  ae_body :: "exn \<Rightarrow> string"
  ae_status :: "exn \<Rightarrow> pyval"
  ae_reason :: "exn \<Rightarrow> pyval"

text \<open>The patched object, or what is reported instead.\<close>

definition json_patch :: "world \<Rightarrow> patch_package \<Rightarrow> dict \<Rightarrow> pyval \<Rightarrow> (dict + dict) res" where
  "json_patch W package existing patch = (case package of
     None \<Rightarrow> Inr (Inl [(''msg'', PStr (w_missing_required_lib W ''jsonpatch'' None))])
   | Some apply \<Rightarrow> (case apply existing patch of
       Patched d \<Rightarrow> Inr (Inr d)
     | InvalidJsonPatch e \<Rightarrow> Inr (Inl [(''msg'', PStr ''Invalid JSON patch''), (''exception'', PStr e)])
     | JsonPatchConflict e \<Rightarrow> Inr (Inl [(''msg'', PStr ''Patch could not be applied due to a conflict''), (''exception'', PStr e)])
     | Raises e \<Rightarrow> Inl e))"

definition failed_with :: "string \<Rightarrow> pyval \<Rightarrow> pyval \<Rightarrow> pyval \<Rightarrow> exn" where
  "failed_with msg error status reason =
     FailJson [(''msg'', PStr msg), (''error'', error), (''status'', status), (''reason'', reason)]"

definition existing_object :: "world \<Rightarrow> api_errors \<Rightarrow> service \<Rightarrow> resource \<Rightarrow> pyval io" where
  "existing_object W A s resource =
     (let build = (\<lambda>msg. py_str (param s ''kind'') @ '' '' @ py_str (param s ''name'') @ '': Failed to retrieve requested object: '' @ msg) in
      tryI (client_get W resource [(''name'', param s ''name''), (''namespace'', param s ''namespace'')])
        (\<lambda>e. if ae_is A e then raiseI (failed_with (build (ae_body A e)) (ae_status A e) (ae_status A e) (ae_reason A e))
           else case e of ValueError m \<Rightarrow> raiseI (failed_with (build m) (PStr []) (PStr []) (PStr []))
             | _ \<Rightarrow> raiseI e))"

definition send_patch :: "world \<Rightarrow> api_errors \<Rightarrow> service \<Rightarrow> resource \<Rightarrow> dict io" where
  "send_patch W A s resource =
     (let params = [(''name'', param s ''name''), (''namespace'', param s ''namespace''),
            (''content_type'', PStr ''application/json-patch+json'')]
          @ (if s_check_mode s then [(''dry_run'', PStr ''All'')] else []) in
      tryI (bindI (call W Patch resource (param s ''patch'') (ensure_dry_run (s_dry_run s) params)) (\<lambda>r. liftI (to_dict r)))
        (\<lambda>e. if ae_is A e then
             raiseI (failed_with (''Failed to patch existing object: '' @ ae_body A e) (ae_status A e) (ae_status A e) (ae_reason A e))
           else if is_Exception e then
             raiseI (failed_with (''Failed to patch existing object: '' @ exn_text W e) (PStr (exn_text W e)) (PStr []) (PStr []))
           else raiseI e))"

text \<open>The object as it is to be: foretold when the server cannot be asked, and otherwise as it answers.\<close>

definition patched_object :: "world \<Rightarrow> api_errors \<Rightarrow> patch_package \<Rightarrow> service \<Rightarrow> resource \<Rightarrow> dict \<Rightarrow> dict io" where
  "patched_object W A package s resource existing =
     (if client_side_dry_run s then
        bindI (liftI (json_patch W package existing (param s ''patch''))) (\<lambda>r. case r of
          Inl error \<Rightarrow> raiseI (FailJson error) | Inr obj \<Rightarrow> retI obj)
      else send_patch W A s resource)"

definition given_condition :: "service \<Rightarrow> dict option res" where
  "given_condition s =
     (if truthy (param s ''wait_condition'') then
        bindR (py_get (param s ''wait_condition'') ''type'' PNone) (\<lambda>t.
          if truthy t then bindR (py_items (param s ''wait_condition'')) (\<lambda>c. Inr (Some c)) else Inr None)
      else Inr None)"

definition wait_for_patch :: "world \<Rightarrow> service \<Rightarrow> resource \<Rightarrow> dict option \<Rightarrow> dict \<Rightarrow> (bool \<times> dict) io" where
  "wait_for_patch W s resource condition obj =
     (if truthy (param s ''wait'') \<and> \<not> s_check_mode s then
        (case get_waiter W resource ''present'' condition False of
           DummyWaiter \<Rightarrow> raiseI TypeError
         | Waiter r predicate \<Rightarrow>
             bindI (liftI (as_int (param s ''wait_timeout''))) (\<lambda>timeout.
             bindI (liftI (as_int (param s ''wait_sleep''))) (\<lambda>sleep.
             bindI (waiter_wait W r predicate timeout sleep (param s ''name'') (param s ''namespace'') PNone PNone) (\<lambda>(success, res, duration).
               retI (success, [(''result'', PDict res), (''duration'', PInt duration)])))))
      else retI (True, [(''result'', PDict obj)]))"

definition patch_module :: "world \<Rightarrow> api_errors \<Rightarrow> patch_package \<Rightarrow> service \<Rightarrow> unit io" where
  "patch_module W A package s =
     bindI (liftI (given_condition s)) (\<lambda>condition.
     bindI (client_resource W (param s ''kind'') (param s ''api_version'')) (\<lambda>resource.
     bindI (existing_object W A s resource) (\<lambda>existing.
     bindI (liftI (to_dict existing)) (\<lambda>before.
     bindI (patched_object W A package s resource before) (\<lambda>obj.
     bindI (wait_for_patch W s resource condition obj) (\<lambda>(success, waited).
     bindI (liftI (diff_objects before obj PNone)) (\<lambda>(m, diffs).
       let result = waited @ [(''changed'', PBool (\<not> m))] @ (if s_diff s then [(''diff'', PDict diffs)] else []) in
       if \<not> success then raiseI (FailJson ((''msg'', PStr ''Resource update timed out'') # result))
       else raiseI (ExitJson result))))))))"

definition patch_main :: "world \<Rightarrow> api_errors \<Rightarrow> patch_package \<Rightarrow> service \<Rightarrow> unit io" where
  "patch_main W A package s =
     tryI (patch_module W A package s) (\<lambda>e. if is_CoreException e then raiseI (FailJson [(''msg'', PStr (exn_text W e))]) else raiseI e)"

section \<open>Check mode\<close>

lemma emits_on_value_error [io_rules]:
  "(\<And>m. emits P (f m)) \<Longrightarrow> emits P g \<Longrightarrow> emits P (case e of ValueError m \<Rightarrow> f m | _ \<Rightarrow> g)"
  by (cases e) simp_all

lemma reads_existing_object [io_rules]: "reads (existing_object W A s r)"
  unfolding existing_object_def Let_def by (intro io_rules)

lemma dget_ensure: "map_of params ''dry_run'' = Some (PStr ''All'')
    \<Longrightarrow> map_of (ensure_dry_run d params) ''dry_run'' = Some (PStr K8S_SERVER_DRY_RUN)"
  by (simp add: ensure_dry_run_def map_of_update K8S_SERVER_DRY_RUN_def)

lemma check_mode_send_patch: "s_check_mode s \<Longrightarrow> emits harmless (send_patch W A s r)"
  unfolding send_patch_def Let_def
  by (intro io_rules emits_call) (simp add: harmless_def dget_ensure)

lemma reads_wait_for_patch [io_rules]: "reads (wait_for_patch W s r c obj)"
  unfolding wait_for_patch_def by (intro io_rules | (rule emits_pair) | (split waiter.split, safe))+

text \<open>In check mode the module sends nothing that the server would act upon, whether the client can ask for a
  dry run or not.\<close>

theorem json_patch_check_mode_is_safe:
  assumes "s_check_mode s"
  shows "emits harmless (patch_main W A package s)"
  unfolding patch_main_def patch_module_def patched_object_def Let_def
  using assms check_mode_send_patch
  by (intro io_rules reads_harmless [OF reads_existing_object] reads_harmless [OF reads_wait_for_patch] emits_pair
      | (split sum.split, safe) | blast)+

theorem json_patch_check_mode_is_safe_witness:
  "emits harmless (patch_main (sample_world (\<lambda>a b. b) (\<lambda>h v r b k. Inl NotFoundError))
     \<lparr>ae_is = \<lambda>e. e = NotFoundError, ae_body = \<lambda>e. ''not found'', ae_status = \<lambda>e. PInt 404, ae_reason = \<lambda>e. PStr ''Not Found''\<rparr> None
     \<lparr>s_params = [(''kind'', PStr ''Pod''), (''name'', PStr ''web'')], s_check_mode = True, s_diff = False, s_dry_run = True\<rparr>)"
  by (intro json_patch_check_mode_is_safe) simp

section \<open>Foretelling a patch\<close>

definition in_mode :: "bool \<Rightarrow> service \<Rightarrow> service" where
  "in_mode check s = s\<lparr>s_check_mode := check\<rparr>"

lemma in_mode_sel [simp]:
  "param (in_mode c s) k = param s k" "s_check_mode (in_mode c s) = c" "s_diff (in_mode c s) = s_diff s"
  "s_dry_run (in_mode c s) = s_dry_run s"
  by (simp_all add: in_mode_def param_def)

lemma in_mode_same [simp]:
  "given_condition (in_mode c s) = given_condition s" "existing_object W A (in_mode c s) r = existing_object W A s r"
  by (simp_all add: given_condition_def existing_object_def cong: if_cong)

lemma existing_object_value:
  assumes "\<And>h r k. w_server W h Get r PNone k = Inr (PDict before)"
  shows "existing_object W A s r h = (Inr (PDict before), h @ [Call Get r PNone [(''name'', param s ''name''), (''namespace'', param s ''namespace'')]])"
  by (simp add: existing_object_def Let_def tryI_def client_get_def run_simps assms)

lemma patched_object_value:
  assumes "apply before (param s ''patch'') = Patched after" and "\<not> s_dry_run s"
    and "\<And>h r k. w_server W h Patch r (param s ''patch'') k = Inr (PDict after)"
  shows "fst (patched_object W A (Some apply) (in_mode check s) r before h) = Inr after"
  using assms
  by (cases check) (simp_all add: patched_object_def client_side_dry_run_def json_patch_def send_patch_def Let_def tryI_def
    run_bind run_simps to_dict_def)

text \<open>C22: Without a server that can be asked for a dry run, check mode says what a run would say: against a server that
  patches as the package does and answers with the object, the same task, when it does not wait, ends with
  the same result in check mode and outside it.\<close>

theorem patch_foretold:
  assumes package: "apply before (param s ''patch'') = Patched after"
    and server: "\<And>h r k. w_server W h Get r PNone k = Inr (PDict before)"
      "\<And>h r k. w_server W h Patch r (param s ''patch'') k = Inr (PDict after)"
    and task: "\<not> s_dry_run s" "\<not> truthy (param s ''wait'')"
  shows "fst (patch_main W A (Some apply) (in_mode True s) h) = fst (patch_main W A (Some apply) (in_mode False s) h)"
proof -
  have same: "fst (patch_module W A (Some apply) (in_mode True s) h) = fst (patch_module W A (Some apply) (in_mode False s) h)"
  proof (cases "given_condition s")
    case (Inr condition)
    obtain r h1 where find: "client_resource W (param s ''kind'') (param s ''api_version'') h = (r, h1)" by fastforce
    have tail: "\<exists>h'. patched_object W A (Some apply) (in_mode check s) rs before h0 = (Inr after, h')" for check rs h0
    proof -
      have "fst (patched_object W A (Some apply) (in_mode check s) rs before h0) = Inr after"
        by (rule patched_object_value [where after = after]) (use package task(1) server(2) in simp_all)
      then show ?thesis by (metis prod.collapse)
    qed
    show ?thesis
    proof (cases r)
      case (Inr rs)
      let ?h = "h1 @ [Call Get rs PNone [(''name'', param s ''name''), (''namespace'', param s ''namespace'')]]"
      from tail [of True rs ?h] tail [of False rs ?h] obtain a b where
        "patched_object W A (Some apply) (in_mode True s) rs before ?h = (Inr after, a)"
        "patched_object W A (Some apply) (in_mode False s) rs before ?h = (Inr after, b)" by blast
      then show ?thesis
        using Inr \<open>given_condition s = Inr condition\<close> find task(2)
        by (simp add: patch_module_def run_bind run_simps existing_object_value [OF server(1)] to_dict_def wait_for_patch_def
            Let_def split: sum.split prod.split)
    qed (use find Inr in \<open>simp add: patch_module_def run_bind run_simps\<close>)
  qed (simp add: patch_module_def run_bind run_simps)
  then show ?thesis
    unfolding patch_main_def run_try by (auto simp: run_simps split: prod.splits sum.splits)
qed

theorem patch_foretold_witness:
  "\<exists>W s. (\<forall>h r k. w_server W h Patch r (param s ''patch'') k = Inr (PDict [(''kind'', PStr ''Pod''), (''x'', PInt 2)]))
     \<and> fst (patch_main W \<lparr>ae_is = \<lambda>e. False, ae_body = \<lambda>e. [], ae_status = \<lambda>e. PNone, ae_reason = \<lambda>e. PNone\<rparr>
           (Some (\<lambda>d p. Patched (AList.update ''x'' (PInt 2) d))) (in_mode True s) [])
       = fst (patch_main W \<lparr>ae_is = \<lambda>e. False, ae_body = \<lambda>e. [], ae_status = \<lambda>e. PNone, ae_reason = \<lambda>e. PNone\<rparr>
           (Some (\<lambda>d p. Patched (AList.update ''x'' (PInt 2) d))) (in_mode False s) [])"
proof -
  let ?W = "sample_world (\<lambda>a b. b) (\<lambda>h v r b k. Inr (PDict (if v = Get then [(''kind'', PStr ''Pod''), (''x'', PInt 1)]
     else [(''kind'', PStr ''Pod''), (''x'', PInt 2)])))"
  let ?s = "\<lparr>s_params = [(''kind'', PStr ''Pod''), (''name'', PStr ''web''), (''patch'', PList [PDict [(''op'', PStr ''replace''),
     (''path'', PStr ''/x''), (''value'', PInt 2)]])], s_check_mode = False, s_diff = False, s_dry_run = False\<rparr>"
  show ?thesis
    by (intro exI [of _ ?W] exI [of _ ?s] conjI
      patch_foretold [where before = "[(''kind'', PStr ''Pod''), (''x'', PInt 1)]" and after = "[(''kind'', PStr ''Pod''), (''x'', PInt 2)]"])
      (simp_all add: param_def dget_def)
qed

end
