(* ===== verification/K8sLog.thy ===== *)
theory K8sLog
  imports K8sRollback K8sJsonPatch PyJson
begin

text \<open>
  The module \<open>k8s_log\<close>: which pod's log is asked for, from the name, the selectors of the task
  or those of the object, and with which query. \<open>has_log\<close> and \<open>log_base\<close> say of a resource
  whether it has the subresource \<open>log\<close> and whether that has a URL without a name; a log is
  the event \<open>Ext "log.get"\<close>, whose answer is the decoded text.
\<close>

section \<open>Messages\<close>

definition get_exception_message :: "world \<Rightarrow> api_errors \<Rightarrow> exn \<Rightarrow> string" where
  "get_exception_message W A e =
     (case if ae_is A e then bindR (loads (ae_body A e)) (\<lambda>d. py_getitem d ''message'') else Inl AttributeError of
        Inr m \<Rightarrow> py_str m | Inl _ \<Rightarrow> exn_text W e)"

definition unable :: "world \<Rightarrow> api_errors \<Rightarrow> exn \<Rightarrow> exn" where
  "unable W A e = CoreException (''Unable to retrieve log from Pod due to: '' @ get_exception_message W A e)"

definition list_containers_in_pod :: "world \<Rightarrow> api_errors \<Rightarrow> resource \<Rightarrow> pyval \<Rightarrow> pyval \<Rightarrow> pyval list io" where
  "list_containers_in_pod W A resource namespace name =
     tryI (bindI (client_get W resource [(''name'', name), (''namespace'', namespace)]) (\<lambda>result.
         liftI (bindR (to_dict result) (\<lambda>d. bindR (subscripts (PDict d) [''status'', ''containerStatuses'']) (\<lambda>cs.
           bindR (py_iter cs) (mapR (\<lambda>c. py_getitem c ''name'')))))))
       (\<lambda>e. if is_Exception e then raiseI (unable W A e) else raiseI e)"

section \<open>Selectors of an object\<close>

definition string_of :: "pyval \<Rightarrow> string res" where
  "string_of v = (case v of PStr s \<Rightarrow> Inr s | _ \<Rightarrow> Inl TypeError)"

definition label_selector :: "string \<times> pyval \<Rightarrow> string" where
  "label_selector = (\<lambda>(k, v). k @ ''='' @ py_str v)"

definition expression_selector :: "world \<Rightarrow> pyval \<Rightarrow> string res" where
  "expression_selector W expression =
     bindR (w_field W expression ''operator'') (\<lambda>operator.
     if operator = PStr ''Exists'' then bindR (w_field W expression ''key'') string_of
     else if operator = PStr ''DoesNotExist'' then bindR (w_field W expression ''key'') (\<lambda>key. Inr (CHR ''!'' # py_str key))
     else if operator = PStr ''In'' \<or> operator = PStr ''NotIn'' then
       bindR (w_field W expression ''key'') (\<lambda>key.
       bindR (bindR (bindR (w_field W expression ''values'') py_iter) (mapR string_of)) (\<lambda>values.
         Inr (py_str key @ '' '' @ py_lower (py_str operator) @ '' ('' @ py_join '', '' values @ '')'')))
     else (case operator of
         PStr op \<Rightarrow> Inl (CoreException (''The k8s_log module does not support the '' @ py_lower op @ '' matchExpression operator''))
       | _ \<Rightarrow> Inl AttributeError))"

text \<open>The message for an object without a selector calls \<open>join\<close> with two arguments, which raises.\<close>

definition extract_selectors :: "world \<Rightarrow> pyval \<Rightarrow> string list res" where
  "extract_selectors W instance' =
     bindR (read_path W instance' [''spec'', ''selector'']) (\<lambda>selector.
     if \<not> obj_truthy selector then
       bindR (w_field W instance' ''group'') (\<lambda>_. bindR (w_field W instance' ''apiVersion'') (\<lambda>_. Inl TypeError))
     else bindR (w_field W selector ''matchLabels'') (\<lambda>labels.
       bindR (w_field W selector ''matchExpressions'') (\<lambda>expressions.
       if \<not> obj_truthy labels \<and> \<not> obj_truthy expressions then
         bindR (py_items selector) (\<lambda>d. Inr (map label_selector d))
       else bindR (if obj_truthy labels then bindR (py_items labels) (\<lambda>d. Inr (map label_selector d)) else Inr []) (\<lambda>a.
         bindR (if obj_truthy expressions then bindR (py_iter expressions) (mapR (expression_selector W)) else Inr []) (\<lambda>b.
           Inr (a @ b))))))"

section \<open>The module\<close>

text \<open>The selector to use and the resource it is used on, from the task or from the object.\<close>

definition log_selector :: "world \<Rightarrow> (resource \<Rightarrow> bool) \<Rightarrow> resource \<Rightarrow> resource \<Rightarrow> pyval \<Rightarrow> pyval \<Rightarrow> string \<Rightarrow> (resource \<times> string) io" where
  "log_selector W has_log resource v1_pods name namespace selector =
     (if has_log resource then retI (resource, selector)
      else if \<not> truthy name then
        raiseI (CoreException ''name must be provided for resources that do not support the log subresource'')
      else bindI (client_get W resource [(''name'', name), (''namespace'', namespace)]) (\<lambda>instance'.
        bindI (liftI (extract_selectors W instance')) (\<lambda>sels. retI (v1_pods, py_join '','' sels))))"

text \<open>The first pod the selector finds.\<close>

definition log_pod :: "world \<Rightarrow> resource \<Rightarrow> resource \<Rightarrow> pyval \<Rightarrow> pyval \<Rightarrow> string \<Rightarrow> (resource \<times> pyval) io" where
  "log_pod W resource v1_pods name namespace selector =
     (if selector = [] then retI (resource, name)
      else bindI (client_get W v1_pods [(''namespace'', namespace), (''label_selector'', PStr selector)]) (\<lambda>instances.
        bindI (liftI (w_field W instances ''items'')) (\<lambda>items.
        if \<not> truthy items then
          raiseI (CoreException (''No pods in namespace '' @ py_str namespace @ '' matched selector '' @ selector))
        else bindI (liftI (bindR (py_iter items) (\<lambda>xs. read_path W (hd xs) [''metadata'', ''name'']))) (\<lambda>n. retI (v1_pods, n)))))"

definition log_query :: "dict \<Rightarrow> dict" where
  "log_query params = concat (map (\<lambda>(option, key). if truthy (dget params option) then [(key, dget params option)] else [])
     [(''container'', ''container''), (''since_seconds'', ''sinceSeconds''), (''previous'', ''previous''), (''tail_lines'', ''tailLines'')])"

fun fetch_logs :: "world \<Rightarrow> resource \<Rightarrow> pyval \<Rightarrow> pyval \<Rightarrow> dict \<Rightarrow> pyval list \<Rightarrow> string io" where
  "fetch_logs W resource name namespace query [] = retI []"
| "fetch_logs W resource name namespace query (c # cs) =
     (let query' = (if c \<noteq> PNone then AList.update ''container'' c query else query) in
      bindI (ext W ''log.get'' [PStr (res_kind resource), name, namespace, PDict query']) (\<lambda>response.
      bindI (liftI (string_of response)) (\<lambda>log.
      bindI (fetch_logs W resource name namespace query' cs) (\<lambda>rest. retI (log @ rest)))))"

definition log_module :: "world \<Rightarrow> api_errors \<Rightarrow> (resource \<Rightarrow> bool) \<Rightarrow> (resource \<Rightarrow> bool) \<Rightarrow> dict \<Rightarrow> dict io" where
  "log_module W A has_log log_base params =
     (let name = dget params ''name''; namespace = dget params ''namespace'' in
      bindI (liftI (if has_key params ''label_selectors'' then join_list (dget params ''label_selectors'') else Inr [])) (\<lambda>selector.
      if truthy name \<and> selector \<noteq> [] then raiseI (CoreException ''Only one of name or label_selectors can be provided'')
      else bindI (find_resource W (dget params ''kind'') (dget params ''api_version'') True) (\<lambda>found.
        bindI (find_resource W (PStr ''Pod'') (PStr ''v1'') True) (\<lambda>pods.
        case (found, pods) of
          (Some resource, Some v1_pods) \<Rightarrow>
            bindI (log_selector W has_log resource v1_pods name namespace selector) (\<lambda>(resource1, selector1).
            bindI (log_pod W resource1 v1_pods name namespace selector1) (\<lambda>(resource2, pod).
            if \<not> log_base resource2 \<and> \<not> truthy pod then
              raiseI (CoreException ''name must be provided for resources that do not support namespaced base url'')
            else
              bindI (if truthy (dget params ''all_containers'') then list_containers_in_pod W A resource2 namespace pod
                else retI [PNone]) (\<lambda>containers.
              bindI (tryI (fetch_logs W resource2 pod namespace (log_query params) containers)
                  (\<lambda>e. if \<not> ae_is A e then raiseI e
                     else if ae_reason A e = PStr ''Not Found'' then
                       raiseI (CoreException (''Pod '' @ py_str namespace @ ''/'' @ py_str pod @ '' not found.''))
                     else raiseI (unable W A e))) (\<lambda>log.
                retI [(''changed'', PBool False), (''log'', PStr log),
                  (''log_lines'', PList (map PStr (split_on (CHR 0x0A) log)))]))))
        | _ \<Rightarrow> raiseI AssertionError))))"

definition log_main :: "world \<Rightarrow> api_errors \<Rightarrow> (resource \<Rightarrow> bool) \<Rightarrow> (resource \<Rightarrow> bool) \<Rightarrow> dict \<Rightarrow> unit io" where
  "log_main W A has_log log_base params =
     tryI (bindI (log_module W A has_log log_base params) (\<lambda>result. raiseI (ExitJson result)))
       (\<lambda>e. if is_CoreException e then raiseI (FailJson [(''msg'', PStr (exn_text W e))]) else raiseI e)"

text \<open>In an extracted requirement the values are separated by a comma and a blank.\<close>

lemma join_comma_blank: "vs \<noteq> [] \<Longrightarrow> py_join '', '' vs = py_join '','' (hd vs # map ((#) (CHR '' '')) (tl vs))"
proof (induction "'', ''" vs rule: py_join.induct)
  case (3 x y zs)
  then show ?case by (cases zs) auto
qed auto

section \<open>How the API server reads a selector\<close>

text \<open>The query parameter \<open>labelSelector\<close>, as the documentation of Kubernetes gives its syntax: requirements
  separated by commas outside parentheses, each an equality (\<open>=\<close>, \<open>==\<close>, \<open>!=\<close>), a set (\<open>in\<close>, \<open>notin\<close>) or a key
  alone, with \<open>!\<close> for its absence.\<close>

fun split_top :: "nat \<Rightarrow> string \<Rightarrow> string list" where
  "split_top d [] = [[]]"
| "split_top d (c # s) =
     (if c = CHR '','' \<and> d = 0 then [] # split_top d s
      else let r = split_top (if c = CHR ''('' then d + 1 else if c = CHR '')'' then d - 1 else d) s in (c # hd r) # tl r)"

definition trim :: "string \<Rightarrow> string" where
  "trim s = lstrip_by is_blank (rstrip_by is_blank s)"

definition read_values :: "string \<Rightarrow> string list option" where
  "read_values s = (if s \<noteq> [] \<and> hd s = CHR ''('' \<and> last s = CHR '')'' then Some (map trim (split_on (CHR '','') (butlast (tl s)))) else None)"

definition read_requirement :: "string \<Rightarrow> requirement option" where
  "read_requirement text =
     (let s = trim text; k = takeWhile label_char s; r = dropWhile is_blank (dropWhile label_char s) in
      if starts_with s ''!'' then Some (NotExists (trim (tl s)))
      else if r = [] then Some (Exists k)
      else if starts_with r ''=='' then Some (Eq k (trim (drop 2 r)))
      else if starts_with r ''='' then Some (Eq k (trim (drop 1 r)))
      else if starts_with r ''!='' then Some (Neq k (trim (drop 2 r)))
      else if starts_with r ''notin'' then map_option (NotIn k) (read_values (trim (drop 5 r)))
      else if starts_with r ''in'' then map_option (In k) (read_values (trim (drop 2 r)))
      else None)"

definition read_selector :: "string \<Rightarrow> requirement list option" where
  "read_selector s = (if s = [] then Some [] else those (map read_requirement (split_top 0 s)))"

lemma split_top_nonempty: "split_top d s \<noteq> []"
  by (cases s) (auto simp: Let_def)

lemma split_top_plain:
  assumes "CHR ''('' \<notin> set w" "CHR '')'' \<notin> set w" "d = 0 \<Longrightarrow> CHR '','' \<notin> set w"
  shows "split_top d (w @ r) = (w @ hd (split_top d r)) # tl (split_top d r)"
  using assms by (induction w) (auto simp: Let_def split_top_nonempty)

text \<open>A text that stays in one piece.\<close>

definition piece :: "string \<Rightarrow> bool" where
  "piece w \<longleftrightarrow> (\<forall>r. split_top 0 (w @ r) = (w @ hd (split_top 0 r)) # tl (split_top 0 r))"

lemma pieceD: "piece w \<Longrightarrow> split_top 0 (w @ r) = (w @ hd (split_top 0 r)) # tl (split_top 0 r)"
  by (simp add: piece_def)

lemma piece_plain: "CHR ''('' \<notin> set w \<Longrightarrow> CHR '')'' \<notin> set w \<Longrightarrow> CHR '','' \<notin> set w \<Longrightarrow> piece w"
  by (simp add: piece_def split_top_plain)

lemma piece_set:
  assumes "CHR ''('' \<notin> set w" "CHR '')'' \<notin> set w" "CHR '','' \<notin> set w" "CHR ''('' \<notin> set v" "CHR '')'' \<notin> set v"
  shows "piece (w @ ''('' @ v @ '')'')"
  unfolding piece_def using assms by (simp add: split_top_plain Let_def)

lemma split_joined:
  "ws \<noteq> [] \<Longrightarrow> list_all piece ws \<Longrightarrow> split_top 0 (py_join '','' ws) = ws"
proof (induction "'',''" ws rule: py_join.induct)
  case (2 w)
  then show ?case using pieceD [of w "[]"] by simp
next
  case (3 w v ws)
  then show ?case using pieceD [of w "'','' @ py_join '','' (v # ws)"] by simp
qed simp

lemma trim_id: "s = [] \<or> \<not> is_blank (hd s) \<and> \<not> is_blank (last s) \<Longrightarrow> trim s = s"
proof -
  assume "s = [] \<or> \<not> is_blank (hd s) \<and> \<not> is_blank (last s)"
  moreover have "dropWhile is_blank (rev s) = rev s" if "\<not> is_blank (last s)"
    using that by (cases s rule: rev_cases) auto
  moreover have "dropWhile is_blank s = s" if "\<not> is_blank (hd s)" using that by (cases s) auto
  ultimately show ?thesis by (auto simp: trim_def lstrip_by_def rstrip_by_def)
qed

lemma trim_blank: "trim (CHR '' '' # s) = trim s"
proof (cases "\<forall>c \<in> set s. is_blank c")
  case True
  then have "dropWhile is_blank (rev s) = []" "dropWhile is_blank (rev s @ '' '') = []" by auto
  then show ?thesis by (simp add: trim_def lstrip_by_def rstrip_by_def del: dropWhile_eq_Nil_conv)
next
  case False
  then have "dropWhile is_blank (rev s @ '' '') = dropWhile is_blank (rev s) @ '' ''" by (auto simp: dropWhile_append)
  then show ?thesis by (simp add: trim_def lstrip_by_def rstrip_by_def)
qed

lemma trim_value:
  assumes "valid_value v"
  shows "trim v = v"
proof -
  have "hd v \<in> set v" "last v \<in> set v" using valid_value_parts(1) [OF assms] by simp_all
  with valid_value_parts(2) [OF assms] show ?thesis by (intro trim_id) auto
qed

lemma read_values_joined:
  assumes "list_all valid_value vs" "vs \<noteq> []"
  shows "read_values (''('' @ py_join '', '' vs @ '')'') = Some vs"
proof -
  let ?ws = "hd vs # map ((#) (CHR '' '')) (tl vs)"
  have "w \<in> set ?ws \<Longrightarrow> CHR '','' \<notin> set w" for w
    using assms valid_value_parts(3) by (cases vs) (auto simp: list_all_iff)
  then have "split_on (CHR '','') (py_join '', '' vs) = ?ws"
    unfolding join_comma_blank [OF assms(2)] by (intro split_on_join) auto
  moreover have "map trim ?ws = vs"
    using assms trim_value by (cases vs) (auto simp: list_all_iff trim_blank map_idI)
  ultimately show ?thesis by (simp add: read_values_def butlast_append)
qed

lemma key_read:
  assumes "label_key k" and "r = [] \<or> \<not> label_char (hd r)"
  shows "takeWhile label_char (k @ r) = k" "dropWhile label_char (k @ r) = r" "\<not> starts_with (k @ r) ''!''"
  using label_key_parts(1,2,5) [OF assms(1)] assms(2)
  by (cases r; cases k; auto simp: takeWhile_append dropWhile_append)+

lemma label_char_literals [simp]:
  "\<not> label_char (CHR '' '')" "\<not> label_char (CHR ''='')" "\<not> label_char (CHR ''!'')"
  by (simp_all add: label_char_def)

lemma trim_text: "label_key k \<Longrightarrow> r = [] \<or> \<not> is_blank (last r) \<Longrightarrow> trim (k @ r) = k @ r"
  using label_key_parts(1,3,4) [of k] by (intro trim_id) (auto simp: hd_append last_append)

lemma read_set:
  assumes "label_key k" "list_all valid_value vs" "vs \<noteq> []"
  shows "read_requirement (k @ '' in ('' @ py_join '', '' vs @ '')'') = Some (In k vs)"
    and "read_requirement (k @ '' notin ('' @ py_join '', '' vs @ '')'') = Some (NotIn k vs)"
proof -
  have trimmed: "trim (k @ '' in ('' @ py_join '', '' vs @ '')'') = k @ '' in ('' @ py_join '', '' vs @ '')''"
    "trim (k @ '' notin ('' @ py_join '', '' vs @ '')'') = k @ '' notin ('' @ py_join '', '' vs @ '')''"
    by (rule trim_text [OF assms(1)], simp)+
  have vals: "trim ('' ('' @ py_join '', '' vs @ '')'') = ''('' @ py_join '', '' vs @ '')''"
    by (simp add: trim_blank trim_id)
  show "read_requirement (k @ '' in ('' @ py_join '', '' vs @ '')'') = Some (In k vs)"
    using key_read [OF assms(1), of "'' in ('' @ py_join '', '' vs @ '')''"] vals read_values_joined [OF assms(2,3)]
    unfolding read_requirement_def Let_def trimmed by simp
  show "read_requirement (k @ '' notin ('' @ py_join '', '' vs @ '')'') = Some (NotIn k vs)"
    using key_read [OF assms(1), of "'' notin ('' @ py_join '', '' vs @ '')''"] vals read_values_joined [OF assms(2,3)]
    unfolding read_requirement_def Let_def trimmed by simp
qed

lemma read_equality:
  assumes "label_key k" "valid_value v"
  shows "read_requirement (k @ ''='' @ v) = Some (Eq k v)"
proof -
  note v = valid_value_parts [OF assms(2)]
  have last: "\<not> is_blank (last (''='' @ v))" using v(1,2) by (cases v rule: rev_cases) auto
  have trimmed: "trim (k @ ''='' @ v) = k @ ''='' @ v" by (rule trim_text [OF assms(1)]) (use last in blast)
  have "\<not> starts_with v ''=''" using v(1,5) by (cases v) auto
  then show ?thesis
    using key_read [OF assms(1), of "''='' @ v"] trim_value [OF assms(2)]
    unfolding read_requirement_def Let_def trimmed by simp
qed

lemma read_key:
  assumes "label_key k"
  shows "read_requirement k = Some (Exists k)" "read_requirement (CHR ''!'' # k) = Some (NotExists k)"
proof -
  note k = label_key_parts(1,3,4) [OF assms]
  have trimmed: "trim k = k" "trim (CHR ''!'' # k) = CHR ''!'' # k" using k by (auto intro!: trim_id)
  show "read_requirement k = Some (Exists k)"
    using key_read [OF assms, of "[]"] trimmed by (simp add: read_requirement_def Let_def del: dropWhile_eq_Nil_conv)
  show "read_requirement (CHR ''!'' # k) = Some (NotExists k)"
    using trimmed by (simp add: read_requirement_def)
qed

section \<open>What the extracted selectors select\<close>

text \<open>The expressions of an object, as the requirements they stand for.\<close>

fun expression :: "requirement \<Rightarrow> pyval" where
  "expression (In k vs) = PDict [(''key'', PStr k), (''operator'', PStr ''In''), (''values'', PList (map PStr vs))]"
| "expression (NotIn k vs) = PDict [(''key'', PStr k), (''operator'', PStr ''NotIn''), (''values'', PList (map PStr vs))]"
| "expression (Exists k) = PDict [(''key'', PStr k), (''operator'', PStr ''Exists'')]"
| "expression (NotExists k) = PDict [(''key'', PStr k), (''operator'', PStr ''DoesNotExist'')]"
| "expression (Eq k v) = PDict [(''key'', PStr k), (''operator'', PStr ''In''), (''values'', PList [PStr v])]"
| "expression (Neq k v) = PDict [(''key'', PStr k), (''operator'', PStr ''NotIn''), (''values'', PList [PStr v])]"

text \<open>What the client's objects answer to an attribute: the field, or \<open>None\<close>.\<close>

definition plain_fields :: "world \<Rightarrow> bool" where
  "plain_fields W \<longleftrightarrow> (\<forall>d k. w_field W (PDict d) k = Inr (dget d k))"

lemma strings: "mapR string_of (map PStr vs) = Inr vs"
  by (induction vs) (auto simp: string_of_def)

lemma lower_operators [simp]: "py_lower ''In'' = ''in''" "py_lower ''NotIn'' = ''notin''"
  by code_simp+

text \<open>An expression is written so that it is read as the same requirement, and stays in one piece.\<close>

fun canonical :: "requirement \<Rightarrow> requirement" where
  "canonical (Eq k v) = In k [v]"
| "canonical (Neq k v) = NotIn k [v]"
| "canonical r = r"

lemma holds_canonical [simp]: "holds (canonical r) labels \<longleftrightarrow> holds r labels"
  by (cases r) auto

lemma value_parentheses: "valid_value v \<Longrightarrow> CHR ''('' \<notin> set v \<and> CHR '')'' \<notin> set v"
  by (auto simp: valid_value_def list_all_iff)

lemma joined_spaced_values:
  assumes "list_all valid_value vs"
  shows "CHR ''('' \<notin> set (py_join '', '' vs)" "CHR '')'' \<notin> set (py_join '', '' vs)"
  using assms value_parentheses by (fastforce simp: list_all_iff dest: set_py_join)+

definition readable :: "string \<Rightarrow> requirement \<Rightarrow> bool" where
  "readable s r \<longleftrightarrow> s \<noteq> [] \<and> piece s \<and> read_requirement s = Some r"

lemma readable_set:
  assumes "label_key k" "list_all valid_value vs" "vs \<noteq> []"
  shows "readable (k @ '' in ('' @ py_join '', '' vs @ '')'') (In k vs)" "readable (k @ '' notin ('' @ py_join '', '' vs @ '')'') (NotIn k vs)"
  using piece_set [of "k @ '' in ''" "py_join '', '' vs"] piece_set [of "k @ '' notin ''" "py_join '', '' vs"]
    label_key_parts(9-11) [OF assms(1)] joined_spaced_values [OF assms(2)] read_set [OF assms]
  by (simp_all add: readable_def)

lemma readable_key:
  assumes "label_key k"
  shows "readable k (Exists k)" "readable (CHR ''!'' # k) (NotExists k)"
  using label_key_parts(1,9-11) [OF assms] read_key [OF assms] by (simp_all add: readable_def piece_plain)

lemma readable_equality:
  assumes "label_key k" "valid_value v"
  shows "readable (k @ ''='' @ v) (Eq k v)"
proof -
  have "CHR ''('' \<notin> set v" "CHR '')'' \<notin> set v" "CHR '','' \<notin> set v" using assms(2) by (auto simp: valid_value_def list_all_iff)
  then show ?thesis
    using label_key_parts(1,9-11) [OF assms(1)] read_equality [OF assms] by (simp add: readable_def piece_plain)
qed

lemma expression_readable:
  assumes "plain_fields W" "valid r"
  shows "\<exists>s. expression_selector W (expression r) = Inr s \<and> readable s (canonical r)"
proof -
  have sets: "\<exists>s. expression_selector W (expression (In k vs)) = Inr s \<and> readable s (In k vs)"
    "\<exists>s. expression_selector W (expression (NotIn k vs)) = Inr s \<and> readable s (NotIn k vs)"
    if "label_key k" "list_all valid_value vs" "vs \<noteq> []" for k vs
    using assms(1) readable_set [OF that]
    by (simp_all add: expression_selector_def plain_fields_def dget_def py_iter_def strings)
  have keys: "\<exists>s. expression_selector W (expression (Exists k)) = Inr s \<and> readable s (Exists k)"
    "\<exists>s. expression_selector W (expression (NotExists k)) = Inr s \<and> readable s (NotExists k)" if "label_key k" for k
    using assms(1) readable_key [OF that] by (simp_all add: expression_selector_def plain_fields_def dget_def string_of_def)
  show ?thesis
  proof (cases r)
    case (Eq k v)
    with sets(1) [of k "[v]"] assms(2) show ?thesis by simp
  next
    case (Neq k v)
    with sets(2) [of k "[v]"] assms(2) show ?thesis by simp
  qed (use sets keys assms(2) in auto)
qed

lemma expressions_readable:
  assumes "plain_fields W" "list_all valid rs"
  shows "\<exists>ss. mapR (expression_selector W) (map expression rs) = Inr ss \<and> list_all2 readable ss (map canonical rs)"
  using assms(2)
proof (induction rs)
  case (Cons r rs)
  then obtain ss where "mapR (expression_selector W) (map expression rs) = Inr ss" "list_all2 readable ss (map canonical rs)" by auto
  moreover from Cons.prems obtain s where "expression_selector W (expression r) = Inr s" "readable s (canonical r)"
    using expression_readable [OF assms(1), of r] by auto
  ultimately show ?case by (intro exI [of _ "s # ss"]) simp
qed simp

lemma labels_readable:
  assumes "list_all valid (map (\<lambda>(k, v). Eq k v) ls)"
  shows "list_all2 readable (map label_selector (map (\<lambda>(k, v). (k, PStr v)) ls)) (map (\<lambda>(k, v). Eq k v) ls)"
  using assms readable_equality by (induction ls) (auto simp: label_selector_def)

lemma read_joined:
  assumes "list_all2 readable ss rs"
  shows "read_selector (py_join '','' ss) = Some rs"
proof (cases "ss = []")
  case False
  have "list_all piece ss" "map read_requirement ss = map Some rs" "\<forall>s \<in> set ss. s \<noteq> []"
    using assms by (induction rule: list_all2_induct) (auto simp: readable_def)
  moreover have "those (map Some rs) = Some rs" by (induction rs) auto
  moreover have "py_join '','' ss \<noteq> []" using False \<open>\<forall>s \<in> set ss. s \<noteq> []\<close> by (cases ss; cases "tl ss") auto
  ultimately show ?thesis using split_joined [OF False] by (simp add: read_selector_def)
qed (use assms in \<open>simp add: read_selector_def\<close>)

definition selecting_object :: "(string \<times> string) list \<Rightarrow> requirement list \<Rightarrow> pyval" where
  "selecting_object ls rs = PDict [(''spec'', PDict [(''selector'', PDict
     [(''matchLabels'', PDict (map (\<lambda>(k, v). (k, PStr v)) ls)), (''matchExpressions'', PList (map expression rs))])])]"

text \<open>C21: The selectors extracted from an object select what the object's own selector selects. Joined by commas,
  as they are sent to the API server, they are read, in the syntax that Kubernetes documents, as requirements that a set of labels
  meets exactly when it has every label of \<open>matchLabels\<close> and meets every requirement of \<open>matchExpressions\<close>; keys may have
  prefixes.\<close>

theorem extracted_selectors_select:
  assumes "plain_fields W" and "list_all valid (map (\<lambda>(k, v). Eq k v) ls)" "list_all valid rs"
  shows "\<exists>ss requirements. extract_selectors W (selecting_object ls rs) = Inr ss
     \<and> read_selector (py_join '','' ss) = Some requirements
     \<and> (\<forall>labels. (\<forall>r \<in> set requirements. holds r labels)
          \<longleftrightarrow> (\<forall>(k, v) \<in> set ls. map_of labels k = Some (PStr v)) \<and> (\<forall>r \<in> set rs. holds r labels))"
proof -
  from expressions_readable [OF assms(1,3)] obtain ss where
    ss: "mapR (expression_selector W) (map expression rs) = Inr ss" "list_all2 readable ss (map canonical rs)" by blast
  let ?ls = "map label_selector (map (\<lambda>(k, v). (k, PStr v)) ls)"
  have "(if obj_truthy (PList (map expression rs)) then bindR (py_iter (PList (map expression rs))) (mapR (expression_selector W)) else Inr [])
      = Inr ss" using ss(1) by (cases rs) (auto simp: obj_truthy_def py_iter_def)
  then have "extract_selectors W (selecting_object ls rs) = Inr (?ls @ ss)"
    using assms(1) by (simp add: extract_selectors_def selecting_object_def plain_fields_def dget_def py_items_def obj_truthy_def
      del: map_map)
  moreover have "read_selector (py_join '','' (?ls @ ss)) = Some (map (\<lambda>(k, v). Eq k v) ls @ map canonical rs)"
    by (intro read_joined list_all2_appendI labels_readable [OF assms(2)] ss(2))
  moreover have "(\<forall>r \<in> set (map (\<lambda>(k, v). Eq k v) ls @ map canonical rs). holds r labels)
      \<longleftrightarrow> (\<forall>(k, v) \<in> set ls. map_of labels k = Some (PStr v)) \<and> (\<forall>r \<in> set rs. holds r labels)" for labels
    by (simp add: ball_Un split_beta)
  ultimately show ?thesis by blast
qed

theorem extracted_selectors_select_witness:
  "\<exists>ss requirements. extract_selectors (sample_world (\<lambda>a b. b) (\<lambda>h v r b k. Inl NotFoundError))
      (selecting_object [(''example.com/app'', ''web'')] [NotIn ''env'' [''prod'', ''qa''], Exists ''x'']) = Inr ss
    \<and> read_selector (py_join '','' ss) = Some requirements
    \<and> (\<forall>r \<in> set requirements. holds r [(''example.com/app'', PStr ''web''), (''x'', PStr ''front'')])"
proof -
  have "plain_fields (sample_world (\<lambda>a b. b) (\<lambda>h v r b k. Inl NotFoundError))" by (simp add: plain_fields_def)
  from extracted_selectors_select [OF this, of "[(''example.com/app'', ''web'')]" "[NotIn ''env'' [''prod'', ''qa''], Exists ''x'']"]
  show ?thesis
    by (fastforce simp: label_key_def label_char_def valid_value_def key_char_def is_alnum_def is_digit_def is_lower_ascii_def)
qed

text \<open>The selector of that object, as it is sent.\<close>

lemma extracted_example:
  "bindR (extract_selectors (sample_world (\<lambda>a b. b) (\<lambda>h v r b k. Inl NotFoundError))
      (selecting_object [(''example.com/app'', ''web'')] [NotIn ''env'' [''prod'', ''qa''], Exists ''x''])) (\<lambda>ss. Inr (py_join '','' ss))
   = Inr ''example.com/app=web,env notin (prod, qa),x''"
  by code_simp

theorem object_without_selector_raises:
  assumes "plain_fields W"
  shows "extract_selectors W (PDict [(''kind'', PStr ''Service''), (''spec'', PDict [])]) = Inl TypeError"
  using assms by (simp add: extract_selectors_def plain_fields_def dget_def obj_truthy_def)

theorem object_without_selector_raises_witness:
  "extract_selectors (sample_world (\<lambda>a b. b) (\<lambda>h v r b k. Inl NotFoundError))
     (PDict [(''kind'', PStr ''Service''), (''spec'', PDict [])]) = Inl TypeError"
  by (rule object_without_selector_raises) (simp add: plain_fields_def)

end
