(* ===== verification/K8sScale.thy ===== *)
theory K8sScale
  imports K8sRunner
begin

text \<open>
  Scaling objects (\<open>k8s_scale.py\<close>). \<open>has_scale\<close> says whether a resource has the
  attribute \<open>scale\<close>; its patch is the event \<open>Ext "scale.patch"\<close>. The variables the loop
  over the objects carries from one to the next are a record; in particular the count of an
  object that has none is the count of the object before it.
\<close>

section \<open>Scaling one object\<close>

record scale_task =
  st_replicas :: pyval
  st_current_replicas :: pyval
  st_resource_version :: pyval
  st_continue_on_error :: bool
  st_wait :: bool
  st_wait_timeout :: int
  st_wait_sleep :: int
  st_kind :: string
  st_check_mode :: bool
  st_diff :: bool
  st_dry_run :: bool

text \<open>\<open>x.a.b\<close> and \<open>hasattr(x, a)\<close> on the objects of the client.\<close>

fun attrs :: "world \<Rightarrow> pyval \<Rightarrow> string list \<Rightarrow> pyval res" where
  "attrs W v [] = Inr v"
| "attrs W v (k # ks) = bindR (w_field W v k) (\<lambda>x. attrs W x ks)"

definition hasattr :: "world \<Rightarrow> pyval \<Rightarrow> string \<Rightarrow> bool res" where
  "hasattr W v k = (case w_field W v k of Inl e \<Rightarrow> if e = AttributeError then Inr False else Inl e | Inr _ \<Rightarrow> Inr True)"

definition set_replicas :: "dict \<Rightarrow> string \<Rightarrow> pyval \<Rightarrow> dict res" where
  "set_replicas obj field n = bindR (py_getitem (PDict obj) ''spec'') (\<lambda>spec. case spec of
      PDict s \<Rightarrow> Inr (AList.update ''spec'' (PDict (AList.update field n s)) obj) | _ \<Rightarrow> Inl TypeError)"

definition scale_patched :: "world \<Rightarrow> scale_task \<Rightarrow> resource \<Rightarrow> pyval \<Rightarrow> pyval \<Rightarrow> pyval \<Rightarrow> dict io" where
  "scale_patched W t resource name namespace kind =
     (let scale_obj = PDict [(''kind'', kind), (''metadata'', PDict [(''name'', name), (''namespace'', namespace)]),
            (''spec'', PDict [(''replicas'', st_replicas t)])];
          params = [(''name'', name), (''namespace'', namespace)] in
      bindI (wrapI W ''Scale request failed: '' (ext W ''scale.patch'' [scale_obj])) (\<lambda>_.
      bindI (client_get W resource params) (\<lambda>o1.
      bindI (liftI (to_dict o1)) (\<lambda>k8s_obj.
        if st_wait t then
          (case get_waiter W resource ''present'' None False of
             DummyWaiter \<Rightarrow> (case dummy_wait k8s_obj of (success, r, d) \<Rightarrow>
               retI [(''result'', PDict r), (''duration'', PInt d)])
           | Waiter r predicate \<Rightarrow>
               bindI (waiter_wait W r predicate (st_wait_timeout t) (st_wait_sleep t) name namespace PNone PNone)
                 (\<lambda>(success, inst, duration).
                   let result = [(''result'', PDict inst), (''duration'', PInt duration)] in
                   if \<not> success then raiseI (ResourceTimeout ''Resource scaling timed out'' (PDict result))
                   else retI result))
        else retI [(''result'', PDict k8s_obj)]))))"

definition scale :: "world \<Rightarrow> (resource \<Rightarrow> bool) \<Rightarrow> scale_task \<Rightarrow> resource \<Rightarrow> pyval \<Rightarrow> dict io" where
  "scale W has_scale t resource existing_object =
     bindI (liftI (attrs W existing_object [''metadata'', ''name''])) (\<lambda>name.
     bindI (liftI (attrs W existing_object [''metadata'', ''namespace''])) (\<lambda>namespace.
     bindI (liftI (w_field W existing_object ''kind'')) (\<lambda>kind.
       if \<not> has_scale resource then
         raiseI (CoreException (''Cannot perform scale on resource of kind '' @ res_kind resource))
       else
         bindI (client_get W resource [(''name'', name), (''namespace'', namespace)]) (\<lambda>existing.
         bindI (liftI (to_dict existing)) (\<lambda>existing_dict.
         bindI (if st_check_mode t then
             bindI (liftI (set_replicas existing_dict ''replicas'' (st_replicas t))) (\<lambda>k8s_obj.
               retI ((if st_wait t then [(''duration'', PInt 0)] else []) @ [(''result'', PDict k8s_obj)]))
           else scale_patched W t resource name namespace kind) (\<lambda>result.
         bindI (liftI (bindR (as_dict (dget result ''result'')) (\<lambda>r. diff_objects existing_dict r PNone))) (\<lambda>(m, diffs).
           retI (result @ [(''changed'', PBool (\<not> m))] @ (if st_diff t then [(''diff'', PDict diffs)] else []))))))))) "

section \<open>The loop over the objects\<close>

record scale_state =
  sc_count :: pyval
  sc_changed :: bool
  sc_results :: "pyval list"
  sc_errors :: "pyval list"

text \<open>\<open>return_attributes\<close>: one result, or the list of the results with the errors if any.\<close>

definition return_attributes :: "scale_task \<Rightarrow> bool \<Rightarrow> scale_state \<Rightarrow> dict" where
  "return_attributes t multiple s =
     (if multiple then (''results'', PList (sc_results s)) # (if sc_errors s = [] then [] else [(''errors'', PList (sc_errors s))])
      else (''result'', PDict []) # (if st_diff t then [(''diff'', PDict [])] else [])
        @ (if st_wait t then [(''duration'', PInt 0)] else []))"

definition continue_or_fail :: "scale_task \<Rightarrow> bool \<Rightarrow> scale_state \<Rightarrow> string \<Rightarrow> scale_state io" where
  "continue_or_fail t multiple s err =
     (if multiple \<and> st_continue_on_error t then
        retI (s\<lparr>sc_errors := sc_errors s @ [PDict [(''error'', PStr err), (''failed'', PBool True)]]\<rparr>)
      else raiseI (FailJson ((''msg'', PStr err) # return_attributes t multiple s)))"

definition continue_or_exit :: "scale_task \<Rightarrow> bool \<Rightarrow> scale_state \<Rightarrow> string \<Rightarrow> scale_state io" where
  "continue_or_exit t multiple s warn =
     (if multiple then retI (s\<lparr>sc_results := sc_results s @ [PDict [(''warning'', PStr warn), (''changed'', PBool False)]]\<rparr>)
      else raiseI (ExitJson ((''warning'', PStr warn) # return_attributes t multiple s)))"

definition available_count :: "world \<Rightarrow> scale_task \<Rightarrow> pyval \<Rightarrow> pyval \<Rightarrow> pyval res" where
  "available_count W t existing before =
     (if py_lower (st_kind t) = ''job'' then attrs W existing [''spec'', ''parallelism'']
      else bindR (w_field W existing ''spec'') (\<lambda>spec. bindR (hasattr W spec ''replicas'') (\<lambda>has.
        if has then w_field W spec ''replicas'' else Inr before)))"

definition describe :: "world \<Rightarrow> pyval \<Rightarrow> string res" where
  "describe W existing =
     bindR (w_field W existing ''kind'') (\<lambda>kind.
     bindR (attrs W existing [''metadata'', ''name'']) (\<lambda>name.
     bindR (attrs W existing [''metadata'', ''namespace'']) (\<lambda>namespace.
       Inr ('' for object kind='' @ py_str kind @ '' name='' @ py_str name @ '' namespace='' @ py_str namespace @ ''.''))))"

text \<open>The result for an object whose count is to change, and for one that has it.\<close>

definition change_count :: "world \<Rightarrow> (resource \<Rightarrow> bool) \<Rightarrow> scale_task \<Rightarrow> resource \<Rightarrow> pyval \<Rightarrow> scale_state \<Rightarrow> (dict \<times> scale_state) io" where
  "change_count W has_scale t resource existing s =
     (if py_lower (st_kind t) = ''job'' then
        bindI (liftI (bindR (to_dict existing) (\<lambda>d. set_replicas d ''parallelism'' (st_replicas t)))) (\<lambda>obj.
        bindI (if st_check_mode t then retI obj
               else bindI (client_patch W (st_dry_run t) resource obj []) (\<lambda>r. liftI (to_dict r))) (\<lambda>result.
          retI ([(''changed'', PBool True), (''result'', PDict result)], s)))
      else
        bindI (tryI (scale W has_scale t resource existing)
          (\<lambda>e. if is_CoreException e then raiseI (FailJson [(''msg'', PStr (exn_text W e))]) else raiseI e)) (\<lambda>result.
          retI (result, s\<lparr>sc_changed := (sc_changed s \<or> truthy (dget result ''changed''))\<rparr>)))"

definition keep_count :: "world \<Rightarrow> scale_task \<Rightarrow> resource \<Rightarrow> pyval \<Rightarrow> dict io" where
  "keep_count W t resource existing =
     bindI (liftI (attrs W existing [''metadata'', ''name''])) (\<lambda>name.
     bindI (liftI (attrs W existing [''metadata'', ''namespace''])) (\<lambda>namespace.
     bindI (client_get W resource [(''name'', name), (''namespace'', namespace)]) (\<lambda>existing.
     bindI (liftI (to_dict existing)) (\<lambda>d.
       retI ([(''changed'', PBool False), (''result'', PDict d)] @ (if st_diff t then [(''diff'', PDict [])] else [])
         @ (if st_wait t then [(''duration'', PInt 0)] else []))))))"

definition scale_object :: "world \<Rightarrow> (resource \<Rightarrow> bool) \<Rightarrow> scale_task \<Rightarrow> resource \<Rightarrow> bool \<Rightarrow> scale_state \<Rightarrow> pyval \<Rightarrow> scale_state io" where
  "scale_object W has_scale t resource multiple s existing =
     bindI (liftI (available_count W t existing (sc_count s))) (\<lambda>count.
     let s = s\<lparr>sc_count := count\<rparr> in
     if count = PNone then
       bindI (liftI (describe W existing)) (\<lambda>d. continue_or_fail t multiple s (''Failed to retrieve the available count'' @ d))
     else bindI (if truthy (st_resource_version t) then
         bindI (liftI (attrs W existing [''metadata'', ''resourceVersion''])) (\<lambda>v.
           retI (if py_eq (st_resource_version t) v then None
             else Some (''expected resource version '' @ py_str (st_resource_version t) @ '' does not match with actual '' @ py_str v)))
       else retI None) (\<lambda>other_version. case other_version of
         Some w \<Rightarrow> bindI (liftI (describe W existing)) (\<lambda>d. continue_or_exit t multiple s (w @ d))
       | None \<Rightarrow>
           if st_current_replicas t \<noteq> PNone \<and> \<not> py_eq count (st_current_replicas t) then
             bindI (liftI (describe W existing)) (\<lambda>d. continue_or_exit t multiple s
               (''current replicas '' @ py_str (st_current_replicas t) @ '' does not match with actual '' @ py_str count @ d))
           else
             bindI (if \<not> py_eq count (st_replicas t) then change_count W has_scale t resource existing s
                    else bindI (keep_count W t resource existing) (\<lambda>r. retI (r, s))) (\<lambda>(result, s).
               if multiple then retI (s\<lparr>sc_results := sc_results s @ [PDict result]\<rparr>)
               else raiseI (ExitJson result))))"

fun scale_objects :: "world \<Rightarrow> (resource \<Rightarrow> bool) \<Rightarrow> scale_task \<Rightarrow> resource \<Rightarrow> bool \<Rightarrow> scale_state \<Rightarrow> pyval list \<Rightarrow> scale_state io" where
  "scale_objects W has_scale t resource multiple s [] = retI s"
| "scale_objects W has_scale t resource multiple s (x # xs) =
     bindI (scale_object W has_scale t resource multiple s x) (\<lambda>s. scale_objects W has_scale t resource multiple s xs)"

section \<open>The module\<close>

text \<open>The objects found: the items of a list, or the object itself.\<close>

definition found_objects :: "world \<Rightarrow> resource \<Rightarrow> pyval \<Rightarrow> pyval \<Rightarrow> string \<Rightarrow> pyval list io" where
  "found_objects W resource name namespace selector =
     tryI (bindI (call W Get resource PNone [(''name'', name), (''namespace'', namespace), (''label_selector'', PStr selector)]) (\<lambda>existing.
       liftI (bindR (w_field W existing ''kind'') (\<lambda>kind. case kind of
           PStr k \<Rightarrow> if ends_with k ''List'' then bindR (w_field W existing ''items'') py_iter else Inr [existing]
         | _ \<Rightarrow> Inl AttributeError))))
       (\<lambda>e. if e = NotFoundError then raiseI (CoreException (''Failed to retrieve requested object: '' @ w_text W e)) else raiseI e)"

definition scale_module :: "world \<Rightarrow> (resource \<Rightarrow> bool) \<Rightarrow> dict \<Rightarrow> bool \<Rightarrow> bool \<Rightarrow> bool \<Rightarrow> unit io" where
  "scale_module W has_scale params check_mode diff dry_run =
     bindI (create_definitions W params) (\<lambda>definitions. case definitions of
       [] \<Rightarrow> raiseI IndexError
     | defn # _ \<Rightarrow>
         bindI (liftI (metadata_get defn ''name'')) (\<lambda>name.
         bindI (liftI (metadata_get defn ''namespace'')) (\<lambda>namespace.
         bindI (liftI (py_getitem (PDict defn) ''apiVersion'')) (\<lambda>api_version.
         bindI (liftI (py_getitem (PDict defn) ''kind'')) (\<lambda>kind.
         bindI (client_resource W kind api_version) (\<lambda>resource.
         bindI (liftI (if truthy (dget params ''label_selectors'') then join_list (dget params ''label_selectors'') else Inr [])) (\<lambda>selector.
         bindI (found_objects W resource name namespace selector) (\<lambda>objects.
         bindI (liftI (as_int (dget params ''wait_timeout''))) (\<lambda>wait_timeout.
         bindI (liftI (as_int (dget params ''wait_sleep''))) (\<lambda>wait_sleep.
           let t = \<lparr>st_replicas = dget params ''replicas'', st_current_replicas = dget params ''current_replicas'',
                 st_resource_version = dget params ''resource_version'', st_continue_on_error = truthy (dget params ''continue_on_error''),
                 st_wait = truthy (dget params ''wait''), st_wait_timeout = wait_timeout, st_wait_sleep = wait_sleep,
                 st_kind = py_str kind, st_check_mode = check_mode, st_diff = diff, st_dry_run = dry_run\<rparr>;
               multiple = 1 < length objects
           in bindI (scale_objects W has_scale t resource multiple
                  \<lparr>sc_count = PNone, sc_changed = False, sc_results = [], sc_errors = []\<rparr> objects) (\<lambda>s.
                raiseI (ExitJson ((''changed'', PBool (sc_changed s)) # return_attributes t multiple s)))))))))))))"

definition scale_main :: "world \<Rightarrow> (resource \<Rightarrow> bool) \<Rightarrow> dict \<Rightarrow> bool \<Rightarrow> bool \<Rightarrow> bool \<Rightarrow> unit io" where
  "scale_main W has_scale params check_mode diff dry_run =
     tryI (scale_module W has_scale params check_mode diff dry_run)
       (\<lambda>e. if is_CoreException e then raiseI (FailJson [(''msg'', PStr (exn_text W e))]) else raiseI e)"

section \<open>Check mode\<close>

declare emits_option [io_rules] emits_pair [io_rules]

lemma harmless_scale [io_rules]: "st_check_mode t \<Longrightarrow> emits harmless (scale W has_scale t r x)"
  unfolding scale_def by (auto intro!: io_rules)

lemma harmless_scale_object [io_rules]: "st_check_mode t \<Longrightarrow> emits harmless (scale_object W has_scale t r multiple s x)"
  unfolding scale_object_def change_count_def keep_count_def continue_or_fail_def continue_or_exit_def Let_def
  by (auto intro!: io_rules)

lemma harmless_scale_objects [io_rules]: "st_check_mode t \<Longrightarrow> emits harmless (scale_objects W has_scale t r multiple s xs)"
  by (induction xs arbitrary: s) (auto intro!: io_rules)

lemma harmless_found_objects [io_rules]: "emits harmless (found_objects W r n ns sel)"
  unfolding found_objects_def by (auto intro!: io_rules emits_call)

text \<open>C18: In check mode the scale module only looks: whatever it is asked for and whatever the server
  answers, it sends no request that the server would act upon.\<close>

theorem scale_check_mode_is_safe:
  "\<exists>es. snd (scale_main W has_scale params True diff dry_run h) = h @ es \<and> list_all harmless es"
proof -
  have "emits harmless (scale_main W has_scale params True diff dry_run)"
    unfolding scale_main_def scale_module_def Let_def
    by (auto intro!: io_rules split: list.split)
  then show ?thesis by (simp add: emits_def)
qed

end
