(* ===== verification/OsdkStatus.thy ===== *)
theory OsdkStatus
  imports K8sMerge K8sClient
begin

text \<open>
  The \<open>k8s_status\<close> module of the operator SDK collection: validation of the conditions,
  merging them with those of the object, and deciding whether the status has to be written.
  Requests for the status subresource are \<open>Ext\<close> events. The subresources of a resource
  and the three fields reported of an API error are arguments.
\<close>

section \<open>Conditions\<close>

definition valid_condition_keys :: "string list" where
  "valid_condition_keys = [''type'', ''status'', ''reason'', ''message'', ''lastHeartbeatTime'', ''lastTransitionTime'']"

text \<open>\<open>$\<close> also matches before a final newline.\<close>

definition chop_newline :: "string \<Rightarrow> string" where
  "chop_newline s = (if s \<noteq> [] \<and> last s = CHR 0x0A then butlast s else s)"

definition camel_case :: "string \<Rightarrow> bool" where
  "camel_case s \<longleftrightarrow> list_all (\<lambda>c. is_upper_ascii c \<or> is_lower_ascii c) (chop_newline s)"

fun expect :: "string \<Rightarrow> string \<Rightarrow> string option" where
  "expect [] s = Some s"
| "expect (p # ps) [] = None"
| "expect (p # ps) (c # s) =
     (if (p = CHR ''d'' \<and> is_digit c) \<or> (p \<noteq> CHR ''d'' \<and> p = c) then expect ps s else None)"

definition rfc3339_zone :: "string \<Rightarrow> bool" where
  "rfc3339_zone s \<longleftrightarrow> (s = ''Z'' \<or> expect ''+dd:dd'' s = Some [] \<or> expect ''-dd:dd'' s = Some [])"

definition rfc3339_fraction :: "string \<Rightarrow> bool" where
  "rfc3339_fraction s = (case s of
      CHR ''.'' # r \<Rightarrow> takeWhile is_digit r \<noteq> [] \<and> rfc3339_zone (dropWhile is_digit r)
    | _ \<Rightarrow> rfc3339_zone s)"

definition rfc3339 :: "string \<Rightarrow> bool" where
  "rfc3339 s = (case expect ''dddd-dd-dd'' (chop_newline s) of
      Some (sep # r) \<Rightarrow> (sep = CHR ''T'' \<or> sep = CHR '' '') \<and>
        (case expect ''dd:dd'' r of
           None \<Rightarrow> False
         | Some r \<Rightarrow> (case expect '':dd'' r of Some r' \<Rightarrow> rfc3339_fraction r' | None \<Rightarrow> rfc3339_fraction r))
    | _ \<Rightarrow> False)"

definition matches :: "(string \<Rightarrow> bool) \<Rightarrow> pyval \<Rightarrow> bool res" where
  "matches regex v = (case v of PStr s \<Rightarrow> Inr (regex s) | _ \<Rightarrow> Inl TypeError)"

definition status_text :: "dict \<Rightarrow> dict" where
  "status_text condition = (case dget condition ''status'' of
      PBool b \<Rightarrow> AList.update ''status'' (PStr (if b then ''True'' else ''False'')) condition
    | _ \<Rightarrow> condition)"

definition invalid_key_message :: "string \<Rightarrow> string" where
  "invalid_key_message key = key @ '' is not a valid field for a condition, accepted fields are ''
     @ py_repr (PList (map PStr valid_condition_keys))"

definition check_keys :: "dict \<Rightarrow> dict res" where
  "check_keys condition = (case List.find (\<lambda>k. k \<notin> set valid_condition_keys) (map fst condition) of
      Some key \<Rightarrow> Inl (ValueError (invalid_key_message key))
    | None \<Rightarrow> Inr (filter (\<lambda>(k, v). v \<noteq> PNone) condition))"

definition check_required :: "dict \<Rightarrow> unit res" where
  "check_required condition = (case List.find (\<lambda>k. \<not> truthy (dget condition k)) [''type'', ''status''] of
      Some key \<Rightarrow> Inl (ValueError (''Condition `'' @ key @ ''` must be set''))
    | None \<Rightarrow> Inr ())"

definition check_status :: "dict \<Rightarrow> unit res" where
  "check_status condition =
     (if py_mem (dget condition ''status'') [PStr ''True'', PStr ''False'', PStr ''Unknown''] then Inr ()
      else Inl (ValueError (''Condition '' @ [CHR 0x27] @ ''status'' @ [CHR 0x27] @ '' must be one of [''
        @ [CHR 0x22] @ ''True'' @ [CHR 0x22] @ '', '' @ [CHR 0x22] @ ''False'' @ [CHR 0x22] @ '', '' @ [CHR 0x22]
        @ ''Unknown'' @ [CHR 0x22] @ ''], not '' @ py_str (dget condition ''status''))))"

definition check_reason :: "dict \<Rightarrow> unit res" where
  "check_reason condition =
     (if truthy (dget condition ''reason'') then
        bindR (matches camel_case (dget condition ''reason'')) (\<lambda>m.
          if m then Inr ()
          else Inl (ValueError (''Condition '' @ [CHR 0x27] @ ''reason'' @ [CHR 0x27] @ '' must be a single, CamelCase word'')))
      else Inr ())"

definition check_time :: "dict \<Rightarrow> string \<Rightarrow> unit res" where
  "check_time condition key =
     (if truthy (dget condition key) then
        bindR (matches rfc3339 (dget condition key)) (\<lambda>m.
          if m then Inr ()
          else Inl (ValueError ([CHR 0x27] @ key @ [CHR 0x27] @ '' must be an RFC3339 compliant datetime string'')))
      else Inr ())"

definition validate_condition :: "pyval \<Rightarrow> pyval res" where
  "validate_condition c = (case c of
      PDict condition \<Rightarrow>
        bindR (check_keys (status_text condition)) (\<lambda>condition.
        bindR (check_required condition) (\<lambda>_.
        bindR (check_status condition) (\<lambda>_.
        bindR (check_reason condition) (\<lambda>_.
        bindR (check_time condition ''lastHeartbeatTime'') (\<lambda>_.
        bindR (check_time condition ''lastTransitionTime'') (\<lambda>_.
          Inr (PDict condition)))))))
    | _ \<Rightarrow> Inl (ValueError ''`conditions` must be a list of objects''))"

definition validate_conditions :: "pyval \<Rightarrow> pyval list res" where
  "validate_conditions conditions = bindR (py_iter conditions) (mapR validate_condition)"

section \<open>Merging conditions\<close>

fun get_condition_idx :: "pyval list \<Rightarrow> pyval \<Rightarrow> nat option res" where
  "get_condition_idx [] name = Inr None"
| "get_condition_idx (condition # conditions) name =
     bindR (py_get condition ''type'' PNone) (\<lambda>t.
       if py_eq t name then Inr (Some 0)
       else bindR (get_condition_idx conditions name) (\<lambda>i. Inr (map_option Suc i)))"

definition has_condition_transitioned :: "pyval \<Rightarrow> pyval \<Rightarrow> bool res" where
  "has_condition_transitioned old_condition new_condition =
     bindR (py_items new_condition) (anyR (\<lambda>(k, v).
       if k \<noteq> ''lastTransitionTime'' then
         bindR (py_get old_condition k PNone) (\<lambda>w. Inr (\<not> py_eq v w))
       else Inr False))"

definition merge_condition :: "pyval list \<Rightarrow> pyval \<Rightarrow> pyval list res" where
  "merge_condition merged condition =
     bindR (py_getitem condition ''type'') (\<lambda>t.
     bindR (get_condition_idx merged t) (\<lambda>idx. case idx of
         Some i \<Rightarrow> bindR (has_condition_transitioned (merged ! i) condition) (\<lambda>transitioned.
           Inr (if transitioned then merged[i := condition] else merged))
       | None \<Rightarrow> Inr (merged @ [condition])))"

definition merge_status_conditions :: "pyval \<Rightarrow> dict \<Rightarrow> dict res" where
  "merge_status_conditions old_status new_status =
     bindR (py_get old_status ''conditions'' (PList [])) (\<lambda>old_conditions.
     let new_conditions = (case map_of new_status ''conditions'' of Some c \<Rightarrow> c | None \<Rightarrow> PList []) in
     if \<not> (truthy old_conditions \<and> truthy new_conditions) then Inr new_status
     else bindR (py_iter old_conditions) (\<lambda>old. bindR (py_iter new_conditions) (\<lambda>new.
       bindR (foldR merge_condition old new) (\<lambda>merged.
         Inr (AList.update ''conditions'' (PList merged) new_status)))))"

section \<open>Is the status already there\<close>

definition list_is_subset :: "pyval list \<Rightarrow> pyval \<Rightarrow> bool res" where
  "list_is_subset xs sub = bindR (py_iter sub) (\<lambda>ys. Inr (list_all (\<lambda>item. py_mem item xs) ys))"

function dict_is_subset :: "bool \<Rightarrow> pyval \<Rightarrow> pyval \<Rightarrow> bool res" where
  "dict_is_subset replace_lists obj sub =
     bindR (py_items sub) (allR (\<lambda>(k, v).
       bindR (py_get obj k PNone) (\<lambda>w. case w of
           PDict _ \<Rightarrow> dict_is_subset replace_lists w v
         | PList xs \<Rightarrow> (if replace_lists \<and> k \<noteq> ''conditions'' then Inr (py_eq w v) else list_is_subset xs v)
         | PTuple xs \<Rightarrow> list_is_subset xs v
         | _ \<Rightarrow> Inr (py_eq w v))))"
  by pat_completeness auto
termination
proof (relation "measure (\<lambda>(_, _, sub). size sub)", goal_cases)
  case (2 rl obj sub d p k v w e)
  then have "sub = PDict d" by (auto simp: py_items_def split: pyval.splits)
  with 2 show ?case by (auto intro: size_dict_value)
qed simp

declare dict_is_subset.simps [simp del]

definition object_contains :: "bool \<Rightarrow> pyval \<Rightarrow> dict \<Rightarrow> bool res" where
  "object_contains replace_lists obj sub = dict_is_subset replace_lists obj (PDict sub)"

section \<open>The module\<close>

record status_module =
  os_kind :: pyval
  os_api_version :: pyval
  os_name :: pyval
  os_namespace :: pyval
  os_replace_status :: bool
  os_replace_lists :: bool
  os_status :: dict

definition status_module_init :: "dict \<Rightarrow> status_module res" where
  "status_module_init params =
     bindR (case dget params ''status'' of PDict d \<Rightarrow> Inr d
         | v \<Rightarrow> if truthy v then Inl AttributeError else Inr []) (\<lambda>status.
     bindR (case validate_conditions (if truthy (dget params ''conditions'') then dget params ''conditions'' else PList []) of
         Inl (ValueError m) \<Rightarrow> Inl (FailJson [(''msg'', PStr ''The specified conditions failed to validate''), (''error'', PStr m)])
       | r \<Rightarrow> r) (\<lambda>conditions.
     if conditions \<noteq> [] \<and> status \<noteq> [] \<and> truthy (dget status ''conditions'') then
       Inl (FailJson [(''msg'', PStr (''You cannot specify conditions in both the '' @ [CHR 0x27] @ ''status'' @ [CHR 0x27]
          @ '' and '' @ [CHR 0x27] @ ''conditions'' @ [CHR 0x27] @ '' parameters''))])
     else Inr \<lparr>os_kind = dget params ''kind'', os_api_version = dget params ''api_version'', os_name = dget params ''name'',
        os_namespace = dget params ''namespace'', os_replace_status = truthy (dget params ''replace''),
        os_replace_lists = truthy (dget params ''replace_lists''),
        os_status = (if conditions \<noteq> [] then AList.update ''conditions'' (PList conditions) status else status)\<rparr>))"

definition is_DynamicApiError :: "exn \<Rightarrow> bool" where
  "is_DynamicApiError e = (case e of NotFoundError \<Rightarrow> True | MethodNotAllowedError \<Rightarrow> True | ForbiddenError _ \<Rightarrow> True
     | ConflictError _ \<Rightarrow> True | BadRequestError _ \<Rightarrow> True | ApiException _ \<Rightarrow> True | _ \<Rightarrow> False)"

text \<open>
  What the module reads of the Kubernetes package's objects: the subresources and the API
  version of a resource, and the \<open>status\<close>, \<open>reason\<close> and \<open>body\<close> of an API error.
\<close>

record osdk_api =
  api_subresources :: "resource \<Rightarrow> string list"
  api_version_of :: "resource \<Rightarrow> string"
  api_error :: "exn \<Rightarrow> dict"

definition fail_on_api_error :: "osdk_api \<Rightarrow> (exn \<Rightarrow> string) \<Rightarrow> 'a io \<Rightarrow> 'a io" where
  "fail_on_api_error api msg m = tryI m (\<lambda>e. if is_DynamicApiError e then
     raiseI (FailJson [(''msg'', PStr (msg e)), (''error'', PDict (api_error api e))]) else raiseI e)"

definition replace_status :: "world \<Rightarrow> osdk_api \<Rightarrow> status_module \<Rightarrow> dict \<Rightarrow> dict io" where
  "replace_status W api self instance' =
     bindI (liftI (py_getitem (PDict instance') ''status'')) (\<lambda>status.
     if py_eq (PDict (os_status self)) status then
       retI [(''result'', PDict instance'), (''changed'', PBool False)]
     else
       bindI (fail_on_api_error api (\<lambda>e. ''Failed to replace status: '' @ exn_text W e)
         (bindI (ext W ''status.replace'' [PDict (AList.update ''status'' (PDict (os_status self)) instance')]) (\<lambda>r.
          liftI (to_dict r)))) (\<lambda>d.
       retI [(''result'', PTuple [PDict d]), (''changed'', PBool True)]))"

definition patch_status :: "world \<Rightarrow> osdk_api \<Rightarrow> status_module \<Rightarrow> dict \<Rightarrow> dict io" where
  "patch_status W api self instance' =
     (if os_status self = [] then retI [(''result'', PDict instance'), (''changed'', PBool False)]
      else
        bindI (liftI (py_getitem (PDict instance') ''status'')) (\<lambda>old_status.
        bindI (liftI (merge_status_conditions old_status (os_status self))) (\<lambda>status.
        bindI (liftI (object_contains (os_replace_lists self) old_status status)) (\<lambda>contained.
        if contained then retI [(''result'', PDict instance'), (''changed'', PBool False)]
        else
          bindI (fail_on_api_error api (\<lambda>e. ''Failed to replace status: '' @ exn_text W e)
            (bindI (ext W ''status.patch'' [PDict (AList.update ''status'' (PDict status) instance'),
                PStr ''application/merge-patch+json'']) (\<lambda>r. liftI (to_dict r)))) (\<lambda>d.
          retI [(''result'', PDict d), (''changed'', PBool True)])))))"

text \<open>\<open>find_resource\<close> of \<open>api_utils\<close> swallows "not found" and "not unique".\<close>

fun osdk_try_attributes :: "world \<Rightarrow> pyval \<Rightarrow> pyval \<Rightarrow> string list \<Rightarrow> resource option io" where
  "osdk_try_attributes W kind api_version [] =
     tryI (bindI (find W None api_version ''short_names'' (PList [kind])) (\<lambda>r. retI (Some r)))
       (\<lambda>e. if not_exactly_one e then retI None else raiseI e)"
| "osdk_try_attributes W kind api_version (attribute # rest) =
     tryI (bindI (find W None api_version attribute kind) (\<lambda>r. retI (Some r)))
       (\<lambda>e. if not_exactly_one e then osdk_try_attributes W kind api_version rest else raiseI e)"

definition osdk_find_resource :: "world \<Rightarrow> pyval \<Rightarrow> pyval \<Rightarrow> resource option io" where
  "osdk_find_resource W kind api_version = osdk_try_attributes W kind api_version [''kind'', ''name'', ''singular_name'']"

definition execute_status :: "world \<Rightarrow> osdk_api \<Rightarrow> status_module \<Rightarrow> unit io" where
  "execute_status W api self =
     bindI (osdk_find_resource W (os_kind self) (os_api_version self)) (\<lambda>found. case found of
       None \<Rightarrow> raiseI (FailJson [(''msg'', PStr (''Failed to find exact match for '' @ py_str (os_api_version self) @ ''.''
          @ py_str (os_kind self) @ '' by [kind, name, singularName, shortNames]''))])
     | Some resource \<Rightarrow>
         if ''status'' \<notin> set (api_subresources api resource) then
           raiseI (FailJson [(''msg'', PStr (''Resource '' @ api_version_of api resource @ ''.'' @ res_kind resource
              @ '' does not support the status subresource''))])
         else
           bindI (fail_on_api_error api (\<lambda>e. ''Failed to retrieve requested object'')
             (bindI (call W Get resource PNone [(''name'', os_name self), (''namespace'', os_namespace self)]) (\<lambda>r.
              liftI (to_dict r)))) (\<lambda>instance'.
           let instance' = setdefault ''status'' (PDict []) instance' in
           bindI (if os_replace_status self then replace_status W api self instance'
               else patch_status W api self instance') (\<lambda>result. raiseI (ExitJson result))))"

section \<open>Validation is sound and final\<close>

text \<open>What a validated condition is.\<close>

definition good_time :: "dict \<Rightarrow> string \<Rightarrow> bool" where
  "good_time c k \<longleftrightarrow> truthy (dget c k) \<longrightarrow> (\<exists>s. dget c k = PStr s \<and> rfc3339 s)"

definition good_condition :: "dict \<Rightarrow> bool" where
  "good_condition c \<longleftrightarrow> fst ` set c \<subseteq> set valid_condition_keys \<and> (\<forall>(k, v) \<in> set c. v \<noteq> PNone)
     \<and> truthy (dget c ''type'')
     \<and> dget c ''status'' \<in> {PStr ''True'', PStr ''False'', PStr ''Unknown''}
     \<and> (truthy (dget c ''reason'') \<longrightarrow> (\<exists>s. dget c ''reason'' = PStr s \<and> camel_case s))
     \<and> good_time c ''lastHeartbeatTime'' \<and> good_time c ''lastTransitionTime''"

lemma check_keys_Inr:
  "check_keys c = Inr c' \<longleftrightarrow> fst ` set c \<subseteq> set valid_condition_keys \<and> c' = filter (\<lambda>(k, v). v \<noteq> PNone) c"
  by (auto simp: check_keys_def find_None_iff find_Some_iff split: option.splits)
    (metis image_eqI nth_map nth_mem subsetD)

lemma check_required_Inr:
  "check_required c = Inr u \<longleftrightarrow> truthy (dget c ''type'') \<and> truthy (dget c ''status'')"
  by (auto simp: check_required_def)

lemma py_eq_PStr: "py_eq (PStr s) v \<longleftrightarrow> v = PStr s" "py_eq v (PStr s) \<longleftrightarrow> v = PStr s"
  by (cases v; auto)+

lemma check_status_Inr:
  "check_status c = Inr u \<longleftrightarrow> dget c ''status'' \<in> {PStr ''True'', PStr ''False'', PStr ''Unknown''}"
  by (auto simp: check_status_def py_mem_def py_eq_PStr)

lemma check_reason_Inr:
  "check_reason c = Inr u \<longleftrightarrow> (truthy (dget c ''reason'') \<longrightarrow> (\<exists>s. dget c ''reason'' = PStr s \<and> camel_case s))"
  by (auto simp: check_reason_def matches_def bindR_eq_Inr split: pyval.splits)

lemma check_time_Inr: "check_time c k = Inr u \<longleftrightarrow> good_time c k"
  by (auto simp: check_time_def good_time_def matches_def bindR_eq_Inr split: pyval.splits)

lemma validate_condition_Inr:
  "validate_condition v = Inr w \<longleftrightarrow> (\<exists>c. v = PDict c \<and> (let c' = filter (\<lambda>(k, v). v \<noteq> PNone) (status_text c) in
     w = PDict c' \<and> fst ` set (status_text c) \<subseteq> set valid_condition_keys \<and> good_condition c'))"
proof (cases v)
  case (PDict c)
  let ?c' = "filter (\<lambda>(k, v). v \<noteq> PNone) (status_text c)"
  have "fst ` set ?c' \<subseteq> set valid_condition_keys" if "fst ` set (status_text c) \<subseteq> set valid_condition_keys"
    using that by auto
  then show ?thesis
    by (auto simp: PDict validate_condition_def bindR_eq_Inr check_keys_Inr check_required_Inr check_status_Inr
        check_reason_Inr check_time_Inr good_condition_def Let_def)
qed (simp_all add: validate_condition_def)

lemma good_condition_settled:
  assumes "good_condition c"
  shows "status_text c = c" "filter (\<lambda>(k, v). v \<noteq> PNone) c = c"
proof -
  show "status_text c = c" using assms by (auto simp: good_condition_def status_text_def)
  show "filter (\<lambda>(k, v). v \<noteq> PNone) c = c"
    using assms by (intro filter_True) (auto simp: good_condition_def)
qed

text \<open>C40: What validation returns is a list of well-formed conditions: known fields only, none of
  them \<open>None\<close>, a type, one of the three states, a CamelCase reason, RFC 3339 times. Validating
  it again changes nothing.\<close>

theorem validate_conditions_sound:
  assumes "validate_conditions v = Inr cs"
  shows "(\<forall>w \<in> set cs. \<exists>c. w = PDict c \<and> good_condition c) \<and> validate_conditions (PList cs) = Inr cs"
proof -
  from assms obtain xs where "mapR validate_condition xs = Inr cs"
    by (auto simp: validate_conditions_def bindR_eq_Inr)
  then have good: "\<exists>c. w = PDict c \<and> good_condition c" if "w \<in> set cs" for w
    using that by (auto dest!: mapR_Inr_mem simp: validate_condition_Inr Let_def)
  have "mapR validate_condition cs = Inr (map id cs)"
  proof (rule mapR_Inr)
    fix w assume "w \<in> set cs"
    with good obtain c where c: "w = PDict c" "good_condition c" by blast
    then show "validate_condition w = Inr (id w)"
      by (simp add: validate_condition_Inr good_condition_settled Let_def) (simp add: good_condition_def)
  qed
  with good show ?thesis by (auto simp: validate_conditions_def py_iter_def)
qed

theorem validate_conditions_sound_witness:
  "\<exists>cs. validate_conditions (PList [PDict [(''type'', PStr ''Ready''), (''status'', PBool True), (''reason'', PNone),
       (''lastTransitionTime'', PStr ''2020-03-04T05:06:07.89Z'')]]) = Inr cs
     \<and> cs = [PDict [(''type'', PStr ''Ready''), (''status'', PStr ''True''),
       (''lastTransitionTime'', PStr ''2020-03-04T05:06:07.89Z'')]]
     \<and> (\<forall>w \<in> set cs. \<exists>c. w = PDict c \<and> good_condition c)"
proof -
  let ?v = "PList [PDict [(''type'', PStr ''Ready''), (''status'', PBool True), (''reason'', PNone),
       (''lastTransitionTime'', PStr ''2020-03-04T05:06:07.89Z'')]]"
  let ?cs = "[PDict [(''type'', PStr ''Ready''), (''status'', PStr ''True''),
       (''lastTransitionTime'', PStr ''2020-03-04T05:06:07.89Z'')]]"
  have "validate_conditions ?v = Inr ?cs" by code_simp
  then show ?thesis using validate_conditions_sound [of ?v ?cs] by blast
qed

section \<open>What merging conditions means\<close>

definition of_type :: "string \<Rightarrow> pyval \<Rightarrow> bool" where
  "of_type t c \<longleftrightarrow> (\<exists>d. c = PDict d \<and> dget d ''type'' = PStr t)"

definition typed :: "string \<Rightarrow> pyval \<Rightarrow> bool" where
  "typed t c \<longleftrightarrow> (\<exists>d. c = PDict d \<and> map_of d ''type'' = Some (PStr t))"

definition objects :: "pyval list \<Rightarrow> bool" where
  "objects cs \<longleftrightarrow> list_all (\<lambda>c. \<exists>d. c = PDict d \<and> wf_dict d) cs"

definition condition_of :: "string \<Rightarrow> pyval list \<Rightarrow> pyval option" where
  "condition_of t cs = List.find (of_type t) cs"

definition transitioned :: "pyval \<Rightarrow> pyval \<Rightarrow> bool" where
  "transitioned old new \<longleftrightarrow> (\<exists>d e. old = PDict d \<and> new = PDict e
     \<and> (\<exists>(k, v) \<in> set e. k \<noteq> ''lastTransitionTime'' \<and> \<not> py_eq v (dget d k)))"

lemma condition_of_simps [simp]:
  "condition_of t [] = None"
  "condition_of t (c # cs) = (if of_type t c then Some c else condition_of t cs)"
  by (simp_all add: condition_of_def)

lemma typed_of_type: "typed t c \<Longrightarrow> of_type t' c \<longleftrightarrow> t' = t"
  by (auto simp: typed_def of_type_def dget_def)

lemma objects_simps [simp]:
  "objects []" "objects (c # cs) \<longleftrightarrow> (\<exists>d. c = PDict d \<and> wf_dict d) \<and> objects cs"
  "objects (cs @ cs') \<longleftrightarrow> objects cs \<and> objects cs'"
  by (simp_all add: objects_def del: wf_py.simps)

lemma condition_of_append:
  "condition_of t (cs @ cs') = (case condition_of t cs of Some c \<Rightarrow> Some c | None \<Rightarrow> condition_of t cs')"
  by (induction cs) auto

lemma has_condition_transitioned_eq:
  "has_condition_transitioned (PDict d) (PDict e) = Inr (transitioned (PDict d) (PDict e))"
proof -
  have "has_condition_transitioned (PDict d) (PDict e) = Inr (\<exists>x \<in> set e. fst x \<noteq> ''lastTransitionTime'' \<and> \<not> py_eq (snd x) (dget d (fst x)))"
    unfolding has_condition_transitioned_def py_items_def
    by (simp del: anyR.simps) (rule anyR_Inr, auto simp: py_get_def dget_def)
  then show ?thesis by (simp add: transitioned_def split_beta)
qed

lemma transitioned_refl: "wf_dict d \<Longrightarrow> \<not> transitioned (PDict d) (PDict d)"
  by (auto simp: transitioned_def dget_def map_of_is_SomeI intro: py_eq_refl wf_dict_value simp del: wf_py.simps)
    (metis map_of_is_SomeI option.simps(5) py_eq_refl wf_dict_value wf_py.simps(3))

text \<open>The index found is that of the first condition of the type.\<close>

lemma get_condition_idx_cases:
  assumes "objects cs"
  obtains "get_condition_idx cs (PStr t) = Inr None" "condition_of t cs = None"
  | i where "i < length cs" "get_condition_idx cs (PStr t) = Inr (Some i)" "condition_of t cs = Some (cs ! i)"
      "\<And>c t'. typed t c \<Longrightarrow> condition_of t' (cs[i := c]) = (if t' = t then Some c else condition_of t' cs)"
proof -
  have "(get_condition_idx cs (PStr t) = Inr None \<and> condition_of t cs = None)
    \<or> (\<exists>i < length cs. get_condition_idx cs (PStr t) = Inr (Some i) \<and> condition_of t cs = Some (cs ! i)
        \<and> (\<forall>c t'. typed t c \<longrightarrow> condition_of t' (cs[i := c]) = (if t' = t then Some c else condition_of t' cs)))"
    using assms
  proof (induction cs)
    case (Cons a cs)
    then obtain d where a: "a = PDict d" by auto
    have t: "of_type t a \<longleftrightarrow> py_eq (dget d ''type'') (PStr t)" for t by (auto simp: a of_type_def py_eq_PStr)
    show ?case
    proof (cases "of_type t a")
      case True
      then have "\<not> of_type t' a" if "t' \<noteq> t" for t' using that by (auto simp: of_type_def)
      with True t [of t] show ?thesis
        by (intro disjI2 exI [of _ 0]) (auto simp: a py_get_def dget_def typed_of_type)
    next
      case False
      have step: "get_condition_idx (a # cs) (PStr t) = bindR (get_condition_idx cs (PStr t)) (\<lambda>i. Inr (map_option Suc i))"
        using False t [of t] by (simp add: a py_get_def dget_def)
      from Cons.prems have "objects cs" by simp
      from Cons.IH [OF this] show ?thesis
      proof (elim disjE exE conjE)
        fix i
        assume *: "i < length cs" "get_condition_idx cs (PStr t) = Inr (Some i)" "condition_of t cs = Some (cs ! i)"
          "\<forall>c t'. typed t c \<longrightarrow> condition_of t' (cs[i := c]) = (if t' = t then Some c else condition_of t' cs)"
        then show ?thesis using False step by (intro disjI2 exI [of _ "Suc i"]) simp
      qed (use False step in simp)
    qed
  qed simp
  then show thesis using that by (elim disjE exE conjE) auto
qed

lemma merge_condition_spec:
  assumes s: "objects s" and c: "typed t c" "objects [c]"
  shows "\<exists>s'. merge_condition s c = Inr s' \<and> objects s'
    \<and> (\<forall>t'. condition_of t' s' = (if t' = t then (case condition_of t s of
          None \<Rightarrow> Some c | Some old \<Rightarrow> Some (if transitioned old c then c else old)) else condition_of t' s))"
proof -
  from c obtain e where e: "c = PDict e" "py_getitem c ''type'' = Inr (PStr t)"
    by (auto simp: typed_def py_getitem_def)
  from s show ?thesis
  proof (cases rule: get_condition_idx_cases [of s t])
    case 1
    with s c e show ?thesis
      by (simp add: merge_condition_def condition_of_append typed_of_type split: option.splits del: wf_py.simps)
  next
    case (2 i)
    from s 2(1) obtain d where d: "s ! i = PDict d" by (auto simp: objects_def list_all_length)
    show ?thesis
    proof (cases "transitioned (s ! i) c")
      case True
      have "objects (s[i := c])" using s c(2) 2(1) by (auto simp: objects_def list_all_length nth_list_update)
      with True 2 c e d show ?thesis by (simp add: merge_condition_def has_condition_transitioned_eq)
    next
      case False
      with 2 s e d show ?thesis by (simp add: merge_condition_def has_condition_transitioned_eq)
    qed
  qed
qed

text \<open>C33: Merging conditions takes every new condition that is new or has changed in anything but
  its transition time, keeps the object's condition where nothing else has changed, and keeps
  the object's conditions of other types.\<close>

theorem merge_conditions_spec:
  assumes "objects old" and "objects new" and "list_all2 typed ts new" and "distinct ts"
  shows "\<exists>merged. foldR merge_condition old new = Inr merged \<and> objects merged
    \<and> (\<forall>t. condition_of t merged = (case condition_of t new of
         None \<Rightarrow> condition_of t old
       | Some n \<Rightarrow> (case condition_of t old of None \<Rightarrow> Some n | Some c \<Rightarrow> Some (if transitioned c n then n else c))))"
  using assms
proof (induction new arbitrary: old ts)
  case (Cons n new)
  from Cons.prems(3) obtain t ts' where ts: "ts = t # ts'" "typed t n" "list_all2 typed ts' new"
    by (auto simp: list_all2_Cons2)
  from merge_condition_spec [OF Cons.prems(1) ts(2)] Cons.prems(2) obtain s where
    s: "merge_condition old n = Inr s" "objects s" and
    f: "\<forall>t'. condition_of t' s = (if t' = t then (case condition_of t old of
          None \<Rightarrow> Some n | Some c \<Rightarrow> Some (if transitioned c n then n else c)) else condition_of t' old)"
    by (auto simp del: wf_py.simps)
  from Cons.IH [OF s(2) _ ts(3)] Cons.prems(2,4) ts(1) obtain merged where
    merged: "foldR merge_condition s new = Inr merged" "objects merged" and
    g: "\<forall>t. condition_of t merged = (case condition_of t new of
         None \<Rightarrow> condition_of t s
       | Some n \<Rightarrow> (case condition_of t s of None \<Rightarrow> Some n | Some c \<Rightarrow> Some (if transitioned c n then n else c)))"
    by (auto simp del: wf_py.simps)
  have fresh: "condition_of t new = None"
  proof -
    have "condition_of t new = None" if "list_all2 typed us new" "t \<notin> set us" for us
      using that by (induction us new rule: list_all2_induct) (auto simp: typed_of_type)
    then show ?thesis using ts(1,3) Cons.prems(4) by simp
  qed
  have "condition_of t' merged = (case condition_of t' (n # new) of
         None \<Rightarrow> condition_of t' old
       | Some n \<Rightarrow> (case condition_of t' old of None \<Rightarrow> Some n | Some c \<Rightarrow> Some (if transitioned c n then n else c)))" for t'
  proof (cases "t' = t")
    case True
    with f g fresh show ?thesis by (simp add: typed_of_type [OF ts(2)] split: option.split)
  next
    case False
    then have "condition_of t' s = condition_of t' old" using f by simp
    with False g show ?thesis by (simp add: typed_of_type [OF ts(2)] split: option.split)
  qed
  with s merged show ?case by (intro exI [of _ merged]) simp
qed simp

theorem merge_conditions_spec_witness:
  "\<exists>merged. foldR merge_condition
      [PDict [(''type'', PStr ''A''), (''status'', PStr ''True''), (''lastTransitionTime'', PStr ''t0'')]]
      [PDict [(''type'', PStr ''A''), (''status'', PStr ''True''), (''lastTransitionTime'', PStr ''t1'')],
       PDict [(''type'', PStr ''B''), (''status'', PStr ''False'')]] = Inr merged
    \<and> condition_of ''A'' merged
       = Some (PDict [(''type'', PStr ''A''), (''status'', PStr ''True''), (''lastTransitionTime'', PStr ''t0'')])
    \<and> condition_of ''B'' merged = Some (PDict [(''type'', PStr ''B''), (''status'', PStr ''False'')])"
proof -
  let ?old = "[PDict [(''type'', PStr ''A''), (''status'', PStr ''True''), (''lastTransitionTime'', PStr ''t0'')]]"
  let ?new = "[PDict [(''type'', PStr ''A''), (''status'', PStr ''True''), (''lastTransitionTime'', PStr ''t1'')],
       PDict [(''type'', PStr ''B''), (''status'', PStr ''False'')]]"
  from merge_conditions_spec [of ?old ?new "[''A'', ''B'']"] obtain merged where
    m: "foldR merge_condition ?old ?new = Inr merged" and
    c: "\<forall>t. condition_of t merged = (case condition_of t ?new of
         None \<Rightarrow> condition_of t ?old
       | Some n \<Rightarrow> (case condition_of t ?old of None \<Rightarrow> Some n | Some c \<Rightarrow> Some (if transitioned c n then n else c)))"
    by (auto simp: typed_def simp del: foldR.simps)
  show ?thesis
    by (intro exI [of _ merged] conjI m; simp add: c of_type_def dget_def transitioned_def)
qed

section \<open>Writing the same status twice\<close>

lemma py_mem_self: "list_all wf_py xs \<Longrightarrow> x \<in> set xs \<Longrightarrow> py_mem x xs"
  by (auto simp: py_mem_def list_ex_iff list_all_iff intro: py_eq_refl)

lemma dget_patched:
  assumes "distinct (map fst p)" "(k, v) \<in> set p"
  shows "dget (patched t p) k = (if v = PNone then PNone else merge_patch (dget t k) v)"
  using assms by (simp add: dget_def map_of_patched)

text \<open>The status a merge patch has written contains the patch.\<close>

lemma patched_contains: "wf_py p \<Longrightarrow> p = PDict d \<Longrightarrow> dict_is_subset rl (merge_patch t p) p = Inr True"
proof (induction p arbitrary: t d rule: measure_induct_rule [of size])
  case (less p)
  let ?t = "case t of PDict t \<Rightarrow> t | _ \<Rightarrow> []"
  have mp: "merge_patch t p = PDict (patched ?t d)"
    by (simp add: less.prems(2) merge_patch.simps(1) patched_def)
  have dist: "distinct (map fst d)" using less.prems by simp
  have "dict_is_subset rl (PDict (patched ?t d)) (PDict d) = Inr True"
    unfolding dict_is_subset.simps [of rl "PDict (patched ?t d)" "PDict d"] py_items_def pyval.case bindR.simps
  proof (rule allR_True, clarify)
    fix k v assume kv: "(k, v) \<in> set d"
    have wf: "wf_py v" using less.prems kv by (auto simp: list_all_iff)
    have get: "py_get (PDict (patched ?t d)) k PNone = Inr (if v = PNone then PNone else merge_patch (dget ?t k) v)"
      using dget_patched [OF dist kv, of ?t] by (simp add: py_get_def dget_def)
    show "bindR (py_get (PDict (patched ?t d)) k PNone) (\<lambda>w. case w of
           PDict _ \<Rightarrow> dict_is_subset rl w v
         | PList xs \<Rightarrow> (if rl \<and> k \<noteq> ''conditions'' then Inr (py_eq w v) else list_is_subset xs v)
         | PTuple xs \<Rightarrow> list_is_subset xs v
         | _ \<Rightarrow> Inr (py_eq w v)) = Inr True"
    proof (cases v)
      case (PDict e)
      have "size v < size p" using kv less.prems(2) by (auto intro: size_dict_value)
      from less.IH [OF this wf PDict, of "dget ?t k"] PDict get show ?thesis
        by (simp add: merge_patch.simps(1) del: wf_py.simps)
    next
      case (PList xs)
      with get wf py_eq_refl [OF wf] show ?thesis
        by (auto simp: list_is_subset_def py_iter_def list_all_iff intro!: py_mem_self simp del: py_eq.simps)
    next
      case (PTuple xs)
      with get wf show ?thesis
        by (auto simp: list_is_subset_def py_iter_def list_all_iff intro!: py_mem_self)
    qed (use get wf in simp_all)
  qed
  then show ?case using mp by (simp only: less.prems(2))
qed

lemma merge_condition_settled:
  assumes "objects s" "typed t c" "condition_of t s = Some e" "\<not> transitioned e c"
  shows "merge_condition s c = Inr s"
proof -
  from assms(2) obtain d where c: "c = PDict d" "py_getitem c ''type'' = Inr (PStr t)"
    by (auto simp: typed_def py_getitem_def)
  show ?thesis using assms(1)
  proof (cases rule: get_condition_idx_cases [of s t])
    case (2 i)
    from assms(1) 2(1) obtain d' where "s ! i = PDict d'" by (auto simp: objects_def list_all_length)
    with 2 assms c show ?thesis by (simp add: merge_condition_def has_condition_transitioned_eq)
  qed (use assms in simp)
qed

lemma typed_unique: "typed t c \<Longrightarrow> typed u c \<Longrightarrow> t = u"
  by (auto simp: typed_def)

lemma condition_of_member:
  "list_all2 typed ts new \<Longrightarrow> distinct ts \<Longrightarrow> n \<in> set new \<Longrightarrow> typed t n \<Longrightarrow> condition_of t new = Some n"
proof (induction ts new rule: list_all2_induct)
  case (Cons u us c cs)
  then show ?case
  proof (cases "n = c")
    case False
    then have "n \<in> set cs" using Cons.prems by simp
    moreover have "t \<in> set us"
      using \<open>n \<in> set cs\<close> Cons.hyps(2) Cons.prems(3)
      by (auto simp: list_all2_conv_all_nth in_set_conv_nth) (metis typed_unique)
    ultimately show ?thesis using Cons by (auto simp: typed_of_type)
  qed (auto simp: typed_of_type dest: typed_unique)
qed simp

lemma merge_conditions_again:
  assumes "objects old" "objects new" "list_all2 typed ts new" "distinct ts"
    and "foldR merge_condition old new = Inr merged"
  shows "foldR merge_condition merged new = Inr merged \<and> objects merged"
proof -
  from merge_conditions_spec [OF assms(1-4)] assms(5) have obj: "objects merged"
    and c: "\<And>t. condition_of t merged = (case condition_of t new of
         None \<Rightarrow> condition_of t old
       | Some n \<Rightarrow> (case condition_of t old of None \<Rightarrow> Some n | Some c \<Rightarrow> Some (if transitioned c n then n else c)))"
    by auto
  have "merge_condition merged n = Inr merged" if n: "n \<in> set new" for n
  proof -
    from n assms(3) obtain t where t: "typed t n" by (auto simp: list_all2_conv_all_nth in_set_conv_nth)
    have new: "condition_of t new = Some n" by (rule condition_of_member [OF assms(3,4) n t])
    from n assms(2) obtain d where "n = PDict d" "wf_dict d" by (auto simp: objects_def list_all_iff)
    then have "\<not> transitioned n n" by (simp add: transitioned_refl del: wf_py.simps)
    then obtain e where "condition_of t merged = Some e" "\<not> transitioned e n"
      using c [of t] new by (cases "condition_of t old") (auto split: if_splits)
    then show ?thesis by (rule merge_condition_settled [OF obj t])
  qed
  then have "foldR merge_condition merged new = Inr merged"
    by (induction new) auto
  with obj show ?thesis by simp
qed

text \<open>What is assumed of the two lists of conditions, where there are any.\<close>

definition good_conditions :: "dict \<Rightarrow> bool" where
  "good_conditions status \<longleftrightarrow> (\<forall>v. map_of status ''conditions'' = Some v \<longrightarrow> (\<exists>cs. v = PList cs \<and> objects cs))"

definition typed_conditions :: "dict \<Rightarrow> bool" where
  "typed_conditions status \<longleftrightarrow> (\<forall>v. map_of status ''conditions'' = Some v \<longrightarrow>
     (\<exists>cs ts. v = PList cs \<and> objects cs \<and> list_all2 typed ts cs \<and> distinct ts))"

lemma typed_good_conditions: "typed_conditions s \<Longrightarrow> good_conditions s"
  by (fastforce simp: typed_conditions_def good_conditions_def)

definition conditions_of :: "dict \<Rightarrow> pyval list" where
  "conditions_of status = (case map_of status ''conditions'' of Some (PList cs) \<Rightarrow> cs | _ \<Rightarrow> [])"

lemma merge_status_conditions_eq:
  assumes "good_conditions old" "good_conditions new"
  shows "merge_status_conditions (PDict old) new =
    (if conditions_of old = [] \<or> conditions_of new = [] then Inr new
     else bindR (foldR merge_condition (conditions_of old) (conditions_of new)) (\<lambda>merged.
       Inr (AList.update ''conditions'' (PList merged) new)))"
  using assms
  by (auto simp: merge_status_conditions_def py_get_def good_conditions_def conditions_of_def py_iter_def Let_def
      split: option.splits)

lemma update_same: "map_of d k = Some v \<Longrightarrow> distinct (map fst d) \<Longrightarrow> AList.update k v d = d"
proof (induction d)
  case (Cons p d)
  then show ?case by (cases p) (auto simp: image_iff dest: map_of_SomeD)
qed simp

lemma conditions_of_update [simp]: "conditions_of (AList.update ''conditions'' (PList cs) d) = cs"
  by (simp add: conditions_of_def map_of_update)

lemma map_of_conditions_patched:
  assumes "distinct (map fst d)" "map_of d ''conditions'' = Some (PList cs)"
  shows "map_of (patched t d) ''conditions'' = Some (PList cs)"
  using assms by (simp add: map_of_patched)

lemma merge_fresh:
  assumes "objects s" "objects cs" "list_all2 typed ts cs" "distinct ts" "\<forall>t \<in> set ts. condition_of t s = None"
  shows "foldR merge_condition s cs = Inr (s @ cs)"
  using assms
proof (induction cs arbitrary: s ts)
  case (Cons c cs)
  then obtain t ts' where t: "ts = t # ts'" "typed t c" "list_all2 typed ts' cs"
    by (auto simp: list_all2_Cons2)
  from t(2) have "py_getitem c ''type'' = Inr (PStr t)" by (auto simp: typed_def py_getitem_def)
  moreover have "get_condition_idx s (PStr t) = Inr None"
    using Cons.prems(1) by (cases rule: get_condition_idx_cases [of s t]) (use Cons.prems t in auto)
  ultimately have "merge_condition s c = Inr (s @ [c])" by (simp add: merge_condition_def)
  moreover have "foldR merge_condition (s @ [c]) cs = Inr ((s @ [c]) @ cs)"
    using Cons.prems t by (intro Cons.IH [of _ ts']) (auto simp: condition_of_append typed_of_type)
  ultimately show ?case by simp
qed simp

text \<open>Merging into what was written gives the same status again.\<close>

lemma merge_status_again:
  assumes old: "good_conditions old" and new: "typed_conditions new" "wf_dict new"
    and s1: "merge_status_conditions (PDict old) new = Inr s1"
  shows "merge_status_conditions (merge_patch (PDict old) (PDict s1)) new = Inr s1 \<and> wf_dict s1"
proof (cases "conditions_of old = [] \<or> conditions_of new = []")
  case True
  with s1 old typed_good_conditions [OF new(1)] have s1: "s1 = new" by (simp add: merge_status_conditions_eq)
  show ?thesis
  proof (cases "conditions_of new = []")
    case True
    from new(1) True have nc: "map_of new ''conditions'' = None \<or> map_of new ''conditions'' = Some (PList [])"
      by (auto simp: typed_conditions_def conditions_of_def split: option.splits)
    have "good_conditions (patched old new)"
    proof -
      have "distinct (map fst new)" using new(2) by simp
      from map_of_patched [OF this, of old "''conditions''"] nc
      have "map_of (patched old new) ''conditions'' \<in> {map_of old ''conditions'', Some (PList [])}" by auto
      then show ?thesis using old by (auto simp: good_conditions_def)
    qed
    with new s1 typed_good_conditions [OF new(1)] True show ?thesis
      by (simp add: merge_status_conditions_eq del: wf_py.simps)
  next
    case False
    with new(1) obtain cs ts where cs: "map_of new ''conditions'' = Some (PList cs)" "objects cs"
        "list_all2 typed ts cs" "distinct ts"
      by (auto simp: typed_conditions_def conditions_of_def split: option.splits)
    have p: "map_of (patched old new) ''conditions'' = Some (PList cs)"
      using new(2) cs(1) by (intro map_of_conditions_patched) simp_all
    have "foldR merge_condition cs cs = Inr cs"
    proof -
      have "foldR merge_condition [] cs = Inr cs" using merge_fresh [of "[]" cs ts] cs(2-4) by simp
      then show ?thesis using merge_conditions_again [of "[]" cs ts cs] cs by simp
    qed
    moreover have "good_conditions (patched old new)" using p cs(2) by (simp add: good_conditions_def)
    ultimately show ?thesis
      using s1 typed_good_conditions [OF new(1)] p cs(1) new(2)
      by (auto simp: merge_status_conditions_eq conditions_of_def update_same)
  qed
next
  case False
  from new(1) False obtain ts where cs: "map_of new ''conditions'' = Some (PList (conditions_of new))"
      "objects (conditions_of new)" "list_all2 typed ts (conditions_of new)" "distinct ts"
    by (auto simp: typed_conditions_def conditions_of_def split: option.splits)
  from old False have o: "objects (conditions_of old)"
    by (auto simp: good_conditions_def conditions_of_def split: option.splits)
  from s1 False old typed_good_conditions [OF new(1)] obtain merged where
    merged: "foldR merge_condition (conditions_of old) (conditions_of new) = Inr merged"
      "s1 = AList.update ''conditions'' (PList merged) new"
    by (auto simp: merge_status_conditions_eq bindR_eq_Inr)
  note again = merge_conditions_again [OF o cs(2-4) merged(1)]
  have ne: "merged \<noteq> []"
  proof
    assume "merged = []"
    with merge_conditions_spec [OF o cs(2-4)] merged(1) have *: "\<And>t. condition_of t (conditions_of new) = None"
      by (auto split: option.splits) (metis not_None_eq option.exhaust)
    from False cs(3) obtain c cs' t where "conditions_of new = c # cs'" "typed t c"
      by (cases "conditions_of new") (auto simp: list_all2_Cons2)
    with * [of t] show False by (simp add: typed_of_type)
  qed
  have wf: "wf_dict s1"
  proof -
    have "wf_py (PList merged)" using again by (auto simp: objects_def list_all_iff simp del: wf_py.simps(3))
    then show ?thesis unfolding merged(2) by (rule wf_dict_update [OF new(2)])
  qed
  have p: "map_of (patched old s1) ''conditions'' = Some (PList merged)"
    using wf by (intro map_of_conditions_patched) (simp_all add: merged(2) map_of_update)
  have "good_conditions (patched old s1)" using p again by (simp add: good_conditions_def)
  moreover have "conditions_of (patched old s1) = merged" using p by (simp add: conditions_of_def)
  ultimately show ?thesis
    using again ne False wf merged(2) typed_good_conditions [OF new(1)]
    by (simp add: merge_status_conditions_eq del: wf_py.simps)
qed

text \<open>C7: Writing a status is idempotent: when the server has applied the merge patch of the module,
  running the module again with the same parameters sends nothing and reports no change.\<close>

theorem status_written_once:
  assumes "good_conditions old" and "typed_conditions (os_status self)" and "wf_dict (os_status self)"
    and "merge_status_conditions (PDict old) (os_status self) = Inr s1"
    and "map_of instance' ''status'' = Some (merge_patch (PDict old) (PDict s1))"
  shows "patch_status W api self instance' h = (Inr [(''result'', PDict instance'), (''changed'', PBool False)], h)"
proof (cases "os_status self = []")
  case False
  from merge_status_again [OF assms(1-4)] have again:
    "merge_status_conditions (merge_patch (PDict old) (PDict s1)) (os_status self) = Inr s1" "wf_dict s1" by auto
  have "object_contains (os_replace_lists self) (merge_patch (PDict old) (PDict s1)) s1 = Inr True"
    unfolding object_contains_def by (rule patched_contains [OF again(2) refl])
  with False again(1) assms(5) show ?thesis
    by (simp add: patch_status_def run_bind run_simps py_getitem_def)
qed (simp add: patch_status_def run_simps)

theorem status_written_once_witness:
  "\<forall>W api h. \<exists>s1. merge_status_conditions (PDict [(''phase'', PStr ''New'')])
       [(''phase'', PStr ''Up''), (''conditions'', PList [PDict [(''type'', PStr ''A''), (''status'', PStr ''True'')]])] = Inr s1
     \<and> patch_status W api \<lparr>os_kind = PNone, os_api_version = PNone, os_name = PNone, os_namespace = PNone,
          os_replace_status = False, os_replace_lists = True,
          os_status = [(''phase'', PStr ''Up''), (''conditions'', PList [PDict [(''type'', PStr ''A''), (''status'', PStr ''True'')]])]\<rparr>
        [(''status'', merge_patch (PDict [(''phase'', PStr ''New'')]) (PDict s1))] h
      = (Inr [(''result'', PDict [(''status'', merge_patch (PDict [(''phase'', PStr ''New'')]) (PDict s1))]),
           (''changed'', PBool False)], h)"
  by (intro allI, rule exI, rule conjI, rule trans [OF merge_status_conditions_eq], simp add: good_conditions_def,
      simp add: good_conditions_def del: wf_py.simps, simp, simp add: conditions_of_def,
      rule status_written_once [of "[(''phase'', PStr ''New'')]"])
    (simp_all add: good_conditions_def typed_conditions_def typed_def merge_status_conditions_eq conditions_of_def
      list_all2_Cons2)

section \<open>A status that changes kind\<close>

text \<open>A status field that is an object in the cluster and anything else in the new status makes
  the module fail with an \<open>AttributeError\<close> before anything is sent.\<close>

theorem object_field_replaced_crashes:
  assumes "map_of old k = Some (PDict d)" and "\<And>e. v \<noteq> PDict e" and "k \<noteq> ''conditions''"
    and "good_conditions old" and "os_status self = [(k, v)]" and "map_of instance' ''status'' = Some (PDict old)"
  shows "patch_status W api self instance' h = (Inl AttributeError, h)"
proof -
  have "good_conditions [(k, v)]" "conditions_of [(k, v)] = []"
    using assms(3) by (simp_all add: good_conditions_def conditions_of_def)
  then have merge: "merge_status_conditions (PDict old) [(k, v)] = Inr [(k, v)]"
    using assms(4) by (simp add: merge_status_conditions_eq)
  have "py_items v = Inl AttributeError" using assms(2) by (cases v) (auto simp: py_items_def)
  then have "dict_is_subset rl (PDict d) v = Inl AttributeError" for rl
    by (simp add: dict_is_subset.simps [of rl "PDict d" v])
  moreover have "py_items (PDict [(k, v)]) = Inr [(k, v)]" by (simp add: py_items_def)
  ultimately have "dict_is_subset rl (PDict old) (PDict [(k, v)]) = Inl AttributeError" for rl
    using assms(1) by (simp add: dict_is_subset.simps [of rl "PDict old" "PDict [(k, v)]"] py_get_def)
  with merge assms(5,6) show ?thesis
    by (simp add: patch_status_def run_bind run_simps py_getitem_def object_contains_def)
qed

theorem object_field_replaced_crashes_witness:
  "\<forall>W api h. patch_status W api \<lparr>os_kind = PNone, os_api_version = PNone, os_name = PNone, os_namespace = PNone,
      os_replace_status = False, os_replace_lists = False, os_status = [(''detail'', PStr ''ok'')]\<rparr>
     [(''status'', PDict [(''detail'', PDict [])])] h = (Inl AttributeError, h)"
  by (intro allI, rule object_field_replaced_crashes [of "[(''detail'', PDict [])]" "''detail''" "[]" "PStr ''ok''"])
    (simp_all add: good_conditions_def)

end
