(* ===== verification/K8sAuth.thy ===== *)
theory K8sAuth
  imports PyBytes
begin

text \<open>
  How a module finds its credentials and its API client (\<open>plugins/module_utils/args_common.py\<close>
  and the first half of \<open>k8s/client.py\<close>): the authentication options from the module's
  parameters, the keyword arguments or the environment, the configuration built from them,
  the impersonation headers, and the pool of clients keyed by a digest of the configuration.

  The environment is the function \<open>getenv\<close>. What the \<open>kubernetes\<close> package does when it
  loads a configuration is the record \<open>kube\<close>; a configuration object is the dictionary of
  its attributes.
\<close>

section \<open>The options\<close>

definition AUTH_PROXY_HEADERS_SPEC :: "(string \<times> string option) list" where
  "AUTH_PROXY_HEADERS_SPEC = [(''proxy_basic_auth'', Some ''str''), (''basic_auth'', Some ''str''),
     (''user_agent'', Some ''str'')]"

text \<open>The type of each option (the only part of the specification the code reads).\<close>

definition AUTH_ARG_SPEC :: "(string \<times> string option) list" where
  "AUTH_ARG_SPEC = [(''kubeconfig'', Some ''raw''), (''context'', None), (''host'', None),
     (''api_key'', None), (''username'', None), (''password'', None), (''validate_certs'', Some ''bool''),
     (''ca_cert'', Some ''path''), (''client_cert'', Some ''path''), (''client_key'', Some ''path''),
     (''proxy'', Some ''str''), (''no_proxy'', Some ''str''), (''proxy_headers'', Some ''dict''),
     (''persist_config'', Some ''bool''), (''impersonate_user'', None), (''impersonate_groups'', Some ''list'')]"

definition AUTH_ARG_MAP :: "(string \<times> string) list" where
  "AUTH_ARG_MAP = [(''kubeconfig'', ''kubeconfig''), (''context'', ''context''), (''host'', ''host''),
     (''api_key'', ''api_key''), (''username'', ''username''), (''password'', ''password''),
     (''verify_ssl'', ''validate_certs''), (''ssl_ca_cert'', ''ca_cert''), (''cert_file'', ''client_cert''),
     (''key_file'', ''client_key''), (''proxy'', ''proxy''), (''no_proxy'', ''no_proxy''),
     (''proxy_headers'', ''proxy_headers''), (''persist_config'', ''persist_config'')]"

definition list_dict_str :: "pyval \<Rightarrow> pyval res" where
  "list_dict_str value = (case value of PList _ \<Rightarrow> Inr value | PDict _ \<Rightarrow> Inr value | PStr _ \<Rightarrow> Inr value
     | _ \<Rightarrow> Inl TypeError)"

definition py_upper :: "string \<Rightarrow> string" where
  "py_upper s = map (\<lambda>c. if is_lower_ascii c then char_of (code c - 32) else c) s"

definition env_bool :: "string \<Rightarrow> pyval" where
  "env_bool v = PBool (py_lower v \<notin> {''0'', ''false'', ''no''})"

text \<open>\<open>os.getenv(a) or os.getenv(b)\<close>: an empty first variable does not count, an empty second does.\<close>

definition getenv_or :: "(string \<Rightarrow> string option) \<Rightarrow> string \<Rightarrow> string \<Rightarrow> string option" where
  "getenv_or getenv a b = (case getenv a of
      Some v \<Rightarrow> (if v \<noteq> [] then Some v else getenv b) | None \<Rightarrow> getenv b)"

definition proxy_headers_env :: "(string \<Rightarrow> string option) \<Rightarrow> dict" where
  "proxy_headers_env getenv = concat (map (\<lambda>(key, ty).
     (case getenv (''K8S_AUTH_PROXY_HEADERS_'' @ py_upper key) of
        None \<Rightarrow> []
      | Some v \<Rightarrow> [(key, if ty = Some ''bool'' then env_bool v else PStr v)])) AUTH_PROXY_HEADERS_SPEC)"

text \<open>
  The value of one option; \<open>params\<close> is \<open>None\<close> when there is no module. The test
  \<open>proxy_headers is not {}\<close> compares identities and is always true, so the headers are set
  even when no variable is.
\<close>

definition auth_option ::
    "(string \<Rightarrow> string option) \<Rightarrow> dict option \<Rightarrow> dict \<Rightarrow> string \<Rightarrow> string \<Rightarrow> pyval option" where
  "auth_option getenv params kwargs true_name arg_name =
     (if params \<noteq> None \<and> dget (the params) arg_name \<noteq> PNone then Some (dget (the params) arg_name)
      else if dget kwargs arg_name \<noteq> PNone then Some (dget kwargs arg_name)
      else if dget kwargs true_name \<noteq> PNone then Some (dget kwargs true_name)
      else if arg_name = ''proxy_headers'' then Some (PDict (proxy_headers_env getenv))
      else (case getenv_or getenv (''K8S_AUTH_'' @ py_upper arg_name) (''K8S_AUTH_'' @ py_upper true_name) of
          None \<Rightarrow> None
        | Some v \<Rightarrow> Some (if map_of AUTH_ARG_SPEC arg_name = Some (Some ''bool'') then env_bool v else PStr v)))"

definition create_auth_spec :: "(string \<Rightarrow> string option) \<Rightarrow> dict option \<Rightarrow> dict \<Rightarrow> dict" where
  "create_auth_spec getenv params kwargs = concat (map (\<lambda>(true_name, arg_name).
     (case auth_option getenv params kwargs true_name arg_name of
        None \<Rightarrow> [] | Some v \<Rightarrow> [(true_name, v)])) AUTH_ARG_MAP)"

definition create_headers :: "(string \<Rightarrow> string option) \<Rightarrow> dict option \<Rightarrow> dict \<Rightarrow> dict" where
  "create_headers getenv params kwargs = concat (map (\<lambda>(arg_name, header_name).
     (let v = (if params \<noteq> None \<and> dget (the params) arg_name \<noteq> PNone then dget (the params) arg_name
          else if dget kwargs arg_name \<noteq> PNone then dget kwargs arg_name
          else (case getenv (''K8S_AUTH_'' @ py_upper arg_name) of
              None \<Rightarrow> PNone
            | Some s \<Rightarrow> (if map_of AUTH_ARG_SPEC arg_name = Some (Some ''list'')
                then PList (map PStr (filter (\<lambda>x. x \<noteq> []) (split_on (CHR '','') s))) else PStr s)))
      in if truthy v then [(header_name, v)] else []))
     [(''impersonate_user'', ''Impersonate-User''), (''impersonate_groups'', ''Impersonate-Group'')])"

section \<open>The configuration\<close>

text \<open>
  \<open>load_kube_config\<close> with its file, \<open>load_kube_config_from_dict\<close>, \<open>load_incluster_config\<close>
  (\<open>None\<close> when it raises \<open>ConfigException\<close>), the default configuration after each of
  them, and \<open>urllib3.util.make_headers\<close>.
\<close>

datatype loaded = NotLoaded | FromFile pyval dict | FromDict dict dict | InCluster

record kube =
  k_load :: "loaded \<Rightarrow> unit res"
  k_config_exception :: "exn \<Rightarrow> bool"
  k_default :: "loaded \<Rightarrow> dict"
  k_make_headers :: "dict \<Rightarrow> pyval res"

definition load_config :: "kube \<Rightarrow> dict \<Rightarrow> loaded res" where
  "load_config K auth =
     (let kubeconfig = dget auth ''kubeconfig'';
          optional_arg = [(''context'', dget auth ''context''), (''persist_config'', dget auth ''persist_config'')];
          load = (\<lambda>l. bindR (k_load K l) (\<lambda>_. Inr l))
      in if truthy kubeconfig then
           (case kubeconfig of
              PStr _ \<Rightarrow> load (FromFile kubeconfig optional_arg)
            | PDict d \<Rightarrow> load (FromDict d optional_arg)
            | _ \<Rightarrow> Inr NotLoaded)
         else load (FromFile PNone optional_arg))"

definition auth_set :: "dict \<Rightarrow> string list \<Rightarrow> bool" where
  "auth_set auth names = list_all (\<lambda>name. truthy (dget auth name)) names"

definition rstrip_slash :: "pyval \<Rightarrow> pyval res" where
  "rstrip_slash v = (case v of PStr s \<Rightarrow> Inr (PStr (rstrip_by (\<lambda>c. c = CHR ''/'') s)) | _ \<Rightarrow> Inl AttributeError)"

definition override_config :: "kube \<Rightarrow> dict \<Rightarrow> dict \<Rightarrow> dict res" where
  "override_config K auth configuration = foldR (\<lambda>conf (key, v).
     (if key \<in> fst ` set AUTH_ARG_MAP \<and> v \<noteq> PNone then
        (if key = ''api_key'' then
           Inr (AList.update key (PDict [(''authorization'', PStr (''Bearer '' @ py_str v))]) conf)
         else if key = ''proxy_headers'' then
           bindR (py_items v) (\<lambda>d. bindR (k_make_headers K d) (\<lambda>headers. Inr (AList.update key headers conf)))
         else Inr (AList.update key v conf))
      else Inr conf)) configuration auth"

text \<open>The result is the configuration and the authentication options with the host normalised.\<close>

definition create_configuration :: "kube \<Rightarrow> dict \<Rightarrow> (dict \<times> dict) res" where
  "create_configuration K auth =
     bindR (if auth_set auth [''host''] then
              bindR (rstrip_slash (dget auth ''host'')) (\<lambda>h. Inr (AList.update ''host'' h auth)) else Inr auth) (\<lambda>auth.
     bindR (if auth_set auth [''username'', ''password'', ''host''] \<or> auth_set auth [''api_key'', ''host'']
               \<or> auth_set auth [''cert_file'', ''key_file'', ''host''] then Inr NotLoaded
            else if auth_set auth [''kubeconfig''] \<or> auth_set auth [''context''] then load_config K auth
            else (case k_load K InCluster of
                Inr _ \<Rightarrow> Inr InCluster
              | Inl e \<Rightarrow> (if k_config_exception K e then load_config K auth else Inl e))) (\<lambda>l.
     bindR (override_config K auth (k_default K l)) (\<lambda>configuration. Inr (configuration, auth))))"

section \<open>The pool of clients\<close>

text \<open>
  \<open>_configuration_digest\<close>: the digest of the text of the options, one after the other, and
  of the headers. \<open>read\<close> is the content of a file (or why it cannot be read).
\<close>

definition digest_part :: "(string \<Rightarrow> string res) \<Rightarrow> dict \<Rightarrow> string \<Rightarrow> string res" where
  "digest_part read configuration k =
     (let v = dget configuration k
      in if truthy v \<and> k \<in> {''ssl_ca_cert'', ''cert_file'', ''key_file''} then
           bindR (read (py_str v)) (\<lambda>content. Inr (utf8 content))
         else Inr (utf8 (py_str v)))"

definition configuration_digest ::
    "(string \<Rightarrow> string) \<Rightarrow> (string \<Rightarrow> string res) \<Rightarrow> dict \<Rightarrow> dict \<Rightarrow> string res" where
  "configuration_digest sha256 read configuration kwargs =
     bindR (mapR (digest_part read configuration) (map fst AUTH_ARG_MAP)) (\<lambda>parts.
       Inr (sha256 (concat parts @ concat (map (\<lambda>(k, v). utf8 (k @ '': '' @ py_str v)) kwargs))))"

text \<open>The keyword arguments that take part in the digest: lists of groups are sorted and joined.\<close>

definition hashable_kwargs :: "dict \<Rightarrow> dict" where
  "hashable_kwargs kwargs = map (\<lambda>(k, v). (k, case v of
     PList xs \<Rightarrow> PStr (py_join '','' (sort (map py_str xs))) | _ \<Rightarrow> v)) kwargs"

text \<open>\<open>create_api_client\<close> under \<open>@cache\<close>: \<open>new_client\<close> builds a new client.\<close>

definition create_api_client ::
    "(string \<Rightarrow> string) \<Rightarrow> (string \<Rightarrow> string res) \<Rightarrow> (dict \<Rightarrow> dict \<Rightarrow> 'c)
      \<Rightarrow> (string \<times> 'c) list \<Rightarrow> dict \<Rightarrow> dict \<Rightarrow> ('c \<times> (string \<times> 'c) list) res" where
  "create_api_client sha256 read new_client pool configuration headers =
     bindR (configuration_digest sha256 read configuration (hashable_kwargs headers)) (\<lambda>digest.
       Inr (case map_of pool digest of
          Some client \<Rightarrow> (client, pool)
        | None \<Rightarrow> (new_client configuration headers, AList.update digest (new_client configuration headers) pool)))"

section \<open>Facts\<close>

text \<open>
  An option never comes from the environment when the module has it, and an option of the
  result is one of the table.
\<close>

lemma create_auth_spec_keys: "(k, v) \<in> set (create_auth_spec getenv params kwargs) \<Longrightarrow> k \<in> fst ` set AUTH_ARG_MAP"
  by (force simp: create_auth_spec_def split: option.splits)

lemma AUTH_ARG_MAP_distinct: "distinct (map fst AUTH_ARG_MAP)"
  by (simp add: AUTH_ARG_MAP_def)

lemma map_of_create_auth_spec:
  "map_of (create_auth_spec getenv params kwargs) k = (case map_of AUTH_ARG_MAP k of
     None \<Rightarrow> None | Some arg_name \<Rightarrow> auth_option getenv params kwargs k arg_name)"
  unfolding create_auth_spec_def
  by (rule map_of_concat_keyed [OF AUTH_ARG_MAP_distinct]) simp

lemma AUTH_ARG_MAP_keys:
  "map fst AUTH_ARG_MAP = [''kubeconfig'', ''context'', ''host'', ''api_key''] @ [''username'', ''password'']
     @ [''verify_ssl'', ''ssl_ca_cert'', ''cert_file'', ''key_file'', ''proxy'', ''no_proxy'', ''proxy_headers'', ''persist_config'']"
  by (simp add: AUTH_ARG_MAP_def)

lemma mapR_append: "mapR f (xs @ ys) = bindR (mapR f xs) (\<lambda>us. bindR (mapR f ys) (\<lambda>vs. Inr (us @ vs)))"
proof (induction xs)
  case Nil
  show ?case by (cases "mapR f ys") simp_all
next
  case (Cons x xs)
  then show ?case by (cases "f x"; cases "mapR f xs"; cases "mapR f ys") simp_all
qed

lemma digest_part_text:
  "k \<notin> {''ssl_ca_cert'', ''cert_file'', ''key_file''} \<Longrightarrow> digest_part read conf k = Inr (utf8 (py_str (dget conf k)))"
  by (simp add: digest_part_def Let_def)

lemma digest_part_other:
  "dget conf k = dget conf' k \<Longrightarrow> digest_part read conf k = digest_part read conf' k"
  by (simp add: digest_part_def)

text \<open>The digest sees the name and the password only as one text.\<close>

lemma digest_joined:
  assumes "\<And>k. k \<notin> {''username'', ''password''} \<Longrightarrow> dget conf' k = dget conf k"
    and "py_str (dget conf' ''username'') @ py_str (dget conf' ''password'')
      = py_str (dget conf ''username'') @ py_str (dget conf ''password'')"
  shows "configuration_digest sha256 read conf' kwargs = configuration_digest sha256 read conf kwargs"
proof -
  have same: "mapR (digest_part read conf') ks = mapR (digest_part read conf) ks"
    if "\<forall>k \<in> set ks. k \<notin> {''username'', ''password''}" for ks
    using that assms(1) by (intro mapR_cong) (auto intro!: digest_part_other)
  have two: "mapR (digest_part read c) [''username'', ''password'']
    = Inr [utf8 (py_str (dget c ''username'')), utf8 (py_str (dget c ''password''))]" for c
    by (simp add: digest_part_text)
  have joined: "utf8 (py_str (dget conf' ''username'')) @ utf8 (py_str (dget conf' ''password''))
      = utf8 (py_str (dget conf ''username'')) @ utf8 (py_str (dget conf ''password''))"
    using arg_cong [OF assms(2), of utf8] by simp
  have joined': "utf8 (py_str (dget conf' ''username'')) @ utf8 (py_str (dget conf' ''password'')) @ r
      = utf8 (py_str (dget conf ''username'')) @ utf8 (py_str (dget conf ''password'')) @ r" for r
    using arg_cong [OF joined, of "\<lambda>s. s @ r"] by simp
  define before where "before = [''kubeconfig'', ''context'', ''host'', ''api_key'']"
  define after where "after = [''verify_ssl'', ''ssl_ca_cert'', ''cert_file'', ''key_file'', ''proxy'',
    ''no_proxy'', ''proxy_headers'', ''persist_config'']"
  have keys: "map fst AUTH_ARG_MAP = before @ [''username'', ''password''] @ after"
    by (simp add: AUTH_ARG_MAP_keys before_def after_def)
  have pre: "mapR (digest_part read conf') before = mapR (digest_part read conf) before"
    and post: "mapR (digest_part read conf') after = mapR (digest_part read conf) after"
    by (rule same; simp add: before_def after_def)+
  show ?thesis
    unfolding configuration_digest_def keys mapR_append two pre post
    by (cases "mapR (digest_part read conf) before"; cases "mapR (digest_part read conf) after")
      (simp_all add: joined')
qed

text \<open>A client built for the configuration is reused for the same configuration, whatever
  the pool holds, and the pool grows by at most one entry.\<close>

theorem client_reused:
  assumes "create_api_client sha256 read new_client pool configuration headers = Inr (client, pool')"
  shows "create_api_client sha256 read new_client pool' configuration headers = Inr (client, pool')
    \<and> length pool' \<le> Suc (length pool)"
proof -
  obtain d where d: "configuration_digest sha256 read configuration (hashable_kwargs headers) = Inr d"
    using assms by (auto simp: create_api_client_def bindR_eq_Inr)
  have "length (AList.update d c pool) \<le> Suc (length pool)" for c by (induction pool) auto
  then show ?thesis
    using assms d by (auto simp: create_api_client_def map_of_update split: option.splits)
qed

definition some_user :: "string \<Rightarrow> string \<Rightarrow> dict" where
  "some_user user password = [(''username'', PStr user), (''password'', PStr password)]"

lemma first_client:
  "create_api_client id (\<lambda>_. Inr []) (\<lambda>c h. c) [] (some_user ''bobx'' ''y'') []
   = Inr (some_user ''bobx'' ''y'',
       [(concat (replicate 4 ''None'') @ ''bobxy'' @ concat (replicate 8 ''None''), some_user ''bobx'' ''y'')])"
  by (simp add: create_api_client_def configuration_digest_def AUTH_ARG_MAP_def digest_part_def some_user_def
      dget_def utf8_def hashable_kwargs_def numeral_eq_Suc)

theorem client_reused_witness:
  "\<exists>pool. create_api_client id (\<lambda>_. Inr []) (\<lambda>c h. c) pool (some_user ''bobx'' ''y'') []
     = Inr (some_user ''bobx'' ''y'', pool)"
  using client_reused [OF first_client] by blast

text \<open>The pool confuses users: two configurations that differ only in where the user name
  ends and the password begins have one digest, so the second user gets the first user's
  client, credentials included.\<close>

theorem client_of_another_user:
  assumes "dget conf ''username'' = PStr (u @ v)" "dget conf ''password'' = PStr p"
    and "conf' = AList.update ''username'' (PStr u) (AList.update ''password'' (PStr (v @ p)) conf)"
    and "create_api_client sha256 read new_client pool conf headers = Inr (client, pool')"
  shows "create_api_client sha256 read new_client pool' conf' headers = Inr (client, pool')"
proof -
  have "configuration_digest sha256 read conf' (hashable_kwargs headers)
      = configuration_digest sha256 read conf (hashable_kwargs headers)"
    using assms(1-3) by (intro digest_joined) (auto simp: dget_def map_of_update)
  with assms(4) show ?thesis
    by (auto simp: create_api_client_def bindR_eq_Inr map_of_update split: option.splits)
qed

theorem client_of_another_user_witness:
  "\<exists>pool. create_api_client id (\<lambda>_. Inr []) (\<lambda>c h. c) pool (some_user ''bob'' ''xy'') []
     = Inr (some_user ''bobx'' ''y'', pool)"
  using client_of_another_user [OF _ _ _ first_client, of "''bob''" "''x''" "''y''" "some_user ''bob'' ''xy''"]
  by (auto simp: some_user_def)

end
