(* ===== verification/OsdkEvent.thy ===== *)
theory OsdkEvent
  imports OsdkStatus K8sAuth K8sWaiter
begin

text \<open>
  The other modules of the operator SDK collection: \<open>k8s_event\<close>, which creates an event or
  counts a repetition of it, the payload of \<open>osdk_metric\<close>, the check of
  \<open>requeue_after\<close>, and the client configuration of \<open>api_utils\<close>. The time is given by its
  two texts, \<open>str(now)\<close> and \<open>now.isoformat()\<close>.
\<close>

section \<open>The client\<close>

definition OSDK_AUTH_ARG_MAP :: "(string \<times> string) list" where
  "OSDK_AUTH_ARG_MAP = [(''kubeconfig'', ''kubeconfig''), (''context'', ''context''), (''host'', ''host''),
     (''api_key'', ''api_key''), (''username'', ''username''), (''password'', ''password''),
     (''verify_ssl'', ''validate_certs''), (''ssl_ca_cert'', ''ca_cert''), (''cert_file'', ''client_cert''),
     (''key_file'', ''client_key''), (''proxy'', ''proxy''), (''persist_config'', ''persist_config'')]"

text \<open>The options whose type is \<open>bool\<close> in the specification.\<close>

definition osdk_bool_args :: "string list" where
  "osdk_bool_args = [''validate_certs'', ''persist_config'']"

definition osdk_auth_option :: "(string \<Rightarrow> string option) \<Rightarrow> dict \<Rightarrow> string \<Rightarrow> string \<Rightarrow> pyval option" where
  "osdk_auth_option getenv params true_name arg_name =
     (if truthy (dget params arg_name) then Some (dget params arg_name)
      else (case getenv_or getenv (''K8S_AUTH_'' @ py_upper arg_name) (''K8S_AUTH_'' @ py_upper true_name) of
          None \<Rightarrow> None
        | Some v \<Rightarrow> Some (if arg_name \<in> set osdk_bool_args then env_bool v else PStr v)))"

definition osdk_auth :: "(string \<Rightarrow> string option) \<Rightarrow> dict \<Rightarrow> dict" where
  "osdk_auth getenv params = concat (map (\<lambda>(true_name, arg_name).
     (case osdk_auth_option getenv params true_name arg_name of
        None \<Rightarrow> [] | Some v \<Rightarrow> [(true_name, v)])) OSDK_AUTH_ARG_MAP)"

definition load_or_fail :: "kube \<Rightarrow> (exn \<Rightarrow> string) \<Rightarrow> loaded \<Rightarrow> loaded res" where
  "load_or_fail K text l = (case k_load K l of
      Inr _ \<Rightarrow> Inr l
    | Inl e \<Rightarrow> (if is_Exception e
        then Inl (FailJson [(''msg'', PStr ''Failed to load kubeconfig due to %s''), (''error'', PStr (text e))]) else Inl e))"

definition osdk_load :: "kube \<Rightarrow> (exn \<Rightarrow> string) \<Rightarrow> dict \<Rightarrow> loaded res" where
  "osdk_load K text auth =
     (let from_file = FromFile (dget auth ''kubeconfig'') [(''context'', dget auth ''context''), (''persist_config'', dget auth ''persist_config'')]
      in if auth_set auth [''username'', ''password'', ''host''] \<or> auth_set auth [''api_key'', ''host''] then Inr NotLoaded
         else if auth_set auth [''kubeconfig''] \<or> auth_set auth [''context''] then load_or_fail K text from_file
         else (case k_load K InCluster of
             Inr _ \<Rightarrow> Inr InCluster
           | Inl e \<Rightarrow> (if k_config_exception K e then load_or_fail K text from_file else Inl e)))"

definition osdk_override :: "dict \<Rightarrow> dict \<Rightarrow> dict" where
  "osdk_override auth configuration = foldl (\<lambda>conf (key, v).
     (if key \<in> fst ` set OSDK_AUTH_ARG_MAP \<and> v \<noteq> PNone then
        AList.update key (if key = ''api_key'' then PDict [(''authorization'', PStr (''Bearer '' @ py_str v))] else v) conf
      else conf)) configuration auth"

definition osdk_configuration :: "kube \<Rightarrow> (exn \<Rightarrow> string) \<Rightarrow> (string \<Rightarrow> string option) \<Rightarrow> dict \<Rightarrow> dict res" where
  "osdk_configuration K text getenv params =
     bindR (osdk_load K text (osdk_auth getenv params)) (\<lambda>l.
       Inr (osdk_override (osdk_auth getenv params) (k_default K l)))"

section \<open>Metrics and requeueing\<close>

definition metric_payload :: "dict \<Rightarrow> dict" where
  "metric_payload params = [(''name'', dget params ''name''), (''description'', dget params ''description'')]
     @ concat (map (\<lambda>k. if truthy (dget params k) then [(k, dget params k)] else [])
         [''counter'', ''gauge'', ''histogram'', ''summary''])"

definition post_metric :: "world \<Rightarrow> dict \<Rightarrow> unit io" where
  "post_metric W params =
     bindI (ext W ''requests.post'' [dget params ''address'', PDict (metric_payload params)]) (\<lambda>response.
     bindI (liftI (w_field W response ''status_code'')) (\<lambda>status_code.
     if \<not> py_eq status_code (PInt 200) then
       bindI (liftI (w_field W response ''text'')) (\<lambda>text.
         raiseI (FailJson [(''msg'', text), (''status_code'', status_code)]))
     else raiseI (ExitJson [(''changed'', PBool True)])))"

definition requeue_after :: "string \<Rightarrow> unit res" where
  "requeue_after time =
     (if \<not> list_all (\<lambda>c. c \<in> set ''hms0123456789'') (chop_newline time) then Inl (FailJson [(''msg'', PStr ''invalid time input'')])
      else Inl (ExitJson [(''period'', PStr time)]))"

section \<open>Events\<close>

definition unable :: "world \<Rightarrow> 'a io \<Rightarrow> 'a io" where
  "unable W m = tryI m (\<lambda>e. if is_Exception e then
     raiseI (FailJson [(''msg'', PStr (''Unable to create event: '' @ exn_text W e))]) else raiseI e)"

definition base_event :: "dict \<Rightarrow> pyval \<Rightarrow> dict" where
  "base_event params name = [(''kind'', PStr ''Event''), (''eventTime'', PNone), (''message'', dget params ''message''),
     (''metadata'', PDict [(''name'', name), (''namespace'', dget params ''namespace'')]),
     (''reason'', dget params ''reason''), (''reportingComponent'', dget params ''reportingComponent''),
     (''source'', dget params ''source''), (''type'', dget params ''type'')]"

definition create_event :: "world \<Rightarrow> resource \<Rightarrow> dict \<Rightarrow> pyval \<Rightarrow> dict io" where
  "create_event W v1_events event namespace =
     unable W (bindI (call W Create v1_events (PDict event) [(''namespace'', namespace)]) (\<lambda>created.
       bindI (liftI (to_dict created)) (\<lambda>d. retI [(''result'', PDict d), (''changed'', PBool True)])))"

text \<open>\<open>try: get except NotFoundError: pass\<close>.\<close>

definition get_or_none :: "pyval io \<Rightarrow> pyval option io" where
  "get_or_none m = tryI (bindI m (\<lambda>r. retI (Some r))) (\<lambda>e. if e = NotFoundError then retI None else raiseI e)"

definition prior_occurrences :: "world \<Rightarrow> pyval \<Rightarrow> string \<Rightarrow> pyval option \<Rightarrow> (pyval \<times> pyval) res" where
  "prior_occurrences W reason now prior_event = (case prior_event of
      None \<Rightarrow> Inr (PInt 1, PStr now)
    | Some e \<Rightarrow> bindR (w_item W e ''reason'') (\<lambda>r.
        if py_eq r reason then
          bindR (w_item W e ''count'') (\<lambda>occ. case num_of occ of
              None \<Rightarrow> Inl TypeError
            | Some n \<Rightarrow> bindR (w_item W e ''firstTimestamp'') (\<lambda>first. Inr (PInt (n + 1), first)))
        else Inr (PInt 1, PStr now)))"

text \<open>The object the event is about, with its uid and version where it can be read.\<close>

definition involved_object :: "world \<Rightarrow> pyval \<Rightarrow> pyval io" where
  "involved_object W involved = (case involved of
      PDict obj \<Rightarrow>
        (if obj = [] then retI involved
         else
           bindI (liftI (py_getitem involved ''kind'')) (\<lambda>kind.
           bindI (osdk_find_resource W kind (case map_of obj ''apiVersion'' of Some v \<Rightarrow> v | None \<Rightarrow> PStr ''v1'')) (\<lambda>found.
           case found of
             None \<Rightarrow> retI involved
           | Some resource \<Rightarrow>
               bindI (liftI (py_getitem involved ''name'')) (\<lambda>name.
               bindI (liftI (py_getitem involved ''namespace'')) (\<lambda>namespace.
               bindI (get_or_none (call W Get resource PNone [(''name'', name), (''namespace'', namespace)])) (\<lambda>r.
               case r of
                 None \<Rightarrow> retI involved
               | Some api_object \<Rightarrow>
                   bindI (liftI (bindR (w_item W api_object ''metadata'') (\<lambda>m. w_item W m ''uid''))) (\<lambda>uid.
                   bindI (liftI (bindR (w_item W api_object ''metadata'') (\<lambda>m. w_item W m ''resourceVersion''))) (\<lambda>version.
                     retI (PDict (AList.update ''resourceVersion'' version (AList.update ''uid'' uid obj)))))))))))
    | v \<Rightarrow> if truthy v then raiseI TypeError else retI v)"

definition counted_event :: "dict \<Rightarrow> pyval \<Rightarrow> pyval \<Rightarrow> pyval \<Rightarrow> string \<Rightarrow> dict" where
  "counted_event event occ first involved now = dict_update event
     [(''count'', occ), (''firstTimestamp'', first), (''involvedObject'', involved), (''lastTimestamp'', PStr now)]"

definition execute_event :: "world \<Rightarrow> string \<Rightarrow> string \<Rightarrow> dict \<Rightarrow> dict io" where
  "execute_event W now_str now_iso params =
     bindI (liftI (if truthy (dget params ''appendTimestamp'') then
         (case dget params ''name'' of PStr n \<Rightarrow> Inr (PStr (n @ ''.'' @ now_str)) | _ \<Rightarrow> Inl TypeError)
       else Inr (dget params ''name''))) (\<lambda>name.
     let namespace = dget params ''namespace''; event = base_event params name in
     bindI (osdk_find_resource W (PStr ''Event'') (PStr ''v1'')) (\<lambda>resource.
     bindI (find W None (PStr ''v1'') ''kind'' (PStr ''Event'')) (\<lambda>v1_events.
     if truthy (dget params ''appendTimestamp'') then create_event W v1_events event namespace
     else
       bindI (case resource of
           None \<Rightarrow> raiseI AttributeError
         | Some r \<Rightarrow> get_or_none (call W Get r PNone [(''name'', name), (''namespace'', namespace)])) (\<lambda>prior_event.
       bindI (liftI (prior_occurrences W (dget params ''reason'') now_iso prior_event)) (\<lambda>(occ, first).
       bindI (involved_object W (dget params ''involvedObject'')) (\<lambda>involved.
       let event = counted_event event occ first involved now_iso in
       bindI (get_or_none (call W Get v1_events PNone [(''name'', name), (''namespace'', namespace)])) (\<lambda>instance'.
       case instance' of
         None \<Rightarrow> create_event W v1_events event namespace
       | Some i \<Rightarrow>
           unable W (bindI (call W Patch v1_events (PDict event) [(''namespace'', namespace)]) (\<lambda>result.
             bindI (liftI (to_dict result)) (\<lambda>result_dict.
             bindI (liftI (to_dict i)) (\<lambda>before.
               retI [(''result'', PDict result_dict), (''changed'', PBool (\<not> py_eq (PDict before) (PDict result_dict)))])))))))))))"

section \<open>Properties\<close>

text \<open>A repetition of an event (same name, namespace and reason) is one patch: its count is one
  more than the count of the event in the cluster, its first time stamp stays and its last
  time stamp is now.\<close>

theorem repetition_is_counted:
  assumes prior: "\<And>h r k. w_server W h Get r PNone k = Inr (PDict e)"
    and patched: "\<And>h r b k. w_server W h Patch r b k = Inr (PDict p)"
    and found: "\<And>h q a t v. w_find W h q a t v = Inr ev"
    and items: "\<And>k. w_item W (PDict e) k = Inr (dget e k)"
    and e: "dget e ''reason'' = PStr reason" "dget e ''count'' = PInt n"
    and params: "dget params ''reason'' = PStr reason" "dget params ''involvedObject'' = PNone"
      "dget params ''appendTimestamp'' = PNone"
  shows "\<exists>result es body. execute_event W s now params h
      = (Inr result, h @ es @ [Call Patch ev (PDict body) [(''namespace'', dget params ''namespace'')]])
    \<and> list_all (\<lambda>x. \<not> mutating x) es
    \<and> dget body ''count'' = PInt (n + 1) \<and> dget body ''firstTimestamp'' = dget e ''firstTimestamp''
    \<and> dget body ''lastTimestamp'' = PStr now \<and> dget body ''message'' = dget params ''message''"
proof -
  let ?body = "counted_event (base_event params (dget params ''name'')) (PInt (n + 1)) (dget e ''firstTimestamp'') PNone now"
  let ?get = "Call Get ev PNone [(''name'', dget params ''name''), (''namespace'', dget params ''namespace'')]"
  let ?find = "Find None (PStr ''v1'') ''kind'' (PStr ''Event'')"
  have "execute_event W s now params h = (Inr [(''result'', PDict p), (''changed'', PBool (\<not> py_eq (PDict e) (PDict p)))],
      h @ [?find, ?find, ?get, ?get] @ [Call Patch ev (PDict ?body) [(''namespace'', dget params ''namespace'')]])"
    using assms
    by (simp add: execute_event_def osdk_find_resource_def run_bind run_try run_simps get_or_none_def
        prior_occurrences_def involved_object_def unable_def to_dict_def Let_def del: py_eq.simps(1))
  moreover have "dget ?body ''count'' = PInt (n + 1)" "dget ?body ''firstTimestamp'' = dget e ''firstTimestamp''"
    "dget ?body ''lastTimestamp'' = PStr now" "dget ?body ''message'' = dget params ''message''"
    by (simp_all add: counted_event_def base_event_def dict_update_def dget_def)
  ultimately show ?thesis
    by (intro exI conjI) (assumption | simp)+
qed

lemma override_other:
  "\<forall>v. (k, v) \<notin> set auth \<Longrightarrow> map_of (osdk_override auth conf) k = map_of conf k"
  unfolding osdk_override_def
proof (induction auth arbitrary: conf)
  case (Cons p auth)
  then show ?case by (cases p) (auto simp: map_of_update)
qed simp

text \<open>The parameter \<open>validate_certs: false\<close> of the SDK modules has no effect: it counts as not
  given, so without a variable in the environment the configuration keeps its default.\<close>

theorem validate_certs_false_ignored:
  assumes "dget params ''validate_certs'' = PBool False"
    and "getenv ''K8S_AUTH_VALIDATE_CERTS'' = None" and "getenv ''K8S_AUTH_VERIFY_SSL'' = None"
    and "osdk_configuration K text getenv params = Inr configuration"
  shows "\<exists>l. map_of configuration ''verify_ssl'' = map_of (k_default K l) ''verify_ssl''"
proof -
  have "py_upper ''validate_certs'' = ''VALIDATE_CERTS''" "py_upper ''verify_ssl'' = ''VERIFY_SSL''" by code_simp+
  then have "osdk_auth_option getenv params ''verify_ssl'' ''validate_certs'' = None"
    using assms(1-3) by (simp add: osdk_auth_option_def getenv_or_def)
  then have none: "(''verify_ssl'', v) \<notin> set (osdk_auth getenv params)" for v
    by (auto simp: osdk_auth_def OSDK_AUTH_ARG_MAP_def split: option.splits)
  from assms(4) obtain l where "configuration = osdk_override (osdk_auth getenv params) (k_default K l)"
    unfolding osdk_configuration_def bindR_eq_Inr by blast
  then show ?thesis using override_other [of "''verify_ssl''" "osdk_auth getenv params"] none by blast
qed

theorem validate_certs_false_ignored_witness:
  "\<exists>configuration. osdk_configuration
      \<lparr>k_load = \<lambda>l. Inr (), k_config_exception = \<lambda>e. False, k_default = \<lambda>l. [(''verify_ssl'', PBool True)],
        k_make_headers = \<lambda>d. Inr PNone\<rparr> (\<lambda>e. []) (\<lambda>name. None) [(''validate_certs'', PBool False)] = Inr configuration
    \<and> map_of configuration ''verify_ssl'' = Some (PBool True)"
proof -
  let ?K = "\<lparr>k_load = \<lambda>l. Inr (), k_config_exception = \<lambda>e. False, k_default = \<lambda>l. [(''verify_ssl'', PBool True)],
        k_make_headers = \<lambda>d. Inr PNone\<rparr>"
  have "\<exists>l. osdk_load ?K f auth = Inr l" for f auth
    unfolding osdk_load_def Let_def load_or_fail_def by simp
  then obtain l where "osdk_load ?K (\<lambda>e. []) (osdk_auth (\<lambda>name. None) [(''validate_certs'', PBool False)]) = Inr l"
    by blast
  then obtain c where c: "osdk_configuration ?K (\<lambda>e. []) (\<lambda>name. None) [(''validate_certs'', PBool False)] = Inr c"
    unfolding osdk_configuration_def by (metis bindR.simps(2))
  have "\<exists>l. map_of c ''verify_ssl'' = map_of (k_default ?K l) ''verify_ssl''"
    by (rule validate_certs_false_ignored [OF _ _ _ c]) (simp_all add: dget_def)
  with c show ?thesis by auto
qed

theorem repetition_is_counted_witness:
  "\<exists>result es. execute_event
      (sample_world (\<lambda>a b. b) (\<lambda>h v r b k. Inr (PDict [(''reason'', PStr ''R''), (''count'', PInt 4)]))
        \<lparr>w_find := \<lambda>h q a t v. Inr (sample_resource ''Event'')\<rparr>) [] ''now''
      [(''reason'', PStr ''R'')] [] = (Inr result, es)
    \<and> (\<exists>body. last es = Call Patch (sample_resource ''Event'') (PDict body) [(''namespace'', PNone)]
         \<and> dget body ''count'' = PInt 5)"
proof -
  let ?e = "[(''reason'', PStr ''R''), (''count'', PInt 4)]"
  let ?W = "sample_world (\<lambda>a b. b) (\<lambda>h v r b k. Inr (PDict ?e)) \<lparr>w_find := \<lambda>h q a t v. Inr (sample_resource ''Event'')\<rparr>"
  have "\<exists>result es body. execute_event ?W [] ''now'' [(''reason'', PStr ''R'')] []
      = (Inr result, [] @ es @ [Call Patch (sample_resource ''Event'') (PDict body) [(''namespace'', dget [(''reason'', PStr ''R'')] ''namespace'')]])
    \<and> list_all (\<lambda>x. \<not> mutating x) es
    \<and> dget body ''count'' = PInt (4 + 1) \<and> dget body ''firstTimestamp'' = dget ?e ''firstTimestamp''
    \<and> dget body ''lastTimestamp'' = PStr ''now'' \<and> dget body ''message'' = dget [(''reason'', PStr ''R'')] ''message''"
    by (rule repetition_is_counted [where p = ?e and e = ?e and reason = "''R''" and n = 4])
      (simp_all add: dget_def sample_world_def)
  then show ?thesis by (elim exE conjE) (intro exI conjI, assumption, simp_all add: dget_def)
qed

end
